(* ===== verification/Gologix_Prelude.thy ===== *)
theory Gologix_Prelude
  imports Main "HOL-Library.Word"
begin

text \<open>
  Shared vocabulary of the development: machine words and byte strings, Go errors as values,
  the little-endian encoding of \<^verbatim>\<open>encoding/binary\<close>, full reads from a byte
  stream (\<^verbatim>\<open>io.ReadFull\<close>), and the functions of the packages
  \<^verbatim>\<open>strings\<close> and \<^verbatim>\<open>strconv\<close> the sources call.

  A Go \<^verbatim>\<open>string\<close> is an Isabelle \<^typ>\<open>string\<close> (its bytes), a
  \<^verbatim>\<open>[]byte\<close> is a list of 8-bit words.
\<close>

unbundle bit_operations_syntax

named_theorems wire_simps \<open>evaluation rules for encoders and decoders\<close>
named_theorems go_defs \<open>definitions of the Go standard library functions\<close>

type_synonym u8 = "8 word"
type_synonym u16 = "16 word"
type_synonym u32 = "32 word"
type_synonym u64 = "64 word"
type_synonym bytes = "u8 list"

lemma and_push_bit_one: "((x :: 'a::len word) AND push_bit n 1 \<noteq> 0) = bit x n"
proof -
  have "x AND push_bit n 1 = (if bit x n then push_bit n 1 else 0)"
    by (rule bit_word_eqI) (auto simp: bit_simps)
  moreover have "bit x n \<Longrightarrow> push_bit n (1 :: 'a word) \<noteq> 0"
    by (auto simp: bit_eq_iff bit_simps dest: bit_imp_le_length)
  ultimately show ?thesis by auto
qed

section \<open>Errors as values\<close>

text \<open>
  The two sentinel errors of package \<^verbatim>\<open>io\<close> and that of the client, the error for the status
  of a reply, a plain error, an error that
  wraps another with \<^verbatim>\<open>%w\<close> (so that \<^verbatim>\<open>errors.Is\<close> sees through
  it), and a run-time panic, which is not an error a caller can handle.
\<close>

datatype gerror =
    EOF
  | UnexpectedEOF
  | AutoReconnectInProgress
  | CIPStatusError "8 word"
  | Msg string
  | Wrapped string gerror
  | Panic string

type_synonym 'a res = "gerror + 'a"

fun errors_Is :: "gerror \<Rightarrow> gerror \<Rightarrow> bool" where
  "errors_Is (Wrapped m e) t = (Wrapped m e = t \<or> errors_Is e t)"
| "errors_Is e t = (e = t)"

fun is_panic :: "gerror \<Rightarrow> bool" where
  "is_panic (Panic m) = True"
| "is_panic (Wrapped m e) = is_panic e"
| "is_panic e = False"

text \<open>\<^verbatim>\<open>errors.As\<close> with a \<^verbatim>\<open>CIPStatusError\<close> as its target.\<close>

fun is_CIPStatusError :: "gerror \<Rightarrow> bool" where
  "is_CIPStatusError (CIPStatusError s) = True"
| "is_CIPStatusError (Wrapped m e) = is_CIPStatusError e"
| "is_CIPStatusError e = False"

text \<open>\<^verbatim>\<open>d[k] = v\<close> for a map kept as the list of its entries.\<close>

definition dict_put :: "string \<Rightarrow> 'v \<Rightarrow> (string \<times> 'v) list \<Rightarrow> (string \<times> 'v) list" where
  "dict_put k v d = filter (\<lambda>e. fst e \<noteq> k) d @ [(k, v)]"

text \<open>
  \<open>attempt m r f\<close> is the sequence \<^verbatim>\<open>x, err := r; if err != nil { return fmt.Errorf("m %w", err) }\<close>
  followed by \<open>f x\<close>.  A panic is not wrapped: it unwinds as it is.
\<close>

definition wrap :: "string \<Rightarrow> gerror \<Rightarrow> gerror" where
  "wrap m e = (if is_panic e then e else Wrapped m e)"

definition attempt :: "string \<Rightarrow> 'a res \<Rightarrow> ('a \<Rightarrow> 'b res) \<Rightarrow> 'b res" where
  "attempt m r f = (case r of Inl e \<Rightarrow> Inl (wrap m e) | Inr x \<Rightarrow> f x)"

text \<open>\<open>flat m r f\<close> is the same with \<^verbatim>\<open>%v\<close>: the cause is only printed.\<close>

definition flat :: "string \<Rightarrow> 'a res \<Rightarrow> ('a \<Rightarrow> 'b res) \<Rightarrow> 'b res" where
  "flat m r f = (case r of Inl e \<Rightarrow> Inl (if is_panic e then e else Msg m) | Inr x \<Rightarrow> f x)"

text \<open>\<open>andthen r f\<close> hands an error on unchanged: \<^verbatim>\<open>if err != nil { return err }\<close>.\<close>

definition andthen :: "'a res \<Rightarrow> ('a \<Rightarrow> 'b res) \<Rightarrow> 'b res" where
  "andthen r f = (case r of Inl e \<Rightarrow> Inl e | Inr x \<Rightarrow> f x)"

lemma attempt_simps [simp]:
  "attempt m (Inr x) f = f x"
  "attempt m (Inl e) f = Inl (wrap m e)"
  by (simp_all add: attempt_def)

lemma flat_simps [simp]:
  "flat m (Inr x) f = f x"
  "flat m (Inl e) f = Inl (if is_panic e then e else Msg m)"
  by (simp_all add: flat_def)

lemma andthen_simps [simp]:
  "andthen (Inr x) f = f x"
  "andthen (Inl e) f = Inl e"
  by (simp_all add: andthen_def)

lemma attempt_Inr_iff: "attempt m r f = Inr y \<longleftrightarrow> (\<exists>x. r = Inr x \<and> f x = Inr y)"
  by (cases r) simp_all

lemma flat_Inr_iff: "flat m r f = Inr y \<longleftrightarrow> (\<exists>x. r = Inr x \<and> f x = Inr y)"
  by (cases r) simp_all

lemma andthen_Inr_iff: "andthen r f = Inr y \<longleftrightarrow> (\<exists>x. r = Inr x \<and> f x = Inr y)"
  by (cases r) simp_all

lemmas res_Inr_iffs = attempt_Inr_iff flat_Inr_iff andthen_Inr_iff

lemma is_panic_wrap [simp]: "is_panic (wrap m e) = is_panic e"
  by (simp add: wrap_def)

lemma attempt_cong [fundef_cong]:
  "r = r' \<Longrightarrow> (\<And>x. r' = Inr x \<Longrightarrow> f x = g x) \<Longrightarrow> attempt m r f = attempt m r' g"
  by (cases r') auto

lemma flat_cong [fundef_cong]:
  "r = r' \<Longrightarrow> (\<And>x. r' = Inr x \<Longrightarrow> f x = g x) \<Longrightarrow> flat m r f = flat m r' g"
  by (cases r') auto

lemma andthen_cong [fundef_cong]:
  "r = r' \<Longrightarrow> (\<And>x. r' = Inr x \<Longrightarrow> f x = g x) \<Longrightarrow> andthen r f = andthen r' g"
  by (cases r') auto

section \<open>Little-endian encoding\<close>

fun le_bytes :: "nat \<Rightarrow> nat \<Rightarrow> bytes" where
  "le_bytes 0 k = []"
| "le_bytes (Suc n) k = of_nat (k mod 256) # le_bytes n (k div 256)"

fun le_nat :: "bytes \<Rightarrow> nat" where
  "le_nat [] = 0"
| "le_nat (b # bs) = unat b + 256 * le_nat bs"

lemma length_le_bytes [simp]: "length (le_bytes n k) = n"
  by (induction n arbitrary: k) auto

lemma unat_byte_lt [simp]: "unat (b :: u8) < 256"
  using unsigned_less[of b, where ?'a = nat] by simp

lemma unat_of_nat_byte [simp]: "unat (of_nat (k mod 256) :: u8) = k mod 256"
  by (simp add: unat_of_nat take_bit_eq_mod)

lemma le_nat_le_bytes [simp]: "le_nat (le_bytes n k) = k mod 256 ^ n"
proof (induction n arbitrary: k)
  case 0
  then show ?case by simp
next
  case (Suc n)
  then show ?case by (simp add: mod_mult2_eq)
qed

lemma le_nat_bound: "le_nat bs < 256 ^ length bs"
proof (induction bs)
  case Nil
  then show ?case by simp
next
  case (Cons b bs)
  have "unat b + 256 * le_nat bs < 256 + 256 * le_nat bs" by simp
  also have "\<dots> = 256 * Suc (le_nat bs)" by simp
  also have "\<dots> \<le> 256 * 256 ^ length bs" using Cons by (simp only: mult_le_mono2 Suc_leI)
  finally show ?case by simp
qed

lemma le_bytes_le_nat: "length bs = n \<Longrightarrow> le_bytes n (le_nat bs) = bs"
proof (induction bs arbitrary: n)
  case Nil
  then show ?case by simp
next
  case (Cons b bs)
  have "(unat b + 256 * le_nat bs) mod 256 = unat b"
    by (simp add: mod_less)
  moreover have "(unat b + 256 * le_nat bs) div 256 = le_nat bs"
    by (simp add: div_less)
  ultimately show ?case using Cons by auto
qed

text \<open>\<^verbatim>\<open>binary.Write\<close> and the \<^verbatim>\<open>PutUint\<close> functions on the unsigned types.\<close>

definition put8 :: "u8 \<Rightarrow> bytes" where "put8 w = [w]"
definition put16 :: "u16 \<Rightarrow> bytes" where "put16 w = le_bytes 2 (unat w)"
definition put32 :: "u32 \<Rightarrow> bytes" where "put32 w = le_bytes 4 (unat w)"
definition put64 :: "u64 \<Rightarrow> bytes" where "put64 w = le_bytes 8 (unat w)"

definition get16 :: "bytes \<Rightarrow> u16" where "get16 bs = of_nat (le_nat bs)"
definition get32 :: "bytes \<Rightarrow> u32" where "get32 bs = of_nat (le_nat bs)"
definition get64 :: "bytes \<Rightarrow> u64" where "get64 bs = of_nat (le_nat bs)"

lemma length_put [simp]:
  "length (put8 a) = 1" "length (put16 b) = 2" "length (put32 c) = 4" "length (put64 d) = 8"
  by (simp_all add: put8_def put16_def put32_def put64_def)

lemma get_put [simp]:
  "get16 (put16 b) = b" "get32 (put32 c) = c" "get64 (put64 d) = d"
proof -
  have "unat b < 256 ^ 2" using unsigned_less[of b, where ?'a = nat] by simp
  then show "get16 (put16 b) = b" by (simp add: get16_def put16_def)
  have "unat c < 256 ^ 4" using unsigned_less[of c, where ?'a = nat] by simp
  then show "get32 (put32 c) = c" by (simp add: get32_def put32_def)
  have "unat d < 256 ^ 8" using unsigned_less[of d, where ?'a = nat] by simp
  then show "get64 (put64 d) = d" by (simp add: get64_def put64_def)
qed

lemma put_get:
  "length bs = 2 \<Longrightarrow> put16 (get16 bs) = bs"
  "length bs = 4 \<Longrightarrow> put32 (get32 bs) = bs"
  "length bs = 8 \<Longrightarrow> put64 (get64 bs) = bs"
  using le_nat_bound[of bs]
  by (auto simp: put16_def get16_def put32_def get32_def put64_def get64_def
      unat_of_nat take_bit_eq_mod le_bytes_le_nat)

lemma le_bytes_eval:
  "le_bytes 2 k = [of_nat (k mod 256), of_nat (k div 256 mod 256)]"
  "le_bytes 4 k = [of_nat (k mod 256), of_nat (k div 256 mod 256),
     of_nat (k div 65536 mod 256), of_nat (k div 16777216 mod 256)]"
proof -
  have "le_bytes (Suc (Suc 0)) k = [of_nat (k mod 256), of_nat (k div 256 mod 256)]" by simp
  then show "le_bytes 2 k = [of_nat (k mod 256), of_nat (k div 256 mod 256)]"
    by (simp only: numeral_2_eq_2)
  have "le_bytes (Suc (Suc (Suc (Suc 0)))) k = [of_nat (k mod 256), of_nat (k div 256 mod 256),
      of_nat (k div 256 div 256 mod 256), of_nat (k div 256 div 256 div 256 mod 256)]" by simp
  moreover have "(4::nat) = Suc (Suc (Suc (Suc 0)))" by simp
  ultimately show "le_bytes 4 k = [of_nat (k mod 256), of_nat (k div 256 mod 256),
     of_nat (k div 65536 mod 256), of_nat (k div 16777216 mod 256)]"
    by (simp only: flip: div_mult2_eq) simp
qed

lemma put_eval [wire_simps]:
  "put8 w = [w]"
  "put16 b = [of_nat (unat b mod 256), of_nat (unat b div 256 mod 256)]"
  "put32 c = [of_nat (unat c mod 256), of_nat (unat c div 256 mod 256),
     of_nat (unat c div 65536 mod 256), of_nat (unat c div 16777216 mod 256)]"
  by (simp_all only: put8_def put16_def put32_def le_bytes_eval)

section \<open>Reading from a byte stream\<close>

text \<open>
  \<^verbatim>\<open>io.ReadFull\<close> on an in-memory reader: nothing left is \<^const>\<open>EOF\<close>, too little
  left is \<^const>\<open>UnexpectedEOF\<close>, an empty request always succeeds.
\<close>

definition read_full :: "nat \<Rightarrow> bytes \<Rightarrow> (bytes \<times> bytes) res" where
  "read_full n bs =
     (if n = 0 then Inr ([], bs)
      else if bs = [] then Inl EOF
      else if length bs < n then Inl UnexpectedEOF
      else Inr (take n bs, drop n bs))"

definition rd8 :: "bytes \<Rightarrow> (u8 \<times> bytes) res" where
  "rd8 bs = andthen (read_full 1 bs) (\<lambda>(x, r). Inr (hd x, r))"

definition rd16 :: "bytes \<Rightarrow> (u16 \<times> bytes) res" where
  "rd16 bs = andthen (read_full 2 bs) (\<lambda>(x, r). Inr (get16 x, r))"

definition rd32 :: "bytes \<Rightarrow> (u32 \<times> bytes) res" where
  "rd32 bs = andthen (read_full 4 bs) (\<lambda>(x, r). Inr (get32 x, r))"

definition rd64 :: "bytes \<Rightarrow> (u64 \<times> bytes) res" where
  "rd64 bs = andthen (read_full 8 bs) (\<lambda>(x, r). Inr (get64 x, r))"

lemma read_full_append [simp]: "length x = n \<Longrightarrow> read_full n (x @ r) = Inr (x, r)"
  by (auto simp: read_full_def)

lemma read_full_Inr:
  "read_full n bs = Inr (x, r) \<Longrightarrow> bs = x @ r \<and> length x = n"
  by (auto simp: read_full_def split: if_splits)

lemma read_full_short: "bs \<noteq> [] \<Longrightarrow> length bs < n \<Longrightarrow> read_full n bs = Inl UnexpectedEOF"
  by (auto simp: read_full_def)

lemma read_full_Nil [simp]: "0 < n \<Longrightarrow> read_full n [] = Inl EOF"
  by (simp add: read_full_def)

lemma read_full_Inl:
  "read_full n bs = Inl e \<Longrightarrow> length bs < n \<and> (e = EOF \<and> bs = [] \<or> e = UnexpectedEOF \<and> bs \<noteq> [])"
  by (auto simp: read_full_def split: if_splits)

lemma rd_put [simp]:
  "rd8 (a # r) = Inr (a, r)"
  "rd8 (put8 a @ r) = Inr (a, r)"
  "rd16 (put16 b @ r) = Inr (b, r)"
  "rd32 (put32 c @ r) = Inr (c, r)"
  "rd64 (put64 d @ r) = Inr (d, r)"
proof -
  have "read_full 1 ([a] @ r) = Inr ([a], r)" by (rule read_full_append) simp
  then show "rd8 (a # r) = Inr (a, r)" "rd8 (put8 a @ r) = Inr (a, r)"
    by (simp_all add: rd8_def put8_def)
qed (simp_all add: rd16_def rd32_def rd64_def)

lemma rd_Nil [simp]: "rd8 [] = Inl EOF" "rd16 [] = Inl EOF" "rd32 [] = Inl EOF" "rd64 [] = Inl EOF"
  by (simp_all add: rd8_def rd16_def rd32_def rd64_def)

lemma rd_eval [wire_simps]:
  "rd16 (a # b # r) = Inr (get16 [a, b], r)"
  "rd32 (a # b # c # d # r) = Inr (get32 [a, b, c, d], r)"
  using read_full_append[of "[a, b]" 2 r] read_full_append[of "[a, b, c, d]" 4 r]
  by (simp_all add: rd16_def rd32_def)

lemma get_eval [wire_simps]:
  "get16 [a, b] = of_nat (unat a + 256 * unat b)"
  "get32 [a, b, c, d] = of_nat (unat a + 256 * (unat b + 256 * (unat c + 256 * unat d)))"
  by (simp_all add: get16_def get32_def)

section \<open>Go strings\<close>

definition to_bytes :: "string \<Rightarrow> bytes" where
  "to_bytes s = map (\<lambda>c. of_nat (of_char c)) s"

definition of_bytes :: "bytes \<Rightarrow> string" where
  "of_bytes bs = map (\<lambda>b. char_of (unat b)) bs"

lemma length_to_bytes [simp]: "length (to_bytes s) = length s"
  by (simp add: to_bytes_def)

lemma length_of_bytes [simp]: "length (of_bytes bs) = length bs"
  by (simp add: of_bytes_def)

lemma to_bytes_append [simp]: "to_bytes (s @ t) = to_bytes s @ to_bytes t"
  by (simp add: to_bytes_def)

lemma to_bytes_simps [simp]:
  "to_bytes [] = []" "to_bytes (c # s) = of_nat (of_char c) # to_bytes s"
  by (simp_all add: to_bytes_def)

lemma of_char_lt_256: "of_char c < (256 :: nat)"
  using of_char_mod_256[of c] by (metis mod_less_divisor zero_less_numeral)

lemma of_to_bytes [simp]: "of_bytes (to_bytes s) = s"
  by (induction s) (auto simp: of_bytes_def unat_of_nat take_bit_eq_mod of_char_lt_256)

lemma to_of_bytes [simp]: "to_bytes (of_bytes bs) = bs"
  by (induction bs) (auto simp: of_bytes_def to_bytes_def mod_less)

lemma to_bytes_inject [simp]: "to_bytes s = to_bytes t \<longleftrightarrow> s = t"
  by (metis of_to_bytes)

text \<open>\<^verbatim>\<open>strings.Split\<close> on a one-character separator.\<close>

fun strings_split :: "char \<Rightarrow> string \<Rightarrow> string list" where
  "strings_split c [] = [[]]"
| "strings_split c (x # xs) =
     (if x = c then [] # strings_split c xs
      else case strings_split c xs of
        [] \<Rightarrow> [[x]] | p # ps \<Rightarrow> (x # p) # ps)"

fun strings_join :: "char \<Rightarrow> string list \<Rightarrow> string" where
  "strings_join c [] = []"
| "strings_join c [p] = p"
| "strings_join c (p # q # ps) = p @ c # strings_join c (q # ps)"

lemma strings_split_neq_Nil [simp]: "strings_split c s \<noteq> []"
  by (induction s) (auto split: list.splits)

lemma strings_join_split: "strings_join c (strings_split c s) = s"
proof (induction s)
  case Nil
  then show ?case by simp
next
  case (Cons x xs)
  then show ?case
    by (cases "strings_split c xs" rule: remdups_adj.cases) (auto split: list.splits)
qed

lemma strings_split_no_sep: "c \<notin> set s \<Longrightarrow> strings_split c s = [s]"
  by (induction s) auto

lemma strings_split_append: "c \<notin> set p \<Longrightarrow> strings_split c (p @ c # s) = p # strings_split c s"
  by (induction p) auto

lemma strings_split_join:
  "ps \<noteq> [] \<Longrightarrow> \<forall>p\<in>set ps. c \<notin> set p \<Longrightarrow> strings_split c (strings_join c ps) = ps"
  by (induction c ps rule: strings_join.induct)
    (auto simp: strings_split_no_sep strings_split_append)

text \<open>\<^verbatim>\<open>strings.ReplaceAll(s, old, "")\<close>.\<close>

function remove_all :: "string \<Rightarrow> string \<Rightarrow> string" where
  "remove_all old s =
     (if old = [] then s
      else case s of [] \<Rightarrow> []
        | x # xs \<Rightarrow> if take (length old) s = old then remove_all old (drop (length old) s)
                    else x # remove_all old xs)"
  by pat_completeness auto
termination
  by (relation "measure (\<lambda>(old, s). length s)") auto

declare remove_all.simps [simp del]

lemma remove_all_absent:
  "\<forall>c\<in>set old. c \<notin> set s \<Longrightarrow> remove_all old s = s"
proof (induction s)
  case Nil
  then show ?case by (simp add: remove_all.simps)
next
  case (Cons x xs)
  show ?case
  proof (cases "old = []")
    case True
    then show ?thesis by (simp add: remove_all.simps)
  next
    case False
    then obtain o1 os where o: "old = o1 # os" by (cases old) auto
    with Cons.prems have "x \<noteq> o1" by auto
    then have "take (length old) (x # xs) \<noteq> old" using o by simp
    with o Cons show ?thesis
      by (subst remove_all.simps) (auto split: list.splits)
  qed
qed

text \<open>\<^verbatim>\<open>strings.ToLower\<close> on ASCII letters (bytes from \<open>0x80\<close> on are kept).\<close>

definition lower_char :: "char \<Rightarrow> char" where
  "lower_char c = (let n = of_char c :: nat in if 65 \<le> n \<and> n \<le> 90 then char_of (n + 32) else c)"

definition strings_ToLower :: "string \<Rightarrow> string" where
  "strings_ToLower = map lower_char"

text \<open>\<^verbatim>\<open>strings.Index\<close> and \<^verbatim>\<open>strings.LastIndex\<close> of one character.\<close>

fun strings_Index :: "string \<Rightarrow> char \<Rightarrow> nat option" where
  "strings_Index [] c = None"
| "strings_Index (x # xs) c = (if x = c then Some 0 else map_option Suc (strings_Index xs c))"

fun strings_LastIndex :: "string \<Rightarrow> char \<Rightarrow> nat option" where
  "strings_LastIndex [] c = None"
| "strings_LastIndex (x # xs) c =
     (case strings_LastIndex xs c of
        Some i \<Rightarrow> Some (Suc i)
      | None \<Rightarrow> if x = c then Some 0 else None)"

definition has_suffix_char :: "string \<Rightarrow> char \<Rightarrow> bool" where
  "has_suffix_char s c = (s \<noteq> [] \<and> last s = c)"

lemma strings_Index_append: "c \<notin> set p \<Longrightarrow> strings_Index (p @ c # s) c = Some (length p)"
  by (induction p) auto

lemma strings_LastIndex_None: "c \<notin> set s \<Longrightarrow> strings_LastIndex s c = None"
  by (induction s) auto

lemma strings_LastIndex_append:
  "c \<notin> set s \<Longrightarrow> strings_LastIndex (p @ c # s) c = Some (length p)"
  by (induction p) (auto simp: strings_LastIndex_None)

section \<open>Numbers in decimal\<close>

definition is_digit :: "char \<Rightarrow> bool" where
  "is_digit c = (let n = of_char c :: nat in 48 \<le> n \<and> n \<le> 57)"

definition digit_val :: "char \<Rightarrow> nat" where
  "digit_val c = of_char c - 48"

definition digit_char :: "nat \<Rightarrow> char" where
  "digit_char d = char_of (48 + d)"

text \<open>\<^verbatim>\<open>fmt.Sprintf("%d", n)\<close> of an unsigned value.\<close>

fun itoa :: "nat \<Rightarrow> string" where
  "itoa n = (if n < 10 then [digit_char n] else itoa (n div 10) @ [digit_char (n mod 10)])"

declare itoa.simps [simp del]

definition digits_val :: "string \<Rightarrow> nat" where
  "digits_val s = foldl (\<lambda>a c. 10 * a + digit_val c) 0 s"

text \<open>
  \<^verbatim>\<open>strconv.Atoi\<close>: an optional sign, at least one decimal digit, a value in the range
  of a 64-bit \<^verbatim>\<open>int\<close>; everything else is an error.
\<close>

definition atoi :: "string \<Rightarrow> int option" where
  "atoi s =
     (let neg = (s \<noteq> [] \<and> hd s = CHR ''-'');
          ds = (if s \<noteq> [] \<and> (hd s = CHR ''-'' \<or> hd s = CHR ''+'') then tl s else s);
          v = (if neg then - int (digits_val ds) else int (digits_val ds))
      in if ds \<noteq> [] \<and> list_all is_digit ds \<and> - (2 ^ 63) \<le> v \<and> v < 2 ^ 63 then Some v else None)"

lemma digit_char_facts:
  "d < 10 \<Longrightarrow> is_digit (digit_char d)"
  "d < 10 \<Longrightarrow> digit_val (digit_char d) = d"
  by (simp_all add: is_digit_def digit_char_def digit_val_def Let_def)

lemma digits_val_snoc: "digits_val (s @ [c]) = 10 * digits_val s + digit_val c"
  by (simp add: digits_val_def)

lemma itoa_props: "itoa n \<noteq> [] \<and> list_all is_digit (itoa n) \<and> digits_val (itoa n) = n"
proof (induction n rule: itoa.induct)
  case (1 n)
  show ?case
  proof (cases "n < 10")
    case True
    then show ?thesis
      by (simp add: itoa.simps [of n] digit_char_facts digits_val_def)
  next
    case False
    with 1 show ?thesis
      by (simp add: itoa.simps [of n] digit_char_facts digits_val_snoc)
  qed
qed

lemma not_digit_signs [simp]:
  "\<not> is_digit CHR ''-''" "\<not> is_digit CHR ''+''" "\<not> is_digit CHR ''.''" "\<not> is_digit CHR '',''"
  "\<not> is_digit CHR ''[''" "\<not> is_digit CHR '']''"
  by (simp_all add: is_digit_def)

lemma itoa_not_in: "\<not> is_digit c \<Longrightarrow> c \<notin> set (itoa n)"
  using itoa_props[of n] by (auto simp: list_all_iff)

lemma atoi_itoa: "n < 2 ^ 63 \<Longrightarrow> atoi (itoa n) = Some (int n)"
proof -
  assume n: "n < 2 ^ 63"
  have p: "itoa n \<noteq> []" "list_all is_digit (itoa n)" "digits_val (itoa n) = n"
    using itoa_props[of n] by auto
  then have "is_digit (hd (itoa n))" by (cases "itoa n") auto
  then have "hd (itoa n) \<noteq> CHR ''-''" "hd (itoa n) \<noteq> CHR ''+''"
    using not_digit_signs by metis+
  moreover have "int n < 2 ^ 63" using n by (metis of_nat_less_iff of_nat_numeral of_nat_power)
  moreover have "- (2 ^ 63) \<le> int n" by (rule order_trans [of _ 0]) simp_all
  ultimately show ?thesis using p by (simp add: atoi_def)
qed

section \<open>The interface of a wire format\<close>

text \<open>
  Every piece of a packet is written by one function and read back by another that also returns
  the bytes it did not use.  The contract is that reading gives back what was written whatever
  follows; what a client may conclude is proved once here.
\<close>

fun read_n :: "(bytes \<Rightarrow> ('a \<times> bytes) res) \<Rightarrow> nat \<Rightarrow> bytes \<Rightarrow> ('a list \<times> bytes) res" where
  "read_n d 0 bs = Inr ([], bs)"
| "read_n d (Suc n) bs =
     andthen (d bs) (\<lambda>(x, r). andthen (read_n d n r) (\<lambda>(xs, r'). Inr (x # xs, r')))"

locale wire_codec =
  fixes enc :: "'a \<Rightarrow> bytes"
    and dec :: "bytes \<Rightarrow> ('a \<times> bytes) res"
    and valid :: "'a \<Rightarrow> bool"
  assumes dec_enc: "valid x \<Longrightarrow> dec (enc x @ r) = Inr (x, r)"
begin

lemma enc_prefix_free:
  assumes "valid x" "valid y" "enc x @ r = enc y @ s"
  shows "x = y \<and> r = s"
proof -
  have "dec (enc y @ s) = Inr (x, r)" using dec_enc[OF assms(1), of r] by (simp only: assms(3))
  then show ?thesis using dec_enc[OF assms(2), of s] by simp
qed

lemma enc_inj: "valid x \<Longrightarrow> valid y \<Longrightarrow> enc x = enc y \<Longrightarrow> x = y"
  using enc_prefix_free[of x y "[]" "[]"] by simp

lemma dec_whole: "valid x \<Longrightarrow> dec (enc x) = Inr (x, [])"
  using dec_enc[of x "[]"] by simp

lemma read_n_concat:
  "list_all valid xs \<Longrightarrow> read_n dec (length xs) (concat (map enc xs) @ r) = Inr (xs, r)"
  by (induction xs) (auto simp: dec_enc)

end

text \<open>A codec that also announces how long an encoding is (the \<^verbatim>\<open>Len\<close> methods).\<close>

locale sized_codec = wire_codec +
  fixes len :: "'a \<Rightarrow> nat"
  assumes length_enc: "valid x \<Longrightarrow> length (enc x) = len x"
begin

lemma dec_consumes: "valid x \<Longrightarrow> dec (enc x @ s) = Inr (y, r) \<Longrightarrow> length (enc x @ s) = len y + length r"
  by (simp add: dec_enc length_enc)

end

interpretation u8_codec: sized_codec put8 rd8 "\<lambda>_. True" "\<lambda>_. 1"
  by unfold_locales simp_all

interpretation u16_codec: sized_codec put16 rd16 "\<lambda>_. True" "\<lambda>_. 2"
  by unfold_locales simp_all

interpretation u32_codec: sized_codec put32 rd32 "\<lambda>_. True" "\<lambda>_. 4"
  by unfold_locales simp_all

interpretation u64_codec: sized_codec put64 rd64 "\<lambda>_. True" "\<lambda>_. 8"
  by unfold_locales simp_all

end
