(* ===== verification/Logix_Types.thy ===== *)
theory Logix_Types
  imports Gologix_Prelude
begin

text \<open>
  The predefined structures of \<^verbatim>\<open>lgxtypes/\<close>: timers, counters, control structures and
  PID loops, with the \<^verbatim>\<open>Pack\<close> and \<^verbatim>\<open>Unpack\<close> methods of their own.  Each
  packs its flags into one control word, followed by its values.

  \<^verbatim>\<open>Unpack\<close> fills a structure in place and returns how many bytes it took: its model
  returns the error, the count, the structure and the rest of the input.  \<^verbatim>\<open>Pack\<close> writes to
  a buffer that takes everything.  A \<^verbatim>\<open>float32\<close> is its bit pattern.
\<close>

section \<open>Control words\<close>

type_synonym 'a unpacked = "gerror option \<times> nat \<times> 'a \<times> bytes"

definition flag :: "nat \<Rightarrow> bool \<Rightarrow> u32" where
  "flag k b = (if b then push_bit k 1 else 0)"

definition is_set :: "u32 \<Rightarrow> nat \<Rightarrow> bool" where
  "is_set w k = (w AND push_bit k 1 \<noteq> 0)"

section \<open>Timers\<close>

record TIMER =
  tmr_PRE :: u32
  tmr_ACC :: u32
  tmr_EN :: bool
  tmr_TT :: bool
  tmr_DN :: bool
  tmr_FS :: bool
  tmr_LS :: bool
  tmr_OV :: bool
  tmr_ER :: bool

definition tmr_word :: "TIMER \<Rightarrow> u32" where
  "tmr_word t = flag 31 (tmr_EN t) OR flag 30 (tmr_TT t) OR flag 29 (tmr_DN t)"

definition TIMER_Pack :: "TIMER \<Rightarrow> bytes" where
  "TIMER_Pack t = put32 (tmr_word t) @ put32 (tmr_PRE t) @ put32 (tmr_ACC t)"

definition tmr_set_word :: "u32 \<Rightarrow> TIMER \<Rightarrow> TIMER" where
  "tmr_set_word w t = t\<lparr>tmr_EN := is_set w 31, tmr_TT := is_set w 30, tmr_DN := is_set w 29\<rparr>"

definition TIMER_Unpack :: "bytes \<Rightarrow> TIMER \<Rightarrow> TIMER unpacked" where
  "TIMER_Unpack r t =
     (case rd32 r of Inl e \<Rightarrow> (Some e, 0, t, [])
      | Inr (w, r1) \<Rightarrow> let t1 = tmr_set_word w t in
          (case rd32 r1 of Inl e \<Rightarrow> (Some e, 4, t1, [])
           | Inr (x, r2) \<Rightarrow> let t2 = t1\<lparr>tmr_PRE := x\<rparr> in
               (case rd32 r2 of Inl e \<Rightarrow> (Some e, 8, t2, [])
                | Inr (y, r3) \<Rightarrow> (None, 12, t2\<lparr>tmr_ACC := y\<rparr>, r3))))"

section \<open>Counters\<close>

record COUNTER =
  ctr_PRE :: u32
  ctr_ACC :: u32
  ctr_CU :: bool
  ctr_CD :: bool
  ctr_DN :: bool
  ctr_OV :: bool
  ctr_UN :: bool

definition ctr_word :: "COUNTER \<Rightarrow> u32" where
  "ctr_word t = flag 31 (ctr_CU t) OR flag 30 (ctr_CD t) OR flag 29 (ctr_DN t) OR flag 28 (ctr_OV t) OR flag 27 (ctr_UN t)"

definition COUNTER_Pack :: "COUNTER \<Rightarrow> bytes" where
  "COUNTER_Pack t = put32 (ctr_word t) @ put32 (ctr_PRE t) @ put32 (ctr_ACC t)"

definition ctr_set_word :: "u32 \<Rightarrow> COUNTER \<Rightarrow> COUNTER" where
  "ctr_set_word w t = t\<lparr>ctr_CU := is_set w 31, ctr_CD := is_set w 30, ctr_DN := is_set w 29,
     ctr_OV := is_set w 28, ctr_UN := is_set w 27\<rparr>"

definition COUNTER_Unpack :: "bytes \<Rightarrow> COUNTER \<Rightarrow> COUNTER unpacked" where
  "COUNTER_Unpack r t =
     (case rd32 r of Inl e \<Rightarrow> (Some e, 0, t, [])
      | Inr (w, r1) \<Rightarrow> let t1 = ctr_set_word w t in
          (case rd32 r1 of Inl e \<Rightarrow> (Some e, 4, t1, [])
           | Inr (x, r2) \<Rightarrow> let t2 = t1\<lparr>ctr_PRE := x\<rparr> in
               (case rd32 r2 of Inl e \<Rightarrow> (Some e, 8, t2, [])
                | Inr (y, r3) \<Rightarrow> (None, 12, t2\<lparr>ctr_ACC := y\<rparr>, r3))))"

section \<open>Control structures\<close>

record CONTROL =
  ctl_LEN :: u32
  ctl_POS :: u32
  ctl_EN :: bool
  ctl_EU :: bool
  ctl_DN :: bool
  ctl_EM :: bool
  ctl_ER :: bool
  ctl_UL :: bool
  ctl_IN :: bool
  ctl_FD :: bool

definition ctl_word :: "CONTROL \<Rightarrow> u32" where
  "ctl_word t = flag 31 (ctl_EN t) OR flag 30 (ctl_EU t) OR flag 29 (ctl_DN t) OR flag 28 (ctl_EM t) OR flag 27 (ctl_ER t) OR flag 26 (ctl_UL t) OR flag 25 (ctl_IN t) OR flag 24 (ctl_FD t)"

definition CONTROL_Pack :: "CONTROL \<Rightarrow> bytes" where
  "CONTROL_Pack t = put32 (ctl_word t) @ put32 (ctl_LEN t) @ put32 (ctl_POS t)"

definition ctl_set_word :: "u32 \<Rightarrow> CONTROL \<Rightarrow> CONTROL" where
  "ctl_set_word w t = t\<lparr>ctl_EN := is_set w 31, ctl_EU := is_set w 30, ctl_DN := is_set w 29,
     ctl_EM := is_set w 28, ctl_ER := is_set w 27, ctl_UL := is_set w 26,
     ctl_IN := is_set w 25, ctl_FD := is_set w 24\<rparr>"

definition CONTROL_Unpack :: "bytes \<Rightarrow> CONTROL \<Rightarrow> CONTROL unpacked" where
  "CONTROL_Unpack r t =
     (case rd32 r of Inl e \<Rightarrow> (Some e, 0, t, [])
      | Inr (w, r1) \<Rightarrow> let t1 = ctl_set_word w t in
          (case rd32 r1 of Inl e \<Rightarrow> (Some e, 4, t1, [])
           | Inr (x, r2) \<Rightarrow> let t2 = t1\<lparr>ctl_LEN := x\<rparr> in
               (case rd32 r2 of Inl e \<Rightarrow> (Some e, 8, t2, [])
                | Inr (y, r3) \<Rightarrow> (None, 12, t2\<lparr>ctl_POS := y\<rparr>, r3))))"

section \<open>PID loops\<close>

record PID =
  pid_CTL :: u32
  pid_SP :: u32
  pid_KP :: u32
  pid_KI :: u32
  pid_KD :: u32
  pid_BIAS :: u32
  pid_MAXS :: u32
  pid_MINS :: u32
  pid_DB :: u32
  pid_SO :: u32
  pid_MAXO :: u32
  pid_MINO :: u32
  pid_UPD :: u32
  pid_PV :: u32
  pid_ERR :: u32
  pid_OUT :: u32
  pid_PVH :: u32
  pid_PVL :: u32
  pid_DVP :: u32
  pid_DVN :: u32
  pid_PVDB :: u32
  pid_DVDB :: u32
  pid_MAXI :: u32
  pid_MINI :: u32
  pid_TIE :: u32
  pid_MAXCV :: u32
  pid_MINCV :: u32
  pid_MINTIE :: u32
  pid_MAXTIE :: u32
  pid_DATA :: "u32 list"
  pid_EN :: bool
  pid_CT :: bool
  pid_CL :: bool
  pid_PVT :: bool
  pid_DOE :: bool
  pid_SWM :: bool
  pid_CA :: bool
  pid_MO :: bool
  pid_PE :: bool
  pid_NDF :: bool
  pid_NOBC :: bool
  pid_NOZC :: bool
  pid_INI :: bool
  pid_SPOR :: bool
  pid_OLL :: bool
  pid_OLH :: bool
  pid_EWD :: bool
  pid_DVNA :: bool
  pid_DVPA :: bool
  pid_PVLA :: bool
  pid_PVHA :: bool

definition controlWord :: "PID \<Rightarrow> u32" where
  "controlWord p =
     flag 31 (pid_EN p) OR flag 30 (pid_CT p) OR flag 29 (pid_CL p) OR flag 28 (pid_PVT p) OR flag 27 (pid_DOE p) OR
     flag 26 (pid_SWM p) OR flag 25 (pid_CA p) OR flag 24 (pid_MO p) OR flag 23 (pid_PE p) OR flag 22 (pid_NDF p) OR
     flag 21 (pid_NOBC p) OR flag 20 (pid_NOZC p) OR flag 15 (pid_INI p) OR flag 14 (pid_SPOR p) OR flag 13 (pid_OLL p) OR
     flag 12 (pid_OLH p) OR flag 11 (pid_EWD p) OR flag 10 (pid_DVNA p) OR flag 9 (pid_DVPA p) OR flag 8 (pid_PVLA p) OR
     flag 7 (pid_PVHA p)"

definition setControlWord :: "u32 \<Rightarrow> PID \<Rightarrow> PID" where
  "setControlWord cw p = p\<lparr>pid_CTL := cw,
     pid_EN := is_set cw 31, pid_CT := is_set cw 30, pid_CL := is_set cw 29, pid_PVT := is_set cw 28,
     pid_DOE := is_set cw 27, pid_SWM := is_set cw 26, pid_CA := is_set cw 25, pid_MO := is_set cw 24,
     pid_PE := is_set cw 23, pid_NDF := is_set cw 22, pid_NOBC := is_set cw 21, pid_NOZC := is_set cw 20,
     pid_INI := is_set cw 15, pid_SPOR := is_set cw 14, pid_OLL := is_set cw 13, pid_OLH := is_set cw 12,
     pid_EWD := is_set cw 11, pid_DVNA := is_set cw 10, pid_DVPA := is_set cw 9, pid_PVLA := is_set cw 8,
     pid_PVHA := is_set cw 7\<rparr>"

definition pid_values :: "PID \<Rightarrow> u32 list" where
  "pid_values p =
     [pid_SP p, pid_KP p, pid_KI p, pid_KD p, pid_BIAS p, pid_MAXS p, pid_MINS p, pid_DB p,
      pid_SO p, pid_MAXO p, pid_MINO p, pid_UPD p, pid_PV p, pid_ERR p, pid_OUT p, pid_PVH p,
      pid_PVL p, pid_DVP p, pid_DVN p, pid_PVDB p, pid_DVDB p, pid_MAXI p, pid_MINI p, pid_TIE p,
      pid_MAXCV p, pid_MINCV p, pid_MINTIE p, pid_MAXTIE p]"

text \<open>The \<^verbatim>\<open>fields\<close> of \<^verbatim>\<open>Unpack\<close>, each as the assignment to it.\<close>

definition pid_fields :: "(u32 \<Rightarrow> PID \<Rightarrow> PID) list" where
  "pid_fields =
     [(\<lambda>x p. p\<lparr>pid_SP := x\<rparr>), (\<lambda>x p. p\<lparr>pid_KP := x\<rparr>), (\<lambda>x p. p\<lparr>pid_KI := x\<rparr>), (\<lambda>x p. p\<lparr>pid_KD := x\<rparr>),
      (\<lambda>x p. p\<lparr>pid_BIAS := x\<rparr>), (\<lambda>x p. p\<lparr>pid_MAXS := x\<rparr>), (\<lambda>x p. p\<lparr>pid_MINS := x\<rparr>), (\<lambda>x p. p\<lparr>pid_DB := x\<rparr>),
      (\<lambda>x p. p\<lparr>pid_SO := x\<rparr>), (\<lambda>x p. p\<lparr>pid_MAXO := x\<rparr>), (\<lambda>x p. p\<lparr>pid_MINO := x\<rparr>), (\<lambda>x p. p\<lparr>pid_UPD := x\<rparr>),
      (\<lambda>x p. p\<lparr>pid_PV := x\<rparr>), (\<lambda>x p. p\<lparr>pid_ERR := x\<rparr>), (\<lambda>x p. p\<lparr>pid_OUT := x\<rparr>), (\<lambda>x p. p\<lparr>pid_PVH := x\<rparr>),
      (\<lambda>x p. p\<lparr>pid_PVL := x\<rparr>), (\<lambda>x p. p\<lparr>pid_DVP := x\<rparr>), (\<lambda>x p. p\<lparr>pid_DVN := x\<rparr>), (\<lambda>x p. p\<lparr>pid_PVDB := x\<rparr>),
      (\<lambda>x p. p\<lparr>pid_DVDB := x\<rparr>), (\<lambda>x p. p\<lparr>pid_MAXI := x\<rparr>), (\<lambda>x p. p\<lparr>pid_MINI := x\<rparr>), (\<lambda>x p. p\<lparr>pid_TIE := x\<rparr>),
      (\<lambda>x p. p\<lparr>pid_MAXCV := x\<rparr>), (\<lambda>x p. p\<lparr>pid_MINCV := x\<rparr>), (\<lambda>x p. p\<lparr>pid_MINTIE := x\<rparr>), (\<lambda>x p. p\<lparr>pid_MAXTIE := x\<rparr>)]"

fun read_fields :: "('v \<Rightarrow> 'a \<Rightarrow> 'a) list \<Rightarrow> (bytes \<Rightarrow> ('v \<times> bytes) res) \<Rightarrow> nat \<Rightarrow> bytes \<Rightarrow> 'a \<Rightarrow> 'a unpacked" where
  "read_fields [] rd i r p = (None, 4 + i * 4, p, r)"
| "read_fields (f # fs) rd i r p =
     (case rd r of
        Inl e \<Rightarrow> (Some e, 4 + i * 4, p, [])
      | Inr (x, r') \<Rightarrow> read_fields fs rd (i + 1) r' (f x p))"

definition PID_Pack :: "PID \<Rightarrow> bytes" where
  "PID_Pack p =
     (let ctrlWord = (if pid_CTL p = 0 then controlWord p else pid_CTL p) in
      put32 ctrlWord @ concat (map put32 (pid_values p)) @ concat (map put32 (pid_DATA p)))"

definition PID_Unpack :: "bytes \<Rightarrow> PID \<Rightarrow> PID unpacked" where
  "PID_Unpack r p =
     (case rd32 r of Inl e \<Rightarrow> (Some e, 0, p, [])
      | Inr (w, r1) \<Rightarrow>
          (case read_fields pid_fields rd32 0 r1 (setControlWord w p) of
             (Some e, n, p1, r2) \<Rightarrow> (Some e, n, p1, r2)
           | (None, n, p1, r2) \<Rightarrow>
               (case read_n rd32 17 r2 of
                  Inl e \<Rightarrow> (Some (if r2 = [] then EOF else UnexpectedEOF), 116, p1, [])
                | Inr (d, r3) \<Rightarrow> (None, 184, p1\<lparr>pid_DATA := d\<rparr>, r3))))"

section \<open>Bits of a control word\<close>

lemma bit_flag [simp]: "bit (flag k b) j \<longleftrightarrow> b \<and> j = k \<and> k < 32"
  by (auto simp: flag_def bit_exp_iff possible_bit_def)

lemma is_set_bit: "k < 32 \<Longrightarrow> is_set w k = bit w k"
  by (simp add: is_set_def bit_iff_and_push_bit_not_eq_0)

lemmas control_bits = is_set_bit bit_or_iff tmr_word_def ctr_word_def ctl_word_def controlWord_def

lemma set_word:
  "tmr_set_word (tmr_word t) u = u\<lparr>tmr_EN := tmr_EN t, tmr_TT := tmr_TT t, tmr_DN := tmr_DN t\<rparr>"
  "ctr_set_word (ctr_word c) d = d\<lparr>ctr_CU := ctr_CU c, ctr_CD := ctr_CD c, ctr_DN := ctr_DN c, ctr_OV := ctr_OV c,
     ctr_UN := ctr_UN c\<rparr>"
  "ctl_set_word (ctl_word x) y = y\<lparr>ctl_EN := ctl_EN x, ctl_EU := ctl_EU x, ctl_DN := ctl_DN x, ctl_EM := ctl_EM x,
     ctl_ER := ctl_ER x, ctl_UL := ctl_UL x, ctl_IN := ctl_IN x, ctl_FD := ctl_FD x\<rparr>"
  by (simp_all add: tmr_set_word_def ctr_set_word_def ctl_set_word_def control_bits)

lemma pid_set_word:
  "setControlWord (controlWord p) q = q\<lparr>pid_CTL := controlWord p,
     pid_EN := pid_EN p, pid_CT := pid_CT p, pid_CL := pid_CL p, pid_PVT := pid_PVT p, pid_DOE := pid_DOE p,
     pid_SWM := pid_SWM p, pid_CA := pid_CA p, pid_MO := pid_MO p, pid_PE := pid_PE p, pid_NDF := pid_NDF p,
     pid_NOBC := pid_NOBC p, pid_NOZC := pid_NOZC p, pid_INI := pid_INI p, pid_SPOR := pid_SPOR p,
     pid_OLL := pid_OLL p, pid_OLH := pid_OLH p, pid_EWD := pid_EWD p, pid_DVNA := pid_DVNA p,
     pid_DVPA := pid_DVPA p, pid_PVLA := pid_PVLA p, pid_PVHA := pid_PVHA p\<rparr>"
  unfolding setControlWord_def by (simp add: is_set_bit) (simp add: controlWord_def bit_or_iff)

section \<open>Reading field by field\<close>

context wire_codec
begin

lemma read_fields_written:
  "length vs = length fs \<Longrightarrow> list_all valid vs \<Longrightarrow>
   read_fields fs dec i (concat (map enc vs) @ r) p = (None, 4 + (i + length fs) * 4, fold (\<lambda>(f, v). f v) (zip fs vs) p, r)"
  by (induction fs vs arbitrary: i p rule: list_induct2') (simp_all add: dec_enc)

end

lemma rd32_Inr: "rd32 r = Inr (x, r') \<Longrightarrow> r = put32 x @ r'"
  by (auto simp: rd32_def andthen_Inr_iff put_get dest!: read_full_Inr)

lemma read_n_rd32_Inr: "read_n rd32 n r = Inr (xs, r') \<Longrightarrow> r = concat (map put32 xs) @ r' \<and> length xs = n"
  by (induction n arbitrary: r xs) (fastforce simp: andthen_Inr_iff dest!: rd32_Inr)+

lemma read_fields_None:
  "read_fields fs rd32 i r p = (None, n, p', r') \<Longrightarrow>
   \<exists>vs. length vs = length fs \<and> r = concat (map put32 vs) @ r' \<and> p' = fold (\<lambda>(f, v). f v) (zip fs vs) p"
proof (induction fs arbitrary: i r p)
  case (Cons f fs)
  then obtain x r1 where x: "rd32 r = Inr (x, r1)" and n: "read_fields fs rd32 (i + 1) r1 (f x p) = (None, n, p', r')"
    by (auto split: sum.splits)
  from Cons.IH[OF n] obtain vs where "length vs = length fs" "r1 = concat (map put32 vs) @ r'"
    "p' = fold (\<lambda>(f, v). f v) (zip fs vs) (f x p)" by blast
  then show ?case using rd32_Inr[OF x] by (intro exI[of _ "x # vs"]) simp
qed simp

section \<open>Round trips\<close>

text \<open>\<^verbatim>\<open>Unpack\<close> as a decoder: into a given structure, with the count dropped.\<close>

fun unpacked_res :: "'a unpacked \<Rightarrow> ('a \<times> bytes) res" where
  "unpacked_res (None, n, x, r) = Inr (x, r)"
| "unpacked_res (Some e, n, x, r) = Inl e"

interpretation timer: sized_codec TIMER_Pack "\<lambda>r. unpacked_res (TIMER_Unpack r (TIMER.make 0 0 False False False False False False False))"
  "\<lambda>t. \<not> tmr_FS t \<and> \<not> tmr_LS t \<and> \<not> tmr_OV t \<and> \<not> tmr_ER t" "\<lambda>_. 12"
  by unfold_locales (simp_all add: TIMER_Pack_def TIMER_Unpack_def set_word TIMER.make_def Let_def)

interpretation counter: sized_codec COUNTER_Pack "\<lambda>r. unpacked_res (COUNTER_Unpack r (COUNTER.make 0 0 False False False False False))"
  "\<lambda>_. True" "\<lambda>_. 12"
  by unfold_locales (simp_all add: COUNTER_Pack_def COUNTER_Unpack_def set_word COUNTER.make_def Let_def)

interpretation control: sized_codec CONTROL_Pack
  "\<lambda>r. unpacked_res (CONTROL_Unpack r (CONTROL.make 0 0 False False False False False False False False))" "\<lambda>_. True" "\<lambda>_. 12"
  by unfold_locales (simp_all add: CONTROL_Pack_def CONTROL_Unpack_def set_word CONTROL.make_def Let_def)

text \<open>
  C19.  Timers, counters and control structures survive the wire: unpacking what \<^verbatim>\<open>Pack\<close>
  wrote takes 12 bytes, restores every value and every flag that is packed, and leaves what follows
  unread.  The four flags of a timer that are not packed keep what the target structure had.
\<close>

theorem logix_structures_round_trip:
  "TIMER_Unpack (TIMER_Pack t @ r) t0 =
     (None, 12, t\<lparr>tmr_FS := tmr_FS t0, tmr_LS := tmr_LS t0, tmr_OV := tmr_OV t0, tmr_ER := tmr_ER t0\<rparr>, r)
   \<and> COUNTER_Unpack (COUNTER_Pack c @ r) c0 = (None, 12, c, r)
   \<and> CONTROL_Unpack (CONTROL_Pack k @ r) k0 = (None, 12, k, r)"
  by (simp add: TIMER_Pack_def TIMER_Unpack_def COUNTER_Pack_def COUNTER_Unpack_def CONTROL_Pack_def
      CONTROL_Unpack_def set_word Let_def)

lemma pid_values_set:
  "length vs = 28 \<Longrightarrow> pid_values (fold (\<lambda>(f, v). f v) (zip pid_fields vs) p) = vs"
  "length vs = 28 \<Longrightarrow> pid_CTL (fold (\<lambda>(f, v). f v) (zip pid_fields vs) p) = pid_CTL p"
  "length vs = 28 \<Longrightarrow> controlWord (fold (\<lambda>(f, v). f v) (zip pid_fields vs) p) = controlWord p"
  by (auto simp: numeral_eq_Suc length_Suc_conv pid_fields_def pid_values_def controlWord_def)

lemma pid_set_values: "fold (\<lambda>(f, v). f v) (zip pid_fields (pid_values p)) q = q\<lparr>
     pid_SP := pid_SP p, pid_KP := pid_KP p, pid_KI := pid_KI p, pid_KD := pid_KD p, pid_BIAS := pid_BIAS p,
     pid_MAXS := pid_MAXS p, pid_MINS := pid_MINS p, pid_DB := pid_DB p, pid_SO := pid_SO p, pid_MAXO := pid_MAXO p,
     pid_MINO := pid_MINO p, pid_UPD := pid_UPD p, pid_PV := pid_PV p, pid_ERR := pid_ERR p, pid_OUT := pid_OUT p,
     pid_PVH := pid_PVH p, pid_PVL := pid_PVL p, pid_DVP := pid_DVP p, pid_DVN := pid_DVN p, pid_PVDB := pid_PVDB p,
     pid_DVDB := pid_DVDB p, pid_MAXI := pid_MAXI p, pid_MINI := pid_MINI p, pid_TIE := pid_TIE p,
     pid_MAXCV := pid_MAXCV p, pid_MINCV := pid_MINCV p, pid_MINTIE := pid_MINTIE p, pid_MAXTIE := pid_MAXTIE p\<rparr>"
  by (simp add: pid_fields_def pid_values_def)

lemma length_pid [simp]: "length pid_fields = 28" "length (pid_values p) = 28"
  by (simp_all add: pid_fields_def pid_values_def)

lemma pid_unpack_written:
  assumes "length d = 17"
  shows "PID_Unpack (put32 w @ concat (map put32 (pid_values p)) @ concat (map put32 d) @ r) q =
    (None, 184, (fold (\<lambda>(f, v). f v) (zip pid_fields (pid_values p)) (setControlWord w q))\<lparr>pid_DATA := d\<rparr>, r)"
proof -
  have "read_fields pid_fields rd32 0 (concat (map put32 (pid_values p)) @ concat (map put32 d) @ r) (setControlWord w q)
    = (None, 116, fold (\<lambda>(f, v). f v) (zip pid_fields (pid_values p)) (setControlWord w q), concat (map put32 d) @ r)"
    using u32_codec.read_fields_written[of "pid_values p" pid_fields 0] by (simp add: list.pred_True)
  moreover have "read_n rd32 17 (concat (map put32 d) @ r) = Inr (d, r)"
    using u32_codec.read_n_concat[of d r] assms by (simp add: list.pred_True)
  ultimately show ?thesis by (simp add: PID_Unpack_def)
qed

lemma controlWord_cleared: "controlWord (setControlWord 0 p) = 0"
  by (simp add: controlWord_def setControlWord_def is_set_def flag_def)

lemma controlWord_DATA [simp]: "controlWord (p\<lparr>pid_DATA := d\<rparr>) = controlWord p"
  by (simp add: controlWord_def)

lemma pid_values_DATA [simp]: "pid_values (p\<lparr>pid_DATA := d\<rparr>) = pid_values p"
  by (simp add: pid_values_def)

lemma pid_repack:
  assumes "PID_Unpack r p = (None, n, p', r')"
  shows "n = 184 \<and> r = PID_Pack p' @ r'"
proof -
  from assms obtain w r1 m p1 r2 d where w: "rd32 r = Inr (w, r1)"
    and f: "read_fields pid_fields rd32 0 r1 (setControlWord w p) = (None, m, p1, r2)"
    and d: "read_n rd32 17 r2 = Inr (d, r')" and p': "p' = p1\<lparr>pid_DATA := d\<rparr>" "n = 184"
    by (auto simp: PID_Unpack_def split: sum.splits prod.splits option.splits)
  from read_fields_None[OF f] obtain vs where vs: "length vs = 28" "r1 = concat (map put32 vs) @ r2"
    "p1 = fold (\<lambda>(f, v). f v) (zip pid_fields vs) (setControlWord w p)" by auto
  have "pid_CTL p1 = w" using vs by (simp add: pid_values_set setControlWord_def)
  moreover have "controlWord p1 = 0" if "w = 0" using vs that by (simp add: pid_values_set controlWord_cleared)
  ultimately have "PID_Pack p' = put32 w @ concat (map put32 vs) @ concat (map put32 d)"
    using vs p' by (auto simp: PID_Pack_def Let_def pid_values_set)
  then show ?thesis using rd32_Inr[OF w] vs(2) read_n_rd32_Inr[OF d] p'(2) by simp
qed

text \<open>
  PID loops survive the wire in both directions: a structure built from its flags (no control
  word set) is restored with all its flags and values and the control word they make, and whatever
  \<^verbatim>\<open>Unpack\<close> accepted is packed again to the same 184 bytes.
\<close>

theorem pid_round_trip:
  "(pid_CTL p = 0 \<and> length (pid_DATA p) = 17 \<longrightarrow>
      PID_Unpack (PID_Pack p @ r) q = (None, 184, p\<lparr>pid_CTL := controlWord p\<rparr>, r))
   \<and> (PID_Unpack s q = (None, n, p', r') \<longrightarrow> n = 184 \<and> s = PID_Pack p' @ r')"
proof -
  have "PID_Unpack (PID_Pack p @ r) q = (None, 184, p\<lparr>pid_CTL := controlWord p\<rparr>, r)"
    if "pid_CTL p = 0" "length (pid_DATA p) = 17"
    using pid_unpack_written[OF that(2), of "controlWord p" p r q] that(1)
    by (simp add: PID_Pack_def pid_set_values pid_set_word)
  then show ?thesis using pid_repack by blast
qed

text \<open>
  A flag changed after \<^verbatim>\<open>Unpack\<close> is not written back: once the control word is not
  zero, what \<^verbatim>\<open>Pack\<close> writes does not depend on any of the 21 flags.
\<close>

theorem pid_flag_change_lost:
  "pid_CTL p \<noteq> 0 \<Longrightarrow> PID_Pack (p\<lparr>pid_EN := f (0::nat), pid_CT := f 1, pid_CL := f 2, pid_PVT := f 3, pid_DOE := f 4, pid_SWM := f 5,
     pid_CA := f 6, pid_MO := f 7, pid_PE := f 8, pid_NDF := f 9, pid_NOBC := f 10, pid_NOZC := f 11,
     pid_INI := f 12, pid_SPOR := f 13, pid_OLL := f 14, pid_OLH := f 15, pid_EWD := f 16, pid_DVNA := f 17,
     pid_DVPA := f 18, pid_PVLA := f 19, pid_PVHA := f 20\<rparr>) = PID_Pack p"
  by (simp add: PID_Pack_def pid_values_def)

definition demo_pid :: "u32 \<Rightarrow> PID" where
  "demo_pid w = PID.make w 1 2 3 4 5 6 7 8 9 10 11 12 13 14 15 16 17 18 19 20 21 22 23 24 25 26 27 28
     (replicate 17 29) True False True False False False False False False False False False False False
     False False False False False False True"

theorem pid_round_trip_witness:
  "PID_Unpack (PID_Pack (demo_pid 0) @ [7]) (demo_pid 5) = (None, 184, (demo_pid 0)\<lparr>pid_CTL := 0xA0000080\<rparr>, [7])"
proof -
  have "pid_CTL (demo_pid 0) = 0" "length (pid_DATA (demo_pid 0)) = 17" "controlWord (demo_pid 0) = 0xA0000080"
    by (simp_all add: demo_pid_def PID.make_def controlWord_def flag_def)
  then show ?thesis using pid_round_trip[of "demo_pid 0" "[7]" "demo_pid 5"] by simp
qed

theorem pid_flag_change_lost_witness:
  "PID_Pack ((demo_pid 1)\<lparr>pid_EN := False, pid_PVHA := False\<rparr>) = PID_Pack (demo_pid 1)"
  using pid_flag_change_lost[of "demo_pid 1" "\<lambda>i. i = 2"] by (simp add: demo_pid_def PID.make_def)

end
