(* ===== verification/Go_Values.thy ===== *)
theory Go_Values
  imports Gologix_Prelude
begin

text \<open>
  The Go values the sources handle through \<^verbatim>\<open>any\<close> and \<^verbatim>\<open>reflect\<close>:
  types with the struct tags the packer reads, values that carry their type, and the
  little-endian \<^verbatim>\<open>binary.Write\<close>, \<^verbatim>\<open>binary.Read\<close> and
  \<^verbatim>\<open>binary.Size\<close> of the standard library.  Floating-point values are carried as
  their IEEE bit patterns, which is all that encoding them uses.  Sizes and alignments are those
  of a 64-bit platform.
\<close>

section \<open>Types\<close>

text \<open>
  The text of a \<^verbatim>\<open>byteIndex\<close> tag after \<^verbatim>\<open>Sscanf("%d")\<close>; a field carries
  this, its \<^verbatim>\<open>pack\<close> tag and its \<^verbatim>\<open>gologix\<close> tag.
\<close>

datatype byte_index = NoIndex | Index int | BadIndex

record gofield =
  field_name :: string
  pack_tag :: string
  index_tag :: byte_index
  gologix_tag :: "string option"

datatype gotype =
    TBool | TUint8 | TInt8 | TUint16 | TInt16 | TUint32 | TInt32 | TUint64 | TInt64
  | TUint | TInt | TFloat32 | TFloat64 | TString | TAny
  | TSlice gotype
  | TArray nat gotype
  | TStruct string "(gofield \<times> gotype) list"

datatype goval =
    VBool bool
  | VUint8 u8 | VInt8 u8
  | VUint16 u16 | VInt16 u16
  | VUint32 u32 | VInt32 u32
  | VUint64 u64 | VInt64 u64
  | VUint u64 | VInt u64
  | VFloat32 u32 | VFloat64 u64
  | VString string
  | VSlice gotype "goval list"
  | VArray gotype "goval list"
  | VStruct string "(gofield \<times> goval) list"
  | VSer bytes
  | VNil
  | VErr gerror

text \<open>
  \<^const>\<open>VSer\<close> is a value whose type has the method \<^verbatim>\<open>Bytes\<close> (the interface
  \<^verbatim>\<open>Serializable\<close> of \<^verbatim>\<open>pack.go\<close>), given by what that method
  returns; \<^const>\<open>VErr\<close> is an \<^verbatim>\<open>error\<close> stored as a value.
\<close>

fun typeof :: "goval \<Rightarrow> gotype" where
  "typeof (VBool _) = TBool"
| "typeof (VUint8 _) = TUint8"
| "typeof (VInt8 _) = TInt8"
| "typeof (VUint16 _) = TUint16"
| "typeof (VInt16 _) = TInt16"
| "typeof (VUint32 _) = TUint32"
| "typeof (VInt32 _) = TInt32"
| "typeof (VUint64 _) = TUint64"
| "typeof (VInt64 _) = TInt64"
| "typeof (VUint _) = TUint"
| "typeof (VInt _) = TInt"
| "typeof (VFloat32 _) = TFloat32"
| "typeof (VFloat64 _) = TFloat64"
| "typeof (VString _) = TString"
| "typeof (VSlice t _) = TSlice t"
| "typeof (VArray t vs) = TArray (length vs) t"
| "typeof (VStruct n fs) = TStruct n (map (\<lambda>(f, v). (f, typeof v)) fs)"
| "typeof (VSer _) = TAny"
| "typeof VNil = TAny"
| "typeof (VErr _) = TAny"

fun wt :: "goval \<Rightarrow> bool" where
  "wt (VSlice t vs) = (t = TAny \<or> (\<forall>v\<in>set vs. typeof v = t \<and> wt v))"
| "wt (VArray t vs) = (\<forall>v\<in>set vs. typeof v = t \<and> wt v)"
| "wt (VStruct n fs) = (\<forall>fv\<in>set fs. wt (snd fv))"
| "wt _ = True"

fun zero_val :: "gotype \<Rightarrow> goval" where
  "zero_val TBool = VBool False"
| "zero_val TUint8 = VUint8 0"
| "zero_val TInt8 = VInt8 0"
| "zero_val TUint16 = VUint16 0"
| "zero_val TInt16 = VInt16 0"
| "zero_val TUint32 = VUint32 0"
| "zero_val TInt32 = VInt32 0"
| "zero_val TUint64 = VUint64 0"
| "zero_val TInt64 = VInt64 0"
| "zero_val TUint = VUint 0"
| "zero_val TInt = VInt 0"
| "zero_val TFloat32 = VFloat32 0"
| "zero_val TFloat64 = VFloat64 0"
| "zero_val TString = VString []"
| "zero_val TAny = VNil"
| "zero_val (TSlice t) = VSlice t []"
| "zero_val (TArray n t) = VArray t (replicate n (zero_val t))"
| "zero_val (TStruct n fs) = VStruct n (map (\<lambda>(f, t). (f, zero_val t)) fs)"

lemma typeof_zero_val: "typeof (zero_val t) = t"
proof (induction t)
  case (TStruct n fs)
  then show ?case by (auto simp: comp_def split_beta intro!: map_idI snds.intros)
qed auto

section \<open>Fixed-size encoding\<close>

text \<open>\<^verbatim>\<open>sizeof\<close> of \<^verbatim>\<open>encoding/binary\<close>: \<^const>\<open>None\<close> where that returns \<open>-1\<close>.\<close>

fun sizeof :: "gotype \<Rightarrow> nat option" where
  "sizeof TBool = Some 1"
| "sizeof TUint8 = Some 1"
| "sizeof TInt8 = Some 1"
| "sizeof TUint16 = Some 2"
| "sizeof TInt16 = Some 2"
| "sizeof TUint32 = Some 4"
| "sizeof TInt32 = Some 4"
| "sizeof TUint64 = Some 8"
| "sizeof TInt64 = Some 8"
| "sizeof TFloat32 = Some 4"
| "sizeof TFloat64 = Some 8"
| "sizeof (TArray n t) = map_option (\<lambda>s. n * s) (sizeof t)"
| "sizeof (TStruct n fs) =
     foldr (\<lambda>ft a. case (sizeof (snd ft), a) of (Some x, Some y) \<Rightarrow> Some (x + y) | _ \<Rightarrow> None)
       fs (Some 0)"
| "sizeof _ = None"

fun enc_fixed :: "goval \<Rightarrow> bytes" where
  "enc_fixed (VBool b) = [if b then 1 else 0]"
| "enc_fixed (VUint8 w) = [w]"
| "enc_fixed (VInt8 w) = [w]"
| "enc_fixed (VUint16 w) = put16 w"
| "enc_fixed (VInt16 w) = put16 w"
| "enc_fixed (VUint32 w) = put32 w"
| "enc_fixed (VInt32 w) = put32 w"
| "enc_fixed (VUint64 w) = put64 w"
| "enc_fixed (VInt64 w) = put64 w"
| "enc_fixed (VFloat32 w) = put32 w"
| "enc_fixed (VFloat64 w) = put64 w"
| "enc_fixed (VArray t vs) = concat (map enc_fixed vs)"
| "enc_fixed (VStruct n fs) = concat (map (\<lambda>fv. enc_fixed (snd fv)) fs)"
| "enc_fixed _ = []"

definition not_fixed :: gerror where
  "not_fixed = Msg ''binary.Write: some values are not fixed-sized''"

definition binary_write :: "goval \<Rightarrow> bytes res" where
  "binary_write v =
     (case v of
        VSlice t vs \<Rightarrow>
          (if sizeof t = None then Inl not_fixed else Inr (concat (map enc_fixed vs)))
      | VNil \<Rightarrow> Inl (Panic ''nil pointer dereference'')
      | _ \<Rightarrow> (if sizeof (typeof v) = None then Inl not_fixed else Inr (enc_fixed v)))"

text \<open>Decoding one value of a fixed-size type from the front of a byte sequence.\<close>

primrec dec_rep :: "nat \<Rightarrow> (bytes \<Rightarrow> 'v \<times> bytes) \<Rightarrow> bytes \<Rightarrow> 'v list \<times> bytes" where
  "dec_rep 0 d bs = ([], bs)"
| "dec_rep (Suc n) d bs = (let (v, r) = d bs; (vs, r') = dec_rep n d r in (v # vs, r'))"

fun dec_fixed :: "gotype \<Rightarrow> bytes \<Rightarrow> goval \<times> bytes"
  and dec_fields :: "(gofield \<times> gotype) list \<Rightarrow> bytes \<Rightarrow> (gofield \<times> goval) list \<times> bytes" where
  "dec_fixed TBool bs = (VBool (hd bs \<noteq> 0), tl bs)"
| "dec_fixed TUint8 bs = (VUint8 (hd bs), tl bs)"
| "dec_fixed TInt8 bs = (VInt8 (hd bs), tl bs)"
| "dec_fixed TUint16 bs = (VUint16 (get16 (take 2 bs)), drop 2 bs)"
| "dec_fixed TInt16 bs = (VInt16 (get16 (take 2 bs)), drop 2 bs)"
| "dec_fixed TUint32 bs = (VUint32 (get32 (take 4 bs)), drop 4 bs)"
| "dec_fixed TInt32 bs = (VInt32 (get32 (take 4 bs)), drop 4 bs)"
| "dec_fixed TUint64 bs = (VUint64 (get64 (take 8 bs)), drop 8 bs)"
| "dec_fixed TInt64 bs = (VInt64 (get64 (take 8 bs)), drop 8 bs)"
| "dec_fixed TFloat32 bs = (VFloat32 (get32 (take 4 bs)), drop 4 bs)"
| "dec_fixed TFloat64 bs = (VFloat64 (get64 (take 8 bs)), drop 8 bs)"
| "dec_fixed (TArray n t) bs = (let (vs, r) = dec_rep n (\<lambda>b. dec_fixed t b) bs in (VArray t vs, r))"
| "dec_fixed (TStruct n fs) bs = (let (vs, r) = dec_fields fs bs in (VStruct n vs, r))"
| "dec_fixed t bs = (zero_val t, bs)"
| "dec_fields [] bs = ([], bs)"
| "dec_fields ((f, t) # fs) bs =
     (let (v, r) = dec_fixed t bs; (vs, r') = dec_fields fs r in ((f, v) # vs, r'))"

text \<open>
  \<^verbatim>\<open>binary.Read\<close> into a variable of type \<open>t\<close>: the size is asked for first, then
  exactly that many bytes are read with \<^const>\<open>read_full\<close>.
\<close>

definition binary_read :: "gotype \<Rightarrow> bytes \<Rightarrow> (goval \<times> bytes) res" where
  "binary_read t bs =
     (case sizeof t of
        None \<Rightarrow> Inl (Msg ''binary.Read: invalid type'')
      | Some n \<Rightarrow> andthen (read_full n bs) (\<lambda>(x, r). Inr (fst (dec_fixed t x), r)))"

section \<open>Facts about the encoding\<close>

lemma sizeof_TStruct_Cons:
  "sizeof (TStruct n ((f, t) # fs)) = Some k \<longleftrightarrow>
     (\<exists>x y. sizeof t = Some x \<and> sizeof (TStruct n fs) = Some y \<and> k = x + y)"
  by (auto split: option.splits)

lemma length_concat_const: "\<forall>x\<in>set xs. length (f x) = n \<Longrightarrow> length (concat (map f xs)) = length xs * n"
  by (induction xs) auto

lemma length_enc_fixed:
  "wt v \<Longrightarrow> sizeof (typeof v) = Some n \<Longrightarrow> length (enc_fixed v) = n"
proof (induction v arbitrary: n)
  case (VArray t vs)
  then obtain s where s: "sizeof t = Some s" "n = length vs * s" by auto
  have "\<forall>v\<in>set vs. length (enc_fixed v) = s" using VArray s by auto
  then have "length (concat (map enc_fixed vs)) = length vs * s" by (rule length_concat_const)
  then show ?case using s by simp
next
  case (VStruct m fs)
  from VStruct.IH VStruct.prems show ?case
  proof (induction fs arbitrary: n)
    case Nil
    then show ?case by simp
  next
    case (Cons fv fs)
    obtain f v where fv: "fv = (f, v)" by (cases fv)
    from Cons.prems(3) fv obtain x y where xy: "sizeof (typeof v) = Some x"
      "sizeof (TStruct m (map (\<lambda>(f, v). (f, typeof v)) fs)) = Some y" "n = x + y"
      using sizeof_TStruct_Cons[of m f "typeof v"] by auto
    have "length (enc_fixed v) = x"
      using Cons.prems(1)[of fv v] Cons.prems(2) fv xy by (auto intro: snds.intros)
    moreover have "length (enc_fixed (VStruct m fs)) = y"
      using Cons.prems(2) xy by (intro Cons.IH) (auto intro!: Cons.prems(1))
    ultimately show ?case using fv xy by simp
  qed
qed auto

lemma dec_rep_enc:
  assumes "\<And>v r. v \<in> set vs \<Longrightarrow> d (enc_fixed v @ r) = (v, r)"
  shows "dec_rep (length vs) d (concat (map enc_fixed vs) @ r) = (vs, r)"
  using assms by (induction vs) auto

lemma put_neq_Nil [simp]: "put16 b \<noteq> []" "put32 c \<noteq> []" "put64 d \<noteq> []"
  using length_put by (metis list.size(3) zero_neq_numeral)+

lemma dec_enc_fixed:
  "wt v \<Longrightarrow> sizeof (typeof v) = Some n \<Longrightarrow> dec_fixed (typeof v) (enc_fixed v @ r) = (v, r)"
proof (induction v arbitrary: n r)
  case (VArray t vs)
  then obtain s where s: "sizeof t = Some s" by auto
  have "dec_fixed t (enc_fixed v @ r) = (v, r)" if "v \<in> set vs" for v r
    using VArray.IH[OF that, of s r] VArray.prems(1) that s by auto
  then show ?case by (simp add: dec_rep_enc)
next
  case (VStruct m fs)
  have "dec_fields (map (\<lambda>(f, v). (f, typeof v)) fs) (concat (map (\<lambda>fv. enc_fixed (snd fv)) fs) @ r)
      = (fs, r)"
    using VStruct.IH VStruct.prems
  proof (induction fs arbitrary: n r)
    case Nil
    then show ?case by simp
  next
    case (Cons fv fs)
    obtain f v where fv: "fv = (f, v)" by (cases fv)
    from Cons.prems(3) fv obtain x y where xy: "sizeof (typeof v) = Some x"
      "sizeof (TStruct m (map (\<lambda>(f, v). (f, typeof v)) fs)) = Some y"
      using sizeof_TStruct_Cons[of m f "typeof v"] by auto
    have "dec_fixed (typeof v) (enc_fixed v @ r) = (v, r)" for r
      using Cons.prems(1)[of fv v x r] Cons.prems(2) fv xy by (auto intro: snds.intros)
    moreover have "dec_fields (map (\<lambda>(f, v). (f, typeof v)) fs)
        (concat (map (\<lambda>fv. enc_fixed (snd fv)) fs) @ r) = (fs, r)"
      using Cons.prems(2) xy by (intro Cons.IH) (auto intro!: Cons.prems(1))
    ultimately show ?case using fv by simp
  qed
  then show ?case by simp
qed auto

text \<open>Round trip of \<^verbatim>\<open>binary.Write\<close> and \<^verbatim>\<open>binary.Read\<close> for one fixed-size value.\<close>

lemma binary_read_write:
  assumes "wt v" and "sizeof (typeof v) = Some n"
  shows "binary_read (typeof v) (enc_fixed v @ r) = Inr (v, r)"
proof -
  have "length (enc_fixed v) = n" using assms by (rule length_enc_fixed)
  then show ?thesis
    using dec_enc_fixed[OF assms, of "[]"] assms by (simp add: binary_read_def)
qed

end
