(* ===== verification/Cip_Segments.thy ===== *)
theory Cip_Segments
  imports Gologix_Prelude
begin

text \<open>
  The logical path segments of \<^verbatim>\<open>cip_definitions.go\<close> (class, instance, attribute,
  element, address), each with its \<^verbatim>\<open>Bytes\<close>, \<^verbatim>\<open>Len\<close> and
  \<^verbatim>\<open>Read\<close> method, and the request/response bit of the service codes of
  \<^verbatim>\<open>services.go\<close>.
\<close>

type_synonym cip_class = u16
type_synonym cip_instance = u32
type_synonym cip_attribute = u16
type_synonym cip_element = u32
type_synonym cip_service = u8
type_synonym cip_status = u8
type_synonym cip_command = u16

section \<open>Codes\<close>

abbreviation CIPStatus_OK :: cip_status where "CIPStatus_OK \<equiv> 0x00"
abbreviation CIPStatus_PathSegmentError :: cip_status where "CIPStatus_PathSegmentError \<equiv> 0x04"
abbreviation CIPStatus_PathDestinationUnknown :: cip_status where "CIPStatus_PathDestinationUnknown \<equiv> 0x05"
abbreviation CIPStatus_PartialTransfer :: cip_status where "CIPStatus_PartialTransfer \<equiv> 0x06"
abbreviation CIPStatus_ConnectionLost :: cip_status where "CIPStatus_ConnectionLost \<equiv> 0x07"
abbreviation CIPStatus_ServiceNotSupported :: cip_status where "CIPStatus_ServiceNotSupported \<equiv> 0x08"
abbreviation CIPStatus_InvalidAttributeValue :: cip_status where "CIPStatus_InvalidAttributeValue \<equiv> 0x09"
abbreviation CIPStatus_NotEnoughData :: cip_status where "CIPStatus_NotEnoughData \<equiv> 0x13"
abbreviation CIPStatus_AttributeNotSupported :: cip_status where "CIPStatus_AttributeNotSupported \<equiv> 0x14"
abbreviation CIPStatus_ObjectDoesNotExist :: cip_status where "CIPStatus_ObjectDoesNotExist \<equiv> 0x16"
abbreviation CIPStatus_EmbeddedServiceError :: cip_status where "CIPStatus_EmbeddedServiceError \<equiv> 0x1E"
abbreviation CIPStatus_InvalidParameter :: cip_status where "CIPStatus_InvalidParameter \<equiv> 0x20"
abbreviation CIPStatus_InvalidMemberID :: cip_status where "CIPStatus_InvalidMemberID \<equiv> 0x28"

abbreviation CIPService_GetAttributeAll :: cip_service where "CIPService_GetAttributeAll \<equiv> 0x01"
abbreviation CIPService_MultipleService :: cip_service where "CIPService_MultipleService \<equiv> 0x0A"
abbreviation CIPService_GetAttributeSingle :: cip_service where "CIPService_GetAttributeSingle \<equiv> 0x0E"
abbreviation CIPService_SetAttributeSingle :: cip_service where "CIPService_SetAttributeSingle \<equiv> 0x10"
abbreviation CIPService_Read :: cip_service where "CIPService_Read \<equiv> 0x4C"
abbreviation CIPService_Write :: cip_service where "CIPService_Write \<equiv> 0x4D"
abbreviation CIPService_ForwardClose :: cip_service where "CIPService_ForwardClose \<equiv> 0x4E"
abbreviation CIPService_FragRead :: cip_service where "CIPService_FragRead \<equiv> 0x52"
abbreviation CIPService_FragWrite :: cip_service where "CIPService_FragWrite \<equiv> 0x53"
abbreviation CIPService_ForwardOpen :: cip_service where "CIPService_ForwardOpen \<equiv> 0x54"
abbreviation CIPService_GetInstanceAttributeList :: cip_service where "CIPService_GetInstanceAttributeList \<equiv> 0x55"
abbreviation CIPService_LargeForwardOpen :: cip_service where "CIPService_LargeForwardOpen \<equiv> 0x5B"

abbreviation CipObject_Identity :: cip_class where "CipObject_Identity \<equiv> 0x01"
abbreviation CipObject_MessageRouter :: cip_class where "CipObject_MessageRouter \<equiv> 0x02"
abbreviation CipObject_ConnectionManager :: cip_class where "CipObject_ConnectionManager \<equiv> 0x06"
abbreviation CipObject_Programs :: cip_class where "CipObject_Programs \<equiv> 0x68"
abbreviation CipObject_Symbol :: cip_class where "CipObject_Symbol \<equiv> 0x6B"

abbreviation cipCommandListServices :: cip_command where "cipCommandListServices \<equiv> 0x04"
abbreviation cipCommandListIdentity :: cip_command where "cipCommandListIdentity \<equiv> 0x63"
abbreviation cipCommandRegisterSession :: cip_command where "cipCommandRegisterSession \<equiv> 0x65"
abbreviation cipCommandSendRRData :: cip_command where "cipCommandSendRRData \<equiv> 0x6F"
abbreviation cipCommandSendUnitData :: cip_command where "cipCommandSendUnitData \<equiv> 0x70"

section \<open>Service codes\<close>

definition IsResponse :: "cip_service \<Rightarrow> bool" where
  "IsResponse s = (s AND 0x80 \<noteq> 0)"

definition AsResponse :: "cip_service \<Rightarrow> cip_service" where
  "AsResponse s = s OR 0x80"

definition UnResponse :: "cip_service \<Rightarrow> cip_service" where
  "UnResponse s = s AND 0x7F"

section \<open>Segments\<close>

definition CIPAddress_Bytes :: "u8 \<Rightarrow> bytes" where
  "CIPAddress_Bytes p = [p]"

definition CIPAttribute_Bytes :: "cip_attribute \<Rightarrow> bytes" where
  "CIPAttribute_Bytes p = (if p < 256 then [0x30, ucast p] else [0x31, 0] @ put16 p)"

definition CIPAttribute_Len :: "cip_attribute \<Rightarrow> nat" where
  "CIPAttribute_Len p = (if p < 256 then 2 else 4)"

definition CIPAttribute_Read :: "bytes \<Rightarrow> (cip_attribute \<times> bytes) res" where
  "CIPAttribute_Read r0 =
     attempt ''error reading attribute size'' (rd8 r0) (\<lambda>(size, r).
       if size = 0x30 then
         attempt ''error reading 8 bit attribute'' (rd8 r) (\<lambda>(v, r'). Inr (ucast v, r'))
       else if size = 0x31 then
         attempt ''error skipping attribute padding byte'' (rd8 r) (\<lambda>(_, r').
           attempt ''error reading 16 bit attribute'' (rd16 r') Inr)
       else Inl (Msg ''expected 0x30 or 0x31''))"

definition CIPElement_Bytes :: "cip_element \<Rightarrow> bytes" where
  "CIPElement_Bytes p =
     (if p < 256 then [0x28, ucast p]
      else if p < 65536 then [0x29, 0] @ put16 (ucast p)
      else [0x29, 0] @ put32 p)"

definition CIPElement_Len :: "cip_element \<Rightarrow> nat" where
  "CIPElement_Len p = (if p < 256 then 2 else if p < 65535 then 4 else 6)"

definition CIPInstance_Bytes :: "cip_instance \<Rightarrow> bytes" where
  "CIPInstance_Bytes p =
     (if p < 256 then [0x24, ucast p]
      else if p \<le> 0xFFFF then [0x25, 0] @ put16 (ucast p)
      else [0x26, 0] @ put32 p)"

definition CIPInstance_Len :: "cip_instance \<Rightarrow> nat" where
  "CIPInstance_Len p = (if p < 256 then 2 else if p \<le> 0xFFFF then 4 else 6)"

definition CIPInstance_Read :: "bytes \<Rightarrow> (cip_instance \<times> bytes) res" where
  "CIPInstance_Read r0 =
     attempt ''error reading instance size'' (rd8 r0) (\<lambda>(size, r).
       if size = 0x24 then
         attempt ''error reading 8 bit instance'' (rd8 r) (\<lambda>(v, r'). Inr (ucast v, r'))
       else if size = 0x25 then
         attempt ''error skipping instance padding byte'' (rd8 r) (\<lambda>(_, r').
           attempt ''error reading 16 bit instance'' (rd16 r') (\<lambda>(v, r''). Inr (ucast v, r'')))
       else if size = 0x26 then
         attempt ''error skipping instance padding byte'' (rd8 r) (\<lambda>(_, r').
           attempt ''error reading 32 bit instance'' (rd32 r') Inr)
       else Inl (Msg ''expected 0x24 or 0x25''))"

definition CIPClass_Bytes :: "cip_class \<Rightarrow> bytes" where
  "CIPClass_Bytes p = (if p < 256 then [0x20, ucast p] else [0x21, 0] @ put16 p)"

definition CIPClass_Len :: "cip_class \<Rightarrow> nat" where
  "CIPClass_Len p = (if p < 256 then 2 else 4)"

definition CIPClass_Read :: "bytes \<Rightarrow> (cip_class \<times> bytes) res" where
  "CIPClass_Read r0 =
     attempt ''error reading class size'' (rd8 r0) (\<lambda>(size, r).
       if size = 0x20 then
         attempt ''error reading 8 bit class'' (rd8 r) (\<lambda>(v, r'). Inr (ucast v, r'))
       else if size = 0x21 then
         attempt ''error skipping class padding byte'' (rd8 r) (\<lambda>(_, r').
           attempt ''error reading 16 bit class'' (rd16 r') Inr)
       else Inl (Msg ''expected 0x20 or 0x21''))"

definition parseClassInstancePath :: "bytes \<Rightarrow> (cip_class \<times> cip_instance) res" where
  "parseClassInstancePath p =
     attempt ''read class'' (CIPClass_Read p) (\<lambda>(cls, r).
       attempt ''read instance'' (CIPInstance_Read r) (\<lambda>(inst, r'). Inr (cls, inst)))"

section \<open>Narrowing casts that lose nothing\<close>

lemma ucast_ucast_small:
  fixes p :: "'a::len word"
  assumes "unat p < 2 ^ LENGTH('b::len)"
  shows "ucast (ucast p :: 'b word) = p"
proof -
  have "unat p < 2 ^ LENGTH('a)" by (rule unsigned_less)
  then have "unat (ucast (ucast p :: 'b word) :: 'a word) = unat p"
    using assms by (simp add: unsigned_ucast_eq unsigned_take_bit_eq take_bit_nat_eq_self)
  then show ?thesis by (simp add: word_unat_eq_iff)
qed

lemma small_casts [simp]:
  "(p :: u16) < 256 \<Longrightarrow> ucast (ucast p :: u8) = p"
  "(q :: u32) < 256 \<Longrightarrow> ucast (ucast q :: u8) = q"
  "(q :: u32) < 65536 \<Longrightarrow> ucast (ucast q :: u16) = q"
  by (rule ucast_ucast_small, simp add: word_less_nat_alt)+

lemma instance_le_less: "(q :: u32) \<le> 0xFFFF \<longleftrightarrow> q < 65536"
  by (auto simp: word_le_nat_alt word_less_nat_alt)

section \<open>Reading gives back what was written\<close>

interpretation attribute_segment:
  sized_codec CIPAttribute_Bytes CIPAttribute_Read "\<lambda>_. True" CIPAttribute_Len
  by unfold_locales
    (simp_all add: CIPAttribute_Bytes_def CIPAttribute_Read_def CIPAttribute_Len_def)

interpretation class_segment:
  sized_codec CIPClass_Bytes CIPClass_Read "\<lambda>_. True" CIPClass_Len
  by unfold_locales
    (simp_all add: CIPClass_Bytes_def CIPClass_Read_def CIPClass_Len_def)

interpretation instance_segment:
  sized_codec CIPInstance_Bytes CIPInstance_Read "\<lambda>_. True" CIPInstance_Len
  by unfold_locales
    (simp_all add: CIPInstance_Bytes_def CIPInstance_Read_def CIPInstance_Len_def instance_le_less)

lemma parseClassInstancePath_Bytes [simp]:
  "parseClassInstancePath (CIPClass_Bytes c @ CIPInstance_Bytes i @ r) = Inr (c, i)"
  by (simp add: parseClassInstancePath_def class_segment.dec_enc instance_segment.dec_enc)

lemma segment_lengths_even:
  "even (length (CIPClass_Bytes c))" "even (length (CIPInstance_Bytes i))"
  "even (length (CIPAttribute_Bytes a))" "even (length (CIPElement_Bytes e))"
  by (simp_all add: CIPClass_Bytes_def CIPInstance_Bytes_def CIPAttribute_Bytes_def CIPElement_Bytes_def)

lemma response_bits:
  "IsResponse (AsResponse s)"
  "UnResponse (AsResponse s) = UnResponse s"
  "\<not> IsResponse s \<Longrightarrow> UnResponse (AsResponse s) = s"
proof -
  have e: "(0x80 :: u8) = push_bit 7 1" "(0x7F :: u8) = mask 7" by (simp_all add: mask_eq_exp_minus_1)
  have b: "bit (0x80 :: u8) n = (n = 7)" "bit (0x7F :: u8) n = (n < 7)" for n
    unfolding e by (auto simp only: bit_simps) simp_all
  have r: "IsResponse t = bit t 7" for t
    unfolding IsResponse_def e by (rule and_push_bit_one)
  have a: "bit (UnResponse t) n = (bit t n \<and> n < 7)" "bit (AsResponse t) n = (bit t n \<or> n = 7)" for t n
    by (simp_all only: UnResponse_def AsResponse_def bit_and_iff bit_or_iff b)
  show "IsResponse (AsResponse s)"
    by (simp add: r a)
  show "UnResponse (AsResponse s) = UnResponse s"
    by (rule bit_word_eqI) (auto simp: a)
  assume "\<not> IsResponse s"
  then have "\<not> bit s 7" by (simp add: r)
  then have "n < 7 \<or> \<not> bit s n" for n
    using bit_imp_le_length[of s n] by (cases "n = 7") auto
  then show "UnResponse (AsResponse s) = s"
    by (intro bit_word_eqI) (auto simp: a)
qed

section \<open>What the segments promise\<close>

text \<open>
  A logical path of a class, an instance and an attribute segment is read back segment by
  segment, whatever the sizes of the numbers and whatever follows, and every segment is as long
  as its \<^verbatim>\<open>Len\<close> method says.
\<close>

theorem logical_path_round_trip:
  "CIPClass_Read (CIPClass_Bytes c @ r) = Inr (c, r)
   \<and> CIPInstance_Read (CIPInstance_Bytes i @ r) = Inr (i, r)
   \<and> CIPAttribute_Read (CIPAttribute_Bytes a @ r) = Inr (a, r)
   \<and> parseClassInstancePath (CIPClass_Bytes c @ CIPInstance_Bytes i @ r) = Inr (c, i)
   \<and> length (CIPClass_Bytes c @ CIPInstance_Bytes i @ CIPAttribute_Bytes a)
       = CIPClass_Len c + CIPInstance_Len i + CIPAttribute_Len a"
  by (simp add: class_segment.dec_enc instance_segment.dec_enc attribute_segment.dec_enc
      class_segment.length_enc instance_segment.length_enc attribute_segment.length_enc)

text \<open>
  A service code and its reply code: marking a code as a response is recognised, marking does
  not change what the code names, and a request code comes back unchanged.
\<close>

theorem service_response_bit:
  "IsResponse (AsResponse s) \<and> UnResponse (AsResponse s) = UnResponse s
   \<and> (\<not> IsResponse s \<longrightarrow> UnResponse (AsResponse s) = s)"
  using response_bits by blast

theorem service_response_bit_witness:
  "\<not> IsResponse CIPService_Read \<and> UnResponse (AsResponse CIPService_Read) = CIPService_Read"
proof -
  have "\<not> IsResponse CIPService_Read" by (simp add: IsResponse_def)
  with service_response_bit[of CIPService_Read] show ?thesis by blast
qed

text \<open>
  An element number of 65536 or more does not fit the segment \<^const>\<open>CIPElement_Bytes\<close> builds: the
  code written is that of a 16-bit element (\<open>0x29\<close>) but four bytes of data follow, so a reader of
  the documented format takes the low half as the element and finds the high half where the next
  segment should begin.
\<close>

theorem wide_element_is_mislabelled:
  assumes "65536 \<le> e"
  shows "\<exists>hi. CIPElement_Bytes e = [0x29, 0] @ put16 (ucast e) @ hi \<and> length hi = 2"
proof -
  have "\<not> e < 256" "\<not> e < 65536" using assms by (auto simp: word_less_nat_alt word_le_nat_alt)
  moreover have "take 2 (put32 e) = put16 (ucast e)"
    using mod_mod_cancel[of 256 65536 "unat e"] mod_mult2_eq[of "unat e" 256 256]
    by (simp add: put_eval unsigned_ucast_eq unsigned_take_bit_eq take_bit_eq_mod)
  moreover have "put32 e = take 2 (put32 e) @ drop 2 (put32 e)" by simp
  ultimately have "CIPElement_Bytes e = [0x29, 0] @ put16 (ucast e) @ drop 2 (put32 e)"
    by (metis CIPElement_Bytes_def)
  then show ?thesis by (auto intro!: exI[of _ "drop 2 (put32 e)"])
qed

theorem wide_element_is_mislabelled_witness:
  "\<exists>hi. CIPElement_Bytes 65541 = [0x29, 0] @ put16 5 @ hi \<and> length hi = 2"
  using wide_element_is_mislabelled[of 65541] by (simp add: put_eval)

end
