(* ===== verification/Cip_Items.thy ===== *)
theory Cip_Items
  imports Go_Values Cip_Segments
begin

text \<open>
  \<^verbatim>\<open>items.go\<close>: the common packet format.  A \<^verbatim>\<open>CIPItem\<close> is a header,
  a data buffer and a read position; writing appends and keeps the header's length up to date,
  reading advances the position.  A packet is a counted list of items
  (\<^verbatim>\<open>serializeItems\<close>, \<^verbatim>\<open>readItems\<close>).  The free function
  \<^verbatim>\<open>Serialize\<close> of \<^verbatim>\<open>pack.go\<close> is here too, because the messages are
  built with it.
\<close>

type_synonym cip_item_id = u16

abbreviation cipItem_Null :: cip_item_id where "cipItem_Null \<equiv> 0x0000"
abbreviation cipItem_ListIdentityResponse :: cip_item_id where "cipItem_ListIdentityResponse \<equiv> 0x000C"
abbreviation cipItem_ConnectionAddress :: cip_item_id where "cipItem_ConnectionAddress \<equiv> 0x00A1"
abbreviation cipItem_ConnectedData :: cip_item_id where "cipItem_ConnectedData \<equiv> 0x00B1"
abbreviation cipItem_UnconnectedData :: cip_item_id where "cipItem_UnconnectedData \<equiv> 0x00B2"
abbreviation cipItem_SequenceAddress :: cip_item_id where "cipItem_SequenceAddress \<equiv> 0x8002"

record cipItemHeader =
  hdr_ID :: cip_item_id
  hdr_Length :: u16

record CIPItem =
  Header :: cipItemHeader
  Data :: bytes
  Pos :: int

section \<open>Reading from an item\<close>

definition item_Read :: "nat \<Rightarrow> CIPItem \<Rightarrow> (bytes \<times> CIPItem) res" where
  "item_Read n it =
     (if Pos it \<ge> int (length (Data it)) then Inl EOF
      else if Pos it < 0 then Inl (Panic ''slice bounds out of range'')
      else let p = take n (drop (nat (Pos it)) (Data it))
           in Inr (p, it\<lparr>Pos := Pos it + int (length p)\<rparr>))"

text \<open>
  \<^verbatim>\<open>binary.Read(item, ...)\<close>: \<^verbatim>\<open>io.ReadFull\<close> calls
  \<^const>\<open>item_Read\<close> until it has what it needs; on an item one call either gives
  everything or reaches the end.
\<close>

definition item_ReadFull :: "nat \<Rightarrow> CIPItem \<Rightarrow> (bytes \<times> CIPItem) res" where
  "item_ReadFull n it =
     (if n = 0 then Inr ([], it)
      else andthen (item_Read n it) (\<lambda>(p, it').
        if length p < n then Inl UnexpectedEOF else Inr (p, it')))"

definition item_DeSerialize :: "gotype \<Rightarrow> CIPItem \<Rightarrow> (goval \<times> CIPItem) res" where
  "item_DeSerialize t it =
     (case sizeof t of
        None \<Rightarrow> Inl (Msg ''binary.Read: invalid type'')
      | Some n \<Rightarrow> andthen (item_ReadFull n it) (\<lambda>(x, it'). Inr (fst (dec_fixed t x), it')))"

definition item_Rest :: "CIPItem \<Rightarrow> bytes res" where
  "item_Rest it =
     (if Pos it < 0 \<or> Pos it > int (length (Data it)) then Inl (Panic ''slice bounds out of range'')
      else Inr (drop (nat (Pos it)) (Data it)))"

definition out_of_data :: gerror where
  "out_of_data = Msg ''item out of data''"

text \<open>
  The fixed-width getters check the length before they read: \<^verbatim>\<open>len(item.Data) <= item.Pos + (n-1)\<close>.
\<close>

definition item_get :: "nat \<Rightarrow> CIPItem \<Rightarrow> (bytes \<times> CIPItem) res" where
  "item_get n it =
     (if int (length (Data it)) \<le> Pos it + int n - 1 then Inl out_of_data
      else if Pos it < 0 then Inl (Panic ''index out of range'')
      else Inr (take n (drop (nat (Pos it)) (Data it)), it\<lparr>Pos := Pos it + int n\<rparr>))"

definition item_Byte :: "CIPItem \<Rightarrow> (u8 \<times> CIPItem) res" where
  "item_Byte it = andthen (item_get 1 it) (\<lambda>(x, it'). Inr (hd x, it'))"

definition item_Uint16 :: "CIPItem \<Rightarrow> (u16 \<times> CIPItem) res" where
  "item_Uint16 it = andthen (item_get 2 it) (\<lambda>(x, it'). Inr (get16 x, it'))"

definition item_Int16 :: "CIPItem \<Rightarrow> (int \<times> CIPItem) res" where
  "item_Int16 it = andthen (item_get 2 it) (\<lambda>(x, it'). Inr (sint (get16 x), it'))"

definition item_Uint32 :: "CIPItem \<Rightarrow> (u32 \<times> CIPItem) res" where
  "item_Uint32 it = andthen (item_get 4 it) (\<lambda>(x, it'). Inr (get32 x, it'))"

definition item_Int32 :: "CIPItem \<Rightarrow> (int \<times> CIPItem) res" where
  "item_Int32 it = andthen (item_get 4 it) (\<lambda>(x, it'). Inr (sint (get32 x), it'))"

definition item_Uint64 :: "CIPItem \<Rightarrow> (u64 \<times> CIPItem) res" where
  "item_Uint64 it = andthen (item_get 8 it) (\<lambda>(x, it'). Inr (get64 x, it'))"

definition item_Int64 :: "CIPItem \<Rightarrow> (int \<times> CIPItem) res" where
  "item_Int64 it = andthen (item_get 8 it) (\<lambda>(x, it'). Inr (sint (get64 x), it'))"

definition item_Float32 :: "CIPItem \<Rightarrow> (u32 \<times> CIPItem) res" where
  "item_Float32 it =
     (if int (length (Data it)) \<le> Pos it + 3 then Inl out_of_data
      else andthen (item_ReadFull 4 it) (\<lambda>(x, it'). Inr (get32 x, it')))"

definition item_Float64 :: "CIPItem \<Rightarrow> (u64 \<times> CIPItem) res" where
  "item_Float64 it =
     (if int (length (Data it)) \<le> Pos it + 7 then Inl out_of_data
      else andthen (item_ReadFull 8 it) (\<lambda>(x, it'). Inr (get64 x, it')))"

definition item_Reset :: "CIPItem \<Rightarrow> CIPItem" where
  "item_Reset it = it\<lparr>Pos := 0\<rparr>"

section \<open>Writing to an item\<close>

definition item_Write :: "bytes \<Rightarrow> CIPItem \<Rightarrow> CIPItem" where
  "item_Write p it =
     it\<lparr>Data := Data it @ p, Header := (Header it)\<lparr>hdr_Length := of_nat (length (Data it @ p))\<rparr>\<rparr>"

text \<open>\<^verbatim>\<open>b := make([]byte, n); copy(b, x)\<close>\<close>

definition pad_copy :: "nat \<Rightarrow> bytes \<Rightarrow> bytes" where
  "pad_copy n bs = take n bs @ replicate (n - length bs) 0"

text \<open>What one argument of \<^verbatim>\<open>item.Serialize\<close> contributes.\<close>

definition item_string_slot :: "string \<Rightarrow> bytes" where
  "item_string_slot s =
     put32 (if length s > 84 then 84 else of_nat (length s)) @ pad_copy 84 (to_bytes s)"

fun item_arg_bytes :: "goval \<Rightarrow> bytes res" where
  "item_arg_bytes (VString s) = Inr (put32 (of_nat (length s)) @ pad_copy 84 (to_bytes s))"
| "item_arg_bytes (VSlice TString vs) =
     Inr (concat (map (\<lambda>v. case v of VString s \<Rightarrow> item_string_slot s | _ \<Rightarrow> []) vs))"
| "item_arg_bytes (VSer bs) = Inr bs"
| "item_arg_bytes v = flat ''problem writing default item'' (binary_write v) Inr"

fun item_Serialize :: "goval list \<Rightarrow> CIPItem \<Rightarrow> CIPItem res" where
  "item_Serialize [] it = Inr it"
| "item_Serialize (v # vs) it =
     (if v = VSlice TString [] then item_Serialize vs it
      else andthen (item_arg_bytes v) (\<lambda>bs. item_Serialize vs (item_Write bs it)))"

definition empty_item :: "cip_item_id \<Rightarrow> CIPItem" where
  "empty_item i = \<lparr>Header = \<lparr>hdr_ID = i, hdr_Length = 0\<rparr>, Data = [], Pos = 0\<rparr>"

text \<open>\<^verbatim>\<open>newItem\<close> drops the error of \<^verbatim>\<open>Serialize\<close>.\<close>

definition newItem :: "cip_item_id \<Rightarrow> goval option \<Rightarrow> CIPItem" where
  "newItem i str =
     (case str of
        None \<Rightarrow> empty_item i
      | Some v \<Rightarrow> (case item_Serialize [v] (empty_item i) of Inl _ \<Rightarrow> empty_item i | Inr it \<Rightarrow> it))"

definition item_Bytes :: "CIPItem \<Rightarrow> bytes" where
  "item_Bytes it = put16 (hdr_ID (Header it)) @ put16 (hdr_Length (Header it)) @ Data it"

section \<open>Packets\<close>

definition serializeItems :: "CIPItem list \<Rightarrow> bytes" where
  "serializeItems items =
     put32 0 @ put16 0 @ put16 (of_nat (length items)) @ concat (map item_Bytes items)"

definition read_item :: "bytes \<Rightarrow> (CIPItem \<times> bytes) res" where
  "read_item r =
     attempt ''couldn't read item header'' (read_full 4 r) (\<lambda>(h, r').
       let i = get16 (take 2 h); l = get16 (drop 2 h) in
       attempt ''couldn't read item data'' (read_full (unat l) r') (\<lambda>(d, r'').
         Inr (\<lparr>Header = \<lparr>hdr_ID = i, hdr_Length = l\<rparr>, Data = d, Pos = 0\<rparr>, r'')))"

definition readItems :: "bytes \<Rightarrow> (CIPItem list \<times> bytes) res" where
  "readItems r =
     attempt ''couldn't read item count'' (rd16 r) (\<lambda>(count, r').
       read_n read_item (unat count) r')"

section \<open>Serialize of pack.go\<close>

fun serialize_arg :: "goval \<Rightarrow> bytes res" where
  "serialize_arg (VString s) = Inr (put32 (of_nat (length s)) @ pad_copy 82 (to_bytes s))"
| "serialize_arg (VSer bs) = Inr bs"
| "serialize_arg VNil = Inr []"
| "serialize_arg v = attempt ''problem writing str to buffer'' (binary_write v) Inr"

fun Serialize :: "goval list \<Rightarrow> bytes res" where
  "Serialize [] = Inr []"
| "Serialize (v # vs) =
     andthen (serialize_arg v) (\<lambda>b. andthen (Serialize vs) (\<lambda>bs. Inr (b @ bs)))"

section \<open>An item is a byte stream\<close>

text \<open>
  What an item holds for a reader is its unread rest.  On an item whose position lies inside its
  data every read of the item is the read of that stream, so the parsers of the other theories
  are stated on streams.
\<close>

definition pos_ok :: "CIPItem \<Rightarrow> bool" where
  "pos_ok it \<longleftrightarrow> 0 \<le> Pos it \<and> Pos it \<le> int (length (Data it))"

definition unread :: "CIPItem \<Rightarrow> bytes" where
  "unread it = drop (nat (Pos it)) (Data it)"

definition length_ok :: "CIPItem \<Rightarrow> bool" where
  "length_ok it \<longleftrightarrow> length (Data it) < 65536 \<and> hdr_Length (Header it) = of_nat (length (Data it))"

lemma length_unread: "pos_ok it \<Longrightarrow> int (length (unread it)) = int (length (Data it)) - Pos it"
  by (auto simp: pos_ok_def unread_def)

lemma item_Rest_unread: "pos_ok it \<Longrightarrow> item_Rest it = Inr (unread it)"
  by (auto simp: pos_ok_def item_Rest_def unread_def)

lemma unread_Reset [simp]: "unread (item_Reset it) = Data it"
  by (simp add: item_Reset_def unread_def)

lemma unread_advance: "0 \<le> Pos it \<Longrightarrow> unread (it\<lparr>Pos := Pos it + int n\<rparr>) = drop n (unread it)"
  by (simp add: unread_def nat_add_distrib drop_drop add.commute)

lemma item_ReadFull_stream:
  assumes "pos_ok it"
  shows "item_ReadFull n it =
    andthen (read_full n (unread it)) (\<lambda>(x, r). Inr (x, it\<lparr>Pos := Pos it + int n\<rparr>))"
proof -
  have p: "0 \<le> Pos it" "Pos it \<le> int (length (Data it))" using assms by (auto simp: pos_ok_def)
  have e: "unread it = [] \<longleftrightarrow> Pos it \<ge> int (length (Data it))"
    using p by (auto simp: unread_def)
  show ?thesis
    using p e by (auto simp: item_ReadFull_def item_Read_def read_full_def unread_def[symmetric] Let_def)
qed

lemma item_ReadFull_unread:
  assumes "pos_ok it" and "item_ReadFull n it = Inr (x, it')"
  shows "read_full n (unread it) = Inr (x, unread it')" and "pos_ok it'"
proof -
  from assms obtain r where r: "read_full n (unread it) = Inr (x, r)"
    and it': "it' = it\<lparr>Pos := Pos it + int n\<rparr>"
    by (auto simp: item_ReadFull_stream andthen_Inr_iff)
  from read_full_Inr[OF r] have d: "drop n (unread it) = r" "n \<le> length (unread it)" by auto
  have "unread it' = r"
    using assms(1) unread_advance[of it n] d it' by (simp add: pos_ok_def)
  then show "read_full n (unread it) = Inr (x, unread it')" using r by simp
  show "pos_ok it'"
    using d(2) length_unread[OF assms(1)] assms(1) it' by (simp add: pos_ok_def)
qed

lemma item_get_stream:
  assumes "pos_ok it" "0 < n"
  shows "item_get n it =
    (if length (unread it) < n then Inl out_of_data
     else Inr (take n (unread it), it\<lparr>Pos := Pos it + int n\<rparr>))"
  using assms length_unread[OF assms(1)] by (auto simp: item_get_def pos_ok_def unread_def)

section \<open>Writing keeps the header's length\<close>

lemma length_pad_copy [simp]: "length (pad_copy n bs) = n"
  by (auto simp: pad_copy_def)

lemma Data_item_Write [simp]: "Data (item_Write p it) = Data it @ p" "Pos (item_Write p it) = Pos it"
  by (simp_all add: item_Write_def)

lemma hdr_ID_item_Write [simp]: "hdr_ID (Header (item_Write p it)) = hdr_ID (Header it)"
  by (simp add: item_Write_def)

lemma length_ok_empty_item [simp]: "length_ok (empty_item i)"
  by (simp add: length_ok_def empty_item_def)

lemma length_ok_item_Write: "length (Data it @ p) < 65536 \<Longrightarrow> length_ok (item_Write p it)"
  by (simp add: length_ok_def item_Write_def)

lemma item_Serialize_Data:
  "item_Serialize vs it = Inr it' \<Longrightarrow>
     (\<exists>bss. list_all2 (\<lambda>v bs. item_arg_bytes v = Inr bs) vs bss \<and> Data it' = Data it @ concat bss)
     \<and> hdr_ID (Header it') = hdr_ID (Header it) \<and> Pos it' = Pos it"
proof (induction vs arbitrary: it)
  case Nil
  then show ?case by (auto intro: exI[of _ "[]"])
next
  case (Cons v vs)
  show ?case
  proof (cases "v = VSlice TString []")
    case True
    with Cons obtain bss where
      "list_all2 (\<lambda>v bs. item_arg_bytes v = Inr bs) vs bss" "Data it' = Data it @ concat bss"
      "hdr_ID (Header it') = hdr_ID (Header it)" "Pos it' = Pos it" by auto
    with True show ?thesis by (auto intro!: exI[of _ "[] # bss"])
  next
    case False
    with Cons.prems obtain bs where b: "item_arg_bytes v = Inr bs"
      and s: "item_Serialize vs (item_Write bs it) = Inr it'" by (auto simp: andthen_Inr_iff)
    from Cons.IH[OF s] obtain bss where
      "list_all2 (\<lambda>v bs. item_arg_bytes v = Inr bs) vs bss" "Data it' = Data it @ bs @ concat bss"
      "hdr_ID (Header it') = hdr_ID (Header it)" "Pos it' = Pos it" by auto
    with b show ?thesis by (auto intro!: exI[of _ "bs # bss"])
  qed
qed

text \<open>The header's length field is the data's length, as far as 16 bits go.\<close>

definition length_current :: "CIPItem \<Rightarrow> bool" where
  "length_current it \<longleftrightarrow> hdr_Length (Header it) = of_nat (length (Data it))"

lemma item_Serialize_current:
  "item_Serialize vs it = Inr it' \<Longrightarrow> length_current it \<Longrightarrow> length_current it'"
proof (induction vs arbitrary: it)
  case (Cons v vs)
  have "length_current (item_Write bs it)" for bs
    by (simp add: length_current_def item_Write_def)
  with Cons show ?case by (auto simp: andthen_Inr_iff split: if_splits)
qed simp

lemma length_ok_current: "length_ok it \<longleftrightarrow> length_current it \<and> length (Data it) < 65536"
  by (auto simp: length_ok_def length_current_def)

section \<open>Packets round trip\<close>

text \<open>A received item starts at position 0.\<close>

definition item_wf :: "CIPItem \<Rightarrow> bool" where
  "item_wf it \<longleftrightarrow> length_ok it \<and> Pos it = 0"

lemma unat_u16_of_nat: "n < 65536 \<Longrightarrow> unat (of_nat n :: u16) = n"
  by (simp add: unat_of_nat take_bit_eq_mod)

lemma item_wf_Write: "Pos it = 0 \<Longrightarrow> length (Data it @ p) < 65536 \<Longrightarrow> item_wf (item_Write p it)"
  by (simp add: item_wf_def length_ok_item_Write)

lemma item_wf_empty: "item_wf (empty_item i)"
  by (simp add: item_wf_def) (simp add: empty_item_def)

lemma empty_item_fields [simp]: "Data (empty_item i) = []" "Pos (empty_item i) = 0" "hdr_ID (Header (empty_item i)) = i"
  by (simp_all add: empty_item_def)

lemma newItem_None: "newItem i None = empty_item i"
  by (simp add: newItem_def)

lemma read_item_Bytes: "item_wf it \<Longrightarrow> read_item (item_Bytes it @ r) = Inr (it, r)"
proof -
  assume wf: "item_wf it"
  obtain i l d where it: "it = \<lparr>Header = \<lparr>hdr_ID = i, hdr_Length = l\<rparr>, Data = d, Pos = 0\<rparr>"
    using wf by (cases it; cases "Header it") (auto simp: item_wf_def)
  with wf have l: "unat l = length d" by (auto simp: item_wf_def length_ok_def unat_u16_of_nat)
  have "read_full 4 ((put16 i @ put16 l) @ d @ r) = Inr (put16 i @ put16 l, d @ r)"
    by (rule read_full_append) simp
  moreover have "read_full (unat l) (d @ r) = Inr (d, r)" using l by simp
  ultimately show ?thesis by (simp add: it read_item_def item_Bytes_def Let_def)
qed

interpretation item_format: wire_codec item_Bytes read_item item_wf
  by unfold_locales (rule read_item_Bytes)

lemma readItems_serializeItems_aux:
  assumes "list_all item_wf items" "length items < 65536"
  shows "serializeItems items = put32 0 @ put16 0 @ s \<longrightarrow> readItems (s @ r) = Inr (items, r)"
proof
  assume "serializeItems items = put32 0 @ put16 0 @ s"
  then have "s = put16 (of_nat (length items)) @ concat (map item_Bytes items)"
    by (simp add: serializeItems_def)
  then show "readItems (s @ r) = Inr (items, r)"
    using item_format.read_n_concat[OF assms(1), of r] assms(2)
    by (simp add: readItems_def unat_u16_of_nat)
qed

lemma drop_serializeItems:
  "drop 6 (serializeItems items) = put16 (of_nat (length items)) @ concat (map item_Bytes items)"
proof -
  have "drop 6 ((put32 0 @ put16 0) @ x) = x" for x by (subst drop_append) simp
  then show ?thesis by (simp add: serializeItems_def)
qed

section \<open>What the item layer promises\<close>

text \<open>
  C10.  Packets round trip: the item list that \<^const>\<open>serializeItems\<close> puts behind the
  interface handle and the sequence counter is read back by \<^const>\<open>readItems\<close>, item by item, and
  what follows the packet is left unread.
\<close>

theorem packet_round_trip:
  assumes "list_all item_wf items" "length items < 65536"
  shows "readItems (drop 6 (serializeItems items) @ rest) = Inr (items, rest)"
  using readItems_serializeItems_aux[OF assms, of "drop 6 (serializeItems items)" rest]
  by (simp add: drop_serializeItems) (simp add: serializeItems_def)

definition demo_items :: "CIPItem list" where
  "demo_items = [empty_item cipItem_Null, item_Write [0xCC, 0, 6] (empty_item cipItem_UnconnectedData)]"

theorem packet_round_trip_witness:
  "list_all item_wf demo_items \<and> length demo_items = 2
   \<and> readItems (drop 6 (serializeItems demo_items) @ [7]) = Inr (demo_items, [7])"
proof -
  have wf: "list_all item_wf demo_items" and n: "length demo_items = 2"
    by (simp_all add: demo_items_def item_wf_def length_ok_def empty_item_def item_Write_def)
  with packet_round_trip[of demo_items "[7]"] show ?thesis by simp
qed

text \<open>
  An item that \<^const>\<open>item_Serialize\<close> has filled is a well-formed packet item as long as its
  data fits the 16-bit length field: its data is what the arguments contribute, in order, and a
  receiver reads exactly that item off the wire.
\<close>

theorem serialized_item_received:
  assumes "item_Serialize vs (empty_item i) = Inr it" "length (Data it) < 65536"
  shows "read_item (item_Bytes it @ rest) = Inr (it, rest)
    \<and> hdr_ID (Header it) = i \<and> unat (hdr_Length (Header it)) = length (Data it)
    \<and> (\<exists>bss. list_all2 (\<lambda>v bs. item_arg_bytes v = Inr bs) vs bss \<and> Data it = concat bss)"
proof -
  have c: "length_current it"
    using item_Serialize_current[OF assms(1)] by (simp add: length_current_def empty_item_def)
  have d: "hdr_ID (Header it) = i \<and> Pos it = 0
      \<and> (\<exists>bss. list_all2 (\<lambda>v bs. item_arg_bytes v = Inr bs) vs bss \<and> Data it = concat bss)"
    using item_Serialize_Data[OF assms(1)] by (auto simp: empty_item_def)
  moreover have "item_wf it" using c d assms(2) by (simp add: item_wf_def length_ok_current)
  ultimately show ?thesis
    using read_item_Bytes c assms(2) by (auto simp: length_current_def unat_u16_of_nat)
qed

theorem serialized_item_received_witness:
  "\<exists>it. item_Serialize [VUint16 0x1234, VUint8 5] (empty_item cipItem_ConnectedData) = Inr it
     \<and> read_item (item_Bytes it @ [9]) = Inr (it, [9]) \<and> length (Data it) = 3"
proof -
  obtain it where it: "item_Serialize [VUint16 0x1234, VUint8 5] (empty_item cipItem_ConnectedData) = Inr it"
    and l: "length (Data it) = 3"
    by (simp add: binary_write_def empty_item_def item_Write_def)
  with serialized_item_received[OF it, of "[9]"] show ?thesis by simp
qed

text \<open>
  C12.  \<^const>\<open>item_DeSerialize\<close> refines reading from a byte stream: on an item whose position is
  inside its data it returns what \<^const>\<open>binary_read\<close> returns on the unread bytes, with the
  same error when they do not suffice, and leaves exactly the remaining bytes unread; the data
  itself and the header are never changed.
\<close>

theorem item_DeSerialize_refines_stream:
  assumes "pos_ok it"
  shows "case item_DeSerialize t it of
      Inl e \<Rightarrow> binary_read t (unread it) = Inl e
    | Inr (v, it') \<Rightarrow> binary_read t (unread it) = Inr (v, unread it') \<and> pos_ok it'
        \<and> Data it' = Data it \<and> Header it' = Header it"
proof (cases "sizeof t")
  case None
  then show ?thesis by (simp add: item_DeSerialize_def binary_read_def)
next
  case (Some n)
  show ?thesis
  proof (cases "item_ReadFull n it")
    case (Inl e)
    then have "read_full n (unread it) = Inl e"
      using item_ReadFull_stream[OF assms, of n] by (cases "read_full n (unread it)") auto
    then show ?thesis using Inl Some by (simp add: item_DeSerialize_def binary_read_def)
  next
    case (Inr p)
    obtain x it' where p: "p = (x, it')" by (cases p)
    with Inr have r: "item_ReadFull n it = Inr (x, it')" by simp
    then have "Data it' = Data it \<and> Header it' = Header it"
      using item_ReadFull_stream[OF assms, of n] by (auto simp: andthen_Inr_iff)
    then show ?thesis
      using r Some item_ReadFull_unread[OF assms r] by (simp add: item_DeSerialize_def binary_read_def)
  qed
qed

theorem item_DeSerialize_refines_stream_witness:
  "pos_ok \<lparr>Header = \<lparr>hdr_ID = 0xB1, hdr_Length = 3\<rparr>, Data = [1, 2, 3], Pos = 1\<rparr>
   \<and> (case item_DeSerialize TUint32 \<lparr>Header = \<lparr>hdr_ID = 0xB1, hdr_Length = 3\<rparr>, Data = [1, 2, 3], Pos = 1\<rparr> of
        Inl e \<Rightarrow> binary_read TUint32 [2, 3] = Inl e | Inr p \<Rightarrow> False)"
proof -
  have p: "pos_ok \<lparr>Header = \<lparr>hdr_ID = 0xB1, hdr_Length = 3\<rparr>, Data = [1, 2, 3], Pos = 1\<rparr>"
    by (simp add: pos_ok_def)
  have e: "binary_read TUint32 [2, 3] = Inl UnexpectedEOF"
    by (simp add: binary_read_def read_full_def)
  have "unread \<lparr>Header = \<lparr>hdr_ID = 0xB1, hdr_Length = 3\<rparr>, Data = [1, 2, 3], Pos = 1\<rparr> = [2, 3]"
    by (simp add: unread_def)
  with item_DeSerialize_refines_stream[OF p, of TUint32] e p show ?thesis
    by (auto split: sum.splits)
qed

end
