(* ===== verification/Eip_Frames.thy ===== *)
theory Eip_Frames
  imports Cip_Items
begin

text \<open>
  The encapsulation header of \<^verbatim>\<open>sendreceive.go\<close> that frames every TCP message of
  client and server, and the fixed headers of requests and replies
  (\<^verbatim>\<open>messages.go\<close>, \<^verbatim>\<open>write.go\<close>, \<^verbatim>\<open>connect.go\<close>,
  \<^verbatim>\<open>read.go\<close>) as the bytes \<^verbatim>\<open>binary.Write\<close> makes of them.
\<close>

section \<open>The encapsulation header\<close>

record eipHeader =
  eh_Command :: cip_command
  eh_Length :: u16
  eh_SessionHandle :: u32
  eh_Status :: u32
  eh_Context :: u64
  eh_Options :: u32

definition eipHeader_Bytes :: "eipHeader \<Rightarrow> bytes" where
  "eipHeader_Bytes h =
     put16 (eh_Command h) @ put16 (eh_Length h) @ put32 (eh_SessionHandle h) @ put32 (eh_Status h)
     @ put64 (eh_Context h) @ put32 (eh_Options h)"

text \<open>Fields of a struct that was read in one piece.\<close>

definition fld8 :: "nat \<Rightarrow> bytes \<Rightarrow> u8" where "fld8 k x = hd (drop k x)"
definition fld16 :: "nat \<Rightarrow> bytes \<Rightarrow> u16" where "fld16 k x = get16 (take 2 (drop k x))"
definition fld32 :: "nat \<Rightarrow> bytes \<Rightarrow> u32" where "fld32 k x = get32 (take 4 (drop k x))"
definition fld64 :: "nat \<Rightarrow> bytes \<Rightarrow> u64" where "fld64 k x = get64 (take 8 (drop k x))"

definition read_eipHeader :: "bytes \<Rightarrow> (eipHeader \<times> bytes) res" where
  "read_eipHeader r =
     andthen (read_full 24 r) (\<lambda>(x, r').
       Inr (\<lparr>eh_Command = fld16 0 x, eh_Length = fld16 2 x, eh_SessionHandle = fld32 4 x,
             eh_Status = fld32 8 x, eh_Context = fld64 12 x, eh_Options = fld32 20 x\<rparr>, r'))"

lemma length_eipHeader_Bytes [simp]: "length (eipHeader_Bytes h) = 24"
  by (simp add: eipHeader_Bytes_def)

lemma fld_here [simp]:
  "fld8 0 (b # r) = b" "fld16 0 (put16 v @ r) = v" "fld32 0 (put32 w @ r) = w" "fld64 0 (put64 x @ r) = x"
  "fld16 0 (put16 v) = v" "fld32 0 (put32 w) = w" "fld64 0 (put64 x) = x"
  by (simp_all add: fld8_def fld16_def fld32_def fld64_def)

lemma fld_skip:
  "length p \<le> k \<Longrightarrow> fld8 k (p @ r) = fld8 (k - length p) r"
  "length p \<le> k \<Longrightarrow> fld16 k (p @ r) = fld16 (k - length p) r"
  "length p \<le> k \<Longrightarrow> fld32 k (p @ r) = fld32 (k - length p) r"
  "length p \<le> k \<Longrightarrow> fld64 k (p @ r) = fld64 (k - length p) r"
  by (simp_all add: fld8_def fld16_def fld32_def fld64_def)

lemma fld_Cons:
  "0 < k \<Longrightarrow> fld8 k (b # r) = fld8 (k - 1) r"
  "0 < k \<Longrightarrow> fld16 k (b # r) = fld16 (k - 1) r"
  "0 < k \<Longrightarrow> fld32 k (b # r) = fld32 (k - 1) r"
  "0 < k \<Longrightarrow> fld64 k (b # r) = fld64 (k - 1) r"
  using fld_skip[of "[b]" k r] by simp_all

lemmas fld_simps = fld_skip fld_Cons

interpretation eip_header: sized_codec eipHeader_Bytes read_eipHeader "\<lambda>_. True" "\<lambda>_. 24"
proof unfold_locales
  fix h :: eipHeader and r
  have "read_full 24 (eipHeader_Bytes h @ r) = Inr (eipHeader_Bytes h, r)" by simp
  moreover have "fld16 0 (eipHeader_Bytes h) = eh_Command h" "fld16 2 (eipHeader_Bytes h) = eh_Length h"
    "fld32 4 (eipHeader_Bytes h) = eh_SessionHandle h" "fld32 8 (eipHeader_Bytes h) = eh_Status h"
    "fld64 12 (eipHeader_Bytes h) = eh_Context h" "fld32 20 (eipHeader_Bytes h) = eh_Options h"
    by (simp_all add: eipHeader_Bytes_def fld_simps)
  ultimately show "read_eipHeader (eipHeader_Bytes h @ r) = Inr (h, r)"
    by (simp add: read_eipHeader_def)
qed simp

lemma read_eipHeader_Inr: "read_eipHeader r = Inr (h, r') \<Longrightarrow> \<exists>x. r = x @ r' \<and> length x = 24"
  by (auto simp: read_eipHeader_def andthen_Inr_iff dest!: read_full_Inr)

section \<open>Reply headers\<close>

definition msgWriteResultHeader :: "u16 \<Rightarrow> cip_service \<Rightarrow> cip_status \<Rightarrow> u8 \<Rightarrow> bytes" where
  "msgWriteResultHeader SequenceCount Service Status StatusExtended =
     put16 SequenceCount @ [Service, 0, Status, StatusExtended]"

definition msgUnconnWriteResultHeader :: "cip_service \<Rightarrow> cip_status \<Rightarrow> u8 \<Rightarrow> bytes" where
  "msgUnconnWriteResultHeader Service Status StatusExtended = [Service, 0, Status, StatusExtended]"

definition msgMultiReadResult :: "cip_service \<Rightarrow> u16 \<Rightarrow> bytes" where
  "msgMultiReadResult Service Status = [Service, 0] @ put16 Status"

definition msgMultiReadResultTypeHdr :: "u8 \<Rightarrow> u8 \<Rightarrow> bytes" where
  "msgMultiReadResultTypeHdr Type TypeInfoLen = [Type, TypeInfoLen]"

text \<open>\<^verbatim>\<open>msgEIPForwardOpen_Standard_Reply\<close>\<close>

definition msgEIPForwardOpen_Standard_Reply ::
  "cip_service \<Rightarrow> u32 \<Rightarrow> u32 \<Rightarrow> u16 \<Rightarrow> u16 \<Rightarrow> u32 \<Rightarrow> u32 \<Rightarrow> u32 \<Rightarrow> bytes" where
  "msgEIPForwardOpen_Standard_Reply Service OT TO' Serial Vendor Originator OTApi TOApi =
     [Service, 0, CIPStatus_OK, 0] @ put32 OT @ put32 TO' @ put16 Serial @ put16 Vendor
     @ put32 Originator @ put32 OTApi @ put32 TOApi @ [0, 0]"

section \<open>Connection requests\<close>

text \<open>
  \<^verbatim>\<open>msgEIPForwardOpen_Standard\<close> and \<^verbatim>\<open>msgEIPForwardOpen_Large\<close>, which
  differ in the width of the two network parameters (kept as 32 bits here).
\<close>

record msgEIPForwardOpen =
  fo_Service :: cip_service
  fo_OTConnectionID :: u32
  fo_TOConnectionID :: u32
  fo_ConnectionSerialNumber :: u16
  fo_VendorID :: u16
  fo_OriginatorSerialNumber :: u32
  fo_Multiplier :: u32
  fo_OTRPI :: u32
  fo_OTNetworkConnParams :: u32
  fo_TORPI :: u32
  fo_TONetworkConnParams :: u32
  fo_TransportTrigger :: u8
  fo_ConnPathSize :: u8

definition read_ForwardOpen_Standard :: "bytes \<Rightarrow> (msgEIPForwardOpen \<times> bytes) res" where
  "read_ForwardOpen_Standard r =
     andthen (read_full 42 r) (\<lambda>(x, r').
       Inr (\<lparr>fo_Service = fld8 0 x, fo_OTConnectionID = fld32 8 x, fo_TOConnectionID = fld32 12 x,
             fo_ConnectionSerialNumber = fld16 16 x, fo_VendorID = fld16 18 x,
             fo_OriginatorSerialNumber = fld32 20 x, fo_Multiplier = fld32 24 x, fo_OTRPI = fld32 28 x,
             fo_OTNetworkConnParams = ucast (fld16 32 x), fo_TORPI = fld32 34 x,
             fo_TONetworkConnParams = ucast (fld16 38 x), fo_TransportTrigger = fld8 40 x,
             fo_ConnPathSize = fld8 41 x\<rparr>, r'))"

definition read_ForwardOpen_Large :: "bytes \<Rightarrow> (msgEIPForwardOpen \<times> bytes) res" where
  "read_ForwardOpen_Large r =
     andthen (read_full 46 r) (\<lambda>(x, r').
       Inr (\<lparr>fo_Service = fld8 0 x, fo_OTConnectionID = fld32 8 x, fo_TOConnectionID = fld32 12 x,
             fo_ConnectionSerialNumber = fld16 16 x, fo_VendorID = fld16 18 x,
             fo_OriginatorSerialNumber = fld32 20 x, fo_Multiplier = fld32 24 x, fo_OTRPI = fld32 28 x,
             fo_OTNetworkConnParams = fld32 32 x, fo_TORPI = fld32 36 x,
             fo_TONetworkConnParams = fld32 40 x, fo_TransportTrigger = fld8 44 x,
             fo_ConnPathSize = fld8 45 x\<rparr>, r'))"

text \<open>The fields of \<^verbatim>\<open>msgEIPForwardClose\<close> the server uses: path size and serial number.\<close>

record msgEIPForwardClose =
  fc_PathSize :: u8
  fc_ConnectionSerialNumber :: u16
  fc_ConnPathSize :: u8

definition read_ForwardClose :: "bytes \<Rightarrow> (msgEIPForwardClose \<times> bytes) res" where
  "read_ForwardClose r =
     andthen (read_full 17 r) (\<lambda>(x, r').
       Inr (\<lparr>fc_PathSize = fld8 1 x, fc_ConnectionSerialNumber = fld16 8 x, fc_ConnPathSize = fld8 16 x\<rparr>, r'))"

end
