(* ===== verification/Cip_Types.thy ===== *)
theory Cip_Types
  imports Go_Values
begin

text \<open>
  The elementary CIP data types of \<^verbatim>\<open>types.go\<close>: their codes and sizes, the CIP type
  of a Go value (\<^verbatim>\<open>GoVarToCIPType\<close>), reading one value off the wire
  (\<^verbatim>\<open>readValue\<close>) and taking one bit out of it (\<^verbatim>\<open>getBit\<close>).
\<close>

type_synonym cip_type = u8

abbreviation CIPTypeUnknown :: cip_type where "CIPTypeUnknown \<equiv> 0"
abbreviation CIPTypeStruct :: cip_type where "CIPTypeStruct \<equiv> 0xA0"
abbreviation CIPTypeUTIME :: cip_type where "CIPTypeUTIME \<equiv> 0xC0"
abbreviation CIPTypeBOOL :: cip_type where "CIPTypeBOOL \<equiv> 0xC1"
abbreviation CIPTypeSINT :: cip_type where "CIPTypeSINT \<equiv> 0xC2"
abbreviation CIPTypeINT :: cip_type where "CIPTypeINT \<equiv> 0xC3"
abbreviation CIPTypeDINT :: cip_type where "CIPTypeDINT \<equiv> 0xC4"
abbreviation CIPTypeLINT :: cip_type where "CIPTypeLINT \<equiv> 0xC5"
abbreviation CIPTypeUSINT :: cip_type where "CIPTypeUSINT \<equiv> 0xC6"
abbreviation CIPTypeUINT :: cip_type where "CIPTypeUINT \<equiv> 0xC7"
abbreviation CIPTypeUDINT :: cip_type where "CIPTypeUDINT \<equiv> 0xC8"
abbreviation CIPTypeULINT :: cip_type where "CIPTypeULINT \<equiv> 0xC9"
abbreviation CIPTypeREAL :: cip_type where "CIPTypeREAL \<equiv> 0xCA"
abbreviation CIPTypeLREAL :: cip_type where "CIPTypeLREAL \<equiv> 0xCB"
abbreviation CIPTypeDATE :: cip_type where "CIPTypeDATE \<equiv> 0xCD"
abbreviation CIPTypeTIMEOFDAY :: cip_type where "CIPTypeTIMEOFDAY \<equiv> 0xCE"
abbreviation CIPTypeDATETIME :: cip_type where "CIPTypeDATETIME \<equiv> 0xCF"
abbreviation CIPTypeBYTE :: cip_type where "CIPTypeBYTE \<equiv> 0xD1"
abbreviation CIPTypeWORD :: cip_type where "CIPTypeWORD \<equiv> 0xD2"
abbreviation CIPTypeDWORD :: cip_type where "CIPTypeDWORD \<equiv> 0xD3"
abbreviation CIPTypeLWORD :: cip_type where "CIPTypeLWORD \<equiv> 0xD4"
abbreviation CIPTypeSTRING :: cip_type where "CIPTypeSTRING \<equiv> 0xFF"

section \<open>Sizes\<close>

definition CIPType_Size :: "cip_type \<Rightarrow> nat" where
  "CIPType_Size c =
     (if c = CIPTypeUnknown then 0
      else if c = CIPTypeStruct then 88
      else if c = CIPTypeUTIME then 8
      else if c = CIPTypeBOOL then 1
      else if c = CIPTypeBYTE then 1
      else if c = CIPTypeSINT then 1
      else if c = CIPTypeINT then 2
      else if c = CIPTypeDINT then 4
      else if c = CIPTypeLINT then 8
      else if c = CIPTypeUSINT then 1
      else if c = CIPTypeUINT then 2
      else if c = CIPTypeUDINT then 4
      else if c = CIPTypeULINT then 8
      else if c = CIPTypeLWORD then 8
      else if c = CIPTypeREAL then 4
      else if c = CIPTypeLREAL then 8
      else if c = CIPTypeWORD then 2
      else if c = CIPTypeDWORD then 4
      else if c = CIPTypeDATE then 2
      else if c = CIPTypeTIMEOFDAY then 6
      else if c = CIPTypeDATETIME then 0
      else if c = CIPTypeSTRING then 90
      else 0)"

definition CIPType_NewBuffer :: "cip_type \<Rightarrow> bytes" where
  "CIPType_NewBuffer c = replicate (CIPType_Size c) 0"

definition CIPType_IsAtomic :: "cip_type \<Rightarrow> bool" where
  "CIPType_IsAtomic t = (t \<le> 254)"

section \<open>The CIP type of a Go value\<close>

text \<open>
  The type switch of \<^verbatim>\<open>GoVarToCIPType\<close> lists scalars and slices of scalars; what it
  does not list goes through reflection, where only structs and slices or arrays of structs are
  recognised.  A pointer to a scalar is treated as the scalar.
\<close>

fun is_struct_type :: "gotype \<Rightarrow> bool" where
  "is_struct_type (TStruct _ _) = True"
| "is_struct_type _ = False"

fun scalar_cip_type :: "gotype \<Rightarrow> cip_type option" where
  "scalar_cip_type TUint8 = Some CIPTypeBYTE"
| "scalar_cip_type TInt8 = Some CIPTypeSINT"
| "scalar_cip_type TUint16 = Some CIPTypeUINT"
| "scalar_cip_type TInt16 = Some CIPTypeINT"
| "scalar_cip_type TUint32 = Some CIPTypeUDINT"
| "scalar_cip_type TUint = Some CIPTypeUDINT"
| "scalar_cip_type TInt32 = Some CIPTypeDINT"
| "scalar_cip_type TInt = Some CIPTypeDINT"
| "scalar_cip_type TUint64 = Some CIPTypeLWORD"
| "scalar_cip_type TInt64 = Some CIPTypeLINT"
| "scalar_cip_type TFloat32 = Some CIPTypeREAL"
| "scalar_cip_type TFloat64 = Some CIPTypeLREAL"
| "scalar_cip_type TString = Some CIPTypeSTRING"
| "scalar_cip_type _ = None"

fun GoVarToCIPType :: "goval \<Rightarrow> cip_type \<times> nat" where
  "GoVarToCIPType (VBool _) = (CIPTypeBOOL, 1)"
| "GoVarToCIPType (VSlice t vs) =
     (case scalar_cip_type t of
        Some c \<Rightarrow> (c, length vs)
      | None \<Rightarrow> if is_struct_type t then (CIPTypeStruct, length vs) else (CIPTypeUnknown, 1))"
| "GoVarToCIPType (VArray t vs) =
     (if is_struct_type t then (CIPTypeStruct, length vs) else (CIPTypeUnknown, 1))"
| "GoVarToCIPType (VStruct n fs) = (CIPTypeStruct, 1)"
| "GoVarToCIPType (VErr e) = (CIPTypeStruct, 1)"
| "GoVarToCIPType (VSer bs) = (CIPTypeUnknown, 1)"
| "GoVarToCIPType VNil = (CIPTypeUnknown, 1)"
| "GoVarToCIPType v =
     (case scalar_cip_type (typeof v) of Some c \<Rightarrow> (c, 1) | None \<Rightarrow> (CIPTypeUnknown, 1))"

section \<open>Reading one value\<close>

text \<open>The Go type \<^verbatim>\<open>readValue\<close> decodes a CIP type into; \<^const>\<open>None\<close> where it returns an error.\<close>

definition readValue_type :: "cip_type \<Rightarrow> gotype option" where
  "readValue_type t =
     (if t = CIPTypeBOOL then Some TBool
      else if t = CIPTypeBYTE then Some TUint8
      else if t = CIPTypeSINT then Some TInt8
      else if t = CIPTypeINT then Some TInt16
      else if t = CIPTypeDINT then Some TInt32
      else if t = CIPTypeLINT then Some TInt64
      else if t = CIPTypeUSINT then Some TUint8
      else if t = CIPTypeUINT then Some TUint16
      else if t = CIPTypeUDINT then Some TUint32
      else if t = CIPTypeLWORD then Some TUint64
      else if t = CIPTypeREAL then Some TFloat32
      else if t = CIPTypeLREAL then Some TFloat64
      else if t = CIPTypeWORD then Some TUint16
      else if t = CIPTypeDWORD then Some TUint32
      else if t = CIPTypeSTRING then Some (TArray 86 TUint8)
      else None)"

definition readValue :: "cip_type \<Rightarrow> bytes \<Rightarrow> (goval \<times> bytes) res" where
  "readValue t r =
     (if t = CIPTypeUnknown then Inl (Msg ''unknown type'')
      else if t = CIPTypeStruct then Inl (Msg ''don't know what to do with a struct'')
      else case readValue_type t of
        None \<Rightarrow> Inl (Msg ''default (unknown) type'')
      | Some g \<Rightarrow> attempt ''problem reading'' (binary_read g r) Inr)"

text \<open>Reading \<open>n\<close> values in a row, as the loops over elements do.\<close>

fun readValues :: "nat \<Rightarrow> cip_type \<Rightarrow> bytes \<Rightarrow> (goval list \<times> bytes) res" where
  "readValues 0 t r = Inr ([], r)"
| "readValues (Suc n) t r =
     andthen (readValue t r) (\<lambda>(v, r'). andthen (readValues n t r') (\<lambda>(vs, r''). Inr (v # vs, r'')))"

section \<open>One bit of a value\<close>

definition mask_bit :: "'a::len word \<Rightarrow> nat \<Rightarrow> bool" where
  "mask_bit x n = (x AND push_bit n 1 \<noteq> 0)"

text \<open>
  One integer case of \<^verbatim>\<open>getBit\<close>: out of range leaves \<^verbatim>\<open>err\<close> nil and
  returns \<^verbatim>\<open>false, nil\<close>; in range, a failed type assertion is the error.
\<close>

definition getBit_case :: "int \<Rightarrow> nat \<Rightarrow> string \<Rightarrow> (nat \<Rightarrow> bool) option \<Rightarrow> bool res" where
  "getBit_case bitpos width msg asserted =
     (if 0 \<le> bitpos \<and> bitpos < int width
      then (case asserted of Some f \<Rightarrow> Inr (f (nat bitpos)) | None \<Rightarrow> Inl (Msg msg))
      else Inr False)"

definition as_byte :: "goval \<Rightarrow> (nat \<Rightarrow> bool) option" where
  "as_byte v = (case v of VUint8 x \<Rightarrow> Some (mask_bit x) | _ \<Rightarrow> None)"

definition getBit :: "cip_type \<Rightarrow> goval \<Rightarrow> int \<Rightarrow> bool res" where
  "getBit t v bitpos =
     (if t = CIPTypeUnknown then Inl (Msg ''unknown type'')
      else if t = CIPTypeStruct then Inl (Msg ''got a struct - can't get a bit'')
      else if t = CIPTypeBOOL then
        (if bitpos = 0 then (case v of VBool x \<Rightarrow> Inr x | _ \<Rightarrow> Inl (Msg ''value was a bool'')) else Inr False)
      else if t = CIPTypeBYTE then getBit_case bitpos 8 ''value was a byte'' (as_byte v)
      else if t = CIPTypeSINT then getBit_case bitpos 8 ''value was a SINT'' (as_byte v)
      else if t = CIPTypeINT then
        getBit_case bitpos 16 ''value was an INT'' (case v of VInt16 x \<Rightarrow> Some (mask_bit x) | _ \<Rightarrow> None)
      else if t = CIPTypeDINT then
        getBit_case bitpos 32 ''value was a DINT'' (case v of VInt32 x \<Rightarrow> Some (mask_bit x) | _ \<Rightarrow> None)
      else if t = CIPTypeLINT then
        getBit_case bitpos 64 ''value was a LINT'' (case v of VInt64 x \<Rightarrow> Some (mask_bit x) | _ \<Rightarrow> None)
      else if t = CIPTypeUSINT then getBit_case bitpos 8 ''value was a USINT'' (as_byte v)
      else if t = CIPTypeUINT then
        getBit_case bitpos 16 ''value was an UINT'' (case v of VUint16 x \<Rightarrow> Some (mask_bit x) | _ \<Rightarrow> None)
      else if t = CIPTypeUDINT then
        getBit_case bitpos 32 ''value was a UDINT'' (case v of VUint32 x \<Rightarrow> Some (mask_bit x) | _ \<Rightarrow> None)
      else if t = CIPTypeLWORD then
        getBit_case bitpos 64 ''value was a LWORD'' (case v of VUint64 x \<Rightarrow> Some (mask_bit x) | _ \<Rightarrow> None)
      else if t = CIPTypeREAL then Inl (Msg ''value was a REAL, not finding bit of real'')
      else if t = CIPTypeLREAL then Inl (Msg ''value was a LEAL, not finding bit of real'')
      else if t = CIPTypeWORD then
        getBit_case bitpos 16 ''value was an WORD'' (case v of VUint16 x \<Rightarrow> Some (mask_bit x) | _ \<Rightarrow> None)
      else if t = CIPTypeDWORD then
        getBit_case bitpos 32 ''value was a DWORD'' (case v of VUint32 x \<Rightarrow> Some (mask_bit x) | _ \<Rightarrow> None)
      else if t = CIPTypeSTRING then Inl (Msg ''value was a STRING, not finding bit of string'')
      else Inl (Msg ''got an unknown type. don't know how to get bit''))"

section \<open>Facts\<close>

lemma readValue_type_cases:
  "readValue_type t = Some g \<Longrightarrow>
     t \<in> {CIPTypeBOOL, CIPTypeBYTE, CIPTypeSINT, CIPTypeINT, CIPTypeDINT, CIPTypeLINT, CIPTypeUSINT,
       CIPTypeUINT, CIPTypeUDINT, CIPTypeLWORD, CIPTypeREAL, CIPTypeLREAL, CIPTypeWORD, CIPTypeDWORD,
       CIPTypeSTRING}"
  by (simp add: readValue_type_def split: if_splits)

lemma readValue_type_sizeof: "readValue_type t = Some g \<Longrightarrow> \<exists>n. sizeof g = Some n"
  by (auto simp: readValue_type_def split: if_splits)

lemma readValue_type_not_special:
  "readValue_type t = Some g \<Longrightarrow> t \<noteq> CIPTypeUnknown \<and> t \<noteq> CIPTypeStruct"
  by (auto simp: readValue_type_def)

lemma readValue_enc:
  assumes "readValue_type t = Some (typeof v)" and "wt v"
  shows "readValue t (enc_fixed v @ r) = Inr (v, r)"
proof -
  obtain n where "sizeof (typeof v) = Some n" using readValue_type_sizeof assms(1) by blast
  then show ?thesis
    using binary_read_write assms readValue_type_not_special[OF assms(1)]
    by (simp add: readValue_def)
qed

lemma readValues_enc:
  assumes "\<forall>v\<in>set vs. readValue_type t = Some (typeof v) \<and> wt v"
  shows "readValues (length vs) t (concat (map enc_fixed vs) @ r) = Inr (vs, r)"
  using assms by (induction vs) (auto simp: readValue_enc)

lemma mask_bit_bit: "mask_bit x n = bit x n"
  by (simp only: mask_bit_def and_push_bit_one)

lemma getBit_case_in_range: "0 \<le> i \<Longrightarrow> i < int w \<Longrightarrow> getBit_case i w m (Some f) = Inr (f (nat i))"
  by (simp add: getBit_case_def)

lemma CIPType_Size_readable:
  assumes "readValue_type t = Some g" "t \<noteq> CIPTypeSTRING"
  shows "sizeof g = Some (CIPType_Size t)"
  using readValue_type_cases[OF assms(1)] assms
  by (elim insertE emptyE) (simp_all add: readValue_type_def CIPType_Size_def)

section \<open>What the type layer promises\<close>

text \<open>
  An array of values of one CIP type, encoded element after element, is read back by reading
  that many values, and reading takes \<^const>\<open>CIPType_Size\<close> bytes per element; only strings,
  whose size also counts the four bytes of the structure header, are an exception.
\<close>

theorem readValues_round_trip:
  assumes "\<forall>v\<in>set vs. readValue_type t = Some (typeof v) \<and> wt v"
  shows "readValues (length vs) t (concat (map enc_fixed vs) @ rest) = Inr (vs, rest)
    \<and> (t \<noteq> CIPTypeSTRING \<longrightarrow> length (concat (map enc_fixed vs)) = length vs * CIPType_Size t)"
proof -
  have "length (enc_fixed v) = CIPType_Size t" if "v \<in> set vs" "t \<noteq> CIPTypeSTRING" for v
    using length_enc_fixed[of v] CIPType_Size_readable[of t "typeof v"] assms that by simp
  then show ?thesis
    using readValues_enc[OF assms] length_concat_const[of vs enc_fixed "CIPType_Size t"] by simp
qed

theorem readValues_round_trip_witness:
  "readValues (Suc (Suc 0)) CIPTypeDINT (concat (map enc_fixed [VInt32 5, VInt32 (-1)]) @ [3])
     = Inr ([VInt32 5, VInt32 (-1)], [3])
   \<and> length (concat (map enc_fixed [VInt32 5, VInt32 (-1)])) = 2 * CIPType_Size CIPTypeDINT"
  using readValues_round_trip[of "[VInt32 5, VInt32 (-1)]" CIPTypeDINT "[3]"]
  by (simp add: readValue_type_def CIPType_Size_def)

text \<open>
  \<^const>\<open>getBit\<close> on a value read off the wire is the bit of the number: for the integer
  types whose Go value has the asserted type, every position inside the width gives that bit of
  the two's complement representation.
\<close>

theorem getBit_is_bit:
  "(0 \<le> i \<and> i < 8 \<longrightarrow> getBit CIPTypeBYTE (VUint8 b) i = Inr (bit b (nat i))
     \<and> getBit CIPTypeUSINT (VUint8 b) i = Inr (bit b (nat i)))
   \<and> (0 \<le> i \<and> i < 16 \<longrightarrow> getBit CIPTypeINT (VInt16 w) i = Inr (bit w (nat i))
     \<and> getBit CIPTypeUINT (VUint16 w) i = Inr (bit w (nat i))
     \<and> getBit CIPTypeWORD (VUint16 w) i = Inr (bit w (nat i)))
   \<and> (0 \<le> i \<and> i < 32 \<longrightarrow> getBit CIPTypeDINT (VInt32 d) i = Inr (bit d (nat i))
     \<and> getBit CIPTypeUDINT (VUint32 d) i = Inr (bit d (nat i))
     \<and> getBit CIPTypeDWORD (VUint32 d) i = Inr (bit d (nat i)))
   \<and> (0 \<le> i \<and> i < 64 \<longrightarrow> getBit CIPTypeLINT (VInt64 l) i = Inr (bit l (nat i))
     \<and> getBit CIPTypeLWORD (VUint64 l) i = Inr (bit l (nat i)))"
  by (auto simp: getBit_def as_byte_def getBit_case_in_range mask_bit_bit)

theorem getBit_is_bit_witness:
  "getBit CIPTypeDINT (VInt32 6) 2 = Inr True \<and> getBit CIPTypeDINT (VInt32 6) 3 = Inr False"
  using getBit_is_bit[of 2 0 0 6 0] getBit_is_bit[of 3 0 0 6 0] by simp

text \<open>
  Bit access to a \<^verbatim>\<open>SINT\<close> never works: \<^const>\<open>readValue\<close> produces a signed
  byte for it, while \<^const>\<open>getBit\<close> asserts an unsigned one, so every bit of every
  \<^verbatim>\<open>SINT\<close> read off the wire is answered with an error.
\<close>

theorem getBit_SINT_always_fails:
  assumes "readValue CIPTypeSINT r = Inr (v, r')" "0 \<le> i" "i < 8"
  shows "getBit CIPTypeSINT v i = Inl (Msg ''value was a SINT'')"
proof -
  from assms(1) obtain x where "v = fst (dec_fixed TInt8 x)"
    by (auto simp: readValue_def readValue_type_def binary_read_def attempt_Inr_iff andthen_Inr_iff)
  then have "v = VInt8 (hd x)" by simp
  then show ?thesis using assms by (simp add: getBit_def as_byte_def getBit_case_def)
qed

theorem getBit_SINT_always_fails_witness:
  "readValue CIPTypeSINT [5, 1] = Inr (VInt8 5, [1])
   \<and> getBit CIPTypeSINT (VInt8 5) 0 = Inl (Msg ''value was a SINT'')"
proof -
  have "readValue CIPTypeSINT [5, 1] = Inr (VInt8 5, [1])"
    by (simp add: readValue_def readValue_type_def binary_read_def read_full_def)
  with getBit_SINT_always_fails[OF this, of 0] show ?thesis by simp
qed

end
