(* ===== verification/Known_Types.thy ===== *)
theory Known_Types
  imports Cip_Types
begin

text \<open>
  What the client learns about a controller's tags and structures: \<^verbatim>\<open>TagInfo\<close> of
  \<^verbatim>\<open>listalltags.go\<close> and the descriptors of \<^verbatim>\<open>listmembers.go\<close>.
\<close>

unbundle bit_operations_syntax

section \<open>The type word of a symbol\<close>

record TagInfo =
  tg_Type :: cip_type
  tg_TypeInfo :: u8
  tg_Dimension1 :: u32
  tg_Dimension2 :: u32
  tg_Dimension3 :: u32

definition tg_word :: "TagInfo \<Rightarrow> u16" where
  "tg_word f = get16 [tg_Type f, tg_TypeInfo f]"

definition PreDefined :: "TagInfo \<Rightarrow> bool" where
  "PreDefined f \<longleftrightarrow> tg_word f AND 0x0FFF \<le> 0x0100"

definition Atomic :: "TagInfo \<Rightarrow> bool" where
  "Atomic f \<longleftrightarrow> tg_word f AND 0x9000 = 0"

text \<open>Bit 15 set and bit 12 clear say that the low twelve bits are the number of a template.\<close>

definition template_of :: "u16 \<Rightarrow> u16" where
  "template_of val = (if val AND 0x8000 = 0 \<or> val AND 0x1000 \<noteq> 0 then 0 else val AND 0x0FFF)"

definition Template_ID :: "TagInfo \<Rightarrow> u16" where
  "Template_ID f = template_of (tg_word f)"

section \<open>Templates\<close>

record msgGetTemplateAttrListResponse =
  ta_SequenceCount :: u16
  ta_Service :: u8
  ta_Reserved :: u8
  ta_Status :: u8
  ta_Status_extended :: u8
  ta_Count :: u16
  ta_SizeWords_ID :: u16
  ta_SizeWords_Status :: u16
  ta_SizeWords :: u32
  ta_SizeBytes_ID :: u16
  ta_SizeBytes_Status :: u16
  ta_SizeBytes :: u32
  ta_MemberCount_ID :: u16
  ta_MemberCount_Status :: u16
  ta_MemberCount :: u16
  ta_Handle_ID :: u16
  ta_Handle_Status :: u16
  ta_Handle :: u16

record msgMemberInfo =
  mi_Info :: u16
  mi_Type :: u16
  mi_Offset :: u32

definition mi_CIPType :: "msgMemberInfo \<Rightarrow> cip_type" where
  "mi_CIPType m = ucast (mi_Type m AND 0x00FF)"

datatype UDTDescriptor =
    UDTDescriptor (ud_Instance_ID: u32) (ud_Name: string) (ud_Info: msgGetTemplateAttrListResponse)
      (ud_Members: "UDTMemberDescriptor list")
  and UDTMemberDescriptor =
    UDTMemberDescriptor (um_Name: string) (um_Info: msgMemberInfo) (um_UDT: "UDTDescriptor option")

definition member_Template_ID :: "msgMemberInfo \<Rightarrow> u16" where
  "member_Template_ID m = template_of (mi_Type m)"

text \<open>The largest end of a member, in 32-bit arithmetic.\<close>

definition member_end :: "UDTMemberDescriptor \<Rightarrow> u32" where
  "member_end m = mi_Offset (um_Info m) + of_nat (CIPType_Size (mi_CIPType (um_Info m)))"

definition UDT_Size :: "UDTDescriptor \<Rightarrow> nat" where
  "UDT_Size u = unat (fold (\<lambda>m maxsize. if member_end m > maxsize then member_end m else maxsize) (ud_Members u) 0)"

end
