(* ===== verification/Cip_Ioi.thy ===== *)
theory Cip_Ioi
  imports Cip_Items Known_Types
begin

text \<open>
  \<^verbatim>\<open>ioi.go\<close>: a tag name is parsed into parts, each part becomes a symbolic segment
  followed by element segments, and the server turns the bytes back into a tag name.  With
  \<^verbatim>\<open>KnownTag\<close> and \<^verbatim>\<open>KnownProgram\<close> of \<^verbatim>\<open>client.go\<close>, whose
  instance paths replace the name where that is shorter, and the client's cache of finished
  paths.
\<close>

section \<open>Parsing one part of a tag name\<close>

record tagPartDescriptor =
  FullPath :: string
  BasePath :: string
  Array_Order :: "int list"
  BitNumber :: int
  BitAccess :: bool

text \<open>The text the regular expression \<^verbatim>\<open>\.\d+$\<close> matches, without the dot.\<close>

definition bit_access_text :: "string \<Rightarrow> string option" where
  "bit_access_text s =
     (let ds = rev (takeWhile is_digit (rev s)); p = take (length s - length ds) s
      in if ds \<noteq> [] \<and> p \<noteq> [] \<and> last p = CHR ''.'' then Some ds else None)"

definition is_space :: "char \<Rightarrow> bool" where
  "is_space c = (c \<in> {CHR 0x09, CHR 0x0A, CHR 0x0C, CHR 0x0D, CHR '' ''})"

definition index_char :: "char \<Rightarrow> bool" where
  "index_char c = (is_digit c \<or> c = CHR '','' \<or> is_space c)"

text \<open>The text between the brackets of \<^verbatim>\<open>\[([\d]|[,]|[\s])*\]$\<close>.\<close>

definition arr_access_text :: "string \<Rightarrow> string option" where
  "arr_access_text s =
     (if has_suffix_char s CHR '']'' then
        let b = butlast s; t = rev (takeWhile index_char (rev b)); p = take (length b - length t) b
        in if p \<noteq> [] \<and> last p = CHR ''['' then Some t else None
      else None)"

fun atoi_list :: "string list \<Rightarrow> int list res" where
  "atoi_list [] = Inr []"
| "atoi_list (p # ps) =
     (case atoi p of
        None \<Rightarrow> Inl (Msg ''could't parse to an array position'')
      | Some i \<Rightarrow> andthen (atoi_list ps) (\<lambda>is. Inr (i # is)))"

definition parse_tag_name :: "string \<Rightarrow> tagPartDescriptor res" where
  "parse_tag_name tagpath =
     (let bit = bit_access_text tagpath;
          base1 = (case bit of None \<Rightarrow> tagpath | Some t \<Rightarrow> remove_all t tagpath);
          bitno = (case bit of None \<Rightarrow> Inr 0
                   | Some t \<Rightarrow> (case atoi t of None \<Rightarrow> Inl (Msg ''could't parse to a bit portion of tag'')
                                | Some i \<Rightarrow> Inr i))
      in andthen bitno (\<lambda>bn.
           case arr_access_text tagpath of
             None \<Rightarrow> Inr \<lparr>FullPath = tagpath, BasePath = base1, Array_Order = [],
                          BitNumber = bn, BitAccess = (bit \<noteq> None)\<rparr>
           | Some t \<Rightarrow>
               andthen (atoi_list (if CHR '','' \<in> set t then strings_split CHR '','' t else [t])) (\<lambda>is.
                 Inr \<lparr>FullPath = tagpath, BasePath = remove_all t base1, Array_Order = is,
                      BitNumber = bn, BitAccess = (bit \<noteq> None)\<rparr>)))"

definition marshalIOIPart :: "string \<Rightarrow> bytes res" where
  "marshalIOIPart tagpath =
     attempt ''could not parse tag path'' (parse_tag_name tagpath) (\<lambda>t.
       let tag_size = length (BasePath t) in
       Inr ([0x91, of_nat tag_size] @ to_bytes (BasePath t) @ (if odd tag_size then [0] else [])))"

section \<open>Building a path from a tag name\<close>

record tagIOI =
  ioi_Path :: string
  ioi_Type :: cip_type
  ioi_BitAccess :: bool
  ioi_BitPosition :: int
  ioi_Buffer :: bytes

definition ioi_Write :: "bytes \<Rightarrow> tagIOI \<Rightarrow> tagIOI" where
  "ioi_Write p ioi = ioi\<lparr>ioi_Buffer := ioi_Buffer ioi @ p\<rparr>"

definition index_bytes :: "int \<Rightarrow> bytes" where
  "index_bytes orderSize =
     (if orderSize < 256 then [0x28, of_int orderSize]
      else if orderSize < 65536 then put16 0x29 @ put16 (of_int orderSize)
      else put16 0x2A @ put32 (of_int orderSize))"

definition appendIOIPart :: "string \<Rightarrow> tagIOI \<Rightarrow> tagIOI res" where
  "appendIOIPart tagPart ioi =
     (if tagPart = [] then Inr ioi
      else if has_suffix_char tagPart CHR '']'' then
        let startIndex = (case strings_Index tagPart CHR ''['' of None \<Rightarrow> length tagPart | Some i \<Rightarrow> i) in
        andthen (if startIndex > 0
                 then andthen (marshalIOIPart (take startIndex tagPart)) (\<lambda>b. Inr (ioi_Write b ioi))
                 else Inr ioi) (\<lambda>ioi1.
        attempt ''problem parsing path'' (parse_tag_name tagPart) (\<lambda>t.
          if ioi_Type ioi1 = CIPTypeBOOL \<and> Array_Order t \<noteq> [] then
            let bitIndex = last (Array_Order t);
                order = butlast (Array_Order t) @ [bitIndex div 32]
            in Inr (ioi_Write (concat (map index_bytes order))
                     (ioi1\<lparr>ioi_BitAccess := True, ioi_BitPosition := bitIndex mod 32\<rparr>))
          else Inr (ioi_Write (concat (map index_bytes (Array_Order t))) ioi1)))
      else
        case atoi tagPart of
          Some bitAccess \<Rightarrow>
            (if bitAccess \<le> 31 then Inr (ioi\<lparr>ioi_BitAccess := True, ioi_BitPosition := bitAccess\<rparr>)
             else andthen (marshalIOIPart tagPart) (\<lambda>b. Inr (ioi_Write b ioi)))
        | None \<Rightarrow> andthen (marshalIOIPart tagPart) (\<lambda>b. Inr (ioi_Write b ioi)))"

fun appendIOIParts :: "string list \<Rightarrow> tagIOI \<Rightarrow> tagIOI res" where
  "appendIOIParts [] ioi = Inr ioi"
| "appendIOIParts (p # ps) ioi = andthen (appendIOIPart p ioi) (appendIOIParts ps)"

definition new_ioi :: "string \<Rightarrow> cip_type \<Rightarrow> bytes \<Rightarrow> tagIOI" where
  "new_ioi tagpath datatype buf =
     \<lparr>ioi_Path = tagpath, ioi_Type = datatype, ioi_BitAccess = False, ioi_BitPosition = 0,
      ioi_Buffer = buf\<rparr>"

definition newSymbolicIOI :: "string \<Rightarrow> cip_type \<Rightarrow> tagIOI res" where
  "newSymbolicIOI tagpath datatype =
     appendIOIParts (strings_split CHR ''.'' tagpath) (new_ioi tagpath datatype [])"

section \<open>Tags known by their instance number\<close>

record KnownProgram =
  kp_Name :: string
  kp_ID :: cip_instance

definition KnownProgram_Bytes :: "KnownProgram \<Rightarrow> bytes" where
  "KnownProgram_Bytes kp =
     (if kp_ID kp = 0
      then (case marshalIOIPart (''Program:'' @ kp_Name kp) of Inl _ \<Rightarrow> [] | Inr x \<Rightarrow> x)
      else CIPClass_Bytes CipObject_Programs @ CIPInstance_Bytes (kp_ID kp))"

record KnownTag =
  kt_Name :: string
  kt_Info :: TagInfo
  kt_Instance :: cip_instance
  kt_Array_Order :: "int list"
  kt_UDT :: "UDTDescriptor option"
  kt_Parent :: "KnownProgram option"
  kt_DataTableID :: u32

definition KnownTag_Bytes :: "KnownTag \<Rightarrow> bytes" where
  "KnownTag_Bytes t =
     (case kt_Parent t of None \<Rightarrow> [] | Some kp \<Rightarrow> KnownProgram_Bytes kp)
     @ CIPClass_Bytes CipObject_Symbol @ CIPInstance_Bytes (kt_Instance t)"

definition is_bit_part :: "string \<Rightarrow> bool" where
  "is_bit_part part = (case atoi part of Some i \<Rightarrow> i \<le> 31 | None \<Rightarrow> False)"

fun candidate_parts :: "string list \<Rightarrow> string list res" where
  "candidate_parts [] = Inr []"
| "candidate_parts (part # ps) =
     (if is_bit_part part then candidate_parts ps
      else andthen (parse_tag_name part) (\<lambda>parsed.
        andthen (candidate_parts ps) (\<lambda>rest.
          Inr (if BasePath parsed \<noteq> [] then BasePath parsed # rest else rest))))"

definition trim_prefix :: "string \<Rightarrow> string \<Rightarrow> string" where
  "trim_prefix s p = (if take (length p) s = p then drop (length p) s else s)"

fun find_known_from ::
  "(string \<rightharpoonup> KnownTag) \<Rightarrow> string \<Rightarrow> string list \<Rightarrow> nat \<Rightarrow> (KnownTag \<times> string) option res" where
  "find_known_from known tagpath rawParts 0 = Inr None"
| "find_known_from known tagpath rawParts (Suc e) =
     andthen (candidate_parts (take (Suc e) rawParts)) (\<lambda>cs.
       if cs = [] then find_known_from known tagpath rawParts e
       else let candidate = strings_join CHR ''.'' cs in
         case known candidate of
           Some t \<Rightarrow> Inr (Some (t, trim_prefix tagpath candidate))
         | None \<Rightarrow> find_known_from known tagpath rawParts e)"

definition findKnownTagPrefix ::
  "(string \<rightharpoonup> KnownTag) \<Rightarrow> string \<Rightarrow> (KnownTag \<times> string) option res" where
  "findKnownTagPrefix known tagpath =
     (let rawParts = strings_split CHR ''.'' tagpath
      in find_known_from known tagpath rawParts (length rawParts))"

definition newKnownTagIOI :: "(string \<rightharpoonup> KnownTag) \<Rightarrow> string \<Rightarrow> cip_type \<Rightarrow> tagIOI option res" where
  "newKnownTagIOI known tagpath datatype =
     andthen (findKnownTagPrefix known tagpath) (\<lambda>f.
       case f of
         None \<Rightarrow> Inr None
       | Some (t, remainder) \<Rightarrow>
           if tg_Type (kt_Info t) = CIPTypeStruct \<and> kt_Array_Order t \<noteq> [] then Inr None
           else
             let ioi = new_ioi tagpath datatype (KnownTag_Bytes t); rem = trim_prefix remainder ''.'' in
             if rem = [] then Inr (Some ioi)
             else andthen (appendIOIParts (strings_split CHR ''.'' rem) ioi) (\<lambda>i. Inr (Some i)))"

section \<open>The client's cache of paths\<close>

type_synonym ioi_cache = "string \<rightharpoonup> tagIOI"

text \<open>
  \<^verbatim>\<open>newIOI\<close>; \<open>fw\<close> is what \<^verbatim>\<open>client.firmware()\<close> returns.  The
  result is the path and the cache afterwards.
\<close>

definition newIOI ::
  "(string \<rightharpoonup> KnownTag) \<Rightarrow> int \<Rightarrow> string \<Rightarrow> cip_type \<Rightarrow> ioi_cache \<Rightarrow> (tagIOI \<times> ioi_cache) res" where
  "newIOI known fw tagpath0 datatype cache =
     (let tagpath = strings_ToLower tagpath0;
          fallback = (case cache tagpath of
              Some cached \<Rightarrow> Inr (cached, cache)
            | None \<Rightarrow> andthen (newSymbolicIOI tagpath datatype) (\<lambda>ioi.
                        Inr (ioi, cache(tagpath \<mapsto> ioi))))
      in if fw > 20 then
           andthen (newKnownTagIOI known tagpath datatype) (\<lambda>k.
             case k of
               None \<Rightarrow> fallback
             | Some knownIOI \<Rightarrow>
                 andthen (case cache tagpath of Some c \<Rightarrow> Inr c | None \<Rightarrow> newSymbolicIOI tagpath datatype) (\<lambda>cached.
                   if length (ioi_Buffer knownIOI) < length (ioi_Buffer cached)
                   then Inr (knownIOI, cache(tagpath \<mapsto> knownIOI))
                   else fallback))
         else fallback)"

section \<open>From bytes back to a tag name\<close>

definition getAsciiTagPart :: "bytes \<Rightarrow> (string \<times> bytes) res" where
  "getAsciiTagPart r =
     attempt ''problem getting tag len'' (rd8 r) (\<lambda>(tag_len, r1).
       attempt ''problem reading tag path'' (read_full (unat tag_len) r1) (\<lambda>(b, r2).
         if odd (unat tag_len)
         then attempt ''problem reading pad byte'' (rd8 r2) (\<lambda>(_, r3). Inr (of_bytes b, r3))
         else Inr (of_bytes b, r2)))"

definition add_index :: "string \<Rightarrow> nat \<Rightarrow> string res" where
  "add_index tag_str i =
     (if tag_str = [] then Inl (Panic ''index out of range [-1]'')
      else if last tag_str = CHR '']''
      then Inr (butlast tag_str @ '','' @ itoa i @ '']'')
      else Inr (tag_str @ ''['' @ itoa i @ '']''))"

definition add_name :: "string \<Rightarrow> string \<Rightarrow> string" where
  "add_name tag_str s = (if tag_str = [] then s else tag_str @ ''.'' @ s)"

lemma rd8_shorter: "rd8 r = Inr (x, r') \<Longrightarrow> length r' < length r"
  by (auto simp: rd8_def andthen_Inr_iff dest!: read_full_Inr)

lemma rd16_shorter: "rd16 r = Inr (x, r') \<Longrightarrow> length r' < length r"
  by (auto simp: rd16_def andthen_Inr_iff dest!: read_full_Inr)

lemma getAsciiTagPart_shorter: "getAsciiTagPart r = Inr (s, r') \<Longrightarrow> length r' < length r"
  by (fastforce simp: getAsciiTagPart_def attempt_Inr_iff split: if_splits
      dest!: rd8_shorter read_full_Inr)

function getTagFromPath :: "string \<Rightarrow> bytes \<Rightarrow> (string \<times> bytes) res" where
  "getTagFromPath tag_str [] = Inr (tag_str, [])"
| "getTagFromPath tag_str (b # r) =
     (if b = 0x28 then
        attempt ''couldn't get array index'' (rd8 r) (\<lambda>(i, r1).
          andthen (add_index tag_str (unat i)) (\<lambda>s. getTagFromPath s r1))
      else if b = 0x29 then
        attempt ''couldn't get padding'' (rd8 r) (\<lambda>(_, r1).
          attempt ''couldn't get array index'' (rd16 r1) (\<lambda>(i, r2).
            andthen (add_index tag_str (unat i)) (\<lambda>s. getTagFromPath s r2)))
      else if b = 0x91 then
        attempt ''problem in ascii tag part'' (getAsciiTagPart r) (\<lambda>(s, r1).
          getTagFromPath (add_name tag_str s) r1)
      else Inr (tag_str, b # r))"
  by pat_completeness auto
termination
  by (relation "measure (\<lambda>(s, r). length r)")
    (auto dest!: rd8_shorter rd16_shorter getAsciiTagPart_shorter)

end
