(* ===== verification/Ioi_Roundtrip.thy ===== *)
theory Ioi_Roundtrip
  imports Cip_Ioi
begin

text \<open>
  The names a client can ask for and what the path bytes say: a tag name is a dotted list of
  parts, each an identifier with an optional list of array indices.  For such names the path the
  client builds is read back by the server's \<^verbatim>\<open>getTagFromPath\<close> as the same name.
\<close>

section \<open>The syntax of tag names\<close>

type_synonym tag_part = "string \<times> nat list"

definition print_index :: "nat list \<Rightarrow> string" where
  "print_index is = (if is = [] then [] else ''['' @ strings_join CHR '','' (map itoa is) @ '']'')"

definition print_part :: "tag_part \<Rightarrow> string" where
  "print_part p = fst p @ print_index (snd p)"

definition print_tag :: "tag_part list \<Rightarrow> string" where
  "print_tag ps = strings_join CHR ''.'' (map print_part ps)"

definition ident_ok :: "string \<Rightarrow> bool" where
  "ident_ok n \<longleftrightarrow> n \<noteq> [] \<and> length n < 256 \<and> CHR ''.'' \<notin> set n \<and> CHR ''['' \<notin> set n \<and> CHR '']'' \<notin> set n"

text \<open>A lone number up to 31 is a bit number, not a part of the path; indices fit 16 bits.\<close>

definition part_ok :: "tag_part \<Rightarrow> bool" where
  "part_ok p \<longleftrightarrow> ident_ok (fst p) \<and> (snd p = [] \<longrightarrow> \<not> is_bit_part (fst p)) \<and> (\<forall>i\<in>set (snd p). i < 65536)"

definition tag_ok :: "tag_part list \<Rightarrow> bool" where
  "tag_ok ps \<longleftrightarrow> ps \<noteq> [] \<and> list_all part_ok ps"

section \<open>Identifiers\<close>

lemma last_not_in: "c \<notin> set s \<Longrightarrow> s \<noteq> [] \<Longrightarrow> last s \<noteq> c"
  by (metis last_in_set)

lemma last_take_not_in: "c \<notin> set s \<Longrightarrow> take n s \<noteq> [] \<Longrightarrow> last (take n s) \<noteq> c"
  by (rule last_not_in) (meson in_set_takeD)

lemma bit_access_text_no_dot: "CHR ''.'' \<notin> set s \<Longrightarrow> bit_access_text s = None"
  unfolding bit_access_text_def Let_def using last_take_not_in[of "CHR ''.''" s] by auto

lemma arr_access_text_no_close:
  assumes "CHR '']'' \<notin> set s"
  shows "arr_access_text s = None"
proof -
  have "\<not> has_suffix_char s CHR '']''"
    using last_not_in[OF assms] by (auto simp: has_suffix_char_def)
  then show ?thesis by (simp add: arr_access_text_def)
qed

lemma parse_ident: "ident_ok n \<Longrightarrow>
  parse_tag_name n = Inr \<lparr>FullPath = n, BasePath = n, Array_Order = [], BitNumber = 0, BitAccess = False\<rparr>"
  by (simp add: parse_tag_name_def ident_ok_def bit_access_text_no_dot arr_access_text_no_close)

definition ident_bytes :: "string \<Rightarrow> bytes" where
  "ident_bytes n = [0x91, of_nat (length n)] @ to_bytes n @ (if odd (length n) then [0] else [])"

lemma marshal_ident: "ident_ok n \<Longrightarrow> marshalIOIPart n = Inr (ident_bytes n)"
  by (simp add: marshalIOIPart_def parse_ident ident_bytes_def Let_def)

lemma unat_u8_of_nat: "n < 256 \<Longrightarrow> unat (of_nat n :: u8) = n"
  by (simp add: unat_of_nat take_bit_eq_mod)

lemma getAsciiTagPart_ident:
  "length n < 256 \<Longrightarrow>
     getAsciiTagPart (of_nat (length n) # to_bytes n @ (if odd (length n) then [0] else []) @ r) = Inr (n, r)"
  by (simp add: getAsciiTagPart_def unat_u8_of_nat)

lemma getTag_ident:
  "ident_ok n \<Longrightarrow> getTagFromPath acc (ident_bytes n @ r) = getTagFromPath (add_name acc n) r"
  using getAsciiTagPart_ident[of n r] by (auto simp: ident_bytes_def ident_ok_def)

section \<open>Indices\<close>

lemma getTag_index_bytes:
  assumes "i < 65536" "add_index acc i = Inr acc'"
  shows "getTagFromPath acc (index_bytes (int i) @ r) = getTagFromPath acc' r"
proof (cases "i < 256")
  case True
  then have "unat (of_int (int i) :: u8) = i" by (simp add: unat_u8_of_nat)
  with True assms(2) show ?thesis by (simp add: index_bytes_def)
next
  case False
  have u: "unat (of_int (int i) :: u16) = i" using assms(1) by (simp add: unat_u16_of_nat)
  have p: "put16 0x29 = [0x29, 0 :: u8]" by (simp add: put_eval)
  show ?thesis
    using False assms u by (simp add: index_bytes_def p)
qed

lemma join_snoc:
  "xs \<noteq> [] \<Longrightarrow> strings_join c (xs @ [y]) = strings_join c xs @ c # y"
  by (induction c xs rule: strings_join.induct) auto

lemma add_index_snoc:
  assumes "acc \<noteq> []" "last acc \<noteq> CHR '']''"
  shows "add_index (acc @ print_index is) i = Inr (acc @ print_index (is @ [i]))"
proof (cases "is = []")
  case True
  with assms show ?thesis by (simp add: add_index_def print_index_def)
next
  case False
  then show ?thesis
    by (simp add: add_index_def print_index_def join_snoc butlast_append)
qed

lemma getTag_indices:
  assumes "acc \<noteq> []" "last acc \<noteq> CHR '']''" "\<forall>i\<in>set js. i < 65536"
  shows "getTagFromPath (acc @ print_index is) (concat (map (\<lambda>i. index_bytes (int i)) js) @ r)
       = getTagFromPath (acc @ print_index (is @ js)) r"
  using assms(3)
proof (induction js arbitrary: "is")
  case Nil
  then show ?case by simp
next
  case (Cons j js)
  have "getTagFromPath (acc @ print_index is)
      (index_bytes (int j) @ concat (map (\<lambda>i. index_bytes (int i)) js) @ r)
    = getTagFromPath (acc @ print_index (is @ [j])) (concat (map (\<lambda>i. index_bytes (int i)) js) @ r)"
    using Cons.prems by (intro getTag_index_bytes add_index_snoc assms(1,2)) auto
  also have "\<dots> = getTagFromPath (acc @ print_index ((is @ [j]) @ js)) r"
    using Cons.prems by (intro Cons.IH) auto
  finally show ?case by simp
qed

section \<open>What the client makes of a printed part\<close>

lemma index_char_join: "set (strings_join CHR '','' (map itoa is)) \<subseteq> Collect index_char"
proof -
  have d: "set (itoa i) \<subseteq> Collect index_char" for i
    using itoa_props[of i] by (auto simp: index_char_def list_all_iff)
  show ?thesis
  proof (induction "is" rule: induct_list012)
    case (3 i j js)
    then show ?case using d[of i] by (auto simp: index_char_def)
  qed (use d in auto)
qed

lemma index_char_not_open: "\<not> index_char CHR ''[''"
  by (simp add: index_char_def is_space_def)

lemma arr_access_text_print:
  assumes "set t \<subseteq> Collect index_char"
  shows "arr_access_text (n @ ''['' @ t @ '']'') = Some t"
proof -
  have w: "takeWhile index_char (rev t @ CHR ''['' # rev n) = rev t"
    using assms index_char_not_open by (subst takeWhile_append2) auto
  have b: "butlast (n @ CHR ''['' # t @ '']'') = n @ CHR ''['' # t" by (simp add: butlast_append)
  show ?thesis
    using w by (simp add: arr_access_text_def has_suffix_char_def b Let_def)
qed

lemma atoi_list_itoa: "\<forall>i\<in>set is. i < 65536 \<Longrightarrow> atoi_list (map itoa is) = Inr (map int is)"
  by (induction "is") (auto simp: atoi_itoa)

lemma split_join_itoa: "is \<noteq> [] \<Longrightarrow> strings_split CHR '','' (strings_join CHR '','' (map itoa is)) = map itoa is"
  by (rule strings_split_join) (auto simp: itoa_not_in)

lemma join_single: "CHR '','' \<notin> set (strings_join CHR '','' (map itoa is)) \<Longrightarrow> is \<noteq> [] \<Longrightarrow>
   [strings_join CHR '','' (map itoa is)] = map itoa is"
  by (cases "is" rule: remdups_adj.cases) auto

lemma parse_indexed:
  assumes "ident_ok n" "is \<noteq> []" "\<forall>i\<in>set is. i < 65536"
  shows "\<exists>t. parse_tag_name (n @ print_index is) = Inr t \<and> Array_Order t = map int is"
proof -
  let ?t = "strings_join CHR '','' (map itoa is)"
  have ic: "set ?t \<subseteq> Collect index_char" by (rule index_char_join)
  then have nodot: "CHR ''.'' \<notin> set ?t" by (auto simp: index_char_def is_space_def)
  have "bit_access_text (n @ ''['' @ ?t @ '']'') = None"
    using assms(1) nodot by (intro bit_access_text_no_dot) (auto simp: ident_ok_def)
  moreover have "arr_access_text (n @ ''['' @ ?t @ '']'') = Some ?t"
    using ic by (rule arr_access_text_print)
  moreover have "atoi_list (if CHR '','' \<in> set ?t then strings_split CHR '','' ?t else [?t]) = Inr (map int is)"
    using assms(2,3) by (auto simp: split_join_itoa join_single atoi_list_itoa)
  ultimately show ?thesis using assms(2)
    by (simp add: parse_tag_name_def print_index_def Let_def)
qed

definition part_bytes :: "tag_part \<Rightarrow> bytes" where
  "part_bytes p = ident_bytes (fst p) @ concat (map (\<lambda>i. index_bytes (int i)) (snd p))"

lemma appendIOIPart_print:
  assumes "part_ok p" "ioi_Type ioi \<noteq> CIPTypeBOOL"
  shows "appendIOIPart (print_part p) ioi = Inr (ioi_Write (part_bytes p) ioi)"
proof -
  obtain n "is" where p: "p = (n, is)" by (cases p)
  have n: "ident_ok n" "n \<noteq> []" "CHR ''['' \<notin> set n" using assms(1) p by (auto simp: part_ok_def ident_ok_def)
  show ?thesis
  proof (cases "is = []")
    case True
    have "last n \<noteq> CHR '']''" using n(1,2) by (intro last_not_in) (auto simp: ident_ok_def)
    moreover have "\<not> is_bit_part n" using assms(1) p True by (auto simp: part_ok_def)
    ultimately show ?thesis using n True p
      by (auto simp: appendIOIPart_def print_part_def print_index_def has_suffix_char_def marshal_ident
          part_bytes_def is_bit_part_def split: option.splits)
  next
    case False
    have i: "\<forall>i\<in>set is. i < 65536" using assms(1) p by (auto simp: part_ok_def)
    from parse_indexed[OF n(1) False i] obtain t where
      t: "parse_tag_name (n @ print_index is) = Inr t" "Array_Order t = map int is" by blast
    have "strings_Index (n @ print_index is) CHR ''['' = Some (length n)"
      using n(3) False by (simp add: print_index_def strings_Index_append)
    moreover have "has_suffix_char (n @ print_index is) CHR '']''" "n @ print_index is \<noteq> []"
      using False by (auto simp: has_suffix_char_def print_index_def)
    ultimately show ?thesis
      using t n assms(2) by (simp add: appendIOIPart_def print_part_def p marshal_ident part_bytes_def
          ioi_Write_def comp_def)
  qed
qed

lemma ioi_Write_Write: "ioi_Write b (ioi_Write a ioi) = ioi_Write (a @ b) ioi"
  by (simp add: ioi_Write_def)

lemma appendIOIParts_print:
  assumes "list_all part_ok ps" "ioi_Type ioi \<noteq> CIPTypeBOOL"
  shows "appendIOIParts (map print_part ps) ioi = Inr (ioi_Write (concat (map part_bytes ps)) ioi)"
  using assms
proof (induction ps arbitrary: ioi)
  case Nil
  then show ?case by (simp add: ioi_Write_def)
next
  case (Cons p ps)
  have "ioi_Type (ioi_Write (part_bytes p) ioi) \<noteq> CIPTypeBOOL" using Cons.prems by (simp add: ioi_Write_def)
  then show ?case using Cons by (simp add: appendIOIPart_print ioi_Write_Write)
qed

lemma print_part_no_dot: "part_ok p \<Longrightarrow> CHR ''.'' \<notin> set (print_part p)"
  using index_char_join[of "snd p"]
  by (auto simp: part_ok_def ident_ok_def print_part_def print_index_def index_char_def is_space_def)

lemma newSymbolicIOI_print:
  assumes "tag_ok ps" "datatype \<noteq> CIPTypeBOOL"
  shows "newSymbolicIOI (print_tag ps) datatype
       = Inr (new_ioi (print_tag ps) datatype (concat (map part_bytes ps)))"
proof -
  have "strings_split CHR ''.'' (print_tag ps) = map print_part ps"
    unfolding print_tag_def using assms(1)
    by (intro strings_split_join) (auto simp: tag_ok_def list_all_iff print_part_no_dot)
  then show ?thesis
    using appendIOIParts_print[of ps "new_ioi (print_tag ps) datatype []"] assms
    by (simp add: newSymbolicIOI_def tag_ok_def new_ioi_def ioi_Write_def)
qed

section \<open>What the server makes of the bytes\<close>

lemma last_ident: "ident_ok n \<Longrightarrow> add_name acc n \<noteq> [] \<and> last (add_name acc n) \<noteq> CHR '']''"
  using last_not_in[of "CHR '']''" n] by (auto simp: ident_ok_def add_name_def)

lemma getTag_part:
  assumes "part_ok p"
  shows "getTagFromPath acc (part_bytes p @ r) = getTagFromPath (add_name acc (print_part p)) r"
proof -
  obtain n "is" where p: "p = (n, is)" by (cases p)
  have n: "ident_ok n" "\<forall>i\<in>set is. i < 65536" using assms p by (auto simp: part_ok_def)
  have "getTagFromPath acc (part_bytes p @ r)
      = getTagFromPath (add_name acc n @ print_index []) (concat (map (\<lambda>i. index_bytes (int i)) is) @ r)"
    using n(1) by (simp add: part_bytes_def p getTag_ident print_index_def)
  also have "\<dots> = getTagFromPath (add_name acc n @ print_index ([] @ is)) r"
    using last_ident[OF n(1)] n(2) by (intro getTag_indices) auto
  finally show ?thesis by (simp add: p print_part_def add_name_def)
qed

lemma getTag_parts:
  assumes "list_all part_ok ps"
  shows "getTagFromPath acc (concat (map part_bytes ps) @ r) = getTagFromPath (foldl add_name acc (map print_part ps)) r"
  using assms by (induction ps arbitrary: acc) (auto simp: getTag_part)

lemma print_part_neq_Nil: "part_ok p \<Longrightarrow> print_part p \<noteq> []"
  by (auto simp: part_ok_def ident_ok_def print_part_def)

lemma foldl_add_name:
  assumes "acc \<noteq> []"
  shows "foldl add_name acc qs = strings_join CHR ''.'' (acc # qs)"
  using assms
proof (induction qs arbitrary: acc)
  case Nil
  then show ?case by simp
next
  case (Cons q qs)
  have "add_name acc q = acc @ ''.'' @ q" using Cons.prems by (simp add: add_name_def)
  then have "foldl add_name acc (q # qs) = strings_join CHR ''.'' ((acc @ ''.'' @ q) # qs)"
    using Cons.IH[of "acc @ ''.'' @ q"] by simp
  also have "\<dots> = strings_join CHR ''.'' (acc # q # qs)" by (cases qs) auto
  finally show ?case .
qed

lemma foldl_add_name_print:
  assumes "tag_ok ps"
  shows "foldl add_name [] (map print_part ps) = print_tag ps"
proof -
  obtain p qs where ps: "ps = p # qs" using assms by (cases ps) (auto simp: tag_ok_def)
  then have "print_part p \<noteq> []" using assms by (intro print_part_neq_Nil) (auto simp: tag_ok_def)
  then show ?thesis by (simp add: ps print_tag_def add_name_def foldl_add_name)
qed

text \<open>The bytes that can follow a path without being taken for more of it.\<close>

definition path_ends :: "bytes \<Rightarrow> bool" where
  "path_ends r \<longleftrightarrow> r = [] \<or> hd r \<notin> {0x28, 0x29, 0x91}"

lemma getTag_path_ends: "path_ends r \<Longrightarrow> getTagFromPath s r = Inr (s, r)"
  by (cases r) (auto simp: path_ends_def)

lemma getTag_newSymbolicIOI:
  assumes "tag_ok ps" "path_ends r"
  shows "getTagFromPath [] (concat (map part_bytes ps) @ r) = Inr (print_tag ps, r)"
  using assms by (simp add: tag_ok_def getTag_parts foldl_add_name_print getTag_path_ends)

lemma even_index_bytes: "even (length (index_bytes i))"
  by (simp add: index_bytes_def)

lemma even_part_bytes: "even (length (part_bytes p))"
proof -
  have "even (length (concat (map (\<lambda>i. index_bytes (int i)) xs)))" for xs
    by (induction xs) (auto simp: even_index_bytes)
  then show ?thesis by (auto simp: part_bytes_def ident_bytes_def)
qed

lemma even_parts_bytes: "even (length (concat (map part_bytes ps)))"
  by (induction ps) (auto simp: even_part_bytes)

section \<open>Names survive the wire\<close>

text \<open>
  C11.  The path a client builds for a tag name is read back by the server as the same name: for
  every dotted name with optional array indices up to 65535 (and any data type but
  \<^verbatim>\<open>BOOL\<close>, whose last index is a bit number) \<^const>\<open>newSymbolicIOI\<close> succeeds, the path
  has an even number of bytes, and \<^const>\<open>getTagFromPath\<close> returns the name and stops where the
  path stops, provided what follows does not look like another segment.
\<close>

theorem tag_name_round_trip:
  assumes "tag_ok ps" "datatype \<noteq> CIPTypeBOOL" "path_ends rest"
  shows "\<exists>ioi. newSymbolicIOI (print_tag ps) datatype = Inr ioi \<and> even (length (ioi_Buffer ioi))
    \<and> getTagFromPath [] (ioi_Buffer ioi @ rest) = Inr (print_tag ps, rest)"
  using newSymbolicIOI_print[OF assms(1,2)] getTag_newSymbolicIOI[OF assms(1,3)] even_parts_bytes
  by (simp add: new_ioi_def)

theorem tag_name_round_trip_witness:
  "\<exists>ioi. newSymbolicIOI ''prog.arr[3,700]'' CIPTypeDINT = Inr ioi \<and> even (length (ioi_Buffer ioi))
    \<and> getTagFromPath [] (ioi_Buffer ioi @ [1, 0]) = Inr (''prog.arr[3,700]'', [1, 0])"
proof -
  have "\<not> is_bit_part ''prog''" by (simp add: is_bit_part_def atoi_def is_digit_def)
  then have "tag_ok [(''prog'', []), (''arr'', [3, 700])]"
    by (simp add: tag_ok_def part_ok_def ident_ok_def)
  moreover have "print_tag [(''prog'', []), (''arr'', [3, 700])] = ''prog.arr[3,700]''"
    by (simp add: print_tag_def print_part_def print_index_def itoa.simps digit_char_def)
      (simp add: char_of_eq_iff take_bit_eq_mod)
  moreover have "path_ends [1, 0]" by (simp add: path_ends_def)
  ultimately show ?thesis
    using tag_name_round_trip[of "[(''prog'', []), (''arr'', [3, 700])]" CIPTypeDINT "[1, 0]"] by simp
qed

text \<open>
  What the server must not see first is an index: a path that begins with an element segment
  makes \<^const>\<open>getTagFromPath\<close> index the empty name and panic.
\<close>

theorem leading_index_panics:
  "getTagFromPath [] (0x28 # i # rest) = Inl (Panic ''index out of range [-1]'')
   \<and> getTagFromPath [] (0x29 # 0 # put16 j @ rest) = Inl (Panic ''index out of range [-1]'')"
  by (simp add: add_index_def)

end
