(* ===== verification/Cip_Path.thy ===== *)
theory Cip_Path
  imports Ioi_Roundtrip
begin

text \<open>
  \<^verbatim>\<open>path.go\<close>: parsing a route such as \<^verbatim>\<open>1,0\<close> or
  \<^verbatim>\<open>1,2,192.168.2.1,1,0\<close> into bytes, and the fluent \<^verbatim>\<open>PathBuilder\<close>, whose
  first error makes every later call a no-op.
\<close>

section \<open>Ports\<close>

record CIPPort =
  PortNo :: u8
  ExtensionLen :: u8

definition CIPPort_Bytes :: "CIPPort \<Rightarrow> bytes" where
  "CIPPort_Bytes p = (if ExtensionLen p \<noteq> 0 then [PortNo p, ExtensionLen p] else [PortNo p])"

section \<open>ParsePath\<close>

fun parse_path_parts :: "string list \<Rightarrow> bytes \<Rightarrow> bytes res" where
  "parse_path_parts [] byte_path = Inr byte_path"
| "parse_path_parts (part # ps) byte_path =
     (if CHR ''.'' \<in> set part then
        (if byte_path = [] then Inl (Panic ''index out of range [-1]'')
         else parse_path_parts ps
                (butlast byte_path @ [last byte_path OR 16] @ [of_nat (length part)] @ to_bytes part))
      else case atoi part of
        None \<Rightarrow> Inl (Msg ''problem converting to number'')
      | Some val \<Rightarrow>
          if val < 0 \<or> val > 255 then Inl (Msg ''number out of range'')
          else parse_path_parts ps (byte_path @ [of_int val]))"

definition ParsePath :: "string \<Rightarrow> bytes res" where
  "ParsePath path =
     (if path = [] then Inr []
      else parse_path_parts
        (strings_split CHR '','' (filter (\<lambda>c. c \<notin> {CHR '' '', CHR ''['', CHR '']''}) path)) [])"

section \<open>PathBuilder\<close>

record PathBuilder =
  pb_b :: bytes
  pb_Err :: "gerror option"

definition NewPathBuilder :: PathBuilder where
  "NewPathBuilder = \<lparr>pb_b = [], pb_Err = None\<rparr>"

text \<open>A panic of \<^const>\<open>ParsePath\<close> ends a chain of calls too; it is recorded in \<open>pb_Err\<close> as a \<^const>\<open>Panic\<close>.\<close>

text \<open>The common shape: nothing happens after an error, otherwise the bytes are appended.\<close>

definition pb_add :: "bytes \<Rightarrow> PathBuilder \<Rightarrow> PathBuilder" where
  "pb_add bs pb = (if pb_Err pb \<noteq> None then pb else pb\<lparr>pb_b := pb_b pb @ bs\<rparr>)"

definition pb_Custom :: "bytes \<Rightarrow> PathBuilder \<Rightarrow> PathBuilder" where
  "pb_Custom bs = pb_add bs"

definition pb_Class :: "cip_class \<Rightarrow> PathBuilder \<Rightarrow> PathBuilder" where
  "pb_Class c = pb_add (CIPClass_Bytes c)"

definition pb_Instance :: "cip_instance \<Rightarrow> PathBuilder \<Rightarrow> PathBuilder" where
  "pb_Instance i = pb_add (CIPInstance_Bytes i)"

definition pb_Attribute :: "cip_attribute \<Rightarrow> PathBuilder \<Rightarrow> PathBuilder" where
  "pb_Attribute a = pb_add (CIPAttribute_Bytes a)"

definition pb_Element :: "cip_element \<Rightarrow> PathBuilder \<Rightarrow> PathBuilder" where
  "pb_Element e = pb_add (CIPElement_Bytes e)"

definition pb_Port :: "u8 \<Rightarrow> PathBuilder \<Rightarrow> PathBuilder" where
  "pb_Port p = pb_add [p]"

definition pb_Address :: "u8 \<Rightarrow> PathBuilder \<Rightarrow> PathBuilder" where
  "pb_Address a = pb_add (CIPAddress_Bytes a)"

definition pb_Slot :: "u8 \<Rightarrow> PathBuilder \<Rightarrow> PathBuilder" where
  "pb_Slot s = pb_add [s]"

definition pb_Symbolic :: "string \<Rightarrow> PathBuilder \<Rightarrow> PathBuilder" where
  "pb_Symbolic symbol pb =
     (if pb_Err pb \<noteq> None then pb
      else case marshalIOIPart symbol of
        Inl e \<Rightarrow> pb\<lparr>pb_Err := Some (wrap ''error writing symbolic ID'' e)\<rparr>
      | Inr bs \<Rightarrow> pb\<lparr>pb_b := pb_b pb @ bs\<rparr>)"

definition pb_Parse :: "string \<Rightarrow> PathBuilder \<Rightarrow> PathBuilder" where
  "pb_Parse path pb =
     (if pb_Err pb \<noteq> None then pb
      else case ParsePath path of
        Inl e \<Rightarrow> pb\<lparr>pb_Err := Some (wrap ''error parsing path'' e)\<rparr>
      | Inr bs \<Rightarrow> pb\<lparr>pb_b := pb_b pb @ bs\<rparr>)"

text \<open>The calls a client of the builder can make, and a chain of them.\<close>

datatype pb_call =
    Custom bytes | Class cip_class | Instance cip_instance | Attribute cip_attribute
  | Symbolic string | Element cip_element | Port u8 | Address u8 | Slot u8 | Parse string

fun pb_step :: "pb_call \<Rightarrow> PathBuilder \<Rightarrow> PathBuilder" where
  "pb_step (Custom bs) = pb_Custom bs"
| "pb_step (Class c) = pb_Class c"
| "pb_step (Instance i) = pb_Instance i"
| "pb_step (Attribute a) = pb_Attribute a"
| "pb_step (Symbolic s) = pb_Symbolic s"
| "pb_step (Element e) = pb_Element e"
| "pb_step (Port p) = pb_Port p"
| "pb_step (Address a) = pb_Address a"
| "pb_step (Slot s) = pb_Slot s"
| "pb_step (Parse p) = pb_Parse p"

definition pb_run :: "pb_call list \<Rightarrow> PathBuilder" where
  "pb_run cs = fold pb_step cs NewPathBuilder"

lemmas pb_defs = pb_add_def pb_Custom_def pb_Class_def pb_Instance_def pb_Attribute_def
  pb_Symbolic_def pb_Element_def pb_Port_def pb_Address_def pb_Slot_def pb_Parse_def

text \<open>What a call contributes when it succeeds.\<close>

fun pb_call_bytes :: "pb_call \<Rightarrow> bytes res" where
  "pb_call_bytes (Custom bs) = Inr bs"
| "pb_call_bytes (Class c) = Inr (CIPClass_Bytes c)"
| "pb_call_bytes (Instance i) = Inr (CIPInstance_Bytes i)"
| "pb_call_bytes (Attribute a) = Inr (CIPAttribute_Bytes a)"
| "pb_call_bytes (Symbolic s) = attempt ''error writing symbolic ID'' (marshalIOIPart s) Inr"
| "pb_call_bytes (Element e) = Inr (CIPElement_Bytes e)"
| "pb_call_bytes (Port p) = Inr [p]"
| "pb_call_bytes (Address a) = Inr [a]"
| "pb_call_bytes (Slot s) = Inr [s]"
| "pb_call_bytes (Parse p) = attempt ''error parsing path'' (ParsePath p) Inr"

text \<open>The specification of a chain: concatenate up to the first failing call.\<close>

fun pb_spec :: "pb_call list \<Rightarrow> bytes \<Rightarrow> PathBuilder" where
  "pb_spec [] bs = \<lparr>pb_b = bs, pb_Err = None\<rparr>"
| "pb_spec (c # cs) bs =
     (case pb_call_bytes c of
        Inl e \<Rightarrow> \<lparr>pb_b = bs, pb_Err = Some e\<rparr>
      | Inr b \<Rightarrow> pb_spec cs (bs @ b))"

section \<open>Facts\<close>

lemma pb_step_err: "pb_Err pb \<noteq> None \<Longrightarrow> pb_step c pb = pb"
  by (cases c) (simp_all add: pb_defs)

lemma pb_steps_err: "pb_Err pb \<noteq> None \<Longrightarrow> fold pb_step cs pb = pb"
  by (induction cs) (simp_all add: pb_step_err)

lemma pb_step_ok:
  "pb_step c \<lparr>pb_b = bs, pb_Err = None\<rparr> =
     (case pb_call_bytes c of Inl e \<Rightarrow> \<lparr>pb_b = bs, pb_Err = Some e\<rparr>
      | Inr b \<Rightarrow> \<lparr>pb_b = bs @ b, pb_Err = None\<rparr>)"
  by (cases c) (auto simp: pb_defs CIPAddress_Bytes_def split: sum.splits)

lemma pb_fold_spec: "fold pb_step cs \<lparr>pb_b = bs, pb_Err = None\<rparr> = pb_spec cs bs"
  by (induction cs arbitrary: bs) (auto simp: pb_step_ok pb_steps_err split: sum.splits)

lemma parse_path_numbers:
  "parse_path_parts (map (\<lambda>b. itoa (unat b)) bs @ ps) acc = parse_path_parts ps (acc @ bs)"
proof (induction bs arbitrary: acc)
  case Nil
  then show ?case by simp
next
  case (Cons b bs)
  have "unat b < 2 ^ 63" by (rule less_le_trans [OF unat_byte_lt]) simp
  then have "atoi (itoa (unat b)) = Some (int (unat b))" by (rule atoi_itoa)
  moreover have "CHR ''.'' \<notin> set (itoa (unat b))" by (simp add: itoa_not_in)
  moreover have "\<not> int (unat b) > 255" using unat_byte_lt[of b] by linarith
  ultimately show ?case using Cons by simp
qed

definition print_route :: "bytes \<Rightarrow> string" where
  "print_route bs = strings_join CHR '','' (map (\<lambda>b. itoa (unat b)) bs)"

lemma join_chars: "set (strings_join c ps) \<subseteq> insert c (\<Union>(set ` set ps))"
  by (induction c ps rule: strings_join.induct) auto

lemma print_route_clean:
  "filter (\<lambda>c. c \<notin> {CHR '' '', CHR ''['', CHR '']''}) (print_route bs) = print_route bs"
proof (rule filter_True, rule ballI)
  fix c
  assume "c \<in> set (print_route bs)"
  then have "c = CHR '','' \<or> is_digit c"
    using join_chars[of "CHR '',''" "map (\<lambda>b. itoa (unat b)) bs"] itoa_not_in
    by (fastforce simp: print_route_def)
  then show "c \<notin> {CHR '' '', CHR ''['', CHR '']''}" by (auto simp: is_digit_def)
qed

lemma split_print_route:
  "bs \<noteq> [] \<Longrightarrow> strings_split CHR '','' (print_route bs) = map (\<lambda>b. itoa (unat b)) bs"
  unfolding print_route_def by (rule strings_split_join) (auto simp: itoa_not_in)

lemma print_route_Nil_iff: "print_route bs = [] \<longleftrightarrow> bs = []"
  using itoa_props by (cases bs rule: remdups_adj.cases) (auto simp: print_route_def)

lemma ParsePath_print_route: "ParsePath (print_route bs) = Inr bs"
proof (cases "bs = []")
  case True
  then show ?thesis by (simp add: print_route_def ParsePath_def)
next
  case False
  then show ?thesis
    using parse_path_numbers[of bs "[]" "[]"]
    by (simp add: ParsePath_def print_route_Nil_iff print_route_clean [simplified] split_print_route)
qed

section \<open>What paths promise\<close>

text \<open>
  \<^const>\<open>ParsePath\<close> inverts printing: every route of port and slot numbers, written as
  comma-separated decimals, parses to exactly those bytes.
\<close>

theorem route_round_trip: "ParsePath (strings_join CHR '','' (map (\<lambda>b. itoa (unat b)) bs)) = Inr bs"
  using ParsePath_print_route by (simp add: print_route_def)

text \<open>
  C13.  The builder refines its specification: whatever calls are chained, the result is the
  concatenation of what the calls contribute up to the first one that fails, whose error is kept
  and after which no call has an effect.
\<close>

theorem builder_refines_spec: "pb_run cs = pb_spec cs []"
  by (simp add: pb_run_def NewPathBuilder_def pb_fold_spec)

end
