(* ===== verification/Client_Connection.thy ===== *)
theory Client_Connection
  imports Eip_Frames Cip_Path Cip_Ioi
begin

text \<open>
  The client's session: \<^verbatim>\<open>client.go\<close>, \<^verbatim>\<open>sendreceive.go\<close>,
  \<^verbatim>\<open>connect.go\<close> and \<^verbatim>\<open>disconnect.go\<close> as one goroutine executes them.
  The network is a script: for every message the client writes, either the write fails or some
  bytes arrive before the read deadline; what the client does not read stays in the socket.

  The other goroutines that may call \<^verbatim>\<open>Connect\<close> and \<^verbatim>\<open>Disconnect\<close>
  at the same time are the subject of the theory on the connection status.
\<close>

section \<open>State\<close>

datatype connectionStatus = Disconnected | Connecting | Connected | Disconnecting

text \<open>The channel that cancels the keep-alive goroutine: not made yet, open, or closed.\<close>

datatype cancel_chan = NilChan | OpenChan | ClosedChan

record Client =
  c_Path :: "bytes option"
  c_Port :: nat
  c_ControllerVendorId :: u16
  c_SerialNumber :: u32
  c_VendorId :: u16
  c_SocketTimeout :: nat
  c_AutoConnect :: bool
  c_KeepAliveAutoStart :: bool
  c_keepAliveRunning :: bool
  c_cancel :: cancel_chan
  c_RPI :: nat
  c_conn :: bool
  c_connStatus :: connectionStatus
  c_SessionHandle :: u32
  c_OTNetworkConnectionID :: u32
  c_HeaderSequenceCounter :: u16
  c_ConnectionSize :: u16
  c_ConnectionSerialNumber :: u16
  c_Context :: u64
  c_sequenceNumber :: u32
  c_connectionSerialValue :: u32
  c_sequenceValue :: u32
  c_KnownTags :: "string \<rightharpoonup> KnownTag"
  c_KnownTypes :: "string \<rightharpoonup> UDTDescriptor"
  c_KnownTypesByID :: "u32 \<rightharpoonup> UDTDescriptor"
  c_KnownPrograms :: "(string \<times> KnownProgram) list"
  c_knownFirmware :: int
  c_ioi_cache :: ioi_cache
  c_dials :: "(bool \<times> u32) list"
  c_sent :: "bytes list"
  c_socket :: bytes
  c_script :: "bytes option list"

abbreviation connSizeLargeDefault :: u16 where "connSizeLargeDefault \<equiv> 4000"
abbreviation connSizeStandardDefault :: u16 where "connSizeStandardDefault \<equiv> 511"
abbreviation connSizeStandardMax :: u16 where "connSizeStandardMax \<equiv> 511"

section \<open>Counters\<close>

definition sequencer :: "u32 \<Rightarrow> u32 \<times> u32" where
  "sequencer sequenceValue = (sequenceValue + 1, sequenceValue + 1)"

text \<open>The loop of \<^verbatim>\<open>nextConnectionSerialNumber\<close>: the serial number and the counter's new value.\<close>

partial_function (option) nextConnectionSerialNumber :: "u32 \<Rightarrow> (u16 \<times> u32) option" where
  "nextConnectionSerialNumber v =
     (let v' = v + 1; serial = ucast v' in
      if serial \<noteq> 0 then Some (serial, v') else nextConnectionSerialNumber v')"

section \<open>A new client\<close>

text \<open>
  \<open>rnd\<close> is the random serial number; \<open>serials\<close> and \<open>seqs\<close> are the values of the package variables
  \<^verbatim>\<open>connectionSerialValue\<close> and \<^verbatim>\<open>sequenceValue\<close>, from which
  every client draws.
\<close>

definition NewClient :: "u32 \<Rightarrow> u32 \<Rightarrow> u32 \<Rightarrow> Client res" where
  "NewClient rnd serials seqs =
     (case ParsePath ''1,0'' of
        Inl e \<Rightarrow> Inl (Panic ''this should not have failed since the path is hardcoded'')
      | Inr path \<Rightarrow> Inr
          \<lparr>c_Path = Some path, c_Port = 44818, c_ControllerVendorId = 0, c_SerialNumber = rnd,
           c_VendorId = 0x9999, c_SocketTimeout = 10000000000, c_AutoConnect = True, c_KeepAliveAutoStart = False,
           c_keepAliveRunning = False, c_cancel = NilChan, c_RPI = 2500000000, c_conn = False,
           c_connStatus = Disconnected, c_SessionHandle = 0, c_OTNetworkConnectionID = 0,
           c_HeaderSequenceCounter = 0, c_ConnectionSize = connSizeLargeDefault, c_ConnectionSerialNumber = 0,
           c_Context = 0, c_sequenceNumber = 0, c_connectionSerialValue = serials,
           c_sequenceValue = seqs, c_KnownTags = Map.empty, c_KnownTypes = Map.empty,
           c_KnownTypesByID = Map.empty, c_KnownPrograms = [], c_knownFirmware = 0, c_ioi_cache = Map.empty, c_dials = [],
           c_sent = [], c_socket = [], c_script = []\<rparr>)"

section \<open>Messages\<close>

definition c_newEIPHeader :: "cip_command \<Rightarrow> nat \<Rightarrow> Client \<Rightarrow> eipHeader \<times> Client" where
  "c_newEIPHeader cmd sz c =
     (\<lparr>eh_Command = cmd, eh_Length = of_nat sz, eh_SessionHandle = c_SessionHandle c, eh_Status = 0,
       eh_Context = c_Context c, eh_Options = 0\<rparr>,
      c\<lparr>c_HeaderSequenceCounter := c_HeaderSequenceCounter c + 1\<rparr>)"

definition sendMsgBuild :: "cip_command \<Rightarrow> bytes \<Rightarrow> Client \<Rightarrow> bytes \<times> Client" where
  "sendMsgBuild cmd msg c = (let (hdr, c') = c_newEIPHeader cmd (length msg) c in (eipHeader_Bytes hdr @ msg, c'))"

text \<open>\<^verbatim>\<open>sendData\<close> and the arrival of what the peer answers.\<close>

definition sendData :: "bytes \<Rightarrow> Client \<Rightarrow> unit res \<times> Client" where
  "sendData b c =
     (if \<not> c_conn c then (Inl (Msg ''problem writing to socket''), c)
      else case c_script c of
        [] \<Rightarrow> (Inl (Msg ''problem writing to socket''), c)
      | None # s \<Rightarrow> (Inl (Msg ''problem writing to socket''), c\<lparr>c_script := s\<rparr>)
      | Some r # s \<Rightarrow>
          (Inr (), c\<lparr>c_sent := c_sent c @ [b], c_script := s, c_socket := c_socket c @ r\<rparr>))"

definition recvData :: "Client \<Rightarrow> (eipHeader \<times> bytes) res \<times> Client" where
  "recvData c =
     (case read_eipHeader (c_socket c) of
        Inl e \<Rightarrow> (Inl (Wrapped ''problem reading header from socket'' e), c\<lparr>c_socket := []\<rparr>)
      | Inr (hdr, r) \<Rightarrow>
          (case read_full (unat (eh_Length hdr)) r of
             Inl e \<Rightarrow> (Inl (Wrapped ''problem reading socket payload'' e), c\<lparr>c_socket := []\<rparr>)
           | Inr (data, r') \<Rightarrow> (Inr (hdr, data), c\<lparr>c_socket := r'\<rparr>)))"

definition exchange :: "cip_command \<Rightarrow> bytes \<Rightarrow> Client \<Rightarrow> (eipHeader \<times> bytes) res \<times> Client" where
  "exchange cmd msg c =
     (let (b, c1) = sendMsgBuild cmd msg c in
      case sendData b c1 of
        (Inl e, c2) \<Rightarrow> (Inl e, c2)
      | (Inr _, c2) \<Rightarrow> recvData c2)"

section \<open>Replies to connection requests\<close>

text \<open>
  \<^verbatim>\<open>parseResponse\<close>: the items, and of item 1 what is left behind the router's reply
  header.
\<close>

definition parseResponse :: "eipHeader \<Rightarrow> bytes \<Rightarrow> (CIPItem list \<times> bytes) res" where
  "parseResponse header data =
     (if eh_Status header \<noteq> 0 then Inl (Msg ''forward open failed'')
      else
        attempt ''problem reading items header from forward open request'' (read_full 6 data) (\<lambda>(_, r).
        attempt ''problem reading items from forward open request'' (readItems r) (\<lambda>(items, _).
        if length items < 2 then Inl (Msg ''not enough items in forward open response'')
        else
          attempt ''error deserializing forward open response header'' (read_full 4 (Data (items ! 1))) (\<lambda>(rh, r1).
          attempt ''error deserializing forward open response header extended status''
            (read_full (2 * unat (fld8 3 rh)) r1) (\<lambda>(_, r2).
          if fld8 2 rh \<noteq> CIPStatus_OK then Inl (Msg ''bad status on response'')
          else Inr (items, r2))))))"

section \<open>Disconnecting\<close>

definition startDisconnect :: "Client \<Rightarrow> Client res" where
  "startDisconnect c =
     (case c_connStatus c of
        Disconnected \<Rightarrow> Inl (Msg ''client is already disconnected'')
      | Connecting \<Rightarrow> Inr (c\<lparr>c_connStatus := Disconnecting\<rparr>)
      | Connected \<Rightarrow> Inr (c\<lparr>c_connStatus := Disconnecting\<rparr>)
      | Disconnecting \<Rightarrow> Inl (Msg ''client is already disconnecting''))"

text \<open>The connection path; \<^verbatim>\<open>Connect\<close> has replaced a missing route by the default one.\<close>

definition c_path_bytes :: "Client \<Rightarrow> bytes" where
  "c_path_bytes c =
     (case c_Path c of None \<Rightarrow> [] | Some p \<Rightarrow> p) @ CIPClass_Bytes CipObject_MessageRouter @ CIPInstance_Bytes 1"

definition msgCipUnRegister :: "Client \<Rightarrow> bytes" where
  "msgCipUnRegister c =
     [CIPService_ForwardClose, 0x02, 0x20, 0x06, 0x24, 0x01, 0x0A, 0x0E]
     @ put16 (c_ConnectionSerialNumber c) @ put16 (c_VendorId c) @ put32 (c_SerialNumber c)
     @ [of_nat (length (c_path_bytes c) div 2), 0]"

definition disconnect_request :: "Client \<Rightarrow> bytes" where
  "disconnect_request c =
     serializeItems [empty_item cipItem_Null,
       item_Write (c_path_bytes c) (item_Write (msgCipUnRegister c) (empty_item cipItem_UnconnectedData))]"

text \<open>\<^verbatim>\<open>conn.Close()\<close>; errors are only logged.\<close>

definition closed :: "Client \<Rightarrow> Client" where
  "closed c = c\<lparr>c_conn := False, c_socket := [], c_connStatus := Disconnected\<rparr>"

definition stop_keepalive :: "Client \<Rightarrow> Client res" where
  "stop_keepalive c =
     (if c_keepAliveRunning c then
        (case c_cancel c of
           OpenChan \<Rightarrow> Inr (c\<lparr>c_cancel := ClosedChan\<rparr>)
         | NilChan \<Rightarrow> Inl (Panic ''close of nil channel'')
         | ClosedChan \<Rightarrow> Inl (Panic ''close of closed channel''))
      else Inr c)"

fun status_rank :: "connectionStatus \<Rightarrow> nat" where
  "status_rank Connected = 1"
| "status_rank Connecting = 1"
| "status_rank _ = 0"

lemma exchange_status [simp]: "c_connStatus (snd (exchange cmd msg c)) = c_connStatus c"
  by (auto simp: exchange_def sendMsgBuild_def c_newEIPHeader_def sendData_def recvData_def Let_def
      split: list.splits option.splits sum.splits prod.splits)

text \<open>
  A failed exchange disconnects the client, and disconnecting exchanges a message: the inner
  \<^verbatim>\<open>Disconnect\<close> finds the status \<open>Disconnecting\<close> and returns at once.
\<close>

function (sequential) send_recv_data :: "cip_command \<Rightarrow> bytes \<Rightarrow> Client \<Rightarrow> (eipHeader \<times> bytes) res \<times> Client"
  and Disconnect :: "Client \<Rightarrow> unit res \<times> Client" where
  "send_recv_data cmd msg c =
     (case exchange cmd msg c of
        (Inr x, c1) \<Rightarrow> (Inr x, c1)
      | (Inl e, c1) \<Rightarrow>
          (case Disconnect c1 of
             (Inl e2, c2) \<Rightarrow> (Inl (if is_panic e2 then e2 else Wrapped ''error disconnecting after send or receive error'' e), c2)
           | (Inr _, c2) \<Rightarrow> (Inl (Wrapped ''forced disconnect'' e), c2)))"
| "Disconnect c =
     (case startDisconnect c of
        Inl e \<Rightarrow> (Inl e, c)
      | Inr c1 \<Rightarrow>
          (case stop_keepalive c1 of
             Inl e \<Rightarrow> (Inl e, c1\<lparr>c_connStatus := Disconnected\<rparr>)
           | Inr c2 \<Rightarrow>
               if c_connStatus c = Connecting then (Inr (), closed c2)
               else
                 (case send_recv_data cipCommandSendRRData (disconnect_request c2) c2 of
                    (Inl e, c3) \<Rightarrow> if is_panic e then (Inl e, c3\<lparr>c_connStatus := Disconnected\<rparr>) else (Inr (), closed c3)
                  | (Inr _, c3) \<Rightarrow> (Inr (), closed c3))))"
  by pat_completeness auto
termination
proof (relation "measure (case_sum (\<lambda>(cmd, msg, c). 2 * status_rank (c_connStatus c) + 2)
    (\<lambda>c. 2 * status_rank (c_connStatus c) + 1))", goal_cases)
  case (2 cmd msg c x c1 e)
  then have "c_connStatus c1 = c_connStatus c" using exchange_status[of cmd msg c] by (metis snd_conv)
  then show ?case by simp
next
  case (3 c c1 c2)
  then have "c_connStatus c2 = Disconnecting" "status_rank (c_connStatus c) = 1"
    by (auto simp: startDisconnect_def stop_keepalive_def split: connectionStatus.splits cancel_chan.splits if_splits)
  then show ?case by simp
qed simp

declare send_recv_data.simps [simp del] Disconnect.simps [simp del]

definition KeepAliveCancel :: "bool \<Rightarrow> Client \<Rightarrow> Client res" where
  "KeepAliveCancel force c =
     (if c_KeepAliveAutoStart c \<and> \<not> force then Inl (Msg ''unable to cancel keepalive'')
      else case c_cancel c of
        OpenChan \<Rightarrow> Inr (c\<lparr>c_cancel := ClosedChan\<rparr>)
      | NilChan \<Rightarrow> Inl (Panic ''close of nil channel'')
      | ClosedChan \<Rightarrow> Inl (Panic ''close of closed channel''))"

section \<open>Connecting\<close>

definition startConnect :: "Client \<Rightarrow> Client res" where
  "startConnect c =
     (case c_connStatus c of
        Connected \<Rightarrow> Inl (Msg ''already connected'')
      | Connecting \<Rightarrow> Inl (Wrapped ''connection is already in progress'' AutoReconnectInProgress)
      | Disconnecting \<Rightarrow> Inl (Wrapped ''connection is currently disconnecting'' AutoReconnectInProgress)
      | Disconnected \<Rightarrow> Inr (c\<lparr>c_connStatus := Connecting\<rparr>))"

definition c_registerSession :: "Client \<Rightarrow> unit res \<times> Client" where
  "c_registerSession c =
     (case send_recv_data cipCommandRegisterSession (put16 1 @ put16 0) c of
        (Inl e, c1) \<Rightarrow> (Inl (wrap ''cannot get connect response'' e), c1)
      | (Inr (header, _), c1) \<Rightarrow> (Inr (), c1\<lparr>c_SessionHandle := eh_SessionHandle header\<rparr>))"

definition rpi_us :: "Client \<Rightarrow> u32" where
  "rpi_us c = of_nat (c_RPI c div 1000)"

text \<open>\<^verbatim>\<open>sequenceNumber.Add(1)\<close> twice and the next serial number, as both forward opens take them.\<close>

definition take_ids :: "Client \<Rightarrow> (u32 \<times> u32 \<times> u16 \<times> Client) option" where
  "take_ids c =
     (case nextConnectionSerialNumber (c_connectionSerialValue c) of
        None \<Rightarrow> None
      | Some (serial, v) \<Rightarrow>
          Some (c_sequenceNumber c + 1, c_sequenceNumber c + 2, serial,
            c\<lparr>c_connectionSerialValue := v, c_ConnectionSerialNumber := serial,
              c_sequenceNumber := c_sequenceNumber c + 2\<rparr>))"

definition forward_open_fields :: "cip_service \<Rightarrow> u8 \<Rightarrow> u8 \<Rightarrow> u32 \<Rightarrow> u32 \<Rightarrow> u16 \<Rightarrow> u32 \<Rightarrow> bytes \<Rightarrow> Client \<Rightarrow> bytes" where
  "forward_open_fields service prio ticks ot to' serial mult params c =
     [service, 0x02, 0x20, 0x06, 0x24, 0x01, prio, ticks]
     @ put32 ot @ put32 to' @ put16 serial @ put16 (c_VendorId c) @ put32 (c_SerialNumber c)
     @ put32 mult @ put32 (rpi_us c) @ params @ put32 (rpi_us c) @ params
     @ [0xA3, of_nat (length (c_path_bytes c) div 2)]"

definition newForwardOpenLarge :: "Client \<Rightarrow> (CIPItem \<times> Client) option" where
  "newForwardOpenLarge c0 =
     (let c = (if c_ConnectionSize c0 = 0 then c0\<lparr>c_ConnectionSize := connSizeLargeDefault\<rparr> else c0) in
      case take_ids c of
        None \<Rightarrow> None
      | Some (ot, to', serial, c1) \<Rightarrow>
          let params = put32 (push_bit 29 2 OR push_bit 25 1 OR ucast (c_ConnectionSize c1)) in
          Some (item_Write (c_path_bytes c1)
                 (item_Write (forward_open_fields CIPService_LargeForwardOpen 0x0A 0x0E ot to' serial 3 params c1)
                   (empty_item cipItem_UnconnectedData)), c1))"

definition newForwardOpenStandard :: "Client \<Rightarrow> (CIPItem \<times> Client) option" where
  "newForwardOpenStandard c0 =
     (let c = (if c_ConnectionSize c0 = 0 then c0\<lparr>c_ConnectionSize := connSizeStandardDefault\<rparr>
               else if c_ConnectionSize c0 > connSizeStandardMax then c0\<lparr>c_ConnectionSize := connSizeStandardMax\<rparr>
               else c0) in
      case take_ids c of
        None \<Rightarrow> None
      | Some (ot, to', serial, c1) \<Rightarrow>
          let params = put16 (push_bit 13 2 OR push_bit 9 1 OR c_ConnectionSize c1) in
          Some (item_Write (c_path_bytes c1)
                 (item_Write (forward_open_fields CIPService_ForwardOpen 0x07 0xE9 ot to' serial 0 params c1)
                   (empty_item cipItem_UnconnectedData)), c1))"

text \<open>\<^verbatim>\<open>client.forwardOpen\<close>; the reply is 26 bytes, of which the first four are the connection id.\<close>

definition c_forwardOpen :: "CIPItem \<Rightarrow> Client \<Rightarrow> unit res \<times> Client" where
  "c_forwardOpen msg c =
     (case send_recv_data cipCommandSendRRData (serializeItems [empty_item cipItem_Null, msg]) c of
        (Inl e, c1) \<Rightarrow> (Inl e, c1)
      | (Inr (header, data), c1) \<Rightarrow>
          (case andthen (parseResponse header data) (\<lambda>(items, r).
                  attempt ''error deserializing forward open response content'' (read_full 26 r) Inr) of
             Inl e \<Rightarrow> (Inl e, c1)
           | Inr (x, _) \<Rightarrow> (Inr (), c1\<lparr>c_OTNetworkConnectionID := fld32 0 x\<rparr>)))"

definition connect_defaults :: "u32 \<Rightarrow> Client \<Rightarrow> Client" where
  "connect_defaults now c =
     c\<lparr>c_ConnectionSize := (if c_ConnectionSize c = 0 then connSizeLargeDefault else c_ConnectionSize c),
       c_Port := (if c_Port c = 0 then 44818 else c_Port c),
       c_ControllerVendorId := (if c_ControllerVendorId c = 0 then 0x9999 else c_ControllerVendorId c),
       c_SocketTimeout := (if c_SocketTimeout c = 0 then 10000000000 else c_SocketTimeout c),
       c_RPI := (if c_RPI c = 0 then 2500000000 else c_RPI c),
       c_sequenceNumber := c_sequenceNumber c + now,
       c_Path := (case c_Path c of None \<Rightarrow> Some [1, 0] | Some p \<Rightarrow> Some p)\<rparr>"

text \<open>The forward opens of \<^verbatim>\<open>Connect\<close>: large first where the size asks for it, standard as the fallback.\<close>

definition open_large :: "Client \<Rightarrow> unit res \<times> Client" where
  "open_large c =
     (if c_ConnectionSize c > connSizeStandardMax then
        (case newForwardOpenLarge c of
           None \<Rightarrow> (Inl (Msg ''no serial number''), c)
         | Some (item, c1) \<Rightarrow>
             (case c_forwardOpen item c1 of
                (Inl e, c2) \<Rightarrow> if is_panic e then (Inl e, c2)
                                else (Inr (), c2\<lparr>c_ConnectionSize := connSizeStandardDefault\<rparr>)
              | (Inr _, c2) \<Rightarrow> (Inr (), c2)))
      else (Inr (), c))"

definition open_standard :: "Client \<Rightarrow> unit res \<times> Client" where
  "open_standard c =
     (if c_ConnectionSize c \<le> connSizeStandardMax then
        (case newForwardOpenStandard c of
           None \<Rightarrow> (Inl (Msg ''no serial number''), c)
         | Some (item, c1) \<Rightarrow> c_forwardOpen item c1)
      else (Inr (), c))"

definition open_session :: "bool \<Rightarrow> Client \<Rightarrow> unit res \<times> Client" where
  "open_session dial c =
     (if \<not> dial then (Inl (Msg ''cannot connect to controller''), c\<lparr>c_conn := False\<rparr>)
      else
        (case c_registerSession (c\<lparr>c_conn := True, c_socket := []\<rparr>) of
           (Inl e, c1) \<Rightarrow> (Inl e, c1)
         | (Inr _, c1) \<Rightarrow>
             (case open_large c1 of
                (Inl e, c2) \<Rightarrow> (Inl e, c2)
              | (Inr _, c2) \<Rightarrow> open_standard c2)))"

text \<open>
  \<^verbatim>\<open>Connect\<close>; \<open>dial\<close> says whether the TCP connection comes about, \<open>now\<close> is the clock.
  The deferred function sets the final status whatever happened.
\<close>

definition Connect :: "bool \<Rightarrow> u32 \<Rightarrow> Client \<Rightarrow> unit res \<times> Client" where
  "Connect dial now c =
     (case startConnect c of
        Inl e \<Rightarrow> (Inl e, c)
      | Inr c1 \<Rightarrow>
          (case open_session dial (connect_defaults now c1) of
             (Inl e, c2) \<Rightarrow> (Inl e, c2\<lparr>c_connStatus := Disconnected\<rparr>)
           | (Inr _, c2) \<Rightarrow> (Inr (), c2\<lparr>c_connStatus := Connected\<rparr>)))"

definition c_Connected :: "Client \<Rightarrow> bool" where
  "c_Connected c = (c_connStatus c = Connected)"

definition checkConnection :: "bool \<Rightarrow> u32 \<Rightarrow> Client \<Rightarrow> unit res \<times> Client" where
  "checkConnection dial now c =
     (if c_Connected c then (Inr (), c)
      else if c_AutoConnect c then
        (case Connect dial now c of
           (Inl e, c1) \<Rightarrow>
             (Inl (if is_panic e then e
                   else if errors_Is e AutoReconnectInProgress then Wrapped ''not connected and'' AutoReconnectInProgress
                   else Wrapped ''not connected and connect attempt failed'' e), c1)
         | (Inr _, c1) \<Rightarrow> (Inr (), c1))
      else (Inl (Msg ''not connected and AutoConnect not enabled''), c))"

section \<open>An exchange that is answered\<close>

lemma recvData_frame:
  assumes "c_socket c = eipHeader_Bytes hdr @ msg" "unat (eh_Length hdr) = length msg"
  shows "recvData c = (Inr (hdr, msg), c\<lparr>c_socket := []\<rparr>)"
proof -
  have "read_eipHeader (c_socket c) = Inr (hdr, msg)" using assms(1) eip_header.dec_enc[of hdr msg] by simp
  moreover have "read_full (length msg) (msg @ []) = Inr (msg, [])" by (rule read_full_append) simp
  ultimately show ?thesis using assms(2) by (simp add: recvData_def)
qed

lemma send_recv_answered:
  assumes "c_conn c" "c_socket c = []" "c_script c = Some (eipHeader_Bytes hdr @ reply) # s"
    and "unat (eh_Length hdr) = length reply"
  shows "send_recv_data cmd msg c = (Inr (hdr, reply),
    c\<lparr>c_HeaderSequenceCounter := c_HeaderSequenceCounter c + 1, c_script := s,
      c_sent := c_sent c @ [fst (sendMsgBuild cmd msg c)]\<rparr>)"
  using assms recvData_frame[of _ hdr reply]
  by (simp add: send_recv_data.simps exchange_def sendMsgBuild_def c_newEIPHeader_def sendData_def Let_def)

lemma default_route: "ParsePath ''1,0'' = Inr [1, 0]"
  by code_simp

section \<open>Serial numbers\<close>

lemma nextConnectionSerialNumber_total:
  "\<exists>s v'. nextConnectionSerialNumber v = Some (s, v') \<and> s \<noteq> 0 \<and> s = ucast v' \<and> v' \<in> {v + 1, v + 2}"
proof (cases "(ucast (v + 1) :: u16) = 0")
  case False
  then show ?thesis by (simp add: nextConnectionSerialNumber.simps [of v] Let_def)
next
  case True
  have e: "unat (ucast y :: u16) = unat y mod 65536" for y :: u32
    by (simp add: unsigned_ucast_eq unsigned_take_bit_eq take_bit_eq_mod)
  have "unat (v + 1) mod 65536 = 0" using True e[of "v + 1"] by simp
  then have "Suc (unat (v + 1)) mod 65536 = 1" by (simp add: mod_Suc)
  moreover have "unat (v + 1 + 1) = Suc (unat (v + 1)) mod 2 ^ 32"
    using unat_word_ariths(1)[of "v + 1" 1] by simp
  moreover have "Suc (unat (v + 1)) mod 2 ^ 32 mod 65536 = Suc (unat (v + 1)) mod 65536"
    by (rule mod_mod_cancel) simp
  ultimately have "unat (v + 1 + 1) mod 65536 = 1" by simp
  then have "unat (ucast (v + 1 + 1) :: u16) = 1" using e[of "v + 1 + 1"] by simp
  then have "(ucast (v + 2) :: u16) \<noteq> 0" by (auto simp: add.assoc)
  with True show ?thesis
    by (simp add: nextConnectionSerialNumber.simps [of v] nextConnectionSerialNumber.simps [of "v + 1"] Let_def add.assoc)
qed

lemma take_ids_total:
  "\<exists>serial v. take_ids c = Some (c_sequenceNumber c + 1, c_sequenceNumber c + 2, serial,
     c\<lparr>c_connectionSerialValue := v, c_ConnectionSerialNumber := serial, c_sequenceNumber := c_sequenceNumber c + 2\<rparr>)
     \<and> serial \<noteq> 0"
  using nextConnectionSerialNumber_total[of "c_connectionSerialValue c"] by (auto simp: take_ids_def)

section \<open>Disconnecting always disconnects\<close>

lemma exchange_no_panic: "fst (exchange cmd msg c) = Inl e \<Longrightarrow> \<not> is_panic e"
  by (auto simp: exchange_def sendMsgBuild_def c_newEIPHeader_def sendData_def recvData_def Let_def
      dest!: read_full_Inl simp: read_eipHeader_def andthen_def
      split: list.splits option.splits sum.splits prod.splits if_splits)

lemma Disconnect_idle:
  "c_connStatus c = Disconnecting \<Longrightarrow> Disconnect c = (Inl (Msg ''client is already disconnecting''), c)"
  "c_connStatus c = Disconnected \<Longrightarrow> Disconnect c = (Inl (Msg ''client is already disconnected''), c)"
  by (simp_all add: Disconnect.simps startDisconnect_def)

lemma send_recv_disconnecting:
  assumes "c_connStatus c = Disconnecting"
  shows "\<not> (\<exists>e. fst (send_recv_data cmd msg c) = Inl e \<and> is_panic e)"
    and "c_connStatus (snd (send_recv_data cmd msg c)) = Disconnecting"
proof -
  obtain q c1 where x: "exchange cmd msg c = (q, c1)" by (cases "exchange cmd msg c")
  then have s: "c_connStatus c1 = Disconnecting" using exchange_status[of cmd msg c] assms by simp
  have p: "\<not> is_panic e" if "q = Inl e" for e using exchange_no_panic[of cmd msg c e] x that by simp
  show "\<not> (\<exists>e. fst (send_recv_data cmd msg c) = Inl e \<and> is_panic e)"
    and "c_connStatus (snd (send_recv_data cmd msg c)) = Disconnecting"
    using x s p by (auto simp: send_recv_data.simps Disconnect_idle split: sum.splits)
qed

lemma Disconnect_active:
  assumes "c_connStatus c \<in> {Connected, Connecting}" "\<not> (c_keepAliveRunning c \<and> c_cancel c \<noteq> OpenChan)"
  shows "fst (Disconnect c) = Inr () \<and> c_connStatus (snd (Disconnect c)) = Disconnected \<and> \<not> c_conn (snd (Disconnect c))"
proof -
  let ?c1 = "c\<lparr>c_connStatus := Disconnecting\<rparr>"
  have "\<exists>c2. stop_keepalive ?c1 = Inr c2 \<and> c_connStatus c2 = Disconnecting"
    using assms(2) by (cases "c_keepAliveRunning c"; cases "c_cancel c") (auto simp: stop_keepalive_def)
  then obtain c2 where k: "stop_keepalive ?c1 = Inr c2" and c2: "c_connStatus c2 = Disconnecting" by blast
  have s: "startDisconnect c = Inr ?c1" using assms(1) by (auto simp: startDisconnect_def)
  show ?thesis
  proof (cases "c_connStatus c = Connecting")
    case True
    then show ?thesis using s k by (simp add: Disconnect.simps closed_def)
  next
    case False
    obtain q c3 where x: "send_recv_data cipCommandSendRRData (disconnect_request c2) c2 = (q, c3)"
      by (cases "send_recv_data cipCommandSendRRData (disconnect_request c2) c2")
    have "\<not> is_panic e" if "q = Inl e" for e 
      using send_recv_disconnecting(1)[OF c2, of cipCommandSendRRData "disconnect_request c2"] x that by simp
    then show ?thesis using False s k x by (cases q) (simp_all add: Disconnect.simps closed_def)
  qed
qed


definition demo_client :: Client where
  "demo_client = \<lparr>c_Path = Some [1, 0], c_Port = 44818, c_ControllerVendorId = 0x9999, c_SerialNumber = 42,
     c_VendorId = 0x9999, c_SocketTimeout = 10000000000, c_AutoConnect = True, c_KeepAliveAutoStart = False,
     c_keepAliveRunning = False, c_cancel = NilChan, c_RPI = 2500000000, c_conn = True, c_connStatus = Connected,
     c_SessionHandle = 7, c_OTNetworkConnectionID = 9, c_HeaderSequenceCounter = 0, c_ConnectionSize = 4000,
     c_ConnectionSerialNumber = 3, c_Context = 0, c_sequenceNumber = 100, c_connectionSerialValue = 65534,
     c_sequenceValue = 0, c_KnownTags = Map.empty, c_KnownTypes = Map.empty,
           c_KnownTypesByID = Map.empty, c_KnownPrograms = [], c_knownFirmware = 20, c_ioi_cache = Map.empty, c_dials = [],
     c_sent = [], c_socket = [], c_script = []\<rparr>"


text \<open>
  \<^const>\<open>Connect\<close> and the status: a client that is not disconnected is refused unchanged; otherwise
  the client ends connected exactly when \<^const>\<open>Connect\<close> succeeds and disconnected when it fails, whatever
  the network does.
\<close>

theorem connect_settles_status:
  "(c_connStatus c \<noteq> Disconnected \<longrightarrow> (\<exists>e. Connect dial now c = (Inl e, c)))
   \<and> (c_connStatus c = Disconnected \<longrightarrow>
        c_connStatus (snd (Connect dial now c)) =
          (if fst (Connect dial now c) = Inr () then Connected else Disconnected))"
proof (cases "c_connStatus c = Disconnected")
  case True
  then show ?thesis
    by (auto simp: Connect_def startConnect_def split: prod.splits sum.splits)
next
  case False
  then show ?thesis by (cases "c_connStatus c") (simp_all add: Connect_def startConnect_def)
qed

theorem connect_settles_status_witness:
  "c_connStatus (snd (Connect False 5 (demo_client\<lparr>c_connStatus := Disconnected\<rparr>))) = Disconnected
   \<and> (\<exists>e. Connect True 5 demo_client = (Inl e, demo_client))"
  using connect_settles_status[of "demo_client\<lparr>c_connStatus := Disconnected\<rparr>" False 5]
    connect_settles_status[of demo_client True 5]
  by (simp add: demo_client_def Connect_def startConnect_def open_session_def connect_defaults_def)

text \<open>
  Serial numbers for new connections: the loop ends after at most two rounds, and the number is
  never zero, including when the 16-bit counter wraps.
\<close>

theorem serial_number_never_zero:
  "\<exists>s v'. nextConnectionSerialNumber v = Some (s, v') \<and> s \<noteq> 0 \<and> s = ucast v' \<and> v' \<in> {v + 1, v + 2}"
  by (rule nextConnectionSerialNumber_total)

text \<open>
  A read or write on a client that is not connected reconnects it or reports why not: with
  \<^verbatim>\<open>AutoConnect\<close> a connection attempt in progress elsewhere is reported as such and nothing
  changes; without it nothing is attempted.
\<close>

theorem check_connection_cases:
  "(c_connStatus c = Connected \<longrightarrow> checkConnection dial now c = (Inr (), c))
   \<and> (c_connStatus c \<in> {Connecting, Disconnecting} \<and> c_AutoConnect c \<longrightarrow>
        (\<exists>e. checkConnection dial now c = (Inl e, c) \<and> errors_Is e AutoReconnectInProgress))
   \<and> (c_connStatus c \<noteq> Connected \<and> \<not> c_AutoConnect c \<longrightarrow>
        (\<exists>e. checkConnection dial now c = (Inl e, c) \<and> \<not> errors_Is e AutoReconnectInProgress))
   \<and> (c_connStatus c = Disconnected \<and> c_AutoConnect c \<and> fst (checkConnection dial now c) = Inr () \<longrightarrow>
        c_connStatus (snd (checkConnection dial now c)) = Connected)"
  by (auto simp: checkConnection_def c_Connected_def Connect_def startConnect_def split: prod.splits sum.splits if_splits)

theorem check_connection_cases_witness:
  "\<exists>e. checkConnection True 5 (demo_client\<lparr>c_connStatus := Connecting\<rparr>) = (Inl e, demo_client\<lparr>c_connStatus := Connecting\<rparr>)
     \<and> errors_Is e AutoReconnectInProgress"
  using check_connection_cases[of "demo_client\<lparr>c_connStatus := Connecting\<rparr>" True 5]
  by (simp add: demo_client_def)

end
