(* ===== verification/Client_Requests.thy ===== *)
theory Client_Requests
  imports Client_Connection
begin

text \<open>
  Connected requests of the client: \<^verbatim>\<open>getattr.go\<close>, \<^verbatim>\<open>Client.firmware\<close>
  of \<^verbatim>\<open>client.go\<close>, and \<^verbatim>\<open>Client.newIOI\<close> of \<^verbatim>\<open>ioi.go\<close>
  as it uses the client's cache and asks for the firmware version.
\<close>

section \<open>Actions of the client\<close>

text \<open>An action changes the client and returns a value or an error.\<close>

type_synonym 'a cact = "Client \<Rightarrow> 'a res \<times> Client"

definition cret :: "'a \<Rightarrow> 'a cact" where
  "cret x c = (Inr x, c)"

definition cfail :: "gerror \<Rightarrow> 'a cact" where
  "cfail e c = (Inl e, c)"

definition cbind :: "'a cact \<Rightarrow> ('a \<Rightarrow> 'b cact) \<Rightarrow> 'b cact" where
  "cbind f g c = (case f c of (Inl e, c') \<Rightarrow> (Inl e, c') | (Inr x, c') \<Rightarrow> g x c')"

text \<open>\<open>cwrap m f g\<close>: the same, with an error of \<open>f\<close> wrapped; \<open>cneed m r g\<close> for an \<open>r\<close> that only computes.\<close>

definition cwrap :: "string \<Rightarrow> 'a cact \<Rightarrow> ('a \<Rightarrow> 'b cact) \<Rightarrow> 'b cact" where
  "cwrap m f g c = (case f c of (Inl e, c') \<Rightarrow> (Inl (wrap m e), c') | (Inr x, c') \<Rightarrow> g x c')"

definition cneed :: "string \<Rightarrow> 'a res \<Rightarrow> ('a \<Rightarrow> 'b cact) \<Rightarrow> 'b cact" where
  "cneed m r g c = (case r of Inl e \<Rightarrow> (Inl (wrap m e), c) | Inr x \<Rightarrow> g x c)"

definition cres :: "'a res \<Rightarrow> ('a \<Rightarrow> 'b cact) \<Rightarrow> 'b cact" where
  "cres r g c = (case r of Inl e \<Rightarrow> (Inl e, c) | Inr x \<Rightarrow> g x c)"

lemma cact_simps [simp]:
  "cbind (cret x) g = g x" "cres (Inr x) g = g x" "cneed m (Inr x) g = g x"
  "cres (Inl e) g = cfail e" "cneed m (Inl e) g = cfail (wrap m e)"
  by (auto simp: cbind_def cret_def cres_def cneed_def cfail_def)

lemma cres_cret [simp]: "cres r cret c = (r, c)"
  by (cases r) (simp_all add: cfail_def cret_def)

lemma cbind_Inr: "cbind f g c = (Inr y, c') \<longleftrightarrow> (\<exists>x c1. f c = (Inr x, c1) \<and> g x c1 = (Inr y, c'))"
  by (auto simp: cbind_def split: sum.splits prod.splits)

lemma cwrap_Inr: "cwrap m f g c = (Inr y, c') \<longleftrightarrow> (\<exists>x c1. f c = (Inr x, c1) \<and> g x c1 = (Inr y, c'))"
  by (auto simp: cwrap_def split: sum.splits prod.splits)

lemma cres_Inr: "cres r g c = (Inr y, c') \<longleftrightarrow> (\<exists>x. r = Inr x \<and> g x c = (Inr y, c'))"
  by (cases r) (simp_all add: cfail_def)

lemma cret_Inr: "cret x c = (Inr y, c') \<longleftrightarrow> x = y \<and> c = c'"
  by (simp add: cret_def)

lemma cfail_Inr: "cfail e c \<noteq> (Inr y, c')"
  by (simp add: cfail_def)

lemma cneed_Inr: "cneed m r g c = (Inr y, c') \<longleftrightarrow> (\<exists>x. r = Inr x \<and> g x c = (Inr y, c'))"
  by (cases r) (simp_all add: cfail_def)

lemmas cact_Inr = cbind_Inr cwrap_Inr cres_Inr cret_Inr cfail_Inr

section \<open>The connection of a request\<close>

text \<open>\<^verbatim>\<open>checkConnection\<close> with the next of the dial attempts to come, should it need one.\<close>

definition checkConn :: "unit cact" where
  "checkConn c =
     (if c_Connected c then (Inr (), c)
      else case c_dials c of
        [] \<Rightarrow> checkConnection False 0 c
      | (dial, now) # ds \<Rightarrow> checkConnection dial now (c\<lparr>c_dials := ds\<rparr>))"

text \<open>\<^verbatim>\<open>uint16(sequencer())\<close>\<close>

definition next_sequence :: "u16 cact" where
  "next_sequence c = (let (v, s) = sequencer (c_sequenceValue c) in (Inr (ucast v), c\<lparr>c_sequenceValue := s\<rparr>))"

definition msgCIPConnectedServiceReq :: "u16 \<Rightarrow> cip_service \<Rightarrow> u8 \<Rightarrow> bytes" where
  "msgCIPConnectedServiceReq SequenceCount Service PathLength = put16 SequenceCount @ [Service, PathLength]"

text \<open>An item for the connection and the request item, sent as unit data.\<close>

definition send_unit :: "CIPItem \<Rightarrow> (eipHeader \<times> bytes) cact" where
  "send_unit it c =
     send_recv_data cipCommandSendUnitData
       (serializeItems [newItem cipItem_ConnectionAddress (Some (VUint32 (c_OTNetworkConnectionID c))), it]) c"

text \<open>
  The items of a reply.  Several callers only log it when the six bytes before them are not there,
  and read on behind whatever there was.
\<close>

definition csd_skip :: "bytes \<Rightarrow> bytes" where
  "csd_skip d = (if length d < 6 then [] else drop 6 d)"

definition reply_items :: "bytes \<Rightarrow> CIPItem list res" where
  "reply_items d = andthen (readItems (csd_skip d)) (\<lambda>(items, _). Inr items)"

definition item1 :: "CIPItem list \<Rightarrow> CIPItem res" where
  "item1 items = (if length items < 2 then Inl (Panic ''index out of range [1]'') else Inr (items ! 1))"

section \<open>Attributes\<close>

abbreviation CIPService_GetAttributeList :: cip_service where "CIPService_GetAttributeList \<equiv> 0x03"
abbreviation CipObject_ControllerInfo :: cip_class where "CipObject_ControllerInfo \<equiv> 0xAC"

definition GetAttrSingle :: "cip_class \<Rightarrow> cip_instance \<Rightarrow> cip_attribute \<Rightarrow> CIPItem cact" where
  "GetAttrSingle class inst attr =
     cwrap ''could not start single read'' checkConn (\<lambda>_.
     cbind next_sequence (\<lambda>sq.
       let pl = (CIPClass_Len class + CIPInstance_Len inst + CIPAttribute_Len attr) div 2 in
     cbind (send_unit (item_Write (CIPClass_Bytes class @ CIPInstance_Bytes inst @ CIPAttribute_Bytes attr)
        (item_Write (msgCIPConnectedServiceReq sq CIPService_GetAttributeSingle (of_nat pl))
          (empty_item cipItem_ConnectedData)))) (\<lambda>(_, data).
     cres (reply_items data) (\<lambda>items.
     cres (item1 items) (\<lambda>it.
     cneed ''couldn't read response header'' (item_ReadFull 6 it) (\<lambda>(_, it').
     cret it'))))))"

definition GetAttrList :: "cip_class \<Rightarrow> cip_instance \<Rightarrow> cip_attribute list \<Rightarrow> CIPItem cact" where
  "GetAttrList class inst attrs c =
     (let path = CIPClass_Bytes class @ CIPInstance_Bytes inst;
          sq = ucast (c_sequenceNumber c + 1) in
     cbind (send_unit (item_Write (path @ put16 (of_nat (length attrs)) @ concat (map put16 attrs))
        (item_Write (msgCIPConnectedServiceReq sq CIPService_GetAttributeList (of_nat (length path div 2)))
          (empty_item cipItem_ConnectedData)))) (\<lambda>(_, data).
     cres (read_full 6 data) (\<lambda>(_, r).
     cres (readItems r) (\<lambda>(items, _).
     cres (item1 items) (\<lambda>it.
     cneed ''couldn't read response header'' (item_ReadFull 6 it) (\<lambda>(x, it1).
     if fld16 4 x \<noteq> ucast CIPStatus_OK then cfail (Msg ''response header has status'')
     else cres (item_Int16 it1) (\<lambda>(_, it2). cret it2))))))
     (c\<lparr>c_sequenceNumber := c_sequenceNumber c + 1\<rparr>))"

record msgGetControllerPropList =
  Attr1_ID :: u16
  Attr1_Status :: u16
  Attr1 :: u16
  Attr2_ID :: u16
  Attr2_Status :: u16
  Attr2 :: u16
  Attr3_ID :: u16
  Attr3_Status :: u16
  Attr3 :: u32
  Attr4_ID :: u16
  Attr4_Status :: u16
  Attr4 :: u32
  Attr5_ID :: u16
  Attr5_Status :: u16
  Attr5 :: u32

definition props_Match :: "msgGetControllerPropList \<Rightarrow> msgGetControllerPropList \<Rightarrow> bool" where
  "props_Match old new =
     (if Attr1 new \<noteq> Attr1 old \<or> Attr1_Status new \<noteq> Attr1_Status old then False
      else if Attr2 new \<noteq> Attr2 old \<or> Attr2_Status new \<noteq> Attr2_Status old then False
      else if Attr3 new \<noteq> Attr3 old \<or> Attr3_Status new \<noteq> Attr3_Status old then False
      else if Attr4 new \<noteq> Attr4 old \<or> Attr4_Status new \<noteq> Attr4_Status old then False
      else if Attr5 new \<noteq> Attr5 old \<or> Attr5_Status new \<noteq> Attr5_Status old then False
      else True)"

definition decode_props :: "bytes \<Rightarrow> msgGetControllerPropList" where
  "decode_props x =
     \<lparr>Attr1_ID = fld16 0 x, Attr1_Status = fld16 2 x, Attr1 = fld16 4 x,
      Attr2_ID = fld16 6 x, Attr2_Status = fld16 8 x, Attr2 = fld16 10 x,
      Attr3_ID = fld16 12 x, Attr3_Status = fld16 14 x, Attr3 = fld32 16 x,
      Attr4_ID = fld16 20 x, Attr4_Status = fld16 22 x, Attr4 = fld32 24 x,
      Attr5_ID = fld16 28 x, Attr5_Status = fld16 30 x, Attr5 = fld32 32 x\<rparr>"

definition GetControllerPropList :: "msgGetControllerPropList cact" where
  "GetControllerPropList =
     cbind (GetAttrList CipObject_ControllerInfo 1 [1, 2, 3, 4, 10]) (\<lambda>it.
     cneed ''couldn't read data'' (item_ReadFull 36 it) (\<lambda>(x, _). cret (decode_props x)))"

section \<open>Generic messages\<close>

definition GenericCIPMessage :: "cip_service \<Rightarrow> bytes \<Rightarrow> bytes \<Rightarrow> CIPItem cact" where
  "GenericCIPMessage service path msg_data =
     cbind next_sequence (\<lambda>sq.
     cbind (send_unit (item_Write (path @ msg_data)
        (item_Write (msgCIPConnectedServiceReq sq service (of_nat (length path div 2)))
          (empty_item cipItem_ConnectedData)))) (\<lambda>(_, data).
     cneed ''problem reading read result header'' (read_full 6 data) (\<lambda>(_, r).
     cneed ''problem reading items'' (readItems r) (\<lambda>(items, _).
     cres (item1 items) (\<lambda>it.
     cneed ''problem reading sequence counter'' (item_Int16 it) (\<lambda>(_, it1).
     cneed ''problem reading service response'' (item_Int16 it1) (\<lambda>(s_response, it2).
     if UnResponse (word_of_int s_response) \<noteq> service then cfail (Msg ''expected service response'')
     else
     cneed ''problem getting response status'' (item_Int16 it2) (\<lambda>(status, it3).
     if status \<noteq> 0 then cfail (CIPStatusError (word_of_int status)) else cret it3))))))))"

section \<open>The firmware version and tag paths\<close>

definition firmware :: "int cact" where
  "firmware c =
     (if c_knownFirmware c \<noteq> 0 then (Inr (c_knownFirmware c), c)
      else case GetAttrSingle CipObject_Identity 1 4 c of
        (Inl e, c1) \<Rightarrow> (if is_panic e then Inl e else Inr 0, c1)
      | (Inr i, c1) \<Rightarrow>
          (case item_Byte i of
             Inl e \<Rightarrow> (if is_panic e then Inl e else Inr 0, c1)
           | Inr (major, _) \<Rightarrow> (Inr (uint major), c1\<lparr>c_knownFirmware := uint major\<rparr>)))"

definition c_newIOI :: "string \<Rightarrow> cip_type \<Rightarrow> tagIOI cact" where
  "c_newIOI tag datatype =
     cbind firmware (\<lambda>fw c.
       case newIOI (c_KnownTags c) fw tag datatype (c_ioi_cache c) of
         Inl e \<Rightarrow> (Inl e, c)
       | Inr (ioi, cache) \<Rightarrow> (Inr ioi, c\<lparr>c_ioi_cache := cache\<rparr>))"

section \<open>Requests that are answered\<close>

text \<open>What \<^const>\<open>send_unit\<close> writes to the socket, and the message of a reply with one data item.\<close>

definition unit_request :: "Client \<Rightarrow> CIPItem \<Rightarrow> bytes" where
  "unit_request c it = fst (sendMsgBuild cipCommandSendUnitData
     (serializeItems [newItem cipItem_ConnectionAddress (Some (VUint32 (c_OTNetworkConnectionID c))), it]) c)"

definition connected_reply :: "u32 \<Rightarrow> bytes \<Rightarrow> bytes" where
  "connected_reply connID body =
     serializeItems [item_Write (put32 connID) (empty_item cipItem_ConnectionAddress),
       item_Write body (empty_item cipItem_ConnectedData)]"

definition eip_frame :: "eipHeader \<Rightarrow> bytes \<Rightarrow> bytes" where
  "eip_frame hdr msg = eipHeader_Bytes (hdr\<lparr>eh_Length := of_nat (length msg)\<rparr>) @ msg"

lemma unit_request_cong:
  "c_OTNetworkConnectionID c' = c_OTNetworkConnectionID c \<Longrightarrow> c_SessionHandle c' = c_SessionHandle c \<Longrightarrow>
   c_Context c' = c_Context c \<Longrightarrow> unit_request c' it = unit_request c it"
  by (simp add: unit_request_def sendMsgBuild_def c_newEIPHeader_def)

lemma send_unit_answered:
  assumes "c_conn c" "c_socket c = []" "c_script c = Some (eip_frame hdr reply) # s" "length reply < 65536"
  shows "send_unit it c = (Inr (hdr\<lparr>eh_Length := of_nat (length reply)\<rparr>, reply),
    c\<lparr>c_HeaderSequenceCounter := c_HeaderSequenceCounter c + 1, c_script := s, c_sent := c_sent c @ [unit_request c it]\<rparr>)"
  unfolding send_unit_def unit_request_def
  using assms by (intro send_recv_answered) (simp_all add: eip_frame_def unat_u16_of_nat)

lemma connected_reply_items:
  assumes "length body < 65536"
  shows "readItems (csd_skip (connected_reply i body)) = Inr ([item_Write (put32 i) (empty_item cipItem_ConnectionAddress),
    item_Write body (empty_item cipItem_ConnectedData)], [])"
proof -
  let ?items = "[item_Write (put32 i) (empty_item cipItem_ConnectionAddress), item_Write body (empty_item cipItem_ConnectedData)]"
  let ?s = "put16 (of_nat (length ?items)) @ concat (map item_Bytes ?items)"
  have "list_all item_wf ?items" using assms by (simp add: item_wf_Write)
  then have "readItems (?s @ []) = Inr (?items, [])"
    using readItems_serializeItems_aux[of ?items ?s "[]"] by (simp add: serializeItems_def)
  moreover have "csd_skip (connected_reply i body) = ?s"
    by (simp add: csd_skip_def connected_reply_def serializeItems_def)
  ultimately show ?thesis by simp
qed

lemma reply_items_connected:
  assumes "length body < 65536"
  shows "reply_items (connected_reply i body) = Inr [item_Write (put32 i) (empty_item cipItem_ConnectionAddress),
    item_Write body (empty_item cipItem_ConnectedData)]"
  by (simp add: reply_items_def connected_reply_items[OF assms])

lemma length_connected_reply: "length (connected_reply i body) = 20 + length body"
  by (simp add: connected_reply_def serializeItems_def item_Bytes_def item_Write_def)

end
