(* ===== verification/Cip_Pack.thy ===== *)
theory Cip_Pack
  imports Cip_Items
begin

text \<open>
  \<^verbatim>\<open>pack.go\<close>: user-defined structures on the wire.  \<^verbatim>\<open>Pack\<close> walks the
  fields of a struct, joins runs of booleans into bytes, pads every field to its alignment and
  recurses into sub-structures; \<^verbatim>\<open>Unpack\<close> reads the same layout back.

  Modelled are structs of types without a \<^verbatim>\<open>Pack\<close> or \<^verbatim>\<open>Unpack\<close> method
  of their own, written to an in-memory buffer (whose writes never fail).
\<close>

section \<open>Sizes and alignments\<close>

text \<open>\<^verbatim>\<open>reflect.Type.Align\<close> and \<^verbatim>\<open>reflect.Type.Size\<close> on a 64-bit platform.\<close>

fun go_align :: "gotype \<Rightarrow> nat" where
  "go_align TBool = 1"
| "go_align TUint8 = 1"
| "go_align TInt8 = 1"
| "go_align TUint16 = 2"
| "go_align TInt16 = 2"
| "go_align TUint32 = 4"
| "go_align TInt32 = 4"
| "go_align TFloat32 = 4"
| "go_align (TArray n t) = go_align t"
| "go_align (TStruct n fs) = foldr (\<lambda>ft a. max (go_align (snd ft)) a) fs 1"
| "go_align _ = 8"

definition align_up :: "nat \<Rightarrow> nat \<Rightarrow> nat" where
  "align_up a n = (if n mod a = 0 then n else n + (a - n mod a))"

fun go_size :: "gotype \<Rightarrow> nat" where
  "go_size TBool = 1"
| "go_size TUint8 = 1"
| "go_size TInt8 = 1"
| "go_size TUint16 = 2"
| "go_size TInt16 = 2"
| "go_size TUint32 = 4"
| "go_size TInt32 = 4"
| "go_size TFloat32 = 4"
| "go_size TString = 16"
| "go_size TAny = 16"
| "go_size (TSlice t) = 24"
| "go_size (TArray n t) = n * go_size t"
| "go_size (TStruct n fs) =
     align_up (go_align (TStruct n fs))
       (foldl (\<lambda>off ft. align_up (go_align (snd ft)) off + go_size (snd ft)) 0 fs)"
| "go_size _ = 8"

text \<open>\<^verbatim>\<open>cipPack.Align\<close>\<close>

fun cip_Align :: "gotype \<Rightarrow> nat" where
  "cip_Align TString = 4"
| "cip_Align (TArray n t) = cip_Align t"
| "cip_Align (TSlice t) = cip_Align t"
| "cip_Align (TStruct n fs) =
     (let a = foldl (\<lambda>a ft. if cip_Align (snd ft) > a then cip_Align (snd ft) else a) 1 fs
      in if a < 4 then 4 else a)"
| "cip_Align t = go_align t"

section \<open>Pack\<close>

record pack_state =
  pk_out :: bytes
  pk_pos :: nat
  pk_bitpos :: nat
  pk_bitpack :: u8
  pk_lastA :: nat

definition zeros :: "nat \<Rightarrow> bytes" where
  "zeros n = replicate n 0"

text \<open>Zero bytes up to the next multiple of \<open>a\<close>.\<close>

definition pk_pad :: "nat \<Rightarrow> pack_state \<Rightarrow> pack_state" where
  "pk_pad a st =
     (let rem = a - pk_pos st mod a in
      if rem \<noteq> a then st\<lparr>pk_out := pk_out st @ zeros rem, pk_pos := pk_pos st + rem\<rparr> else st)"

definition pk_flush :: "pack_state \<Rightarrow> pack_state" where
  "pk_flush st =
     (if pk_bitpos st > 0
      then st\<lparr>pk_out := pk_out st @ [pk_bitpack st], pk_pos := pk_pos st + 1, pk_bitpos := 0, pk_bitpack := 0\<rparr>
      else st)"

definition pk_bit :: "bool \<Rightarrow> pack_state \<Rightarrow> pack_state" where
  "pk_bit b st =
     (let bp = pk_bitpack st OR push_bit (pk_bitpos st) (if b then 1 else 0); n = pk_bitpos st + 1 in
      if n \<ge> 8
      then st\<lparr>pk_out := pk_out st @ [bp], pk_pos := pk_pos st + 1, pk_bitpos := 0, pk_bitpack := 0\<rparr>
      else st\<lparr>pk_bitpos := n, pk_bitpack := bp\<rparr>)"

definition pk_bits :: "goval list \<Rightarrow> pack_state \<Rightarrow> pack_state" where
  "pk_bits vs st = fold (\<lambda>v. pk_bit (case v of VBool b \<Rightarrow> b | _ \<Rightarrow> False)) vs st"

definition string_slot82 :: "string \<Rightarrow> bytes" where
  "string_slot82 s = put32 (of_nat (length s)) @ pad_copy 82 (to_bytes s)"

definition pk_string :: "string \<Rightarrow> pack_state \<Rightarrow> pack_state" where
  "pk_string s st = st\<lparr>pk_out := pk_out st @ string_slot82 s, pk_pos := pk_pos st + 86\<rparr>"

definition pk_strings :: "goval list \<Rightarrow> pack_state \<Rightarrow> pack_state" where
  "pk_strings vs st = fold (\<lambda>v. pk_string (case v of VString s \<Rightarrow> s | _ \<Rightarrow> [])) vs st"

text \<open>Padding before the field: up to the byte index of its tag, or to a larger alignment than the last field's.\<close>

definition pk_lead :: "gofield \<Rightarrow> nat \<Rightarrow> pack_state \<Rightarrow> pack_state res" where
  "pk_lead f a st =
     (case index_tag f of
        BadIndex \<Rightarrow> Inl (Msg ''problem parsing byteIndex tag'')
      | Index i \<Rightarrow>
          (if int (pk_pos st) < i
           then let remain = nat (i - int (pk_pos st)) in
             Inr (st\<lparr>pk_out := pk_out st @ zeros remain, pk_pos := pk_pos st + remain\<rparr>)
           else Inr st)
      | NoIndex \<Rightarrow> Inr (if a > pk_lastA st then pk_pad a st else st))"

definition is_nopack :: "gofield \<Rightarrow> bool" where
  "is_nopack f = (pack_tag f = ''nopack'')"

definition pk_put :: "bytes \<Rightarrow> nat \<Rightarrow> pack_state \<Rightarrow> pack_state" where
  "pk_put bs s st = st\<lparr>pk_out := pk_out st @ bs, pk_pos := pk_pos st + s\<rparr>"

definition pk_align :: "gofield \<Rightarrow> nat \<Rightarrow> pack_state \<Rightarrow> pack_state" where
  "pk_align f a st = (if index_tag f = NoIndex then pk_pad a st else st)"

definition pk_init :: pack_state where
  "pk_init = \<lparr>pk_out = [], pk_pos = 0, pk_bitpos = 0, pk_bitpack = 0, pk_lastA = 1\<rparr>"

text \<open>
  The value written for a field that is neither packed as bits nor a sub-structure:
  \<^verbatim>\<open>binary.Write\<close>, after the pending bits and the alignment.
\<close>

definition pk_plain :: "gofield \<Rightarrow> goval \<Rightarrow> pack_state \<Rightarrow> pack_state res" where
  "pk_plain f v st =
     flat ''problem reading sub-structure'' (binary_write v) (\<lambda>bs.
       Inr (pk_put bs (go_size (typeof v)) (pk_align f (cip_Align (typeof v)) (pk_flush st))))"

fun Pack :: "goval \<Rightarrow> (bytes \<times> nat) res"
  and pack_fields :: "(gofield \<times> goval) list \<Rightarrow> pack_state \<Rightarrow> pack_state res"
  and pack_elems :: "goval list \<Rightarrow> pack_state \<Rightarrow> pack_state res" where
  "Pack (VStruct n fs) =
     andthen (pack_fields fs pk_init) (\<lambda>st. let st' = pk_flush st in Inr (pk_out st', pk_pos st'))"
| "Pack (VSer bs) = Inr (bs, length bs)"
| "Pack v = Inl (Panic ''reflect: NumField of non-struct type'')"
| "pack_fields [] st = Inr st"
| "pack_fields ((f, v) # fs) st =
     (let a = cip_Align (typeof v) in
      andthen (pk_lead f a st) (\<lambda>st0.
        let st1 = st0\<lparr>pk_lastA := a\<rparr> in
        andthen
          (case v of
             VArray t vs \<Rightarrow>
               (if is_nopack f then pk_plain f v st1
                else if t = TBool then Inr (pk_bits vs st1)
                else (case t of
                    TStruct n ts \<Rightarrow> andthen (pack_elems vs st1) (\<lambda>st2. Inr (st2\<lparr>pk_bitpos := 0\<rparr>))
                  | TString \<Rightarrow> Inr ((pk_strings vs st1)\<lparr>pk_bitpos := 0\<rparr>)
                  | _ \<Rightarrow> pk_plain f v (st1\<lparr>pk_bitpos := 0\<rparr>)))
           | VBool b \<Rightarrow> (if is_nopack f then pk_plain f v st1 else Inr (pk_bit b st1))
           | VString s \<Rightarrow>
               (if is_nopack f then pk_plain f v st1 else Inr ((pk_string s st1)\<lparr>pk_bitpos := 0\<rparr>))
           | VStruct n ts \<Rightarrow>
               (let st2 = pk_align f a (pk_flush st1) in
                attempt ''problem packing interface'' (Pack (VStruct n ts)) (\<lambda>(bs, s).
                  Inr (pk_align f a (pk_put bs s st2))))
           | _ \<Rightarrow> pk_plain f v st1)
          (pack_fields fs)))"
| "pack_elems [] st = Inr st"
| "pack_elems (v # vs) st =
     attempt ''problem packing array element'' (Pack v) (\<lambda>(bs, s). pack_elems vs (pk_put bs s st))"

section \<open>Unpack\<close>

record unpack_state =
  un_rest :: bytes
  un_n :: nat
  un_bitpos :: nat
  un_bitpack :: u8
  un_lastA :: nat

text \<open>
  \<^verbatim>\<open>r.Read(pad)\<close> on a buffer: an empty buffer is an error, a short one is not noticed, and
  the count advances by what was asked for.
\<close>

definition un_skip :: "string \<Rightarrow> nat \<Rightarrow> unpack_state \<Rightarrow> unpack_state res" where
  "un_skip msg k st =
     (if k = 0 then Inr st
      else if un_rest st = [] then Inl (Wrapped msg EOF)
      else Inr (st\<lparr>un_rest := drop k (un_rest st), un_n := un_n st + k\<rparr>))"

definition un_pad :: "nat \<Rightarrow> unpack_state \<Rightarrow> unpack_state res" where
  "un_pad a st =
     (let rem = a - un_n st mod a in
      if rem < a \<and> rem > 0 then un_skip ''problem reading padding bits'' rem st else Inr st)"

definition un_lead :: "gofield \<Rightarrow> nat \<Rightarrow> unpack_state \<Rightarrow> unpack_state res" where
  "un_lead f a st =
     (case index_tag f of
        BadIndex \<Rightarrow> Inl (Msg ''problem parsing byteIndex tag'')
      | Index i \<Rightarrow>
          (if int (un_n st) < i
           then un_skip ''problem reading byteIndex padding'' (nat (i - int (un_n st))) st
           else Inr st)
      | NoIndex \<Rightarrow> if a > un_lastA st then un_pad a st else Inr st)"

definition un_align :: "gofield \<Rightarrow> nat \<Rightarrow> unpack_state \<Rightarrow> unpack_state res" where
  "un_align f a st = (if index_tag f = NoIndex then un_pad a st else Inr st)"

definition un_bit :: "unpack_state \<Rightarrow> (bool \<times> unpack_state) res" where
  "un_bit st =
     andthen (if un_bitpos st = 0
              then (case un_rest st of
                      [] \<Rightarrow> Inl (Wrapped ''problem reading packed bool'' EOF)
                    | b # r \<Rightarrow> Inr (st\<lparr>un_rest := r, un_bitpack := b, un_n := un_n st + 1\<rparr>))
              else Inr st) (\<lambda>st1.
       let n = un_bitpos st1 + 1 in
       Inr (un_bitpack st1 AND push_bit (un_bitpos st1) 1 \<noteq> 0,
            st1\<lparr>un_bitpos := (if n \<ge> 8 then 0 else n)\<rparr>))"

fun un_bits :: "nat \<Rightarrow> unpack_state \<Rightarrow> (goval list \<times> unpack_state) res" where
  "un_bits 0 st = Inr ([], st)"
| "un_bits (Suc k) st =
     andthen (un_bit st) (\<lambda>(b, st1). andthen (un_bits k st1) (\<lambda>(vs, st2). Inr (VBool b # vs, st2)))"

definition un_string :: "unpack_state \<Rightarrow> (goval \<times> unpack_state) res" where
  "un_string st =
     (if length (un_rest st) < 86 then Inl (Msg ''problem reading packed string'')
      else let strLen = get32 (take 4 (un_rest st)) in
        if strLen > 82 then Inl (Msg ''problem reading packed string. string length unexpected'')
        else Inr (VString (of_bytes (take (unat strLen) (drop 4 (un_rest st)))),
                  st\<lparr>un_rest := drop 86 (un_rest st), un_n := un_n st + 86\<rparr>))"

fun un_strings :: "nat \<Rightarrow> unpack_state \<Rightarrow> (goval list \<times> unpack_state) res" where
  "un_strings 0 st = Inr ([], st)"
| "un_strings (Suc k) st =
     andthen (un_string st) (\<lambda>(v, st1). andthen (un_strings k st1) (\<lambda>(vs, st2). Inr (v # vs, st2)))"

definition un_plain :: "gofield \<Rightarrow> gotype \<Rightarrow> unpack_state \<Rightarrow> (goval \<times> unpack_state) res" where
  "un_plain f t st =
     andthen (un_align f (cip_Align t) (st\<lparr>un_bitpos := 0\<rparr>)) (\<lambda>st1.
       attempt ''problem reading field data'' (binary_read t (un_rest st1)) (\<lambda>(v, r).
         Inr (v, st1\<lparr>un_rest := r, un_n := un_n st1 + go_size t\<rparr>)))"

definition un_init :: "bytes \<Rightarrow> unpack_state" where
  "un_init r = \<lparr>un_rest = r, un_n = 0, un_bitpos = 0, un_bitpack = 0, un_lastA = 1\<rparr>"

fun Unpack :: "gotype \<Rightarrow> bytes \<Rightarrow> (goval \<times> nat \<times> bytes) res"
  and unpack_fields :: "(gofield \<times> gotype) list \<Rightarrow> unpack_state \<Rightarrow> ((gofield \<times> goval) list \<times> unpack_state) res"
  and unpack_elems :: "gotype \<Rightarrow> nat \<Rightarrow> unpack_state \<Rightarrow> (goval list \<times> unpack_state) res" where
  "Unpack (TStruct n fs) r =
     andthen (unpack_fields fs (un_init r)) (\<lambda>(vs, st). Inr (VStruct n vs, un_n st, un_rest st))"
| "Unpack t r = Inl (Panic ''reflect: NumField of non-struct type'')"
| "unpack_fields [] st = Inr ([], st)"
| "unpack_fields ((f, t) # fs) st =
     (let a = cip_Align t in
      andthen (un_lead f a st) (\<lambda>st0.
        let st1 = st0\<lparr>un_lastA := a\<rparr> in
        andthen
          (case t of
             TArray k e \<Rightarrow>
               (if is_nopack f then un_plain f t st1
                else if e = TBool then andthen (un_bits k st1) (\<lambda>(vs, st2). Inr (VArray TBool vs, st2))
                else (case e of
                    TStruct n ts \<Rightarrow>
                      andthen (unpack_elems e k st1) (\<lambda>(vs, st2). Inr (VArray e vs, st2\<lparr>un_bitpos := 0\<rparr>))
                  | TString \<Rightarrow>
                      andthen (un_strings k st1) (\<lambda>(vs, st2). Inr (VArray TString vs, st2\<lparr>un_bitpos := 0\<rparr>))
                  | _ \<Rightarrow> un_plain f t (st1\<lparr>un_bitpos := 0\<rparr>)))
           | TBool \<Rightarrow>
               (if is_nopack f then un_plain f t st1
                else andthen (un_bit st1) (\<lambda>(b, st2). Inr (VBool b, st2)))
           | TString \<Rightarrow>
               (if is_nopack f then un_plain f t st1
                else andthen (un_string st1) (\<lambda>(v, st2). Inr (v, st2\<lparr>un_bitpos := 0\<rparr>)))
           | TStruct n ts \<Rightarrow>
               andthen (un_align f a (st1\<lparr>un_bitpos := 0\<rparr>)) (\<lambda>st2.
                 attempt ''problem unpacking sub-structure field'' (Unpack t (un_rest st2)) (\<lambda>(v, s, r).
                   andthen (un_align f a (st2\<lparr>un_rest := r, un_n := un_n st2 + s\<rparr>)) (\<lambda>st3.
                     Inr (v, st3))))
           | _ \<Rightarrow> un_plain f t st1)
          (\<lambda>(v, st2). andthen (unpack_fields fs st2) (\<lambda>(vs, st3). Inr ((f, v) # vs, st3)))))"
| "unpack_elems t 0 st = Inr ([], st)"
| "unpack_elems t (Suc k) st =
     attempt ''problem unpacking array element'' (Unpack t (un_rest st)) (\<lambda>(v, s, r).
       andthen (unpack_elems t k (st\<lparr>un_rest := r, un_n := un_n st + s\<rparr>)) (\<lambda>(vs, st2).
         Inr (v # vs, st2)))"

text \<open>\<^verbatim>\<open>Unpack\<close> into a slice: element by element, each followed by padding to the element's alignment.\<close>

fun unpack_slice :: "gotype \<Rightarrow> nat \<Rightarrow> nat \<Rightarrow> bytes \<Rightarrow> (goval list \<times> nat \<times> bytes) res" where
  "unpack_slice t 0 n r = Inr ([], n, r)"
| "unpack_slice t (Suc k) n r =
     attempt ''problem unpacking slice element'' (Unpack t r) (\<lambda>(v, s, r1).
       let a = cip_Align t; pad = a - s mod a in
       andthen (if s mod a \<noteq> 0
                then (if r1 = [] then Inl (Wrapped ''problem reading slice element padding'' EOF)
                      else Inr (length (take pad r1), drop pad r1))
                else Inr (0, r1)) (\<lambda>(got, r2).
         andthen (unpack_slice t k (n + s + got) r2) (\<lambda>(vs, n', r3). Inr (v # vs, n', r3))))"

end
