(* ===== verification/Client_Read.thy ===== *)
theory Client_Read
  imports Client_Requests Cip_Pack
begin

text \<open>
  Reading one tag: \<^verbatim>\<open>Read\<close>, \<^verbatim>\<open>Read_single\<close> and what they use of
  \<^verbatim>\<open>read.go\<close>, with the continuation of partial transfers, the estimates of message
  sizes that decide between plain and fragmented reads, and the decoding of the payload.
\<close>

section \<open>Estimated sizes\<close>

record tagDesc =
  td_TagName :: string
  td_TagType :: cip_type
  td_Elements :: int
  td_Struct :: goval

definition estimateMultiReadRequestOverhead :: "int \<Rightarrow> int" where
  "estimateMultiReadRequestOverhead serviceCount =
     (let n = (if serviceCount < 0 then 0 else serviceCount) in 6 + 2 + (4 + 4) + 4 + 10 + 2 * n)"

definition estimateMultiReadReplyOverhead :: "int \<Rightarrow> int" where
  "estimateMultiReadReplyOverhead replyCount =
     (let n = (if replyCount < 0 then 0 else replyCount) in 6 + 2 + (4 + 4) + 4 + 8 + 2 * n)"

text \<open>\<^verbatim>\<open>packedStructSize\<close>; there are no pointers among the values of the model.\<close>

fun packedStructSize :: "goval \<Rightarrow> nat res" and packed_sizes :: "goval list \<Rightarrow> nat res" where
  "packedStructSize VNil = Inl (Msg ''nil value'')"
| "packedStructSize (VStruct n fs) =
     andthen (Pack (VStruct n fs)) (\<lambda>(buf, k). Inr (if k > 0 then k else length buf))"
| "packedStructSize (VArray t vs) = packed_sizes vs"
| "packedStructSize (VSlice t vs) = packed_sizes vs"
| "packedStructSize v = (case sizeof (typeof v) of None \<Rightarrow> Inl (Msg ''unsupported struct payload type'') | Some k \<Rightarrow> Inr k)"
| "packed_sizes [] = Inr 0"
| "packed_sizes (v # vs) = andthen (packedStructSize v) (\<lambda>a. andthen (packed_sizes vs) (\<lambda>b. Inr (a + b)))"

definition estimateTagResponseSize :: "tagDesc \<Rightarrow> int" where
  "estimateTagResponseSize tag =
     (let elements = (if td_Elements tag < 1 then 1 else td_Elements tag);
          resultHdrSize = 4 + 2 in
      if td_TagType tag \<noteq> CIPTypeStruct then resultHdrSize + int (CIPType_Size (td_TagType tag)) * elements
      else
        let size0 = (case packedStructSize (td_Struct tag) of
                Inl _ \<Rightarrow> CIPType_Size (td_TagType tag)
              | Inr k \<Rightarrow> if k = 0 then CIPType_Size (td_TagType tag) else k);
            size' = (if size0 mod 8 \<noteq> 0 then size0 + (8 - size0 mod 8) else size0)
        in resultHdrSize + 2 + int size' * elements)"

definition readServiceForTag :: "tagDesc \<Rightarrow> u16 \<Rightarrow> cip_service" where
  "readServiceForTag tag connectionSize =
     (if td_TagType tag = CIPTypeStruct \<or> td_Elements tag > 1 then CIPService_FragRead
      else
        let connSize = (if connectionSize > 0 then uint connectionSize else uint connSizeLargeDefault) in
        if estimateMultiReadReplyOverhead 1 + estimateTagResponseSize tag \<ge> connSize then CIPService_FragRead
        else CIPService_Read)"

definition singleReadService :: "string \<Rightarrow> cip_type \<Rightarrow> u16 \<Rightarrow> Client \<Rightarrow> cip_service" where
  "singleReadService tag datatype elements c =
     readServiceForTag \<lparr>td_TagName = tag, td_TagType = datatype, td_Elements = uint elements, td_Struct = VNil\<rparr>
       (c_ConnectionSize c)"

section \<open>Decoding the payload of one tag\<close>

definition byte_slice :: "bytes \<Rightarrow> goval" where
  "byte_slice b = VSlice TUint8 (map VUint8 b)"

text \<open>One element of an array of strings: a length and 82 bytes, of which the first \<^verbatim>\<open>Length\<close> count.\<close>

fun decode_strings :: "nat \<Rightarrow> bytes \<Rightarrow> goval list res" where
  "decode_strings 0 r = Inr []"
| "decode_strings (Suc n) r =
     attempt ''couldn't unpack struct header'' (rd32 r) (\<lambda>(l, r1).
     attempt ''couldn't unpack struct data'' (read_full 82 r1) (\<lambda>(str, r2).
     if unat l > 82 then Inl (Panic ''slice bounds out of range'')
     else andthen (decode_strings n r2) (\<lambda>vs. Inr (byte_slice (take (unat l) str) # vs))))"

fun decode_elements :: "nat \<Rightarrow> cip_type \<Rightarrow> bytes \<Rightarrow> goval list res" where
  "decode_elements 0 t r = Inr []"
| "decode_elements (Suc n) t r =
     attempt ''problem reading element'' (readValue t r) (\<lambda>(v, r1).
     andthen (decode_elements n t r1) (\<lambda>vs. Inr (v # vs)))"

definition decodeSingleReadPayload :: "cip_type \<Rightarrow> u16 \<Rightarrow> tagIOI \<Rightarrow> cip_type \<Rightarrow> bytes \<Rightarrow> goval res" where
  "decodeSingleReadPayload datatype elements ioi respType payload =
     (if respType = CIPTypeStruct then
        (if datatype = CIPTypeSTRING then
           (if elements = 1 then
              attempt ''couldn't unpack struct header'' (rd32 payload) (\<lambda>(l, r1).
              attempt ''couldn't unpack struct data'' (read_full (unat l) r1) (\<lambda>(str, _).
              Inr (byte_slice str)))
            else andthen (decode_strings (unat elements) payload) (\<lambda>vs. Inr (VSlice TAny vs)))
         else Inr (byte_slice payload))
      else if elements = 1 then
        (if datatype = CIPTypeBOOL \<and> respType \<noteq> CIPTypeBOOL \<and> ioi_BitAccess ioi then
           attempt ''problem reading bool tag'' (readValue respType payload) (\<lambda>(value, _).
           andthen (getBit respType value (ioi_BitPosition ioi)) (\<lambda>b. Inr (VBool b)))
         else attempt ''problem reading tag'' (readValue respType payload) (\<lambda>(value, _). Inr value))
      else andthen (decode_elements (unat elements) respType payload) (\<lambda>vs. Inr (VSlice TAny vs)))"

section \<open>Reading one tag\<close>

text \<open>The fields of \<^verbatim>\<open>msgCIPReadResultData\<close> that are used.\<close>

record read_result =
  rr_Status :: cip_status
  rr_Type :: cip_type
  rr_chunk :: bytes

text \<open>What \<^verbatim>\<open>Read_single\<close> takes from one reply.\<close>

definition single_reply :: "eipHeader \<Rightarrow> bytes \<Rightarrow> read_result res" where
  "single_reply hdr data =
     (if eh_Status hdr \<noteq> 0 then Inl (Msg ''problem reading tags. Status'')
      else andthen (reply_items data) (\<lambda>items.
        if length items \<noteq> 2 then Inl (Msg ''wrong Number of Items'')
        else attempt ''problem reading item 2's header'' (item_ReadFull 8 (items ! 1)) (\<lambda>(x, it1).
          let status = fld8 4 x in
          if status \<noteq> CIPStatus_OK \<and> status \<noteq> CIPStatus_PartialTransfer then Inl (Msg ''service returned status'')
          else flat ''problem reading additional type info header''
                 (if fld8 7 x \<noteq> 0 then item_ReadFull 2 it1 else Inr ([], it1)) (\<lambda>(_, it2).
            andthen (item_Rest it2) (\<lambda>chunk.
              Inr \<lparr>rr_Status = status, rr_Type = fld8 6 x, rr_chunk = chunk\<rparr>)))))"

definition single_request :: "cip_service \<Rightarrow> tagIOI \<Rightarrow> u16 \<Rightarrow> u32 \<Rightarrow> u16 \<Rightarrow> CIPItem" where
  "single_request service ioi elements offset sq =
     item_Write (if service = CIPService_FragRead then put16 elements @ put32 offset else put16 elements)
       (item_Write (ioi_Buffer ioi)
         (item_Write (msgCIPConnectedServiceReq sq service (of_nat (length (ioi_Buffer ioi) div 2)))
           (empty_item cipItem_ConnectedData)))"

text \<open>The loop: \<open>left\<close> rounds may still be made, of 1025 in all.\<close>

fun read_rounds ::
  "nat \<Rightarrow> cip_type \<Rightarrow> u16 \<Rightarrow> tagIOI \<Rightarrow> cip_service \<Rightarrow> u32 \<Rightarrow> bytes \<Rightarrow> cip_type \<Rightarrow> goval cact" where
  "read_rounds 0 datatype elements ioi service offset payload respType =
     cfail (Msg ''single read exceeded max continuation rounds'')"
| "read_rounds (Suc left) datatype elements ioi service offset payload respType =
     cbind next_sequence (\<lambda>sq.
     cbind (send_unit (single_request service ioi elements offset sq)) (\<lambda>(hdr, data).
     cres (single_reply hdr data) (\<lambda>rr.
       let respType' = (if rr_Type rr \<noteq> CIPTypeUnknown \<or> respType = CIPTypeUnknown then rr_Type rr else respType);
           payload' = payload @ rr_chunk rr;
           offset' = offset + of_nat (length (rr_chunk rr)) in
       if rr_Status rr \<noteq> CIPStatus_PartialTransfer
       then cres (decodeSingleReadPayload datatype elements ioi respType' payload') cret
       else read_rounds left datatype elements ioi CIPService_FragRead offset' payload' respType')))"

definition Read_single :: "string \<Rightarrow> cip_type \<Rightarrow> u16 \<Rightarrow> goval cact" where
  "Read_single tag datatype elements =
     cwrap ''could not start single read'' checkConn (\<lambda>_.
     cbind (c_newIOI tag datatype) (\<lambda>ioi c.
       read_rounds 1025 datatype elements ioi (singleReadService tag datatype elements c) 0 [] datatype c))"

section \<open>Reading into a Go variable\<close>

text \<open>\<^verbatim>\<open>string(b)\<close> of a value that should be a byte slice.\<close>

definition bytes_of_slice :: "goval \<Rightarrow> bytes option" where
  "bytes_of_slice v =
     (case v of VSlice TUint8 vs \<Rightarrow> Some (map (\<lambda>x. case x of VUint8 b \<Rightarrow> b | _ \<Rightarrow> 0) vs) | _ \<Rightarrow> None)"

text \<open>The type assertions of \<^verbatim>\<open>read\<close> and \<^verbatim>\<open>readArray\<close> for one value.\<close>

definition cast_to :: "gotype \<Rightarrow> goval \<Rightarrow> goval res" where
  "cast_to t v =
     (if t = TString then
        (case bytes_of_slice v of
           None \<Rightarrow> Inl (Msg ''couldn't convert to byte slice'')
         | Some b \<Rightarrow> Inr (VString (of_bytes b)))
      else if typeof v = t then Inr v
      else Inl (Msg ''couldn't convert to correct type''))"

definition read_T :: "gotype \<Rightarrow> string \<Rightarrow> goval cact" where
  "read_T t tag =
     (let ct = fst (GoVarToCIPType (zero_val t)) in
      cbind (Read_single tag ct 1) (\<lambda>val. cres (cast_to t val) cret))"

fun cast_all :: "gotype \<Rightarrow> goval list \<Rightarrow> goval list res" where
  "cast_all t [] = Inr []"
| "cast_all t (v # vs) = andthen (cast_to t v) (\<lambda>x. andthen (cast_all t vs) (\<lambda>xs. Inr (x # xs)))"

text \<open>\<^verbatim>\<open>val.([]any)\<close>\<close>

definition as_any_slice :: "goval \<Rightarrow> goval list option" where
  "as_any_slice v = (case v of VSlice t vs \<Rightarrow> if t = TAny then Some vs else None | _ \<Rightarrow> None)"

definition readArray :: "gotype \<Rightarrow> string \<Rightarrow> u16 \<Rightarrow> goval list cact" where
  "readArray t tag elements =
     (if elements = 0 then cfail (Panic ''index out of range [0] with length 0'')
      else
        let ct = fst (GoVarToCIPType (zero_val t)) in
        cbind (Read_single tag ct elements) (\<lambda>val.
          case as_any_slice val of
            Some vs \<Rightarrow> cres (cast_all t vs) cret
          | None \<Rightarrow> cfail (Msg ''couldn't cast array'')))"

text \<open>
  The destinations \<^verbatim>\<open>Read\<close> distinguishes: a pointer to a scalar, a slice of scalars, a slice of
  booleans (read as 32-bit words), a pointer to an empty interface, a pointer to a struct, and a
  slice of structs.  The result is the value the destination gets.
\<close>

datatype read_dest =
    DScalar gotype
  | DSlice gotype nat
  | DBools nat
  | DAny
  | DStruct gotype
  | DStructs gotype nat

definition word_bits :: "goval \<Rightarrow> goval list" where
  "word_bits v = (case v of VUint32 w \<Rightarrow> map (\<lambda>i. VBool (w AND push_bit i 1 \<noteq> 0)) [0..<32] | _ \<Rightarrow> [])"

definition Read :: "string \<Rightarrow> read_dest \<Rightarrow> goval cact" where
  "Read tag dest =
     cwrap ''could not start read'' checkConn (\<lambda>_.
     case dest of
       DScalar t \<Rightarrow> read_T t tag
     | DSlice t elements \<Rightarrow>
         cbind (readArray t tag (of_nat elements)) (\<lambda>v.
           if length v \<noteq> elements then cfail (Msg ''got wrong number of elements'') else cret (VSlice t v))
     | DBools elements \<Rightarrow>
         let count = elements div 32 in
         if count * 32 \<noteq> elements then cfail (Msg ''slice length must be a multiple of 32 for []bool'')
         else if count = 1 then cbind (read_T TUint32 tag) (\<lambda>v. cret (VSlice TBool (word_bits v)))
         else cbind (readArray TUint32 tag (of_nat count)) (\<lambda>v.
           if length v \<noteq> count then cfail (Msg ''got wrong number of elements'')
           else cret (VSlice TBool (concat (map word_bits v))))
     | DAny \<Rightarrow> Read_single tag CIPTypeStruct 1
     | DStruct t \<Rightarrow>
         cbind (Read_single tag CIPTypeStruct 1) (\<lambda>val.
           case bytes_of_slice val of
             None \<Rightarrow> cfail (Msg ''couldn't convert to byte slice'')
           | Some b \<Rightarrow> cneed ''couldn't parse str data'' (Unpack t b) (\<lambda>(v, _). cret v))
     | DStructs t elements \<Rightarrow>
         cbind (Read_single tag CIPTypeStruct (of_nat elements)) (\<lambda>val.
           case bytes_of_slice val of
             None \<Rightarrow> cfail (Msg ''couldn't convert to bytes'')
           | Some b \<Rightarrow> cneed ''couldn't parse str data element'' (unpack_slice t elements 0 b) (\<lambda>(vs, _).
               cret (VSlice t vs))))"

section \<open>Partial transfers\<close>

text \<open>
  The body of a reply to a read (\<^verbatim>\<open>msgCIPReadResultData\<close> and data), with the type's hash
  where the type is a structure.
\<close>

definition read_reply_body :: "u16 \<Rightarrow> cip_service \<Rightarrow> cip_status \<Rightarrow> cip_type \<Rightarrow> u16 \<Rightarrow> bytes \<Rightarrow> bytes" where
  "read_reply_body sq svc status rtype crc chunk =
     put16 sq @ [svc, 0, status, 0, rtype] @ (if rtype = CIPTypeStruct then [2] @ put16 crc else [0]) @ chunk"

lemma item_Write_first:
  "pos_ok (item_Write b (empty_item i))" "unread (item_Write b (empty_item i)) = b" "Pos (item_Write b (empty_item i)) = 0"
  by (simp_all add: pos_ok_def unread_def)

lemma item_ReadFull_first:
  assumes "length x = n"
  shows "item_ReadFull n (item_Write (x @ y) (empty_item i)) = Inr (x, (item_Write (x @ y) (empty_item i))\<lparr>Pos := int n\<rparr>)"
  using assms by (simp add: item_ReadFull_stream[OF item_Write_first(1)] item_Write_first)

lemma item_ReadFull_next:
  assumes "length x = n" "length y = m"
  shows "item_ReadFull m ((item_Write (x @ y @ z) (empty_item i))\<lparr>Pos := int n\<rparr>)
    = Inr (y, (item_Write (x @ y @ z) (empty_item i))\<lparr>Pos := int (n + m)\<rparr>)"
proof -
  let ?it = "(item_Write (x @ y @ z) (empty_item i))\<lparr>Pos := int n\<rparr>"
  have "pos_ok ?it" "unread ?it = y @ z" using assms by (simp_all add: pos_ok_def unread_def)
  then show ?thesis using assms(2) by (simp add: item_ReadFull_stream)
qed

lemma item_Rest_at: "length x = n \<Longrightarrow> item_Rest ((item_Write (x @ y) (empty_item i))\<lparr>Pos := int n\<rparr>) = Inr y"
  by (simp add: item_Rest_def)

lemma single_reply_read:
  assumes "eh_Status hdr = 0" "length chunk < 65000" "status \<in> {CIPStatus_OK, CIPStatus_PartialTransfer}"
  shows "single_reply hdr (connected_reply i (read_reply_body sq svc status rtype crc chunk))
    = Inr \<lparr>rr_Status = status, rr_Type = rtype, rr_chunk = chunk\<rparr>"
proof -
  let ?x = "put16 sq @ [svc, 0, status, 0, rtype] @ [if rtype = CIPTypeStruct then 2 else 0]"
  let ?y = "if rtype = CIPTypeStruct then put16 crc else []"
  let ?b = "read_reply_body sq svc status rtype crc chunk"
  have b: "?b = ?x @ ?y @ chunk" by (simp add: read_reply_body_def)
  have lx: "length ?x = 8" by simp
  have f: "fld8 4 ?x = status" "fld8 6 ?x = rtype" "fld8 7 ?x = (if rtype = CIPTypeStruct then 2 else 0)"
    by (simp_all add: fld_simps)
  have i1: "item_ReadFull 8 (item_Write ?b (empty_item cipItem_ConnectedData))
      = Inr (?x, (item_Write ?b (empty_item cipItem_ConnectedData))\<lparr>Pos := int 8\<rparr>)"
    unfolding b by (rule item_ReadFull_first[OF lx])
  have i2: "(if fld8 7 ?x \<noteq> 0 then item_ReadFull 2 ((item_Write ?b (empty_item cipItem_ConnectedData))\<lparr>Pos := int 8\<rparr>)
      else Inr ([], (item_Write ?b (empty_item cipItem_ConnectedData))\<lparr>Pos := int 8\<rparr>))
      = Inr (?y, (item_Write ?b (empty_item cipItem_ConnectedData))\<lparr>Pos := int (8 + length ?y)\<rparr>)"
    using item_ReadFull_next[OF lx, of "put16 crc" 2 chunk] unfolding b f by (cases "rtype = CIPTypeStruct") simp_all
  have i3: "item_Rest ((item_Write ?b (empty_item cipItem_ConnectedData))\<lparr>Pos := int (8 + length ?y)\<rparr>) = Inr chunk"
    using item_Rest_at[of "?x @ ?y" "8 + length ?y" chunk] lx unfolding b by simp
  have "length ?b < 65536" using assms(2) by (simp add: read_reply_body_def)
  then show ?thesis
    unfolding single_reply_def using assms(1,3) reply_items_connected i1 i2 i3 f by (auto simp: Let_def)
qed

text \<open>
  A device that transfers a value in several replies: all but the last have the status
  \<^verbatim>\<open>PartialTransfer\<close>.  And the requests with which the client should fetch them: every
  one continues where the previous reply ended.
\<close>

fun chunk_replies :: "eipHeader \<Rightarrow> u32 \<Rightarrow> u16 \<Rightarrow> cip_service \<Rightarrow> cip_type \<Rightarrow> u16 \<Rightarrow> bytes list \<Rightarrow> bytes option list" where
  "chunk_replies hdr i sq svc rtype crc [] = []"
| "chunk_replies hdr i sq svc rtype crc (x # xs) =
     Some (eip_frame hdr (connected_reply i (read_reply_body sq svc
       (if xs = [] then CIPStatus_OK else CIPStatus_PartialTransfer) rtype crc x)))
     # chunk_replies hdr i sq svc rtype crc xs"

fun continued_requests :: "Client \<Rightarrow> cip_service \<Rightarrow> tagIOI \<Rightarrow> u16 \<Rightarrow> u32 \<Rightarrow> u32 \<Rightarrow> bytes list \<Rightarrow> bytes list" where
  "continued_requests c svc ioi elements sv offset [] = []"
| "continued_requests c svc ioi elements sv offset (x # xs) =
     unit_request c (single_request svc ioi elements offset (ucast (sv + 1)))
     # continued_requests c CIPService_FragRead ioi elements (sv + 1) (offset + of_nat (length x)) xs"

lemma continued_requests_cong:
  "c_OTNetworkConnectionID c' = c_OTNetworkConnectionID c \<Longrightarrow> c_SessionHandle c' = c_SessionHandle c \<Longrightarrow>
   c_Context c' = c_Context c \<Longrightarrow>
   continued_requests c' svc ioi elements sv offset xs = continued_requests c svc ioi elements sv offset xs"
  by (induction xs arbitrary: svc sv offset) (simp_all add: unit_request_cong[of c' c])

lemma read_rounds_chunks:
  assumes "xs \<noteq> []" "length xs \<le> left" "\<forall>x\<in>set xs. length x < 65000" "rtype \<noteq> CIPTypeUnknown" "eh_Status hdr = 0"
    and "c_conn c" "c_socket c = []" "c_script c = chunk_replies hdr i sq rsvc rtype crc xs @ s"
  shows "\<exists>c'. read_rounds left datatype elements ioi svc offset payload respType c
      = (decodeSingleReadPayload datatype elements ioi rtype (payload @ concat xs), c')
    \<and> c_script c' = s
    \<and> c_sent c' = c_sent c @ continued_requests c svc ioi elements (c_sequenceValue c) offset xs"
  using assms
proof (induction xs arbitrary: left svc offset payload respType c)
  case (Cons x xs)
  then obtain left' where left: "left = Suc left'" "length xs \<le> left'" by (cases left) auto
  let ?st = "if xs = [] then CIPStatus_OK else CIPStatus_PartialTransfer"
  let ?reply = "connected_reply i (read_reply_body sq rsvc ?st rtype crc x)"
  let ?hdr = "hdr\<lparr>eh_Length := of_nat (length ?reply)\<rparr>"
  let ?it = "single_request svc ioi elements offset (ucast (c_sequenceValue c + 1))"
  let ?c0 = "c\<lparr>c_sequenceValue := c_sequenceValue c + 1\<rparr>"
  let ?c1 = "?c0\<lparr>c_HeaderSequenceCounter := c_HeaderSequenceCounter c + 1, c_script := chunk_replies hdr i sq rsvc rtype crc xs @ s,
    c_sent := c_sent c @ [unit_request c ?it]\<rparr>"
  have "length ?reply < 65536" using Cons.prems(3) by (simp add: length_connected_reply read_reply_body_def)
  then have su: "send_unit ?it ?c0 = (Inr (?hdr, ?reply), ?c1)"
    using send_unit_answered[of ?c0 hdr ?reply "chunk_replies hdr i sq rsvc rtype crc xs @ s" ?it] Cons.prems(6-8)
      unit_request_cong[of ?c0 c ?it] by simp
  have sr: "single_reply ?hdr ?reply = Inr \<lparr>rr_Status = ?st, rr_Type = rtype, rr_chunk = x\<rparr>"
    using Cons.prems(3,5) by (intro single_reply_read) auto
  show ?case
  proof (cases "xs = []")
    case True
    then show ?thesis
      using su sr Cons.prems(4)
      by (simp add: left(1) cbind_def next_sequence_def sequencer_def Let_def)
  next
    case False
    have "continued_requests ?c1 CIPService_FragRead ioi elements (c_sequenceValue c + 1) (offset + of_nat (length x)) xs
      = continued_requests c CIPService_FragRead ioi elements (c_sequenceValue c + 1) (offset + of_nat (length x)) xs"
      by (rule continued_requests_cong) simp_all
    then obtain c' where "read_rounds left' datatype elements ioi CIPService_FragRead (offset + of_nat (length x)) (payload @ x) rtype ?c1
        = (decodeSingleReadPayload datatype elements ioi rtype ((payload @ x) @ concat xs), c')" "c_script c' = s"
      "c_sent c' = c_sent ?c1 @ continued_requests c CIPService_FragRead ioi elements (c_sequenceValue c + 1) (offset + of_nat (length x)) xs"
      using Cons.IH[OF False left(2) _ Cons.prems(4,5), of ?c1 CIPService_FragRead "offset + of_nat (length x)" "payload @ x" rtype]
        Cons.prems(3,6,7) by auto
    then show ?thesis
      using False su sr Cons.prems(4)
      by (simp add: left(1) cbind_def next_sequence_def sequencer_def Let_def)
  qed
qed simp

lemma Read_single_connected:
  assumes "c_connStatus c = Connected" "c_newIOI tag datatype c = (Inr ioi, c1)"
  shows "Read_single tag datatype elements c
    = read_rounds 1025 datatype elements ioi (singleReadService tag datatype elements c1) 0 [] datatype c1"
  using assms by (simp add: Read_single_def cwrap_def checkConn_def c_Connected_def cbind_def)


definition demo_reply_header :: eipHeader where
  "demo_reply_header = \<lparr>eh_Command = cipCommandSendUnitData, eh_Length = 0, eh_SessionHandle = 7, eh_Status = 0,
     eh_Context = 0, eh_Options = 0\<rparr>"

text \<open>A connected client that has the path of tag \<^verbatim>\<open>abc\<close> in its cache.\<close>

definition demo_path :: tagIOI where
  "demo_path = new_ioi ''abc'' CIPTypeDINT [0x91, 3, 97, 98, 99, 0]"

definition demo_reader :: "bytes option list \<Rightarrow> Client" where
  "demo_reader script = demo_client\<lparr>c_ioi_cache := [''abc'' \<mapsto> demo_path], c_script := script\<rparr>"

lemma demo_newIOI: "c_newIOI ''abc'' t (demo_reader script) = (Inr demo_path, demo_reader script)"
proof -
  have "strings_ToLower ''abc'' = ''abc''" by code_simp
  then show ?thesis
    by (simp add: c_newIOI_def cbind_def firmware_def demo_reader_def demo_client_def newIOI_def Let_def)
qed


section \<open>What a read returns\<close>

fun dest_ok :: "read_dest \<Rightarrow> goval \<Rightarrow> bool" where
  "dest_ok (DScalar t) v = (typeof v = t)"
| "dest_ok (DSlice t n) v = (\<exists>vs. v = VSlice t vs \<and> length vs = n \<and> (\<forall>x\<in>set vs. typeof x = t))"
| "dest_ok (DBools n) v = (\<exists>vs. v = VSlice TBool vs \<and> length vs = n \<and> (\<forall>x\<in>set vs. typeof x = TBool))"
| "dest_ok _ v = True"

lemma cast_to_typeof: "cast_to t v = Inr x \<Longrightarrow> typeof x = t"
  by (auto simp: cast_to_def split: if_splits option.splits)

lemma cast_all_typeof: "cast_all t vs = Inr xs \<Longrightarrow> \<forall>x\<in>set xs. typeof x = t"
  by (induction vs arbitrary: xs) (auto simp: andthen_Inr_iff dest: cast_to_typeof)

lemma read_T_typeof: "read_T t tag c = (Inr v, c') \<Longrightarrow> typeof v = t"
  by (auto simp: read_T_def Let_def cact_Inr dest: cast_to_typeof)

lemma as_any_slice_Some: "as_any_slice v = Some vs \<longleftrightarrow> v = VSlice TAny vs"
  by (cases v) (auto simp: as_any_slice_def)

lemma readArray_typeof: "readArray t tag n c = (Inr vs, c') \<Longrightarrow> \<forall>x\<in>set vs. typeof x = t"
  by (auto simp: readArray_def Let_def cact_Inr split: if_splits option.splits dest!: cast_all_typeof)

lemma typeof_TUint32: "typeof v = TUint32 \<Longrightarrow> \<exists>w. v = VUint32 w"
  by (cases v) auto

lemma word_bits_ok: "typeof v = TUint32 \<Longrightarrow> length (word_bits v) = 32 \<and> (\<forall>x\<in>set (word_bits v). typeof x = TBool)"
  by (auto simp: word_bits_def dest!: typeof_TUint32)

lemma words_bits_ok:
  "\<forall>v\<in>set vs. typeof v = TUint32 \<Longrightarrow>
   length (concat (map word_bits vs)) = length vs * 32 \<and> (\<forall>x\<in>set (concat (map word_bits vs)). typeof x = TBool)"
  using word_bits_ok by (induction vs) fastforce+


lemma demo_read:
  "fst (Read_single ''abc'' CIPTypeDINT 1 (demo_reader (chunk_replies demo_reply_header 9 1 0xCC CIPTypeDINT 0 [[5, 0, 0, 0]])))
     = Inr (VInt32 5)"
proof -
  let ?c = "demo_reader (chunk_replies demo_reply_header 9 1 0xCC CIPTypeDINT 0 [[5, 0, 0, 0]])"
  let ?xs = "[[5, 0, 0, 0]] :: bytes list"
  have c: "c_connStatus ?c = Connected" "eh_Status demo_reply_header = 0" "c_conn ?c" "c_socket ?c = []"
    "c_script ?c = chunk_replies demo_reply_header 9 1 0xCC CIPTypeDINT 0 ?xs @ []"
    by (simp_all add: demo_reader_def demo_client_def demo_reply_header_def)
  have x: "?xs \<noteq> []" "length ?xs \<le> 1025" "\<forall>x\<in>set ?xs. length x < 65000" "CIPTypeDINT \<noteq> CIPTypeUnknown" by simp_all
  have d: "decodeSingleReadPayload CIPTypeDINT 1 demo_path CIPTypeDINT ([] @ concat ?xs) = Inr (VInt32 5)"
    by (simp add: decodeSingleReadPayload_def readValue_def readValue_type_def binary_read_def read_full_def get_eval)
  obtain c' where "read_rounds 1025 CIPTypeDINT 1 demo_path (singleReadService ''abc'' CIPTypeDINT 1 ?c) 0 [] CIPTypeDINT ?c
      = (decodeSingleReadPayload CIPTypeDINT 1 demo_path CIPTypeDINT ([] @ concat ?xs), c')"
    using read_rounds_chunks[OF x c(2-5)] by blast
  then show ?thesis using Read_single_connected[OF c(1) demo_newIOI] d by simp
qed


lemma decode_single_scalar:
  "decodeSingleReadPayload datatype 1 ioi respType payload = Inr v \<Longrightarrow> v \<noteq> VSlice TAny vs"
  by (auto simp: decodeSingleReadPayload_def attempt_Inr_iff andthen_Inr_iff byte_slice_def readValue_def
      readValue_type_def binary_read_def split_beta split: if_splits option.splits)

lemma read_rounds_scalar:
  "read_rounds left datatype 1 ioi svc offset payload respType c = (Inr v, c') \<Longrightarrow> v \<noteq> VSlice TAny vs"
  by (induction left arbitrary: svc offset payload respType c)
    (auto simp: cact_Inr Let_def split: if_splits prod.splits dest: decode_single_scalar)

text \<open>
  A slice of length one cannot be read: \<^const>\<open>Read_single\<close> returns one element as a scalar, which
  \<^const>\<open>readArray\<close> does not accept; whatever the controller answers, the result is an error.
\<close>

theorem one_element_slice_fails:
  "\<exists>e. fst (Read tag (DSlice t 1) c) = Inl e"
proof (rule ccontr)
  assume "\<not> ?thesis"
  then obtain v c' where "Read tag (DSlice t 1) c = (Inr v, c')"
    by (metis (no_types) fst_conv obj_sumE surj_pair)
  then obtain c1 c2 val vs where "Read_single tag (fst (GoVarToCIPType (zero_val t))) 1 c1 = (Inr val, c2)" "val = VSlice TAny vs"
    by (auto simp: Read_def readArray_def Let_def cact_Inr as_any_slice_Some split: option.splits)
  then show False
    using read_rounds_scalar[of 1025] by (force simp: Read_single_def cact_Inr)
qed

end
