(* ===== verification/Client_Batch.thy ===== *)
theory Client_Batch
  imports Client_Read "HOL-Library.Multiset"
begin

text \<open>
  Reads of many tags are sent as multiple-service packets.  This theory holds how the client cuts a
  list of tags into packets that fit the connection (\<^verbatim>\<open>selectPackedTagIndexes\<close>,
  \<^verbatim>\<open>selectPackedTagBatch\<close> and the counting functions of \<^verbatim>\<open>read.go\<close>,
  \<^verbatim>\<open>partialread.go\<close> and \<^verbatim>\<open>read_instance.go\<close>), how it lays out one
  packet, and the loop that reads batch after batch until nothing is pending.
\<close>

section \<open>One entry of a packet\<close>

definition instanceIOIPath :: "cip_instance \<Rightarrow> bytes" where
  "instanceIOIPath inst = CIPClass_Bytes CipObject_Symbol @ CIPInstance_Bytes inst"

definition instanceReadService :: "tagDesc \<Rightarrow> u16 \<Rightarrow> cip_service" where
  "instanceReadService tag connectionSize = readServiceForTag tag connectionSize"

definition instanceReadFooterSize :: "tagDesc \<Rightarrow> u16 \<Rightarrow> int" where
  "instanceReadFooterSize tag connectionSize =
     (if instanceReadService tag connectionSize = CIPService_FragRead then 2 + 4 else 2)"

definition writeInstanceReadFooter :: "tagDesc \<Rightarrow> u32 \<Rightarrow> u16 \<Rightarrow> bytes" where
  "writeInstanceReadFooter tag offset connectionSize =
     (if instanceReadService tag connectionSize = CIPService_FragRead
      then put16 (word_of_int (td_Elements tag)) @ put32 offset
      else put16 (word_of_int (td_Elements tag)))"

definition msgCIPMultiIOIHeader :: "cip_service \<Rightarrow> tagIOI \<Rightarrow> bytes" where
  "msgCIPMultiIOIHeader service ioi = [service, of_nat (length (ioi_Buffer ioi) div 2)]"

definition read_entry :: "u16 \<Rightarrow> tagDesc \<Rightarrow> tagIOI \<Rightarrow> u32 \<Rightarrow> bytes" where
  "read_entry connectionSize tag ioi offset =
     msgCIPMultiIOIHeader (instanceReadService tag connectionSize) ioi @ ioi_Buffer ioi
       @ writeInstanceReadFooter tag offset connectionSize"

section \<open>Packets\<close>

text \<open>\<^verbatim>\<open>jumpTable[i] = uint16(jump_start + b.Len())\<close> while the entries are collected in \<open>b\<close>.\<close>

fun jumpTable :: "nat \<Rightarrow> bytes list \<Rightarrow> u16 list" where
  "jumpTable start [] = []"
| "jumpTable start (e # es) = of_nat start # jumpTable (start + length e) es"

definition msgCIPConnectedMultiServiceReq :: "u16 \<Rightarrow> nat \<Rightarrow> bytes" where
  "msgCIPConnectedMultiServiceReq sq qty =
     put16 sq @ [CIPService_MultipleService, 2] @ [0x20, 0x02, 0x24, 0x01] @ put16 (of_nat qty)"

definition multi_request :: "u16 \<Rightarrow> bytes list \<Rightarrow> CIPItem" where
  "multi_request sq entries =
     item_Write (concat entries)
       (item_Write (concat (map put16 (jumpTable (2 + length entries * 2) entries)))
         (item_Write (msgCIPConnectedMultiServiceReq sq (length entries)) (empty_item cipItem_ConnectedData)))"

text \<open>The packet of one round: an entry per tag, with the offset to read from.\<close>

definition round_request :: "u16 \<Rightarrow> u16 \<Rightarrow> tagDesc list \<Rightarrow> tagIOI list \<Rightarrow> u32 list \<Rightarrow> CIPItem" where
  "round_request connectionSize sq tags iois offsets =
     multi_request sq (map (\<lambda>(tag, ioi, offset). read_entry connectionSize tag ioi offset) (zip tags (zip iois offsets)))"

text \<open>The paths of a list of tags, made in order; the first error ends it.\<close>

fun new_iois :: "tagDesc list \<Rightarrow> tagIOI list cact" where
  "new_iois [] = cret []"
| "new_iois (tag # tags) =
     cbind (c_newIOI (td_TagName tag) (td_TagType tag)) (\<lambda>ioi. cbind (new_iois tags) (\<lambda>iois. cret (ioi # iois)))"

section \<open>Choosing the tags of a packet\<close>

text \<open>
  The paths are either given or made as the loop goes, with \<^verbatim>\<open>newIOI\<close>.  A tag that
  does not fit is skipped and the loop goes on with the next one.
\<close>

definition path_for :: "tagDesc \<Rightarrow> tagIOI list option \<Rightarrow> nat \<Rightarrow> tagIOI cact" where
  "path_for tag iois i =
     (case iois of
        Some xs \<Rightarrow> if i < length xs then cret (xs ! i) else cfail (Panic ''index out of range'')
      | None \<Rightarrow> c_newIOI (td_TagName tag) (td_TagType tag))"

definition entry_size :: "u16 \<Rightarrow> tagDesc \<Rightarrow> tagIOI \<Rightarrow> int" where
  "entry_size connectionSize tag ioi =
     2 + int (length (ioi_Buffer ioi)) + instanceReadFooterSize tag connectionSize"

definition candidate_fits :: "u16 \<Rightarrow> nat \<Rightarrow> int \<Rightarrow> int \<Rightarrow> bool" where
  "candidate_fits connectionSize candidateCount packedBytes responseSize \<longleftrightarrow>
     \<not> (estimateMultiReadRequestOverhead (int candidateCount) + packedBytes \<ge> uint connectionSize
        \<or> estimateMultiReadReplyOverhead (int candidateCount) + responseSize \<ge> uint connectionSize)"

fun select_loop ::
  "nat \<Rightarrow> tagDesc list \<Rightarrow> tagIOI list option \<Rightarrow> nat list \<Rightarrow> int \<Rightarrow> int \<Rightarrow> nat list cact" where
  "select_loop i [] iois selected packedBytes responseSize = cret selected"
| "select_loop i (tag # tags) iois selected packedBytes responseSize =
     cbind (path_for tag iois i) (\<lambda>ioi c.
       let cs = c_ConnectionSize c;
           packed' = packedBytes + entry_size cs tag ioi;
           resp' = responseSize + estimateTagResponseSize tag in
       if candidate_fits cs (length selected + 1) packed' resp'
       then select_loop (i + 1) tags iois (selected @ [i]) packed' resp' c
       else select_loop (i + 1) tags iois selected packedBytes responseSize c)"

definition selectPackedTagIndexes :: "tagDesc list \<Rightarrow> tagIOI list option \<Rightarrow> nat list cact" where
  "selectPackedTagIndexes tags iois =
     (if tags = [] then cret []
      else if iois \<noteq> None \<and> length (the iois) \<noteq> length tags then cfail (Msg ''mismatched tag and IOI counts'')
      else cbind (select_loop 0 tags iois [] 0 0) (\<lambda>selected.
        cret (if selected = [] then [0] else selected)))"

text \<open>The walk over \<open>pending\<close>: positions in \<open>selectedLocal\<close> are chosen, the others stay.\<close>

fun split_batch :: "nat \<Rightarrow> nat list \<Rightarrow> nat list \<Rightarrow> nat list \<times> nat list" where
  "split_batch pos sel [] = ([], [])"
| "split_batch pos sel (idx # pending) =
     (case sel of
        s # sel' \<Rightarrow>
          if s = pos then (let (a, b) = split_batch (pos + 1) sel' pending in (idx # a, b))
          else (let (a, b) = split_batch (pos + 1) sel pending in (a, idx # b))
      | [] \<Rightarrow> (let (a, b) = split_batch (pos + 1) sel pending in (a, idx # b)))"

record batch =
  selectedOrig :: "nat list"
  chosenTags :: "tagDesc list"
  chosenIOIs :: "tagIOI list option"
  nextPending :: "nat list"

definition selectPackedTagBatch :: "nat list \<Rightarrow> tagDesc list \<Rightarrow> tagIOI list option \<Rightarrow> batch cact" where
  "selectPackedTagBatch pending tags iois =
     (if pending = [] then cret \<lparr>selectedOrig = [], chosenTags = [], chosenIOIs = None, nextPending = []\<rparr>
      else cbind (selectPackedTagIndexes (map (\<lambda>i. tags ! i) pending) (map_option (\<lambda>xs. map (\<lambda>i. xs ! i) pending) iois))
        (\<lambda>selectedLocal.
          let (sel, rest) = split_batch 0 selectedLocal pending in
          cret \<lparr>selectedOrig = sel, chosenTags = map (\<lambda>i. tags ! i) sel,
                chosenIOIs = map_option (\<lambda>xs. map (\<lambda>i. xs ! i) sel) iois, nextPending = rest\<rparr>))"

section \<open>Counting the tags that fit from the front\<close>

text \<open>
  The three counting functions run the same loop with different footers and sources of paths; it
  stops at the first tag that does not fit.
\<close>

fun count_loop ::
  "(u16 \<Rightarrow> tagDesc \<Rightarrow> int) \<Rightarrow> nat \<Rightarrow> tagDesc list \<Rightarrow> tagIOI list option \<Rightarrow> int \<Rightarrow> int \<Rightarrow> nat \<Rightarrow> nat cact" where
  "count_loop footer i [] iois packedBytes responseSize n = cret n"
| "count_loop footer i (tag # tags) iois packedBytes responseSize n =
     cbind (path_for tag iois i) (\<lambda>ioi c.
       let cs = c_ConnectionSize c;
           packed' = packedBytes + (2 + int (length (ioi_Buffer ioi)) + footer cs tag);
           resp' = responseSize + estimateTagResponseSize tag in
       if candidate_fits cs (i + 1) packed' resp'
       then count_loop footer (i + 1) tags iois packed' resp' (i + 1) c
       else (Inr n, c))"

definition countIOIsThatFit :: "tagDesc list \<Rightarrow> nat cact" where
  "countIOIsThatFit tags = count_loop (\<lambda>_ _. 2) 0 tags None 0 0 1"

definition countFragIOIsThatFit :: "tagDesc list \<Rightarrow> nat cact" where
  "countFragIOIsThatFit tags = count_loop (\<lambda>cs tag. instanceReadFooterSize tag cs) 0 tags None 0 0 1"

definition countInstanceIOIsThatFit :: "tagDesc list \<Rightarrow> tagIOI list \<Rightarrow> nat cact" where
  "countInstanceIOIsThatFit tags iois =
     count_loop (\<lambda>cs tag. instanceReadFooterSize tag cs) 0 tags (Some iois) 0 0 1"

section \<open>Which tags a batch holds\<close>

lemma select_loop_sorted:
  assumes "select_loop i tags iois selected p r c = (Inr sel, c')"
    and "sorted_wrt (<) selected" "\<forall>s\<in>set selected. s < i"
  shows "sorted_wrt (<) sel \<and> (\<forall>s\<in>set sel. s < i + length tags)"
  using assms
proof (induction tags arbitrary: i selected p r c)
  case (Cons tag tags)
  obtain ioi c1 p' r' selected' where
    l: "select_loop (i + 1) tags iois selected' p' r' c1 = (Inr sel, c')" and s: "selected' = selected \<or> selected' = selected @ [i]"
    using Cons.prems(1) by (auto simp: cbind_Inr Let_def split: if_splits)
  have "sorted_wrt (<) selected'" "\<forall>s\<in>set selected'. s < i + 1"
    using s Cons.prems(2,3) by (auto simp: sorted_wrt_append less_Suc_eq)
  from Cons.IH[OF l this] show ?case by simp
qed (auto simp: cret_Inr)

lemma selectPackedTagIndexes_sorted:
  assumes "selectPackedTagIndexes tags iois c = (Inr sel, c')" "tags \<noteq> []"
  shows "sorted_wrt (<) sel" "sel \<noteq> []" "\<forall>s\<in>set sel. s < length tags"
  using assms select_loop_sorted[of 0 tags iois "[]" 0 0 c]
  by (auto simp: selectPackedTagIndexes_def cbind_Inr cret_Inr cfail_Inr split: if_splits)

lemma split_batch_nths:
  assumes "sorted_wrt (<) sel" "\<forall>s\<in>set sel. pos \<le> s"
  shows "split_batch pos sel pending
    = (nths pending {i. pos + i \<in> set sel}, nths pending {i. pos + i \<notin> set sel})"
  using assms
proof (induction pos sel pending rule: split_batch.induct)
  case (2 pos sel idx pending)
  show ?case
  proof (cases sel)
    case Nil
    with 2 show ?thesis by (simp add: nths_Cons)
  next
    case (Cons s sel')
    show ?thesis
    proof (cases "s = pos")
      case True
      with 2 Cons have "split_batch (pos + 1) sel' pending
          = (nths pending {i. pos + 1 + i \<in> set sel'}, nths pending {i. pos + 1 + i \<notin> set sel'})"
        by (intro "2.IH") auto
      moreover have "{j. Suc (pos + j) \<in> set sel} = {j. Suc (pos + j) \<in> set sel'}"
        "{j. Suc (pos + j) \<notin> set sel} = {j. Suc (pos + j) \<notin> set sel'}"
        using Cons True by auto
      ultimately show ?thesis using Cons True by (simp add: nths_Cons)
    next
      case False
      with 2 Cons have "split_batch (pos + 1) sel pending
          = (nths pending {i. pos + 1 + i \<in> set sel}, nths pending {i. pos + 1 + i \<notin> set sel})"
        by (intro "2.IH") (auto simp: Suc_le_eq le_less)
      moreover have "pos \<notin> set sel" using 2(4,5) Cons False by auto
      ultimately show ?thesis using Cons False by (simp add: nths_Cons)
    qed
  qed
qed simp

lemma mset_nths_split: "mset (nths xs A) + mset (nths xs (- A)) = mset xs"
  by (induction xs arbitrary: A) (auto simp: nths_Cons Collect_neg_eq)

text \<open>A batch takes at least one of the pending tags; the others stay pending, in order.\<close>

lemma batch_partition:
  assumes "selectPackedTagBatch pending tags iois c = (Inr b, c')" "pending \<noteq> []"
  shows "selectedOrig b \<noteq> []"
    and "mset (selectedOrig b) + mset (nextPending b) = mset pending"
    and "chosenTags b = map (\<lambda>i. tags ! i) (selectedOrig b)"
    and "chosenIOIs b = map_option (\<lambda>xs. map (\<lambda>i. xs ! i) (selectedOrig b)) iois"
proof -
  let ?tags = "map (\<lambda>i. tags ! i) pending"
  from assms obtain sel c1 where sel: "selectPackedTagIndexes ?tags
      (map_option (\<lambda>xs. map (\<lambda>i. xs ! i) pending) iois) c = (Inr sel, c1)"
    and b: "b = (let (s, rest) = split_batch 0 sel pending in
      \<lparr>selectedOrig = s, chosenTags = map (\<lambda>i. tags ! i) s,
        chosenIOIs = map_option (\<lambda>xs. map (\<lambda>i. xs ! i) s) iois, nextPending = rest\<rparr>)"
    by (auto simp: selectPackedTagBatch_def cbind_Inr cret_Inr split_beta)
  have ok: "sorted_wrt (<) sel" "sel \<noteq> []" "\<forall>s\<in>set sel. s < length pending"
    using selectPackedTagIndexes_sorted[OF sel] assms(2) by auto
  then have split: "split_batch 0 sel pending = (nths pending (set sel), nths pending (- set sel))"
    by (simp add: split_batch_nths Compl_eq)
  have "nths pending (set sel) \<noteq> []"
  proof -
    from ok obtain s where "s \<in> set sel" "s < length pending" by (cases sel) auto
    then have "pending ! s \<in> set (nths pending (set sel))" by (auto simp: set_nths)
    then show ?thesis by auto
  qed
  then show "selectedOrig b \<noteq> []" using b split by simp
  show "mset (selectedOrig b) + mset (nextPending b) = mset pending"
    using b split by (simp add: mset_nths_split)
  show "chosenTags b = map (\<lambda>i. tags ! i) (selectedOrig b)"
    "chosenIOIs b = map_option (\<lambda>xs. map (\<lambda>i. xs ! i) (selectedOrig b)) iois"
    using b split by simp_all
qed

lemma nextPending_less:
  assumes "selectPackedTagBatch pending tags iois c = (Inr b, c')" "pending \<noteq> []"
  shows "length (nextPending b) < length pending"
proof -
  have "length (selectedOrig b) + length (nextPending b) = length pending"
    using batch_partition(2)[OF assms] by (metis size_mset size_union)
  then show ?thesis using batch_partition(1)[OF assms] by (cases "selectedOrig b") auto
qed

section \<open>Reading batch after batch\<close>

text \<open>\<^verbatim>\<open>for i, val := range subResults { resultValues[selectedOrig[i]] = val }\<close>\<close>

fun store_results :: "nat list \<Rightarrow> goval list \<Rightarrow> goval list \<Rightarrow> goval list res" where
  "store_results sel [] results = Inr results"
| "store_results [] (v # vs) results = Inl (Panic ''index out of range'')"
| "store_results (i # sel) (v # vs) results =
     (if i < length results then store_results sel vs (results[i := v])
      else Inl (Panic ''index out of range''))"

lemma cbind_cong [fundef_cong]:
  assumes "c = c'" "f c' = f' c'" "\<And>x c1. f' c' = (Inr x, c1) \<Longrightarrow> g x c1 = g' x c1"
  shows "cbind f g c = cbind f' g' c'"
  using assms by (auto simp: cbind_def split: prod.splits sum.splits)

lemma cres_cong [fundef_cong]:
  "r = r' \<Longrightarrow> c = c' \<Longrightarrow> (\<And>x. r' = Inr x \<Longrightarrow> g x c' = g' x c') \<Longrightarrow> cres r g c = cres r' g' c'"
  by (cases r') (auto simp: cfail_def)

function read_batches ::
  "(tagDesc list \<Rightarrow> tagIOI list option \<Rightarrow> goval list cact) \<Rightarrow> tagDesc list \<Rightarrow> tagIOI list option
    \<Rightarrow> nat list \<Rightarrow> goval list \<Rightarrow> goval list cact" where
  "read_batches reader tags iois pending results c =
     (if pending = [] then (Inr results, c)
      else cbind (selectPackedTagBatch pending tags iois) (\<lambda>b c.
        cbind (reader (chosenTags b) (chosenIOIs b)) (\<lambda>subResults c.
        cres (store_results (selectedOrig b) subResults results) (\<lambda>results' c.
          read_batches reader tags iois (nextPending b) results' c) c) c) c)"
  by pat_completeness auto
termination
  by (relation "measure (\<lambda>(_, _, _, pending, _, _). length pending)") (auto dest: nextPending_less)

declare read_batches.simps [simp del]

section \<open>Every pending tag is read once\<close>

text \<open>
  What the loop relies on: a reader that succeeds returns one value for each of the tags it was
  given, in their order.  \<open>good\<close> says which values are right for a tag.
\<close>

lemma store_results_Inr:
  assumes "store_results sel vs results = Inr rs" "length vs = length sel" "distinct sel"
  shows "length rs = length results \<and> (\<forall>i. i \<notin> set sel \<longrightarrow> rs ! i = results ! i)
    \<and> (\<forall>j<length sel. rs ! (sel ! j) = vs ! j \<and> sel ! j < length results)"
  using assms
proof (induction sel vs results rule: store_results.induct)
  case (3 i sel v vs results)
  from "3.prems" have i: "i < length results" and s: "store_results sel vs (results[i := v]) = Inr rs"
    by (auto split: if_splits)
  note IH = "3.IH"[OF i s, simplified]
  from IH i "3.prems" show ?case by (auto simp: nth_Cons split: nat.splits)
qed simp_all

locale batch_reader =
  fixes reader :: "tagDesc list \<Rightarrow> tagIOI list option \<Rightarrow> goval list cact"
    and good :: "tagDesc \<Rightarrow> goval \<Rightarrow> bool"
  assumes reader_each: "reader ts ps c = (Inr vs, c') \<Longrightarrow> list_all2 good ts vs"
begin

lemma batch_each:
  assumes "reader (chosenTags b) (chosenIOIs b) c = (Inr vs, c')"
    and "chosenTags b = map (\<lambda>i. tags ! i) (selectedOrig b)"
    and "store_results (selectedOrig b) vs results = Inr rs" "distinct (selectedOrig b)"
  shows "length rs = length results \<and> (\<forall>i. i \<notin> set (selectedOrig b) \<longrightarrow> rs ! i = results ! i)
    \<and> (\<forall>i\<in>set (selectedOrig b). good (tags ! i) (rs ! i) \<and> i < length results)"
proof -
  have g: "list_all2 good (map (\<lambda>i. tags ! i) (selectedOrig b)) vs" using reader_each assms(1,2) by metis
  then have "length vs = length (selectedOrig b)" by (auto dest: list_all2_lengthD)
  note st = store_results_Inr[OF assms(3) this assms(4)]
  have "good (tags ! i) (rs ! i) \<and> i < length results" if "i \<in> set (selectedOrig b)" for i
  proof -
    from that obtain j where "j < length (selectedOrig b)" "i = selectedOrig b ! j" by (auto simp: in_set_conv_nth)
    with st g show ?thesis by (auto simp: list_all2_conv_all_nth)
  qed
  with st show ?thesis by blast
qed

lemma read_batches_each:
  assumes "read_batches reader tags iois pending results c = (Inr rs, c')" "distinct pending"
  shows "length rs = length results \<and> (\<forall>i. i \<notin> set pending \<longrightarrow> rs ! i = results ! i)
    \<and> (\<forall>i\<in>set pending. good (tags ! i) (rs ! i) \<and> i < length results)"
  using assms
proof (induction "length pending" arbitrary: pending results c rule: less_induct)
  case less
  show ?case
  proof (cases "pending = []")
    case True
    with less.prems show ?thesis by (simp add: read_batches.simps)
  next
    case False
    with less.prems(1) obtain b c1 vs c2 rs1 where
      b: "selectPackedTagBatch pending tags iois c = (Inr b, c1)" and
      vs: "reader (chosenTags b) (chosenIOIs b) c1 = (Inr vs, c2)" and
      rs1: "store_results (selectedOrig b) vs results = Inr rs1" and
      rest: "read_batches reader tags iois (nextPending b) rs1 c2 = (Inr rs, c')"
      by (subst (asm) read_batches.simps) (auto simp: cbind_Inr cres_Inr)
    note part = batch_partition[OF b False]
    have d: "distinct (selectedOrig b)" "distinct (nextPending b)"
      and sets: "set (selectedOrig b) \<inter> set (nextPending b) = {}"
      using less.prems(2) part(2)
      by (metis distinct_append mset_append mset_eq_imp_distinct_iff)+
    have sp: "set pending = set (selectedOrig b) \<union> set (nextPending b)"
      using arg_cong[OF part(2), of set_mset] by simp
    from batch_each[OF vs part(3) rs1 d(1)] less.hyps[OF nextPending_less[OF b False] rest d(2)] sets sp
    show ?thesis by (auto 4 3)
  qed
qed

end

section \<open>The size of a packet\<close>

lemma length_read_entry: "int (length (read_entry cs tag ioi offset)) = entry_size cs tag ioi"
  by (simp add: read_entry_def entry_size_def msgCIPMultiIOIHeader_def writeInstanceReadFooter_def
      instanceReadFooterSize_def)

lemma length_jump_table [simp]: "length (jumpTable start es) = length es"
  by (induction es arbitrary: start) simp_all

lemma newItem_address: "newItem i (Some (VUint32 w)) = item_Write (put32 w) (empty_item i)"
  by (simp add: newItem_def binary_write_def)

lemma length_put16s [simp]: "length (concat (map put16 ws)) = 2 * length ws"
  by (induction ws) simp_all

definition unit_packet :: "Client \<Rightarrow> CIPItem \<Rightarrow> bytes" where
  "unit_packet c it =
     serializeItems [newItem cipItem_ConnectionAddress (Some (VUint32 (c_OTNetworkConnectionID c))), it]"

text \<open>\<^verbatim>\<open>estimateMultiReadRequestOverhead\<close> is exact: it is what a packet has beside its entries.\<close>

lemma length_multi_packet:
  "int (length (unit_packet c (multi_request sq es)))
    = estimateMultiReadRequestOverhead (int (length es)) + (\<Sum>e\<leftarrow>es. int (length e))"
proof -
  have "int (length (concat es)) = (\<Sum>e\<leftarrow>es. int (length e))" by (induction es) simp_all
  then show ?thesis
    by (simp add: unit_packet_def serializeItems_def multi_request_def item_Bytes_def item_Write_def newItem_address
        empty_item_def msgCIPConnectedMultiServiceReq_def estimateMultiReadRequestOverhead_def)
qed

text \<open>What is selected fits, counting the paths at their positions.\<close>

definition selection_fits :: "u16 \<Rightarrow> tagDesc list \<Rightarrow> tagIOI list \<Rightarrow> nat list \<Rightarrow> bool" where
  "selection_fits cs tags iois sel \<longleftrightarrow>
     candidate_fits cs (length sel) (\<Sum>s\<leftarrow>sel. entry_size cs (tags ! s) (iois ! s))
       (\<Sum>s\<leftarrow>sel. estimateTagResponseSize (tags ! s))"

lemma select_loop_fits:
  assumes "select_loop i (drop i tags) (Some iois) selected p r c = (Inr sel, c')"
    and "p = (\<Sum>s\<leftarrow>selected. entry_size (c_ConnectionSize c) (tags ! s) (iois ! s))"
    and "r = (\<Sum>s\<leftarrow>selected. estimateTagResponseSize (tags ! s))"
    and "selected = [] \<or> selection_fits (c_ConnectionSize c) tags iois selected"
  shows "c' = c \<and> (sel = [] \<or> selection_fits (c_ConnectionSize c) tags iois sel)"
  using assms
proof (induction "drop i tags" arbitrary: i selected p r)
  case Nil
  then show ?case by (simp add: cret_Inr flip: Nil.hyps)
next
  case (Cons tag rest)
  then have tag: "tag = tags ! i" and rest: "rest = drop (i + 1) tags"
    by (metis Cons_nth_drop_Suc drop_eq_Nil list.distinct(1) list.inject not_le_imp_less Suc_eq_plus1)+
  let ?cs = "c_ConnectionSize c"
  from Cons.prems(1) have fit: "i < length iois"
    by (auto simp: cbind_Inr path_for_def cfail_Inr simp flip: Cons.hyps split: if_splits)
  have step: "(if candidate_fits ?cs (length selected + 1) (p + entry_size ?cs tag (iois ! i)) (r + estimateTagResponseSize tag)
      then select_loop (i + 1) rest (Some iois) (selected @ [i]) (p + entry_size ?cs tag (iois ! i)) (r + estimateTagResponseSize tag)
      else select_loop (i + 1) rest (Some iois) selected p r) c = (Inr sel, c')"
    using Cons.prems(1) fit by (auto simp: path_for_def Let_def simp flip: Cons.hyps split: if_splits)
  show ?case
  proof (cases "candidate_fits ?cs (length selected + 1) (p + entry_size ?cs tag (iois ! i)) (r + estimateTagResponseSize tag)")
    case True
    with step have "select_loop (i + 1) (drop (i + 1) tags) (Some iois) (selected @ [i])
        (p + entry_size ?cs tag (iois ! i)) (r + estimateTagResponseSize tag) c = (Inr sel, c')"
      using rest by simp
    from Cons.hyps(1)[OF rest this] True Cons.prems(2,3) tag show ?thesis by (simp add: selection_fits_def)
  next
    case False
    with step have "select_loop (i + 1) (drop (i + 1) tags) (Some iois) selected p r c = (Inr sel, c')"
      using rest by simp
    from Cons.hyps(1)[OF rest this] Cons.prems(2-4) show ?thesis by simp
  qed
qed

lemma selectPackedTagIndexes_fits:
  assumes "selectPackedTagIndexes tags (Some iois) c = (Inr sel, c')" "tags \<noteq> []"
  shows "c' = c \<and> (sel = [0] \<or> selection_fits (c_ConnectionSize c) tags iois sel)"
  using assms select_loop_fits[of 0 tags iois "[]" 0 0 c]
  by (auto simp: selectPackedTagIndexes_def cbind_Inr cret_Inr cfail_Inr split: if_splits)

lemma round_request_entries:
  assumes "selection_fits (c_ConnectionSize c) tags iois sel" "length offsets = length sel"
  shows "int (length (unit_packet c (round_request (c_ConnectionSize c) sq
    (map (\<lambda>s. tags ! s) sel) (map (\<lambda>s. iois ! s) sel) offsets))) < uint (c_ConnectionSize c)"
proof -
  let ?es = "map (\<lambda>(tag, ioi, offset). read_entry (c_ConnectionSize c) tag ioi offset)
    (zip (map (\<lambda>s. tags ! s) sel) (zip (map (\<lambda>s. iois ! s) sel) offsets))"
  have "(\<Sum>e\<leftarrow>?es. int (length e)) = (\<Sum>s\<leftarrow>sel. entry_size (c_ConnectionSize c) (tags ! s) (iois ! s))"
    using assms(2)
    by (induction sel offsets rule: list_induct2') (simp_all add: length_read_entry)
  with assms show ?thesis
    by (simp add: round_request_def length_multi_packet selection_fits_def candidate_fits_def)
qed

section \<open>The layout of a packet\<close>

lemma jump_table_nth:
  "i < length es \<Longrightarrow> jumpTable start es ! i = of_nat (start + length (concat (take i es)))"
  by (induction es arbitrary: start i) (auto simp: nth_Cons add.assoc simp flip: of_nat_add split: nat.splits)

lemma drop_put16s: "i \<le> length ws \<Longrightarrow> drop (2 * i) (concat (map put16 ws) @ x) = concat (map put16 (drop i ws)) @ x"
proof (induction i arbitrary: ws)
  case (Suc i)
  then obtain w ws' where "ws = w # ws'" by (cases ws) auto
  with Suc show ?case by simp
qed simp

lemma drop_concat_take: "i < length es \<Longrightarrow> drop (length (concat (take i es))) (concat es) = es ! i @ concat (drop (i + 1) es)"
proof -
  assume i: "i < length es"
  have "concat es = concat (take i es) @ concat (drop i es)" by (metis append_take_drop_id concat_append)
  then show ?thesis using i by (simp flip: Cons_nth_drop_Suc)
qed

text \<open>
  The jump table leads to the entries: the 16-bit offset the packet holds at place \<open>i\<close> of
  its table, counted from the service count as the protocol has it, is where entry \<open>i\<close> starts.
\<close>

theorem jump_table_finds_entries:
  assumes "i < length es" "length (Data (multi_request sq es)) < 65536"
  shows "take (length (es ! i)) (drop (8 + unat (fld16 (10 + 2 * i) (Data (multi_request sq es))))
    (Data (multi_request sq es))) = es ! i"
proof -
  let ?jt = "jumpTable (2 + length es * 2) es" and ?D = "Data (multi_request sq es)"
  obtain h where h: "?D = h @ concat (map put16 ?jt) @ concat es" "length h = 10"
    by (simp add: multi_request_def item_Write_def empty_item_def msgCIPConnectedMultiServiceReq_def)
  have "drop (10 + 2 * i) ?D = drop (2 * i) (concat (map put16 ?jt) @ concat es)"
    using h by simp
  also have "\<dots> = put16 (?jt ! i) @ concat (map put16 (drop (i + 1) ?jt)) @ concat es"
    using assms(1) drop_put16s[of i ?jt "concat es"] by (simp flip: Cons_nth_drop_Suc)
  finally have f: "fld16 (10 + 2 * i) ?D = ?jt ! i" by (simp add: fld16_def)
  have "length (concat (take i es)) \<le> length (concat es)"
    by (metis append_take_drop_id concat_append le_add1 length_append)
  then have "2 + length es * 2 + length (concat (take i es)) < 65536"
    using assms(2) h by simp
  then have "unat (?jt ! i) = 2 + length es * 2 + length (concat (take i es))"
    by (simp only: jump_table_nth[OF assms(1)] unat_u16_of_nat)
  then have "drop (8 + unat (?jt ! i)) ?D = drop (length (concat (take i es))) (concat es)"
    using h by simp
  then show ?thesis using f drop_concat_take[OF assms(1)] by simp
qed

theorem jump_table_finds_entries_witness:
  "take 2 (drop (8 + unat (fld16 12 (Data (multi_request 1 [[1, 2, 3], [4, 5]]))))
    (Data (multi_request 1 [[1, 2, 3], [4, 5]]))) = [4, 5]"
proof -
  let ?es = "[[1, 2, 3], [4, 5]] :: bytes list"
  have "length (Data (multi_request 1 ?es)) = 19"
    by (simp add: multi_request_def item_Write_def empty_item_def msgCIPConnectedMultiServiceReq_def)
  then have "length (Data (multi_request 1 ?es)) < 65536" by simp
  from jump_table_finds_entries[OF _ this, of 1] show ?thesis by (simp add: numeral_2_eq_2)
qed

section \<open>Paths made on the way\<close>

text \<open>Once the firmware version is known a path costs no request: only the cache changes.\<close>

lemma c_newIOI_known:
  assumes "c_knownFirmware c \<noteq> 0"
  shows "c_newIOI t d c = (case newIOI (c_KnownTags c) (c_knownFirmware c) t d (c_ioi_cache c) of
    Inl e \<Rightarrow> (Inl e, c) | Inr (ioi, cache) \<Rightarrow> (Inr ioi, c\<lparr>c_ioi_cache := cache\<rparr>))"
  using assms by (simp add: c_newIOI_def cbind_def firmware_def)

lemma c_newIOI_keeps:
  assumes "c_knownFirmware c \<noteq> 0" "c_newIOI t d c = (r, c')"
  shows "c_knownFirmware c' = c_knownFirmware c" "c_KnownTags c' = c_KnownTags c"
    "c_ConnectionSize c' = c_ConnectionSize c" "c_OTNetworkConnectionID c' = c_OTNetworkConnectionID c"
  using assms by (auto simp: c_newIOI_known split: sum.splits prod.splits)

lemma new_iois_keeps:
  assumes "c_knownFirmware c \<noteq> 0" "new_iois tags c = (Inr iois, c')"
  shows "c_knownFirmware c' = c_knownFirmware c \<and> c_KnownTags c' = c_KnownTags c \<and>
    c_ConnectionSize c' = c_ConnectionSize c \<and> length iois = length tags"
  using assms
proof (induction tags arbitrary: c iois)
  case (Cons tag tags)
  then obtain ioi c1 rest where c1: "c_newIOI (td_TagName tag) (td_TagType tag) c = (Inr ioi, c1)"
    and rest: "new_iois tags c1 = (Inr rest, c')" "iois = ioi # rest"
    by (auto simp: cbind_Inr cret_Inr)
  note keeps = c_newIOI_keeps[OF Cons.prems(1) c1]
  have "c_knownFirmware c1 \<noteq> 0" using keeps Cons.prems by simp
  from Cons.IH[OF this rest(1)] rest(2) keeps show ?case by simp
qed (simp add: cret_Inr)

lemma select_loop_given:
  assumes "c_ConnectionSize c' = c_ConnectionSize c"
  shows "select_loop i tags (Some iois) selected p r c' = (fst (select_loop i tags (Some iois) selected p r c), c')"
proof (induction tags arbitrary: i selected p r)
  case (Cons tag tags)
  show ?case using assms Cons.IH by (simp add: path_for_def cbind_def cret_def cfail_def Let_def)
qed (simp add: cret_def)

lemma select_loop_on_the_way:
  assumes "c_knownFirmware c \<noteq> 0" "length pre = i"
  shows "select_loop i tags None selected p r c =
    (case new_iois tags c of
       (Inl e, c1) \<Rightarrow> (Inl e, c1)
     | (Inr iois, c1) \<Rightarrow> select_loop i tags (Some (pre @ iois)) selected p r c1)"
  using assms
proof (induction tags arbitrary: i pre selected p r c)
  case (Cons tag tags)
  obtain res c1 where c1: "c_newIOI (td_TagName tag) (td_TagType tag) c = (res, c1)" by fastforce
  note keeps = c_newIOI_keeps[OF Cons.prems(1) c1]
  have fw: "c_knownFirmware c1 \<noteq> 0" using keeps Cons.prems by simp
  show ?case
  proof (cases res)
    case (Inl e)
    with c1 show ?thesis by (simp add: path_for_def cbind_def)
  next
    case (Inr ioi)
    obtain res2 c2 where c2: "new_iois tags c1 = (res2, c2)" by fastforce
    have IH: "select_loop (i + 1) tags None sel p r c1 = (case res2 of Inl e \<Rightarrow> (Inl e, c2)
        | Inr iois \<Rightarrow> select_loop (i + 1) tags (Some ((pre @ [ioi]) @ iois)) sel p r c2)" for sel p r
      using Cons.IH[OF fw, of "pre @ [ioi]" "i + 1" sel p r] Cons.prems(2) c2 by (simp split: sum.split)
    show ?thesis
    proof (cases res2)
      case (Inl e)
      with c1 c2 Inr IH show ?thesis by (simp add: path_for_def cbind_def Let_def)
    next
      case (Inr iois)
      then have "c_ConnectionSize c2 = c_ConnectionSize c1" using new_iois_keeps[OF fw] c2 by blast
      with c1 c2 \<open>res = Inr ioi\<close> Inr IH Cons.prems(2) show ?thesis
        by (simp add: path_for_def cbind_def Let_def cret_def nth_append)
    qed
  qed
qed (simp add: cret_def)

text \<open>
  Choosing the tags of a packet while the paths are made one by one is choosing them with all
  paths made beforehand: the same positions, the same error, the same cache.
\<close>

lemma packing_on_the_way:
  assumes "c_knownFirmware c \<noteq> 0"
  shows "selectPackedTagIndexes tags None c =
    (case new_iois tags c of
       (Inl e, c1) \<Rightarrow> (Inl e, c1)
     | (Inr iois, c1) \<Rightarrow> selectPackedTagIndexes tags (Some iois) c1)"
proof -
  have "length iois = length tags" if "new_iois tags c = (Inr iois, c1)" for iois c1
    using new_iois_keeps[OF assms that] by simp
  then show ?thesis
    using select_loop_on_the_way[OF assms, of "[]" 0 tags "[]" 0 0]
    by (auto simp: selectPackedTagIndexes_def cbind_def cret_def split: prod.splits sum.splits)
qed

section \<open>A batch fits the connection\<close>

text \<open>The path of a tag stays the one that was cached when it was first made.\<close>

lemma newIOI_cached:
  assumes "newIOI known fw t d cache = Inr (ioi, cache')"
  shows "cache' (strings_ToLower t) = Some ioi \<and> (\<forall>k. k \<noteq> strings_ToLower t \<longrightarrow> cache' k = cache k)"
  using assms by (auto simp: newIOI_def Let_def andthen_Inr_iff split: option.splits if_splits)

lemma newIOI_again:
  assumes "newIOI known fw t d cache = Inr (ioi, cache')"
    and "cache2 (strings_ToLower t) = cache' (strings_ToLower t)"
  shows "newIOI known fw t d cache2 = Inr (ioi, cache2)"
  using assms newIOI_cached[OF assms(1)]
  by (auto simp: newIOI_def Let_def andthen_Inr_iff split: option.splits if_splits)

lemma c_newIOI_again:
  assumes "c_knownFirmware c \<noteq> 0" "c_newIOI t d c = (Inr ioi, c1)"
    and "c_knownFirmware c2 = c_knownFirmware c" "c_KnownTags c2 = c_KnownTags c"
    and "c_ioi_cache c2 (strings_ToLower t) = c_ioi_cache c1 (strings_ToLower t)"
  shows "c_newIOI t d c2 = (Inr ioi, c2)"
proof -
  from assms(1,2) obtain cache where n: "newIOI (c_KnownTags c) (c_knownFirmware c) t d (c_ioi_cache c) = Inr (ioi, cache)"
    and "c1 = c\<lparr>c_ioi_cache := cache\<rparr>"
    by (auto simp: c_newIOI_known split: sum.splits prod.splits)
  with assms(5) have "newIOI (c_KnownTags c) (c_knownFirmware c) t d (c_ioi_cache c2) = Inr (ioi, c_ioi_cache c2)"
    using newIOI_again[OF n] by simp
  with assms show ?thesis by (simp add: c_newIOI_known)
qed

lemma new_iois_cached:
  assumes "c_knownFirmware c \<noteq> 0" "new_iois tags c = (Inr iois, c')"
    and "k \<notin> set (map (\<lambda>tag. strings_ToLower (td_TagName tag)) tags)"
  shows "c_ioi_cache c' k = c_ioi_cache c k"
  using assms
proof (induction tags arbitrary: c iois)
  case (Cons tag tags)
  then obtain ioi c1 rest where c1: "c_newIOI (td_TagName tag) (td_TagType tag) c = (Inr ioi, c1)"
    and rest: "new_iois tags c1 = (Inr rest, c')"
    by (auto simp: cbind_Inr cret_Inr)
  have "c_ioi_cache c1 k = c_ioi_cache c k"
    using c1 Cons.prems by (auto simp: c_newIOI_known dest!: newIOI_cached split: sum.splits prod.splits)
  with Cons.IH[OF _ rest] c_newIOI_keeps[OF Cons.prems(1) c1] Cons.prems show ?case by simp
qed (simp add: cret_Inr)

lemma new_iois_again:
  assumes "c_knownFirmware c \<noteq> 0" "new_iois tags c = (Inr iois, c')"
    and "distinct (map (\<lambda>tag. strings_ToLower (td_TagName tag)) tags)" "i < length tags"
  shows "c_newIOI (td_TagName (tags ! i)) (td_TagType (tags ! i)) c' = (Inr (iois ! i), c')"
  using assms
proof (induction tags arbitrary: c iois i)
  case (Cons tag tags)
  then obtain ioi c1 rest where c1: "c_newIOI (td_TagName tag) (td_TagType tag) c = (Inr ioi, c1)"
    and rest: "new_iois tags c1 = (Inr rest, c')" "iois = ioi # rest"
    by (auto simp: cbind_Inr cret_Inr)
  note keeps = c_newIOI_keeps[OF Cons.prems(1) c1]
  have fw: "c_knownFirmware c1 \<noteq> 0" using keeps Cons.prems(1) by simp
  note keeps' = new_iois_keeps[OF fw rest(1)]
  show ?case
  proof (cases i)
    case 0
    have "c_ioi_cache c' (strings_ToLower (td_TagName tag)) = c_ioi_cache c1 (strings_ToLower (td_TagName tag))"
      using Cons.prems(3) by (intro new_iois_cached[OF fw rest(1)]) auto
    then show ?thesis
      using c_newIOI_again[OF Cons.prems(1) c1, of c'] keeps keeps' 0 rest(2) by simp
  next
    case (Suc j)
    then show ?thesis using Cons.IH[OF fw rest(1), of j] Cons.prems(3,4) rest(2) by simp
  qed
qed simp

lemma new_iois_nths:
  assumes "\<And>s. s \<in> set sel \<Longrightarrow> c_newIOI (td_TagName (tags ! s)) (td_TagType (tags ! s)) c = (Inr (iois ! s), c)"
  shows "new_iois (map (\<lambda>s. tags ! s) sel) c = (Inr (map (\<lambda>s. iois ! s) sel), c)"
  using assms by (induction sel) (auto simp: cret_def cbind_def)

lemma nths_sorted:
  assumes "sorted_wrt (<) sel" "\<forall>s\<in>set sel. s < length xs"
  shows "nths xs (set sel) = map (\<lambda>s. xs ! s) sel"
proof -
  have "zip xs [0..<length xs] = map (\<lambda>i. (xs ! i, i)) [0..<length xs]"
    by (rule nth_equalityI) simp_all
  then have "nths xs (set sel) = map (\<lambda>s. xs ! s) (filter (\<lambda>i. i \<in> set sel) [0..<length xs])"
    by (simp add: nths_def filter_map comp_def)
  moreover have "sorted_wrt (<) (filter (\<lambda>i. i \<in> set sel) [0..<length xs])"
    by (intro sorted_wrt_filter) simp
  then have "filter (\<lambda>i. i \<in> set sel) [0..<length xs] = sel"
    using assms strict_sorted_equal[of sel "filter (\<lambda>i. i \<in> set sel) [0..<length xs]"] by auto
  ultimately show ?thesis by simp
qed

text \<open>
  C16. A packet of two or more tags fits the connection.  The tags of a batch
  \<^verbatim>\<open>selectPackedTagBatch\<close> chose have paths (already in the cache, so asking for them
  again changes nothing), and the packet a round then builds from them is, with everything around
  it, shorter than the negotiated size, whatever offsets it asks for.  So is the estimated reply.
\<close>

theorem batch_request_fits:
  assumes fw: "c_knownFirmware c \<noteq> 0"
    and names: "distinct (map (\<lambda>i. strings_ToLower (td_TagName (tags ! i))) pending)"
    and b: "selectPackedTagBatch pending tags None c = (Inr b, c1)"
    and two: "2 \<le> length (selectedOrig b)"
  shows "\<exists>iois. new_iois (chosenTags b) c1 = (Inr iois, c1) \<and> c_ConnectionSize c1 = c_ConnectionSize c
    \<and> (\<forall>sq offsets. length offsets = length (chosenTags b) \<longrightarrow>
         int (length (unit_packet c1 (round_request (c_ConnectionSize c1) sq (chosenTags b) iois offsets)))
           < uint (c_ConnectionSize c1))
    \<and> estimateMultiReadReplyOverhead (int (length (chosenTags b))) + (\<Sum>t\<leftarrow>chosenTags b. estimateTagResponseSize t)
        < uint (c_ConnectionSize c1)"
proof -
  let ?tags = "map (\<lambda>i. tags ! i) pending"
  have ne: "pending \<noteq> []"
    using b two by (auto simp: selectPackedTagBatch_def cret_Inr)
  from b ne obtain sel where sel: "selectPackedTagIndexes ?tags None c = (Inr sel, c1)"
    and orig: "selectedOrig b = fst (split_batch 0 sel pending)"
    by (auto simp: selectPackedTagBatch_def cbind_Inr cret_Inr split_beta)
  have ok: "sorted_wrt (<) sel" "sel \<noteq> []" "\<forall>s\<in>set sel. s < length pending"
    using selectPackedTagIndexes_sorted[OF sel] ne by auto
  then have orig': "selectedOrig b = map (\<lambda>s. pending ! s) sel"
    using orig by (simp add: split_batch_nths nths_sorted)
  then have chosen: "chosenTags b = map (\<lambda>s. ?tags ! s) sel"
    using batch_partition(3)[OF b ne] ok(3) by simp
  obtain iois where new: "new_iois ?tags c = (Inr iois, c1)" and
    given: "selectPackedTagIndexes ?tags (Some iois) c1 = (Inr sel, c1)"
    using sel selectPackedTagIndexes_fits[of ?tags _ _ sel c1] ne
    by (auto simp: packing_on_the_way[OF fw] split: prod.splits sum.splits)
  have cs: "c_ConnectionSize c1 = c_ConnectionSize c" using new_iois_keeps[OF fw new] by simp
  have "sel \<noteq> [0]" using two orig' by auto
  then have fits: "selection_fits (c_ConnectionSize c1) ?tags iois sel"
    using selectPackedTagIndexes_fits[OF given] ne by auto
  have "new_iois (map (\<lambda>s. ?tags ! s) sel) c1 = (Inr (map (\<lambda>s. iois ! s) sel), c1)"
    using ok(3) names by (intro new_iois_nths new_iois_again[OF fw new]) (auto simp: comp_def)
  moreover have "estimateMultiReadReplyOverhead (int (length sel)) + (\<Sum>s\<leftarrow>sel. estimateTagResponseSize (?tags ! s))
      < uint (c_ConnectionSize c1)"
    using fits by (auto simp: selection_fits_def candidate_fits_def)
  ultimately show ?thesis
    using cs round_request_entries[OF fits] chosen
    by (intro exI[of _ "map (\<lambda>s. iois ! s) sel"]) (simp add: comp_def)
qed

definition demo_batch :: "tagDesc list" where
  "demo_batch =
     [\<lparr>td_TagName = ''abc'', td_TagType = CIPTypeDINT, td_Elements = 1, td_Struct = VInt32 0\<rparr>,
      \<lparr>td_TagName = ''De'', td_TagType = CIPTypeINT, td_Elements = 7, td_Struct = VSlice TInt16 (replicate 7 (VInt16 0))\<rparr>]"

definition demo_batch_client :: "bytes option list \<Rightarrow> Client" where
  "demo_batch_client script =
     demo_client\<lparr>c_ioi_cache := [''abc'' \<mapsto> demo_path, ''de'' \<mapsto> demo_path], c_script := script\<rparr>"

lemma demo_batch_state:
  "c_knownFirmware (demo_batch_client script) = 20" "c_ConnectionSize (demo_batch_client script) = 4000"
  "c_OTNetworkConnectionID (demo_batch_client script) = 9" "c_KnownTags (demo_batch_client script) = Map.empty"
  "c_ioi_cache (demo_batch_client script) = [''abc'' \<mapsto> demo_path, ''de'' \<mapsto> demo_path]"
  "demo_batch_client script\<lparr>c_ioi_cache := [''abc'' \<mapsto> demo_path, ''de'' \<mapsto> demo_path]\<rparr> = demo_batch_client script"
  by (simp_all add: demo_batch_client_def demo_client_def)

lemma demo_names: "strings_ToLower ''abc'' = ''abc''" "strings_ToLower ''De'' = ''de''"
  by code_simp+

lemma demo_batch_paths:
  "c_newIOI ''abc'' t (demo_batch_client script) = (Inr demo_path, demo_batch_client script)"
  "c_newIOI ''De'' t (demo_batch_client script) = (Inr demo_path, demo_batch_client script)"
  by (simp_all add: c_newIOI_known newIOI_def demo_batch_state demo_names)

lemma demo_batch_selected:
  "selectPackedTagBatch [0, 1] demo_batch None (demo_batch_client script)
    = (Inr \<lparr>selectedOrig = [0, 1], chosenTags = demo_batch, chosenIOIs = None, nextPending = []\<rparr>, demo_batch_client script)"
proof -
  have "length (ioi_Buffer demo_path) = 6" by (simp add: demo_path_def new_ioi_def)
  then show ?thesis
    by (simp add: selectPackedTagBatch_def selectPackedTagIndexes_def demo_batch_def path_for_def cbind_def cret_def
      demo_batch_paths demo_batch_state Let_def entry_size_def instanceReadFooterSize_def candidate_fits_def
      estimateTagResponseSize_def CIPType_Size_def estimateMultiReadRequestOverhead_def estimateMultiReadReplyOverhead_def)
qed

theorem batch_request_fits_witness:
  "\<exists>iois. new_iois demo_batch (demo_batch_client []) = (Inr iois, demo_batch_client [])
    \<and> int (length (unit_packet (demo_batch_client []) (round_request 4000 1 demo_batch iois [0, 0]))) < 4000"
proof -
  have "distinct (map (\<lambda>i. strings_ToLower (td_TagName (demo_batch ! i))) [0, 1])"
    by (simp add: demo_batch_def demo_names)
  from batch_request_fits[OF _ this demo_batch_selected[of "[]"]] obtain iois where
    "new_iois demo_batch (demo_batch_client []) = (Inr iois, demo_batch_client [])"
    and len: "\<forall>sq offsets. length offsets = length demo_batch \<longrightarrow>
      int (length (unit_packet (demo_batch_client []) (round_request 4000 sq demo_batch iois offsets))) < 4000"
    by (auto simp: demo_batch_state)
  moreover have "length [0, 0 :: u32] = length demo_batch" by (simp add: demo_batch_def)
  ultimately show ?thesis by blast
qed

end
