(* ===== verification/Client_ReadList.thy ===== *)
theory Client_ReadList
  imports Client_Batch
begin

text \<open>
  Reads of many tags: the multiple-service round of \<^verbatim>\<open>readListFragRound\<close>, the
  continuation loop of \<^verbatim>\<open>readListFragAll\<close>, \<^verbatim>\<open>readList\<close> with its own
  splitting, and the callers \<^verbatim>\<open>ReadMap\<close>, \<^verbatim>\<open>ReadMapFrag\<close>,
  \<^verbatim>\<open>ReadMapByInstance\<close>, \<^verbatim>\<open>ReadList\<close> and \<^verbatim>\<open>ReadMulti\<close>
  (\<^verbatim>\<open>read.go\<close>, \<^verbatim>\<open>partialread.go\<close>, \<^verbatim>\<open>read_instance.go\<close>).
\<close>

section \<open>The reply to a packet\<close>

fun map_res :: "('a \<Rightarrow> 'b res) \<Rightarrow> 'a list \<Rightarrow> 'b list res" where
  "map_res f [] = Inr []"
| "map_res f (x # xs) = andthen (f x) (\<lambda>y. andthen (map_res f xs) (\<lambda>ys. Inr (y # ys)))"

text \<open>
  The header of the reply, its offset table, and \<^verbatim>\<open>rItem.Bytes()\<close>: the item with its
  four header bytes, which is why ten is added to every offset.
\<close>

definition multi_reply :: "eipHeader \<Rightarrow> bytes \<Rightarrow> (u16 list \<times> bytes) res" where
  "multi_reply hdr data =
     (if eh_Status hdr \<noteq> 0 then Inl (Msg ''problem reading tags. Status'')
      else attempt ''problem reading items'' (reply_items data) (\<lambda>items.
        if length items \<noteq> 2 then Inl (Msg ''wrong Number of Items'')
        else
          attempt ''problem reading reply header sequence count'' (item_Uint16 (items ! 1)) (\<lambda>(_, it1).
          attempt ''problem reading reply header service code'' (item_Byte it1) (\<lambda>(_, it2).
          attempt ''problem reading reply header padding byte'' (item_Byte it2) (\<lambda>(_, it3).
          attempt ''problem reading reply header status'' (item_Uint16 it3) (\<lambda>(status, it4).
          if status \<noteq> ucast CIPStatus_OK \<and> status \<noteq> ucast CIPStatus_EmbeddedServiceError
          then Inl (Msg ''service returned status'')
          else
          attempt ''problem reading reply header item count'' (item_Uint16 it4) (\<lambda>(count, it5).
          attempt ''problem reading offset table'' (item_ReadFull (2 * unat count) it5) (\<lambda>(tbl, it6).
          Inr (map (\<lambda>i. fld16 (2 * i) tbl) [0..<unat count], item_Bytes it6)))))))))"

text \<open>
  An error about entry \<open>i\<close> names its tag: with more replies than tags it is the index that fails.
\<close>

definition about_tag :: "tagDesc list \<Rightarrow> nat \<Rightarrow> gerror \<Rightarrow> gerror" where
  "about_tag tags i e = (if i < length tags then e else Panic ''index out of range'')"

record fragReadTagResult =
  frr_Status :: cip_status
  frr_Type :: cip_type
  frr_Data :: bytes

definition entry_result :: "tagDesc list \<Rightarrow> nat \<Rightarrow> bytes \<Rightarrow> fragReadTagResult res" where
  "entry_result tags i entry =
     (if length entry < 4 then Inl (about_tag tags i (Msg ''fragmented response of entry too short''))
      else if \<not> IsResponse (fld8 0 entry) then Inl (about_tag tags i (Msg ''mixed item was not a response service''))
      else
        let service = UnResponse (fld8 0 entry); status = ucast (fld16 2 entry AND 0xFF) :: cip_status in
        if service \<noteq> CIPService_FragRead \<and> service \<noteq> CIPService_Read
        then Inl (about_tag tags i (Msg ''mixed item had unexpected service''))
        else if status \<noteq> CIPStatus_OK \<and> \<not> (service = CIPService_FragRead \<and> status = CIPStatus_PartialTransfer)
        then Inr \<lparr>frr_Status = status, frr_Type = 0, frr_Data = []\<rparr>
        else
          case read_full 2 (drop 4 entry) of
            Inl e \<Rightarrow> Inl (about_tag tags i (wrap ''problem reading fragmented multi result type header'' e))
          | Inr (th, r1) \<Rightarrow>
              (case (if fld8 1 th \<noteq> 0 then read_full 2 r1 else Inr ([], r1)) of
                 Inl e \<Rightarrow> Inl (about_tag tags i (wrap ''problem reading additional type info header'' e))
               | Inr (_, payload) \<Rightarrow> Inr \<lparr>frr_Status = status, frr_Type = fld8 0 th, frr_Data = payload\<rparr>))"

definition frag_entry :: "tagDesc list \<Rightarrow> u16 list \<Rightarrow> bytes \<Rightarrow> nat \<Rightarrow> fragReadTagResult res" where
  "frag_entry tags offsetTable rb i =
     (let start = unat (offsetTable ! i) + 10;
          stop = (if i + 1 < length offsetTable then unat (offsetTable ! (i + 1)) + 10 else length rb) in
      if start > length rb \<or> stop < start \<or> stop > length rb
      then Inl (about_tag tags i (Msg ''invalid fragmented offset boundaries''))
      else entry_result tags i (take (stop - start) (drop start rb)))"

definition readListFragRound :: "tagDesc list \<Rightarrow> tagIOI list \<Rightarrow> u32 list \<Rightarrow> fragReadTagResult list cact" where
  "readListFragRound tags iois offsets =
     cbind next_sequence (\<lambda>sq c.
     cbind (send_unit (round_request (c_ConnectionSize c) sq tags iois offsets)) (\<lambda>(hdr, data).
     cres (multi_reply hdr data) (\<lambda>(tbl, rb).
     cres (map_res (frag_entry tags tbl rb) [0..<length tbl]) cret)) c)"

section \<open>Decoding a value\<close>

text \<open>
  What \<^verbatim>\<open>Unpack\<close> has stored through its pointer when it stops with an error: the fields
  before the failing one, the part of that field it got to, and zero values.
\<close>

fun fill_bits :: "nat \<Rightarrow> unpack_state \<Rightarrow> goval list" where
  "fill_bits 0 st = []"
| "fill_bits (Suc k) st =
     (case un_bit st of
        Inl _ \<Rightarrow> replicate (Suc k) (VBool False)
      | Inr (b, st') \<Rightarrow> VBool b # fill_bits k st')"

fun fill :: "gotype \<Rightarrow> bytes \<Rightarrow> goval"
  and fill_fields :: "(gofield \<times> gotype) list \<Rightarrow> unpack_state \<Rightarrow> (gofield \<times> goval) list"
  and fill_elems :: "gotype \<Rightarrow> nat \<Rightarrow> bytes \<Rightarrow> goval list" where
  "fill (TStruct n fs) r = VStruct n (fill_fields fs (un_init r))"
| "fill t r = zero_val t"
| "fill_fields [] st = []"
| "fill_fields ((f, t) # fs) st =
     (case unpack_fields [(f, t)] st of
        Inr (vs, st') \<Rightarrow> vs @ fill_fields fs st'
      | Inl _ \<Rightarrow>
          (f, case un_lead f (cip_Align t) st of
                Inl _ \<Rightarrow> zero_val t
              | Inr st0 \<Rightarrow>
                  (case t of
                     TArray k e \<Rightarrow>
                       if is_nopack f then zero_val t
                       else (case e of
                           TBool \<Rightarrow> VArray TBool (fill_bits k st0)
                         | TStruct n ts \<Rightarrow> VArray e (fill_elems e k (un_rest st0))
                         | _ \<Rightarrow> zero_val t)
                   | TStruct n ts \<Rightarrow>
                       (case un_align f (cip_Align t) (st0\<lparr>un_bitpos := 0\<rparr>) of
                          Inl _ \<Rightarrow> zero_val t
                        | Inr st2 \<Rightarrow> fill t (un_rest st2))
                   | _ \<Rightarrow> zero_val t))
          # map (\<lambda>(f, t). (f, zero_val t)) fs)"
| "fill_elems t 0 r = []"
| "fill_elems t (Suc k) r =
     (case Unpack t r of
        Inr (v, s, r') \<Rightarrow> v # fill_elems t k r'
      | Inl _ \<Rightarrow> fill t r # replicate k (zero_val t))"

text \<open>\<^verbatim>\<open>Unpack\<close> into a new variable of type \<open>t\<close>; a new slice has no elements to read.\<close>

definition unpack_new :: "gotype \<Rightarrow> bytes \<Rightarrow> (goval \<times> bytes) res" where
  "unpack_new t r =
     (case t of TSlice e \<Rightarrow> Inr (VSlice e [], r) | _ \<Rightarrow> andthen (Unpack t r) (\<lambda>(v, _, r'). Inr (v, r')))"

text \<open>\<^verbatim>\<open>unpackOne\<close>: running out of data is not an error.\<close>

definition unpackOne :: "gotype \<Rightarrow> bytes \<Rightarrow> (goval \<times> bytes) res" where
  "unpackOne t r =
     (case unpack_new t r of
        Inr (v, r') \<Rightarrow> Inr (v, r')
      | Inl e \<Rightarrow> if errors_Is e EOF then Inr (fill t r, []) else Inl (wrap ''couldn't unpack struct data'' e))"

fun unpack_many :: "gotype \<Rightarrow> nat \<Rightarrow> bytes \<Rightarrow> goval list res" where
  "unpack_many t 0 r = Inr []"
| "unpack_many t (Suc n) r =
     andthen (unpackOne t r) (\<lambda>(v, r'). andthen (unpack_many t n r') (\<lambda>vs. Inr (v # vs)))"

definition decodeStructReadValue :: "tagDesc \<Rightarrow> bytes \<Rightarrow> goval res" where
  "decodeStructReadValue tag r =
     (if td_Struct tag = VNil then Inr (byte_slice r)
      else case typeof (td_Struct tag) of
        TSlice e \<Rightarrow>
          if td_Elements tag < 0 then Inl (Panic ''reflect.MakeSlice: negative len'')
          else andthen (unpack_many e (nat (td_Elements tag)) r) (\<lambda>vs. Inr (VSlice e vs))
      | TArray k e \<Rightarrow>
          andthen (unpack_many e (min (nat (td_Elements tag)) k) r) (\<lambda>vs.
            Inr (VArray e (vs @ replicate (k - length vs) (zero_val e))))
      | t \<Rightarrow> andthen (unpackOne t r) (\<lambda>(v, _). Inr v))"

definition decodeReadTagValue :: "tagDesc \<Rightarrow> tagIOI \<Rightarrow> cip_type \<Rightarrow> bytes \<Rightarrow> cip_status \<Rightarrow> goval res" where
  "decodeReadTagValue tag ioi respType payload status =
     (if status \<noteq> CIPStatus_OK then Inr (VErr (Msg ''tag read failed with status''))
      else if td_Elements tag = 1 then
        (if td_TagType tag = CIPTypeBOOL \<and> respType \<noteq> CIPTypeBOOL \<and> ioi_BitAccess ioi then
           attempt ''problem reading bool tag'' (readValue respType payload) (\<lambda>(value, _).
           andthen (getBit respType value (ioi_BitPosition ioi)) (\<lambda>b. Inr (VBool b)))
         else if td_TagType tag = CIPTypeSTRING then
           attempt ''couldn't unpack string struct header'' (rd32 payload) (\<lambda>(l, r1).
           attempt ''couldn't unpack struct data'' (read_full (unat l) r1) (\<lambda>(str, _).
           Inr (VString (of_bytes str))))
         else if respType = CIPTypeStruct then decodeStructReadValue tag payload
         else andthen (readValue respType payload) (\<lambda>(v, _). Inr v))
      else if respType = CIPTypeStruct then decodeStructReadValue tag payload
      else if td_Elements tag < 0 then Inl (Panic ''makeslice: len out of range'')
      else andthen (decode_elements (nat (td_Elements tag)) respType payload) (\<lambda>vs. Inr (VSlice TAny vs)))"

section \<open>Rounds until every tag is complete\<close>

text \<open>One element of the slices \<^verbatim>\<open>offsets\<close>, \<^verbatim>\<open>chunks\<close>, \<^verbatim>\<open>respTypes\<close> and \<^verbatim>\<open>status\<close>.\<close>

record frag_state =
  fs_offset :: u32
  fs_chunk :: bytes
  fs_respType :: cip_type
  fs_status :: cip_status

definition frag_init :: frag_state where
  "frag_init = \<lparr>fs_offset = 0, fs_chunk = [], fs_respType = 0, fs_status = 0\<rparr>"

definition frag_take :: "fragReadTagResult \<Rightarrow> frag_state \<Rightarrow> frag_state" where
  "frag_take rr s =
     (let s1 = s\<lparr>fs_status := frr_Status rr\<rparr> in
      if frr_Status rr = CIPStatus_OK
      then s1\<lparr>fs_respType := (if fs_respType s = 0 then frr_Type rr else fs_respType s),
              fs_chunk := fs_chunk s @ frr_Data rr,
              fs_offset := fs_offset s + of_nat (length (frr_Data rr))\<rparr>
      else s1)"

fun frag_update ::
  "nat list \<Rightarrow> fragReadTagResult list \<Rightarrow> frag_state list \<Rightarrow> (frag_state list \<times> nat list) res" where
  "frag_update pending [] fs = Inr (fs, [])"
| "frag_update [] (rr # rrs) fs = Inl (Panic ''index out of range'')"
| "frag_update (idx # pending) (rr # rrs) fs =
     andthen (frag_update pending rrs (fs[idx := frag_take rr (fs ! idx)])) (\<lambda>(fs', next).
       Inr (fs', if frr_Status rr = CIPStatus_PartialTransfer then idx # next else next))"

fun frag_rounds :: "nat \<Rightarrow> tagDesc list \<Rightarrow> tagIOI list \<Rightarrow> nat list \<Rightarrow> frag_state list \<Rightarrow> frag_state list cact" where
  "frag_rounds left tags iois [] fs = cret fs"
| "frag_rounds 0 tags iois (p # ps) fs = cfail (Msg ''fragmented read exceeded max continuation rounds'')"
| "frag_rounds (Suc left) tags iois (p # ps) fs =
     cbind (readListFragRound (map (\<lambda>i. tags ! i) (p # ps)) (map (\<lambda>i. iois ! i) (p # ps))
              (map (\<lambda>i. fs_offset (fs ! i)) (p # ps))) (\<lambda>rrs.
     cres (frag_update (p # ps) rrs fs) (\<lambda>(fs', next).
     frag_rounds left tags iois next fs'))"

definition frag_values :: "tagDesc list \<Rightarrow> tagIOI list \<Rightarrow> frag_state list cact" where
  "frag_values tags iois = frag_rounds 1025 tags iois [0..<length tags] (replicate (length tags) frag_init)"

text \<open>An error of decoding is stored as the value of its tag.\<close>

definition stored_value :: "goval res \<Rightarrow> goval res" where
  "stored_value r =
     (case r of
        Inl e \<Rightarrow> if is_panic e then Inl e else Inr (VErr (wrap ''problem decoding read value'' e))
      | Inr v \<Rightarrow> Inr v)"

definition decode_state :: "tagDesc \<times> tagIOI \<times> frag_state \<Rightarrow> goval res" where
  "decode_state = (\<lambda>(tag, ioi, s). decodeReadTagValue tag ioi (fs_respType s) (fs_chunk s) (fs_status s))"

definition readListFragAll :: "tagDesc list \<Rightarrow> goval list cact" where
  "readListFragAll tags =
     cbind (new_iois tags) (\<lambda>iois.
     cbind (frag_values tags iois) (\<lambda>fs.
     cres (map_res (\<lambda>x. stored_value (decode_state x)) (zip tags (zip iois fs))) cret))"

definition readListFragWithIOIsAll :: "tagDesc list \<Rightarrow> tagIOI list \<Rightarrow> goval list cact" where
  "readListFragWithIOIsAll tags iois =
     (if length tags \<noteq> length iois then cfail (Msg ''mismatched tag and IOI counts for instance-based fragmented read'')
      else cbind (frag_values tags iois) (\<lambda>fs.
        cres (map_res (\<lambda>x. attempt ''problem decoding fragmented instance read value'' (decode_state x) Inr)
          (zip tags (zip iois fs))) cret))"

section \<open>Reading a map of tags\<close>

text \<open>
  A Go map is given by its entries in the order in which the loop over it meets them, which Go
  leaves open.
\<close>

definition tag_of :: "string \<Rightarrow> goval \<Rightarrow> tagDesc" where
  "tag_of name v =
     (let (ct, elem) = GoVarToCIPType v in
      \<lparr>td_TagName = name, td_TagType = ct, td_Elements = int elem, td_Struct = v\<rparr>)"

definition read_map :: "string \<Rightarrow> (string \<times> goval) list \<Rightarrow> ((string \<times> goval) list \<times> string list) cact" where
  "read_map msg m c =
     (case checkConn c of
        (Inl e, c1) \<Rightarrow>
          if errors_Is e AutoReconnectInProgress then (Inr (m, []), c1) else (Inl (wrap msg e), c1)
      | (Inr _, c1) \<Rightarrow>
          cbind (read_batches (\<lambda>ts _. readListFragAll ts) (map (\<lambda>(k, v). tag_of k v) m) None
                   [0..<length m] (replicate (length m) VNil))
            (\<lambda>vs. cret (zip (map fst m) vs, map fst m)) c1)"

definition ReadMap :: "(string \<times> goval) list \<Rightarrow> ((string \<times> goval) list \<times> string list) cact" where
  "ReadMap m = read_map ''could not start multi read'' m"

definition ReadMapFrag :: "(string \<times> goval) list \<Rightarrow> ((string \<times> goval) list \<times> string list) cact" where
  "ReadMapFrag m = read_map ''could not start fragmented multi read'' m"

definition instance_path :: "cip_instance \<Rightarrow> goval \<Rightarrow> tagIOI" where
  "instance_path inst v = new_ioi (CHR ''@'' # itoa (unat inst)) (fst (GoVarToCIPType v)) (instanceIOIPath inst)"

definition ReadMapByInstance :: "(cip_instance \<times> goval) list \<Rightarrow> (cip_instance \<times> goval) list cact" where
  "ReadMapByInstance m =
     cwrap ''could not start instance-based multi read'' checkConn (\<lambda>_.
     cbind (read_batches (\<lambda>ts ps. readListFragWithIOIsAll ts (case ps of Some xs \<Rightarrow> xs | None \<Rightarrow> []))
              (map (\<lambda>(k, v). tag_of (CHR ''@'' # itoa (unat k)) v) m)
              (Some (map (\<lambda>(k, v). instance_path k v) m)) [0..<length m] (replicate (length m) VNil))
       (\<lambda>vs. cret (zip (map fst m) vs)))"

section \<open>The older list read\<close>

fun list_strings :: "nat \<Rightarrow> bytes \<Rightarrow> goval list res" where
  "list_strings 0 r = Inr []"
| "list_strings (Suc n) r =
     attempt ''couldn't unpack string header'' (rd32 r) (\<lambda>(l, r1).
     attempt ''couldn't unpack string data'' (read_full 82 r1) (\<lambda>(str, r2).
     if unat l > 82 then Inl (Panic ''slice bounds out of range'')
     else andthen (list_strings n r2) (\<lambda>vs. Inr (VString (of_bytes (take (unat l) str)) # vs))))"

text \<open>The value of one tag, from behind the type header of its reply.\<close>

definition list_value :: "tagDesc \<Rightarrow> tagIOI \<Rightarrow> cip_type \<Rightarrow> bytes \<Rightarrow> goval res" where
  "list_value tag ioi typ r =
     (if td_Elements tag = 1 then
        (if td_TagType tag = CIPTypeBOOL \<and> typ \<noteq> CIPTypeBOOL \<and> ioi_BitAccess ioi then
           attempt ''problem reading tag'' (readValue typ r) (\<lambda>(value, _).
             case getBit typ value (ioi_BitPosition ioi) of
               Inl e \<Rightarrow> if is_panic e then Inl e else Inr VNil
             | Inr b \<Rightarrow> Inr (VBool b))
         else if td_TagType tag = CIPTypeSTRING then
           attempt ''couldn't unpack string struct header'' (rd32 r) (\<lambda>(l, r1).
           attempt ''couldn't unpack struct data'' (read_full (unat l) r1) (\<lambda>(str, _).
           Inr (VString (of_bytes str))))
         else if typ = CIPTypeStruct then
           attempt ''couldn't unpack struct header'' (read_full 2 r) (\<lambda>(_, r1).
             if td_Struct tag = VNil then Inr (byte_slice r1)
             else attempt ''couldn't unpack struct data'' (unpack_new (typeof (td_Struct tag)) r1) (\<lambda>(v, _). Inr v))
         else attempt ''problem reading tag'' (readValue typ r) (\<lambda>(v, _). Inr v))
      else if td_Elements tag < 0 then Inl (Panic ''makeslice: len out of range'')
      else if td_TagType tag = CIPTypeSTRING
      then andthen (list_strings (nat (td_Elements tag)) r) (\<lambda>vs. Inr (VSlice TAny vs))
      else andthen (decode_elements (nat (td_Elements tag)) typ r) (\<lambda>vs. Inr (VSlice TAny vs)))"

text \<open>\<^verbatim>\<open>offset_table[i] + 10\<close> is a 16-bit sum.\<close>

definition list_entry :: "tagDesc list \<Rightarrow> tagIOI list \<Rightarrow> u16 list \<Rightarrow> bytes \<Rightarrow> nat \<Rightarrow> goval res" where
  "list_entry tags iois tbl rb i =
     (let offset = unat (tbl ! i + 10) in
      if offset > length rb then Inl (Panic ''slice bounds out of range'')
      else attempt ''problem reading multi result header'' (read_full 4 (drop offset rb)) (\<lambda>(h, r1).
        if \<not> IsResponse (fld8 0 h) then Inl (Msg ''wasn't a response service'')
        else if fld16 2 h AND 0xFF \<noteq> ucast CIPStatus_OK
        then (if i < length tags then Inr (VErr (Msg ''problem reading tag. Status'')) else Inl (Panic ''index out of range''))
        else attempt ''problem reading multi result type header'' (read_full 2 r1) (\<lambda>(th, r2).
          if i < length tags then list_value (tags ! i) (iois ! i) (fld8 0 th) r2
          else Inl (Panic ''index out of range''))))"

definition plain_entry :: "tagDesc \<Rightarrow> tagIOI \<Rightarrow> bytes" where
  "plain_entry tag ioi =
     msgCIPMultiIOIHeader CIPService_Read ioi @ ioi_Buffer ioi @ put16 (word_of_int (td_Elements tag))"

text \<open>The first entry with which the collected entries and \<^verbatim>\<open>SizeOf(h) + SizeOf(f) + 2\<close> exceed the connection size.\<close>

fun split_point :: "u16 \<Rightarrow> nat \<Rightarrow> nat \<Rightarrow> bytes list \<Rightarrow> nat option" where
  "split_point connectionSize len i [] = None"
| "split_point connectionSize len i (e # es) =
     (let len' = len + length e in
      if int len' + 2 + 2 + 2 > uint connectionSize then Some i
      else split_point connectionSize len' (i + 1) es)"

text \<open>
  Each part is read by a call of its own.  When already the first tag is too long the second part is
  the whole list again and the recursion need not end; \<open>fuel\<close> bounds its depth, and running out
  of it stands for the overflow of the stack.
\<close>

fun readList :: "nat \<Rightarrow> tagDesc list \<Rightarrow> goval list cact" where
  "readList 0 tags = cfail (Panic ''stack overflow'')"
| "readList (Suc fuel) tags =
     cbind (new_iois tags) (\<lambda>iois.
     cbind next_sequence (\<lambda>sq c.
       let entries = map (\<lambda>(tag, ioi). plain_entry tag ioi) (zip tags iois) in
       case split_point (c_ConnectionSize c) 0 0 entries of
         Some i \<Rightarrow>
           cwrap ''problem reading first part of tags'' (readList fuel (take i tags)) (\<lambda>results0.
           cwrap ''problem reading second part of tags'' (readList fuel (drop i tags)) (\<lambda>results1.
           cret (results0 @ results1))) c
       | None \<Rightarrow>
           cbind (send_unit (multi_request sq entries)) (\<lambda>(hdr, data).
           cres (multi_reply hdr data) (\<lambda>(tbl, rb).
           cres (map_res (list_entry tags iois tbl rb) [0..<length tbl]) cret)) c))"

text \<open>\<^verbatim>\<open>readListWithIOIs\<close> of \<^verbatim>\<open>read_instance.go\<close>\<close>

definition instance_entry :: "tagDesc list \<Rightarrow> tagIOI list \<Rightarrow> u16 list \<Rightarrow> bytes \<Rightarrow> nat \<Rightarrow> goval res" where
  "instance_entry tags iois tbl rb i =
     (let offset = unat (tbl ! i) + 10 in
      if offset > length rb then Inl (Panic ''slice bounds out of range'')
      else attempt ''problem reading multi result header for item'' (read_full 4 (drop offset rb)) (\<lambda>(h, r1).
        if \<not> IsResponse (fld8 0 h) then Inl (Msg ''item was not a response service'')
        else if UnResponse (fld8 0 h) \<noteq> CIPService_Read \<and> UnResponse (fld8 0 h) \<noteq> CIPService_FragRead
        then Inl (Msg ''item had unexpected service'')
        else if fld16 2 h AND 0xFF \<noteq> ucast CIPStatus_OK
        then (if i < length tags then Inr (VErr (Msg ''problem reading tag. Status'')) else Inl (Panic ''index out of range''))
        else attempt ''problem reading multi result type header for item'' (read_full 2 r1) (\<lambda>(th, payload).
          if i \<ge> length tags then Inl (Panic ''index out of range'')
          else attempt ''problem decoding value for instance''
            (decodeReadTagValue (tags ! i) (iois ! i) (fld8 0 th) payload CIPStatus_OK) Inr)))"

definition readListWithIOIs :: "tagDesc list \<Rightarrow> tagIOI list \<Rightarrow> goval list cact" where
  "readListWithIOIs tags iois =
     cbind next_sequence (\<lambda>sq c.
     cbind (send_unit (round_request (c_ConnectionSize c) sq tags iois (replicate (length tags) 0))) (\<lambda>(hdr, data).
     cres (multi_reply hdr data) (\<lambda>(tbl, rb).
     cres (map_res (instance_entry tags iois tbl rb) [0..<length tbl]) cret)) c)"

section \<open>ReadList\<close>

lemma count_loop_bounds:
  assumes "count_loop footer i tags iois p r n c = (Inr k, c')" "n \<le> i \<or> n = 1"
  shows "n \<le> k \<and> (k = n \<or> k \<le> i + length tags)"
  using assms
proof (induction tags arbitrary: i p r n c)
  case (Cons tag tags)
  from Cons.prems(1) obtain p' r' c1 where
    "count_loop footer (i + 1) tags iois p' r' (i + 1) c1 = (Inr k, c') \<or> k = n"
    by (auto simp: cbind_Inr Let_def split: if_splits)
  with Cons.IH[of "i + 1" p' r' "i + 1" c1] Cons.prems(2) show ?case by auto
qed (simp add: cret_Inr)

lemma countIOIsThatFit_bounds:
  "countIOIsThatFit tags c = (Inr k, c') \<Longrightarrow> 1 \<le> k \<and> (tags \<noteq> [] \<longrightarrow> k \<le> length tags)"
  using count_loop_bounds[of "\<lambda>_ _. 2" 0 tags None 0 0 1 c k c']
  by (cases tags) (auto simp: countIOIsThatFit_def)

text \<open>The loop: as many tags as fit, then the rest.\<close>

function read_prefixes :: "nat \<Rightarrow> tagDesc list \<Rightarrow> goval list \<Rightarrow> goval list cact" where
  "read_prefixes fuel tags results c =
     (if tags = [] then (Inr results, c)
      else cbind (countIOIsThatFit tags) (\<lambda>n c.
        cbind (readList fuel (take n tags)) (\<lambda>subresults c.
          read_prefixes fuel (drop n tags) (results @ subresults) c) c) c)"
  by pat_completeness auto
termination
  by (relation "measure (\<lambda>(_, tags, _, _). length tags)") (auto dest: countIOIsThatFit_bounds)

declare read_prefixes.simps [simp del]

definition list_tags :: "string list \<Rightarrow> goval list \<Rightarrow> int list \<Rightarrow> tagDesc list res" where
  "list_tags tagnames types elements =
     (if length types < length tagnames \<or> length elements < length tagnames
      then Inl (Panic ''index out of range'')
      else Inr (map (\<lambda>(name, v, n).
        \<lparr>td_TagName = name, td_TagType = fst (GoVarToCIPType v), td_Elements = n, td_Struct = v\<rparr>)
        (zip tagnames (zip types elements))))"

definition ReadList :: "nat \<Rightarrow> string list \<Rightarrow> goval list \<Rightarrow> int list \<Rightarrow> goval list cact" where
  "ReadList fuel tagnames types elements =
     cwrap ''could not start list read'' checkConn (\<lambda>_.
     cres (list_tags tagnames types elements) (\<lambda>tags. read_prefixes fuel tags []))"

section \<open>ReadMulti\<close>

text \<open>\<^verbatim>\<open>strings.ReplaceAll\<close> for a non-empty \<open>old\<close>, and \<^verbatim>\<open>formatName\<close> of \<^verbatim>\<open>taggroup.go\<close>
  for arguments given by their \<^verbatim>\<open>%v\<close> form.\<close>

function replace_all :: "string \<Rightarrow> string \<Rightarrow> string \<Rightarrow> string" where
  "replace_all old new s =
     (if old = [] then s
      else case s of [] \<Rightarrow> []
        | x # xs \<Rightarrow> if take (length old) s = old then new @ replace_all old new (drop (length old) s)
                    else x # replace_all old new xs)"
  by pat_completeness auto
termination
  by (relation "measure (\<lambda>(_, _, s). length s)") auto

declare replace_all.simps [simp del]

definition formatName :: "string \<Rightarrow> string list \<Rightarrow> string" where
  "formatName template args =
     foldl (\<lambda>s (i, arg). replace_all (CHR ''{'' # itoa i @ [CHR ''}'']) arg s) template (zip [0..<length args] args)"

text \<open>The tagged fields: their index in the struct and the path to read.\<close>

definition tagged_fields :: "string list \<Rightarrow> (gofield \<times> goval) list \<Rightarrow> (nat \<times> tagDesc) list" where
  "tagged_fields args fs =
     concat (map (\<lambda>(i, f, v).
       case gologix_tag f of
         None \<Rightarrow> []
       | Some t \<Rightarrow> if t = [] then [] else [(i, tag_of (formatName t args) v)]) (zip [0..<length fs] fs))"

text \<open>\<^verbatim>\<open>fieldVal.Set(reflect.ValueOf(val))\<close>: a value of another type panics.\<close>

definition reflect_set :: "gotype \<Rightarrow> goval \<Rightarrow> goval res" where
  "reflect_set t v =
     (if v \<noteq> VNil \<and> typeof v = t then Inr v else Inl (Panic ''reflect.Set: value is not assignable to type''))"

definition set_field :: "goval \<Rightarrow> goval \<Rightarrow> goval res" where
  "set_field old val =
     (case old of
        VSlice t vs \<Rightarrow>
          if vs = [] then Inr old
          else (case val of
              VSlice t' xs \<Rightarrow>
                if t' \<noteq> TAny \<or> length xs < length vs then Inl (Panic ''reflect: slice index out of range'')
                else andthen (map_res (reflect_set t) (take (length vs) xs)) (\<lambda>ys. Inr (VSlice t ys))
            | _ \<Rightarrow> Inl (Panic ''reflect: call of reflect.Value.Index''))
      | _ \<Rightarrow> reflect_set (typeof old) val)"

fun set_fields :: "(nat \<times> tagDesc) list \<Rightarrow> (string \<Rightarrow> nat option) \<Rightarrow> goval list \<Rightarrow> (gofield \<times> goval) list
  \<Rightarrow> (gofield \<times> goval) list res" where
  "set_fields [] tag_map vals fs = Inr fs"
| "set_fields ((_, tag) # tags) tag_map vals fs =
     (case vals of
        [] \<Rightarrow> Inl (Panic ''index out of range'')
      | val # vals' \<Rightarrow>
          (case tag_map (td_TagName tag) of
             None \<Rightarrow> Inl (Panic ''no such field'')
           | Some k \<Rightarrow>
               andthen (set_field (snd (fs ! k)) val) (\<lambda>v. set_fields tags tag_map vals' (fs[k := (fst (fs ! k), v)]))))"

definition ReadMulti :: "nat \<Rightarrow> (gofield \<times> goval) list \<Rightarrow> string list \<Rightarrow> (gofield \<times> goval) list cact" where
  "ReadMulti fuel fs args =
     cwrap ''could not start multi read'' checkConn (\<lambda>_.
       let tags = tagged_fields args fs in
     cwrap ''problem in read list'' (readList fuel (map snd tags)) (\<lambda>vals.
     cres (set_fields tags (map_of (rev (map (\<lambda>(i, t). (td_TagName t, i)) tags))) vals fs) cret))"

end
