(* ===== verification/ReadList_Replies.thy ===== *)
theory ReadList_Replies
  imports Client_ReadList
begin

text \<open>
  What the reads of many tags make of the controller's replies: a packet of replies laid out as the
  protocol has it is taken apart into its entries, every tag gets the value of its own entry, and
  what becomes of entries that report a partial transfer or an error.
\<close>

section \<open>A packet of replies\<close>

definition multi_body :: "u16 \<Rightarrow> u16 \<Rightarrow> bytes list \<Rightarrow> bytes" where
  "multi_body sq status entries =
     put16 sq @ [0x8A, 0] @ put16 status @ put16 (of_nat (length entries))
       @ concat (map put16 (jumpTable (2 + length entries * 2) entries)) @ concat entries"

text \<open>One entry: service, status and, when there is data, its type.\<close>

definition reply_entry :: "cip_service \<Rightarrow> cip_status \<Rightarrow> cip_type \<Rightarrow> bytes \<Rightarrow> bytes \<Rightarrow> bytes" where
  "reply_entry svc status typ info d =
     [AsResponse svc, 0, status, 0, typ, of_nat (length info)] @ info @ d"

definition error_entry :: "cip_service \<Rightarrow> cip_status \<Rightarrow> bytes" where
  "error_entry svc status = [AsResponse svc, 0, status, 0]"

abbreviation item_at :: "bytes \<Rightarrow> nat \<Rightarrow> CIPItem" where
  "item_at b k \<equiv> (item_Write b (empty_item cipItem_ConnectedData))\<lparr>Pos := int k\<rparr>"

lemma item_at_stream:
  assumes "k \<le> length b"
  shows "pos_ok (item_at b k)" "unread (item_at b k) = drop k b"
  using assms by (simp_all add: pos_ok_def unread_def)

lemma item_get_at:
  assumes "k + n \<le> length b" "0 < n"
  shows "item_get n (item_at b k) = Inr (take n (drop k b), item_at b (k + n))"
  using assms by (simp add: item_get_stream item_at_stream)

lemma item_ReadFull_at:
  assumes "k + n \<le> length b"
  shows "item_ReadFull n (item_at b k) = Inr (take n (drop k b), item_at b (k + n))"
proof -
  have "read_full n (drop k b) = Inr (take n (drop k b), drop (k + n) b)"
    using assms by (auto simp: read_full_def drop_drop add.commute)
  then show ?thesis using assms by (simp add: item_ReadFull_stream item_at_stream)
qed

lemma fld16_table:
  "i < length ws \<Longrightarrow> fld16 (2 * i) (concat (map put16 ws)) = ws ! i"
  using drop_put16s[of i ws "[]"] by (simp add: fld16_def flip: Cons_nth_drop_Suc)

lemma multi_reply_body:
  assumes "eh_Status hdr = 0" "status \<in> {0, 0x1E}" "length (multi_body sq status entries) < 65536"
  shows "\<exists>h. length h = 4 \<and> multi_reply hdr (connected_reply i (multi_body sq status entries))
    = Inr (jumpTable (2 + length entries * 2) entries, h @ multi_body sq status entries)"
proof -
  let ?b = "multi_body sq status entries" and ?jt = "jumpTable (2 + length entries * 2) entries"
  let ?n = "length entries"
  have len: "length ?b = 8 + 2 * ?n + length (concat entries)" by (simp add: multi_body_def)
  have n: "unat (of_nat ?n :: u16) = ?n" using assms(3) len by (intro unat_u16_of_nat) simp
  have tbl: "take (2 * ?n) (drop 8 ?b) = concat (map put16 ?jt)"
    by (simp add: multi_body_def)
  have st: "take 2 (drop 4 ?b) = put16 status" and cn: "take 2 (drop 6 ?b) = put16 (of_nat ?n)"
    by (simp_all add: multi_body_def)
  have items: "reply_items (connected_reply i ?b) = Inr [item_Write (put32 i) (empty_item cipItem_ConnectionAddress), item_at ?b 0]"
    using reply_items_connected[OF assms(3), of i] by (simp add: item_Write_def empty_item_def)
  have steps: "item_Uint16 (item_at ?b 0) = Inr (get16 (take 2 ?b), item_at ?b 2)"
    "item_Byte (item_at ?b 2) = Inr (hd (take 1 (drop 2 ?b)), item_at ?b 3)"
    "item_Byte (item_at ?b 3) = Inr (hd (take 1 (drop 3 ?b)), item_at ?b 4)"
    "item_Uint16 (item_at ?b 4) = Inr (status, item_at ?b 6)"
    "item_Uint16 (item_at ?b 6) = Inr (of_nat ?n, item_at ?b 8)"
    using item_get_at[of 0 2 ?b] item_get_at[of 2 1 ?b] item_get_at[of 3 1 ?b] item_get_at[of 4 2 ?b]
      item_get_at[of 6 2 ?b] len st cn by (simp_all add: item_Uint16_def item_Byte_def)
  have full: "item_ReadFull (2 * ?n) (item_at ?b 8) = Inr (concat (map put16 ?jt), item_at ?b (8 + 2 * ?n))"
    using item_ReadFull_at[of 8 "2 * ?n" ?b] len tbl by simp
  have words: "map (\<lambda>i. fld16 (2 * i) (concat (map put16 ?jt))) [0..<?n] = ?jt"
    by (rule nth_equalityI) (simp_all add: fld16_table)
  have "multi_reply hdr (connected_reply i ?b) = Inr (?jt, item_Bytes (item_at ?b (8 + 2 * ?n)))"
    unfolding multi_reply_def items using assms(1,2) steps full words n by auto
  moreover have "item_Bytes (item_at ?b (8 + 2 * ?n)) = (put16 cipItem_ConnectedData @ put16 (of_nat (length ?b))) @ ?b"
    by (simp add: item_Bytes_def item_Write_def empty_item_def)
  ultimately show ?thesis by (intro exI[of _ "put16 cipItem_ConnectedData @ put16 (of_nat (length ?b))"]) simp
qed

lemma unat_jump_table:
  assumes "i < length es" "2 + length es * 2 + length (concat es) < 65536"
  shows "unat (jumpTable (2 + length es * 2) es ! i) = 2 + length es * 2 + length (concat (take i es))"
proof -
  have "length (concat (take i es)) \<le> length (concat es)"
    by (metis append_take_drop_id concat_append le_add1 length_append)
  then show ?thesis
    using assms by (simp only: jump_table_nth unat_u16_of_nat)
qed

lemma length_concat_split:
  assumes "i < length es"
  shows "length (concat es) = length (concat (take i es)) + length (es ! i) + length (concat (drop (i + 1) es))"
proof -
  have "concat es = concat (take i es) @ concat (drop i es)" by (metis append_take_drop_id concat_append)
  then show ?thesis using assms by (simp flip: Cons_nth_drop_Suc)
qed

lemma length_concat_take_Suc:
  "i < length es \<Longrightarrow> length (concat (take (Suc i) es)) = length (concat (take i es)) + length (es ! i)"
  by (simp add: take_Suc_conv_app_nth)

text \<open>The boundaries \<^verbatim>\<open>readListFragRound\<close> computes for an entry are the entry's.\<close>

lemma frag_entry_body:
  assumes "i < length es" "length (multi_body sq status es) < 65536" "length h = 4"
  shows "frag_entry tags (jumpTable (2 + length es * 2) es) (h @ multi_body sq status es) i
    = entry_result tags i (es ! i)"
proof -
  let ?jt = "jumpTable (2 + length es * 2) es" and ?rb = "h @ multi_body sq status es"
  let ?pre = "\<lambda>i. length (concat (take i es))"
  have len: "length ?rb = 12 + length es * 2 + length (concat es)" and small: "2 + length es * 2 + length (concat es) < 65536"
    using assms(2,3) by (simp_all add: multi_body_def)
  note off = unat_jump_table[OF _ small]
  let ?start = "12 + length es * 2 + ?pre i"
  have start: "unat (?jt ! i) + 10 = ?start" using off[OF assms(1)] by simp
  have drop: "drop ?start ?rb = es ! i @ concat (drop (i + 1) es)"
  proof -
    obtain x where x: "?rb = x @ concat es" "length x = 12 + length es * 2"
      using assms(3) by (simp add: multi_body_def)
    then have "drop ?start ?rb = drop (?pre i) (concat es)" by simp
    then show ?thesis using drop_concat_take[OF assms(1)] by simp
  qed
  have stop: "(if i + 1 < length ?jt then unat (?jt ! (i + 1)) + 10 else length ?rb) = ?start + length (es ! i)"
  proof (cases "i + 1 < length es")
    case True
    then show ?thesis using off[OF True] length_concat_take_Suc[OF assms(1)] by simp
  next
    case False
    then show ?thesis using length_concat_split[OF assms(1)] len by simp
  qed
  have "?start + length (es ! i) \<le> length ?rb" using length_concat_split[OF assms(1)] len by simp
  then show ?thesis unfolding frag_entry_def Let_def start stop using drop by simp
qed

lemma map_res_cong: "(\<And>x. x \<in> set xs \<Longrightarrow> f x = g x) \<Longrightarrow> map_res f xs = map_res g xs"
  by (induction xs) auto

lemma map_res_Inr: "(\<And>x. x \<in> set xs \<Longrightarrow> f x = Inr (g x)) \<Longrightarrow> map_res f xs = Inr (map g xs)"
  by (induction xs) auto

lemma map_res_length: "map_res f xs = Inr ys \<Longrightarrow> length ys = length xs"
  by (induction xs arbitrary: ys) (auto simp: andthen_Inr_iff)

lemma map_res_nth: "map_res f xs = Inr ys \<Longrightarrow> i < length xs \<Longrightarrow> f (xs ! i) = Inr (ys ! i)"
  by (induction xs arbitrary: ys i) (auto simp: andthen_Inr_iff nth_Cons split: nat.splits)

section \<open>Entries\<close>

lemma response_bit: "svc \<in> {CIPService_Read, CIPService_FragRead} \<Longrightarrow>
    IsResponse (AsResponse svc) \<and> UnResponse (AsResponse svc) = svc"
  by (auto simp: IsResponse_def AsResponse_def UnResponse_def)

lemma entry_status: "ucast (get16 [status, 0] AND 0xFF) = (status :: cip_status)"
proof -
  have "get16 [status, 0] = ucast status" by (simp add: get16_def)
  moreover have "(ucast status AND 0xFF :: u16) = take_bit 8 (ucast status)"
    by (simp add: take_bit_eq_mask mask_eq_exp_minus_1)
  ultimately show ?thesis by (simp add: unsigned_take_bit_eq) (auto intro!: bit_word_eqI simp: bit_simps)
qed

lemma entry_result_ok:
  assumes "svc \<in> {CIPService_Read, CIPService_FragRead}" "length info = 0 \<or> length info = 2"
    and "status = CIPStatus_OK \<or> svc = CIPService_FragRead \<and> status = CIPStatus_PartialTransfer"
  shows "entry_result tags i (reply_entry svc status typ info d)
    = Inr \<lparr>frr_Status = status, frr_Type = typ, frr_Data = d\<rparr>"
proof -
  have "read_full 2 (typ # of_nat (length info) # info @ d) = Inr ([typ, of_nat (length info)], info @ d)"
    using read_full_append[of "[typ, of_nat (length info)]" 2] by simp
  moreover have "(if of_nat (length info) \<noteq> (0 :: u8) then read_full 2 (info @ d) else Inr ([], info @ d)) = Inr (info, d)"
    using assms(2) by auto
  ultimately show ?thesis
    using response_bit[OF assms(1)] assms(1,3)
    by (auto simp: entry_result_def reply_entry_def fld8_def fld16_def entry_status Let_def)
qed

lemma entry_result_error:
  assumes "svc \<in> {CIPService_Read, CIPService_FragRead}" "status \<noteq> CIPStatus_OK"
    and "svc = CIPService_FragRead \<longrightarrow> status \<noteq> CIPStatus_PartialTransfer"
  shows "entry_result tags i (error_entry svc status @ x)
    = Inr \<lparr>frr_Status = status, frr_Type = 0, frr_Data = []\<rparr>"
  using response_bit[OF assms(1)] assms
  by (auto simp: entry_result_def error_entry_def fld8_def fld16_def entry_status Let_def)

section \<open>One round\<close>

text \<open>The controller's answer to a round: the frame with this packet of replies is the next thing read.\<close>

definition answers :: "Client \<Rightarrow> eipHeader \<Rightarrow> u32 \<Rightarrow> u16 \<Rightarrow> u16 \<Rightarrow> bytes list \<Rightarrow> bytes option list \<Rightarrow> bool" where
  "answers c hdr i sq status es s \<longleftrightarrow>
     c_conn c \<and> c_socket c = [] \<and> eh_Status hdr = 0 \<and> status \<in> {0, 0x1E} \<and> length (multi_body sq status es) < 65516 \<and>
     c_script c = Some (eip_frame hdr (connected_reply i (multi_body sq status es))) # s"

lemma round_answered:
  assumes "answers c hdr i sq status es s"
  obtains c' where
    "readListFragRound tags iois offsets c = (map_res (\<lambda>i. entry_result tags i (es ! i)) [0..<length es], c')"
    "c_conn c'" "c_socket c' = []" "c_script c' = s"
proof -
  let ?b = "multi_body sq status es"
  let ?c1 = "c\<lparr>c_sequenceValue := snd (sequencer (c_sequenceValue c))\<rparr>"
  let ?sq = "ucast (fst (sequencer (c_sequenceValue c))) :: u16"
  let ?it = "round_request (c_ConnectionSize c) ?sq tags iois offsets"
  have a: "c_conn ?c1" "c_socket ?c1 = []" "c_script ?c1 = Some (eip_frame hdr (connected_reply i ?b)) # s"
    "length (connected_reply i ?b) < 65536"
    using assms by (simp_all add: answers_def length_connected_reply)
  note sent = send_unit_answered[OF a, of ?it]
  obtain h where h: "length h = 4"
    "multi_reply (hdr\<lparr>eh_Length := of_nat (length (connected_reply i ?b))\<rparr>) (connected_reply i ?b)
      = Inr (jumpTable (2 + length es * 2) es, h @ ?b)"
    using multi_reply_body[of "hdr\<lparr>eh_Length := of_nat (length (connected_reply i ?b))\<rparr>" status sq es i] assms
    by (auto simp: answers_def)
  have "map_res (frag_entry tags (jumpTable (2 + length es * 2) es) (h @ ?b)) [0..<length es]
      = map_res (\<lambda>i. entry_result tags i (es ! i)) [0..<length es]"
    using assms h(1) by (intro map_res_cong frag_entry_body) (auto simp: answers_def)
  then have "readListFragRound tags iois offsets c = (map_res (\<lambda>i. entry_result tags i (es ! i)) [0..<length es],
      ?c1\<lparr>c_HeaderSequenceCounter := c_HeaderSequenceCounter ?c1 + 1, c_script := s, c_sent := c_sent ?c1 @ [unit_request ?c1 ?it]\<rparr>)"
    using sent h(2) by (simp add: readListFragRound_def next_sequence_def cbind_def split_beta)
  from that[OF this] a show ?thesis by simp
qed

section \<open>Every tag gets the value of its own reply\<close>

text \<open>A complete answer for one tag: a value, or an error status.\<close>

record answer =
  an_Service :: cip_service
  an_Status :: cip_status
  an_Type :: cip_type
  an_Info :: bytes
  an_Data :: bytes

definition answer_ok :: "answer \<Rightarrow> bool" where
  "answer_ok a \<longleftrightarrow> an_Service a \<in> {CIPService_Read, CIPService_FragRead} \<and> length (an_Info a) \<in> {0, 2}
     \<and> an_Status a \<noteq> CIPStatus_PartialTransfer"

definition answer_bytes :: "answer \<Rightarrow> bytes" where
  "answer_bytes a =
     (if an_Status a = CIPStatus_OK
      then reply_entry (an_Service a) CIPStatus_OK (an_Type a) (an_Info a) (an_Data a)
      else error_entry (an_Service a) (an_Status a))"

definition answer_result :: "answer \<Rightarrow> fragReadTagResult" where
  "answer_result a =
     (if an_Status a = CIPStatus_OK
      then \<lparr>frr_Status = CIPStatus_OK, frr_Type = an_Type a, frr_Data = an_Data a\<rparr>
      else \<lparr>frr_Status = an_Status a, frr_Type = 0, frr_Data = []\<rparr>)"

lemma entry_result_answer:
  "answer_ok a \<Longrightarrow> entry_result tags i (answer_bytes a) = Inr (answer_result a)"
  using entry_result_error[of "an_Service a" "an_Status a" tags i "[]"]
    entry_result_ok[of "an_Service a" "an_Info a" CIPStatus_OK tags i "an_Type a" "an_Data a"]
  by (auto simp: answer_ok_def answer_bytes_def answer_result_def)

lemma frag_update_complete:
  assumes "\<forall>rr\<in>set rrs. frr_Status rr \<noteq> CIPStatus_PartialTransfer"
  shows "frag_update [length xs..<length xs + length rrs] rrs (xs @ replicate (length rrs) frag_init)
    = Inr (xs @ map (\<lambda>rr. frag_take rr frag_init) rrs, [])"
  using assms
proof (induction rrs arbitrary: xs)
  case (Cons rr rrs)
  have "[length xs..<length xs + length (rr # rrs)] = length xs # [length (xs @ [frag_take rr frag_init])..<length (xs @ [frag_take rr frag_init]) + length rrs]"
    using upt_conv_Cons[of "length xs" "length xs + Suc (length rrs)"] by simp
  then show ?case using Cons.IH[of "xs @ [frag_take rr frag_init]"] Cons.prems by (simp add: list_update_append)
qed simp

lemma decode_answer:
  "answer_ok a \<Longrightarrow> decode_state (tag, ioi, frag_take (answer_result a) frag_init)
    = decodeReadTagValue tag ioi (an_Type a) (an_Data a) (an_Status a)"
  by (auto simp: decode_state_def frag_take_def answer_result_def frag_init_def decodeReadTagValue_def)

lemma frag_rounds_step:
  "pending \<noteq> [] \<Longrightarrow> frag_rounds (Suc left) tags iois pending fs =
     cbind (readListFragRound (map (\<lambda>i. tags ! i) pending) (map (\<lambda>i. iois ! i) pending)
              (map (\<lambda>i. fs_offset (fs ! i)) pending)) (\<lambda>rrs.
     cres (frag_update pending rrs fs) (\<lambda>(fs', next). frag_rounds left tags iois next fs'))"
  by (cases pending) simp_all

lemma frag_values_complete:
  assumes "answers c hdr i sq status (map answer_bytes as) s" "list_all answer_ok as" "length as = length tags"
    and "tags \<noteq> []"
  obtains c' where "frag_values tags iois c = (Inr (map (\<lambda>a. frag_take (answer_result a) frag_init) as), c')"
proof -
  let ?p = "[0..<length tags]"
  let ?tags = "map (\<lambda>i. tags ! i) ?p" and ?iois = "map (\<lambda>i. iois ! i) ?p"
  let ?fs = "replicate (length tags) frag_init"
  let ?offs = "map (\<lambda>i. fs_offset (?fs ! i)) ?p"
  let ?taken = "map (\<lambda>a. frag_take (answer_result a) frag_init) as"
  obtain c' where r: "readListFragRound ?tags ?iois ?offs c
      = (map_res (\<lambda>i. entry_result ?tags i (map answer_bytes as ! i)) [0..<length (map answer_bytes as)], c')"
    by (rule round_answered[OF assms(1), where tags = ?tags and iois = ?iois and offsets = ?offs])
  have "map_res (\<lambda>i. entry_result ?tags i (map answer_bytes as ! i)) [0..<length (map answer_bytes as)]
      = Inr (map (\<lambda>i. answer_result (as ! i)) [0..<length (map answer_bytes as)])"
  proof (rule map_res_Inr)
    fix i assume "i \<in> set [0..<length (map answer_bytes as)]"
    then have "i < length as" "answer_ok (as ! i)" using assms(2) by (auto simp: list_all_length)
    then show "entry_result ?tags i (map answer_bytes as ! i) = Inr (answer_result (as ! i))"
      by (simp only: nth_map entry_result_answer)
  qed
  also have "map (\<lambda>i. answer_result (as ! i)) [0..<length (map answer_bytes as)] = map answer_result as"
    by (rule nth_equalityI) simp_all
  finally have r': "readListFragRound ?tags ?iois ?offs c = (Inr (map answer_result as), c')" using r by simp
  have "\<forall>rr\<in>set (map answer_result as). frr_Status rr \<noteq> CIPStatus_PartialTransfer"
    using assms(2) by (auto simp: list_all_iff answer_result_def answer_ok_def)
  from frag_update_complete[OF this, of "[]"]
  have u: "frag_update ?p (map answer_result as) ?fs = Inr (?taken, [])"
    using assms(3) by (simp add: comp_def)
  have "frag_rounds (Suc left) tags iois ?p ?fs c = (Inr ?taken, c')" for left
  proof -
    have "?p \<noteq> []" using assms(4) by simp
    from frag_rounds_step[OF this, of left tags iois ?fs] show ?thesis
      by (simp only: cbind_def r' u prod.case sum.case cact_simps) (simp add: cret_def)
  qed
  from this[of 1024] have "frag_values tags iois c = (Inr ?taken, c')" by (simp add: frag_values_def)
  then show ?thesis by (rule that)
qed

lemma readListFragAll_complete:
  assumes "new_iois tags c = (Inr iois, c1)" "length iois = length tags" "tags \<noteq> []"
    and "answers c1 hdr i sq status (map answer_bytes as) s" "list_all answer_ok as" "length as = length tags"
  shows "\<exists>c'. readListFragAll tags c =
    (map_res (\<lambda>(tag, ioi, a). stored_value (decodeReadTagValue tag ioi (an_Type a) (an_Data a) (an_Status a)))
      (zip tags (zip iois as)), c')"
proof -
  obtain c2 where "frag_values tags iois c1 = (Inr (map (\<lambda>a. frag_take (answer_result a) frag_init) as), c2)"
    using frag_values_complete[OF assms(4-6,3)] by blast
  then have r: "readListFragAll tags c = (map_res (\<lambda>x. stored_value (decode_state x))
      (zip tags (zip iois (map (\<lambda>a. frag_take (answer_result a) frag_init) as))), c2)"
    using assms(1) by (simp add: readListFragAll_def cbind_def)
  have "zip tags (zip iois (map (\<lambda>a. frag_take (answer_result a) frag_init) as))
      = map (\<lambda>(tag, ioi, a). (tag, ioi, frag_take (answer_result a) frag_init)) (zip tags (zip iois as))"
    by (simp add: zip_map2 comp_def split_beta)
  also have "map_res (\<lambda>x. stored_value (decode_state x)) \<dots>
      = map_res (\<lambda>(tag, ioi, a). stored_value (decodeReadTagValue tag ioi (an_Type a) (an_Data a) (an_Status a)))
        (zip tags (zip iois as))"
  proof -
    have m: "map_res f (map g xs) = map_res (\<lambda>x. f (g x)) xs" for f :: "tagDesc \<times> tagIOI \<times> frag_state \<Rightarrow> goval res" and g xs
      by (induction xs) simp_all
    have "answer_ok a" if "(tag, ioi, a) \<in> set (zip tags (zip iois as))" for tag ioi a
      using that assms(5) by (auto simp: list_all_iff dest!: set_zip_rightD)
    then show ?thesis unfolding m by (intro map_res_cong) (auto simp: decode_answer)
  qed
  finally show ?thesis using r by simp
qed

text \<open>
  C14. A read of several tags whose packet is answered completely gives each tag the value decoded
  from its own reply, whatever the types and lengths of the others: the result is, tag by tag, what
  \<^verbatim>\<open>decodeReadTagValue\<close> makes of the type and data the controller sent for it, and an
  error value where the controller refused the tag.
\<close>

theorem multi_read_decodes_replies:
  assumes "new_iois tags c = (Inr iois, c1)" "length iois = length tags" "tags \<noteq> []"
    and "answers c1 hdr i sq status (map answer_bytes as) s" "list_all answer_ok as" "length as = length tags"
  shows "fst (readListFragAll tags c) =
    map_res (\<lambda>(tag, ioi, a). stored_value (decodeReadTagValue tag ioi (an_Type a) (an_Data a) (an_Status a)))
      (zip tags (zip iois as))"
  using readListFragAll_complete[OF assms] by auto

definition demo_answers :: "answer list" where
  "demo_answers =
     [\<lparr>an_Service = CIPService_Read, an_Status = CIPStatus_OK, an_Type = CIPTypeDINT, an_Info = [], an_Data = [5, 0, 0, 0]\<rparr>,
      \<lparr>an_Service = CIPService_FragRead, an_Status = CIPStatus_PathDestinationUnknown, an_Type = 0, an_Info = [], an_Data = []\<rparr>]"

definition demo_multi_client :: Client where
  "demo_multi_client = demo_batch_client
     [Some (eip_frame demo_reply_header (connected_reply 9 (multi_body 1 0x1E (map answer_bytes demo_answers))))]"

lemma demo_multi_paths: "new_iois demo_batch demo_multi_client = (Inr [demo_path, demo_path], demo_multi_client)"
  by (simp add: demo_batch_def demo_multi_client_def demo_batch_paths cbind_def cret_def)

lemma demo_multi_answers:
  "answers demo_multi_client demo_reply_header 9 1 0x1E (map answer_bytes demo_answers) []"
  by (simp add: answers_def demo_multi_client_def demo_batch_client_def demo_client_def demo_reply_header_def
      multi_body_def demo_answers_def answer_bytes_def reply_entry_def error_entry_def)

lemma demo_multi_shape:
  "length [demo_path, demo_path] = length demo_batch" "demo_batch \<noteq> []"
  "list_all answer_ok demo_answers" "length demo_answers = length demo_batch"
  by (simp_all add: demo_batch_def demo_answers_def answer_ok_def)

lemma demo_multi_values:
  "map_res (\<lambda>(tag, ioi, a). stored_value (decodeReadTagValue tag ioi (an_Type a) (an_Data a) (an_Status a)))
      (zip demo_batch (zip [demo_path, demo_path] demo_answers))
    = Inr [VInt32 5, VErr (Msg ''tag read failed with status'')]"
  by (simp add: demo_batch_def demo_answers_def stored_value_def decodeReadTagValue_def demo_path_def new_ioi_def
      readValue_def readValue_type_def binary_read_def read_full_def get_eval)

theorem multi_read_decodes_replies_witness:
  "fst (readListFragAll demo_batch demo_multi_client)
    = Inr [VInt32 5, VErr (Msg ''tag read failed with status'')]"
  using multi_read_decodes_replies[OF demo_multi_paths demo_multi_shape(1,2) demo_multi_answers demo_multi_shape(3,4)]
  by (simp only: demo_multi_values)

section \<open>Every entry of a map is read once\<close>

text \<open>The values a tag may get: what decoding some reply for it gives, errors stored as values.\<close>

definition read_value :: "tagDesc \<Rightarrow> goval \<Rightarrow> bool" where
  "read_value tag v \<longleftrightarrow> (\<exists>ioi typ d status. stored_value (decodeReadTagValue tag ioi typ d status) = Inr v)"

lemma read_valueI: "decodeReadTagValue tag ioi typ d status = Inr v \<Longrightarrow> read_value tag v"
  unfolding read_value_def stored_value_def by (intro exI[of _ ioi] exI[of _ "typ"] exI[of _ d] exI[of _ status]) simp

lemma frag_update_length: "frag_update pending rrs fs = Inr (fs', next) \<Longrightarrow> length fs' = length fs"
  by (induction pending rrs fs arbitrary: fs' "next" rule: frag_update.induct) (auto simp: andthen_Inr_iff)

lemma frag_rounds_length: "frag_rounds left tags iois pending fs c = (Inr fs', c') \<Longrightarrow> length fs' = length fs"
  by (induction left tags iois pending fs arbitrary: c rule: frag_rounds.induct)
    (auto simp: cret_Inr cbind_Inr cres_Inr cfail_Inr dest: frag_update_length split: prod.splits)

lemma new_iois_length: "new_iois tags c = (Inr iois, c') \<Longrightarrow> length iois = length tags"
  by (induction tags arbitrary: c iois) (auto simp: cret_Inr cbind_Inr)

lemma decoded_each:
  assumes "map_res f (zip tags (zip iois fs)) = Inr vs" "length iois = length tags" "length fs = length tags"
    and "\<And>tag ioi s v. f (tag, ioi, s) = Inr v \<Longrightarrow> read_value tag v"
  shows "list_all2 read_value tags vs"
proof (rule list_all2_all_nthI)
  show l: "length tags = length vs" using map_res_length[OF assms(1)] assms(2,3) by simp
  fix i assume "i < length tags"
  with map_res_nth[OF assms(1), of i] assms(2,3) show "read_value (tags ! i) (vs ! i)"
    by (auto intro: assms(4))
qed

interpretation map_reader: batch_reader "\<lambda>ts _. readListFragAll ts" read_value
proof
  fix ts :: "tagDesc list" and ps :: "tagIOI list option" and c vs c'
  assume "readListFragAll ts c = (Inr vs, c')"
  then obtain iois c1 fs c2 where iois: "new_iois ts c = (Inr iois, c1)" and fs: "frag_values ts iois c1 = (Inr fs, c2)"
    and vs: "map_res (\<lambda>x. stored_value (decode_state x)) (zip ts (zip iois fs)) = Inr vs"
    by (auto simp: readListFragAll_def cbind_Inr cres_Inr cret_Inr)
  have "length iois = length ts" using iois by (rule new_iois_length)
  moreover have "length fs = length ts" using fs by (auto simp: frag_values_def dest: frag_rounds_length)
  ultimately show "list_all2 read_value ts vs"
    by (rule decoded_each[OF vs]) (auto simp: read_value_def decode_state_def)
qed

interpretation instance_reader:
  batch_reader "\<lambda>ts ps. readListFragWithIOIsAll ts (case ps of Some xs \<Rightarrow> xs | None \<Rightarrow> [])" read_value
proof
  fix ts :: "tagDesc list" and ps :: "tagIOI list option" and c vs c'
  let ?iois = "case ps of Some xs \<Rightarrow> xs | None \<Rightarrow> []"
  assume "readListFragWithIOIsAll ts ?iois c = (Inr vs, c')"
  then obtain fs c2 where len: "length ?iois = length ts" and fs: "frag_values ts ?iois c = (Inr fs, c2)"
    and vs: "map_res (\<lambda>x. attempt ''problem decoding fragmented instance read value'' (decode_state x) Inr)
      (zip ts (zip ?iois fs)) = Inr vs"
    by (auto simp: readListFragWithIOIsAll_def cbind_Inr cres_Inr cret_Inr cfail_Inr split: if_splits)
  have "length fs = length ts" using fs by (auto simp: frag_values_def dest: frag_rounds_length)
  with len show "list_all2 read_value ts vs"
    by (rule decoded_each[OF vs]) (auto simp: decode_state_def attempt_Inr_iff intro: read_valueI)
qed


definition demo_map :: "(string \<times> goval) list" where
  "demo_map = [(''abc'', VInt32 0), (''De'', VSlice TInt16 (replicate 7 (VInt16 0)))]"

lemma demo_map_read:
  "\<exists>c'. ReadMap demo_map demo_multi_client
    = (Inr (zip [''abc'', ''De''] [VInt32 5, VErr (Msg ''tag read failed with status'')], [''abc'', ''De'']), c')"
proof -
  obtain c' where r: "readListFragAll demo_batch demo_multi_client
      = (Inr [VInt32 5, VErr (Msg ''tag read failed with status'')], c')"
    using readListFragAll_complete[OF demo_multi_paths demo_multi_shape(1,2) demo_multi_answers demo_multi_shape(3,4)]
    unfolding demo_multi_values by blast
  have tags: "map (\<lambda>(k, v). tag_of k v) demo_map = demo_batch"
    by (simp add: demo_map_def tag_of_def demo_batch_def numeral_eq_Suc)
  have two: "[0..<length demo_map] = [0, 1]" by (simp add: demo_map_def upt_rec)
  have b: "selectPackedTagBatch [0, 1] demo_batch None demo_multi_client = (Inr \<lparr>selectedOrig = [0, 1],
      chosenTags = demo_batch, chosenIOIs = None, nextPending = []\<rparr>, demo_multi_client)"
    unfolding demo_multi_client_def by (rule demo_batch_selected)
  have empty: "read_batches f t p [] rs c = (Inr rs, c)" for f t p rs c
    by (simp add: read_batches.simps)
  have rb: "read_batches (\<lambda>ts _. readListFragAll ts) demo_batch None [0, 1] (replicate (length demo_map) VNil) demo_multi_client
      = (Inr [VInt32 5, VErr (Msg ''tag read failed with status'')], c')"
    by (subst read_batches.simps) (simp add: cbind_def b[simplified] r empty demo_map_def)
  have "checkConn demo_multi_client = (Inr (), demo_multi_client)"
    by (simp add: checkConn_def demo_multi_client_def demo_batch_client_def demo_client_def c_Connected_def)
  then have "ReadMap demo_map demo_multi_client
      = (Inr (zip (map fst demo_map) [VInt32 5, VErr (Msg ''tag read failed with status'')], map fst demo_map), c')"
    by (simp add: ReadMap_def read_map_def tags two rb[simplified] cbind_def cret_def)
  then show ?thesis by (intro exI[of _ c']) (simp add: demo_map_def)
qed


end
