(* ===== verification/ReadList_Limits.thy ===== *)
theory ReadList_Limits
  imports ReadList_Replies
begin

text \<open>
  Where the reads of many tags fall short: continuation of partial transfers, strings in the older
  list read, and refused tags in \<^verbatim>\<open>ReadMulti\<close>.
\<close>

section \<open>Continuation offsets\<close>

text \<open>The same rounds without offsets: every request asks for the tags from the start.\<close>

fun restart_rounds :: "nat \<Rightarrow> tagDesc list \<Rightarrow> tagIOI list \<Rightarrow> nat list \<Rightarrow> frag_state list \<Rightarrow> frag_state list cact" where
  "restart_rounds left tags iois [] fs = cret fs"
| "restart_rounds 0 tags iois (p # ps) fs = cfail (Msg ''fragmented read exceeded max continuation rounds'')"
| "restart_rounds (Suc left) tags iois (p # ps) fs =
     cbind (readListFragRound (map (\<lambda>i. tags ! i) (p # ps)) (map (\<lambda>i. iois ! i) (p # ps)) (map (\<lambda>_. 0) (p # ps))) (\<lambda>rrs.
     cres (frag_update (p # ps) rrs fs) (\<lambda>(fs', next).
     restart_rounds left tags iois next fs'))"

lemma restart_rounds_step:
  "pending \<noteq> [] \<Longrightarrow> restart_rounds (Suc left) tags iois pending fs =
     cbind (readListFragRound (map (\<lambda>i. tags ! i) pending) (map (\<lambda>i. iois ! i) pending) (map (\<lambda>_. 0) pending)) (\<lambda>rrs.
     cres (frag_update pending rrs fs) (\<lambda>(fs', next). restart_rounds left tags iois next fs'))"
  by (cases pending) simp_all

lemma frag_update_pending:
  assumes "frag_update pending rrs fs = Inr (fs', next)" "distinct pending"
  shows "distinct next \<and> set next \<subseteq> set pending \<and> (\<forall>i. i \<notin> set pending \<longrightarrow> fs' ! i = fs ! i)
    \<and> (\<forall>i\<in>set next. fs_offset (fs' ! i) = fs_offset (fs ! i))"
  using assms
proof (induction pending rrs fs arbitrary: fs' "next" rule: frag_update.induct)
  case (3 idx pending rr rrs fs)
  let ?s = "frag_take rr (fs ! idx)"
  from "3.prems"(1) obtain next' where u: "frag_update pending rrs (fs[idx := ?s]) = Inr (fs', next')"
    and n: "next = (if frr_Status rr = CIPStatus_PartialTransfer then idx # next' else next')"
    by (auto simp: andthen_Inr_iff)
  have IH: "distinct next' \<and> set next' \<subseteq> set pending \<and> (\<forall>i. i \<notin> set pending \<longrightarrow> fs' ! i = fs[idx := ?s] ! i)
    \<and> (\<forall>i\<in>set next'. fs_offset (fs' ! i) = fs_offset (fs[idx := ?s] ! i))"
    using "3.IH"[OF u] "3.prems"(2) by simp
  have idx: "idx \<notin> set pending" using "3.prems"(2) by simp
  have "fs_offset (fs' ! idx) = fs_offset (fs ! idx)" if "frr_Status rr = CIPStatus_PartialTransfer"
    using IH idx that by (cases "idx < length fs") (auto simp: frag_take_def list_update_beyond)
  moreover have "fs[idx := ?s] ! i = fs ! i" if "i \<in> set next' \<or> i \<notin> insert idx (set pending)" for i
    using that IH idx by (metis insertI1 nth_list_update_neq subsetD)
  ultimately show ?case using IH n idx by (auto split: if_splits)
qed auto

lemma frag_rounds_restart:
  assumes "distinct pending" "\<forall>i\<in>set pending. fs_offset (fs ! i) = 0"
  shows "frag_rounds left tags iois pending fs c = restart_rounds left tags iois pending fs c"
  using assms
proof (induction left arbitrary: pending fs c)
  case 0
  then show ?case by (cases pending) simp_all
next
  case (Suc left)
  show ?case
  proof (cases "pending = []")
    case True
    then show ?thesis by simp
  next
    case False
    have offs: "map (\<lambda>i. fs_offset (fs ! i)) pending = map (\<lambda>_. 0) pending" using Suc.prems(2) by simp
    obtain r c1 where r: "readListFragRound (map (\<lambda>i. tags ! i) pending) (map (\<lambda>i. iois ! i) pending)
        (map (\<lambda>_. 0) pending) c = (r, c1)" by fastforce
    have next_ok: "distinct next" "\<forall>i\<in>set next. fs_offset (fs' ! i) = 0"
      if "frag_update pending rrs fs = Inr (fs', next)" for rrs fs' "next"
      using frag_update_pending[OF that Suc.prems(1)] Suc.prems(2) by auto
    have "frag_rounds left tags iois next fs' c1 = restart_rounds left tags iois next fs' c1"
      if "frag_update pending rrs fs = Inr (fs', next)" for rrs fs' "next"
      using Suc.IH next_ok[OF that] by blast
    then have "cres (frag_update pending rrs fs) (\<lambda>(fs', next). frag_rounds left tags iois next fs') c1
        = cres (frag_update pending rrs fs) (\<lambda>(fs', next). restart_rounds left tags iois next fs') c1" for rrs
      by (intro cres_cong) auto
    then show ?thesis
      unfolding frag_rounds_step[OF False] restart_rounds_step[OF False] cbind_def offs r
      by (cases r) simp_all
  qed
qed

text \<open>
  C17. The continuation offsets of \<^verbatim>\<open>readListFragAll\<close> and
  \<^verbatim>\<open>readListFragWithIOIsAll\<close> are without effect: the loop behaves, request by request and
  in its result, like one that asks for every pending tag from offset 0 in every round.  The data of
  a partial transfer is dropped and the offset advances only with a reply that ends the tag's read.
\<close>

theorem continuation_restarts:
  "frag_values tags iois c = restart_rounds 1025 tags iois [0..<length tags] (replicate (length tags) frag_init) c"
  unfolding frag_values_def by (rule frag_rounds_restart) (auto simp: frag_init_def)

section \<open>A tag too long for one reply\<close>

definition partial_entry :: "cip_type \<Rightarrow> bytes \<Rightarrow> bytes \<Rightarrow> bytes" where
  "partial_entry t info d = reply_entry CIPService_FragRead CIPStatus_PartialTransfer t info d"

lemma partial_rounds:
  assumes "c_conn c" "c_socket c = []" "eh_Status hdr = 0" "status \<in> {0, 0x1E}"
    and "c_script c = map (\<lambda>d. Some (eip_frame hdr (connected_reply i (multi_body sq status [partial_entry t info d])))) ds @ s"
    and "length info \<in> {0, 2}" "\<forall>d\<in>set ds. length d < 65000"
  shows "fst (frag_rounds (length ds) [tag] [ioi] [0] [st] c) = Inl (Msg ''fragmented read exceeded max continuation rounds'')"
  using assms
proof (induction ds arbitrary: c st)
  case Nil
  then show ?case by (simp add: cfail_def)
next
  case (Cons d ds)
  let ?e = "partial_entry t info d"
  have "length (multi_body sq status [?e]) < 65516"
    using Cons.prems(6,7) by (auto simp: multi_body_def partial_entry_def reply_entry_def)
  with Cons.prems have "answers c hdr i sq status [?e]
      (map (\<lambda>d. Some (eip_frame hdr (connected_reply i (multi_body sq status [partial_entry t info d])))) ds @ s)"
    by (simp add: answers_def)
  from round_answered[OF this] obtain c' where
    r: "readListFragRound [tag] [ioi] [fs_offset st] c = (map_res (\<lambda>i. entry_result [tag] i ([?e] ! i)) [0..<length [?e]], c')"
    and c': "c_conn c'" "c_socket c' = []"
      "c_script c' = map (\<lambda>d. Some (eip_frame hdr (connected_reply i (multi_body sq status [partial_entry t info d])))) ds @ s"
    by blast
  have "entry_result [tag] 0 ?e = Inr \<lparr>frr_Status = CIPStatus_PartialTransfer, frr_Type = t, frr_Data = d\<rparr>"
    unfolding partial_entry_def using Cons.prems(6) by (intro entry_result_ok) auto
  with r have "readListFragRound [tag] [ioi] [fs_offset st] c
      = (Inr [\<lparr>frr_Status = CIPStatus_PartialTransfer, frr_Type = t, frr_Data = d\<rparr>], c')" by simp
  then have "frag_rounds (length (d # ds)) [tag] [ioi] [0] [st] c
      = frag_rounds (length ds) [tag] [ioi] [0] [st\<lparr>fs_status := CIPStatus_PartialTransfer\<rparr>] c'"
    by (simp add: cbind_def frag_take_def)
  moreover have "fst (frag_rounds (length ds) [tag] [ioi] [0] [st\<lparr>fs_status := CIPStatus_PartialTransfer\<rparr>] c')
      = Inl (Msg ''fragmented read exceeded max continuation rounds'')"
    using Cons.prems(3,4,6,7) c' by (intro Cons.IH) auto
  ultimately show ?case by simp
qed

text \<open>
  A tag whose value the controller sends in fragments is never read by
  \<^verbatim>\<open>readListFragAll\<close>, and so by neither \<^verbatim>\<open>ReadMap\<close> nor
  \<^verbatim>\<open>ReadMapFrag\<close>: whatever data 1025 replies with the status of a partial transfer
  carry, the read ends in the error about too many continuation rounds.
\<close>

theorem partial_transfer_never_completes:
  assumes "new_iois [tag] c = (Inr [ioi], c1)" "c_conn c1" "c_socket c1 = []" "eh_Status hdr = 0"
    and "status \<in> {0, 0x1E}" "length info \<in> {0, 2}" "length ds = 1025" "\<forall>d\<in>set ds. length d < 65000"
    and "c_script c1 = map (\<lambda>d. Some (eip_frame hdr (connected_reply i (multi_body sq status [partial_entry t info d])))) ds @ s"
  shows "fst (readListFragAll [tag] c) = Inl (Msg ''fragmented read exceeded max continuation rounds'')"
proof -
  have "fst (frag_rounds (length ds) [tag] [ioi] [0] [frag_init] c1)
      = Inl (Msg ''fragmented read exceeded max continuation rounds'')"
    using assms by (intro partial_rounds) auto
  then have "fst (frag_values [tag] [ioi] c1) = Inl (Msg ''fragmented read exceeded max continuation rounds'')"
    using assms(7) by (simp add: frag_values_def)
  then show ?thesis using assms(1) by (auto simp: readListFragAll_def cbind_def split: prod.splits sum.splits)
qed

theorem partial_transfer_never_completes_witness:
  "fst (readListFragAll [\<lparr>td_TagName = ''abc'', td_TagType = CIPTypeDINT, td_Elements = 2000, td_Struct = VNil\<rparr>]
     (demo_reader (replicate 1025 (Some (eip_frame demo_reply_header
        (connected_reply 9 (multi_body 1 0x1E [partial_entry CIPTypeDINT [] [1, 0, 0, 0]]))))))
    ) = Inl (Msg ''fragmented read exceeded max continuation rounds'')"
proof -
  let ?tag = "\<lparr>td_TagName = ''abc'', td_TagType = CIPTypeDINT, td_Elements = 2000, td_Struct = VNil\<rparr>"
  let ?f = "Some (eip_frame demo_reply_header (connected_reply 9 (multi_body 1 0x1E [partial_entry CIPTypeDINT [] [1, 0, 0, 0]])))"
  let ?c = "demo_reader (replicate 1025 ?f)"
  let ?ds = "replicate 1025 [1, 0, 0, 0 :: u8]"
  have "new_iois [?tag] ?c = (Inr [demo_path], ?c)" by (simp add: demo_newIOI cbind_def cret_def)
  moreover have "c_conn ?c" "c_socket ?c = []" "eh_Status demo_reply_header = 0"
    by (simp_all add: demo_reader_def demo_client_def demo_reply_header_def)
  moreover have "c_script ?c = map (\<lambda>d. Some (eip_frame demo_reply_header
      (connected_reply 9 (multi_body 1 0x1E [partial_entry CIPTypeDINT [] d])))) ?ds @ []"
    by (simp only: map_replicate append_Nil2) (simp add: demo_reader_def demo_client_def)
  moreover have "length ?ds = 1025" "\<forall>d\<in>set ?ds. length d < 65000" "length ([] :: bytes) \<in> {0, 2}" "(0x1E :: u16) \<in> {0, 0x1E}"
    by simp_all
  ultimately show ?thesis using partial_transfer_never_completes by blast
qed

section \<open>Strings\<close>

text \<open>
  The reply a Logix controller gives for a string, and this library's server too: a structure with
  the type code \<open>0x0FCE\<close>, holding the length and 82 characters, and possibly padding.
\<close>

definition string_data :: "string \<Rightarrow> bytes \<Rightarrow> bytes" where
  "string_data str pad = put32 (of_nat (length str)) @ pad_copy 82 (to_bytes str) @ pad"

lemma length_string_data [simp]: "length (string_data str pad) = 86 + length pad"
  by (simp add: string_data_def)

definition string_answer :: "cip_service \<Rightarrow> string \<Rightarrow> bytes \<Rightarrow> answer" where
  "string_answer svc str pad = \<lparr>an_Service = svc, an_Status = CIPStatus_OK, an_Type = CIPTypeStruct,
     an_Info = [0xCE, 0x0F], an_Data = string_data str pad\<rparr>"

lemma decode_string:
  assumes "td_TagType tag = CIPTypeSTRING" "td_Elements tag = 1" "length str \<le> 82"
  shows "decodeReadTagValue tag ioi t (string_data str pad) CIPStatus_OK = Inr (VString str)"
proof -
  have n: "unat (of_nat (length str) :: u32) = length str"
    using assms(3) by (simp add: unat_of_nat take_bit_eq_mod)
  have "pad_copy 82 (to_bytes str) = to_bytes str @ replicate (82 - length str) 0"
    using assms(3) by (simp add: pad_copy_def)
  moreover have "length (to_bytes str) = length str" by (simp add: to_bytes_def)
  ultimately show ?thesis
    using assms(1,2) n by (simp add: decodeReadTagValue_def string_data_def)
qed

lemma list_value_string:
  assumes "td_TagType tag = CIPTypeSTRING" "td_Elements tag = 1" "length d < 4000"
  shows "\<exists>e. list_value tag ioi t ([0xCE, 0x0F] @ d) = Inl e \<and> \<not> is_panic e"
proof -
  consider "length d < 2" | a b r where "d = a # b # r" by (cases d rule: remdups_adj.cases) auto
  then show ?thesis
  proof cases
    case 1
    then obtain e where "rd32 ([0xCE, 0x0F] @ d) = Inl e" "e = UnexpectedEOF"
      using read_full_short[of "[0xCE, 0x0F] @ d" 4] by (simp add: rd32_def)
    with assms show ?thesis by (simp add: list_value_def)
  next
    case 2
    let ?l = "get32 [0xCE, 0x0F, a, b]"
    have "unat ?l = 206 + 256 * (15 + 256 * (unat a + 256 * unat b))"
    proof -
      have "206 + 256 * (15 + 256 * (unat a + 256 * unat b)) < 2 ^ 32"
      proof -
        have "unat a \<le> 255" "unat b \<le> 255" using unat_byte_lt[of a] unat_byte_lt[of b] by linarith+
        then show ?thesis by simp
      qed
      then show ?thesis by (simp add: get_eval unat_of_nat take_bit_eq_mod mod_less del: of_nat_add of_nat_mult)
    qed
    then have "length r < unat ?l" using assms(3) 2 by simp
    then obtain e where "read_full (unat ?l) r = Inl e" by (cases "read_full (unat ?l) r") (auto dest!: read_full_Inr)
    moreover from read_full_Inl[OF this] have "\<not> is_panic e" by auto
    ultimately show ?thesis using assms(1,2) 2 by (simp add: list_value_def rd_eval)
  qed
qed

lemma list_entry_body:
  assumes "length (multi_body sq status [e]) < 65516" "length h = 4"
  shows "list_entry [tag] [ioi] (jumpTable 4 [e]) (h @ multi_body sq status [e]) 0 =
    attempt ''problem reading multi result header'' (read_full 4 e) (\<lambda>(h, r1).
      if \<not> IsResponse (fld8 0 h) then Inl (Msg ''wasn't a response service'')
      else if fld16 2 h AND 0xFF \<noteq> ucast CIPStatus_OK then Inr (VErr (Msg ''problem reading tag. Status''))
      else attempt ''problem reading multi result type header'' (read_full 2 r1) (\<lambda>(th, r2).
        list_value tag ioi (fld8 0 th) r2))"
proof -
  have "drop 14 (h @ multi_body sq status [e]) = e" using assms(2) by (simp add: multi_body_def)
  moreover have "length (h @ multi_body sq status [e]) = 14 + length e" using assms(2) by (simp add: multi_body_def)
  ultimately show ?thesis by (simp add: list_entry_def cong: if_cong)
qed

lemma string_list_entry:
  assumes "svc \<in> {CIPService_Read, CIPService_FragRead}" "length pad \<le> 2"
    and "td_TagType tag = CIPTypeSTRING" "td_Elements tag = 1" "length h = 4"
  shows "\<exists>e. list_entry [tag] [ioi] (jumpTable 4 [answer_bytes (string_answer svc str pad)])
    (h @ multi_body sq status [answer_bytes (string_answer svc str pad)]) 0 = Inl e \<and> \<not> is_panic e"
proof -
  let ?d = "string_data str pad"
  let ?e = "answer_bytes (string_answer svc str pad)"
  have e: "?e = [AsResponse svc, 0, 0, 0] @ [CIPTypeStruct, 2] @ [0xCE, 0x0F] @ ?d"
    by (simp add: string_answer_def answer_bytes_def reply_entry_def)
  have len: "length (multi_body sq status [?e]) < 65516" using assms(2) unfolding e by (simp add: multi_body_def)
  have r4: "read_full 4 ?e = Inr ([AsResponse svc, 0, 0, 0], [CIPTypeStruct, 2] @ [0xCE, 0x0F] @ ?d)"
    unfolding e by (rule read_full_append) simp
  have r2: "read_full 2 ([CIPTypeStruct, 2] @ [0xCE, 0x0F] @ ?d) = Inr ([CIPTypeStruct, 2], [0xCE, 0x0F] @ ?d)"
    by (rule read_full_append) simp
  obtain err where "list_value tag ioi CIPTypeStruct ([0xCE, 0x0F] @ ?d) = Inl err" "\<not> is_panic err"
    using list_value_string[OF assms(3,4), of ?d] assms(2) by auto
  then show ?thesis
    unfolding list_entry_body[OF len assms(5)] r4
    using response_bit[OF assms(1)] r2 by (simp add: fld8_def fld16_def get_eval)
qed

lemma readList_one_packet:
  assumes "new_iois tags c = (Inr iois, c1)"
    and "split_point (c_ConnectionSize c1) 0 0 (map (\<lambda>(tag, ioi). plain_entry tag ioi) (zip tags iois)) = None"
    and "send_unit (multi_request (ucast (fst (sequencer (c_sequenceValue c1)))) (map (\<lambda>(tag, ioi). plain_entry tag ioi) (zip tags iois)))
      (c1\<lparr>c_sequenceValue := snd (sequencer (c_sequenceValue c1))\<rparr>) = (Inr (hdr, data), c2)"
    and "multi_reply hdr data = Inr (tbl, rb)"
  shows "readList (Suc fuel) tags c = (map_res (list_entry tags iois tbl rb) [0..<length tbl], c2)"
  using assms by (simp add: cbind_def next_sequence_def split_beta)

text \<open>
  \<^verbatim>\<open>ReadMulti\<close> and \<^verbatim>\<open>ReadList\<close> cannot read a string.  When a
  controller answers the read of a string tag with the structure of a Logix string,
  \<^verbatim>\<open>readListFragAll\<close> (that is, \<^verbatim>\<open>ReadMap\<close>) returns the string, while
  \<^verbatim>\<open>readList\<close>, which the other two use, takes the type code of the structure for the
  beginning of the length and fails.
\<close>

theorem list_read_of_string_fails:
  assumes "new_iois [tag] c = (Inr [ioi], c1)" "td_TagType tag = CIPTypeSTRING" "td_Elements tag = 1"
    and "svc \<in> {CIPService_Read, CIPService_FragRead}" "length str \<le> 82" "length pad \<le> 2"
    and "answers c1 hdr i sq status [answer_bytes (string_answer svc str pad)] s"
    and "int (length (ioi_Buffer ioi)) + 10 \<le> uint (c_ConnectionSize c1)"
  shows "fst (readListFragAll [tag] c) = Inr [VString str]
    \<and> (\<exists>e. fst (readList (Suc fuel) [tag] c) = Inl e \<and> \<not> is_panic e)"
proof
  have a: "answers c1 hdr i sq status (map answer_bytes [string_answer svc str pad]) s" using assms(7) by simp
  have ok: "list_all answer_ok [string_answer svc str pad]" using assms(4) by (auto simp: string_answer_def answer_ok_def)
  show "fst (readListFragAll [tag] c) = Inr [VString str]"
    using readListFragAll_complete[OF assms(1) _ _ a ok] decode_string[OF assms(2,3,5)]
    by (auto simp: string_answer_def stored_value_def)
  let ?e = "answer_bytes (string_answer svc str pad)"
  let ?c2 = "c1\<lparr>c_sequenceValue := snd (sequencer (c_sequenceValue c1))\<rparr>"
  let ?it = "multi_request (ucast (fst (sequencer (c_sequenceValue c1)))) [plain_entry tag ioi]"
  let ?b = "multi_body sq status [?e]"
  let ?hdr = "hdr\<lparr>eh_Length := of_nat (length (connected_reply i ?b))\<rparr>"
  have sp: "split_point (c_ConnectionSize c1) 0 0 (map (\<lambda>(tag, ioi). plain_entry tag ioi) (zip [tag] [ioi])) = None"
    using assms(8) by (simp add: plain_entry_def msgCIPMultiIOIHeader_def)
  have sent: "send_unit ?it ?c2 = (Inr (?hdr, connected_reply i ?b),
      ?c2\<lparr>c_HeaderSequenceCounter := c_HeaderSequenceCounter ?c2 + 1, c_script := s, c_sent := c_sent ?c2 @ [unit_request ?c2 ?it]\<rparr>)"
    using assms(7) by (intro send_unit_answered) (auto simp: answers_def length_connected_reply)
  obtain h where h: "length h = 4" "multi_reply ?hdr (connected_reply i ?b) = Inr (jumpTable 4 [?e], h @ ?b)"
    using multi_reply_body[of ?hdr status sq "[?e]" i] assms(7) by (auto simp: answers_def)
  have "\<exists>c'. readList (Suc fuel) [tag] c
      = (map_res (list_entry [tag] [ioi] (jumpTable 4 [?e]) (h @ ?b)) [0..<length (jumpTable 4 [?e])], c')"
    using readList_one_packet[OF assms(1) sp _ h(2)] sent by simp
  moreover obtain err where "list_entry [tag] [ioi] (jumpTable 4 [?e]) (h @ ?b) 0 = Inl err" "\<not> is_panic err"
    using string_list_entry[OF assms(4,6,2,3) h(1)] by blast
  ultimately show "\<exists>e. fst (readList (Suc fuel) [tag] c) = Inl e \<and> \<not> is_panic e" by auto
qed

definition demo_string_tag :: tagDesc where
  "demo_string_tag = \<lparr>td_TagName = ''abc'', td_TagType = CIPTypeSTRING, td_Elements = 1, td_Struct = VString []\<rparr>"

definition demo_string_client :: Client where
  "demo_string_client = demo_reader [Some (eip_frame demo_reply_header
     (connected_reply 9 (multi_body 1 0 [answer_bytes (string_answer CIPService_Read ''hi'' [0, 0])])))]"

theorem list_read_of_string_fails_witness:
  "fst (readListFragAll [demo_string_tag] demo_string_client) = Inr [VString ''hi'']
    \<and> (\<exists>e. fst (readList 5 [demo_string_tag] demo_string_client) = Inl e \<and> \<not> is_panic e)"
proof -
  let ?a = "string_answer CIPService_Read ''hi'' [0, 0]"
  have paths: "new_iois [demo_string_tag] demo_string_client = (Inr [demo_path], demo_string_client)"
    unfolding demo_string_client_def by (simp add: demo_string_tag_def demo_newIOI cbind_def cret_def)
  have ans: "answers demo_string_client demo_reply_header 9 1 0 [answer_bytes ?a] []"
    by (simp add: answers_def demo_string_client_def demo_reader_def demo_client_def demo_reply_header_def
        multi_body_def answer_bytes_def string_answer_def reply_entry_def)
  have fits: "int (length (ioi_Buffer demo_path)) + 10 \<le> uint (c_ConnectionSize demo_string_client)"
    by (simp add: demo_path_def new_ioi_def demo_string_client_def demo_reader_def demo_client_def)
  have tag: "td_TagType demo_string_tag = CIPTypeSTRING" "td_Elements demo_string_tag = 1"
    by (simp_all add: demo_string_tag_def)
  from list_read_of_string_fails[OF paths tag _ _ _ ans fits, of 4] show ?thesis by simp
qed

section \<open>Refused tags\<close>

lemma reflect_set_Inl: "reflect_set t v = Inl e \<Longrightarrow> is_panic e"
  by (auto simp: reflect_set_def split: if_splits)

lemma map_res_panic:
  assumes "\<And>x e. f x = Inl e \<Longrightarrow> is_panic e" "map_res f xs = Inl e"
  shows "is_panic e"
  using assms(2)
proof (induction xs)
  case (Cons x xs)
  then show ?case by (cases "f x"; cases "map_res f xs") (auto dest: assms(1))
qed simp

lemma set_field_panic:
  assumes "set_field old v = Inl e"
  shows "is_panic e"
proof (cases "\<exists>t vs. old = VSlice t vs")
  case True
  then obtain t vs where old: "old = VSlice t vs" by blast
  show ?thesis
  proof (cases "\<exists>xs. v = VSlice TAny xs \<and> length vs \<le> length xs \<and> vs \<noteq> []")
    case True
    with assms old obtain xs where "map_res (reflect_set t) xs = Inl e"
      by (auto simp: set_field_def andthen_def split: sum.splits)
    then show ?thesis by (rule map_res_panic[rotated]) (rule reflect_set_Inl)
  next
    case False
    with assms old show ?thesis by (cases v) (auto simp: set_field_def split: if_splits)
  qed
next
  case False
  then have "set_field old v = reflect_set (typeof old) v" by (cases old) (auto simp: set_field_def)
  with assms show ?thesis by (auto dest: reflect_set_Inl)
qed

text \<open>A field that the error of a refused tag cannot be stored in: no slice, no interface.\<close>

definition plain_field :: "goval \<Rightarrow> bool" where
  "plain_field v \<longleftrightarrow> typeof v \<noteq> TAny \<and> (\<forall>t. typeof v \<noteq> TSlice t)"

lemma set_field_plain: "plain_field old \<Longrightarrow> set_field old v = reflect_set (typeof old) v"
  by (cases old) (auto simp: plain_field_def set_field_def)

lemma reflect_set_plain: "reflect_set (typeof old) v = Inr w \<Longrightarrow> plain_field old \<Longrightarrow> plain_field w \<and> w = v"
  by (auto simp: reflect_set_def plain_field_def split: if_splits)

lemma set_fields_refused:
  assumes "VErr e \<in> set (take (length tags) vals)" "\<forall>fv\<in>set fs. plain_field (snd fv)"
    and "\<forall>t k. tag_map t = Some k \<longrightarrow> k < length fs"
  shows "\<exists>m. set_fields tags tag_map vals fs = Inl m \<and> is_panic m"
  using assms
proof (induction tags tag_map vals fs rule: set_fields.induct)
  case (2 i tag tags tag_map vals fs)
  obtain val vals' where vals: "vals = val # vals'" using "2.prems"(1) by (cases vals) auto
  show ?case
  proof (cases "tag_map (td_TagName tag)")
    case None
    with vals show ?thesis by simp
  next
    case (Some k)
    let ?old = "snd (fs ! k)"
    have plain: "plain_field ?old" using "2.prems"(2,3) Some by (metis nth_mem)
    show ?thesis
    proof (cases "set_field ?old val")
      case (Inl err)
      with set_field_panic[OF Inl] Some vals show ?thesis by simp
    next
      case (Inr w)
      then have w: "plain_field w" "w = val"
        using set_field_plain[OF plain] reflect_set_plain[OF _ plain] by auto
      then have "val \<noteq> VErr e" by (auto simp: plain_field_def)
      then have v: "VErr e \<in> set (take (length tags) vals')" using "2.prems"(1) vals by simp
      have f: "\<forall>fv\<in>set (fs[k := (fst (fs ! k), w)]). plain_field (snd fv)"
        using "2.prems"(2) w(1) by (auto dest: set_update_subset_insert[THEN subsetD])
      have "\<exists>m. set_fields tags tag_map vals' (fs[k := (fst (fs ! k), w)]) = Inl m \<and> is_panic m"
        using "2.IH"[OF vals Some Inr v f] "2.prems"(3) by simp
      with Inr Some vals show ?thesis by simp
    qed
  qed
qed simp

text \<open>
  \<^verbatim>\<open>ReadMulti\<close> panics when the controller refuses a tag.  \<^verbatim>\<open>readList\<close>
  stores the error as the tag's value, and storing that value in the struct's field is a panic in
  \<^verbatim>\<open>reflect.Set\<close>, unless a panic came before it.
\<close>

theorem refused_tag_panics:
  assumes "c_connStatus c = Connected" "readList fuel (map snd (tagged_fields args fs)) c = (Inr vals, c')"
    and "VErr e \<in> set (take (length (tagged_fields args fs)) vals)" "\<forall>fv\<in>set fs. plain_field (snd fv)"
  shows "\<exists>m. fst (ReadMulti fuel fs args c) = Inl m \<and> is_panic m"
proof -
  let ?tags = "tagged_fields args fs"
  let ?map = "map_of (rev (map (\<lambda>(i, t). (td_TagName t, i)) ?tags))"
  have idx: "i < length fs" if "(i, t) \<in> set ?tags" for i t
    using that by (auto simp: tagged_fields_def dest!: set_zip_leftD split: option.splits if_splits)
  have "\<forall>t k. ?map t = Some k \<longrightarrow> k < length fs"
    by (auto dest!: map_of_SomeD idx)
  then obtain m where "set_fields ?tags ?map vals fs = Inl m" "is_panic m"
    using set_fields_refused[OF assms(3,4)] by blast
  moreover have "checkConn c = (Inr (), c)" using assms(1) by (simp add: checkConn_def c_Connected_def)
  ultimately show ?thesis
    using assms(2) by (simp add: ReadMulti_def cwrap_def Let_def cfail_def)
qed

definition demo_fields :: "(gofield \<times> goval) list" where
  "demo_fields = [(\<lparr>field_name = ''A'', pack_tag = [], index_tag = NoIndex, gologix_tag = Some ''abc''\<rparr>, VInt32 0)]"

definition demo_refused_client :: Client where
  "demo_refused_client = demo_reader [Some (eip_frame demo_reply_header
     (connected_reply 9 (multi_body 1 0x1E [error_entry CIPService_Read CIPStatus_PathDestinationUnknown])))]"

lemma demo_tagged: "tagged_fields [] demo_fields = [(0, tag_of ''abc'' (VInt32 0))]"
  by (simp add: tagged_fields_def demo_fields_def formatName_def)

lemma demo_refused_read:
  "\<exists>c'. readList 1 [tag_of ''abc'' (VInt32 0)] demo_refused_client = (Inr [VErr (Msg ''problem reading tag. Status'')], c')"
proof -
  let ?tag = "tag_of ''abc'' (VInt32 0)" and ?c = demo_refused_client
  let ?e = "error_entry CIPService_Read CIPStatus_PathDestinationUnknown"
  let ?b = "multi_body 1 0x1E [?e]"
  have paths: "new_iois [?tag] ?c = (Inr [demo_path], ?c)"
    unfolding demo_refused_client_def by (simp add: tag_of_def demo_newIOI cbind_def cret_def)
  have sp: "split_point (c_ConnectionSize ?c) 0 0 (map (\<lambda>(tag, ioi). plain_entry tag ioi) (zip [?tag] [demo_path])) = None"
    by (simp add: plain_entry_def msgCIPMultiIOIHeader_def demo_path_def new_ioi_def demo_refused_client_def demo_reader_def
        demo_client_def)
  have len: "length ?b < 65516" by (simp add: multi_body_def error_entry_def)
  have c: "c_conn (?c\<lparr>c_sequenceValue := v\<rparr>)" "c_socket (?c\<lparr>c_sequenceValue := v\<rparr>) = []"
    "c_script (?c\<lparr>c_sequenceValue := v\<rparr>) = Some (eip_frame demo_reply_header (connected_reply 9 ?b)) # []" for v
    by (simp_all add: demo_refused_client_def demo_reader_def demo_client_def)
  obtain h where h: "length h = 4"
    "multi_reply (demo_reply_header\<lparr>eh_Length := of_nat (length (connected_reply 9 ?b))\<rparr>) (connected_reply 9 ?b)
      = Inr (jumpTable 4 [?e], h @ ?b)"
    using multi_reply_body[of "demo_reply_header\<lparr>eh_Length := of_nat (length (connected_reply 9 ?b))\<rparr>" "0x1E" 1 "[?e]" 9] len
    by (auto simp: demo_reply_header_def)
  have "read_full 4 ?e = Inr (?e, [])" using read_full_append[of ?e 4 "[]"] by (simp add: error_entry_def)
  then have "list_entry [?tag] [demo_path] (jumpTable 4 [?e]) (h @ ?b) 0 = Inr (VErr (Msg ''problem reading tag. Status''))"
    unfolding list_entry_body[OF len h(1)]
    by (simp add: error_entry_def fld8_def fld16_def response_bit get_eval)
  then have "map_res (list_entry [?tag] [demo_path] (jumpTable 4 [?e]) (h @ ?b)) [0..<length (jumpTable 4 [?e])]
      = Inr [VErr (Msg ''problem reading tag. Status'')]" by simp
  moreover have "length (connected_reply 9 ?b) < 65536" using len by (simp add: length_connected_reply)
  note sent = send_unit_answered[OF c this]
  show ?thesis
    using readList_one_packet[OF paths sp sent h(2), of 0] calculation by auto
qed

theorem refused_tag_panics_witness:
  "\<exists>m. fst (ReadMulti 1 demo_fields [] demo_refused_client) = Inl m \<and> is_panic m"
proof -
  obtain c' where r: "readList 1 (map snd (tagged_fields [] demo_fields)) demo_refused_client
      = (Inr [VErr (Msg ''problem reading tag. Status'')], c')"
    using demo_refused_read by (auto simp: demo_tagged)
  have "c_connStatus demo_refused_client = Connected"
    by (simp add: demo_refused_client_def demo_reader_def demo_client_def)
  moreover have "VErr (Msg ''problem reading tag. Status'')
      \<in> set (take (length (tagged_fields [] demo_fields)) [VErr (Msg ''problem reading tag. Status'')])"
    by (simp add: demo_tagged)
  moreover have "\<forall>fv\<in>set demo_fields. plain_field (snd fv)" by (simp add: demo_fields_def plain_field_def)
  ultimately show ?thesis using refused_tag_panics[OF _ r] by blast
qed

end
