(* ===== verification/Client_Write.thy ===== *)
theory Client_Write
  imports ReadList_Replies
begin

text \<open>
  Writing tags from the client: \<^verbatim>\<open>write.go\<close>, \<^verbatim>\<open>udt_write.go\<close>, and
  \<^verbatim>\<open>TypeEncode\<close> and \<^verbatim>\<open>ReadPacked\<close> of \<^verbatim>\<open>pack.go\<close>.
  The CRC of a structure's type text is computed by a library; it is the argument \<open>crc16\<close>.
  Types that name their own type code (\<^verbatim>\<open>KnownType\<close>) are not among the values of the model.
\<close>

section \<open>Requests and replies\<close>

definition msgCIPWriteIOIFooter :: "u16 \<Rightarrow> u16 \<Rightarrow> bytes" where
  "msgCIPWriteIOIFooter DataType Elements =
     (if DataType = ucast CIPTypeSTRING then [0xA0, 0x02, 0xCE, 0x0F] @ put16 Elements
      else put16 DataType @ put16 Elements)"

definition msgCIPIOIHeader :: "u16 \<Rightarrow> cip_service \<Rightarrow> tagIOI \<Rightarrow> bytes" where
  "msgCIPIOIHeader sq service ioi = put16 sq @ [service, of_nat (length (ioi_Buffer ioi) div 2)]"

text \<open>The request item up to the value: sequence, service, path, and what describes the value.\<close>

definition write_item :: "u16 \<Rightarrow> tagIOI \<Rightarrow> bytes \<Rightarrow> CIPItem" where
  "write_item sq ioi footer =
     item_Write footer (item_Write (ioi_Buffer ioi)
       (item_Write (msgCIPIOIHeader sq CIPService_Write ioi) (empty_item cipItem_ConnectedData)))"

definition write_reply :: "eipHeader \<Rightarrow> bytes \<Rightarrow> unit res" where
  "write_reply hdr data =
     (if eh_Status hdr \<noteq> 0 then Inl (Msg ''got non-success status when writing'')
      else attempt ''problem reading items from write'' (reply_items data) (\<lambda>items.
        andthen (item1 items) (\<lambda>it.
        attempt ''problem deserializing write response header'' (item_ReadFull 6 it) (\<lambda>(x, it1).
          if fld8 4 x \<noteq> CIPStatus_OK then
            (if fld8 5 x = 1 then
               attempt ''Problem getting extended status'' (item_ReadFull 2 it1)
                 (\<lambda>_. Inl (Msg ''got status instead of 0 in write response. Problem getting extended status''))
             else Inl (Msg ''got status instead of 0 in write response''))
          else Inr ()))))"

section \<open>One value\<close>

definition write_elements :: "goval \<Rightarrow> u16" where
  "write_elements value = (case value of VSlice _ vs \<Rightarrow> of_nat (length vs) | _ \<Rightarrow> 1)"

definition write_single :: "string \<Rightarrow> goval \<Rightarrow> unit cact" where
  "write_single tag value =
     (let datatype = fst (GoVarToCIPType value) in
      cwrap ''problem generating IOI'' (c_newIOI tag datatype) (\<lambda>ioi.
      cbind next_sequence (\<lambda>sq.
      cneed ''problem serializing value''
        (item_Serialize [value] (write_item sq ioi (msgCIPWriteIOIFooter (ucast datatype) (write_elements value)))) (\<lambda>it.
      cbind (send_unit it) (\<lambda>(hdr, data).
      cres (write_reply hdr data) cret)))))"

section \<open>Structures\<close>

text \<open>The name of a Go type is empty for a type without one.\<close>

fun goTypeToLogixTypeName :: "gotype \<Rightarrow> string" where
  "goTypeToLogixTypeName TInt8 = ''SINT''"
| "goTypeToLogixTypeName TInt16 = ''INT''"
| "goTypeToLogixTypeName TInt32 = ''DINT''"
| "goTypeToLogixTypeName TInt64 = ''LINT''"
| "goTypeToLogixTypeName TUint8 = ''SINT''"
| "goTypeToLogixTypeName TUint16 = ''UINT''"
| "goTypeToLogixTypeName TUint32 = ''UDINT''"
| "goTypeToLogixTypeName TUint64 = ''ULINT''"
| "goTypeToLogixTypeName TFloat32 = ''REAL''"
| "goTypeToLogixTypeName TFloat64 = ''LREAL''"
| "goTypeToLogixTypeName _ = []"

fun type_text :: "goval \<Rightarrow> string res"
  and field_texts :: "nat \<Rightarrow> (gofield \<times> goval) list \<Rightarrow> string res" where
  "type_text (VStruct n fs) = andthen (field_texts 0 fs) (\<lambda>s. Inr (n @ s))"
| "type_text v = Inl (Panic ''reflect: NumField of non-struct type'')"
| "field_texts bitpos [] = Inr []"
| "field_texts bitpos ((f, VArray t vs) # fs) =
     andthen (if is_struct_type t
              then (case vs of [] \<Rightarrow> Inl (Panic ''reflect: array index out of range'') | v # _ \<Rightarrow> type_text v)
              else Inr (goTypeToLogixTypeName t)) (\<lambda>at.
     andthen (field_texts bitpos fs) (\<lambda>s. Inr (CHR '','' # at @ CHR ''['' # itoa (length vs) @ CHR '']'' # s)))"
| "field_texts bitpos ((f, VBool b) # fs) =
     andthen (field_texts (if bitpos + 1 \<ge> 8 then 0 else bitpos + 1) fs) (\<lambda>s.
       Inr ((if bitpos = 0 then '',SINT'' else []) @ s))"
| "field_texts bitpos ((f, VStruct n ts) # fs) =
     attempt ''problem encoding sub-structure'' (type_text (VStruct n ts)) (\<lambda>at.
     andthen (field_texts 0 fs) (\<lambda>s. Inr (CHR '','' # at @ s)))"
| "field_texts bitpos ((f, v) # fs) =
     andthen (field_texts 0 fs) (\<lambda>s. Inr (CHR '','' # goTypeToLogixTypeName (typeof v) @ s))"

definition TypeEncode :: "(bytes \<Rightarrow> u16) \<Rightarrow> goval \<Rightarrow> (string \<times> u16) res" where
  "TypeEncode crc16 v = andthen (type_text v) (\<lambda>encoded. Inr (encoded, crc16 (to_bytes encoded)))"

definition write_udt :: "(bytes \<Rightarrow> u16) \<Rightarrow> string \<Rightarrow> goval \<Rightarrow> unit cact" where
  "write_udt crc16 tag value =
     cwrap ''problem generating IOI'' (c_newIOI tag CIPTypeStruct) (\<lambda>ioi.
     cbind next_sequence (\<lambda>sq.
     cneed ''problem encoding type'' (TypeEncode crc16 value) (\<lambda>(_, typecrc).
     cneed ''problem packing data'' (Pack value) (\<lambda>(UDTdata, _).
     cbind (send_unit (item_Write UDTdata (write_item sq ioi ([CIPTypeStruct, 2] @ put16 typecrc @ put16 1)))) (\<lambda>(hdr, data).
     cres (write_reply hdr data) cret)))))"

definition Write :: "(bytes \<Rightarrow> u16) \<Rightarrow> string \<Rightarrow> goval \<Rightarrow> unit cact" where
  "Write crc16 tag value =
     cwrap ''could not start write'' checkConn (\<lambda>_.
       case value of VStruct n fs \<Rightarrow> write_udt crc16 tag value | _ \<Rightarrow> write_single tag value)"

section \<open>Many values\<close>

fun dict_join :: "(string \<times> goval) list \<Rightarrow> (string \<times> goval) list \<Rightarrow> (string \<times> goval) list" where
  "dict_join d [] = d"
| "dict_join d ((k, v) # es) = dict_join (dict_put k v d) es"

fun udt_to_dict :: "string \<Rightarrow> goval \<Rightarrow> (string \<times> goval) list"
  and udt_fields :: "string \<Rightarrow> (gofield \<times> goval) list \<Rightarrow> (string \<times> goval) list \<Rightarrow> (string \<times> goval) list" where
  "udt_to_dict tag (VStruct n fs) = udt_fields tag fs []"
| "udt_to_dict tag v = []"
| "udt_fields tag [] d = d"
| "udt_fields tag ((f, VStruct n ts) # fs) d =
     udt_fields tag fs (dict_join d (udt_to_dict (tag @ ''.'' @ field_name f) (VStruct n ts)))"
| "udt_fields tag ((f, VArray t vs) # fs) d = udt_fields tag fs d"
| "udt_fields tag ((f, v) # fs) d = udt_fields tag fs (dict_put (tag @ ''.'' @ field_name f) v d)"

fun multi_to_dict :: "(gofield \<times> goval) list \<Rightarrow> (string \<times> goval) list \<Rightarrow> (string \<times> goval) list" where
  "multi_to_dict [] d = d"
| "multi_to_dict ((f, v) # fs) d =
     (let fulltag = (case gologix_tag f of None \<Rightarrow> [] | Some t \<Rightarrow> t) in
      multi_to_dict fs
        (case v of
           VStruct n ts \<Rightarrow> dict_join d (udt_to_dict fulltag v)
         | VArray t vs \<Rightarrow> d
         | _ \<Rightarrow> dict_put fulltag v d))"

definition write_entry :: "(string \<times> goval) \<times> tagIOI \<Rightarrow> bytes res" where
  "write_entry = (\<lambda>((k, v), ioi).
     attempt ''problem serializing'' (Serialize [v]) (\<lambda>b.
       Inr (msgCIPMultiIOIHeader CIPService_Write ioi @ ioi_Buffer ioi
         @ msgCIPWriteIOIFooter (ucast (fst (GoVarToCIPType v))) 1 @ b)))"

text \<open>The reply is received and not looked at.\<close>

definition WriteMap :: "(string \<times> goval) list \<Rightarrow> unit cact" where
  "WriteMap m =
     cbind (new_iois (map (\<lambda>(k, v). tag_of k v) m)) (\<lambda>iois.
     cbind next_sequence (\<lambda>sq.
     cres (map_res write_entry (zip m iois)) (\<lambda>entries.
     cbind (send_unit (multi_request sq entries)) (\<lambda>_. cret ()))))"

text \<open>\<open>order\<close> is the order in which the loop over the map meets its entries.\<close>

definition WriteMulti :: "((string \<times> goval) list \<Rightarrow> (string \<times> goval) list) \<Rightarrow> goval \<Rightarrow> unit cact" where
  "WriteMulti order value =
     cwrap ''could not start multi write'' checkConn (\<lambda>_.
       case value of
         VStruct n fs \<Rightarrow> WriteMap (order (multi_to_dict fs []))
       | _ \<Rightarrow> cfail (Msg ''value must be a struct with gologix tags''))"

section \<open>ReadPacked\<close>

text \<open>
  It reads through a pointer to a byte slice, for which \<^verbatim>\<open>Read\<close> falls back to reading a
  structure and unpacking it element by element.
\<close>

definition ReadPacked :: "gotype \<Rightarrow> string \<Rightarrow> goval cact" where
  "ReadPacked t tag =
     cres (Pack (zero_val t)) (\<lambda>(_, size).
     cwrap ''couldn't read as bytes''
       (cwrap ''could not start read'' checkConn (\<lambda>_.
        cbind (Read_single tag CIPTypeStruct 1) (\<lambda>val.
          case bytes_of_slice val of
            None \<Rightarrow> cfail (Msg ''couldn't convert to byte slice'')
          | Some b \<Rightarrow> cneed ''couldn't parse str data'' (unpack_slice TUint8 size 0 b) (\<lambda>(vs, _). cret vs)))) (\<lambda>vs.
     cneed ''problem unpacking from buffer''
       (Unpack t (map (\<lambda>v. case v of VUint8 b \<Rightarrow> b | _ \<Rightarrow> 0) vs)) (\<lambda>(v, _). cret v)))"

section \<open>What a refused write is reported as\<close>

definition write_reply_body :: "u16 \<Rightarrow> cip_service \<Rightarrow> u8 \<Rightarrow> u8 \<Rightarrow> bytes \<Rightarrow> bytes" where
  "write_reply_body sq service st extended rest = put16 sq @ [service, 0, st, extended] @ rest"

lemma write_reply_status:
  assumes "eh_Status hdr = 0" "length rest < 60000"
  shows "write_reply hdr (connected_reply i (write_reply_body sq service st extended rest)) = Inr () \<longleftrightarrow> st = CIPStatus_OK"
proof -
  let ?body = "write_reply_body sq service st extended rest"
  have "reply_items (connected_reply i ?body) = Inr [item_Write (put32 i) (empty_item cipItem_ConnectionAddress),
      item_Write ?body (empty_item cipItem_ConnectedData)]"
    using assms(2) by (intro reply_items_connected) (simp add: write_reply_body_def)
  moreover have "\<exists>it1. item_ReadFull 6 (item_Write ?body (empty_item cipItem_ConnectedData))
      = Inr (put16 sq @ [service, 0, st, extended], it1)"
    by (simp add: write_reply_body_def item_ReadFull_def item_Read_def item_Write_def empty_item_def Let_def)
  ultimately show ?thesis
    using assms(1)
    by (cases "item_ReadFull 2 (item_Write ?body (empty_item cipItem_ConnectedData))")
      (auto simp: write_reply_def item1_def fld8_def split: if_splits sum.splits simp: attempt_def)
qed

text \<open>A client that awaits exactly one reply; making paths does not use it up.\<close>

definition awaits :: "eipHeader \<Rightarrow> bytes \<Rightarrow> Client \<Rightarrow> bool" where
  "awaits hdr reply c \<longleftrightarrow> c_conn c \<and> c_socket c = [] \<and> c_script c = [Some (eip_frame hdr reply)]
     \<and> c_knownFirmware c \<noteq> 0"

lemma c_newIOI_awaits: "awaits hdr reply c \<Longrightarrow> c_newIOI t d c = (r, c') \<Longrightarrow> awaits hdr reply c'"
  by (auto simp: awaits_def c_newIOI_known split: sum.splits prod.splits)

lemma new_iois_awaits: "awaits hdr reply c \<Longrightarrow> new_iois tags c = (r, c') \<Longrightarrow> awaits hdr reply c'"
proof (induction tags arbitrary: c r)
  case (Cons tag tags)
  obtain q c1 where c1: "c_newIOI (td_TagName tag) (td_TagType tag) c = (q, c1)" by force
  obtain q' c2 where c2: "new_iois tags c1 = (q', c2)" by force
  show ?case
    using Cons.prems(2) c1 c2 c_newIOI_awaits[OF Cons.prems(1) c1] Cons.IH[of c1 q']
    by (auto simp: cbind_def cret_def split: sum.splits)
qed (simp add: cret_def)

lemma send_unit_awaits:
  assumes "awaits hdr reply c" "length reply < 65536"
  shows "\<exists>c'. send_unit it c = (Inr (hdr\<lparr>eh_Length := of_nat (length reply)\<rparr>, reply), c')"
  using send_unit_answered[of c hdr reply "[]" it] assms by (auto simp: awaits_def)

lemma write_sent_refused:
  assumes "awaits hdr reply c" "length reply < 65536" "write_reply (hdr\<lparr>eh_Length := of_nat (length reply)\<rparr>) reply \<noteq> Inr ()"
  shows "cbind (send_unit it) (\<lambda>(hdr, data). cres (write_reply hdr data) cret) c \<noteq> (Inr (), c')"
  using send_unit_awaits[OF assms(1,2), of it] assms(3) by (auto simp: cbind_def)

lemma next_sequence_awaits: "awaits hdr reply c \<Longrightarrow> next_sequence c = (r, c') \<Longrightarrow> awaits hdr reply c'"
  by (auto simp: awaits_def next_sequence_def Let_def split: prod.splits)

lemma write_single_refused:
  assumes "awaits hdr reply c" "length reply < 65536" "write_reply (hdr\<lparr>eh_Length := of_nat (length reply)\<rparr>) reply \<noteq> Inr ()"
  shows "write_single tag v c \<noteq> (Inr (), c')"
proof
  assume "write_single tag v c = (Inr (), c')"
  then obtain d ioi c1 sq c2 it where "c_newIOI tag d c = (Inr ioi, c1)" "next_sequence c1 = (Inr sq, c2)"
    and sent: "cbind (send_unit it) (\<lambda>(hdr, data). cres (write_reply hdr data) cret) c2 = (Inr (), c')"
    unfolding write_single_def Let_def cwrap_Inr cbind_Inr[of next_sequence] cneed_Inr by blast
  then have "awaits hdr reply c2" using assms(1) by (blast intro: c_newIOI_awaits next_sequence_awaits)
  with sent show False using write_sent_refused[OF _ assms(2,3)] by blast
qed

lemma write_udt_refused:
  assumes "awaits hdr reply c" "length reply < 65536" "write_reply (hdr\<lparr>eh_Length := of_nat (length reply)\<rparr>) reply \<noteq> Inr ()"
  shows "write_udt crc16 tag v c \<noteq> (Inr (), c')"
proof
  assume "write_udt crc16 tag v c = (Inr (), c')"
  then obtain d ioi c1 sq c2 it where "c_newIOI tag d c = (Inr ioi, c1)" "next_sequence c1 = (Inr sq, c2)"
    and sent: "cbind (send_unit it) (\<lambda>(hdr, data). cres (write_reply hdr data) cret) c2 = (Inr (), c')"
    unfolding write_udt_def Let_def cwrap_Inr cbind_Inr[of next_sequence] cneed_Inr case_prod_beta by blast
  then have "awaits hdr reply c2" using assms(1) by (blast intro: c_newIOI_awaits next_sequence_awaits)
  with sent show False using write_sent_refused[OF _ assms(2,3)] by blast
qed

text \<open>
  A controller that refuses a write: \<^verbatim>\<open>Write\<close> reports it.  \<^verbatim>\<open>WriteMap\<close>
  does not: it succeeds on the same reply, as on every reply, whenever the request could be built.
\<close>

theorem refused_write_reported:
  assumes "c_Connected c" "awaits hdr reply c" "eh_Status hdr = 0" "length rest < 60000" "st \<noteq> CIPStatus_OK"
    and "reply = connected_reply i (write_reply_body sq service st extended rest)"
  shows "fst (Write crc16 tag v c) \<noteq> Inr () \<and>
    (fst (WriteMap m c) = Inr () \<longleftrightarrow>
      (\<exists>iois entries. fst (new_iois (map (\<lambda>(k, v). tag_of k v) m) c) = Inr iois
        \<and> map_res write_entry (zip m iois) = Inr entries))"
proof (rule conjI)
  have len: "length reply < 65536"
    using assms(4) by (simp add: assms(6) length_connected_reply write_reply_body_def)
  have no: "write_reply (hdr\<lparr>eh_Length := of_nat (length reply)\<rparr>) reply \<noteq> Inr ()"
    using write_reply_status[of "hdr\<lparr>eh_Length := of_nat (length reply)\<rparr>" rest i sq service st extended] assms(3-6) by simp
  have "Write crc16 tag v c \<noteq> (Inr (), c')" for c'
    using write_single_refused[OF assms(2) len no] write_udt_refused[OF assms(2) len no] assms(1)
    by (auto simp: Write_def checkConn_def cwrap_def split: goval.split)
  then show "fst (Write crc16 tag v c) \<noteq> Inr ()"
    by (metis prod.collapse)
  obtain r c1 where c1: "new_iois (map (\<lambda>(k, v). tag_of k v) m) c = (r, c1)" by force
  have sent: "\<exists>h c'. send_unit it (c1\<lparr>c_sequenceValue := q\<rparr>) = (Inr h, c')" for it q
    using send_unit_awaits[OF _ len, of hdr "c1\<lparr>c_sequenceValue := q\<rparr>" it] new_iois_awaits[OF assms(2) c1]
    by (auto simp: awaits_def)
  show "fst (WriteMap m c) = Inr () \<longleftrightarrow>
      (\<exists>iois entries. fst (new_iois (map (\<lambda>(k, v). tag_of k v) m) c) = Inr iois
        \<and> map_res write_entry (zip m iois) = Inr entries)"
  proof (cases r)
    case (Inr iois)
    show ?thesis
    proof (cases "map_res write_entry (zip m iois)")
      case (Inr entries)
      obtain h c' where "send_unit (multi_request (ucast (fst (sequencer (c_sequenceValue c1)))) entries)
          (c1\<lparr>c_sequenceValue := snd (sequencer (c_sequenceValue c1))\<rparr>) = (Inr h, c')" using sent by blast
      then show ?thesis
        using Inr \<open>r = Inr iois\<close> c1
        by (simp add: WriteMap_def cbind_def next_sequence_def Let_def case_prod_unfold cret_def)
    qed (use Inr c1 in \<open>simp add: WriteMap_def cbind_def next_sequence_def Let_def case_prod_unfold cfail_def\<close>)
  qed (use c1 in \<open>simp add: WriteMap_def cbind_def\<close>)
qed

definition demo_refusal :: bytes where
  "demo_refusal = connected_reply 9 (write_reply_body 1 0xCD 5 0 [])"

theorem refused_write_reported_witness:
  "fst (Write (\<lambda>_. 0) ''abc'' (VInt32 5) (demo_reader [Some (eip_frame demo_reply_header demo_refusal)])) \<noteq> Inr ()
   \<and> fst (WriteMap [(''abc'', VInt32 5)] (demo_reader [Some (eip_frame demo_reply_header demo_refusal)])) = Inr ()"
proof -
  let ?c = "demo_reader [Some (eip_frame demo_reply_header demo_refusal)]"
  have "c_Connected ?c" "awaits demo_reply_header demo_refusal ?c"
    by (simp_all add: demo_reader_def demo_client_def awaits_def c_Connected_def)
  note refused = refused_write_reported[OF this, of "[]" 5 9 1 "0xCD" 0]
  have "new_iois (map (\<lambda>(k, v). tag_of k v) [(''abc'', VInt32 5)]) ?c = (Inr [demo_path], ?c)"
    by (simp add: tag_of_def cbind_def demo_newIOI cret_def)
  moreover have "\<exists>entries. map_res write_entry (zip [(''abc'', VInt32 5)] [demo_path]) = Inr entries"
    by (simp add: write_entry_def binary_write_def)
  ultimately show ?thesis
    using refused by (simp add: demo_reply_header_def demo_refusal_def)
qed

end
