(* ===== verification/Server_Connections.thy ===== *)
theory Server_Connections
  imports Gologix_Prelude "HOL-Library.Multiset"
begin

text \<open>
  \<^verbatim>\<open>server_connections.go\<close>: the table of open CIP connections.  Connections are shared
  by pointer (an I/O loop keeps the pointer and watches its \<^verbatim>\<open>Open\<close> flag), so the
  table is a list of addresses into a store of connection records; closing a connection clears
  the flag in the store and takes the address out of the list by moving the last one into its
  place.
\<close>

record serverConnection =
  conn_ID :: u16
  conn_OT :: u32
  conn_TO :: u32
  conn_RPI :: u32
  conn_Path :: bytes
  conn_Open :: bool

type_synonym conn_addr = nat

record serverConnectionManager =
  Connections :: "conn_addr list"
  conn_store :: "conn_addr \<Rightarrow> serverConnection"
  conn_next :: conn_addr

section \<open>Operations\<close>

definition cm_Init :: "serverConnectionManager \<Rightarrow> serverConnectionManager" where
  "cm_Init cm = cm\<lparr>Connections := []\<rparr>"

text \<open>\<^verbatim>\<open>&serverConnection{...}\<close> followed by \<^verbatim>\<open>Add\<close>: a fresh address.\<close>

definition cm_Add :: "serverConnection \<Rightarrow> serverConnectionManager \<Rightarrow> serverConnectionManager" where
  "cm_Add c cm =
     cm\<lparr>Connections := Connections cm @ [conn_next cm],
        conn_store := (conn_store cm)(conn_next cm := c),
        conn_next := Suc (conn_next cm)\<rparr>"

definition cm_find :: "(serverConnection \<Rightarrow> bool) \<Rightarrow> serverConnectionManager \<Rightarrow> conn_addr option" where
  "cm_find P cm = find (\<lambda>a. P (conn_store cm a)) (Connections cm)"

definition cm_GetByID :: "u16 \<Rightarrow> serverConnectionManager \<Rightarrow> conn_addr res" where
  "cm_GetByID i cm =
     (case cm_find (\<lambda>c. conn_ID c = i) cm of
        Some a \<Rightarrow> Inr a | None \<Rightarrow> Inl (Msg ''couldn't find connection by ID''))"

definition cm_GetByOT :: "u32 \<Rightarrow> serverConnectionManager \<Rightarrow> conn_addr res" where
  "cm_GetByOT i cm =
     (case cm_find (\<lambda>c. conn_OT c = i) cm of
        Some a \<Rightarrow> Inr a | None \<Rightarrow> Inl (Msg ''couldn't find connection by OT''))"

definition cm_GetByTO :: "u32 \<Rightarrow> serverConnectionManager \<Rightarrow> conn_addr res" where
  "cm_GetByTO i cm =
     (case cm_find (\<lambda>c. conn_TO c = i) cm of
        Some a \<Rightarrow> Inr a | None \<Rightarrow> Inl (Msg ''couldn't find connection by TO''))"

text \<open>Index of the first match, as the \<^verbatim>\<open>for i, conn := range\<close> loops find it.\<close>

fun first_index :: "('a \<Rightarrow> bool) \<Rightarrow> 'a list \<Rightarrow> nat option" where
  "first_index P [] = None"
| "first_index P (x # xs) = (if P x then Some 0 else map_option Suc (first_index P xs))"

definition swap_remove :: "nat \<Rightarrow> 'a list \<Rightarrow> 'a list" where
  "swap_remove i xs = butlast (xs[i := last xs])"

definition cm_Close :: "string \<Rightarrow> (serverConnection \<Rightarrow> bool) \<Rightarrow> serverConnectionManager \<Rightarrow> serverConnectionManager res" where
  "cm_Close msg P cm =
     (case first_index (\<lambda>a. P (conn_store cm a)) (Connections cm) of
        None \<Rightarrow> Inl (Msg msg)
      | Some i \<Rightarrow>
          let a = Connections cm ! i;
              cm1 = cm\<lparr>conn_store := (conn_store cm)(a := (conn_store cm a)\<lparr>conn_Open := False\<rparr>)\<rparr>
          in if length (Connections cm) = 1 then Inr (cm1\<lparr>Connections := []\<rparr>)
             else Inr (cm1\<lparr>Connections := swap_remove i (Connections cm)\<rparr>))"

definition cm_CloseByID :: "u16 \<Rightarrow> serverConnectionManager \<Rightarrow> serverConnectionManager res" where
  "cm_CloseByID i = cm_Close ''couldn't find connection by ID'' (\<lambda>c. conn_ID c = i)"

definition cm_CloseByOT :: "u32 \<Rightarrow> serverConnectionManager \<Rightarrow> serverConnectionManager res" where
  "cm_CloseByOT i = cm_Close ''couldn't find connection by OT'' (\<lambda>c. conn_OT c = i)"

definition cm_CloseByTO :: "u32 \<Rightarrow> serverConnectionManager \<Rightarrow> serverConnectionManager res" where
  "cm_CloseByTO i = cm_Close ''couldn't find connection by TO'' (\<lambda>c. conn_TO c = i)"

section \<open>Invariant\<close>

text \<open>
  The addresses in the table are distinct and allocated, and exactly the allocated connections
  whose \<open>Open\<close> flag is set are in it: a table entry is open, and an open connection is listed.
\<close>

definition cm_inv :: "serverConnectionManager \<Rightarrow> bool" where
  "cm_inv cm \<longleftrightarrow>
     distinct (Connections cm) \<and> (\<forall>a\<in>set (Connections cm). a < conn_next cm)
     \<and> (\<forall>a < conn_next cm. conn_Open (conn_store cm a) \<longleftrightarrow> a \<in> set (Connections cm))"

section \<open>Lists\<close>

lemma first_index_Some:
  "first_index P xs = Some i \<Longrightarrow> i < length xs \<and> P (xs ! i) \<and> (\<forall>j<i. \<not> P (xs ! j))"
proof (induction xs arbitrary: i)
  case Nil
  then show ?case by simp
next
  case (Cons x xs)
  then show ?case by (auto simp: nth_Cons split: if_splits nat.splits)
qed

lemma first_index_None: "first_index P xs = None \<longleftrightarrow> (\<forall>x\<in>set xs. \<not> P x)"
  by (induction xs) auto

lemma find_first_index: "find P xs = map_option (\<lambda>i. xs ! i) (first_index P xs)"
  by (induction xs) (auto simp: option.map_comp comp_def)

lemma mset_swap_remove:
  assumes "i < length xs"
  shows "mset (swap_remove i xs) = mset xs - {#xs ! i#}"
proof -
  have ne: "xs[i := last xs] \<noteq> []" "xs \<noteq> []" using assms by auto
  have l: "last (xs[i := last xs]) = last xs"
    using ne(2) by (simp add: last_list_update)
  have "mset (xs[i := last xs]) = add_mset (last xs) (mset xs - {#xs ! i#})"
    using assms by (rule mset_update)
  moreover have "mset (xs[i := last xs]) = add_mset (last xs) (mset (butlast (xs[i := last xs])))"
    using ne(1) l by (metis append_butlast_last_id mset.simps mset_append add_mset_add_single)
  ultimately show ?thesis by (simp add: swap_remove_def)
qed

lemma swap_remove_distinct:
  assumes "i < length xs" "distinct xs"
  shows "distinct (swap_remove i xs)" and "set (swap_remove i xs) = set xs - {xs ! i}"
proof -
  have m: "mset (swap_remove i xs) = mset xs - {#xs ! i#}" by (rule mset_swap_remove [OF assms(1)])
  have e: "mset (swap_remove i xs) = mset (remove1 (xs ! i) xs)"
    unfolding m by (rule mset_remove1 [symmetric])
  show "distinct (swap_remove i xs)"
    using mset_eq_imp_distinct_iff[OF e] assms(2) by simp
  show "set (swap_remove i xs) = set xs - {xs ! i}"
    using mset_eq_setD[OF e] assms(2) by simp
qed

section \<open>Closing\<close>

lemma cm_Close_Inr:
  assumes "cm_Close msg P cm = Inr cm'"
  obtains i where "first_index (\<lambda>a. P (conn_store cm a)) (Connections cm) = Some i"
    "i < length (Connections cm)"
    "Connections cm' = (if length (Connections cm) = 1 then [] else swap_remove i (Connections cm))"
    "conn_store cm' = (conn_store cm)(Connections cm ! i :=
       (conn_store cm (Connections cm ! i))\<lparr>conn_Open := False\<rparr>)"
    "conn_next cm' = conn_next cm"
proof -
  from assms obtain i where i: "first_index (\<lambda>a. P (conn_store cm a)) (Connections cm) = Some i"
    by (auto simp: cm_Close_def split: option.splits)
  show thesis
    by (rule that[OF i]) (use assms i first_index_Some[OF i] in \<open>auto simp: cm_Close_def Let_def split: if_splits\<close>)
qed

lemma singleton_remove: "length xs = 1 \<Longrightarrow> i < length xs \<Longrightarrow> set xs - {xs ! i} = {}"
  by (cases xs) auto

lemma cm_Close_spec:
  assumes "cm_inv cm" "cm_Close msg P cm = Inr cm'"
  shows "\<exists>a. cm_find P cm = Some a \<and> a \<in> set (Connections cm)
    \<and> set (Connections cm') = set (Connections cm) - {a} \<and> distinct (Connections cm')
    \<and> conn_store cm' = (conn_store cm)(a := (conn_store cm a)\<lparr>conn_Open := False\<rparr>)
    \<and> conn_next cm' = conn_next cm"
proof -
  from assms(2) obtain i where i: "first_index (\<lambda>a. P (conn_store cm a)) (Connections cm) = Some i"
    "i < length (Connections cm)"
    "Connections cm' = (if length (Connections cm) = 1 then [] else swap_remove i (Connections cm))"
    "conn_store cm' = (conn_store cm)(Connections cm ! i :=
       (conn_store cm (Connections cm ! i))\<lparr>conn_Open := False\<rparr>)"
    "conn_next cm' = conn_next cm"
    by (rule cm_Close_Inr)
  have d: "distinct (Connections cm)" using assms(1) by (simp add: cm_inv_def)
  note sr = swap_remove_distinct[OF i(2) d]
  have "set (Connections cm') = set (Connections cm) - {Connections cm ! i}"
    using i(3) sr(2) singleton_remove[OF _ i(2)] by simp
  moreover have "distinct (Connections cm')" using i(3) sr(1) by simp
  moreover have "cm_find P cm = Some (Connections cm ! i)"
    using i(1) by (simp add: cm_find_def find_first_index)
  ultimately show ?thesis using i by (intro exI[of _ "Connections cm ! i"]) auto
qed

lemma cm_inv_Init: "(\<forall>a < conn_next cm. \<not> conn_Open (conn_store cm a)) \<Longrightarrow> cm_inv (cm_Init cm)"
  by (simp add: cm_inv_def cm_Init_def)

lemma cm_inv_Add: "cm_inv cm \<Longrightarrow> conn_Open c \<Longrightarrow> cm_inv (cm_Add c cm)"
  by (auto simp: cm_inv_def cm_Add_def less_Suc_eq)

lemma cm_inv_Close: "cm_inv cm \<Longrightarrow> cm_Close msg P cm = Inr cm' \<Longrightarrow> cm_inv cm'"
proof -
  assume inv: "cm_inv cm" and close: "cm_Close msg P cm = Inr cm'"
  obtain a where a: "a \<in> set (Connections cm)" "set (Connections cm') = set (Connections cm) - {a}"
    "distinct (Connections cm')" "conn_next cm' = conn_next cm"
    "conn_store cm' = (conn_store cm)(a := (conn_store cm a)\<lparr>conn_Open := False\<rparr>)"
    using cm_Close_spec[OF inv close] by blast
  then have "conn_Open (conn_store cm' b) \<longleftrightarrow> b \<noteq> a \<and> conn_Open (conn_store cm b)" for b by simp
  with inv a show ?thesis by (simp add: cm_inv_def) blast
qed

lemma cm_Close_Inl_iff: "(\<exists>e. cm_Close msg P cm = Inl e) \<longleftrightarrow> cm_find P cm = None"
  by (auto simp: cm_Close_def Let_def cm_find_def find_first_index split: option.splits)

lemma find_app: "find P (xs @ ys) = (case find P xs of Some x \<Rightarrow> Some x | None \<Rightarrow> find P ys)"
  by (induction xs) auto

lemma cm_find_Add:
  assumes "cm_inv cm"
  shows "cm_find P (cm_Add c cm) =
     (case cm_find P cm of Some a \<Rightarrow> Some a | None \<Rightarrow> if P c then Some (conn_next cm) else None)"
proof -
  have "find (\<lambda>a. P (((conn_store cm)(conn_next cm := c)) a)) (Connections cm)
      = find (\<lambda>a. P (conn_store cm a)) (Connections cm)"
    using assms by (intro find_cong refl) (auto simp: cm_inv_def)
  then show ?thesis
    by (auto simp: cm_find_def cm_Add_def find_app split: option.splits)
qed

lemma cm_find_Some: "cm_find P cm = Some a \<Longrightarrow> a \<in> set (Connections cm) \<and> P (conn_store cm a)"
  by (auto simp: cm_find_def find_Some_iff)

lemma cm_find_None: "cm_find P cm = None \<Longrightarrow> a \<in> set (Connections cm) \<Longrightarrow> \<not> P (conn_store cm a)"
  by (auto simp: cm_find_def find_None_iff)

section \<open>The interface the handlers rely on\<close>

text \<open>
  A registry of live entries with lookup and removal by a property of the entry.  What a client
  may conclude, in particular about a key that no two live entries share, is proved once.
\<close>

locale conn_registry =
  fixes inv :: "'m \<Rightarrow> bool"
    and live :: "'m \<Rightarrow> 'a set"
    and info :: "'m \<Rightarrow> 'a \<Rightarrow> 'c"
    and lookup :: "('c \<Rightarrow> bool) \<Rightarrow> 'm \<Rightarrow> 'a option"
    and add :: "'c \<Rightarrow> 'm \<Rightarrow> 'm"
    and close :: "('c \<Rightarrow> bool) \<Rightarrow> 'm \<Rightarrow> 'm res"
    and addable :: "'c \<Rightarrow> bool"
  assumes lookup_Some: "lookup P m = Some a \<Longrightarrow> a \<in> live m \<and> P (info m a)"
    and lookup_None: "lookup P m = None \<Longrightarrow> a \<in> live m \<Longrightarrow> \<not> P (info m a)"
    and inv_add: "inv m \<Longrightarrow> addable c \<Longrightarrow> inv (add c m)"
    and inv_close: "inv m \<Longrightarrow> close P m = Inr m' \<Longrightarrow> inv m'"
    and lookup_add: "inv m \<Longrightarrow> lookup P m = None \<Longrightarrow> P c \<Longrightarrow>
      \<exists>a. lookup P (add c m) = Some a \<and> info (add c m) a = c"
    and lookup_add_other: "inv m \<Longrightarrow> lookup P m = Some a \<Longrightarrow> lookup P (add c m) = Some a"
    and close_Inr: "inv m \<Longrightarrow> close P m = Inr m' \<Longrightarrow>
      \<exists>a. lookup P m = Some a \<and> live m' = live m - {a} \<and> (\<forall>b\<in>live m'. info m' b = info m b)"
    and close_Inl: "(\<exists>e. close P m = Inl e) = (lookup P m = None)"
begin

definition unique_key :: "('c \<Rightarrow> 'k) \<Rightarrow> 'm \<Rightarrow> bool" where
  "unique_key k m \<longleftrightarrow> inj_on (\<lambda>a. k (info m a)) (live m)"

lemma unique_key_close:
  assumes "inv m" "unique_key k m" "close P m = Inr m'"
  shows "unique_key k m'"
proof -
  obtain a where "live m' = live m - {a}" "\<forall>b\<in>live m'. info m' b = info m b"
    using close_Inr[OF assms(1,3)] by blast
  then show ?thesis using assms(2) by (auto simp: unique_key_def inj_on_def)
qed

lemma closed_is_gone:
  assumes "inv m" "unique_key k m" "close (\<lambda>c. k c = x) m = Inr m'"
  shows "lookup (\<lambda>c. k c = x) m' = None"
proof (rule ccontr)
  assume "lookup (\<lambda>c. k c = x) m' \<noteq> None"
  then obtain b where b: "lookup (\<lambda>c. k c = x) m' = Some b" by auto
  obtain a where a: "lookup (\<lambda>c. k c = x) m = Some a" "live m' = live m - {a}"
    "\<forall>b\<in>live m'. info m' b = info m b"
    using close_Inr[OF assms(1,3)] by blast
  have "b \<in> live m'" "k (info m' b) = x" using lookup_Some[OF b] by auto
  moreover have "a \<in> live m" "k (info m a) = x" using lookup_Some[OF a(1)] by auto
  ultimately show False using assms(2) a by (auto simp: unique_key_def inj_on_def)
qed

lemma close_keeps_others:
  assumes "inv m" "unique_key k m" "close (\<lambda>c. k c = x) m = Inr m'" "a \<in> live m" "k (info m a) \<noteq> x"
  shows "a \<in> live m' \<and> info m' a = info m a"
proof -
  obtain b where b: "lookup (\<lambda>c. k c = x) m = Some b" "live m' = live m - {b}"
    "\<forall>b\<in>live m'. info m' b = info m b"
    using close_Inr[OF assms(1,3)] by blast
  then show ?thesis using lookup_Some[OF b(1)] assms(4,5) by auto
qed

end

interpretation cm: conn_registry cm_inv "\<lambda>cm. set (Connections cm)" conn_store cm_find cm_Add
  "cm_Close msg" conn_Open for msg
proof unfold_locales
  fix P :: "serverConnection \<Rightarrow> bool" and m c
  assume "cm_inv m" "cm_find P m = None" "P c"
  then show "\<exists>a. cm_find P (cm_Add c m) = Some a \<and> conn_store (cm_Add c m) a = c"
    by (simp add: cm_find_Add) (simp add: cm_Add_def)
next
  fix P :: "serverConnection \<Rightarrow> bool" and m m'
  assume "cm_inv m" "cm_Close msg P m = Inr m'"
  then show "\<exists>a. cm_find P m = Some a \<and> set (Connections m') = set (Connections m) - {a} \<and>
      (\<forall>b\<in>set (Connections m'). conn_store m' b = conn_store m b)"
    using cm_Close_spec by fastforce
qed (auto simp: cm_find_Some cm_find_None cm_inv_Add cm_find_Add cm_Close_Inl_iff intro: cm_inv_Close)

section \<open>What the table promises\<close>

text \<open>The life of a table: it starts empty and connections are added and closed.\<close>

definition cm_empty :: serverConnectionManager where
  "cm_empty = cm_Init \<lparr>Connections = [], conn_store = (\<lambda>_. \<lparr>conn_ID = 0, conn_OT = 0,
     conn_TO = 0, conn_RPI = 0, conn_Path = [], conn_Open = False\<rparr>), conn_next = 0\<rparr>"

inductive cm_reachable :: "serverConnectionManager \<Rightarrow> bool" where
  init: "cm_reachable cm_empty"
| add: "cm_reachable cm \<Longrightarrow> conn_Open c \<Longrightarrow> cm_reachable (cm_Add c cm)"
| close_ID: "cm_reachable cm \<Longrightarrow> cm_CloseByID i cm = Inr cm' \<Longrightarrow> cm_reachable cm'"
| close_OT: "cm_reachable cm \<Longrightarrow> cm_CloseByOT j cm = Inr cm' \<Longrightarrow> cm_reachable cm'"
| close_TO: "cm_reachable cm \<Longrightarrow> cm_CloseByTO j cm = Inr cm' \<Longrightarrow> cm_reachable cm'"

lemmas cm_close_defs = cm_CloseByID_def cm_CloseByOT_def cm_CloseByTO_def

lemma cm_reachable_inv: "cm_reachable cm \<Longrightarrow> cm_inv cm"
proof (induction rule: cm_reachable.induct)
  case init
  then show ?case by (simp add: cm_empty_def cm_inv_Init)
qed (auto simp: cm_inv_Add cm_close_defs intro: cm_inv_Close)

text \<open>
  In every table that can arise, no connection is listed twice, the listed connections are
  exactly the open ones, and a lookup by originator id that succeeds returns an open connection
  with that id: what an I/O loop watches and what the table lists never disagree.
\<close>

theorem reachable_table_consistent:
  assumes "cm_reachable cm"
  shows "distinct (Connections cm)
    \<and> (\<forall>a < conn_next cm. conn_Open (conn_store cm a) \<longleftrightarrow> a \<in> set (Connections cm))
    \<and> (\<forall>i a. cm_GetByOT i cm = Inr a \<longrightarrow> conn_OT (conn_store cm a) = i \<and> conn_Open (conn_store cm a))"
  using cm_reachable_inv[OF assms] cm_find_Some
  by (fastforce simp: cm_inv_def cm_GetByOT_def split: option.splits)

definition demo_conn :: "u16 \<Rightarrow> u32 \<Rightarrow> serverConnection" where
  "demo_conn i ot = \<lparr>conn_ID = i, conn_OT = ot, conn_TO = 7, conn_RPI = 1000, conn_Path = [1, 0], conn_Open = True\<rparr>"

theorem reachable_table_consistent_witness:
  "\<exists>cm. cm_CloseByID 1 (cm_Add (demo_conn 2 20) (cm_Add (demo_conn 1 10) cm_empty)) = Inr cm
     \<and> distinct (Connections cm) \<and> Connections cm = [1]"
proof -
  let ?cm2 = "cm_Add (demo_conn 2 20) (cm_Add (demo_conn 1 10) cm_empty)"
  obtain cm where cm: "cm_CloseByID 1 ?cm2 = Inr cm" and l: "Connections cm = [1]"
    by (simp add: cm_CloseByID_def cm_Close_def cm_Add_def cm_empty_def cm_Init_def demo_conn_def
        swap_remove_def Let_def)
  have "cm_reachable ?cm2"
    by (intro cm_reachable.add cm_reachable.init) (simp_all add: demo_conn_def)
  then have "cm_reachable cm" using cm by (rule cm_reachable.close_ID)
  from reachable_table_consistent[OF this] cm l show ?thesis by auto
qed

text \<open>
  Closing by connection id, in a table where no two open connections share an id: the id is
  no longer found, every other connection stays open and unchanged, and closing the same id again
  is an error.
\<close>

theorem close_removes_exactly_one:
  assumes "cm_reachable cm" "inj_on (\<lambda>a. conn_ID (conn_store cm a)) (set (Connections cm))"
    and "cm_CloseByID i cm = Inr cm'"
  shows "(\<exists>e. cm_GetByID i cm' = Inl e) \<and> (\<exists>e. cm_CloseByID i cm' = Inl e)
    \<and> (\<forall>a\<in>set (Connections cm). conn_ID (conn_store cm a) \<noteq> i \<longrightarrow>
         a \<in> set (Connections cm') \<and> conn_store cm' a = conn_store cm a)"
proof -
  have inv: "cm_inv cm" using assms(1) by (rule cm_reachable_inv)
  have u: "cm.unique_key conn_ID cm" using assms(2) by (simp add: cm.unique_key_def)
  note close = assms(3)[unfolded cm_CloseByID_def]
  have gone: "cm_find (\<lambda>c. conn_ID c = i) cm' = None"
    by (rule cm.closed_is_gone [OF inv u close])
  moreover have "\<exists>e. cm_CloseByID i cm' = Inl e"
    unfolding cm_CloseByID_def using cm.close_Inl gone by blast
  ultimately show ?thesis
    using cm.close_keeps_others[OF inv u close] by (auto simp: cm_GetByID_def)
qed

theorem close_removes_exactly_one_witness:
  "\<exists>cm. cm_CloseByID 1 (cm_Add (demo_conn 2 20) (cm_Add (demo_conn 1 10) cm_empty)) = Inr cm
     \<and> (\<exists>e. cm_GetByID 1 cm = Inl e)"
proof -
  let ?cm2 = "cm_Add (demo_conn 2 20) (cm_Add (demo_conn 1 10) cm_empty)"
  obtain cm where cm: "cm_CloseByID 1 ?cm2 = Inr cm"
    by (simp add: cm_CloseByID_def cm_Close_def cm_Add_def cm_empty_def cm_Init_def demo_conn_def Let_def)
  have r: "cm_reachable ?cm2"
    by (intro cm_reachable.add cm_reachable.init) (simp_all add: demo_conn_def)
  have "inj_on (\<lambda>a. conn_ID (conn_store ?cm2 a)) (set (Connections ?cm2))"
    by (simp add: cm_Add_def cm_empty_def cm_Init_def demo_conn_def)
  from close_removes_exactly_one[OF r this cm] cm show ?thesis by blast
qed

end
