(* ===== verification/Server_Router.thy ===== *)
theory Server_Router
  imports Cip_Pack Cip_Types "HOL-Library.AList"
begin

text \<open>
  \<^verbatim>\<open>server_router.go\<close> and \<^verbatim>\<open>server_io.go\<close>: the router from CIP
  paths to endpoints, and the two endpoints the library ships.  A
  \<^verbatim>\<open>MapTagProvider\<close> keeps named values and answers tag reads and writes; an
  \<^verbatim>\<open>IOProvider\<close> packs one struct for the controller and unpacks another from it.

  A \<^verbatim>\<open>map[string]any\<close> is an association list with distinct keys (its order is what
  one \<^verbatim>\<open>range\<close> over it would see).  Slices are kept by value: each tag owns its
  backing array, as it does when the values come from the network.
\<close>

section \<open>Integer values\<close>

fun int_of_val :: "goval \<Rightarrow> int option" where
  "int_of_val (VUint8 w) = Some (uint w)"
| "int_of_val (VInt8 w) = Some (sint w)"
| "int_of_val (VUint16 w) = Some (uint w)"
| "int_of_val (VInt16 w) = Some (sint w)"
| "int_of_val (VUint32 w) = Some (uint w)"
| "int_of_val (VInt32 w) = Some (sint w)"
| "int_of_val (VUint64 w) = Some (uint w)"
| "int_of_val (VInt64 w) = Some (sint w)"
| "int_of_val (VUint w) = Some (uint w)"
| "int_of_val (VInt w) = Some (sint w)"
| "int_of_val _ = None"

text \<open>Conversion to an integer type keeps the low bits.\<close>

fun val_of_int :: "gotype \<Rightarrow> int \<Rightarrow> goval option" where
  "val_of_int TUint8 i = Some (VUint8 (of_int i))"
| "val_of_int TInt8 i = Some (VInt8 (of_int i))"
| "val_of_int TUint16 i = Some (VUint16 (of_int i))"
| "val_of_int TInt16 i = Some (VInt16 (of_int i))"
| "val_of_int TUint32 i = Some (VUint32 (of_int i))"
| "val_of_int TInt32 i = Some (VInt32 (of_int i))"
| "val_of_int TUint64 i = Some (VUint64 (of_int i))"
| "val_of_int TInt64 i = Some (VInt64 (of_int i))"
| "val_of_int TUint i = Some (VUint (of_int i))"
| "val_of_int TInt i = Some (VInt (of_int i))"
| "val_of_int _ i = None"

text \<open>\<^verbatim>\<open>string(rune(i))\<close>: the UTF-8 encoding, or that of U+FFFD for a number that is no character.\<close>

definition rune_string :: "int \<Rightarrow> string" where
  "rune_string i =
     (let n = (if 0 \<le> i \<and> i \<le> 0x10FFFF \<and> \<not> (0xD800 \<le> i \<and> i \<le> 0xDFFF) then nat i else 0xFFFD);
          tail = (\<lambda>k. char_of (128 + n div 64 ^ k mod 64)) in
      if n < 0x80 then [char_of n]
      else if n < 0x800 then [char_of (192 + n div 64), tail 0]
      else if n < 0x10000 then [char_of (224 + n div 4096), tail 1, tail 0]
      else [char_of (240 + n div 262144), tail 2, tail 1, tail 0])"

fun is_float :: "gotype \<Rightarrow> bool" where
  "is_float TFloat32 = True"
| "is_float TFloat64 = True"
| "is_float _ = False"

fun is_composite :: "gotype \<Rightarrow> bool" where
  "is_composite (TSlice _) = True"
| "is_composite (TArray _ _) = True"
| "is_composite (TStruct _ _) = True"
| "is_composite TAny = True"
| "is_composite _ = False"

definition is_numeric :: "gotype \<Rightarrow> bool" where
  "is_numeric t = (is_float t \<or> val_of_int t 0 \<noteq> None)"

section \<open>Converting to the element type of an array\<close>

text \<open>
  \<^verbatim>\<open>convertToElement\<close>.  The parameter \<open>fconv\<close> is \<^verbatim>\<open>reflect.Value.Convert\<close>
  where a floating-point type is involved (rounding, and the platform's answer out of range) or a
  composite type is; \<^const>\<open>None\<close> where \<^verbatim>\<open>ConvertibleTo\<close> says no.
\<close>

type_synonym go_convert = "goval \<Rightarrow> gotype \<Rightarrow> goval option"

definition convertToElement :: "go_convert \<Rightarrow> goval \<Rightarrow> gotype \<Rightarrow> goval res" where
  "convertToElement fconv value target =
     (let no = Inl (Msg ''cannot convert'');
          other = (case fconv value target of Some v \<Rightarrow> Inr v | None \<Rightarrow> no) in
      if value = VNil then Inl (Panic ''reflect: call of Value.Type on zero Value'')
      else if typeof value = target \<or> target = TAny then Inr value
      else case int_of_val value of
        Some i \<Rightarrow>
          (case val_of_int target i of
             Some v \<Rightarrow> Inr v
           | None \<Rightarrow> if target = TString then Inr (VString (rune_string i))
                     else if is_float target then other else no)
      | None \<Rightarrow>
          if is_float (typeof value) \<and> is_numeric target \<or> is_composite (typeof value) \<or> is_composite target
          then other else no)"

text \<open>What is asked of the parameter: the result of a conversion has the target type.\<close>

definition converts :: "go_convert \<Rightarrow> bool" where
  "converts fconv \<longleftrightarrow> (\<forall>v t w. fconv v t = Some w \<longrightarrow> typeof w = t \<and> wt w)"

section \<open>MapTagProvider\<close>

record MapTagProvider =
  mp_Data :: "(string \<times> goval) list"

definition parseElementTag :: "string \<Rightarrow> string \<times> int \<times> bool" where
  "parseElementTag tag =
     (if \<not> has_suffix_char tag CHR '']'' then (tag, 0, False)
      else case strings_LastIndex tag CHR ''['' of
        None \<Rightarrow> (tag, 0, False)
      | Some op \<Rightarrow>
          (case atoi (butlast (drop (op + 1) tag)) of
             None \<Rightarrow> (tag, 0, False)
           | Some n \<Rightarrow> (take op tag, n, True)))"

text \<open>\<^verbatim>\<open>reflect.Value.Slice(i, j)\<close> of a slice: out of bounds is a panic.\<close>

definition reflect_Slice :: "gotype \<Rightarrow> goval list \<Rightarrow> int \<Rightarrow> int \<Rightarrow> goval res" where
  "reflect_Slice t vs i j =
     (if i < 0 \<or> j < i \<or> j > int (length vs) then Inl (Panic ''reflect.Value.Slice: slice index out of bounds'')
      else Inr (VSlice t (take (nat (j - i)) (drop (nat i) vs))))"

text \<open>\<^verbatim>\<open>qty\<close> is an \<^verbatim>\<open>int16\<close>; the result is the value and the provider is unchanged.\<close>

definition mp_TagRead :: "string \<Rightarrow> u16 \<Rightarrow> MapTagProvider \<Rightarrow> goval res" where
  "mp_TagRead tag0 qty p =
     (let tag = strings_ToLower tag0; q = sint qty; (baseName, elemIdx, hasElem) = parseElementTag tag in
      case map_of (mp_Data p) baseName of
        None \<Rightarrow> Inl (Msg ''tag not in map'')
      | Some val \<Rightarrow>
          if hasElem then
            (case val of
               VSlice t vs \<Rightarrow>
                 (if elemIdx < 0 \<or> elemIdx \<ge> int (length vs) then Inl (Msg ''element index out of range'')
                  else if elemIdx + q > int (length vs) then Inl (Msg ''requested too many elements'')
                  else if q = 1 then Inr (vs ! nat elemIdx)
                  else reflect_Slice t vs elemIdx (elemIdx + q))
             | _ \<Rightarrow> Inl (Msg ''element access on non-slice''))
          else
            (case val of
               VSlice t vs \<Rightarrow>
                 (if q \<le> int (length vs) then reflect_Slice t vs 0 q
                  else Inl (Msg ''too many elements requested''))
             | _ \<Rightarrow> Inr val))"

fun convert_all :: "go_convert \<Rightarrow> gotype \<Rightarrow> goval list \<Rightarrow> goval list res" where
  "convert_all fconv t [] = Inr []"
| "convert_all fconv t (v # vs) =
     attempt ''tag element'' (convertToElement fconv v t) (\<lambda>c.
       andthen (convert_all fconv t vs) (\<lambda>cs. Inr (c # cs)))"

definition mp_set :: "string \<Rightarrow> goval \<Rightarrow> MapTagProvider \<Rightarrow> MapTagProvider" where
  "mp_set k v p = p\<lparr>mp_Data := AList.update k v (mp_Data p)\<rparr>"

definition mp_TagWrite :: "go_convert \<Rightarrow> string \<Rightarrow> goval \<Rightarrow> MapTagProvider \<Rightarrow> MapTagProvider res" where
  "mp_TagWrite fconv tag0 value p =
     (let tag = strings_ToLower tag0; (baseName, elemIdx, hasElem) = parseElementTag tag in
      if hasElem then
        (case map_of (mp_Data p) baseName of
           None \<Rightarrow> Inl (Msg ''cannot write element of non-existent array'')
         | Some (VSlice t vs) \<Rightarrow>
             (if elemIdx < 0 \<or> elemIdx \<ge> int (length vs) then Inl (Msg ''element index out of range'')
              else attempt ''tag'' (convertToElement fconv value t) (\<lambda>converted.
                Inr (mp_set baseName (VSlice t (vs[nat elemIdx := converted])) p)))
         | Some _ \<Rightarrow> Inl (Msg ''element write on non-slice''))
      else
        (case (map_of (mp_Data p) baseName, value) of
           (Some (VSlice t vs), VSlice TAny ws) \<Rightarrow>
             andthen (convert_all fconv t ws) (\<lambda>out. Inr (mp_set baseName (VSlice t out) p))
         | _ \<Rightarrow> Inr (mp_set baseName value p)))"

record ServerTagInfo =
  ti_Name :: string
  ti_Type :: cip_type

definition mp_TagList :: "MapTagProvider \<Rightarrow> ServerTagInfo list" where
  "mp_TagList p = map (\<lambda>(n, v). \<lparr>ti_Name = n, ti_Type = fst (GoVarToCIPType v)\<rparr>) (mp_Data p)"

section \<open>IOProvider\<close>

record IOProvider =
  io_In :: goval
  io_Out :: goval

definition io_IORead :: "IOProvider \<Rightarrow> bytes res" where
  "io_IORead p = andthen (Pack (io_In p)) (\<lambda>(b, _). Inr b)"

text \<open>After an error of \<^verbatim>\<open>Unpack\<close> the output struct may be half written; no state is given then.\<close>

definition io_IOWrite :: "CIPItem list \<Rightarrow> IOProvider \<Rightarrow> IOProvider res" where
  "io_IOWrite items p =
     (if length items \<noteq> 2 then Inl (Msg ''expected 2 items'')
      else let it = items ! 1 in
        if hdr_ID (Header it) \<noteq> cipItem_ConnectedData
        then Inl (Msg ''expected item 2 to be a connected data item'')
        else
          attempt ''problem getting sequence counter'' (item_DeSerialize TUint32 it) (\<lambda>(_, it1).
          attempt ''problem getting header'' (item_DeSerialize TUint16 it1) (\<lambda>(_, it2).
          attempt ''problem getting raw data'' (item_ReadFull (unat (hdr_Length (Header it2) - 6)) it2) (\<lambda>(payload, _).
          attempt ''problem unpacking data into output struct'' (Unpack (typeof (io_Out p)) payload) (\<lambda>(v, _, _).
            Inr (p\<lparr>io_Out := v\<rparr>))))))"

definition io_GetOutputData :: "IOProvider \<Rightarrow> goval" where
  "io_GetOutputData p = io_Out p"

definition io_SetInputData :: "goval \<Rightarrow> IOProvider \<Rightarrow> IOProvider" where
  "io_SetInputData v p = p\<lparr>io_In := v\<rparr>"

section \<open>Endpoints and the router\<close>

datatype CIPEndpoint = EMap MapTagProvider | EIO IOProvider

definition not_implemented :: gerror where
  "not_implemented = Msg ''not implemented''"

fun ep_TagRead :: "string \<Rightarrow> u16 \<Rightarrow> CIPEndpoint \<Rightarrow> goval res" where
  "ep_TagRead tag qty (EMap p) = mp_TagRead tag qty p"
| "ep_TagRead tag qty (EIO p) = Inl not_implemented"

fun ep_TagWrite :: "go_convert \<Rightarrow> string \<Rightarrow> goval \<Rightarrow> CIPEndpoint \<Rightarrow> CIPEndpoint res" where
  "ep_TagWrite fconv tag v (EMap p) = andthen (mp_TagWrite fconv tag v p) (\<lambda>p'. Inr (EMap p'))"
| "ep_TagWrite fconv tag v (EIO p) = Inl not_implemented"

fun ep_IORead :: "CIPEndpoint \<Rightarrow> bytes res" where
  "ep_IORead (EMap p) = Inl not_implemented"
| "ep_IORead (EIO p) = io_IORead p"

fun ep_IOWrite :: "CIPItem list \<Rightarrow> CIPEndpoint \<Rightarrow> CIPEndpoint res" where
  "ep_IOWrite items (EMap p) = Inl not_implemented"
| "ep_IOWrite items (EIO p) = andthen (io_IOWrite items p) (\<lambda>p'. Inr (EIO p'))"

text \<open>The optional interface \<^verbatim>\<open>TagLister\<close>.\<close>

fun ep_TagList :: "CIPEndpoint \<Rightarrow> ServerTagInfo list option" where
  "ep_TagList (EMap p) = Some (mp_TagList p)"
| "ep_TagList (EIO p) = None"

text \<open>Endpoints are pointers: the router maps a path to the address of an endpoint in a store.\<close>

type_synonym ep_addr = nat

record PathRouter =
  rt_Path :: "bytes \<rightharpoonup> ep_addr"
  rt_store :: "ep_addr \<Rightarrow> CIPEndpoint"

definition rt_Handle :: "bytes \<Rightarrow> ep_addr \<Rightarrow> PathRouter \<Rightarrow> PathRouter" where
  "rt_Handle path a r = r\<lparr>rt_Path := (rt_Path r)(path \<mapsto> a)\<rparr>"

definition rt_Resolve :: "bytes \<Rightarrow> PathRouter \<Rightarrow> ep_addr res" where
  "rt_Resolve path r =
     (case rt_Path r path of None \<Rightarrow> Inl (Msg ''path not recognized'') | Some a \<Rightarrow> Inr a)"

section \<open>Conversions keep the type\<close>

lemma val_of_int_typeof: "val_of_int t i = Some v \<Longrightarrow> typeof v = t \<and> wt v"
  by (cases t) auto

lemma convertToElement_typeof:
  assumes "converts fconv" "convertToElement fconv v t = Inr w" "t \<noteq> TAny" "wt v"
  shows "typeof w = t \<and> wt w"
  using assms
  by (auto simp: convertToElement_def converts_def Let_def dest: val_of_int_typeof
      split: if_splits option.splits)

lemma convert_all_typeof:
  assumes "converts fconv" "convert_all fconv t vs = Inr ws" "t \<noteq> TAny" "\<forall>v\<in>set vs. wt v"
  shows "length ws = length vs \<and> (\<forall>w\<in>set ws. typeof w = t \<and> wt w)"
  using assms(2,4)
  by (induction vs arbitrary: ws)
    (auto simp: res_Inr_iffs convertToElement_typeof[OF assms(1) _ assms(3)])

lemma map_of_mp_set [simp]: "map_of (mp_Data (mp_set k v p)) = (map_of (mp_Data p))(k \<mapsto> v)"
  by (simp add: mp_set_def update_conv')

section \<open>A store of tags\<close>

text \<open>
  What a client of a tag store may rely on: a value the store keeps as it is can be read back
  under the name it was written to, and a write leaves every other tag alone.
\<close>

locale tag_store =
  fixes key :: "string \<Rightarrow> string"
    and get :: "string \<Rightarrow> u16 \<Rightarrow> 's \<Rightarrow> goval res"
    and put :: "string \<Rightarrow> goval \<Rightarrow> 's \<Rightarrow> 's res"
    and plain :: "string \<Rightarrow> goval \<Rightarrow> bool"
    and qty :: "goval \<Rightarrow> u16"
  assumes write_plain: "plain t v \<Longrightarrow> \<exists>s'. put t v s = Inr s'"
    and read_written: "plain t v \<Longrightarrow> put t v s = Inr s' \<Longrightarrow> get t (qty v) s' = Inr v"
    and read_other: "put t v s = Inr s' \<Longrightarrow> key t' \<noteq> key t \<Longrightarrow> get t' n s' = get t' n s"
begin

fun write_all :: "(string \<times> goval) list \<Rightarrow> 's \<Rightarrow> 's res" where
  "write_all [] s = Inr s"
| "write_all ((t, v) # tvs) s = andthen (put t v s) (write_all tvs)"

lemma write_all_other:
  "write_all tvs s = Inr s' \<Longrightarrow> key t' \<notin> (key \<circ> fst) ` set tvs \<Longrightarrow> get t' n s' = get t' n s"
  by (induction tvs s rule: write_all.induct) (auto simp: andthen_Inr_iff read_other)

lemma write_all_succeeds: "\<forall>(t, v)\<in>set tvs. plain t v \<Longrightarrow> \<exists>s'. write_all tvs s = Inr s'"
proof (induction tvs s rule: write_all.induct)
  case (2 t v tvs s)
  then obtain s1 where "put t v s = Inr s1" using write_plain by force
  with 2 show ?case by auto
qed simp

lemma write_all_read:
  assumes "\<forall>(t, v)\<in>set tvs. plain t v" "distinct (map (key \<circ> fst) tvs)"
    and "write_all tvs s = Inr s'" "(t, v) \<in> set tvs"
  shows "get t (qty v) s' = Inr v"
  using assms
proof (induction tvs s rule: write_all.induct)
  case (2 t0 v0 tvs s)
  from "2.prems"(3) obtain s1 where s1: "put t0 v0 s = Inr s1" "write_all tvs s1 = Inr s'"
    by (auto simp: andthen_Inr_iff)
  show ?case
  proof (cases "(t, v) \<in> set tvs")
    case True
    then show ?thesis using 2 s1 by auto
  next
    case False
    with "2.prems" have tv: "t = t0" "v = v0" by auto
    have "get t0 (qty v0) s1 = Inr v0" using "2.prems"(1) s1(1) by (intro read_written) auto
    moreover have "get t0 (qty v0) s' = get t0 (qty v0) s1"
      using "2.prems"(2) s1(2) by (intro write_all_other) auto
    ultimately show ?thesis using tv by simp
  qed
qed simp

end

definition tag_key :: "string \<Rightarrow> string" where
  "tag_key t = fst (parseElementTag (strings_ToLower t))"

definition has_element :: "string \<Rightarrow> bool" where
  "has_element t = snd (snd (parseElementTag (strings_ToLower t)))"

text \<open>Values a provider keeps as they are: no untyped array, and an array a request can ask for in full.\<close>

definition kept_value :: "string \<Rightarrow> goval \<Rightarrow> bool" where
  "kept_value t v =
     (\<not> has_element t \<and> (case v of VSlice e vs \<Rightarrow> e \<noteq> TAny \<and> length vs < 32768 | _ \<Rightarrow> True))"

definition full_qty :: "goval \<Rightarrow> u16" where
  "full_qty v = (case v of VSlice e vs \<Rightarrow> of_nat (length vs) | _ \<Rightarrow> 1)"

lemma sint_of_nat_small: "n < 32768 \<Longrightarrow> sint (of_nat n :: u16) = int n"
  by (simp add: signed_of_nat signed_take_bit_eq_if_positive take_bit_eq_mod bit_iff_odd)

lemma mp_TagWrite_whole:
  assumes "kept_value t v"
  shows "mp_TagWrite fconv t v p = Inr (mp_set (tag_key t) v p)"
  using assms
  by (auto simp: mp_TagWrite_def kept_value_def has_element_def tag_key_def Let_def split_beta
      split: option.splits goval.splits gotype.splits)

lemma mp_TagWrite_key:
  assumes "mp_TagWrite fconv t v p = Inr p'"
  shows "\<exists>w. p' = mp_set (tag_key t) w p"
  using assms
  by (auto simp: mp_TagWrite_def tag_key_def Let_def split_beta res_Inr_iffs
      split: option.splits goval.splits gotype.splits if_splits)

lemma mp_TagRead_other:
  "map_of (mp_Data p') (tag_key t) = map_of (mp_Data p) (tag_key t) \<Longrightarrow> mp_TagRead t n p' = mp_TagRead t n p"
  by (simp add: mp_TagRead_def tag_key_def Let_def split_beta)

lemma mp_TagRead_whole:
  assumes "map_of (mp_Data p) (tag_key t) = Some v" "kept_value t v"
  shows "mp_TagRead t (full_qty v) p = Inr v"
  using assms
  by (auto simp: mp_TagRead_def kept_value_def has_element_def tag_key_def full_qty_def Let_def split_beta
      reflect_Slice_def sint_of_nat_small split: goval.splits)

interpretation mp: tag_store tag_key mp_TagRead "mp_TagWrite fconv" kept_value full_qty for fconv
proof unfold_locales
  fix t v s s' t' n
  show "kept_value t v \<Longrightarrow> \<exists>s'. mp_TagWrite fconv t v s = Inr s'"
    by (simp add: mp_TagWrite_whole)
  show "kept_value t v \<Longrightarrow> mp_TagWrite fconv t v s = Inr s' \<Longrightarrow> mp_TagRead t (full_qty v) s' = Inr v"
    by (auto simp: mp_TagWrite_whole intro: mp_TagRead_whole)
  assume "mp_TagWrite fconv t v s = Inr s'" "tag_key t' \<noteq> tag_key t"
  then show "mp_TagRead t' n s' = mp_TagRead t' n s"
    using mp_TagWrite_key by (fastforce intro: mp_TagRead_other)
qed

section \<open>Elements of arrays\<close>

definition element_tag :: "string \<Rightarrow> nat \<Rightarrow> string" where
  "element_tag n i = n @ ''['' @ itoa i @ '']''"

lemma lower_digits: "list_all is_digit s \<Longrightarrow> map lower_char s = s"
  by (induction s) (auto simp: is_digit_def lower_char_def Let_def)

lemma lower_element_tag: "strings_ToLower (element_tag n i) = element_tag (strings_ToLower n) i"
  using itoa_props[of i] by (simp add: element_tag_def strings_ToLower_def lower_digits)
    (simp add: lower_char_def)

lemma parse_element_tag: "i < 2 ^ 63 \<Longrightarrow> parseElementTag (element_tag n i) = (n, int i, True)"
proof -
  assume i: "i < 2 ^ 63"
  have "CHR ''['' \<notin> set (itoa i @ '']'')" by (simp add: itoa_not_in)
  then have "strings_LastIndex (n @ CHR ''['' # itoa i @ '']'') CHR ''['' = Some (length n)"
    by (rule strings_LastIndex_append)
  then show ?thesis
    using atoi_itoa[OF i] by (simp add: parseElementTag_def element_tag_def has_suffix_char_def)
qed

lemma element_tag_key:
  "i < 2 ^ 63 \<Longrightarrow> tag_key (element_tag n i) = strings_ToLower n \<and> has_element (element_tag n i)"
  by (simp add: tag_key_def has_element_def lower_element_tag parse_element_tag)

lemma mp_TagRead_element:
  assumes "i < 2 ^ 63" "map_of (mp_Data p) (strings_ToLower n) = Some (VSlice t vs)"
  shows "mp_TagRead (element_tag n i) 1 p =
    (if i < length vs then Inr (vs ! i) else Inl (Msg ''element index out of range''))"
  using assms by (simp add: mp_TagRead_def lower_element_tag parse_element_tag)

lemma mp_TagWrite_element:
  assumes "i < 2 ^ 63" "map_of (mp_Data p) (strings_ToLower n) = Some (VSlice t vs)"
  shows "mp_TagWrite fconv (element_tag n i) v p =
    (if i < length vs
     then attempt ''tag'' (convertToElement fconv v t) (\<lambda>c.
       Inr (mp_set (strings_ToLower n) (VSlice t (vs[i := c])) p))
     else Inl (Msg ''element index out of range''))"
  using assms by (simp add: mp_TagWrite_def lower_element_tag parse_element_tag)

section \<open>What the tag provider promises\<close>

text \<open>
  C6.  A batch of writes to tags with different names all succeed and every value is read back as it was
  written, as many elements as it has; no tag outside the batch is touched.
\<close>

theorem tag_writes_read_back:
  assumes "\<forall>(t, v)\<in>set tvs. kept_value t v" "distinct (map (tag_key \<circ> fst) tvs)"
  shows "\<exists>p'. tag_store.write_all (mp_TagWrite fconv) tvs p = Inr p'
    \<and> (\<forall>(t, v)\<in>set tvs. mp_TagRead t (full_qty v) p' = Inr v)
    \<and> (\<forall>t n. tag_key t \<notin> (tag_key \<circ> fst) ` set tvs \<longrightarrow> mp_TagRead t n p' = mp_TagRead t n p)"
proof -
  obtain p' where p': "tag_store.write_all (mp_TagWrite fconv) tvs p = Inr p'"
    using mp.write_all_succeeds[OF assms(1), of fconv p] by blast
  then show ?thesis
    using mp.write_all_read[OF assms p'] mp.write_all_other[OF p'] by (intro exI[of _ p']) fastforce
qed

definition demo_writes :: "(string \<times> goval) list" where
  "demo_writes = [(''Speed'', VInt32 7), (''arr'', VSlice TInt16 [VInt16 1, VInt16 2])]"

theorem tag_writes_read_back_witness:
  "\<exists>p'. mp_TagRead ''SPEED'' 1 p' = Inr (VInt32 7) \<and> mp_TagRead ''arr'' 2 p' = Inr (VSlice TInt16 [VInt16 1, VInt16 2])
     \<and> tag_store.write_all (mp_TagWrite (\<lambda>_ _. None)) demo_writes \<lparr>mp_Data = []\<rparr> = Inr p'"
proof -
  have l: "strings_ToLower ''Speed'' = ''speed''" "strings_ToLower ''SPEED'' = ''speed''" "strings_ToLower ''arr'' = ''arr''"
    by (simp_all add: strings_ToLower_def lower_char_def Let_def char_of_eq_iff take_bit_eq_mod)
  have k: "\<forall>(t, v)\<in>set demo_writes. kept_value t v" "distinct (map (tag_key \<circ> fst) demo_writes)"
    by (simp_all add: demo_writes_def kept_value_def has_element_def tag_key_def parseElementTag_def
        has_suffix_char_def l)
  obtain p' where p': "tag_store.write_all (mp_TagWrite (\<lambda>_ _. None)) demo_writes \<lparr>mp_Data = []\<rparr> = Inr p'"
    and r: "\<forall>(t, v)\<in>set demo_writes. mp_TagRead t (full_qty v) p' = Inr v"
    using tag_writes_read_back[OF k, of "\<lambda>_ _. None" "\<lparr>mp_Data = []\<rparr>"] by blast
  have "mp_TagRead ''SPEED'' n p' = mp_TagRead ''Speed'' n p'" for n
    by (simp add: mp_TagRead_def l)
  with p' r show ?thesis by (auto simp: demo_writes_def full_qty_def)
qed

text \<open>
  Writing one element of an array tag: when the value converts to the element type, that element
  then reads as the converted value, every other element reads as before and the array keeps its
  type and length; an index beyond the end is refused.
\<close>

theorem element_write_read:
  assumes "map_of (mp_Data p) (strings_ToLower n) = Some (VSlice t vs)" "i < 2 ^ 63" "j < 2 ^ 63"
  shows "(i < length vs \<and> convertToElement fconv v t = Inr c \<longrightarrow>
           (\<exists>p'. mp_TagWrite fconv (element_tag n i) v p = Inr p'
             \<and> mp_TagRead (element_tag n i) 1 p' = Inr c
             \<and> (j \<noteq> i \<longrightarrow> mp_TagRead (element_tag n j) 1 p' = mp_TagRead (element_tag n j) 1 p)
             \<and> (\<exists>ws. map_of (mp_Data p') (strings_ToLower n) = Some (VSlice t ws) \<and> length ws = length vs)))
       \<and> (i \<ge> length vs \<longrightarrow> (\<exists>e. mp_TagWrite fconv (element_tag n i) v p = Inl e \<and> \<not> is_panic e))"
proof -
  let ?p' = "mp_set (strings_ToLower n) (VSlice t (vs[i := c])) p"
  have m: "map_of (mp_Data ?p') (strings_ToLower n) = Some (VSlice t (vs[i := c]))" by simp
  note reads = mp_TagRead_element[OF _ m] mp_TagRead_element[OF _ assms(1)]
  have "mp_TagRead (element_tag n j) 1 ?p' = mp_TagRead (element_tag n j) 1 p" if "j \<noteq> i"
    using that assms(3) by (simp add: reads)
  moreover have "mp_TagRead (element_tag n i) 1 ?p' = Inr c" if "i < length vs"
    using that assms(2) by (simp add: reads)
  ultimately show ?thesis
    using m by (auto simp: mp_TagWrite_element[OF assms(2,1)] intro!: exI[of _ ?p'])
qed

theorem element_write_read_witness:
  "\<exists>p'. mp_TagWrite (\<lambda>_ _. None) (element_tag ''arr'' 1) (VInt32 300) \<lparr>mp_Data = [(''arr'', VSlice TUint8 [VUint8 1, VUint8 2])]\<rparr> = Inr p'
    \<and> mp_TagRead (element_tag ''arr'' 1) 1 p' = Inr (VUint8 44)
    \<and> mp_TagRead (element_tag ''arr'' 0) 1 p' = Inr (VUint8 1)"
proof -
  let ?p = "\<lparr>mp_Data = [(''arr'', VSlice TUint8 [VUint8 1, VUint8 2])]\<rparr>"
  have l: "strings_ToLower ''arr'' = ''arr''" by (simp add: strings_ToLower_def lower_char_def Let_def)
  have m: "map_of (mp_Data ?p) (strings_ToLower ''arr'') = Some (VSlice TUint8 [VUint8 1, VUint8 2])"
    by (simp add: l)
  have c: "convertToElement (\<lambda>_ _. None) (VInt32 300) TUint8 = Inr (VUint8 44)"
    by (simp add: convertToElement_def)
  have r0: "mp_TagRead (element_tag ''arr'' 0) 1 ?p = Inr (VUint8 1)"
    using mp_TagRead_element[OF _ m, of 0] by simp
  from element_write_read[OF m, of 1 0 "\<lambda>_ _. None" "VInt32 300" "VUint8 44"] c r0
  show ?thesis by auto
qed

text \<open>
  Arrays keep their element type: when an array tag is written by an element write or by the
  untyped array a CIP write produces, what is stored afterwards is again an array of the old
  element type with every element of that type, so that it can be serialised.
\<close>

theorem array_writes_keep_type:
  assumes "converts fconv" "map_of (mp_Data p) (tag_key tag) = Some (VSlice t vs)" "t \<noteq> TAny"
    and "wt (VSlice t vs)" "mp_TagWrite fconv tag v p = Inr p'"
    and "has_element tag \<and> wt v \<or> (\<exists>ws. v = VSlice TAny ws \<and> (\<forall>w\<in>set ws. wt w))"
  shows "\<exists>vs'. map_of (mp_Data p') (tag_key tag) = Some (VSlice t vs') \<and> wt (VSlice t vs')"
proof (cases "has_element tag")
  case True
  obtain b i where b: "parseElementTag (strings_ToLower tag) = (b, i, True)"
    using True by (metis has_element_def prod.collapse)
  then have k: "tag_key tag = b" by (simp add: tag_key_def)
  from assms(5) b assms(2) obtain c where c: "convertToElement fconv v t = Inr c"
    and p': "p' = mp_set b (VSlice t (vs[nat i := c])) p"
    by (auto simp: mp_TagWrite_def k res_Inr_iffs split: if_splits)
  have "wt v" using assms(6) by auto
  then have "typeof c = t \<and> wt c" using convertToElement_typeof[OF assms(1) c assms(3)] by simp
  then have "wt (VSlice t (vs[nat i := c]))"
    using assms(3,4) set_update_subset_insert[of vs "nat i" c] by auto
  then show ?thesis using p' k by simp
next
  case False
  with assms(6) obtain ws where v: "v = VSlice TAny ws" and w: "\<forall>w\<in>set ws. wt w" by blast
  from False assms(2,5) v obtain out where out: "convert_all fconv t ws = Inr out"
    and p': "p' = mp_set (tag_key tag) (VSlice t out) p"
    by (auto simp: mp_TagWrite_def tag_key_def has_element_def split_beta andthen_Inr_iff)
  from convert_all_typeof[OF assms(1) out assms(3) w] p' show ?thesis by simp
qed

theorem array_writes_keep_type_witness:
  "\<exists>p' vs'. mp_TagWrite (\<lambda>_ _. None) ''arr'' (VSlice TAny [VInt32 5, VInt32 6])
       \<lparr>mp_Data = [(''arr'', VSlice TInt16 [VInt16 1])]\<rparr> = Inr p'
     \<and> map_of (mp_Data p') ''arr'' = Some (VSlice TInt16 vs') \<and> wt (VSlice TInt16 vs')"
proof -
  let ?p = "\<lparr>mp_Data = [(''arr'', VSlice TInt16 [VInt16 1])]\<rparr>"
  have l: "strings_ToLower ''arr'' = ''arr''" by (simp add: strings_ToLower_def lower_char_def Let_def)
  then have k: "tag_key ''arr'' = ''arr''" by (simp add: tag_key_def parseElementTag_def has_suffix_char_def)
  have c: "converts (\<lambda>_ _. None)" by (simp add: converts_def)
  obtain p' where p': "mp_TagWrite (\<lambda>_ _. None) ''arr'' (VSlice TAny [VInt32 5, VInt32 6]) ?p = Inr p'"
    by (simp add: mp_TagWrite_def l parseElementTag_def has_suffix_char_def convertToElement_def Let_def)
  from array_writes_keep_type[OF c _ _ _ p'] show ?thesis using p' k by simp
qed

text \<open>
  A read request whose element count has its top bit set is a negative \<^verbatim>\<open>int16\<close> in
  \<^const>\<open>mp_TagRead\<close>; on an array tag the bounds check lets it through and the slice expression panics.
\<close>

theorem negative_count_panics:
  assumes "map_of (mp_Data p) (tag_key tag) = Some (VSlice t vs)" "\<not> has_element tag" "sint qty < 0"
  shows "\<exists>m. mp_TagRead tag qty p = Inl (Panic m)"
  using assms
  by (simp add: mp_TagRead_def tag_key_def has_element_def Let_def split_beta reflect_Slice_def)

theorem negative_count_panics_witness:
  "\<exists>m. mp_TagRead ''arr'' 0x8000 \<lparr>mp_Data = [(''arr'', VSlice TInt16 [VInt16 1])]\<rparr> = Inl (Panic m)"
proof -
  have l: "strings_ToLower ''arr'' = ''arr''" by (simp add: strings_ToLower_def lower_char_def Let_def)
  show ?thesis
    by (rule negative_count_panics[of _ "''arr''" TInt16 "[VInt16 1]"])
      (simp_all add: l tag_key_def has_element_def parseElementTag_def has_suffix_char_def)
qed

end
