(* ===== verification/Server_State.thy ===== *)
theory Server_State
  imports Server_Connections Server_Router Eip_Frames Cip_Ioi
    "HOL-Library.List_Lexorder" "HOL-Library.Char_ord"
begin

text \<open>
  The state of the server (\<^verbatim>\<open>Server\<close>, \<^verbatim>\<open>serverTCPHandler\<close> of
  \<^verbatim>\<open>server.go\<close>) and the ways it answers: framing and sending a message, the
  reply and error helpers of the three server files, and the payload builders for the identity,
  program and symbol objects.

  A handler acts on its own fields, on the server's connection table, and on the endpoints of the
  router; what it sent is the list of frames \<open>h_out\<close>.  The TCP connection takes writes until
  it is broken (\<open>h_writable\<close>).  Random numbers come from a fixed source of which a number of
  draws has been used.
\<close>

section \<open>State\<close>

record Server =
  srv_ConnMgr :: serverConnectionManager
  srv_Router :: PathRouter
  srv_Attributes :: "cip_attribute \<rightharpoonup> goval"
  srv_rand :: "nat \<Rightarrow> u32"
  srv_draws :: nat

text \<open>A running \<^verbatim>\<open>ioConnection\<close> goroutine.\<close>

record io_task =
  task_TO :: u32
  task_ep :: ep_addr
  task_conn :: conn_addr
  task_seq :: u32

record serverTCPHandler =
  h_server :: Server
  h_out :: "bytes list"
  h_writable :: bool
  h_local_ip :: bytes
  h_local_port :: u16
  h_handle :: u32
  h_options :: u32
  h_context :: u64
  h_OTConnectionID :: u32
  h_TOConnectionID :: u32
  h_UnitDataSequencer :: u16
  h_tasks :: "io_task list"

definition NewServer :: "PathRouter \<Rightarrow> (nat \<Rightarrow> u32) \<Rightarrow> Server" where
  "NewServer r rnd =
     \<lparr>srv_ConnMgr = cm_empty, srv_Router = r,
      srv_Attributes = [1 \<mapsto> VInt16 0x1776, 2 \<mapsto> VInt16 0x000E, 3 \<mapsto> VInt16 0x0001, 4 \<mapsto> VInt16 0x1412,
        5 \<mapsto> VInt16 0x3060, 6 \<mapsto> VUint32 (rnd 0), 7 \<mapsto> VString ''Gologix''],
      srv_rand = rnd, srv_draws = 1\<rparr>"

section \<open>Actions\<close>

text \<open>An action changes the handler and returns a value or the error the Go function returns.\<close>

type_synonym 'a act = "serverTCPHandler \<Rightarrow> 'a res \<times> serverTCPHandler"

definition ret :: "'a \<Rightarrow> 'a act" where
  "ret x h = (Inr x, h)"

definition fail :: "gerror \<Rightarrow> 'a act" where
  "fail e h = (Inl e, h)"

text \<open>\<open>need m r f\<close>: continue with the result of a computation that only reads, or return its error wrapped.\<close>

definition need :: "string \<Rightarrow> 'a res \<Rightarrow> ('a \<Rightarrow> 'b act) \<Rightarrow> 'b act" where
  "need m r f h = (case r of Inl e \<Rightarrow> (Inl (wrap m e), h) | Inr x \<Rightarrow> f x h)"

text \<open>\<open>otherwise m r a f\<close>: on an error answer with \<open>a\<close> first, then return the error.\<close>

definition otherwise :: "string \<Rightarrow> 'a res \<Rightarrow> unit act \<Rightarrow> ('a \<Rightarrow> 'b act) \<Rightarrow> 'b act" where
  "otherwise m r a f h =
     (case r of
        Inl e \<Rightarrow> if is_panic e then (Inl e, h) else (Inl (Wrapped m e), snd (a h))
      | Inr x \<Rightarrow> f x h)"

text \<open>\<open>instead r a f\<close>: on an error answer with \<open>a\<close> and return what that returns.\<close>

definition instead :: "'a res \<Rightarrow> 'b act \<Rightarrow> ('a \<Rightarrow> 'b act) \<Rightarrow> 'b act" where
  "instead r a f h =
     (case r of Inl e \<Rightarrow> if is_panic e then (Inl e, h) else a h | Inr x \<Rightarrow> f x h)"

definition bind_act :: "string \<Rightarrow> 'a act \<Rightarrow> ('a \<Rightarrow> 'b act) \<Rightarrow> 'b act" where
  "bind_act m a f h =
     (case a h of (Inl e, h') \<Rightarrow> (Inl (wrap m e), h') | (Inr x, h') \<Rightarrow> f x h')"

text \<open>The same where the caller hands the error on unwrapped.\<close>

definition seq_act :: "'a act \<Rightarrow> ('a \<Rightarrow> 'b act) \<Rightarrow> 'b act" where
  "seq_act a f h = (case a h of (Inl e, h') \<Rightarrow> (Inl e, h') | (Inr x, h') \<Rightarrow> f x h')"

text \<open>Assignments to fields, and going on after an error that is answered.\<close>

definition upd :: "(serverTCPHandler \<Rightarrow> serverTCPHandler) \<Rightarrow> unit act" where
  "upd f h = (Inr (), f h)"

definition or_else :: "'a act \<Rightarrow> 'b act \<Rightarrow> ('a \<Rightarrow> 'b act) \<Rightarrow> 'b act" where
  "or_else a bad f h =
     (case a h of
        (Inl e, h') \<Rightarrow> if is_panic e then (Inl e, h') else bad h'
      | (Inr x, h') \<Rightarrow> f x h')"

lemmas act_defs = upd_def or_else_def ret_def fail_def need_def otherwise_def instead_def bind_act_def seq_act_def

section \<open>Sending\<close>

definition h_newEIPHeader :: "cip_command \<Rightarrow> nat \<Rightarrow> serverTCPHandler \<Rightarrow> eipHeader" where
  "h_newEIPHeader cmd sz h =
     \<lparr>eh_Command = cmd, eh_Length = of_nat sz, eh_SessionHandle = h_handle h, eh_Status = 0,
      eh_Context = h_context h, eh_Options = h_options h\<rparr>"

definition h_send :: "cip_command \<Rightarrow> bytes \<Rightarrow> unit act" where
  "h_send cmd msg h =
     (if h_writable h
      then (Inr (), h\<lparr>h_out := h_out h @ [eipHeader_Bytes (h_newEIPHeader cmd (length msg) h) @ msg]\<rparr>)
      else (Inl (Msg ''write error''), h))"

definition sendUnitDataErrorReply :: "cip_service \<Rightarrow> cip_status \<Rightarrow> unit act" where
  "sendUnitDataErrorReply s status h =
     h_send cipCommandSendUnitData
       (serializeItems [newItem cipItem_ConnectionAddress (Some (VUint32 (h_TOConnectionID h))),
          item_Write (msgWriteResultHeader (h_UnitDataSequencer h) (AsResponse s) status 0)
            (newItem cipItem_ConnectedData None)]) h"

definition sendUnitDataReplyWithPayload :: "cip_service \<Rightarrow> bytes \<Rightarrow> unit act" where
  "sendUnitDataReplyWithPayload s payload h =
     h_send cipCommandSendUnitData
       (serializeItems [newItem cipItem_ConnectionAddress (Some (VUint32 (h_TOConnectionID h))),
          item_Write payload
            (item_Write (msgWriteResultHeader (h_UnitDataSequencer h) (AsResponse s) CIPStatus_OK 0)
              (newItem cipItem_ConnectedData None))]) h"

definition sendUnitDataReply :: "cip_service \<Rightarrow> unit act" where
  "sendUnitDataReply s h =
     h_send cipCommandSendUnitData
       (serializeItems [newItem cipItem_ConnectionAddress (Some (VUint32 (h_TOConnectionID h))),
          item_Write (msgWriteResultHeader (h_UnitDataSequencer h) (AsResponse s) CIPStatus_OK 0)
            (newItem cipItem_ConnectedData None)]) h"

definition sendConnectedReply :: "cip_service \<Rightarrow> u16 \<Rightarrow> u32 \<Rightarrow> goval list \<Rightarrow> unit act" where
  "sendConnectedReply s sq connID payload =
     need ''problem serializing unconnected data payload''
       (item_Serialize payload
         (item_Write (msgUnconnWriteResultHeader (AsResponse s) CIPStatus_OK 0)
           (newItem cipItem_ConnectedData (Some (VUint16 sq))))) (\<lambda>it.
       h_send cipCommandSendUnitData
         (serializeItems [newItem cipItem_ConnectionAddress (Some (VUint32 connID)), it]))"

definition sendConnectedError :: "cip_service \<Rightarrow> u16 \<Rightarrow> u32 \<Rightarrow> cip_status \<Rightarrow> u8 \<Rightarrow> unit act" where
  "sendConnectedError s sq connID status statusExtended =
     h_send cipCommandSendUnitData
       (serializeItems [newItem cipItem_ConnectionAddress (Some (VUint32 connID)),
          item_Write (msgUnconnWriteResultHeader (AsResponse s) status statusExtended)
            (newItem cipItem_ConnectedData (Some (VUint16 sq)))])"

definition sendUnconnectedErrorReply :: "cip_service \<Rightarrow> cip_status \<Rightarrow> unit act" where
  "sendUnconnectedErrorReply s status =
     h_send cipCommandSendRRData
       (serializeItems [newItem cipItem_Null None,
          item_Write (msgUnconnWriteResultHeader (AsResponse s) status 0)
            (newItem cipItem_UnconnectedData None)])"

definition sendUnconnectedRRDataReply :: "cip_service \<Rightarrow> goval list \<Rightarrow> unit act" where
  "sendUnconnectedRRDataReply s payload =
     need ''problem serializing unconnected data payload''
       (item_Serialize payload
         (item_Write (msgUnconnWriteResultHeader (AsResponse s) CIPStatus_OK 0)
           (newItem cipItem_UnconnectedData None))) (\<lambda>it.
       h_send cipCommandSendRRData (serializeItems [newItem cipItem_Null None, it]))"

definition sendUnconnectedUnitDataReply :: "cip_service \<Rightarrow> unit act" where
  "sendUnconnectedUnitDataReply s h =
     h_send cipCommandSendUnitData
       (serializeItems [newItem cipItem_Null None,
          item_Write (msgWriteResultHeader (h_UnitDataSequencer h) (AsResponse s) CIPStatus_OK 0)
            (newItem cipItem_UnconnectedData None)]) h"

section \<open>The Logix STRING on the wire\<close>

abbreviation cipStringStructCRC :: u16 where "cipStringStructCRC \<equiv> 0x0FCE"

text \<open>\<^verbatim>\<open>cipStringPacker.Bytes\<close>: type segment, clamped length, 82 bytes of data, two bytes of padding.\<close>

definition cipStringPacker :: "string \<Rightarrow> bytes" where
  "cipStringPacker c =
     [0xA0, 0x02] @ put16 cipStringStructCRC @ put32 (of_nat (min (length c) 82))
     @ pad_copy 82 (to_bytes c) @ [0, 0]"

lemma length_cipStringPacker [simp]: "length (cipStringPacker c) = 92"
  by (simp add: cipStringPacker_def)

section \<open>Payloads of the object models\<close>

definition attr_int16 :: "(cip_attribute \<rightharpoonup> goval) \<Rightarrow> cip_attribute \<Rightarrow> u16 res" where
  "attr_int16 attrs a = (case attrs a of Some (VInt16 w) \<Rightarrow> Inr w | _ \<Rightarrow> Inl (Msg ''attribute missing or wrong type''))"

definition attr_uint32 :: "(cip_attribute \<rightharpoonup> goval) \<Rightarrow> cip_attribute \<Rightarrow> u32 res" where
  "attr_uint32 attrs a = (case attrs a of Some (VUint32 w) \<Rightarrow> Inr w | _ \<Rightarrow> Inl (Msg ''attribute missing or wrong type''))"

definition attr_string :: "(cip_attribute \<rightharpoonup> goval) \<Rightarrow> cip_attribute \<Rightarrow> string res" where
  "attr_string attrs a = (case attrs a of Some (VString s) \<Rightarrow> Inr s | _ \<Rightarrow> Inl (Msg ''attribute missing or wrong type''))"

text \<open>The seven identity attributes in order, as both identity replies write them.\<close>

definition identity_attrs :: "(cip_attribute \<rightharpoonup> goval) \<Rightarrow> bytes res" where
  "identity_attrs attrs =
     andthen (attr_int16 attrs 1) (\<lambda>vendor.
     andthen (attr_int16 attrs 2) (\<lambda>deviceType.
     andthen (attr_int16 attrs 3) (\<lambda>productCode.
     andthen (attr_int16 attrs 4) (\<lambda>revision.
     andthen (attr_int16 attrs 5) (\<lambda>status.
     andthen (attr_uint32 attrs 6) (\<lambda>serial.
     andthen (attr_string attrs 7) (\<lambda>productName.
       let n = take 255 productName in
       Inr (put16 vendor @ put16 deviceType @ put16 productCode @ put16 revision @ put16 status
            @ put32 serial @ [of_nat (length n)] @ to_bytes n))))))))"

definition buildIdentityGetAttributesAllResponse :: "(cip_attribute \<rightharpoonup> goval) \<Rightarrow> bytes res" where
  "buildIdentityGetAttributesAllResponse attrs = identity_attrs attrs"

definition buildProgramObjectGetAttributesAllResponse :: "(cip_attribute \<rightharpoonup> goval) \<Rightarrow> bytes res" where
  "buildProgramObjectGetAttributesAllResponse attrs =
     andthen (attr_string attrs 7) (\<lambda>name.
       let n = take 255 name in Inr ([of_nat (length n)] @ to_bytes n))"

text \<open>The socket address is big-endian.\<close>

definition buildListIdentityItemBody :: "(cip_attribute \<rightharpoonup> goval) \<Rightarrow> bytes \<Rightarrow> u16 \<Rightarrow> bytes res" where
  "buildListIdentityItemBody attrs localIP localPort =
     andthen (identity_attrs attrs) (\<lambda>ident.
       Inr (put16 1 @ rev (put16 2) @ rev (put16 localPort) @ pad_copy 4 localIP @ zeros 8
            @ ident @ [0xFF]))"

definition frameListIdentityResponse :: "bytes \<Rightarrow> bytes" where
  "frameListIdentityResponse itemBody =
     put16 1 @ put16 cipItem_ListIdentityResponse @ put16 (of_nat (length itemBody)) @ itemBody"

definition symbol_entry :: "nat \<Rightarrow> ServerTagInfo \<Rightarrow> bytes" where
  "symbol_entry i tag =
     (let name = take 255 (ti_Name tag) in
      put32 (of_nat (i + 1)) @ put16 (of_nat (length name)) @ to_bytes name @ put16 (ucast (ti_Type tag)))"

definition buildSymbolObjectInstanceListResponse :: "ServerTagInfo list \<Rightarrow> u32 \<Rightarrow> bytes" where
  "buildSymbolObjectInstanceListResponse tags startInstance =
     concat (map (\<lambda>(i, tag). if (of_nat (i + 1) :: u32) < startInstance then [] else symbol_entry i tag)
       (enumerate 0 (sort_key ti_Name tags)))"

end
