(* ===== verification/Server_Handler.thy ===== *)
theory Server_Handler
  imports Server_State
begin

text \<open>
  The request handlers of \<^verbatim>\<open>server.go\<close>, \<^verbatim>\<open>server_connected.go\<close>,
  \<^verbatim>\<open>server_unconnected.go\<close> and \<^verbatim>\<open>server_listidentity.go\<close>, the
  TCP loop \<^verbatim>\<open>serve\<close> that dispatches to them, one datagram of
  \<^verbatim>\<open>serveUDP\<close> and one tick of an \<^verbatim>\<open>ioConnection\<close>.

  The handlers read an item through its unread bytes; on received items, whose position lies
  inside the data, that is what the item's methods do.  A read that fails with a plain error ends
  the handler exactly as in the code; a panic ends it too and is never answered.
\<close>

section \<open>Reading fixed pieces of an item\<close>

text \<open>\<^verbatim>\<open>item.Byte()\<close> and \<^verbatim>\<open>item.Uint16()\<close>, whose error differs from that of \<^verbatim>\<open>DeSerialize\<close>.\<close>

definition item8 :: "bytes \<Rightarrow> (u8 \<times> bytes) res" where
  "item8 r = (if length r < 1 then Inl out_of_data else Inr (hd r, tl r))"

definition item16 :: "bytes \<Rightarrow> (u16 \<times> bytes) res" where
  "item16 r = (if length r < 2 then Inl out_of_data else Inr (get16 (take 2 r), drop 2 r))"

text \<open>Assigning \<^verbatim>\<open>item.Pos\<close> and reading on: a negative position panics.\<close>

definition seek :: "bytes \<Rightarrow> int \<Rightarrow> bytes res" where
  "seek d p = (if p < 0 then Inl (Panic ''slice bounds out of range'') else Inr (drop (nat p) d))"

section \<open>Values of a write request\<close>

fun parse_strings :: "nat \<Rightarrow> bytes \<Rightarrow> (goval list \<times> bytes) res" where
  "parse_strings 0 r = Inr ([], r)"
| "parse_strings (Suc n) r =
     attempt ''error reading STRING LEN'' (rd32 r) (\<lambda>(slen, r1).
     attempt ''error reading STRING DATA'' (read_full 82 r1) (\<lambda>(d, r2).
     andthen (parse_strings n r2) (\<lambda>(vs, r3).
       Inr (VString (of_bytes (take (min (unat slen) 82) d)) # vs, r3))))"

fun parse_values :: "nat \<Rightarrow> cip_type \<Rightarrow> bytes \<Rightarrow> (goval list \<times> bytes) res" where
  "parse_values 0 typ r = Inr ([], r)"
| "parse_values (Suc n) typ r =
     attempt ''error reading element'' (readValue typ r) (\<lambda>(v, r1).
     andthen (parse_values n typ r1) (\<lambda>(vs, r2). Inr (v # vs, r2)))"

definition parseWriteValues :: "bytes \<Rightarrow> (goval list \<times> bytes) res" where
  "parseWriteValues r =
     attempt ''error reading write type'' (rd8 r) (\<lambda>(typ, r1).
     attempt ''error reading type-info length'' (rd8 r1) (\<lambda>(typeInfoLen, r2).
     attempt ''error reading type info'' (read_full (unat typeInfoLen) r2) (\<lambda>(typeInfo, r3).
     let structCRC = (if typ = CIPTypeStruct \<and> length typeInfo \<ge> 2 then get16 (take 2 typeInfo) else 0) in
     attempt ''error reading element count'' (rd16 r3) (\<lambda>(qty, r4).
       if typ = CIPTypeStruct then
         (if structCRC \<noteq> cipStringStructCRC then Inl (Msg ''server only supports STRING struct writes'')
          else parse_strings (unat qty) r4)
       else parse_values (unat qty) typ r4))))"

section \<open>Tags of an endpoint\<close>

definition h_Resolve :: "bytes \<Rightarrow> serverTCPHandler \<Rightarrow> ep_addr res" where
  "h_Resolve path h = rt_Resolve path (srv_Router (h_server h))"

definition h_TagRead :: "ep_addr \<Rightarrow> string \<Rightarrow> u16 \<Rightarrow> serverTCPHandler \<Rightarrow> goval res" where
  "h_TagRead a tag qty h = ep_TagRead tag qty (rt_store (srv_Router (h_server h)) a)"

definition h_set_ep :: "ep_addr \<Rightarrow> CIPEndpoint \<Rightarrow> serverTCPHandler \<Rightarrow> serverTCPHandler" where
  "h_set_ep a ep h =
     h\<lparr>h_server := (h_server h)\<lparr>srv_Router := (srv_Router (h_server h))\<lparr>rt_store :=
       (rt_store (srv_Router (h_server h)))(a := ep)\<rparr>\<rparr>\<rparr>"

definition h_TagWrite :: "go_convert \<Rightarrow> ep_addr \<Rightarrow> string \<Rightarrow> goval \<Rightarrow> unit act" where
  "h_TagWrite fconv a tag v h =
     (case ep_TagWrite fconv tag v (rt_store (srv_Router (h_server h)) a) of
        Inl e \<Rightarrow> (Inl e, h)
      | Inr ep \<Rightarrow> (Inr (), h_set_ep a ep h))"

text \<open>The two branches every write handler ends in: several values as an untyped array, one by itself.\<close>

definition write_results :: "go_convert \<Rightarrow> ep_addr \<Rightarrow> string \<Rightarrow> goval list \<Rightarrow> unit act" where
  "write_results fconv p tag results =
     (if length results > 1 then bind_act ''problem writing tag'' (h_TagWrite fconv p tag (VSlice TAny results)) ret
      else if results = [] then fail (Panic ''index out of range [0]'')
      else bind_act ''problem writing tag'' (h_TagWrite fconv p tag (hd results)) ret)"

definition h_GetByOT :: "u32 \<Rightarrow> serverTCPHandler \<Rightarrow> serverConnection res" where
  "h_GetByOT i h =
     andthen (cm_GetByOT i (srv_ConnMgr (h_server h))) (\<lambda>a. Inr (conn_store (srv_ConnMgr (h_server h)) a))"

section \<open>Connected services\<close>

text \<open>\<open>r\<close> is what is left of item 1 behind the sequence number and the service code.\<close>

definition cipConnectedWrite :: "go_convert \<Rightarrow> CIPItem list \<Rightarrow> bytes \<Rightarrow> unit act" where
  "cipConnectedWrite fconv items r h =
     need ''problem deserializing item length'' (rd8 r) (\<lambda>(_, r1).
     need ''problem deserializing tag bytes'' (getTagFromPath [] r1) (\<lambda>(tag, r2).
     need ''problem parsing write values'' (parseWriteValues r2) (\<lambda>(results, _).
     if hdr_ID (Header (items ! 0)) \<noteq> cipItem_ConnectionAddress
     then fail (Msg ''expected a connection address item in item 0'')
     else
     need ''problem deserializing connection ID'' (rd32 (Data (items ! 0))) (\<lambda>(connID, _).
     need ''no server handler'' (h_GetByOT connID h) (\<lambda>conn.
     need ''problem finding tag provider'' (h_Resolve (conn_Path conn) h) (\<lambda>p.
     seq_act (write_results fconv p tag results) (\<lambda>_.
       sendUnitDataReply CIPService_Write))))))) h"

text \<open>The answer to one embedded read.\<close>

definition multi_read_result :: "cip_service \<Rightarrow> goval \<Rightarrow> bytes res" where
  "multi_read_result svc result =
     (let typ = fst (GoVarToCIPType result) in
      if typ = CIPTypeSTRING then
        (case result of
           VString s \<Rightarrow> Inr (msgMultiReadResult (AsResponse svc) 0 @ cipStringPacker s)
         | _ \<Rightarrow> Inl (Msg ''expected a string but didn't get one''))
      else
        attempt ''problem serializing data'' (Serialize [result]) (\<lambda>b.
          Inr (msgMultiReadResult (AsResponse svc) 0 @ msgMultiReadResultTypeHdr typ 0 @ b)))"

text \<open>One embedded request of a multiple-service packet, at its offset in the item's data \<open>d\<close>.\<close>

definition multi_one :: "go_convert \<Rightarrow> ep_addr \<Rightarrow> bytes \<Rightarrow> int \<Rightarrow> bytes act" where
  "multi_one fconv p d offset h =
     need ''problem getting multiread service'' (andthen (seek d (offset + 8)) rd8) (\<lambda>(svc, r1).
     need ''problem getting service req payload size'' (item8 r1) (\<lambda>(_, r2).
     if svc = CIPService_FragRead \<or> svc = CIPService_Read then
       need ''problem getting multiread tagname'' (getTagFromPath [] r2) (\<lambda>(tagname, r3).
       need ''error getting write qty'' (item16 r3) (\<lambda>(qty, _).
       need ''problem getting data from provider'' (h_TagRead p tagname qty h) (\<lambda>result.
       need ''multiread'' (multi_read_result svc result) ret)))
     else if svc = CIPService_Write \<or> svc = CIPService_FragWrite then
       need ''problem deserializing tag bytes'' (getTagFromPath [] r2) (\<lambda>(tag, r3).
       need ''problem deserializing cip type'' (rd8 r3) (\<lambda>(typ, r4).
       need ''problem deserializing reserved byte'' (rd8 r4) (\<lambda>(_, r5).
       need ''problem deserializing element count'' (rd16 r5) (\<lambda>(qty, r6).
       need ''problem getting write element'' (readValues (unat qty) typ r6) (\<lambda>(writeTags, _).
       seq_act (write_results fconv p tag writeTags) (\<lambda>_.
         ret [AsResponse svc, 0, 0, 0]))))))
     else ret [])) h"

fun multi_all :: "go_convert \<Rightarrow> ep_addr \<Rightarrow> bytes \<Rightarrow> int list \<Rightarrow> bytes list act" where
  "multi_all fconv p d [] = ret []"
| "multi_all fconv p d (off # offs) =
     seq_act (multi_one fconv p d off) (\<lambda>b.
     seq_act (multi_all fconv p d offs) (\<lambda>bs. ret (b # bs)))"

fun jump_table :: "nat \<Rightarrow> bytes list \<Rightarrow> u16 list" where
  "jump_table pos [] = []"
| "jump_table pos (b # bs) = of_nat pos # jump_table (pos + length b) bs"

fun read_offsets :: "nat \<Rightarrow> bytes \<Rightarrow> (int list \<times> bytes) res" where
  "read_offsets 0 r = Inr ([], r)"
| "read_offsets (Suc n) r =
     attempt ''problem getting multisvc offset'' (item16 r) (\<lambda>(o1, r1).
     andthen (read_offsets n r1) (\<lambda>(os, r2). Inr (sint o1 # os, r2)))"

definition connectedMulti :: "go_convert \<Rightarrow> CIPItem list \<Rightarrow> unit act" where
  "connectedMulti fconv items h =
     (let d = Data (items ! 1) in
     need ''couldn't get connection ID from item 0'' (rd32 (Data (items ! 0))) (\<lambda>(connID, _).
     need ''couldn't get connection'' (h_GetByOT connID h) (\<lambda>connection.
     need ''problem finding tag provider'' (h_Resolve (conn_Path connection) h) (\<lambda>p.
     need ''error getting sequence ID'' (rd16 d) (\<lambda>(sq, r1).
     need ''error getting service'' (rd8 r1) (\<lambda>(_, r2).
     need ''error getting path len'' (rd8 r2) (\<lambda>(pathlen, r3).
     need ''problem dumping path bytes from multi-svc header'' (read_full (unat (pathlen * 2)) r3) (\<lambda>(_, r4).
     need ''problem getting multisvc item count'' (item16 r4) (\<lambda>(qty, r5).
     need [] (read_offsets (unat qty) r5) (\<lambda>(offsets, _).
     seq_act (multi_all fconv p d offsets) (\<lambda>results.
       sendConnectedReply CIPService_MultipleService sq (conn_TO connection)
         ([VUint16 qty, VSlice TUint16 (map VUint16 (jump_table ((unat qty + 1) * 2) results))]
          @ map (\<lambda>b. VSlice TUint8 (map VUint8 b)) results))))))))))) h)"

definition connectedRead :: "cip_service \<Rightarrow> CIPItem list \<Rightarrow> unit act" where
  "connectedRead reqSvc items h =
     (let bad = (\<lambda>sq c st. sendConnectedError reqSvc sq c st 0) in
     otherwise ''couldn't get connection ID from item 0'' (rd32 (Data (items ! 0)))
       (bad 0 0 CIPStatus_InvalidParameter) (\<lambda>(connID, _).
     otherwise ''couldn't get connection'' (h_GetByOT connID h) (bad 0 0 CIPStatus_ConnectionLost) (\<lambda>connection.
     let c = conn_TO connection in
     otherwise ''error getting sequence ID'' (rd16 (Data (items ! 1))) (bad 0 c CIPStatus_InvalidParameter) (\<lambda>(sq, r1).
     otherwise ''error getting path len'' (rd16 r1) (bad sq c CIPStatus_InvalidParameter) (\<lambda>(_, r2).
     otherwise ''couldn't parse path'' (getTagFromPath [] r2) (bad sq c CIPStatus_InvalidParameter) (\<lambda>(tag, r3).
     otherwise ''error getting write qty'' (rd16 r3) (bad sq c CIPStatus_InvalidParameter) (\<lambda>(qty, _).
     otherwise ''problem finding tag provider'' (h_Resolve (conn_Path connection) h)
       (bad sq c CIPStatus_PathDestinationUnknown) (\<lambda>p.
     otherwise ''problem getting data from provider'' (h_TagRead p tag qty h) (bad sq c CIPStatus_InvalidMemberID) (\<lambda>result.
     let typ = fst (GoVarToCIPType result) in
     if typ = CIPTypeSTRING then
       (case result of
          VString s \<Rightarrow> sendConnectedReply reqSvc sq c [VSer (cipStringPacker s)]
        | VSlice TString ss \<Rightarrow>
            sendConnectedReply reqSvc sq c
              (map (\<lambda>v. VSer (cipStringPacker (case v of VString s \<Rightarrow> s | _ \<Rightarrow> []))) ss)
        | _ \<Rightarrow> (\<lambda>h. (Inl (Msg ''was expecting a string but didn't get one''),
                     snd (bad sq c CIPStatus_InvalidAttributeValue h))))
     else sendConnectedReply reqSvc sq c [VUint8 typ, VUint8 0, result])))))))) h)"

definition getAttrSingle :: "serverConnection \<Rightarrow> bytes \<Rightarrow> unit act" where
  "getAttrSingle connection d h =
     need ''error getting sequence ID'' (rd16 d) (\<lambda>(sq, r1).
     need ''couldn't read cmd type'' (item8 r1) (\<lambda>(_, r2).
     need ''couldn't read data len'' (item8 r2) (\<lambda>(path_size, r3).
     if path_size \<noteq> 3 then fail (Msg ''currently only support getattrsingle path size of 3'')
     else
     need ''could not read class'' (CIPClass_Read r3) (\<lambda>(cls, r4).
     need ''could not read instance'' (CIPInstance_Read r4) (\<lambda>(inst, r5).
     if cls \<noteq> 1 \<or> inst \<noteq> 1 then fail (Msg ''only support class 1 instance 1 so far'')
     else
     need ''could not read attribute ID'' (CIPAttribute_Read r5) (\<lambda>(attr, _).
     case srv_Attributes (h_server h) attr of
       None \<Rightarrow> fail (Msg ''bad attribute'')
     | Some result \<Rightarrow> sendConnectedReply CIPService_FragRead sq (conn_TO connection) [result])))))) h"

definition connectedGetAttr :: "CIPItem list \<Rightarrow> unit act" where
  "connectedGetAttr items h =
     need ''couldn't get connection ID from item 0'' (rd32 (Data (items ! 0))) (\<lambda>(connID, _).
     need ''couldn't get connection'' (h_GetByOT connID h) (\<lambda>connection.
       getAttrSingle connection (Data (items ! 1)))) h"

definition connectedGetAttributeAll :: "CIPItem list \<Rightarrow> unit act" where
  "connectedGetAttributeAll items h =
     (let gaa = CIPService_GetAttributeAll; attrs = srv_Attributes (h_server h) in
     need ''connected GAA: read seq'' (item16 (Data (items ! 1))) (\<lambda>(_, r1).
     need ''connected GAA: read service byte'' (item8 r1) (\<lambda>(_, r2).
     need ''connected GAA: read path size'' (item8 r2) (\<lambda>(pathSize, r3).
     need ''connected GAA: read path'' (read_full (unat pathSize * 2) r3) (\<lambda>(pathBytes, _).
     instead (parseClassInstancePath pathBytes) (sendUnitDataErrorReply gaa CIPStatus_PathSegmentError)
       (\<lambda>(class, inst).
     if class = CipObject_Identity then
       (if inst \<noteq> 1 then sendUnitDataErrorReply gaa CIPStatus_PathDestinationUnknown
        else need ''connected GAA identity'' (buildIdentityGetAttributesAllResponse attrs)
               (sendUnitDataReplyWithPayload gaa))
     else if class = 0x64 then
       (if inst \<noteq> 1 then sendUnitDataErrorReply gaa CIPStatus_PathDestinationUnknown
        else need ''connected GAA program'' (buildProgramObjectGetAttributesAllResponse attrs)
               (sendUnitDataReplyWithPayload gaa))
     else sendUnitDataErrorReply gaa CIPStatus_PathDestinationUnknown))))) h)"

definition connectedSymbolList :: "CIPItem list \<Rightarrow> unit act" where
  "connectedSymbolList items h =
     need ''symbol list: conn ID'' (rd32 (Data (items ! 0))) (\<lambda>(connID, _).
     need ''symbol list: conn lookup'' (h_GetByOT connID h) (\<lambda>conn.
     need ''symbol list: provider lookup'' (h_Resolve (conn_Path conn) h) (\<lambda>p.
     case ep_TagList (rt_store (srv_Router (h_server h)) p) of
       None \<Rightarrow> sendUnitDataReplyWithPayload CIPService_GetInstanceAttributeList []
     | Some tags \<Rightarrow> sendUnitDataReplyWithPayload CIPService_GetInstanceAttributeList
         (buildSymbolObjectInstanceListResponse tags 0)))) h"

section \<open>Opening and closing connections\<close>

definition set_ConnMgr :: "serverConnectionManager \<Rightarrow> serverTCPHandler \<Rightarrow> serverTCPHandler" where
  "set_ConnMgr cm h = h\<lparr>h_server := (h_server h)\<lparr>srv_ConnMgr := cm\<rparr>\<rparr>"

definition rand_Uint32 :: "u32 act" where
  "rand_Uint32 h =
     (Inr (srv_rand (h_server h) (srv_draws (h_server h))),
      h\<lparr>h_server := (h_server h)\<lparr>srv_draws := srv_draws (h_server h) + 1\<rparr>\<rparr>)"

definition choose_id :: "u32 \<Rightarrow> u32 act" where
  "choose_id i = (if i = 0 then rand_Uint32 else ret i)"

definition new_connection :: "msgEIPForwardOpen \<Rightarrow> u32 \<Rightarrow> u32 \<Rightarrow> bytes \<Rightarrow> serverConnection" where
  "new_connection fo ot to' path =
     \<lparr>conn_ID = fo_ConnectionSerialNumber fo, conn_OT = ot, conn_TO = to', conn_RPI = fo_TORPI fo,
      conn_Path = path, conn_Open = True\<rparr>"

text \<open>
  What both forward opens do once the request and its path are read: choose the connection ids,
  reply, and enter the connection in the table.
\<close>

definition open_connection :: "msgEIPForwardOpen \<Rightarrow> bytes \<Rightarrow> conn_addr act" where
  "open_connection fo fwd_path h =
     (if length fwd_path < 2 then fail (Panic ''slice bounds out of range [:2]'')
      else
        let path = take 2 fwd_path in
        seq_act (choose_id (fo_TOConnectionID fo)) (\<lambda>to'.
        seq_act (upd (\<lambda>h. h\<lparr>h_TOConnectionID := to'\<rparr>)) (\<lambda>_.
        seq_act (choose_id (fo_OTConnectionID fo)) (\<lambda>ot.
        seq_act (upd (\<lambda>h. h\<lparr>h_OTConnectionID := ot\<rparr>)) (\<lambda>_.
        bind_act ''problem sending response data''
          (h_send cipCommandSendRRData
            (serializeItems [empty_item cipItem_Null,
               item_Write (msgEIPForwardOpen_Standard_Reply (AsResponse (fo_Service fo)) ot to'
                   (fo_ConnectionSerialNumber fo) (fo_VendorID fo) (fo_OriginatorSerialNumber fo)
                   (fo_OTRPI fo) (fo_TORPI fo))
                 (newItem cipItem_UnconnectedData None)])) (\<lambda>_ h.
          let cm = srv_ConnMgr (h_server h) in
          (Inr (conn_next cm), set_ConnMgr (cm_Add (new_connection fo ot to' path) cm) h))))))) h"

definition largeForwardOpen :: "bytes \<Rightarrow> unit act" where
  "largeForwardOpen d =
     need ''problem with fwd open parsing'' (read_ForwardOpen_Large d) (\<lambda>(fo, r1).
     need ''problem with fwd open path parsing'' (read_full (unat (fo_ConnPathSize fo * 2)) r1) (\<lambda>(fwd_path, _).
     seq_act (open_connection fo fwd_path) (\<lambda>_. ret ())))"

definition start_task :: "u32 \<Rightarrow> ep_addr \<Rightarrow> conn_addr \<Rightarrow> unit act" where
  "start_task to' ep c h =
     (Inr (), h\<lparr>h_tasks := h_tasks h @ [\<lparr>task_TO = to', task_ep = ep, task_conn = c, task_seq = 0\<rparr>]\<rparr>)"

definition forwardOpen :: "bytes \<Rightarrow> unit act" where
  "forwardOpen d =
     need ''problem with fwd open parsing'' (read_ForwardOpen_Standard d) (\<lambda>(fo, r1).
     need ''problem with fwd open path parsing'' (read_full (unat (fo_ConnPathSize fo * 2)) r1) (\<lambda>(fwd_path, _).
     seq_act (open_connection fo fwd_path) (\<lambda>c h.
       if fo_TransportTrigger fo = 1 then
         (case h_Resolve (take 2 fwd_path) h of
            Inl e \<Rightarrow> fail (Msg ''no tag provider for path'') h
          | Inr tp \<Rightarrow> start_task (h_TOConnectionID h) tp c h)
       else ret () h)))"

definition forwardClose :: "bytes \<Rightarrow> unit act" where
  "forwardClose d h =
     need ''problem parsing forward close'' (read_ForwardClose d) (\<lambda>(fc, r1).
     case cm_CloseByID (fc_ConnectionSerialNumber fc) (srv_ConnMgr (h_server h)) of
       Inl e \<Rightarrow> fail (Msg ''couldn't close open connection'')
     | Inr cm \<Rightarrow>
         seq_act (upd (set_ConnMgr cm)) (\<lambda>_.
         need ''problem parsing forward close path'' (read_full (unat (fc_PathSize fc * 2)) r1) (\<lambda>_. ret ()))) h"

section \<open>Unconnected services\<close>

abbreviation defaultLocalPath :: bytes where "defaultLocalPath \<equiv> [1, 0]"

definition unconnectedGetAttributeAll :: "bytes \<Rightarrow> unit act" where
  "unconnectedGetAttributeAll r h =
     (let gaa = CIPService_GetAttributeAll; attrs = srv_Attributes (h_server h) in
     need ''get_attributes_all: read path size'' (rd8 r) (\<lambda>(pathSize, r1).
     need ''get_attributes_all: read path'' (read_full (unat pathSize * 2) r1) (\<lambda>(pathBytes, _).
     instead (parseClassInstancePath pathBytes) (sendUnconnectedErrorReply gaa CIPStatus_PathSegmentError)
       (\<lambda>(class, inst).
     if class = CipObject_Identity then
       (if inst \<noteq> 1 then sendUnconnectedErrorReply gaa CIPStatus_PathDestinationUnknown
        else need ''get_attributes_all: build identity response'' (buildIdentityGetAttributesAllResponse attrs)
               (\<lambda>b. sendUnconnectedRRDataReply gaa [VSlice TUint8 (map VUint8 b)]))
     else if class = 0x64 then
       (if inst \<noteq> 1 then sendUnconnectedErrorReply gaa CIPStatus_PathDestinationUnknown
        else need ''get_attributes_all: build program response'' (buildProgramObjectGetAttributesAllResponse attrs)
               (\<lambda>b. sendUnconnectedRRDataReply gaa [VSlice TUint8 (map VUint8 b)]))
     else sendUnconnectedErrorReply gaa CIPStatus_PathDestinationUnknown))) h)"

definition unconnectedServiceWrite :: "go_convert \<Rightarrow> bytes \<Rightarrow> unit act" where
  "unconnectedServiceWrite fconv r h =
     need ''error getting reserved byte'' (rd8 r) (\<lambda>(_, r1).
     need ''couldn't parse path'' (getTagFromPath [] r1) (\<lambda>(tag, r2).
     need ''problem parsing write values'' (parseWriteValues r2) (\<lambda>(results, r3).
     need ''couldn't get path size 374'' (rd16 r3) (\<lambda>(path_size, r4).
     need ''couldn't get path'' (read_full (unat (2 * path_size)) r4) (\<lambda>(path, _).
     need ''problem finding tag provider'' (h_Resolve path h) (\<lambda>p.
     seq_act (write_results fconv p tag results) (\<lambda>_.
       sendUnconnectedRRDataReply CIPService_Write []))))))) h"

definition unconnectedServiceRead :: "bytes \<Rightarrow> unit act" where
  "unconnectedServiceRead r h =
     need ''error getting reserved byte'' (rd8 r) (\<lambda>(_, r1).
     need ''couldn't parse path'' (getTagFromPath [] r1) (\<lambda>(tag, r2).
     need ''error getting write qty'' (rd16 r2) (\<lambda>(qty, r3).
     need ''couldn't get path size 374'' (rd16 r3) (\<lambda>(path_size, r4).
     need ''couldn't get path'' (read_full (unat (2 * path_size)) r4) (\<lambda>(path, _).
     need ''problem finding tag provider'' (h_Resolve path h) (\<lambda>p.
     need ''problem getting data from provider'' (h_TagRead p tag qty h) (\<lambda>result.
     let typ = fst (GoVarToCIPType result);
         plain = sendUnconnectedRRDataReply CIPService_Read [VUint8 typ, VUint8 0, result] in
     if typ = CIPTypeSTRING then
       (case result of
          VString s \<Rightarrow> sendUnconnectedRRDataReply CIPService_Read [VSer (cipStringPacker s)]
        | VSlice TString ss \<Rightarrow>
            sendUnconnectedRRDataReply CIPService_Read
              (map (\<lambda>v. VSer (cipStringPacker (case v of VString s \<Rightarrow> s | _ \<Rightarrow> []))) ss)
        | _ \<Rightarrow> plain)
     else plain))))))) h"

text \<open>The tag behind an instance of the custom class \<open>0xC8\<close>: the tags in alphabetical order, counted from one.\<close>

definition resolveSymbolicTagFromCustomClass :: "u16 \<Rightarrow> serverTCPHandler \<Rightarrow> string option" where
  "resolveSymbolicTagFromCustomClass inst h =
     (case h_Resolve defaultLocalPath h of
        Inl _ \<Rightarrow> None
      | Inr p \<Rightarrow>
          (case ep_TagList (rt_store (srv_Router (h_server h)) p) of
             None \<Rightarrow> None
           | Some tags \<Rightarrow>
               if inst = 0 \<or> unat inst > length tags then None
               else Some (ti_Name (sort_key ti_Name tags ! (unat inst - 1)))))"

definition unconnectedServiceGetAttrSingle :: "bytes \<Rightarrow> unit act" where
  "unconnectedServiceGetAttrSingle r h =
     (let gas = CIPService_GetAttributeSingle in
     need ''couldn't read path size'' (item8 r) (\<lambda>(pathSize, r1).
     if pathSize \<noteq> 3 then sendUnconnectedErrorReply gas CIPStatus_PathSegmentError
     else
     need ''could not read class'' (CIPClass_Read r1) (\<lambda>(cls, r2).
     need ''could not read instance'' (CIPInstance_Read r2) (\<lambda>(inst, r3).
     need ''could not read attribute ID'' (CIPAttribute_Read r3) (\<lambda>(attr, _).
     if cls = 0xC8 then
       (case resolveSymbolicTagFromCustomClass (ucast inst) h of
          None \<Rightarrow> sendUnconnectedErrorReply gas CIPStatus_PathDestinationUnknown
        | Some tagName \<Rightarrow>
            if attr \<noteq> 1 then sendUnconnectedErrorReply gas CIPStatus_AttributeNotSupported
            else
              instead (h_Resolve defaultLocalPath h) (sendUnconnectedErrorReply gas CIPStatus_PathDestinationUnknown) (\<lambda>p.
              instead (h_TagRead p tagName 1 h) (sendUnconnectedErrorReply gas CIPStatus_ObjectDoesNotExist) (\<lambda>val.
              let typ = fst (GoVarToCIPType val) in
              case val of
                VString s \<Rightarrow> sendUnconnectedRRDataReply gas [VSer (cipStringPacker s)]
              | _ \<Rightarrow> sendUnconnectedRRDataReply gas [VUint8 typ, VUint8 0, val])))
     else if cls \<noteq> CipObject_Identity \<or> inst \<noteq> 1
     then sendUnconnectedErrorReply gas CIPStatus_PathDestinationUnknown
     else
       (case srv_Attributes (h_server h) attr of
          None \<Rightarrow> sendUnconnectedErrorReply gas CIPStatus_AttributeNotSupported
        | Some val \<Rightarrow>
            sendUnconnectedRRDataReply gas [VUint8 (fst (GoVarToCIPType val)), VUint8 0, val]))))) h)"

definition unconnectedServiceSetAttrSingle :: "go_convert \<Rightarrow> bytes \<Rightarrow> unit act" where
  "unconnectedServiceSetAttrSingle fconv r h =
     (let sas = CIPService_SetAttributeSingle in
     need ''couldn't read path size'' (item8 r) (\<lambda>(pathSize, r1).
     if pathSize \<noteq> 3 then sendUnconnectedErrorReply sas CIPStatus_PathSegmentError
     else
     need ''could not read class'' (CIPClass_Read r1) (\<lambda>(cls, r2).
     need ''could not read instance'' (CIPInstance_Read r2) (\<lambda>(inst, r3).
     need ''could not read attribute ID'' (CIPAttribute_Read r3) (\<lambda>(attr, r4).
     if cls \<noteq> 0xC8 then sendUnconnectedErrorReply sas CIPStatus_PathDestinationUnknown
     else if attr \<noteq> 1 then sendUnconnectedErrorReply sas CIPStatus_AttributeNotSupported
     else
       (case resolveSymbolicTagFromCustomClass (ucast inst) h of
          None \<Rightarrow> sendUnconnectedErrorReply sas CIPStatus_PathDestinationUnknown
        | Some tagName \<Rightarrow>
            need ''set_attr_single: parse value'' (parseWriteValues r4) (\<lambda>(values, _).
            if values = [] then sendUnconnectedErrorReply sas CIPStatus_NotEnoughData
            else
              instead (h_Resolve defaultLocalPath h) (sendUnconnectedErrorReply sas CIPStatus_PathDestinationUnknown) (\<lambda>p.
              or_else (h_TagWrite fconv p tagName (hd values))
                (sendUnconnectedErrorReply sas CIPStatus_InvalidAttributeValue)
                (\<lambda>_. sendUnconnectedRRDataReply sas [])))))))) h)"

text \<open>The embedded request of an \<^verbatim>\<open>UnconnectedSend\<close> (service \<open>0x52\<close>).\<close>

definition unconnectedSend :: "go_convert \<Rightarrow> bytes \<Rightarrow> unit act" where
  "unconnectedSend fconv r =
     need ''error getting path size 305'' (rd8 r) (\<lambda>(pathsize, r1).
     need ''error getting path'' (read_full (unat (pathsize * 2)) r1) (\<lambda>(_, r2).
     need ''error getting timeout'' (rd16 r2) (\<lambda>(_, r3).
     need ''error getting embedded size'' (rd16 r3) (\<lambda>(_, r4).
     need ''error getting embedded service'' (rd8 r4) (\<lambda>(emService, r5).
     if emService = CIPService_Write then unconnectedServiceWrite fconv r5
     else if emService = CIPService_Read then unconnectedServiceRead r5
     else if emService = CIPService_GetAttributeSingle then unconnectedServiceGetAttrSingle r5
     else if emService = CIPService_SetAttributeSingle then unconnectedServiceSetAttrSingle fconv r5
     else if emService = CIPService_GetAttributeAll then unconnectedGetAttributeAll r5
     else sendUnconnectedErrorReply emService CIPStatus_ServiceNotSupported)))))"

definition unconnectedData :: "go_convert \<Rightarrow> bytes \<Rightarrow> unit act" where
  "unconnectedData fconv d =
     need ''problem unmarshling service'' (rd8 d) (\<lambda>(service, r1).
     if service = CIPService_ForwardOpen then bind_act ''problem handling forward open'' (forwardOpen d) ret
     else if service = CIPService_LargeForwardOpen
     then bind_act ''problem handling large forward open'' (largeForwardOpen d) ret
     else if service = CIPService_ForwardClose then bind_act ''problem handling forward close'' (forwardClose d) ret
     else if service = CIPService_GetAttributeAll
     then bind_act ''problem handling get attributes all'' (unconnectedGetAttributeAll r1) ret
     else if service = CIPService_GetAttributeSingle
     then bind_act ''problem handling get attribute single'' (unconnectedServiceGetAttrSingle r1) ret
     else if service = CIPService_SetAttributeSingle
     then bind_act ''problem handling set attribute single'' (unconnectedServiceSetAttrSingle fconv r1) ret
     else if service = 0x52 then unconnectedSend fconv r1
     else sendUnconnectedErrorReply service CIPStatus_ServiceNotSupported)"

section \<open>The encapsulation commands\<close>

text \<open>
  Each command handler also reads its part of the TCP stream \<open>r\<close>; the result is what is left.
\<close>

definition read_rr :: "bytes \<Rightarrow> (CIPItem list \<times> bytes) res" where
  "read_rr r =
     attempt ''problem reading interface handle'' (rd32 r) (\<lambda>(_, r1).
     attempt ''problem reading timeout'' (rd16 r1) (\<lambda>(_, r2).
     attempt ''problem reading items for rrData'' (readItems r2) Inr))"

definition connected_service :: "go_convert \<Rightarrow> cip_service \<Rightarrow> CIPItem list \<Rightarrow> bytes \<Rightarrow> unit act" where
  "connected_service fconv service items r =
     (if service = CIPService_Write
      then bind_act ''problem handling write'' (cipConnectedWrite fconv items r) ret
      else if service = CIPService_FragRead
      then bind_act ''problem handling frag read'' (connectedRead CIPService_FragRead items) ret
      else if service = CIPService_Read
      then bind_act ''problem handling non-frag read'' (connectedRead CIPService_Read items) ret
      else if service = CIPService_MultipleService
      then bind_act ''problem handling multi service'' (connectedMulti fconv items) ret
      else if service = CIPService_GetAttributeSingle
      then bind_act ''problem handling getAttrSingle'' (connectedGetAttr items) ret
      else if service = CIPService_GetAttributeAll
      then bind_act ''problem handling connected getAttributesAll'' (connectedGetAttributeAll items) ret
      else if service = CIPService_GetInstanceAttributeList
      then bind_act ''problem handling connected symbol list'' (connectedSymbolList items) ret
      else sendUnitDataErrorReply service CIPStatus_ServiceNotSupported)"

definition sendUnitData :: "go_convert \<Rightarrow> bytes \<Rightarrow> bytes act" where
  "sendUnitData fconv r =
     need ''sendUnitData'' (read_rr r) (\<lambda>(items, r').
     if length items \<noteq> 2 then fail (Msg ''expected 2 items'')
     else if hdr_ID (Header (items ! 0)) \<noteq> cipItem_ConnectionAddress
     then fail (Msg ''should have had a connected data item in position 0'')
     else
     need ''problem deserializing connection ID'' (rd32 (Data (items ! 0))) (\<lambda>_.
     need ''problem deserializing unit data seq'' (rd16 (Data (items ! 1))) (\<lambda>(sq, r1).
     seq_act (upd (\<lambda>h. h\<lparr>h_UnitDataSequencer := sq\<rparr>)) (\<lambda>_.
     need ''problem deserializing service'' (rd8 r1) (\<lambda>(service, r2).
     seq_act (connected_service fconv service items r2) (\<lambda>_. ret r'))))))"

definition sendRRData :: "go_convert \<Rightarrow> bytes \<Rightarrow> bytes act" where
  "sendRRData fconv r =
     need ''sendRRData'' (read_rr r) (\<lambda>(items, r').
     if length items \<noteq> 2 then fail (Msg ''expected 2 items'')
     else
       let it = items ! 1 in
       seq_act
         (if hdr_ID (Header it) = cipItem_ConnectedData
          then need ''failed to get service'' (rd8 (Data it)) (\<lambda>(service, _). connectedRead service items)
          else if hdr_ID (Header it) = cipItem_UnconnectedData then unconnectedData fconv (Data it)
          else ret ()) (\<lambda>_. ret r'))"

definition registerSession :: "eipHeader \<Rightarrow> bytes \<Rightarrow> bytes act" where
  "registerSession hdr r =
     need ''problem reading register session message'' (read_full 4 r) (\<lambda>(reg_msg, r').
     seq_act (choose_id (eh_SessionHandle hdr)) (\<lambda>handle.
     seq_act (upd (\<lambda>h. h\<lparr>h_handle := handle, h_options := eh_Options hdr\<rparr>)) (\<lambda>_.
     bind_act ''problem sending register response'' (h_send cipCommandRegisterSession reg_msg) (\<lambda>_. ret r'))))"

definition listServicesReply :: bytes where
  "listServicesReply =
     put16 1 @ put16 0x0100 @ put16 10 @ put16 1 @ put16 (2 ^ 5 OR 2 ^ 8) @ to_bytes ''Communications  ''"

definition sendListServicesData :: "bytes \<Rightarrow> bytes act" where
  "sendListServicesData r = seq_act (h_send cipCommandSendRRData listServicesReply) (\<lambda>_. ret r)"

definition sendListIdentityReply :: "bytes \<Rightarrow> bytes act" where
  "sendListIdentityReply r h =
     need ''build list identity body''
       (buildListIdentityItemBody (srv_Attributes (h_server h)) (h_local_ip h) (h_local_port h)) (\<lambda>body.
     seq_act (h_send cipCommandListIdentity (frameListIdentityResponse body)) (\<lambda>_. ret r)) h"

definition dispatch :: "go_convert \<Rightarrow> eipHeader \<Rightarrow> bytes \<Rightarrow> bytes act" where
  "dispatch fconv hdr r =
     (let c = eh_Command hdr in
      if c = cipCommandRegisterSession then bind_act ''problem with register session'' (registerSession hdr r) ret
      else if c = cipCommandSendRRData then bind_act ''problem with sendRRData'' (sendRRData fconv r) ret
      else if c = cipCommandSendUnitData then bind_act ''problem with sendUnitData'' (sendUnitData fconv r) ret
      else if c = cipCommandListServices then bind_act ''problem with sendListServices'' (sendListServicesData r) ret
      else if c = cipCommandListIdentity then bind_act ''problem with sendListIdentity'' (sendListIdentityReply r) ret
      else ret r)"

end
