(* ===== verification/Server_Loop.thy ===== *)
theory Server_Loop
  imports Server_Handler
begin

text \<open>
  The loops of \<^verbatim>\<open>server.go\<close>: \<^verbatim>\<open>serve\<close> reads one message after the
  other off a TCP stream until a handler fails or the stream ends, \<^verbatim>\<open>serveUDP\<close>
  handles one datagram at a time, and an \<^verbatim>\<open>ioConnection\<close> sends one datagram per
  tick while its connection is open.
\<close>

section \<open>Handlers only consume input\<close>

lemma rd_shorter:
  "rd8 r = Inr (x8, r') \<Longrightarrow> length r' \<le> length r" "rd16 r = Inr (x16, r') \<Longrightarrow> length r' \<le> length r"
  "rd32 r = Inr (x32, r') \<Longrightarrow> length r' \<le> length r" "read_full n r = Inr (xs, r') \<Longrightarrow> length r' \<le> length r"
  by (auto simp: rd8_def rd16_def rd32_def andthen_Inr_iff dest!: read_full_Inr)

lemma read_item_shorter: "read_item r = Inr (it, r') \<Longrightarrow> length r' \<le> length r"
  by (fastforce simp: read_item_def Let_def attempt_Inr_iff dest!: read_full_Inr)

lemma read_n_shorter:
  assumes "\<And>r x r'. d r = Inr (x, r') \<Longrightarrow> length r' \<le> length r"
  shows "read_n d n r = Inr (xs, r') \<Longrightarrow> length r' \<le> length r"
proof (induction n arbitrary: r xs)
  case (Suc n)
  then obtain x r1 ys where "d r = Inr (x, r1)" "read_n d n r1 = Inr (ys, r')"
    by (auto simp: andthen_Inr_iff)
  with Suc.IH assms show ?case by (meson order_trans)
qed simp

lemma readItems_shorter: "readItems r = Inr (its, r') \<Longrightarrow> length r' \<le> length r"
  by (fastforce simp: readItems_def attempt_Inr_iff dest!: rd_shorter read_n_shorter[OF read_item_shorter, rotated])

lemma read_rr_shorter: "read_rr r = Inr (its, r') \<Longrightarrow> length r' \<le> length r"
  by (fastforce simp: read_rr_def attempt_Inr_iff dest!: rd_shorter readItems_shorter)

text \<open>What an action that succeeds leaves of the stream.\<close>

lemma need_Inr: "need m r f h = (Inr y, h') \<longleftrightarrow> (\<exists>x. r = Inr x \<and> f x h = (Inr y, h'))"
  by (cases r) (simp_all add: need_def)

lemma seq_act_Inr: "seq_act a f h = (Inr y, h') \<longleftrightarrow> (\<exists>x h1. a h = (Inr x, h1) \<and> f x h1 = (Inr y, h'))"
  by (auto simp: seq_act_def split: prod.splits sum.splits)

lemma bind_act_Inr: "bind_act m a f h = (Inr y, h') \<longleftrightarrow> (\<exists>x h1. a h = (Inr x, h1) \<and> f x h1 = (Inr y, h'))"
  by (auto simp: bind_act_def split: prod.splits sum.splits)

lemma ret_Inr: "ret x h = (Inr y, h') \<longleftrightarrow> y = x \<and> h' = h"
  by (auto simp: ret_def)

lemma fail_Inr: "\<not> fail e h = (Inr y, h')"
  by (simp add: fail_def)

lemma upd_Inr: "upd f h = (Inr y, h') \<longleftrightarrow> h' = f h"
  by (auto simp: upd_def)

lemmas act_Inr = upd_Inr need_Inr seq_act_Inr bind_act_Inr ret_Inr fail_Inr

lemma dispatch_shorter: "dispatch fconv hdr r h = (Inr r', h') \<Longrightarrow> length r' \<le> length r"
  by (auto simp: dispatch_def Let_def act_Inr registerSession_def sendRRData_def sendUnitData_def
      sendListServicesData_def sendListIdentityReply_def split: if_splits
      dest!: rd_shorter read_rr_shorter)

section \<open>The TCP loop\<close>

text \<open>
  \<open>serve fconv r h\<close>: the handler on a connection over which the bytes \<open>r\<close> arrive before it is
  closed.  The loop only ends with an error, of which the end of the stream between two messages
  is one.
\<close>

function serve :: "go_convert \<Rightarrow> bytes \<Rightarrow> serverTCPHandler \<Rightarrow> gerror \<times> serverTCPHandler" where
  "serve fconv r h =
     (case read_eipHeader r of
        Inl e \<Rightarrow> (wrap ''problem reading eip header'' e, h)
      | Inr (hdr, r1) \<Rightarrow>
          (case dispatch fconv hdr r1 (h\<lparr>h_context := eh_Context hdr\<rparr>) of
             (Inl e, h') \<Rightarrow> (e, h')
           | (Inr r2, h') \<Rightarrow> serve fconv r2 h'))"
  by pat_completeness auto
termination
proof (relation "measure (\<lambda>(fconv, r, h). length r)", goal_cases)
  case (2 fconv r h x hdr r1 y z r2)
  have "dispatch fconv hdr r1 (h\<lparr>h_context := eh_Context hdr\<rparr>) = (Inr r2, z)" using 2 by simp
  then have "length r2 \<le> length r1" by (rule dispatch_shorter)
  moreover obtain p where "r = p @ r1" "length p = 24" using 2 read_eipHeader_Inr[of r hdr r1] by auto
  ultimately show ?case by simp
qed simp

declare serve.simps [simp del]

text \<open>Every datagram is read from a buffer of 4096 bytes whose tail is zero.\<close>

definition udp_datagram :: "bytes \<Rightarrow> Server \<Rightarrow> gerror option \<times> Server" where
  "udp_datagram b srv =
     (if length b = 0 \<or> length b \<ge> 4096 then (None, srv)
      else case readItems (pad_copy 4096 b) of
        Inl e \<Rightarrow> (Some e, srv)
      | Inr (items, _) \<Rightarrow>
          if length items \<noteq> 2 then (Some (Msg ''expected 2 items''), srv)
          else if hdr_ID (Header (items ! 0)) = cipItem_SequenceAddress then
            (case andthen (read_full 8 (Data (items ! 0))) (\<lambda>(x, _).
                    andthen (cm_GetByOT (fld32 0 x) (srv_ConnMgr srv)) (\<lambda>c.
                    andthen (rt_Resolve (conn_Path (conn_store (srv_ConnMgr srv) c)) (srv_Router srv)) (\<lambda>tp.
                    andthen (ep_IOWrite items (rt_store (srv_Router srv) tp)) (\<lambda>ep. Inr (tp, ep))))) of
               Inl e \<Rightarrow> (Some e, srv)
             | Inr (tp, ep) \<Rightarrow>
                 (None, srv\<lparr>srv_Router := (srv_Router srv)\<lparr>rt_store := (rt_store (srv_Router srv))(tp := ep)\<rparr>\<rparr>))
          else (None, srv))"

section \<open>Cyclic I/O\<close>

datatype io_outcome = IoStopped | IoSkipped gerror | IoSent bytes

definition ioConnection_tick :: "io_task \<Rightarrow> Server \<Rightarrow> io_outcome \<times> io_task" where
  "ioConnection_tick t srv =
     (let sq = task_seq t + 1; t' = t\<lparr>task_seq := sq\<rparr> in
      if \<not> conn_Open (conn_store (srv_ConnMgr srv) (task_conn t)) then (IoStopped, t')
      else case ep_IORead (rt_store (srv_Router srv) (task_ep t)) of
        Inl e \<Rightarrow> (IoSkipped e, t')
      | Inr dat \<Rightarrow>
          (IoSent (drop 6 (serializeItems
             [item_Write (put32 (task_TO t) @ put32 sq) (newItem cipItem_SequenceAddress None),
              item_Write (put16 (ucast sq) @ dat) (newItem cipItem_ConnectedData None)])), t'))"

end
