(* ===== verification/Server_Effects.thy ===== *)
theory Server_Effects
  imports Server_Loop
begin

text \<open>
  What a request can do to the server.  Every handler is composed of a few primitive effects; a
  relation between the states before and after that these effects respect is respected by every
  handler, by \<^const>\<open>dispatch\<close> and by the whole loop \<^const>\<open>serve\<close>.  The locale states the
  effects once, its interpretations give the invariants.
\<close>

section \<open>Relations respected by the effects\<close>

locale handler_effects =
  fixes R :: "serverTCPHandler \<Rightarrow> serverTCPHandler \<Rightarrow> bool"
    and fconv :: go_convert
  assumes eff_refl: "R h h"
    and eff_trans: "R h h1 \<Longrightarrow> R h1 h2 \<Longrightarrow> R h h2"
    and eff_out: "R h (h\<lparr>h_out := frames\<rparr>)"
    and eff_context: "R h (h\<lparr>h_context := ctx\<rparr>)"
    and eff_ids: "R h (h\<lparr>h_TOConnectionID := i\<rparr>)" "R h (h\<lparr>h_OTConnectionID := i\<rparr>)"
    and eff_seq: "R h (h\<lparr>h_UnitDataSequencer := sq\<rparr>)"
    and eff_session: "R h (h\<lparr>h_handle := sess, h_options := opts\<rparr>)"
    and eff_rand: "R h (h\<lparr>h_server := (h_server h)\<lparr>srv_draws := n\<rparr>\<rparr>)"
    and eff_add: "conn_Open c \<Longrightarrow> R h (set_ConnMgr (cm_Add c (srv_ConnMgr (h_server h))) h)"
    and eff_close: "cm_CloseByID j (srv_ConnMgr (h_server h)) = Inr cm \<Longrightarrow> R h (set_ConnMgr cm h)"
    and eff_task: "task_conn t < conn_next (srv_ConnMgr (h_server h)) \<Longrightarrow> R h (h\<lparr>h_tasks := h_tasks h @ [t]\<rparr>)"
    and eff_write: "ep_TagWrite fconv tag v (rt_store (srv_Router (h_server h)) a) = Inr ep \<Longrightarrow> R h (h_set_ep a ep h)"
begin

lemma at_ret: "R h (snd (ret x h))"
  by (simp add: ret_def eff_refl)

lemma at_fail: "R h (snd (fail e h))"
  by (simp add: fail_def eff_refl)

lemma at_need: "(\<And>x. r = Inr x \<Longrightarrow> R h (snd (f x h))) \<Longrightarrow> R h (snd (need m r f h))"
  by (cases r) (simp_all add: need_def eff_refl)

lemma at_otherwise:
  "R h (snd (a h)) \<Longrightarrow> (\<And>x. r = Inr x \<Longrightarrow> R h (snd (f x h))) \<Longrightarrow> R h (snd (otherwise m r a f h))"
  by (cases r) (simp_all add: otherwise_def eff_refl)

lemma at_instead:
  "R h (snd (a h)) \<Longrightarrow> (\<And>x. r = Inr x \<Longrightarrow> R h (snd (f x h))) \<Longrightarrow> R h (snd (instead r a f h))"
  by (cases r) (simp_all add: instead_def eff_refl)

lemma at_seq:
  assumes "R h (snd (a h))" "\<And>x h'. a h = (Inr x, h') \<Longrightarrow> R h' (snd (f x h'))"
  shows "R h (snd (seq_act a f h))"
  using assms eff_trans by (auto simp: seq_act_def split: prod.splits sum.splits)

lemma at_bind:
  assumes "R h (snd (a h))" "\<And>x h'. a h = (Inr x, h') \<Longrightarrow> R h' (snd (f x h'))"
  shows "R h (snd (bind_act m a f h))"
  using assms eff_trans by (auto simp: bind_act_def split: prod.splits sum.splits)

lemma at_send: "R h (snd (h_send cmd msg h))"
  by (simp add: h_send_def eff_refl eff_out)

lemma at_upd: "R h (f h) \<Longrightarrow> R h (snd (upd f h))"
  by (simp add: upd_def)

lemma at_or_else:
  assumes "R h (snd (a h))" "\<And>h'. R h' (snd (bad h'))" "\<And>x h'. R h' (snd (f x h'))"
  shows "R h (snd (or_else a bad f h))"
  using assms eff_trans by (auto simp: or_else_def split: prod.splits sum.splits)

lemma at_if:
  "(c \<Longrightarrow> R h (snd (a h))) \<Longrightarrow> (\<not> c \<Longrightarrow> R h (snd (b h))) \<Longrightarrow> R h (snd ((if c then a else b) h))"
  by simp

lemma at_option:
  "R h (snd (a h)) \<Longrightarrow> (\<And>x. R h (snd (f x h))) \<Longrightarrow> R h (snd ((case o1 of None \<Rightarrow> a | Some x \<Rightarrow> f x) h))"
  by (cases o1) auto

lemma at_sum:
  "(\<And>e. q = Inl e \<Longrightarrow> R h (snd (g e h))) \<Longrightarrow> (\<And>x. q = Inr x \<Longrightarrow> R h (snd (f x h))) \<Longrightarrow>
     R h (snd ((case q of Inl e \<Rightarrow> g e | Inr x \<Rightarrow> f x) h))"
  by (cases q) auto

lemmas at_rules = at_if at_option at_upd at_or_else at_ret at_fail at_need at_otherwise at_instead at_seq at_bind at_send

lemma at_replies:
  "R h (snd (sendUnitDataErrorReply s st h))" "R h (snd (sendUnitDataReplyWithPayload s p h))"
  "R h (snd (sendUnitDataReply s h))" "R h (snd (sendConnectedReply s sq c vs h))"
  "R h (snd (sendConnectedError s sq c st x h))" "R h (snd (sendUnconnectedErrorReply s st h))"
  "R h (snd (sendUnconnectedRRDataReply s vs h))"
  by (auto simp: sendUnitDataErrorReply_def sendUnitDataReplyWithPayload_def sendUnitDataReply_def
      sendConnectedReply_def sendConnectedError_def sendUnconnectedErrorReply_def
      sendUnconnectedRRDataReply_def intro!: at_rules)

lemma at_TagWrite: "R h (snd (h_TagWrite fconv a tag v h))"
  by (auto simp: h_TagWrite_def eff_refl eff_write split: sum.splits)

lemma at_write_results: "R h (snd (write_results fconv p tag vs h))"
  by (auto simp: write_results_def intro!: at_rules at_TagWrite)

lemmas at_leaves = at_rules at_replies at_TagWrite at_write_results

lemma at_connectedWrite: "R h (snd (cipConnectedWrite fconv items r h))"
  by (auto simp: cipConnectedWrite_def split_beta intro!: at_leaves)

lemma at_multi_one: "R h (snd (multi_one fconv p d off h))"
  by (auto simp: multi_one_def split_beta intro!: at_leaves)

lemma at_multi_all: "R h (snd (multi_all fconv p d offs h))"
  by (induction offs arbitrary: h) (auto intro!: at_leaves at_multi_one)

lemma at_connectedMulti: "R h (snd (connectedMulti fconv items h))"
  by (auto simp: connectedMulti_def split_beta Let_def intro!: at_leaves at_multi_all)

lemma at_string_failure: "R h (snd ((\<lambda>h. (Inl e, snd (sendConnectedError s sq c st x h))) h))"
  by (simp add: at_replies)

lemma at_connectedRead: "R h (snd (connectedRead svc items h))"
  unfolding connectedRead_def Let_def split_beta
  by (intro at_otherwise at_replies)
    (auto split: goval.splits gotype.splits intro!: at_leaves)

lemma at_connectedGetAttr: "R h (snd (connectedGetAttr items h))"
  by (auto simp: connectedGetAttr_def getAttrSingle_def split_beta split: option.splits intro!: at_leaves)

lemma at_connectedGetAttributeAll: "R h (snd (connectedGetAttributeAll items h))"
  by (auto simp: connectedGetAttributeAll_def split_beta Let_def intro!: at_leaves)

lemma at_connectedSymbolList: "R h (snd (connectedSymbolList items h))"
  by (auto simp: connectedSymbolList_def split_beta split: option.splits intro!: at_leaves)

lemma at_choose_id: "R h (snd (choose_id i h))"
  by (simp add: choose_id_def rand_Uint32_def ret_def eff_refl eff_rand)

lemma at_open_connection: "R h (snd (open_connection fo path h))"
  by (auto simp: open_connection_def Let_def new_connection_def
      intro!: at_leaves at_choose_id eff_ids eff_add)

end

lemma open_connection_Inr:
  assumes "open_connection fo path h = (Inr c, h')"
  shows "c < conn_next (srv_ConnMgr (h_server h'))"
proof -
  from assms obtain cm h1 conn where "c = conn_next cm" "h' = set_ConnMgr (cm_Add conn cm) h1"
    by (auto simp: open_connection_def act_Inr Let_def split: if_splits)
  then show ?thesis by (simp add: set_ConnMgr_def cm_Add_def)
qed

context handler_effects
begin

lemma at_largeForwardOpen: "R h (snd (largeForwardOpen d h))"
  by (auto simp: largeForwardOpen_def split_beta intro!: at_leaves at_open_connection)

lemma at_forwardOpen: "R h (snd (forwardOpen d h))"
  unfolding forwardOpen_def split_beta
proof (intro at_need at_seq at_open_connection, goal_cases)
  case (1 x y c h')
  then have "c < conn_next (srv_ConnMgr (h_server h'))" by (blast dest: open_connection_Inr)
  then show ?case
    by (auto simp: start_task_def split: sum.splits intro!: at_leaves eff_task)
qed

lemma at_forwardClose: "R h (snd (forwardClose d h))"
  unfolding forwardClose_def split_beta
  by (intro at_rules at_sum eff_close)

lemma at_unconnected:
  "R h (snd (unconnectedGetAttributeAll r h))" "R h (snd (unconnectedServiceWrite fconv r h))"
  "R h (snd (unconnectedServiceGetAttrSingle r h))"
  by (auto simp: unconnectedGetAttributeAll_def unconnectedServiceWrite_def
      unconnectedServiceGetAttrSingle_def split_beta Let_def
      split: option.splits goval.splits intro!: at_leaves)

lemma at_unconnectedServiceRead: "R h (snd (unconnectedServiceRead r h))"
  by (auto simp: unconnectedServiceRead_def split_beta Let_def
      split: goval.splits gotype.splits intro!: at_leaves)

lemma at_unconnectedServiceSetAttrSingle: "R h (snd (unconnectedServiceSetAttrSingle fconv r h))"
  unfolding unconnectedServiceSetAttrSingle_def Let_def split_beta
  by (intro at_leaves)

lemmas at_unconnected_all = at_forwardOpen at_largeForwardOpen at_forwardClose at_unconnected
  at_unconnectedServiceRead at_unconnectedServiceSetAttrSingle

lemma at_unconnectedData: "R h (snd (unconnectedData fconv d h))"
  unfolding unconnectedData_def unconnectedSend_def split_beta
  by (intro at_unconnected_all at_leaves)

lemma at_connected_service: "R h (snd (connected_service fconv s items r h))"
  unfolding connected_service_def
  by (intro at_leaves at_connectedWrite at_connectedRead at_connectedMulti at_connectedGetAttr
        at_connectedGetAttributeAll at_connectedSymbolList)

lemma at_sendUnitData: "R h (snd (sendUnitData fconv r h))"
  unfolding sendUnitData_def split_beta
  by (intro at_leaves at_connected_service eff_seq)

lemma at_registerSession: "R h (snd (registerSession hdr r h))"
  unfolding registerSession_def split_beta
  by (intro at_leaves at_choose_id eff_session)

lemma at_sendRRData: "R h (snd (sendRRData fconv r h))"
  unfolding sendRRData_def split_beta Let_def
  by (intro at_leaves at_connectedRead at_unconnectedData)

lemma at_dispatch: "R h (snd (dispatch fconv hdr r h))"
  unfolding dispatch_def sendListServicesData_def sendListIdentityReply_def split_beta Let_def
  by (intro at_leaves at_registerSession at_sendUnitData at_sendRRData)

lemma at_serve: "R h (snd (serve fconv r h))"
proof (induction "length r" arbitrary: r h rule: less_induct)
  case less
  show ?case
  proof (cases "read_eipHeader r")
    case (Inl e)
    then show ?thesis by (simp add: serve.simps [of fconv r] eff_refl)
  next
    case (Inr p)
    obtain hdr r1 where p: "p = (hdr, r1)" by (cases p)
    let ?h0 = "h\<lparr>h_context := eh_Context hdr\<rparr>"
    obtain q h' where d: "dispatch fconv hdr r1 ?h0 = (q, h')" by (cases "dispatch fconv hdr r1 ?h0")
    have h': "R h h'" using eff_trans[OF eff_context at_dispatch[of ?h0 hdr r1]] d by simp
    show ?thesis
    proof (cases q)
      case (Inl e)
      then show ?thesis using Inr p d h' by (simp add: serve.simps [of fconv r])
    next
      case (Inr r2)
      have "length r2 \<le> length r1" using d Inr dispatch_shorter by metis
      moreover have "length r1 < length r"
        using \<open>read_eipHeader r = Inr p\<close> p read_eipHeader_Inr by fastforce
      ultimately have "R h' (snd (serve fconv r2 h'))" by (intro less) simp
      then show ?thesis using \<open>read_eipHeader r = Inr p\<close> Inr p d eff_trans[OF h']
        by (simp add: serve.simps [of fconv r])
    qed
  qed
qed

end

end
