(* ===== verification/Server_Safety.thy ===== *)
theory Server_Safety
  imports Server_Effects
begin

text \<open>
  Invariants of the running server, each an interpretation of the effects: the connection table
  stays consistent and every I/O task points into it, what requests must not touch (identity
  attributes, routes) stays as it is, and a closed connection never reopens.  Then how a request is
  answered: at most one frame, which echoes the request's context.
\<close>

section \<open>The connection table\<close>

definition table_ok :: "serverTCPHandler \<Rightarrow> bool" where
  "table_ok h \<longleftrightarrow> cm_inv (srv_ConnMgr (h_server h))
     \<and> (\<forall>t\<in>set (h_tasks h). task_conn t < conn_next (srv_ConnMgr (h_server h)))"

lemma cm_Close_next: "cm_inv cm \<Longrightarrow> cm_CloseByID i cm = Inr cm' \<Longrightarrow> conn_next cm' = conn_next cm"
  unfolding cm_CloseByID_def using cm_Close_spec by blast

lemma cm_inv_CloseByID: "cm_inv cm \<Longrightarrow> cm_CloseByID i cm = Inr cm' \<Longrightarrow> cm_inv cm'"
  unfolding cm_CloseByID_def by (rule cm_inv_Close)

lemma cm_Add_fields [simp]:
  "conn_next (cm_Add c cm) = Suc (conn_next cm)"
  "conn_store (cm_Add c cm) = (conn_store cm)(conn_next cm := c)"
  by (simp_all add: cm_Add_def)

interpretation table: handler_effects "\<lambda>h h'. table_ok h \<longrightarrow> table_ok h'" fconv for fconv
proof (unfold_locales, goal_cases)
  case (10 c h)
  then show ?case by (auto simp: table_ok_def set_ConnMgr_def cm_inv_Add less_SucI)
next
  case (11 j h cm)
  then show ?case by (auto simp: table_ok_def set_ConnMgr_def cm_inv_CloseByID cm_Close_next)
qed (auto simp: table_ok_def h_set_ep_def)

section \<open>What requests do not touch\<close>

definition same_config :: "serverTCPHandler \<Rightarrow> serverTCPHandler \<Rightarrow> bool" where
  "same_config h h' \<longleftrightarrow>
     srv_Attributes (h_server h') = srv_Attributes (h_server h)
     \<and> rt_Path (srv_Router (h_server h')) = rt_Path (srv_Router (h_server h))
     \<and> h_writable h' = h_writable h \<and> h_local_ip h' = h_local_ip h \<and> h_local_port h' = h_local_port h"

interpretation config: handler_effects same_config fconv for fconv
  by unfold_locales (auto simp: same_config_def h_set_ep_def set_ConnMgr_def)

section \<open>Closed connections stay closed\<close>

definition monotone_table :: "serverTCPHandler \<Rightarrow> serverTCPHandler \<Rightarrow> bool" where
  "monotone_table h h' \<longleftrightarrow>
     (let cm = srv_ConnMgr (h_server h); cm' = srv_ConnMgr (h_server h') in
      cm_inv cm \<longrightarrow>
        cm_inv cm' \<and> conn_next cm \<le> conn_next cm'
        \<and> (\<forall>a < conn_next cm.
             (conn_Open (conn_store cm' a) \<longrightarrow> conn_Open (conn_store cm a))
             \<and> (conn_store cm' a)\<lparr>conn_Open := False\<rparr> = (conn_store cm a)\<lparr>conn_Open := False\<rparr>))"

lemma monotone_close:
  assumes "cm_CloseByID j (srv_ConnMgr (h_server h)) = Inr cm"
  shows "monotone_table h (set_ConnMgr cm h)"
proof (cases "cm_inv (srv_ConnMgr (h_server h))")
  case True
  note close = assms[unfolded cm_CloseByID_def]
  obtain a where "conn_next cm = conn_next (srv_ConnMgr (h_server h))"
    "conn_store cm = (conn_store (srv_ConnMgr (h_server h)))
       (a := (conn_store (srv_ConnMgr (h_server h)) a)\<lparr>conn_Open := False\<rparr>)"
    using cm_Close_spec[OF True close] by blast
  moreover have "cm_inv cm" by (rule cm_inv_Close [OF True close])
  ultimately show ?thesis by (simp add: monotone_table_def Let_def set_ConnMgr_def)
qed (simp add: monotone_table_def)

lemma monotone_trans:
  assumes "monotone_table h h1" "monotone_table h1 h2"
  shows "monotone_table h h2"
  unfolding monotone_table_def Let_def
proof (intro impI conjI allI)
  assume i: "cm_inv (srv_ConnMgr (h_server h))"
  have 1: "cm_inv (srv_ConnMgr (h_server h1))" "conn_next (srv_ConnMgr (h_server h)) \<le> conn_next (srv_ConnMgr (h_server h1))"
    using assms(1) i by (simp_all add: monotone_table_def Let_def)
  show "cm_inv (srv_ConnMgr (h_server h2))"
    using assms(2) 1 by (simp add: monotone_table_def Let_def)
  show "conn_next (srv_ConnMgr (h_server h)) \<le> conn_next (srv_ConnMgr (h_server h2))"
    using assms(2) 1 by (simp add: monotone_table_def Let_def)
  fix a
  assume a: "a < conn_next (srv_ConnMgr (h_server h))"
  with 1 have a1: "a < conn_next (srv_ConnMgr (h_server h1))" by simp
  show "conn_Open (conn_store (srv_ConnMgr (h_server h)) a)"
    if "conn_Open (conn_store (srv_ConnMgr (h_server h2)) a)"
    using assms i 1 a a1 that by (simp add: monotone_table_def Let_def)
  show "(conn_store (srv_ConnMgr (h_server h2)) a)\<lparr>conn_Open := False\<rparr>
      = (conn_store (srv_ConnMgr (h_server h)) a)\<lparr>conn_Open := False\<rparr>"
    using assms i 1 a a1 by (simp add: monotone_table_def Let_def)
qed

interpretation monotone: handler_effects monotone_table fconv for fconv
proof (unfold_locales, goal_cases)
  case (2 h h1 h2)
  then show ?case by (rule monotone_trans)
next
  case (10 c h)
  then show ?case by (auto simp: monotone_table_def Let_def set_ConnMgr_def cm_inv_Add)
next
  case (11 j h cm)
  then show ?case by (rule monotone_close)
qed (auto simp: monotone_table_def Let_def h_set_ep_def)

section \<open>One answer per request\<close>

text \<open>The outcome of an action that sent nothing and kept the fields a header is made of.\<close>

definition quiet :: "serverTCPHandler \<Rightarrow> 'a res \<times> serverTCPHandler \<Rightarrow> bool" where
  "quiet h p \<longleftrightarrow> h_out (snd p) = h_out h \<and> h_context (snd p) = h_context h
     \<and> h_handle (snd p) = h_handle h \<and> h_options (snd p) = h_options h"

text \<open>The outcome of an action that sent nothing or one frame, under the header of the state it left.\<close>

definition frame :: "serverTCPHandler \<Rightarrow> cip_command \<Rightarrow> bytes \<Rightarrow> bytes" where
  "frame h cmd msg = eipHeader_Bytes (h_newEIPHeader cmd (length msg) h) @ msg"

definition answered :: "serverTCPHandler \<Rightarrow> 'a res \<times> serverTCPHandler \<Rightarrow> bool" where
  "answered h p \<longleftrightarrow> h_context (snd p) = h_context h
     \<and> (h_out (snd p) = h_out h \<or> (\<exists>cmd msg. h_out (snd p) = h_out h @ [frame (snd p) cmd msg]))"

named_theorems reply_rules

lemma quiet_answered: "quiet h p \<Longrightarrow> answered h p"
  by (simp add: quiet_def answered_def)

lemma quiet_simple [reply_rules]: "quiet h (ret x h)" "quiet h (fail e h)"
  by (simp_all add: quiet_def ret_def fail_def)

lemma answered_simple [reply_rules]: "answered h (ret x h)" "answered h (fail e h)"
  by (simp_all add: quiet_answered quiet_simple)

lemma quiet_need [reply_rules]: "(\<And>x. r = Inr x \<Longrightarrow> quiet h (f x h)) \<Longrightarrow> quiet h (need m r f h)"
  by (cases r) (simp_all add: quiet_def need_def)

lemma answered_need [reply_rules]: "(\<And>x. r = Inr x \<Longrightarrow> answered h (f x h)) \<Longrightarrow> answered h (need m r f h)"
  by (cases r) (simp_all add: answered_def need_def)

lemma answered_otherwise [reply_rules]:
  "answered h (a h) \<Longrightarrow> (\<And>x. r = Inr x \<Longrightarrow> answered h (f x h)) \<Longrightarrow> answered h (otherwise m r a f h)"
  by (cases r) (simp_all add: answered_def otherwise_def)

lemma answered_instead [reply_rules]:
  "answered h (a h) \<Longrightarrow> (\<And>x. r = Inr x \<Longrightarrow> answered h (f x h)) \<Longrightarrow> answered h (instead r a f h)"
  by (cases r) (simp_all add: answered_def instead_def)

lemma quiet_seq [reply_rules]:
  "quiet h (a h) \<Longrightarrow> (\<And>x h'. quiet h' (f x h')) \<Longrightarrow> quiet h (seq_act a f h)"
  by (cases "a h"; cases "fst (a h)") (auto simp: quiet_def seq_act_def)

lemma quiet_bind [reply_rules]:
  "quiet h (a h) \<Longrightarrow> (\<And>x h'. quiet h' (f x h')) \<Longrightarrow> quiet h (bind_act m a f h)"
  by (cases "a h"; cases "fst (a h)") (auto simp: quiet_def bind_act_def)

lemma answered_start: "h_out h1 = h_out h \<Longrightarrow> h_context h1 = h_context h \<Longrightarrow> answered h1 p \<Longrightarrow> answered h p"
  by (simp add: answered_def)

lemma answered_seq_first:
  assumes "quiet h (a h)" "\<And>x h'. answered h' (f x h')"
  shows "answered h (seq_act a f h)"
proof (cases "a h")
  case (Pair q h1)
  then have h1: "h_out h1 = h_out h" "h_context h1 = h_context h" using assms(1) by (simp_all add: quiet_def)
  have "answered h (f x h1)" for x by (rule answered_start [OF h1 assms(2)])
  then show ?thesis using Pair h1 by (cases q) (simp_all add: seq_act_def answered_def)
qed

lemma answered_upd_seq:
  assumes "h_out (g h) = h_out h" "h_context (g h) = h_context h" "answered (g h) (f () (g h))"
  shows "answered h (seq_act (upd g) f h)"
  using answered_start[OF assms] by (simp add: seq_act_def upd_def)

lemma frame_cong:
  "h_context h' = h_context h \<Longrightarrow> h_handle h' = h_handle h \<Longrightarrow> h_options h' = h_options h \<Longrightarrow>
     frame h' cmd msg = frame h cmd msg"
  by (simp add: frame_def h_newEIPHeader_def)

lemma answered_end: "answered h p \<Longrightarrow> quiet (snd p) q \<Longrightarrow> answered h q"
  using frame_cong[of "snd q" "snd p"] by (auto simp: answered_def quiet_def)

lemma answered_seq_last:
  assumes "answered h (a h)" "\<And>x h'. quiet h' (f x h')"
  shows "answered h (seq_act a f h)"
proof (cases "a h")
  case (Pair q h1)
  have "answered h (f x h1)" for x
    using answered_end[of h "a h" "f x h1", OF assms(1)] assms(2) Pair by simp
  then show ?thesis using assms(1) Pair by (cases q) (simp_all add: seq_act_def answered_def)
qed

lemma answered_bind_last:
  assumes "answered h (a h)" "\<And>x h'. quiet h' (f x h')"
  shows "answered h (bind_act m a f h)"
proof -
  have "snd (bind_act m a f h) = snd (seq_act a f h)"
    by (auto simp: bind_act_def seq_act_def split: prod.splits sum.splits)
  then show ?thesis using answered_seq_last[of h a f, OF assms] by (simp add: answered_def)
qed

lemma answered_or_else [reply_rules]:
  assumes "quiet h (a h)" "\<And>h'. answered h' (bad h')" "\<And>x h'. answered h' (f x h')"
  shows "answered h (or_else a bad f h)"
proof (cases "a h")
  case (Pair q h1)
  then have h1: "h_out h1 = h_out h" "h_context h1 = h_context h" using assms(1) by (simp_all add: quiet_def)
  have "answered h (f x h1)" "answered h (bad h1)" for x
    by (rule answered_start [OF h1 assms(3)], rule answered_start [OF h1 assms(2)])
  then show ?thesis using Pair h1 by (cases q) (simp_all add: or_else_def answered_def)
qed

lemma reply_if [reply_rules]:
  "(c \<Longrightarrow> answered h (a h)) \<Longrightarrow> (\<not> c \<Longrightarrow> answered h (b h)) \<Longrightarrow> answered h ((if c then a else b) h)"
  "(c \<Longrightarrow> quiet h (a' h)) \<Longrightarrow> (\<not> c \<Longrightarrow> quiet h (b' h)) \<Longrightarrow> quiet h ((if c then a' else b') h)"
  by simp_all

lemma reply_option [reply_rules]:
  "answered h (a h) \<Longrightarrow> (\<And>x. answered h (f x h)) \<Longrightarrow> answered h ((case o1 of None \<Rightarrow> a | Some x \<Rightarrow> f x) h)"
  by (cases o1) auto

lemma answered_send [reply_rules]: "answered h (h_send cmd msg h)"
proof -
  let ?h' = "h\<lparr>h_out := h_out h @ [frame h cmd msg]\<rparr>"
  have "frame ?h' cmd msg = frame h cmd msg" by (rule frame_cong) simp_all
  then show ?thesis
    by (auto simp: answered_def h_send_def frame_def [symmetric] intro!: exI[of _ cmd] exI[of _ msg])
qed

lemma answered_replies [reply_rules]:
  "answered h (sendUnitDataErrorReply s st h)" "answered h (sendUnitDataReplyWithPayload s p h)"
  "answered h (sendUnitDataReply s h)" "answered h (sendConnectedReply s sq c vs h)"
  "answered h (sendConnectedError s sq c st x h)" "answered h (sendUnconnectedErrorReply s st h)"
  "answered h (sendUnconnectedRRDataReply s vs h)"
  unfolding sendUnitDataErrorReply_def sendUnitDataReplyWithPayload_def sendUnitDataReply_def
    sendConnectedReply_def sendConnectedError_def sendUnconnectedErrorReply_def sendUnconnectedRRDataReply_def
  by (intro reply_rules)+

text \<open>The handlers, from the leaves up.\<close>

lemma quiet_effects [reply_rules]:
  "quiet h (h_TagWrite fconv a tag v h)" "quiet h (choose_id i h)" "quiet h (start_task t e c h)"
  by (auto simp: quiet_def h_TagWrite_def h_set_ep_def choose_id_def rand_Uint32_def ret_def
      start_task_def split: sum.splits)

lemma quiet_write_results [reply_rules]: "quiet h (write_results fconv p tag vs h)"
  unfolding write_results_def by (intro reply_rules)

lemma quiet_multi_one [reply_rules]: "quiet h (multi_one fconv p d off h)"
  unfolding multi_one_def split_beta by (intro reply_rules)

lemma quiet_multi_all [reply_rules]: "quiet h (multi_all fconv p d offs h)"
proof (induction offs arbitrary: h)
  case (Cons off offs)
  show ?case unfolding multi_all.simps by (intro reply_rules Cons)
qed (simp add: reply_rules)

lemmas answer_rules = answered_seq_first answered_bind_last reply_rules

lemma answered_connectedWrite: "answered h (cipConnectedWrite fconv items r h)"
  unfolding cipConnectedWrite_def split_beta by (intro answer_rules)

lemma answered_connectedMulti: "answered h (connectedMulti fconv items h)"
  unfolding connectedMulti_def split_beta Let_def by (intro answer_rules)

lemma answered_string_cases:
  assumes "\<And>s. answered h (f s h)" "\<And>ss. answered h (g ss h)" "answered h (k h)"
  shows "answered h ((case v of VString s \<Rightarrow> f s | VSlice TString ss \<Rightarrow> g ss | _ \<Rightarrow> k) h)"
  using assms by (auto split: goval.splits gotype.splits)

lemma answered_string_case:
  assumes "\<And>s. answered h (f s h)" "answered h (k h)"
  shows "answered h ((case v of VString s \<Rightarrow> f s | _ \<Rightarrow> k) h)"
  using assms by (auto split: goval.splits)

lemma answered_failing: "answered h (a h) \<Longrightarrow> answered h ((\<lambda>h. (Inl e, snd (a h))) h)"
  by (simp add: answered_def)

lemma answered_connectedRead: "answered h (connectedRead svc items h)"
  unfolding connectedRead_def split_beta Let_def
  by (intro answered_string_cases answered_failing answer_rules)

lemma answered_connectedGetAttr: "answered h (connectedGetAttr items h)"
  unfolding connectedGetAttr_def getAttrSingle_def split_beta by (intro answer_rules)

lemma answered_connectedGetAttributeAll: "answered h (connectedGetAttributeAll items h)"
  unfolding connectedGetAttributeAll_def split_beta Let_def by (intro answer_rules)

lemma answered_connectedSymbolList: "answered h (connectedSymbolList items h)"
  unfolding connectedSymbolList_def split_beta by (intro answer_rules)

lemma quiet_add_connection:
  "quiet h (let cm = srv_ConnMgr (h_server h) in (Inr (conn_next cm), set_ConnMgr (cm_Add (f cm) cm) h))"
  by (simp add: quiet_def Let_def set_ConnMgr_def)

lemma answered_open_connection: "answered h (open_connection fo path h)"
  unfolding open_connection_def Let_def
  by (intro answered_upd_seq answer_rules quiet_add_connection [unfolded Let_def]) simp_all

lemma answered_forwardOpen: "answered h (forwardOpen d h)"
proof (unfold forwardOpen_def split_beta, intro answered_need answered_seq_last answered_open_connection, goal_cases)
  case (1 x y c h')
  show ?case
    by (cases "h_Resolve (take 2 (fst y)) h'") (auto simp: quiet_def fail_def ret_def start_task_def)
qed

lemma answered_largeForwardOpen: "answered h (largeForwardOpen d h)"
  unfolding largeForwardOpen_def split_beta
  by (intro answered_need answered_seq_last answered_open_connection quiet_simple)

lemma quiet_forwardClose: "quiet h (forwardClose d h)"
proof -
  have u: "quiet h (upd (set_ConnMgr cm) h)" for cm h by (simp add: quiet_def upd_def set_ConnMgr_def)
  have "quiet h ((case q of Inl e \<Rightarrow> fail m | Inr cm \<Rightarrow> seq_act (upd (set_ConnMgr cm)) (\<lambda>_. need n x (\<lambda>_. ret ()))) h)"
    for q :: "serverConnectionManager res" and m n and x :: "(bytes \<times> bytes) res" and h
    by (cases q) (auto intro!: u reply_rules)
  then show ?thesis unfolding forwardClose_def split_beta by (intro quiet_need)
qed

lemma answered_unconnectedGetAttributeAll: "answered h (unconnectedGetAttributeAll r h)"
  unfolding unconnectedGetAttributeAll_def split_beta Let_def by (intro answer_rules)

lemma answered_unconnectedServiceWrite: "answered h (unconnectedServiceWrite fconv r h)"
  unfolding unconnectedServiceWrite_def split_beta by (intro answer_rules)

lemma answered_unconnectedServiceRead: "answered h (unconnectedServiceRead r h)"
  unfolding unconnectedServiceRead_def split_beta Let_def
  by (intro answered_string_cases answer_rules)

lemma answered_unconnectedServiceGetAttrSingle: "answered h (unconnectedServiceGetAttrSingle r h)"
  unfolding unconnectedServiceGetAttrSingle_def split_beta Let_def
  by (intro answered_string_case answer_rules)

lemma answered_unconnectedServiceSetAttrSingle: "answered h (unconnectedServiceSetAttrSingle fconv r h)"
  unfolding unconnectedServiceSetAttrSingle_def split_beta Let_def by (intro answer_rules)

lemmas answered_unconnected = answered_forwardOpen answered_largeForwardOpen quiet_answered [OF quiet_forwardClose]
  answered_unconnectedGetAttributeAll answered_unconnectedServiceWrite answered_unconnectedServiceRead
  answered_unconnectedServiceGetAttrSingle answered_unconnectedServiceSetAttrSingle

lemma answered_unconnectedData: "answered h (unconnectedData fconv d h)"
  unfolding unconnectedData_def unconnectedSend_def split_beta
  by (intro answered_unconnected answer_rules)

lemma answered_connected_service: "answered h (connected_service fconv s items r h)"
  unfolding connected_service_def
  by (intro answer_rules answered_connectedWrite answered_connectedRead answered_connectedMulti
      answered_connectedGetAttr answered_connectedGetAttributeAll answered_connectedSymbolList)

lemma answered_sendUnitData: "answered h (sendUnitData fconv r h)"
  unfolding sendUnitData_def split_beta
  by (intro reply_rules answered_upd_seq answered_seq_last answered_connected_service) simp_all

lemma answered_sendRRData: "answered h (sendRRData fconv r h)"
  unfolding sendRRData_def split_beta Let_def
  by (intro reply_rules answered_seq_last answered_connectedRead answered_unconnectedData)

lemma answered_registerSession: "answered h (registerSession hdr r h)"
  unfolding registerSession_def split_beta
  by (intro answered_need answered_upd_seq answered_seq_first answered_bind_last answered_send quiet_effects quiet_simple)
    simp_all

lemma answered_dispatch: "answered h (dispatch fconv hdr r h)"
  unfolding dispatch_def Let_def sendListIdentityReply_def sendListServicesData_def
  by (intro reply_rules answered_bind_last answered_seq_last answered_registerSession answered_sendRRData
      answered_sendUnitData)

end
