(* ===== verification/Server_Behaviour.thy ===== *)
theory Server_Behaviour
  imports Server_Safety
begin

text \<open>
  What the server promises: how requests are answered, which states it can reach whatever clients
  send, how connections are opened and closed, how tags are enumerated; and the requests that
  bring it down.
\<close>

section \<open>Reachable servers\<close>

text \<open>
  Any number of handlers work on one server.  A step is one request of one of them (with
  whatever fields that handler has) or one datagram; the locks of the connection table and of the
  endpoints serialise the accesses inside.
\<close>

inductive server_reach :: "go_convert \<Rightarrow> Server \<Rightarrow> Server \<Rightarrow> bool" for fconv srv0 where
  start: "server_reach fconv srv0 srv0"
| request: "server_reach fconv srv0 (h_server h) \<Longrightarrow>
    server_reach fconv srv0 (h_server (snd (dispatch fconv hdr r h)))"
| datagram: "server_reach fconv srv0 srv \<Longrightarrow> server_reach fconv srv0 (snd (udp_datagram b srv))"

lemma udp_datagram_frame:
  "srv_ConnMgr (snd (udp_datagram b srv)) = srv_ConnMgr srv"
  "srv_Attributes (snd (udp_datagram b srv)) = srv_Attributes srv"
  "rt_Path (srv_Router (snd (udp_datagram b srv))) = rt_Path (srv_Router srv)"
  by (auto simp: udp_datagram_def split: sum.splits prod.splits)

definition kept_server :: "Server \<Rightarrow> Server \<Rightarrow> bool" where
  "kept_server srv0 srv \<longleftrightarrow> cm_inv (srv_ConnMgr srv)
     \<and> srv_Attributes srv = srv_Attributes srv0 \<and> rt_Path (srv_Router srv) = rt_Path (srv_Router srv0)"

lemma dispatch_monotone: "monotone_table h (snd (dispatch fconv hdr r h))"
  by (rule monotone.at_dispatch)

lemma dispatch_config: "same_config h (snd (dispatch fconv hdr r h))"
  by (rule config.at_dispatch)

lemma reach_kept:
  assumes "server_reach fconv srv0 srv" "cm_inv (srv_ConnMgr srv0)"
  shows "kept_server srv0 srv"
  using assms
proof (induction rule: server_reach.induct)
  case start
  then show ?case by (simp add: kept_server_def)
next
  case (request h hdr r)
  then show ?case
    using dispatch_monotone[of h fconv hdr r] dispatch_config[of h fconv hdr r]
    by (simp add: kept_server_def monotone_table_def same_config_def Let_def)
next
  case (datagram srv b)
  then show ?case by (simp add: kept_server_def udp_datagram_frame)
qed

lemma cm_inv_empty: "cm_inv cm_empty"
  by (rule cm_reachable_inv) (rule cm_reachable.init)

text \<open>
  C4.  Whatever clients send, over however many connections: the table of CIP connections lists no
  connection twice and lists exactly the open ones, and neither the identity attributes nor the
  routes the server was created with ever change.
\<close>

theorem server_state_stays_consistent:
  assumes "server_reach fconv (NewServer router rnd) srv"
  shows "distinct (Connections (srv_ConnMgr srv))
    \<and> (\<forall>a < conn_next (srv_ConnMgr srv).
         conn_Open (conn_store (srv_ConnMgr srv) a) \<longleftrightarrow> a \<in> set (Connections (srv_ConnMgr srv)))
    \<and> srv_Attributes srv = srv_Attributes (NewServer router rnd)
    \<and> rt_Path (srv_Router srv) = rt_Path router"
proof -
  have "cm_inv (srv_ConnMgr (NewServer router rnd))" by (simp add: NewServer_def cm_inv_empty)
  from reach_kept[OF assms this] show ?thesis
    by (simp add: kept_server_def cm_inv_def) (simp add: NewServer_def)
qed

definition demo_router :: PathRouter where
  "demo_router = \<lparr>rt_Path = [[1, 0] \<mapsto> 0], rt_store = (\<lambda>_. EMap \<lparr>mp_Data = [(''speed'', VInt32 7)]\<rparr>)\<rparr>"

definition demo_server :: Server where
  "demo_server = NewServer demo_router (\<lambda>n. of_nat (n + 100))"

definition new_handler :: "Server \<Rightarrow> serverTCPHandler" where
  "new_handler srv =
     \<lparr>h_server = srv, h_out = [], h_writable = True, h_local_ip = [10, 0, 0, 1], h_local_port = 44818,
      h_handle = 0, h_options = 0, h_context = 0, h_OTConnectionID = 0, h_TOConnectionID = 0,
      h_UnitDataSequencer = 0, h_tasks = []\<rparr>"

theorem server_state_stays_consistent_witness:
  "distinct (Connections (srv_ConnMgr (h_server (snd (dispatch (\<lambda>_ _. None)
     \<lparr>eh_Command = cipCommandListServices, eh_Length = 0, eh_SessionHandle = 0, eh_Status = 0, eh_Context = 5, eh_Options = 0\<rparr>
     [] (new_handler demo_server))))))"
proof -
  have "server_reach (\<lambda>_ _. None) (NewServer demo_router (\<lambda>n. of_nat (n + 100))) (h_server (new_handler demo_server))"
    by (simp add: new_handler_def demo_server_def server_reach.start)
  from server_state_stays_consistent[OF server_reach.request[OF this]] show ?thesis by blast
qed

section \<open>Answers\<close>


text \<open>
  Services the server does not implement are answered with the status \<^verbatim>\<open>service not
  supported\<close> and the handler goes on: over a connection and outside one.
\<close>

theorem unsupported_services_are_refused:
  assumes "h_writable h"
    and "s \<notin> {CIPService_Write, CIPService_FragRead, CIPService_Read, CIPService_MultipleService,
      CIPService_GetAttributeSingle, CIPService_GetAttributeAll, CIPService_GetInstanceAttributeList}"
    and "t \<notin> {CIPService_ForwardOpen, CIPService_LargeForwardOpen, CIPService_ForwardClose,
      CIPService_GetAttributeAll, CIPService_GetAttributeSingle, CIPService_SetAttributeSingle, 0x52}"
  shows "connected_service fconv s items r h
      = (Inr (), h\<lparr>h_out := h_out h @ [frame h cipCommandSendUnitData (serializeItems
          [newItem cipItem_ConnectionAddress (Some (VUint32 (h_TOConnectionID h))),
           item_Write (msgWriteResultHeader (h_UnitDataSequencer h) (AsResponse s) CIPStatus_ServiceNotSupported 0)
             (newItem cipItem_ConnectedData None)])]\<rparr>)
    \<and> unconnectedData fconv (t # d) h
      = (Inr (), h\<lparr>h_out := h_out h @ [frame h cipCommandSendRRData (serializeItems
          [newItem cipItem_Null None,
           item_Write (msgUnconnWriteResultHeader (AsResponse t) CIPStatus_ServiceNotSupported 0)
             (newItem cipItem_UnconnectedData None)])]\<rparr>)"
  using assms
  by (simp add: connected_service_def unconnectedData_def need_def sendUnitDataErrorReply_def
      sendUnconnectedErrorReply_def h_send_def frame_def)

theorem unsupported_services_are_refused_witness:
  "fst (connected_service (\<lambda>_ _. None) 0x4B [] [] (new_handler demo_server)) = Inr ()
   \<and> fst (unconnectedData (\<lambda>_ _. None) [0x4B, 2] (new_handler demo_server)) = Inr ()"
proof -
  have w: "h_writable (new_handler demo_server)" by (simp add: new_handler_def)
  show ?thesis
    using unsupported_services_are_refused[OF w, of "0x4B" "0x4B" "\<lambda>_ _. None" "[]" "[]" "[2]"] by simp
qed

section \<open>Opening and closing\<close>

lemma choose_id_run:
  "choose_id i h = (Inr (if i = 0 then srv_rand (h_server h) (srv_draws (h_server h)) else i),
     if i = 0 then h\<lparr>h_server := (h_server h)\<lparr>srv_draws := srv_draws (h_server h) + 1\<rparr>\<rparr> else h)"
  by (simp add: choose_id_def rand_Uint32_def ret_def)

lemma open_connection_given_ids:
  assumes "h_writable h" "2 \<le> length path" "fo_OTConnectionID fo \<noteq> 0" "fo_TOConnectionID fo \<noteq> 0"
  shows "\<exists>h'. open_connection fo path h = (Inr (conn_next (srv_ConnMgr (h_server h))), h')
    \<and> srv_ConnMgr (h_server h') = cm_Add (new_connection fo (fo_OTConnectionID fo) (fo_TOConnectionID fo) (take 2 path))
        (srv_ConnMgr (h_server h))
    \<and> srv_Router (h_server h') = srv_Router (h_server h) \<and> h_tasks h' = h_tasks h
    \<and> h_OTConnectionID h' = fo_OTConnectionID fo \<and> h_TOConnectionID h' = fo_TOConnectionID fo"
  using assms
  by (simp add: open_connection_def seq_act_def bind_act_def upd_def choose_id_run h_send_def Let_def set_ConnMgr_def)

text \<open>
  A forward open that names both connection ids enters the connection under exactly those ids:
  afterwards a lookup by originator id finds an open connection with the request's serial number
  and the first two bytes of its path as route; a cyclic request (transport trigger 1) for a route
  with an endpoint also starts an I/O task on that connection and that endpoint.
\<close>

theorem forward_open_registers:
  assumes "cm_inv (srv_ConnMgr (h_server h))" "h_writable h"
    and "read_ForwardOpen_Standard d = Inr (fo, r1)"
    and "read_full (unat (fo_ConnPathSize fo * 2)) r1 = Inr (path, r2)" "2 \<le> length path"
    and "fo_OTConnectionID fo \<noteq> 0" "fo_TOConnectionID fo \<noteq> 0"
    and "cm_find (\<lambda>c. conn_OT c = fo_OTConnectionID fo) (srv_ConnMgr (h_server h)) = None"
    and "rt_Path (srv_Router (h_server h)) (take 2 path) = Some tp"
  shows "\<exists>h' a. forwardOpen d h = (Inr (), h')
    \<and> cm_GetByOT (fo_OTConnectionID fo) (srv_ConnMgr (h_server h')) = Inr a
    \<and> conn_store (srv_ConnMgr (h_server h')) a = \<lparr>conn_ID = fo_ConnectionSerialNumber fo,
        conn_OT = fo_OTConnectionID fo, conn_TO = fo_TOConnectionID fo, conn_RPI = fo_TORPI fo,
        conn_Path = take 2 path, conn_Open = True\<rparr>
    \<and> h_tasks h' = h_tasks h @ (if fo_TransportTrigger fo = 1
        then [\<lparr>task_TO = fo_TOConnectionID fo, task_ep = tp, task_conn = a, task_seq = 0\<rparr>] else [])"
proof -
  let ?cm = "srv_ConnMgr (h_server h)"
  let ?c = "new_connection fo (fo_OTConnectionID fo) (fo_TOConnectionID fo) (take 2 path)"
  obtain h1 where h1: "open_connection fo path h = (Inr (conn_next ?cm), h1)"
    "srv_ConnMgr (h_server h1) = cm_Add ?c ?cm" "srv_Router (h_server h1) = srv_Router (h_server h)"
    "h_tasks h1 = h_tasks h" "h_TOConnectionID h1 = fo_TOConnectionID fo"
    using open_connection_given_ids[OF assms(2,5,6,7)] by blast
  have g: "cm_GetByOT (fo_OTConnectionID fo) (cm_Add ?c ?cm) = Inr (conn_next ?cm)"
    using cm_find_Add[OF assms(1)] assms(8) by (simp add: cm_GetByOT_def new_connection_def)
  have e: "h_Resolve (take 2 path) h1 = Inr tp"
    using assms(9) h1(3) by (simp add: h_Resolve_def rt_Resolve_def)
  have "forwardOpen d h = (Inr (), if fo_TransportTrigger fo = 1
      then h1\<lparr>h_tasks := h_tasks h1 @ [\<lparr>task_TO = fo_TOConnectionID fo, task_ep = tp, task_conn = conn_next ?cm, task_seq = 0\<rparr>]\<rparr>
      else h1)"
    using assms(3,4) h1(1,5) e by (simp add: forwardOpen_def need_def seq_act_def start_task_def ret_def)
  then show ?thesis using h1 g by (auto simp: new_connection_def)
qed

text \<open>A request as a client of an I/O adapter sends it.\<close>

definition demo_open :: bytes where
  "demo_open = [CIPService_ForwardOpen, 2, 0x20, 6, 0x24, 1, 7, 9] @ put32 11 @ put32 12 @ put16 77 @ put16 1
     @ put32 5 @ put32 0 @ put32 20000 @ put16 0x43F8 @ put32 20000 @ put16 0x43F8 @ [1, 1]"

theorem forward_open_registers_witness:
  "\<exists>h' a. forwardOpen (demo_open @ [1, 0]) (new_handler demo_server) = (Inr (), h')
    \<and> cm_GetByOT 11 (srv_ConnMgr (h_server h')) = Inr a \<and> length (h_tasks h') = 1"
proof -
  let ?h = "new_handler demo_server"
  let ?fo = "\<lparr>fo_Service = CIPService_ForwardOpen, fo_OTConnectionID = 11, fo_TOConnectionID = 12,
    fo_ConnectionSerialNumber = 77, fo_VendorID = 1, fo_OriginatorSerialNumber = 5, fo_Multiplier = 0,
    fo_OTRPI = 20000, fo_OTNetworkConnParams = 0x43F8, fo_TORPI = 20000, fo_TONetworkConnParams = 0x43F8,
    fo_TransportTrigger = 1, fo_ConnPathSize = 1\<rparr>"
  have "length demo_open = 42" by (simp add: demo_open_def)
  then have "read_full 42 (demo_open @ [1, 0]) = Inr (demo_open, [1, 0])" by (rule read_full_append)
  then have r: "read_ForwardOpen_Standard (demo_open @ [1, 0]) = Inr (?fo, [1, 0])"
    by (simp add: read_ForwardOpen_Standard_def) (simp add: demo_open_def fld_simps)
  have p: "read_full (unat (fo_ConnPathSize ?fo * 2)) [1, 0] = Inr ([1, 0], [])" by (simp add: read_full_def)
  have i: "cm_inv (srv_ConnMgr (h_server ?h))" "h_writable ?h" "h_tasks ?h = []"
    by (simp_all add: new_handler_def demo_server_def NewServer_def cm_inv_empty)
  have f: "cm_find (\<lambda>c. conn_OT c = fo_OTConnectionID ?fo) (srv_ConnMgr (h_server ?h)) = None"
    by (simp add: new_handler_def demo_server_def NewServer_def cm_empty_def cm_Init_def cm_find_def)
  have e: "rt_Path (srv_Router (h_server ?h)) (take 2 [1, 0]) = Some 0"
    by (simp add: new_handler_def demo_server_def NewServer_def demo_router_def)
  obtain h' a where "forwardOpen (demo_open @ [1, 0]) ?h = (Inr (), h')"
    "cm_GetByOT (fo_OTConnectionID ?fo) (srv_ConnMgr (h_server h')) = Inr a"
    "h_tasks h' = h_tasks ?h @ (if fo_TransportTrigger ?fo = 1
        then [\<lparr>task_TO = fo_TOConnectionID ?fo, task_ep = 0, task_conn = a, task_seq = 0\<rparr>] else [])"
    using forward_open_registers[OF i(1,2) r p _ _ _ f e] by auto
  then show ?thesis using i(3) by auto
qed

text \<open>
  C7.  Closing stops cyclic data for good: once a forward close with the serial number of an I/O
  task's connection has been handled (serial numbers of open connections being distinct), the
  task's next tick stops it, whatever requests the handler has served in between.
\<close>

theorem closed_connection_stops_io:
  assumes "cm_inv (srv_ConnMgr (h_server h))"
    and "inj_on (\<lambda>a. conn_ID (conn_store (srv_ConnMgr (h_server h)) a)) (set (Connections (srv_ConnMgr (h_server h))))"
    and "task_conn t \<in> set (Connections (srv_ConnMgr (h_server h)))"
    and "read_ForwardClose d = Inr (fc, r1)"
    and "fc_ConnectionSerialNumber fc = conn_ID (conn_store (srv_ConnMgr (h_server h)) (task_conn t))"
  shows "fst (ioConnection_tick t (h_server (snd (serve fconv r (snd (forwardClose d h)))))) = IoStopped"
proof -
  let ?cm = "srv_ConnMgr (h_server h)"
  let ?P = "\<lambda>c. conn_ID c = fc_ConnectionSerialNumber fc"
  obtain b where b: "cm_find ?P ?cm = Some b"
    using cm_find_None[of ?P ?cm "task_conn t"] assms(3,5) by (cases "cm_find ?P ?cm") auto
  then have bt: "b = task_conn t"
    using cm_find_Some[OF b] assms(2,3,5) by (auto simp: inj_on_def)
  then obtain cm where cm: "cm_CloseByID (fc_ConnectionSerialNumber fc) ?cm = Inr cm"
    using cm_Close_Inl_iff[of _ ?P ?cm] b by (cases "cm_CloseByID (fc_ConnectionSerialNumber fc) ?cm") (auto simp: cm_CloseByID_def)
  have inv: "cm_inv cm" "task_conn t < conn_next cm" "\<not> conn_Open (conn_store cm (task_conn t))"
    using cm_Close_spec[OF assms(1) cm[unfolded cm_CloseByID_def]] b bt cm_inv_CloseByID[OF assms(1) cm] assms(1,3)
    by (auto simp: cm_inv_def)
  have "srv_ConnMgr (h_server (snd (forwardClose d h))) = cm"
    using assms(4) cm by (auto simp: forwardClose_def act_defs set_ConnMgr_def split: sum.splits)
  then have "\<not> conn_Open (conn_store (srv_ConnMgr (h_server (snd (serve fconv r (snd (forwardClose d h)))))) (task_conn t))"
    using monotone.at_serve[of "snd (forwardClose d h)" fconv r] inv by (auto simp: monotone_table_def Let_def)
  then show ?thesis by (simp add: ioConnection_tick_def Let_def)
qed

definition demo_close :: bytes where
  "demo_close = [CIPService_ForwardClose, 2, 0x20, 6, 0x24, 1, 7, 9] @ put16 77 @ put16 1 @ put32 5 @ [1, 0, 1, 0, 0]"

theorem closed_connection_stops_io_witness:
  "fst (ioConnection_tick \<lparr>task_TO = 12, task_ep = 0, task_conn = 0, task_seq = 3\<rparr>
     (h_server (snd (serve (\<lambda>_ _. None) [1, 2] (snd (forwardClose demo_close
        (new_handler (demo_server\<lparr>srv_ConnMgr := cm_Add (demo_conn 77 11) cm_empty\<rparr>)))))))) = IoStopped"
proof -
  let ?h = "new_handler (demo_server\<lparr>srv_ConnMgr := cm_Add (demo_conn 77 11) cm_empty\<rparr>)"
  let ?t = "\<lparr>task_TO = 12, task_ep = 0, task_conn = 0, task_seq = 3\<rparr>"
  have l: "Connections (srv_ConnMgr (h_server ?h)) = [0]"
    "conn_ID (conn_store (srv_ConnMgr (h_server ?h)) 0) = 77"
    by (simp_all add: new_handler_def cm_Add_def cm_empty_def cm_Init_def demo_conn_def)
  have inv: "cm_inv (srv_ConnMgr (h_server ?h))"
    by (simp add: new_handler_def cm_inv_Add cm_inv_empty demo_conn_def)
  obtain fc r1 where fc: "read_ForwardClose demo_close = Inr (fc, r1)" "fc_ConnectionSerialNumber fc = 77"
    by (simp add: read_ForwardClose_def read_full_def demo_close_def fld_simps)
  show ?thesis
    by (rule closed_connection_stops_io[OF inv _ _ fc(1)]) (simp_all add: l fc)
qed

section \<open>Tags as instances\<close>

lemma enumerate_nth: "i < length xs \<Longrightarrow> enumerate 0 xs ! i = (i, xs ! i)"
  by (simp add: nth_enumerate_eq)

text \<open>
  The two ways to find a tag by number agree: instance \<open>i\<close> of the symbol listing is the
  entry with id \<open>i\<close> and the name that the custom class \<open>0xC8\<close> resolves for instance
  \<open>i\<close>, the names come in alphabetical order, and the listing is the concatenation of these
  entries.
\<close>

theorem symbol_instances_agree:
  assumes "rt_Path (srv_Router (h_server h)) [1, 0] = Some p"
    and "ep_TagList (rt_store (srv_Router (h_server h)) p) = Some tags"
  shows "buildSymbolObjectInstanceListResponse tags 0
       = concat (map (\<lambda>i. symbol_entry i (sort_key ti_Name tags ! i)) [0..<length tags])
    \<and> sorted (map ti_Name (sort_key ti_Name tags))
    \<and> (\<forall>i < length tags. i + 1 < 65536 \<longrightarrow>
         resolveSymbolicTagFromCustomClass (of_nat (i + 1)) h = Some (ti_Name (sort_key ti_Name tags ! i)))"
proof (intro conjI allI impI)
  show "buildSymbolObjectInstanceListResponse tags 0
      = concat (map (\<lambda>i. symbol_entry i (sort_key ti_Name tags ! i)) [0..<length tags])"
    unfolding buildSymbolObjectInstanceListResponse_def
    by (intro arg_cong[of _ _ concat] nth_equalityI) (auto simp: enumerate_nth)
  show "sorted (map ti_Name (sort_key ti_Name tags))" by (rule sorted_sort_key)
  fix i
  assume i: "i < length tags" "i + 1 < 65536"
  have "unat (of_nat (i + 1) :: u16) = i + 1" using i(2) by (rule unat_u16_of_nat)
  moreover then have "(of_nat (i + 1) :: u16) \<noteq> 0" by (metis add_is_0 one_neq_zero unsigned_0)
  ultimately show "resolveSymbolicTagFromCustomClass (of_nat (i + 1)) h = Some (ti_Name (sort_key ti_Name tags ! i))"
    using assms i by (simp add: resolveSymbolicTagFromCustomClass_def h_Resolve_def rt_Resolve_def)
qed

theorem symbol_instances_agree_witness:
  "resolveSymbolicTagFromCustomClass 1 (new_handler demo_server) = Some ''speed''"
proof -
  have "rt_Path (srv_Router (h_server (new_handler demo_server))) [1, 0] = Some 0"
    "ep_TagList (rt_store (srv_Router (h_server (new_handler demo_server))) 0) = Some [\<lparr>ti_Name = ''speed'', ti_Type = CIPTypeDINT\<rparr>]"
    by (simp_all add: new_handler_def demo_server_def NewServer_def demo_router_def mp_TagList_def)
  from symbol_instances_agree[OF this] show ?thesis by (simp add: sort_key_def)
qed

section \<open>Requests that bring the server down\<close>

text \<open>
  A write request that announces zero elements makes the server panic: once path, values and
  connection have been found, \<^verbatim>\<open>results[0]\<close> of the empty result list is accessed.
\<close>

theorem empty_write_panics:
  assumes "getTagFromPath [] r = Inr (tag, typ # 0 # 0 # 0 # rest)" "typ \<noteq> CIPTypeStruct"
    and "hdr_ID (Header (items ! 0)) = cipItem_ConnectionAddress"
    and "rd32 (Data (items ! 0)) = Inr (connID, q)" "h_GetByOT connID h = Inr conn"
    and "h_Resolve (conn_Path conn) h = Inr p"
  shows "\<exists>m. fst (cipConnectedWrite fconv items (l # r) h) = Inl (Panic m)"
proof -
  have "parseWriteValues (typ # 0 # 0 # 0 # rest) = Inr ([], rest)"
    using assms(2) by (simp add: parseWriteValues_def read_full_def wire_simps)
  then show ?thesis
    using assms by (simp add: cipConnectedWrite_def act_defs write_results_def)
qed

theorem empty_write_panics_witness:
  "\<exists>m. fst (cipConnectedWrite (\<lambda>_ _. None)
     [item_Write (put32 11) (empty_item cipItem_ConnectionAddress), empty_item cipItem_ConnectedData]
     [2, 0x91, 1, 97, 0, CIPTypeDINT, 0, 0, 0]
     (new_handler (demo_server\<lparr>srv_ConnMgr := cm_Add (demo_conn 77 11) cm_empty\<rparr>))) = Inl (Panic m)"
proof -
  let ?h = "new_handler (demo_server\<lparr>srv_ConnMgr := cm_Add (demo_conn 77 11) cm_empty\<rparr>)"
  let ?items = "[item_Write (put32 11) (empty_item cipItem_ConnectionAddress), empty_item cipItem_ConnectedData]"
  have t: "getTagFromPath [] [0x91, 1, 97, 0, CIPTypeDINT, 0, 0, 0] = Inr (''a'', [CIPTypeDINT, 0, 0, 0])"
    by (simp add: getAsciiTagPart_def read_full_def add_name_def of_bytes_def char_of_eq_iff take_bit_eq_mod)
  have g: "h_GetByOT 11 ?h = Inr (demo_conn 77 11)"
    by (simp add: h_GetByOT_def cm_GetByOT_def cm_find_def new_handler_def cm_Add_def cm_empty_def cm_Init_def demo_conn_def)
  have p: "h_Resolve (conn_Path (demo_conn 77 11)) ?h = Inr 0"
    by (simp add: h_Resolve_def rt_Resolve_def new_handler_def demo_server_def NewServer_def demo_router_def demo_conn_def)
  have i: "rd32 (Data (?items ! 0)) = Inr (11, [])"
    using rd_put(4)[of 11 "[]"] by (simp add: empty_item_def)
  show ?thesis
    by (rule empty_write_panics[OF t _ _ i g p]) (simp_all add: empty_item_def)
qed

end
