(* ===== verification/Session_Protocol.thy ===== *)
theory Session_Protocol
  imports Client_Connection Server_Behaviour
begin

text \<open>
  Client and server together: the messages with which the client opens and closes a connection,
  as the server's handlers read and answer them, and the answers as the client reads them.
\<close>

section \<open>The forward open request on the wire\<close>

lemma read_large_request:
  "read_ForwardOpen_Large
     (forward_open_fields CIPService_LargeForwardOpen prio ticks ot to' serial mlt (put32 params) c @ p)
   = Inr (\<lparr>fo_Service = CIPService_LargeForwardOpen, fo_OTConnectionID = ot, fo_TOConnectionID = to',
       fo_ConnectionSerialNumber = serial, fo_VendorID = c_VendorId c,
       fo_OriginatorSerialNumber = c_SerialNumber c, fo_Multiplier = mlt, fo_OTRPI = rpi_us c,
       fo_OTNetworkConnParams = params, fo_TORPI = rpi_us c, fo_TONetworkConnParams = params,
       fo_TransportTrigger = 0xA3, fo_ConnPathSize = of_nat (length (c_path_bytes c) div 2)\<rparr>, p)"
proof -
  let ?x = "forward_open_fields CIPService_LargeForwardOpen prio ticks ot to' serial mlt (put32 params) c"
  have "length ?x = 46" by (simp add: forward_open_fields_def)
  then have "read_full 46 (?x @ p) = Inr (?x, p)" by (rule read_full_append)
  then show ?thesis
    by (simp add: read_ForwardOpen_Large_def) (simp add: forward_open_fields_def fld_simps)
qed

lemma path_size_bytes:
  assumes "even n" "n < 256"
  shows "unat (of_nat (n div 2) * 2 :: u8) = n"
proof -
  have "(of_nat (n div 2) * 2 :: u8) = of_nat n" using assms(1) by (metis dvd_div_mult_self of_nat_mult of_nat_numeral)
  then show ?thesis using assms(2) by (simp add: unat_of_nat take_bit_eq_mod)
qed

lemma read_rr_serializeItems:
  assumes "list_all item_wf items" "length items < 65536"
  shows "read_rr (serializeItems items) = Inr (items, [])"
proof -
  let ?s = "put16 (of_nat (length items)) @ concat (map item_Bytes items)"
  have "serializeItems items = put32 0 @ put16 0 @ ?s" by (simp add: serializeItems_def)
  moreover have "readItems (?s @ []) = Inr (items, [])"
    using readItems_serializeItems_aux[OF assms, of ?s "[]"] by (simp add: serializeItems_def)
  ultimately show ?thesis by (simp add: read_rr_def)
qed

section \<open>The reply on the wire\<close>

definition open_reply :: "msgEIPForwardOpen \<Rightarrow> bytes" where
  "open_reply fo =
     serializeItems [empty_item cipItem_Null,
       item_Write (msgEIPForwardOpen_Standard_Reply (AsResponse (fo_Service fo)) (fo_OTConnectionID fo)
           (fo_TOConnectionID fo) (fo_ConnectionSerialNumber fo) (fo_VendorID fo)
           (fo_OriginatorSerialNumber fo) (fo_OTRPI fo) (fo_TORPI fo))
         (newItem cipItem_UnconnectedData None)]"

lemma open_connection_reply:
  assumes "h_writable h" "2 \<le> length path" "fo_OTConnectionID fo \<noteq> 0" "fo_TOConnectionID fo \<noteq> 0"
  shows "\<exists>h'. open_connection fo path h = (Inr (conn_next (srv_ConnMgr (h_server h))), h')
    \<and> srv_ConnMgr (h_server h') = cm_Add (new_connection fo (fo_OTConnectionID fo) (fo_TOConnectionID fo) (take 2 path))
        (srv_ConnMgr (h_server h))
    \<and> h_out h' = h_out h @ [frame h cipCommandSendRRData (open_reply fo)] \<and> h_handle h' = h_handle h"
  using assms
  by (simp add: open_connection_def seq_act_def bind_act_def upd_def choose_id_run h_send_def Let_def
      set_ConnMgr_def open_reply_def frame_def h_newEIPHeader_def)

lemma length_reply: "length (msgEIPForwardOpen_Standard_Reply s ot to' n v r a b) = 30"
  by (simp add: msgEIPForwardOpen_Standard_Reply_def)

lemma read_reply:
  "read_full 4 (msgEIPForwardOpen_Standard_Reply s ot to' n v r a b)
     = Inr ([s, 0, CIPStatus_OK, 0], drop 4 (msgEIPForwardOpen_Standard_Reply s ot to' n v r a b))"
  "read_full 26 (drop 4 (msgEIPForwardOpen_Standard_Reply s ot to' n v r a b))
     = Inr (drop 4 (msgEIPForwardOpen_Standard_Reply s ot to' n v r a b), [])"
  "fld32 0 (drop 4 (msgEIPForwardOpen_Standard_Reply s ot to' n v r a b)) = ot"
proof -
  let ?b = "put32 ot @ put32 to' @ put16 n @ put16 v @ put32 r @ put32 a @ put32 b @ [0, 0]"
  have m: "msgEIPForwardOpen_Standard_Reply s ot to' n v r a b = [s, 0, CIPStatus_OK, 0] @ ?b"
    by (simp add: msgEIPForwardOpen_Standard_Reply_def)
  have d: "drop 4 (msgEIPForwardOpen_Standard_Reply s ot to' n v r a b) = ?b" unfolding m by simp
  show "read_full 4 (msgEIPForwardOpen_Standard_Reply s ot to' n v r a b)
     = Inr ([s, 0, CIPStatus_OK, 0], drop 4 (msgEIPForwardOpen_Standard_Reply s ot to' n v r a b))"
    unfolding d unfolding m by (rule read_full_append) simp
  have "read_full 26 (?b @ []) = Inr (?b, [])" by (rule read_full_append) simp
  then show "read_full 26 (drop 4 (msgEIPForwardOpen_Standard_Reply s ot to' n v r a b))
     = Inr (drop 4 (msgEIPForwardOpen_Standard_Reply s ot to' n v r a b), [])" unfolding d by simp
  show "fld32 0 (drop 4 (msgEIPForwardOpen_Standard_Reply s ot to' n v r a b)) = ot" unfolding d by simp
qed

lemma parse_open_reply:
  assumes "eh_Status header = 0"
  shows "\<exists>items. parseResponse header (open_reply fo) = Inr (items,
    drop 4 (msgEIPForwardOpen_Standard_Reply (AsResponse (fo_Service fo)) (fo_OTConnectionID fo)
           (fo_TOConnectionID fo) (fo_ConnectionSerialNumber fo) (fo_VendorID fo)
           (fo_OriginatorSerialNumber fo) (fo_OTRPI fo) (fo_TORPI fo)))"
proof -
  let ?m = "msgEIPForwardOpen_Standard_Reply (AsResponse (fo_Service fo)) (fo_OTConnectionID fo)
           (fo_TOConnectionID fo) (fo_ConnectionSerialNumber fo) (fo_VendorID fo)
           (fo_OriginatorSerialNumber fo) (fo_OTRPI fo) (fo_TORPI fo)"
  let ?items = "[empty_item cipItem_Null, item_Write ?m (empty_item cipItem_UnconnectedData)]"
  have wf: "list_all item_wf ?items"
    by (simp add: item_wf_empty item_wf_Write length_reply)
  let ?s = "put16 (of_nat (length ?items)) @ concat (map item_Bytes ?items)"
  have o: "open_reply fo = (put32 0 @ put16 0) @ ?s"
    by (simp add: open_reply_def serializeItems_def newItem_None)
  have h6: "read_full 6 ((put32 0 @ put16 0) @ ?s) = Inr (put32 0 @ put16 0, ?s)"
    by (rule read_full_append) simp
  have ri: "readItems ?s = Inr (?items, [])"
    using readItems_serializeItems_aux[OF wf, of ?s "[]"] by (simp add: serializeItems_def)
  show ?thesis
    unfolding parseResponse_def o h6 using assms ri read_reply(1)
    by (simp add: fld8_def read_full_def [of 0])
qed

lemma length_open_reply: "length (open_reply fo) = 46"
  by (simp add: open_reply_def serializeItems_def newItem_None item_Bytes_def item_Write_def length_reply)

section \<open>The exchange\<close>

lemma forwardOpen_answered:
  assumes "c_conn c" "c_socket c = []" "c_script c = Some (frame h cipCommandSendRRData (open_reply fo)) # s"
  shows "c_forwardOpen msg c = (Inr (), c\<lparr>c_HeaderSequenceCounter := c_HeaderSequenceCounter c + 1, c_script := s,
    c_sent := c_sent c @ [fst (sendMsgBuild cipCommandSendRRData (serializeItems [empty_item cipItem_Null, msg]) c)],
    c_OTNetworkConnectionID := fo_OTConnectionID fo\<rparr>)"
proof -
  let ?hdr = "h_newEIPHeader cipCommandSendRRData (length (open_reply fo)) h"
  have "unat (eh_Length ?hdr) = length (open_reply fo)" by (simp add: h_newEIPHeader_def length_open_reply)
  note x = send_recv_answered[OF assms(1,2) assms(3)[unfolded frame_def] this,
      of cipCommandSendRRData "serializeItems [empty_item cipItem_Null, msg]"]
  obtain items where p: "parseResponse ?hdr (open_reply fo) = Inr (items,
    drop 4 (msgEIPForwardOpen_Standard_Reply (AsResponse (fo_Service fo)) (fo_OTConnectionID fo)
           (fo_TOConnectionID fo) (fo_ConnectionSerialNumber fo) (fo_VendorID fo)
           (fo_OriginatorSerialNumber fo) (fo_OTRPI fo) (fo_TORPI fo)))"
    using parse_open_reply[of ?hdr fo] by (auto simp: h_newEIPHeader_def)
  show ?thesis unfolding c_forwardOpen_def x using p by (simp add: read_reply)
qed

lemma large_open_handled:
  assumes "item = item_Write p (item_Write
      (forward_open_fields CIPService_LargeForwardOpen prio ticks ot to' serial mlt (put32 params) c)
      (empty_item cipItem_UnconnectedData))"
    and "p = c_path_bytes c" "even (length p)" "length p < 256" "2 \<le> length p" "ot \<noteq> 0" "to' \<noteq> 0" "h_writable h"
  shows "\<exists>h' fo. sendRRData fconv (serializeItems [empty_item cipItem_Null, item]) h = (Inr [], h')
    \<and> fo_OTConnectionID fo = ot
    \<and> srv_ConnMgr (h_server h') = cm_Add \<lparr>conn_ID = serial, conn_OT = ot, conn_TO = to', conn_RPI = rpi_us c,
        conn_Path = take 2 p, conn_Open = True\<rparr> (srv_ConnMgr (h_server h))
    \<and> h_out h' = h_out h @ [frame h cipCommandSendRRData (open_reply fo)] \<and> h_handle h' = h_handle h"
proof -
  let ?b = "forward_open_fields CIPService_LargeForwardOpen prio ticks ot to' serial mlt (put32 params) c"
  have d: "Data item = ?b @ p" "hdr_ID (Header item) = cipItem_UnconnectedData"
    using assms(1) by (simp_all add: item_Write_def)
  have l: "length ?b = 46" by (simp add: forward_open_fields_def)
  have "item_wf item" unfolding assms(1) using assms(4) l
    by (intro item_wf_Write) (simp_all add: item_Write_def)
  then have rr: "read_rr (serializeItems [empty_item cipItem_Null, item]) = Inr ([empty_item cipItem_Null, item], [])"
    by (intro read_rr_serializeItems) (simp_all add: item_wf_empty)
  let ?fo = "\<lparr>fo_Service = CIPService_LargeForwardOpen, fo_OTConnectionID = ot, fo_TOConnectionID = to',
       fo_ConnectionSerialNumber = serial, fo_VendorID = c_VendorId c,
       fo_OriginatorSerialNumber = c_SerialNumber c, fo_Multiplier = mlt, fo_OTRPI = rpi_us c,
       fo_OTNetworkConnParams = params, fo_TORPI = rpi_us c, fo_TONetworkConnParams = params,
       fo_TransportTrigger = 0xA3, fo_ConnPathSize = of_nat (length (c_path_bytes c) div 2)\<rparr>"
  have pr: "read_full (unat (fo_ConnPathSize ?fo * 2)) p = Inr (p, [])"
    using path_size_bytes[OF assms(3,4)] read_full_append[of p "length p" "[]"] assms(2) by simp
  obtain h' where h': "open_connection ?fo p h = (Inr (conn_next (srv_ConnMgr (h_server h))), h')"
    "srv_ConnMgr (h_server h') = cm_Add (new_connection ?fo ot to' (take 2 p)) (srv_ConnMgr (h_server h))"
    "h_out h' = h_out h @ [frame h cipCommandSendRRData (open_reply ?fo)]" "h_handle h' = h_handle h"
    using open_connection_reply[of h p ?fo] assms(5,6,7,8) by auto
  have "largeForwardOpen (?b @ p) h = (Inr (), h')"
    using read_large_request[of prio ticks ot to' serial mlt params c p] pr h'(1)
    by (simp add: largeForwardOpen_def need_def seq_act_def ret_def)
  then have "unconnectedData fconv (?b @ p) h = (Inr (), h')"
    by (simp add: unconnectedData_def need_def bind_act_def ret_def forward_open_fields_def)
  then have "sendRRData fconv (serializeItems [empty_item cipItem_Null, item]) h = (Inr [], h')"
    using rr d by (simp add: sendRRData_def need_def seq_act_def ret_def)
  then show ?thesis using h'(2,3,4) by (intro exI[of _ h'] exI[of _ ?fo]) (simp add: new_connection_def)
qed

lemma large_open_item:
  assumes "newForwardOpenLarge c = Some (item, c1)"
  shows "\<exists>serial params. item = item_Write (c_path_bytes c1) (item_Write
      (forward_open_fields CIPService_LargeForwardOpen 0x0A 0x0E (c_sequenceNumber c + 1) (c_sequenceNumber c + 2)
        serial 3 (put32 params) c1) (empty_item cipItem_UnconnectedData))
    \<and> c_path_bytes c1 = c_path_bytes c \<and> c_ConnectionSerialNumber c1 = serial"
  using assms
  by (auto simp: newForwardOpenLarge_def take_ids_def Let_def c_path_bytes_def split: option.splits if_splits)

text \<open>What the client asks for does not depend on what will be answered.\<close>

lemma newForwardOpenLarge_total: "\<exists>item c1. newForwardOpenLarge c = Some (item, c1)"
proof -
  let ?c = "if c_ConnectionSize c = 0 then c\<lparr>c_ConnectionSize := connSizeLargeDefault\<rparr> else c"
  show ?thesis using take_ids_total[of ?c] unfolding newForwardOpenLarge_def Let_def by fastforce
qed

lemma newForwardOpenLarge_script:
  "newForwardOpenLarge c = Some (item, c1) \<Longrightarrow> newForwardOpenLarge (c\<lparr>c_script := s\<rparr>) = Some (item, c1\<lparr>c_script := s\<rparr>)"
  by (auto simp: newForwardOpenLarge_def take_ids_def Let_def c_path_bytes_def forward_open_fields_def rpi_us_def
      split: option.splits if_splits)

lemma serve_message:
  assumes "dispatch fconv hdr r (h\<lparr>h_context := eh_Context hdr\<rparr>) = (Inr r2, h')"
  shows "serve fconv (eipHeader_Bytes hdr @ r) h = serve fconv r2 h'"
  using assms eip_header.dec_enc[of hdr r] by (simp add: serve.simps [of fconv "eipHeader_Bytes hdr @ r"])

abbreviation register_msg :: bytes where
  "register_msg \<equiv> put16 1 @ put16 0"

lemma register_handled:
  assumes "h_writable h" "eh_Command hdr = cipCommandRegisterSession"
  shows "\<exists>h'. (\<forall>rest. dispatch fconv hdr (register_msg @ rest) h = (Inr rest, h'))
    \<and> h_out h' = h_out h @ [frame h' cipCommandRegisterSession register_msg]
    \<and> srv_ConnMgr (h_server h') = srv_ConnMgr (h_server h) \<and> h_writable h'"
proof -
  have "read_full 4 (register_msg @ rest) = Inr (register_msg, rest)" for rest by (rule read_full_append) simp
  then show ?thesis
    using assms by (simp add: dispatch_def registerSession_def need_def seq_act_def bind_act_def ret_def upd_def
        choose_id_run h_send_def frame_def h_newEIPHeader_def)
qed

lemma registerSession_answered:
  assumes "c_conn c" "c_socket c = []" "c_script c = Some (frame h cipCommandRegisterSession register_msg) # s"
  shows "c_registerSession c = (Inr (), c\<lparr>c_HeaderSequenceCounter := c_HeaderSequenceCounter c + 1, c_script := s,
    c_sent := c_sent c @ [fst (sendMsgBuild cipCommandRegisterSession register_msg c)],
    c_SessionHandle := h_handle h\<rparr>)"
proof -
  let ?hdr = "h_newEIPHeader cipCommandRegisterSession (length register_msg) h"
  have "unat (eh_Length ?hdr) = length register_msg" by (simp add: h_newEIPHeader_def)
  note x = send_recv_answered[OF assms(1,2) assms(3)[unfolded frame_def] this, of cipCommandRegisterSession register_msg]
  show ?thesis unfolding c_registerSession_def x by (simp add: h_newEIPHeader_def)
qed

lemma large_open_served:
  assumes "newForwardOpenLarge c = Some (item, c1)"
    and "even (length (c_path_bytes c))" "length (c_path_bytes c) < 256"
    and "c_sequenceNumber c + 1 \<noteq> 0" "c_sequenceNumber c + 2 \<noteq> 0"
    and "h_writable h" "cm_inv (srv_ConnMgr (h_server h))"
    and "cm_find (\<lambda>x. conn_OT x = c_sequenceNumber c + 1) (srv_ConnMgr (h_server h)) = None"
  shows "\<exists>e h' a h0 fo. 
      serve fconv (fst (sendMsgBuild cipCommandSendRRData (serializeItems [empty_item cipItem_Null, item]) c1)) h = (e, h')
    \<and> h_out h' = h_out h @ [frame h0 cipCommandSendRRData (open_reply fo)] \<and> h_handle h' = h_handle h
    \<and> fo_OTConnectionID fo = c_sequenceNumber c + 1
    \<and> cm_GetByOT (c_sequenceNumber c + 1) (srv_ConnMgr (h_server h')) = Inr a
    \<and> conn_ID (conn_store (srv_ConnMgr (h_server h')) a) = c_ConnectionSerialNumber c1
    \<and> conn_Open (conn_store (srv_ConnMgr (h_server h')) a)"
proof -
  let ?ot = "c_sequenceNumber c + 1" and ?to = "c_sequenceNumber c + 2" and ?p = "c_path_bytes c"
  let ?msg = "serializeItems [empty_item cipItem_Null, item]" and ?cm = "srv_ConnMgr (h_server h)"
  let ?hdr = "fst (c_newEIPHeader cipCommandSendRRData (length ?msg) c1)"
  let ?h = "h\<lparr>h_context := eh_Context ?hdr\<rparr>"
  obtain serial params where i: "item = item_Write (c_path_bytes c1) (item_Write
      (forward_open_fields CIPService_LargeForwardOpen 0x0A 0x0E ?ot ?to serial 3 (put32 params) c1)
      (empty_item cipItem_UnconnectedData))"
    and c1: "c_path_bytes c1 = ?p" "c_ConnectionSerialNumber c1 = serial"
    using large_open_item[OF assms(1)] by blast
  have "2 \<le> length ?p" by (simp add: c_path_bytes_def CIPClass_Bytes_def)
  then obtain h' fo where h': "sendRRData fconv ?msg ?h = (Inr [], h')" "h_handle h' = h_handle h"
    "fo_OTConnectionID fo = ?ot" "srv_ConnMgr (h_server h') = cm_Add \<lparr>conn_ID = serial, conn_OT = ?ot, conn_TO = ?to,
        conn_RPI = rpi_us c1, conn_Path = take 2 ?p, conn_Open = True\<rparr> ?cm"
    "h_out h' = h_out h @ [frame ?h cipCommandSendRRData (open_reply fo)]"
    using large_open_handled[OF i refl, of ?h fconv] assms(2-6) c1(1) by auto
  have "dispatch fconv ?hdr ?msg ?h = (Inr [], h')"
    using h'(1) by (simp add: dispatch_def c_newEIPHeader_def bind_act_def ret_def)
  then have "serve fconv (fst (sendMsgBuild cipCommandSendRRData ?msg c1)) h = serve fconv [] h'"
    using serve_message[of fconv ?hdr ?msg h] by (simp add: sendMsgBuild_def split_beta)
  moreover have "serve fconv [] h' = (wrap ''problem reading eip header'' EOF, h')"
    by (simp add: serve.simps [of fconv "[]"] read_eipHeader_def andthen_def read_full_def)
  moreover have "cm_GetByOT ?ot (srv_ConnMgr (h_server h')) = Inr (conn_next ?cm)"
    "conn_store (srv_ConnMgr (h_server h')) (conn_next ?cm) = \<lparr>conn_ID = serial, conn_OT = ?ot, conn_TO = ?to,
        conn_RPI = rpi_us c1, conn_Path = take 2 ?p, conn_Open = True\<rparr>"
    using cm_find_Add[OF assms(7)] assms(8) h'(4) by (auto simp: cm_GetByOT_def)
  ultimately show ?thesis using h'(2,3,5) c1(2)
    by (intro exI[of _ "wrap ''problem reading eip header'' EOF"] exI[of _ h'] exI[of _ "conn_next ?cm"] exI[of _ ?h] exI[of _ fo])
      simp
qed

lemma Connect_answered:
  assumes "c_connStatus c = Disconnected" "c_sent c = []" "c_ConnectionSize c = 0 \<or> 511 < c_ConnectionSize c"
    and "c0 = (connect_defaults now (c\<lparr>c_connStatus := Connecting\<rparr>))\<lparr>c_conn := True, c_socket := []\<rparr>"
    and "b1 = fst (sendMsgBuild cipCommandRegisterSession register_msg c0)"
    and "newForwardOpenLarge (c0\<lparr>c_HeaderSequenceCounter := c_HeaderSequenceCounter c + 1, c_sent := [b1],
      c_SessionHandle := h_handle h1\<rparr>) = Some (item, c2)"
  shows "\<exists>c'. Connect True now (c\<lparr>c_script := [Some (frame h1 cipCommandRegisterSession register_msg),
      Some (frame h0 cipCommandSendRRData (open_reply fo))]\<rparr>) = (Inr (), c') \<and> c_connStatus c' = Connected
    \<and> c_sent c' = [b1, fst (sendMsgBuild cipCommandSendRRData (serializeItems [empty_item cipItem_Null, item]) c2)]
    \<and> c_SessionHandle c' = h_handle h1 \<and> c_OTNetworkConnectionID c' = fo_OTConnectionID fo
    \<and> c_ConnectionSerialNumber c' = c_ConnectionSerialNumber c2"
proof -
  let ?f1 = "frame h1 cipCommandRegisterSession register_msg" and ?f2 = "frame h0 cipCommandSendRRData (open_reply fo)"
  let ?c1 = "c0\<lparr>c_HeaderSequenceCounter := c_HeaderSequenceCounter c + 1, c_sent := [b1], c_SessionHandle := h_handle h1\<rparr>"
  let ?b2 = "fst (sendMsgBuild cipCommandSendRRData (serializeItems [empty_item cipItem_Null, item]) c2)"
  have z: "c_conn c0" "c_socket c0 = []" "c_sent c0 = []" "c_HeaderSequenceCounter c0 = c_HeaderSequenceCounter c"
    "511 < c_ConnectionSize c0" using assms(2,3) by (auto simp: assms(4) connect_defaults_def)
  have r: "c_registerSession (c0\<lparr>c_script := [Some ?f1, Some ?f2]\<rparr>) = (Inr (), ?c1\<lparr>c_script := [Some ?f2]\<rparr>)"
    using registerSession_answered[of "c0\<lparr>c_script := [Some ?f1, Some ?f2]\<rparr>" h1 "[Some ?f2]"] z
    by (simp add: assms(5) sendMsgBuild_def c_newEIPHeader_def)
  have c2: "c_conn c2" "c_socket c2 = []" "c_sent c2 = [b1]" "c_ConnectionSize c2 = c_ConnectionSize c0"
    "c_SessionHandle c2 = h_handle h1"
    using assms(6) z by (auto simp: newForwardOpenLarge_def take_ids_def Let_def split: option.splits if_splits)
  have n: "newForwardOpenLarge (?c1\<lparr>c_script := [Some ?f2]\<rparr>) = Some (item, c2\<lparr>c_script := [Some ?f2]\<rparr>)"
    using assms(6) by (rule newForwardOpenLarge_script)
  let ?c3 = "c2\<lparr>c_HeaderSequenceCounter := c_HeaderSequenceCounter c2 + 1, c_script := [], c_sent := [b1, ?b2],
    c_OTNetworkConnectionID := fo_OTConnectionID fo\<rparr>"
  have o: "c_forwardOpen item (c2\<lparr>c_script := [Some ?f2]\<rparr>) = (Inr (), ?c3)"
    using forwardOpen_answered[of "c2\<lparr>c_script := [Some ?f2]\<rparr>" h0 fo "[]" item] c2
    by (simp add: sendMsgBuild_def c_newEIPHeader_def)
  have "open_large (?c1\<lparr>c_script := [Some ?f2]\<rparr>) = (Inr (), ?c3)" "open_standard ?c3 = (Inr (), ?c3)"
    using n o z(5) c2(4) by (simp_all add: open_large_def open_standard_def linorder_not_le [symmetric])
  moreover have "(connect_defaults now (c\<lparr>c_script := [Some ?f1, Some ?f2], c_connStatus := Connecting\<rparr>))\<lparr>c_conn := True, c_socket := []\<rparr>
      = c0\<lparr>c_script := [Some ?f1, Some ?f2]\<rparr>"
    by (simp add: assms(4) connect_defaults_def)
  ultimately have "open_session True (connect_defaults now (c\<lparr>c_script := [Some ?f1, Some ?f2], c_connStatus := Connecting\<rparr>)) = (Inr (), ?c3)"
    using r by (simp only: open_session_def) simp
  then show ?thesis using assms(1) c2 by (simp add: Connect_def startConnect_def)
qed

text \<open>
  C3.  Connecting works end to end.  The bytes a disconnected client writes during \<^const>\<open>Connect\<close> are a
  register-session message and a large forward open; a server that serves exactly those bytes
  answers with two frames.  When these frames are what the client receives, \<^const>\<open>Connect\<close> succeeds, the
  client is connected under the session handle the server keeps, and the id under which it will
  send finds an open connection with the client's serial number in the server's table.
\<close>

theorem connect_to_server:
  assumes "c_connStatus c = Disconnected" "c_sent c = []" "c_ConnectionSize c = 0 \<or> 511 < c_ConnectionSize c"
    and "even (length (c_path_bytes (connect_defaults now c)))" "length (c_path_bytes (connect_defaults now c)) < 256"
    and "c_sequenceNumber c + now + 1 \<noteq> 0" "c_sequenceNumber c + now + 2 \<noteq> 0"
    and "h_writable h" "cm_inv (srv_ConnMgr (h_server h))"
    and "cm_find (\<lambda>x. conn_OT x = c_sequenceNumber c + now + 1) (srv_ConnMgr (h_server h)) = None"
  shows "\<exists>f1 f2 c' e h' a.
      Connect True now (c\<lparr>c_script := [Some f1, Some f2]\<rparr>) = (Inr (), c') \<and> c_connStatus c' = Connected
    \<and> serve fconv (concat (c_sent c')) h = (e, h') \<and> h_out h' = h_out h @ [f1, f2]
    \<and> c_SessionHandle c' = h_handle h'
    \<and> cm_GetByOT (c_OTNetworkConnectionID c') (srv_ConnMgr (h_server h')) = Inr a
    \<and> conn_ID (conn_store (srv_ConnMgr (h_server h')) a) = c_ConnectionSerialNumber c'
    \<and> conn_Open (conn_store (srv_ConnMgr (h_server h')) a)"
proof -
  let ?c0 = "(connect_defaults now (c\<lparr>c_connStatus := Connecting\<rparr>))\<lparr>c_conn := True, c_socket := []\<rparr>"
  let ?hdr = "fst (c_newEIPHeader cipCommandRegisterSession (length register_msg) ?c0)"
  let ?b1 = "fst (sendMsgBuild cipCommandRegisterSession register_msg ?c0)"
  have b1: "?b1 = eipHeader_Bytes ?hdr @ register_msg" by (simp add: sendMsgBuild_def split_beta)
  obtain h1 where h1: "\<And>rest. dispatch fconv ?hdr (register_msg @ rest) (h\<lparr>h_context := eh_Context ?hdr\<rparr>) = (Inr rest, h1)"
    "h_out h1 = h_out h @ [frame h1 cipCommandRegisterSession register_msg]"
    "srv_ConnMgr (h_server h1) = srv_ConnMgr (h_server h)" "h_writable h1"
    using register_handled[of "h\<lparr>h_context := eh_Context ?hdr\<rparr>" ?hdr fconv] assms(8)
    by (auto simp: c_newEIPHeader_def)
  let ?f1 = "frame h1 cipCommandRegisterSession register_msg"
  let ?c1 = "?c0\<lparr>c_HeaderSequenceCounter := c_HeaderSequenceCounter c + 1, c_sent := [?b1], c_SessionHandle := h_handle h1\<rparr>"
  obtain item c2 where n: "newForwardOpenLarge ?c1 = Some (item, c2)"
    using newForwardOpenLarge_total by blast
  have c1: "c_sequenceNumber ?c1 = c_sequenceNumber c + now" "c_path_bytes ?c1 = c_path_bytes (connect_defaults now c)"
    by (simp_all add: connect_defaults_def c_path_bytes_def)
  let ?b2 = "fst (sendMsgBuild cipCommandSendRRData (serializeItems [empty_item cipItem_Null, item]) c2)"
  obtain e h2 a h0 fo where h2: "serve fconv ?b2 h1 = (e, h2)"
    "h_out h2 = h_out h1 @ [frame h0 cipCommandSendRRData (open_reply fo)]" "h_handle h2 = h_handle h1"
    "fo_OTConnectionID fo = c_sequenceNumber c + now + 1"
    "cm_GetByOT (c_sequenceNumber c + now + 1) (srv_ConnMgr (h_server h2)) = Inr a"
    "conn_ID (conn_store (srv_ConnMgr (h_server h2)) a) = c_ConnectionSerialNumber c2"
    "conn_Open (conn_store (srv_ConnMgr (h_server h2)) a)"
    using large_open_served[OF n, of h1 fconv] assms(4-7,9,10) h1(3,4) unfolding c1 by auto
  let ?f2 = "frame h0 cipCommandSendRRData (open_reply fo)"
  obtain c' where c': "Connect True now (c\<lparr>c_script := [Some ?f1, Some ?f2]\<rparr>) = (Inr (), c')" "c_connStatus c' = Connected"
    "c_sent c' = [?b1, ?b2]" "c_SessionHandle c' = h_handle h1" "c_OTNetworkConnectionID c' = fo_OTConnectionID fo"
    "c_ConnectionSerialNumber c' = c_ConnectionSerialNumber c2"
    using Connect_answered[OF assms(1-3) refl refl n] by blast
  have "serve fconv (concat (c_sent c')) h = (e, h2)"
    using serve_message[OF h1(1), of "?b2"] h2(1) c'(3) b1 by simp
  then show ?thesis using c' h2(2-7) h1(2)
    by (intro exI[of _ ?f1] exI[of _ ?f2] exI[of _ c'] exI[of _ e] exI[of _ h2] exI[of _ a]) simp
qed

theorem connect_to_server_witness:
  "\<exists>c f1 f2 c' a h'. NewClient 42 65535 7 = Inr c \<and> Connect True 1000 (c\<lparr>c_script := [Some f1, Some f2]\<rparr>) = (Inr (), c')
    \<and> h_out (h' :: serverTCPHandler) = [f1, f2] \<and> cm_GetByOT (c_OTNetworkConnectionID c') (srv_ConnMgr (h_server h')) = Inr a"
proof -
  let ?h = "new_handler demo_server"
  obtain c where n: "NewClient 42 65535 7 = Inr c" and c: "c_connStatus c = Disconnected" "c_sent c = []"
    "c_ConnectionSize c = 4000" "c_Path c = Some [1, 0]" "c_sequenceNumber c = 0"
    by (simp add: NewClient_def default_route)
  have p: "c_path_bytes (connect_defaults 1000 c) = [1, 0, 0x20, 2, 0x24, 1]"
    using c(4) by (simp add: connect_defaults_def c_path_bytes_def CIPClass_Bytes_def CIPInstance_Bytes_def)
  have e: "c_ConnectionSize c = 0 \<or> 511 < c_ConnectionSize c" "even (length (c_path_bytes (connect_defaults 1000 c)))"
    "length (c_path_bytes (connect_defaults 1000 c)) < 256"
    "c_sequenceNumber c + 1000 + 1 \<noteq> 0" "c_sequenceNumber c + 1000 + 2 \<noteq> 0" by (simp_all add: c p)
  have h: "h_writable ?h" "cm_inv (srv_ConnMgr (h_server ?h))" "h_out ?h = []"
    by (simp_all add: new_handler_def demo_server_def NewServer_def cm_inv_empty)
  have f: "cm_find (\<lambda>x. conn_OT x = c_sequenceNumber c + 1000 + 1) (srv_ConnMgr (h_server ?h)) = None"
    by (simp add: new_handler_def demo_server_def NewServer_def cm_empty_def cm_Init_def cm_find_def)
  obtain f1 f2 c' h' a where "Connect True 1000 (c\<lparr>c_script := [Some f1, Some f2]\<rparr>) = (Inr (), c')"
    "h_out (h' :: serverTCPHandler) = h_out ?h @ [f1, f2]"
    "cm_GetByOT (c_OTNetworkConnectionID c') (srv_ConnMgr (h_server h')) = Inr a"
    using connect_to_server[OF c(1,2) e h(1,2) f, of "\<lambda>_ _. None"] by blast
  then show ?thesis using n h(3) by (metis append_Nil)
qed

section \<open>Closing\<close>

lemma read_close_request:
  "read_ForwardClose (msgCipUnRegister c @ p)
     = Inr (\<lparr>fc_PathSize = 2, fc_ConnectionSerialNumber = c_ConnectionSerialNumber c,
         fc_ConnPathSize = of_nat (length (c_path_bytes c) div 2)\<rparr>, 0 # p)"
proof -
  let ?x = "butlast (msgCipUnRegister c)"
  have "length ?x = 17" by (simp add: msgCipUnRegister_def)
  then have "read_full 17 (?x @ 0 # p) = Inr (?x, 0 # p)" by (rule read_full_append)
  moreover have "msgCipUnRegister c @ p = ?x @ 0 # p" by (simp add: msgCipUnRegister_def butlast_append)
  ultimately show ?thesis
    by (simp add: read_ForwardClose_def) (simp add: msgCipUnRegister_def butlast_append fld_simps)
qed

lemma close_handled:
  assumes "cm_CloseByID (c_ConnectionSerialNumber c) (srv_ConnMgr (h_server h)) = Inr cm" "length (c_path_bytes c) < 256"
  shows "sendRRData fconv (disconnect_request c) h = (Inr [], set_ConnMgr cm h)"
proof -
  let ?p = "c_path_bytes c"
  let ?item = "item_Write ?p (item_Write (msgCipUnRegister c) (empty_item cipItem_UnconnectedData))"
  have l: "length (msgCipUnRegister c) = 18" by (simp add: msgCipUnRegister_def)
  have "item_wf ?item" using assms(2) l by (intro item_wf_Write) (simp_all add: item_Write_def)
  then have rr: "read_rr (disconnect_request c) = Inr ([empty_item cipItem_Null, ?item], [])"
    unfolding disconnect_request_def by (intro read_rr_serializeItems) (simp_all add: item_wf_empty)
  have d: "Data ?item = msgCipUnRegister c @ ?p" "hdr_ID (Header ?item) = cipItem_UnconnectedData"
    by (simp_all add: item_Write_def)
  have "3 \<le> length ?p" by (simp add: c_path_bytes_def CIPClass_Bytes_def CIPInstance_Bytes_def)
  then have "\<exists>x. read_full 4 (0 # ?p) = Inr x" by (simp add: read_full_def)
  then have "forwardClose (msgCipUnRegister c @ ?p) h = (Inr (), set_ConnMgr cm h)"
    using read_close_request[of c ?p] assms(1) by (auto simp: forwardClose_def act_defs)
  then have "unconnectedData fconv (msgCipUnRegister c @ ?p) h = (Inr (), set_ConnMgr cm h)"
    by (simp add: unconnectedData_def need_def bind_act_def ret_def msgCipUnRegister_def)
  then show ?thesis using rr d by (simp add: sendRRData_def need_def seq_act_def ret_def)
qed

lemma exchange_unanswered:
  assumes "c_conn c" "c_socket c = []" "c_script c = Some [] # s"
  shows "\<exists>e. exchange cmd msg c = (Inl e, c\<lparr>c_HeaderSequenceCounter := c_HeaderSequenceCounter c + 1,
    c_sent := c_sent c @ [fst (sendMsgBuild cmd msg c)], c_script := s\<rparr>)"
  using assms
  by (simp add: exchange_def sendMsgBuild_def c_newEIPHeader_def sendData_def recvData_def read_eipHeader_def
      andthen_def read_full_def)

lemma Disconnect_unanswered:
  assumes "c_connStatus c = Connected" "\<not> c_keepAliveRunning c"
    and "c_conn c" "c_socket c = []" "c_script c = Some [] # s"
  shows "fst (Disconnect c) = Inr () \<and> c_connStatus (snd (Disconnect c)) = Disconnected \<and> \<not> c_conn (snd (Disconnect c))
    \<and> c_sent (snd (Disconnect c)) = c_sent c @ [fst (sendMsgBuild cipCommandSendRRData (disconnect_request c) c)]"
proof -
  let ?c = "c\<lparr>c_connStatus := Disconnecting\<rparr>"
  have r: "disconnect_request ?c = disconnect_request c"
    by (simp add: disconnect_request_def msgCipUnRegister_def c_path_bytes_def)
  obtain e where "exchange cipCommandSendRRData (disconnect_request c) ?c = (Inl e,
    ?c\<lparr>c_HeaderSequenceCounter := c_HeaderSequenceCounter c + 1,
    c_sent := c_sent c @ [fst (sendMsgBuild cipCommandSendRRData (disconnect_request c) ?c)], c_script := s\<rparr>)"
    using exchange_unanswered[of ?c s cipCommandSendRRData "disconnect_request c"] assms(3-5) by auto
  then have "\<exists>e. send_recv_data cipCommandSendRRData (disconnect_request c) ?c = (Inl e,
    ?c\<lparr>c_HeaderSequenceCounter := c_HeaderSequenceCounter c + 1,
    c_sent := c_sent c @ [fst (sendMsgBuild cipCommandSendRRData (disconnect_request c) c)], c_script := s\<rparr>) \<and> \<not> is_panic e"
    using exchange_no_panic[of cipCommandSendRRData "disconnect_request c" ?c e]
    by (simp add: send_recv_data.simps Disconnect_idle sendMsgBuild_def c_newEIPHeader_def)
  then show ?thesis using assms(1,2) r
    by (auto simp: Disconnect.simps startDisconnect_def stop_keepalive_def closed_def)
qed

text \<open>
  C8.  Closing works end to end, although it is never acknowledged.  The forward close that
  \<^const>\<open>Disconnect\<close> writes makes the server close the connection with the client's serial number, take
  it out of its table and keep all others; the server sends no frame.  A client that waits for
  one in vain ends disconnected all the same, and \<^const>\<open>Disconnect\<close> returns no error.
\<close>

theorem close_handshake:
  assumes "c_connStatus c = Connected" "\<not> c_keepAliveRunning c" "c_conn c" "c_socket c = []" "c_script c = Some [] # s"
    and "length (c_path_bytes c) < 256" "cm_inv (srv_ConnMgr (h_server h))"
    and "cm_find (\<lambda>x. conn_ID x = c_ConnectionSerialNumber c) (srv_ConnMgr (h_server h)) = Some a"
  shows "\<exists>b hdr r h'. c_sent (snd (Disconnect c)) = c_sent c @ [b]
    \<and> fst (Disconnect c) = Inr () \<and> c_connStatus (snd (Disconnect c)) = Disconnected \<and> \<not> c_conn (snd (Disconnect c))
    \<and> read_eipHeader b = Inr (hdr, r) \<and> dispatch fconv hdr r h = (Inr [], h') \<and> h_out h' = h_out h
    \<and> \<not> conn_Open (conn_store (srv_ConnMgr (h_server h')) a)
    \<and> set (Connections (srv_ConnMgr (h_server h'))) = set (Connections (srv_ConnMgr (h_server h))) - {a}"
proof -
  let ?cm = "srv_ConnMgr (h_server h)"
  let ?b = "fst (sendMsgBuild cipCommandSendRRData (disconnect_request c) c)"
  let ?hdr = "fst (c_newEIPHeader cipCommandSendRRData (length (disconnect_request c)) c)"
  obtain cm where cm: "cm_CloseByID (c_ConnectionSerialNumber c) ?cm = Inr cm"
    using cm_Close_Inl_iff[of _ "\<lambda>x. conn_ID x = c_ConnectionSerialNumber c" ?cm] assms(8)
    by (cases "cm_CloseByID (c_ConnectionSerialNumber c) ?cm") (auto simp: cm_CloseByID_def)
  have s: "\<not> conn_Open (conn_store cm a)" "set (Connections cm) = set (Connections ?cm) - {a}"
    using cm_Close_spec[OF assms(7) cm[unfolded cm_CloseByID_def]] assms(8) by auto
  have "read_eipHeader ?b = Inr (?hdr, disconnect_request c)"
    using eip_header.dec_enc by (simp add: sendMsgBuild_def split_beta)
  moreover have "dispatch fconv ?hdr (disconnect_request c) h = (Inr [], set_ConnMgr cm h)"
    using close_handled[OF cm assms(6), of fconv] by (simp add: dispatch_def c_newEIPHeader_def bind_act_def ret_def)
  ultimately show ?thesis
    using Disconnect_unanswered[OF assms(1-5)] s
    by (intro exI[of _ ?b] exI[of _ ?hdr] exI[of _ "disconnect_request c"] exI[of _ "set_ConnMgr cm h"])
      (simp add: set_ConnMgr_def)
qed

text \<open>A server with the demonstration client's connection open.\<close>

definition demo_open_handler :: serverTCPHandler where
  "demo_open_handler = set_ConnMgr (cm_Add (demo_conn 3 101) cm_empty) (new_handler demo_server)"

theorem close_handshake_witness:
  "fst (Disconnect (demo_client\<lparr>c_script := [Some []]\<rparr>)) = Inr ()
   \<and> (\<exists>hdr r h'. dispatch (\<lambda>_ _. None) hdr r demo_open_handler = (Inr [], h') \<and> Connections (srv_ConnMgr (h_server h')) = [])"
proof -
  let ?c = "demo_client\<lparr>c_script := [Some []]\<rparr>" and ?cm = "srv_ConnMgr (h_server demo_open_handler)"
  have c: "c_connStatus ?c = Connected" "\<not> c_keepAliveRunning ?c" "c_conn ?c" "c_socket ?c = []" "c_script ?c = [Some []]"
    "length (c_path_bytes ?c) < 256"
    by (simp_all add: demo_client_def c_path_bytes_def CIPClass_Bytes_def CIPInstance_Bytes_def)
  have cm: "?cm = cm_Add (demo_conn 3 101) cm_empty" by (simp add: demo_open_handler_def set_ConnMgr_def)
  have i: "cm_inv ?cm" unfolding cm by (simp add: cm_inv_Add cm_inv_empty demo_conn_def)
  have f: "cm_find (\<lambda>x. conn_ID x = c_ConnectionSerialNumber ?c) ?cm = Some 0" "set (Connections ?cm) = {0}"
    by (simp_all add: cm cm_Add_def cm_empty_def cm_Init_def cm_find_def demo_conn_def demo_client_def)
  show ?thesis
    using close_handshake[OF c i f(1), of "\<lambda>_ _. None"] f(2) by auto
qed

end
