(* ===== verification/Tag_Protocol.thy ===== *)
theory Tag_Protocol
  imports Client_Write Session_Protocol Ioi_Roundtrip
begin

text \<open>
  Client and server together, on tags: a write request of the client as the server's handlers
  read it, the value in the server's tag table, and the reply to the read that follows as the
  client decodes it.
\<close>

section \<open>Values on the wire\<close>

text \<open>The values that can be written and read back: numbers of a fixed width, and strings of up to 82 characters.\<close>

definition tag_value :: "goval \<Rightarrow> bool" where
  "tag_value v \<longleftrightarrow> typeof v \<in> {TInt8, TInt16, TInt32, TInt64, TUint8, TUint16, TUint32, TUint64, TFloat32, TFloat64}
     \<or> (\<exists>s. v = VString s \<and> length s \<le> 82)"

abbreviation cip_type_of :: "goval \<Rightarrow> cip_type" where
  "cip_type_of v \<equiv> fst (GoVarToCIPType v)"

definition sent_value :: "goval \<Rightarrow> bytes" where
  "sent_value v =
     (case v of
        VString s \<Rightarrow> [0xA0, 0x02, 0xCE, 0x0F] @ put16 1 @ put32 (of_nat (length s)) @ pad_copy 84 (to_bytes s)
      | _ \<Rightarrow> [cip_type_of v, 0] @ put16 1 @ enc_fixed v)"

text \<open>The type and the data of the value in the reply to a read.\<close>

definition reply_type :: "goval \<Rightarrow> cip_type" where
  "reply_type v = (case v of VString s \<Rightarrow> CIPTypeStruct | _ \<Rightarrow> cip_type_of v)"

definition reply_data :: "goval \<Rightarrow> bytes" where
  "reply_data v =
     (case v of
        VString s \<Rightarrow> put32 (of_nat (length s)) @ pad_copy 82 (to_bytes s) @ [0, 0]
      | _ \<Rightarrow> enc_fixed v)"

lemma tag_value_cases:
  assumes "tag_value v"
  obtains (scalar) g where "typeof v = g" "readValue_type (cip_type_of v) = Some g" "wt v" "sizeof g \<noteq> None"
      "cip_type_of v \<notin> {CIPTypeUnknown, CIPTypeStruct, CIPTypeBOOL, CIPTypeSTRING, 0x28, 0x29, 0x91}"
      "length (enc_fixed v) \<le> 8" "item_arg_bytes v = Inr (enc_fixed v)"
      "\<forall>s. v \<noteq> VString s" "\<forall>t vs. v \<noteq> VSlice t vs" "\<forall>n fs. v \<noteq> VStruct n fs" "g \<noteq> TString"
      "cip_type_of (zero_val g) = cip_type_of v"
    | (str) s where "v = VString s" "length s \<le> 82"
proof (cases "\<exists>s. v = VString s")
  case True
  then show ?thesis using assms that(2) by (auto simp: tag_value_def)
next
  case False
  then show ?thesis
    using assms by (cases v) (auto simp: tag_value_def readValue_type_def binary_write_def intro!: that(1))
qed

lemma item_Write_twice:
  "item_Write b (item_Write a (empty_item i)) = item_Write (a @ b) (empty_item i)"
  by (simp add: item_Write_def empty_item_def)

lemma read_padded: "read_full n (pad_copy n bs @ r) = Inr (pad_copy n bs, r)"
  by (rule read_full_append) simp

lemma take_padded: "length s \<le> n \<Longrightarrow> take (length s) (pad_copy n (to_bytes s)) = to_bytes s"
  by (simp add: pad_copy_def)

lemma pad_copy_84: "length s \<le> 82 \<Longrightarrow> pad_copy 84 (to_bytes s) = pad_copy 82 (to_bytes s) @ [0, 0]"
proof -
  assume "length s \<le> 82"
  then have "84 - length s = (82 - length s) + Suc (Suc 0)" by simp
  then show ?thesis using \<open>length s \<le> 82\<close>
    by (simp only: pad_copy_def replicate_add length_to_bytes) simp
qed

text \<open>What the server reads out of a write request, and what the client makes of the server's reply.\<close>

lemma unat_one: "unat (1 :: u16) = Suc 0"
  by simp

lemma sent_value_parsed:
  assumes "tag_value v"
  shows "\<exists>r. parseWriteValues (sent_value v) = Inr ([v], r)"
  using assms
proof (cases rule: tag_value_cases)
  case (scalar g)
  have "parse_values (unat (1 :: u16)) (cip_type_of v) (enc_fixed v) = Inr ([v], [])"
    using readValue_enc[of "cip_type_of v" v "[]"] scalar(1-3) by (simp add: unat_one)
  moreover have "sent_value v = [cip_type_of v, 0] @ put16 1 @ enc_fixed v"
    using scalar(8) by (auto simp: sent_value_def split: goval.split)
  ultimately show ?thesis
    using scalar(5) by (simp add: parseWriteValues_def Let_def read_full_def[of 0])
next
  case (str s)
  have "parse_strings (unat (1 :: u16)) (put32 (of_nat (length s)) @ pad_copy 82 (to_bytes s) @ [0, 0]) = Inr ([VString s], [0, 0])"
    using str(2) by (simp add: unat_one read_padded take_padded unat_of_nat take_bit_eq_mod)
  then show ?thesis
    using str by (simp add: parseWriteValues_def sent_value_def Let_def pad_copy_84 read_full_def[of 2] get_eval)
qed

lemma reply_decoded:
  assumes "tag_value v" 
  shows "\<exists>x. decodeSingleReadPayload (cip_type_of v) 1 ioi (reply_type v) (reply_data v) = Inr x \<and> cast_to (typeof v) x = Inr v"
  using assms
proof (cases rule: tag_value_cases)
  case (scalar g)
  then have "reply_type v = cip_type_of v" "reply_data v = enc_fixed v" by (auto simp: reply_type_def reply_data_def split: goval.split)
  then show ?thesis
    using scalar readValue_enc[of "cip_type_of v" v "[]"] by (simp add: decodeSingleReadPayload_def cast_to_def)
next
  case (str s)
  then show ?thesis
    using read_full_append[of "to_bytes s" "length s"]
    by (simp add: decodeSingleReadPayload_def reply_type_def reply_data_def unat_of_nat take_bit_eq_mod
      pad_copy_def cast_to_def bytes_of_slice_def byte_slice_def comp_def)
qed

section \<open>The path of the tag\<close>

definition tag_path :: "tag_part list \<Rightarrow> bytes" where
  "tag_path ps = concat (map part_bytes ps)"

text \<open>
  A client that addresses a tag by its symbolic path: its firmware does not have it use symbol
  instances, and the cache holds that path or none.
\<close>

definition symbolic_path :: "tag_part list \<Rightarrow> Client \<Rightarrow> bool" where
  "symbolic_path ps c \<longleftrightarrow> 0 < c_knownFirmware c \<and> c_knownFirmware c \<le> 20
     \<and> (case c_ioi_cache c (print_tag ps) of None \<Rightarrow> True | Some ioi \<Rightarrow> ioi_Buffer ioi = tag_path ps)"

lemma newIOI_symbolic:
  assumes "symbolic_path ps c" "tag_ok ps" "strings_ToLower tag = print_tag ps" "d \<noteq> CIPTypeBOOL"
  shows "\<exists>ioi cache. c_newIOI tag d c = (Inr ioi, c\<lparr>c_ioi_cache := cache\<rparr>) \<and> ioi_Buffer ioi = tag_path ps
    \<and> symbolic_path ps (c\<lparr>c_ioi_cache := cache\<rparr>)"
proof (cases "c_ioi_cache c (print_tag ps)")
  case None
  let ?ioi = "new_ioi (print_tag ps) d (tag_path ps)"
  have "newSymbolicIOI (print_tag ps) d = Inr ?ioi"
    unfolding tag_path_def by (rule newSymbolicIOI_print[OF assms(2,4)])
  then have "c_newIOI tag d c = (Inr ?ioi, c\<lparr>c_ioi_cache := (c_ioi_cache c)(print_tag ps \<mapsto> ?ioi)\<rparr>)"
    using assms None by (simp add: c_newIOI_known symbolic_path_def newIOI_def Let_def)
  then show ?thesis using assms(1) by (auto simp: symbolic_path_def new_ioi_def)
next
  case (Some ioi)
  then have "c_newIOI tag d c = (Inr ioi, c\<lparr>c_ioi_cache := c_ioi_cache c\<rparr>)"
    using assms by (simp add: c_newIOI_known symbolic_path_def newIOI_def Let_def)
  then show ?thesis using assms(1) Some
    by (intro exI[of _ ioi] exI[of _ "c_ioi_cache c"]) (simp add: symbolic_path_def)
qed

section \<open>The client's side\<close>

definition write_message :: "u16 \<Rightarrow> tag_part list \<Rightarrow> goval \<Rightarrow> bytes" where
  "write_message sq ps v =
     put16 sq @ [CIPService_Write, of_nat (length (tag_path ps) div 2)] @ tag_path ps @ sent_value v"

definition read_message :: "u16 \<Rightarrow> cip_service \<Rightarrow> tag_part list \<Rightarrow> bytes" where
  "read_message sq svc ps =
     put16 sq @ [svc, of_nat (length (tag_path ps) div 2)] @ tag_path ps
     @ (if svc = CIPService_FragRead then put16 1 @ put32 0 else put16 1)"

abbreviation data_item :: "bytes \<Rightarrow> CIPItem" where
  "data_item b \<equiv> item_Write b (empty_item cipItem_ConnectedData)"

lemma put16_byte: "put16 (ucast (b :: u8)) = [b, 0]"
proof -
  have "unat b < 256" by (rule unat_byte_lt)
  then have "unat b mod 65536 = unat b" "unat b mod 256 = unat b" "unat b div 256 = 0"
    by (intro mod_less div_less; linarith)+
  note small = this
  have "unat (ucast b :: u16) = unat b" using small(1) by (simp only: unsigned_ucast_eq) (simp add: take_bit_eq_mod)
  then show ?thesis using small(2,3) by (simp add: put16_def le_bytes_eval)
qed

lemma value_serialized:
  assumes "tag_value v" "ioi_Buffer ioi = tag_path ps"
  shows "item_Serialize [v] (write_item sq ioi (msgCIPWriteIOIFooter (ucast (cip_type_of v)) (write_elements v)))
    = Inr (data_item (write_message sq ps v))"
  using assms(1)
proof (cases rule: tag_value_cases)
  case (scalar g)
  then have "ucast (cip_type_of v) \<noteq> (255 :: u16)"
    using put16_byte[of "cip_type_of v"] put16_byte[of 255] by auto
  then show ?thesis
    using scalar(7-10) assms(2) put16_byte
    by (auto simp: write_item_def item_Write_twice write_message_def msgCIPIOIHeader_def msgCIPWriteIOIFooter_def
      write_elements_def sent_value_def split: goval.split)
next
  case (str s)
  then show ?thesis
    using assms(2)
    by (simp add: write_item_def item_Write_twice write_message_def msgCIPIOIHeader_def msgCIPWriteIOIFooter_def
      write_elements_def sent_value_def)
qed

text \<open>What an answered request leaves of the client's state.\<close>

definition answered_client :: "Client \<Rightarrow> bytes option list \<Rightarrow> bytes \<Rightarrow> ioi_cache \<Rightarrow> Client" where
  "answered_client c s b cache = c\<lparr>c_ioi_cache := cache, c_sequenceValue := c_sequenceValue c + 1,
     c_HeaderSequenceCounter := c_HeaderSequenceCounter c + 1, c_script := s, c_sent := c_sent c @ [unit_request c (data_item b)]\<rparr>"

lemma Write_answered:
  assumes "c_connStatus c = Connected" "c_conn c" "c_socket c = []" "eh_Status hdr = 0"
    and "symbolic_path ps c" "tag_ok ps" "strings_ToLower tag = print_tag ps" "tag_value v"
    and "c_script c = Some (eip_frame hdr (connected_reply i (write_reply_body sq svc CIPStatus_OK extended []))) # s"
  shows "\<exists>cache. Write crc tag v c
      = (Inr (), answered_client c s (write_message (ucast (c_sequenceValue c + 1)) ps v) cache)
    \<and> symbolic_path ps (answered_client c s (write_message (ucast (c_sequenceValue c + 1)) ps v) cache)"
proof -
  let ?b = "write_message (ucast (c_sequenceValue c + 1)) ps v"
  let ?reply = "connected_reply i (write_reply_body sq svc CIPStatus_OK extended [])"
  have "cip_type_of v \<noteq> CIPTypeBOOL" using assms(8) by (cases rule: tag_value_cases) auto
  then obtain ioi cache where n: "c_newIOI tag (cip_type_of v) c = (Inr ioi, c\<lparr>c_ioi_cache := cache\<rparr>)"
    "ioi_Buffer ioi = tag_path ps" "symbolic_path ps (c\<lparr>c_ioi_cache := cache\<rparr>)"
    using newIOI_symbolic[OF assms(5-7)] by blast
  let ?c = "c\<lparr>c_ioi_cache := cache, c_sequenceValue := c_sequenceValue c + 1\<rparr>"
  have len: "length ?reply < 65536" by (simp add: length_connected_reply write_reply_body_def)
  have "unit_request ?c (data_item ?b) = unit_request c (data_item ?b)" by (rule unit_request_cong) simp_all
  then have s: "send_unit (data_item ?b) ?c = (Inr (hdr\<lparr>eh_Length := of_nat (length ?reply)\<rparr>, ?reply), answered_client c s ?b cache)"
    using send_unit_answered[of ?c hdr ?reply s "data_item ?b"] assms(2,3,9) len by (simp add: answered_client_def)
  have r: "write_reply (hdr\<lparr>eh_Length := of_nat (length ?reply)\<rparr>) ?reply = Inr ()"
    using write_reply_status[of "hdr\<lparr>eh_Length := of_nat (length ?reply)\<rparr>" "[]"] assms(4) by simp
  have "Write crc tag v c = write_single tag v c"
    using assms(1,8) by (cases rule: tag_value_cases[OF assms(8)])
      (auto simp: Write_def cwrap_def checkConn_def c_Connected_def split: goval.split)
  also have "\<dots> = (Inr (), answered_client c s ?b cache)"
    using n(1) s r value_serialized[OF assms(8) n(2)]
    by (simp add: write_single_def Let_def cwrap_def cbind_def next_sequence_def sequencer_def cret_def)
  finally show ?thesis using n(3) by (auto simp: symbolic_path_def answered_client_def)
qed

lemma Read_answered:
  assumes "c_connStatus c = Connected" "c_conn c" "c_socket c = []" "eh_Status hdr = 0"
    and "symbolic_path ps c" "tag_ok ps" "strings_ToLower tag = print_tag ps" "tag_value v"
    and "c_script c = [Some (eip_frame hdr (connected_reply i
      (read_reply_body sq rsvc CIPStatus_OK (reply_type v) crc (reply_data v))))]"
  shows "\<exists>svc c'. Read tag (DScalar (typeof v)) c = (Inr v, c') \<and> svc \<in> {CIPService_Read, CIPService_FragRead}
    \<and> svc = singleReadService tag (cip_type_of v) 1 c
    \<and> c_sent c' = c_sent c @ [unit_request c (data_item (read_message (ucast (c_sequenceValue c + 1)) svc ps))]"
proof -
  have t: "cip_type_of v \<noteq> CIPTypeBOOL" "cip_type_of (zero_val (typeof v)) = cip_type_of v"
    "length (reply_data v) < 65000" "reply_type v \<noteq> CIPTypeUnknown"
    using assms(8) by (cases rule: tag_value_cases; auto simp: reply_data_def reply_type_def split: goval.split)+
  obtain ioi cache where n: "c_newIOI tag (cip_type_of v) c = (Inr ioi, c\<lparr>c_ioi_cache := cache\<rparr>)" "ioi_Buffer ioi = tag_path ps"
    using newIOI_symbolic[OF assms(5-7) t(1)] by blast
  let ?c = "c\<lparr>c_ioi_cache := cache\<rparr>"
  let ?svc = "singleReadService tag (cip_type_of v) 1 ?c"
  obtain x where x: "decodeSingleReadPayload (cip_type_of v) 1 ioi (reply_type v) (reply_data v) = Inr x" "cast_to (typeof v) x = Inr v"
    using reply_decoded[OF assms(8)] by blast
  obtain c' where c': "Read_single tag (cip_type_of v) 1 c = (Inr x, c')"
    "c_sent c' = c_sent c @ [unit_request ?c (single_request ?svc ioi 1 0 (ucast (c_sequenceValue c + 1)))]"
    using read_rounds_chunks[of "[reply_data v]" 1025 "reply_type v" hdr ?c i sq rsvc crc "[]" "cip_type_of v" 1 ioi
        ?svc 0 "[]" "cip_type_of v"] Read_single_connected[OF assms(1) n(1), of 1] assms(2-4,9) t x by auto
  have "unit_request ?c it = unit_request c it" for it by (rule unit_request_cong) simp_all
  moreover have "single_request ?svc ioi 1 0 (ucast (c_sequenceValue c + 1))
      = data_item (read_message (ucast (c_sequenceValue c + 1)) ?svc ps)"
    using n(2) by (simp add: single_request_def item_Write_twice read_message_def msgCIPConnectedServiceReq_def)
  moreover have "Read tag (DScalar (typeof v)) c = (Inr v, c')"
    using assms(1) c'(1) x(2) t(2)
    by (simp add: Read_def cwrap_def checkConn_def c_Connected_def read_T_def cbind_def cret_def)
  moreover have "?svc \<in> {CIPService_Read, CIPService_FragRead}" "?svc = singleReadService tag (cip_type_of v) 1 c"
    by (simp_all add: singleReadService_def readServiceForTag_def Let_def)
  ultimately show ?thesis using c'(2) by auto
qed

section \<open>The server's side\<close>

text \<open>A server that can answer on the connection of the client, with the tag table it keeps for that connection.\<close>

definition serves_tags :: "u32 \<Rightarrow> ep_addr \<Rightarrow> MapTagProvider \<Rightarrow> serverTCPHandler \<Rightarrow> bool" where
  "serves_tags i p mp h \<longleftrightarrow> h_writable h
     \<and> (\<exists>conn. h_GetByOT i h = Inr conn \<and> h_Resolve (conn_Path conn) h = Inr p)
     \<and> rt_store (srv_Router (h_server h)) p = EMap mp"

lemma read_rr_append:
  assumes "list_all item_wf items" "length items < 65536"
  shows "read_rr (serializeItems items @ r) = Inr (items, r)"
proof -
  let ?s = "put16 (of_nat (length items)) @ concat (map item_Bytes items)"
  have "serializeItems items = put32 0 @ put16 0 @ ?s" by (simp add: serializeItems_def)
  moreover have "readItems (?s @ r) = Inr (items, r)"
    using readItems_serializeItems_aux[OF assms, of ?s r] by (simp add: serializeItems_def)
  ultimately show ?thesis by (simp add: read_rr_def)
qed

abbreviation request_items :: "u32 \<Rightarrow> bytes \<Rightarrow> CIPItem list" where
  "request_items i b \<equiv> [item_Write (put32 i) (empty_item cipItem_ConnectionAddress), data_item b]"

lemma request_item:
  "Data (item_Write b (empty_item i)) = b" "hdr_ID (Header (item_Write b (empty_item i))) = i"
  by (simp_all add: item_Write_def empty_item_def)

lemma rd32_only: "rd32 (put32 w) = Inr (w, [])"
  using rd_put(4)[of w "[]"] by simp

lemma unit_request_served:
  assumes "b = put16 sq @ service # r" "length b < 65536"
    and "connected_service fconv service (request_items (c_OTNetworkConnectionID c) b) r
      (h\<lparr>h_context := c_Context c, h_UnitDataSequencer := sq\<rparr>) = (Inr (), h')"
  shows "serve fconv (unit_request c (data_item b) @ rest) h = serve fconv rest h'"
proof -
  let ?items = "request_items (c_OTNetworkConnectionID c) b"
  let ?hdr = "fst (c_newEIPHeader cipCommandSendUnitData (length (serializeItems ?items)) c)"
  have "unit_request c (data_item b) = eipHeader_Bytes ?hdr @ serializeItems ?items"
    by (simp add: unit_request_def sendMsgBuild_def split_beta newItem_address)
  moreover have "list_all item_wf ?items" using assms(2) by (simp add: item_wf_Write)
  then have rr: "read_rr (serializeItems ?items @ rest) = Inr (?items, rest)" by (rule read_rr_append) simp
  have "dispatch fconv ?hdr (serializeItems ?items @ rest) (h\<lparr>h_context := eh_Context ?hdr\<rparr>) = (Inr rest, h')"
    using rr assms(1,3)
    by (simp add: dispatch_def c_newEIPHeader_def sendUnitData_def bind_act_def need_def seq_act_def ret_def upd_def
      request_item rd32_only)
  ultimately show ?thesis by (simp add: serve_message)
qed

lemma write_served:
  assumes "serves_tags (c_OTNetworkConnectionID c) p mp h" "tag_ok ps" "tag_value v" "kept_value (print_tag ps) v"
    and "length (tag_path ps) < 60000"
  shows "\<exists>h'. serve fconv (unit_request c (data_item (write_message sq ps v)) @ rest) h = serve fconv rest h'
    \<and> serves_tags (c_OTNetworkConnectionID c) p (mp_set (tag_key (print_tag ps)) v mp) h'
    \<and> h_out h' = h_out h @ [frame h' cipCommandSendUnitData (connected_reply (h_TOConnectionID h)
        (write_reply_body sq (AsResponse CIPService_Write) CIPStatus_OK 0 []))]"
proof -
  let ?h = "h\<lparr>h_context := c_Context c, h_UnitDataSequencer := sq\<rparr>"
  let ?i = "c_OTNetworkConnectionID c" and ?b = "write_message sq ps v"
  let ?r = "of_nat (length (tag_path ps) div 2) # tag_path ps @ sent_value v"
  let ?h1 = "h_set_ep p (EMap (mp_set (tag_key (print_tag ps)) v mp)) ?h"
  have conn: "h_GetByOT ?i ?h = h_GetByOT ?i h" "h_Resolve q ?h = h_Resolve q h" for q
    by (simp_all add: h_GetByOT_def h_Resolve_def)
  have "path_ends (sent_value v)" "length (sent_value v) \<le> 94"
    using assms(3) by (cases rule: tag_value_cases; auto simp: sent_value_def path_ends_def split: goval.split)+
  then have len: "length ?b < 65536" and tag: "getTagFromPath [] (tag_path ps @ sent_value v) = Inr (print_tag ps, sent_value v)"
    using assms(5) getTag_newSymbolicIOI[OF assms(2)] by (simp_all add: write_message_def tag_path_def)
  obtain r where v: "parseWriteValues (sent_value v) = Inr ([v], r)" using sent_value_parsed[OF assms(3)] by blast
  have w: "write_results fconv p (print_tag ps) [v] ?h = (Inr (), ?h1)"
    using assms(1) mp_TagWrite_whole[OF assms(4), of fconv mp]
    by (simp add: write_results_def bind_act_def h_TagWrite_def serves_tags_def ret_def)
  let ?f = "frame ?h cipCommandSendUnitData (connected_reply (h_TOConnectionID h)
        (write_reply_body sq (AsResponse CIPService_Write) CIPStatus_OK 0 []))"
  have "sendUnitDataReply CIPService_Write ?h1 = (Inr (), ?h1\<lparr>h_out := h_out h @ [?f]\<rparr>)"
    using assms(1)
    by (simp add: sendUnitDataReply_def h_send_def h_set_ep_def serves_tags_def frame_def h_newEIPHeader_def
      newItem_address newItem_None connected_reply_def write_reply_body_def msgWriteResultHeader_def)
  then have "cipConnectedWrite fconv (request_items ?i ?b) ?r ?h = (Inr (), ?h1\<lparr>h_out := h_out h @ [?f]\<rparr>)"
    using tag v w assms(1)
    by (auto simp: cipConnectedWrite_def need_def request_item rd32_only conn serves_tags_def seq_act_def)
  then have "connected_service fconv CIPService_Write (request_items ?i ?b) ?r ?h = (Inr (), ?h1\<lparr>h_out := h_out h @ [?f]\<rparr>)"
    by (simp add: connected_service_def bind_act_def ret_def)
  then have "serve fconv (unit_request c (data_item ?b) @ rest) h = serve fconv rest (?h1\<lparr>h_out := h_out h @ [?f]\<rparr>)"
    using len by (intro unit_request_served[where service = CIPService_Write and r = ?r]) (simp_all add: write_message_def)
  moreover have "serves_tags ?i p (mp_set (tag_key (print_tag ps)) v mp) (?h1\<lparr>h_out := h_out h @ [?f]\<rparr>)"
    using assms(1) by (auto simp: serves_tags_def h_GetByOT_def h_Resolve_def h_set_ep_def rt_Resolve_def)
  ultimately show ?thesis
    by (intro exI[of _ "?h1\<lparr>h_out := h_out h @ [?f]\<rparr>"]) (simp add: frame_def h_newEIPHeader_def h_set_ep_def)
qed

lemma read_replied:
  assumes "tag_value v" "h_writable h"
    and h': "h' = h\<lparr>h_out := h_out h @ [frame h cipCommandSendUnitData (connected_reply i
        (read_reply_body sq (AsResponse svc) CIPStatus_OK (reply_type v) cipStringStructCRC (reply_data v)))]\<rparr>"
  shows "(cip_type_of v \<noteq> CIPTypeSTRING \<and> sendConnectedReply svc sq i [VUint8 (cip_type_of v), VUint8 0, v] h = (Inr (), h'))
    \<or> (\<exists>s. v = VString s \<and> sendConnectedReply svc sq i [VSer (cipStringPacker s)] h = (Inr (), h'))"
  using assms(1)
proof (cases rule: tag_value_cases)
  case (scalar g)
  then have "read_reply_body sq (AsResponse svc) CIPStatus_OK (reply_type v) cipStringStructCRC (reply_data v)
      = put16 sq @ [AsResponse svc, 0, CIPStatus_OK, 0, cip_type_of v, 0] @ enc_fixed v"
    by (auto simp: reply_type_def reply_data_def read_reply_body_def split: goval.split)
  then show ?thesis
    using scalar assms(2) unfolding h'
    by (simp add: sendConnectedReply_def need_def h_send_def frame_def connected_reply_def newItem_address newItem_def
      binary_write_def item_Write_twice msgUnconnWriteResultHeader_def)
next
  case (str s)
  then have "read_reply_body sq (AsResponse svc) CIPStatus_OK (reply_type v) cipStringStructCRC (reply_data v)
      = put16 sq @ [AsResponse svc, 0, CIPStatus_OK, 0] @ cipStringPacker s"
    by (simp add: reply_type_def reply_data_def read_reply_body_def cipStringPacker_def min_def)
  then show ?thesis
    using str assms(2) unfolding h'
    by (simp add: sendConnectedReply_def need_def h_send_def frame_def connected_reply_def newItem_address newItem_def
      binary_write_def item_Write_twice msgUnconnWriteResultHeader_def)
qed

lemma read_served:
  assumes "serves_tags (c_OTNetworkConnectionID c) p mp h" "tag_ok ps" "tag_value v" "kept_value (print_tag ps) v"
    and "length (tag_path ps) < 60000" "map_of (mp_Data mp) (tag_key (print_tag ps)) = Some v"
    and "svc \<in> {CIPService_Read, CIPService_FragRead}"
  shows "\<exists>h' i. serve fconv (unit_request c (data_item (read_message sq svc ps)) @ rest) h = serve fconv rest h'
    \<and> rt_store (srv_Router (h_server h')) p = EMap mp
    \<and> h_out h' = h_out h @ [frame h' cipCommandSendUnitData (connected_reply i
        (read_reply_body sq (AsResponse svc) CIPStatus_OK (reply_type v) cipStringStructCRC (reply_data v)))]"
proof -
  let ?h = "h\<lparr>h_context := c_Context c, h_UnitDataSequencer := sq\<rparr>"
  let ?i = "c_OTNetworkConnectionID c" and ?b = "read_message sq svc ps"
  define ftr where "ftr = (if svc = CIPService_FragRead then put16 1 @ put32 0 else put16 1 :: bytes)"
  let ?r = "of_nat (length (tag_path ps) div 2) # tag_path ps @ ftr"
  have b: "?b = put16 sq @ svc # ?r" by (simp add: read_message_def ftr_def)
  obtain conn where conn: "h_GetByOT ?i ?h = Inr conn" "h_Resolve (conn_Path conn) ?h = Inr p"
    using assms(1) by (auto simp: serves_tags_def h_GetByOT_def h_Resolve_def)
  have "path_ends ftr" "length ftr \<le> 6" by (auto simp: ftr_def path_ends_def put16_def le_bytes_eval)
  then have tag: "getTagFromPath [] (tag_path ps @ ftr) = Inr (print_tag ps, ftr)" and len: "length ?b < 65536"
    using getTag_newSymbolicIOI[OF assms(2)] assms(5) by (simp_all add: tag_path_def b)
  have "full_qty v = 1" using assms(3) by (cases rule: tag_value_cases) (auto simp: full_qty_def split: goval.split)
  then have read: "h_TagRead p (print_tag ps) 1 ?h = Inr v" and w: "h_writable ?h"
    using mp_TagRead_whole[OF assms(6,4)] assms(1) by (simp_all add: h_TagRead_def serves_tags_def)
  obtain r' where q: "rd16 ftr = Inr (1, r')" using rd_put(3)[of 1 "[]"] that
    by (cases "svc = CIPService_FragRead") (auto simp: ftr_def)
  let ?f = "frame ?h cipCommandSendUnitData (connected_reply (conn_TO conn)
        (read_reply_body sq (AsResponse svc) CIPStatus_OK (reply_type v) cipStringStructCRC (reply_data v)))"
  have "connectedRead svc (request_items ?i ?b) ?h = (Inr (), ?h\<lparr>h_out := h_out ?h @ [?f]\<rparr>)"
    using read_replied[OF assms(3) w refl, where i = "conn_TO conn" and sq = sq and svc = svc] unfolding b
    by (auto simp: connectedRead_def otherwise_def request_item rd32_only conn tag read q rd_eval Let_def)
  then have "connected_service fconv svc (request_items ?i ?b) ?r ?h = (Inr (), ?h\<lparr>h_out := h_out h @ [?f]\<rparr>)"
    using assms(7) by (auto simp: connected_service_def bind_act_def ret_def)
  then have "serve fconv (unit_request c (data_item ?b) @ rest) h = serve fconv rest (?h\<lparr>h_out := h_out h @ [?f]\<rparr>)"
    using b len by (intro unit_request_served[where service = svc and r = ?r]) simp_all
  then show ?thesis
    using assms(1) by (intro exI[of _ "?h\<lparr>h_out := h_out h @ [?f]\<rparr>"] exI[of _ "conn_TO conn"])
      (simp add: frame_def h_newEIPHeader_def serves_tags_def)
qed

section \<open>Writing and reading back\<close>

lemma frame_eip: "frame h cmd msg = eip_frame (h_newEIPHeader cmd 0 h) msg"
  by (simp add: frame_def eip_frame_def h_newEIPHeader_def)

text \<open>
  C1.  A value written is read back, through the whole stack.  A connected client writes a number
  or a string of up to 82 characters to a tag and then reads the tag into a variable of that type.
  A server that keeps tags for the client's connection, given exactly the two requests the client
  sends, answers with exactly the two frames with which the write succeeds and the read returns
  the value; every other tag of the server is as before.
\<close>

theorem write_then_read:
  assumes "c_connStatus c = Connected" "c_conn c" "c_socket c = []" "symbolic_path ps c"
    and "tag_ok ps" "strings_ToLower tag = print_tag ps" "length (tag_path ps) < 60000"
    and "tag_value v" "kept_value (print_tag ps) v" "serves_tags (c_OTNetworkConnectionID c) p mp h"
  shows "\<exists>f1 f2 c1 c2 b1 b2 e h' mp'. Write crc tag v (c\<lparr>c_script := [Some f1, Some f2]\<rparr>) = (Inr (), c1)
    \<and> Read tag (DScalar (typeof v)) c1 = (Inr v, c2) \<and> c_sent c2 = c_sent c @ [b1, b2]
    \<and> serve fconv (b1 @ b2) h = (e, h') \<and> h_out h' = h_out h @ [f1, f2]
    \<and> rt_store (srv_Router (h_server h')) p = EMap mp'
    \<and> (\<forall>t n. tag_key t \<noteq> tag_key (print_tag ps) \<longrightarrow> mp_TagRead t n mp' = mp_TagRead t n mp)"
proof -
  let ?w = "write_message (ucast (c_sequenceValue c + 1)) ps v" and ?mp = "mp_set (tag_key (print_tag ps)) v mp"
  let ?svc = "singleReadService tag (cip_type_of v) 1 c"
  let ?r = "read_message (ucast (c_sequenceValue c + 1 + 1)) ?svc ps"
  let ?b1 = "unit_request c (data_item ?w)" and ?b2 = "unit_request c (data_item ?r)"
  have svc: "?svc \<in> {CIPService_Read, CIPService_FragRead}" by (simp add: singleReadService_def readServiceForTag_def Let_def)
  obtain h1 where h1: "serve fconv (?b1 @ ?b2) h = serve fconv ?b2 h1" "serves_tags (c_OTNetworkConnectionID c) p ?mp h1"
    "h_out h1 = h_out h @ [frame h1 cipCommandSendUnitData (connected_reply (h_TOConnectionID h)
        (write_reply_body (ucast (c_sequenceValue c + 1)) (AsResponse CIPService_Write) CIPStatus_OK 0 []))]"
    using write_served[OF assms(10,5,8,9,7), of fconv "ucast (c_sequenceValue c + 1)" ?b2] by blast
  have get: "map_of (mp_Data ?mp) (tag_key (print_tag ps)) = Some v" by simp
  obtain h2 i where h2: "serve fconv (?b2 @ []) h1 = serve fconv [] h2" "rt_store (srv_Router (h_server h2)) p = EMap ?mp"
    "h_out h2 = h_out h1 @ [frame h2 cipCommandSendUnitData (connected_reply i
        (read_reply_body (ucast (c_sequenceValue c + 1 + 1)) (AsResponse ?svc) CIPStatus_OK (reply_type v) cipStringStructCRC (reply_data v)))]"
    using read_served[OF h1(2) assms(5,8,9,7) get svc, of fconv "ucast (c_sequenceValue c + 1 + 1)" "[]"] by blast
  let ?f1 = "last (h_out h1)" and ?f2 = "last (h_out h2)"
  let ?c = "c\<lparr>c_script := [Some ?f1, Some ?f2]\<rparr>"
  have st: "eh_Status (h_newEIPHeader cipCommandSendUnitData 0 h') = 0" for h' by (simp add: h_newEIPHeader_def)
  have u: "unit_request (answered_client ?c s b cache) it = unit_request c it" "unit_request ?c it = unit_request c it" for s b cache it
    by (rule unit_request_cong; simp add: answered_client_def)+
  obtain cache where cache: "Write crc tag v ?c = (Inr (), answered_client ?c [Some ?f2] ?w cache)"
    "symbolic_path ps (answered_client ?c [Some ?f2] ?w cache)"
    using Write_answered[where c = ?c and hdr = "h_newEIPHeader cipCommandSendUnitData 0 h1" and s = "[Some ?f2]"
        and crc = crc and tag = tag and ps = ps and v = v and i = "h_TOConnectionID h"
        and sq = "ucast (c_sequenceValue c + 1)" and svc = "AsResponse CIPService_Write" and extended = 0]
      assms(1-6,8) st h1(3) by (auto simp: frame_eip symbolic_path_def)
  let ?c1 = "answered_client ?c [Some ?f2] ?w cache"
  obtain c2 where c2: "Read tag (DScalar (typeof v)) ?c1 = (Inr v, c2)"
    "c_sent c2 = c_sent ?c1 @ [unit_request ?c1 (data_item (read_message (ucast (c_sequenceValue ?c1 + 1))
       (singleReadService tag (cip_type_of v) 1 ?c1) ps))]"
    using Read_answered[where c = ?c1 and hdr = "h_newEIPHeader cipCommandSendUnitData 0 h2"
        and tag = tag and ps = ps and v = v and i = i and crc = cipStringStructCRC
        and sq = "ucast (c_sequenceValue c + 1 + 1)" and rsvc = "AsResponse ?svc"]
      assms(1-3,5,6,8) cache(2) st h2(3) by (auto simp: frame_eip answered_client_def)
  have sent: "c_sent c2 = c_sent c @ [?b1, ?b2]"
    unfolding c2(2) u by (simp add: answered_client_def singleReadService_def u(2))
  have out: "h_out h2 = h_out h @ [?f1, ?f2]" using h1(3) h2(3) by simp
  have served: "serve fconv (?b1 @ ?b2) h = (fst (serve fconv [] h2), h2)"
    using h1(1) h2(1) by (simp add: serve.simps[of fconv "[]"] read_eipHeader_def)
  have others: "\<forall>t n. tag_key t \<noteq> tag_key (print_tag ps) \<longrightarrow> mp_TagRead t n ?mp = mp_TagRead t n mp"
    using mp.read_other[of undefined "print_tag ps" v mp ?mp] mp_TagWrite_whole[OF assms(9)] by simp
  show ?thesis
    by (intro exI conjI) (rule cache(1) c2(1) sent served out h2(2) others)+
qed

theorem write_then_read_witness:
  "\<exists>f1 f2 c1 c2 b1 b2 e h'. Write (\<lambda>_. 0) ''abc'' (VInt32 5) (demo_client\<lparr>c_OTNetworkConnectionID := 101, c_script := [Some f1, Some f2]\<rparr>) = (Inr (), c1)
    \<and> Read ''abc'' (DScalar TInt32) c1 = (Inr (VInt32 5), c2) \<and> c_sent c2 = [b1, b2]
    \<and> serve (\<lambda>_ _. None) (b1 @ b2) demo_open_handler = (e, h') \<and> h_out h' = [f1, f2]"
proof -
  let ?c = "demo_client\<lparr>c_OTNetworkConnectionID := 101\<rparr>"
  let ?ps = "[(''abc'', [])] :: tag_part list"
  have l: "strings_ToLower ''abc'' = ''abc''" by code_simp
  have p: "print_tag ?ps = ''abc''" by (simp add: print_tag_def print_part_def print_index_def)
  have ok: "tag_ok ?ps" by (simp add: tag_ok_def part_ok_def ident_ok_def is_bit_part_def atoi_def is_digit_def)
  have path: "length (tag_path ?ps) < 60000" by (simp add: tag_path_def part_bytes_def ident_bytes_def)
  have c: "c_connStatus ?c = Connected" "c_conn ?c" "c_socket ?c = []" "symbolic_path ?ps ?c" "c_sent ?c = []"
    by (simp_all add: demo_client_def symbolic_path_def)
  have v: "tag_value (VInt32 5)" "kept_value (print_tag ?ps) (VInt32 5)"
    by (simp_all add: tag_value_def p kept_value_def has_element_def parseElementTag_def has_suffix_char_def l)
  have h: "serves_tags (c_OTNetworkConnectionID ?c) 0 \<lparr>mp_Data = [(''speed'', VInt32 7)]\<rparr> demo_open_handler"
    "h_out demo_open_handler = []"
    by (simp_all add: serves_tags_def demo_open_handler_def new_handler_def demo_server_def NewServer_def demo_router_def
      set_ConnMgr_def h_GetByOT_def h_Resolve_def rt_Resolve_def cm_GetByOT_def cm_find_def cm_Add_def cm_empty_def
      cm_Init_def demo_conn_def)
  have low: "strings_ToLower ''abc'' = print_tag ?ps" by (simp add: l p)
  obtain f1 f2 c1 c2 b1 b2 e h' where
    x: "Write (\<lambda>_. 0) ''abc'' (VInt32 5) (?c\<lparr>c_script := [Some f1, Some f2]\<rparr>) = (Inr (), c1)"
      "Read ''abc'' (DScalar (typeof (VInt32 5))) c1 = (Inr (VInt32 5), c2)" "c_sent c2 = c_sent ?c @ [b1, b2]"
      "serve (\<lambda>_ _. None) (b1 @ b2) demo_open_handler = (e, h')" "h_out h' = h_out demo_open_handler @ [f1, f2]"
    using write_then_read[OF c(1-4) ok low path v h(1), of "\<lambda>_. 0" "\<lambda>_ _. None"] by blast
  show ?thesis
    by (intro exI conjI) (rule x[unfolded c(5) h(2), simplified])+
qed

end
