(* ===== verification/Client_Discovery.thy ===== *)
theory Client_Discovery
  imports Client_Requests
begin

text \<open>
  Discovering a controller's programs, tags and structures: \<^verbatim>\<open>listallprograms.go\<close>,
  \<^verbatim>\<open>listalltags.go\<close>, \<^verbatim>\<open>listsubtags.go\<close> and \<^verbatim>\<open>listmembers.go\<close>.
  What is found is entered in the client's tables.
\<close>

section \<open>Strings\<close>

definition trimmed_char :: "char \<Rightarrow> bool" where
  "trimmed_char ch \<longleftrightarrow> of_char ch \<in> {9 :: nat, 10, 11, 12, 13, 32}"

definition strings_TrimSpace :: "string \<Rightarrow> string" where
  "strings_TrimSpace s = rev (dropWhile trimmed_char (rev (dropWhile trimmed_char s)))"

definition has_prefix :: "string \<Rightarrow> string \<Rightarrow> bool" where
  "has_prefix s p \<longleftrightarrow> take (length p) s = p"

text \<open>
  \<^verbatim>\<open>ReadString(0)\<close>, without the delimiter it also returns: the text, the rest, and whether there was a delimiter.
\<close>

definition read_string0 :: "bytes \<Rightarrow> string \<times> bytes \<times> bool" where
  "read_string0 r =
     (let t = takeWhile (\<lambda>b. b \<noteq> 0) r; d = dropWhile (\<lambda>b. b \<noteq> 0) r in (of_bytes t, tl d, d \<noteq> []))"

section \<open>Programs\<close>

function program_list :: "bytes \<Rightarrow> (string \<times> KnownProgram) list \<Rightarrow> (string \<times> KnownProgram) list res" where
  "program_list r results =
     (case read_full 8 r of
        Inl _ \<Rightarrow> Inr results
      | Inr (x, r1) \<Rightarrow>
          andthen (read_full (unat (fld32 4 x)) r1) (\<lambda>(name, r2).
            let namestr = strings_TrimSpace (of_bytes name) in
            program_list r2 (dict_put namestr \<lparr>kp_Name = namestr, kp_ID = ucast (fld16 0 x)\<rparr> results)))"
  by pat_completeness auto
termination
  by (relation "measure (\<lambda>(r, results). length r)") (auto dest!: read_full_Inr)

declare program_list.simps [simp del]

abbreviation CipObject_Template :: cip_class where "CipObject_Template \<equiv> 0x6C"

definition ListAllPrograms :: "unit cact" where
  "ListAllPrograms =
     cwrap ''problem reading programs''
       (GenericCIPMessage CIPService_GetInstanceAttributeList
         (CIPClass_Bytes CipObject_Programs @ CIPInstance_Bytes 0) (put16 1 @ put16 28)) (\<lambda>resp.
     cres (program_list (unread resp) []) (\<lambda>results c.
     (Inr (), c\<lparr>c_KnownPrograms := results\<rparr>)))"

section \<open>Templates of structures\<close>

text \<open>\<^verbatim>\<open>data.Read(padding)\<close>: fails only when nothing is there.\<close>

definition skip_padding :: "bytes \<Rightarrow> bytes res" where
  "skip_padding d = (if d = [] then Inl EOF else Inr (drop 6 d))"

definition template_path :: "u32 \<Rightarrow> bytes" where
  "template_path str_instance = CIPClass_Bytes CipObject_Template @ CIPInstance_Bytes str_instance"

definition symbol_item :: "u16 \<Rightarrow> cip_service \<Rightarrow> bytes \<Rightarrow> bytes \<Rightarrow> CIPItem" where
  "symbol_item sq service path args =
     item_Write args (item_Write path
       (item_Write (msgCIPConnectedServiceReq sq service (of_nat (length path div 2))) (empty_item cipItem_ConnectedData)))"

text \<open>
  The second item of the reply, as \<^verbatim>\<open>listmembers.go\<close> reads it; \<open>m\<close> and \<open>what\<close> are
  the texts in which its two readers differ.
\<close>

definition template_reply :: "string \<Rightarrow> string \<Rightarrow> bytes \<Rightarrow> bytes res" where
  "template_reply m what data =
     attempt m (skip_padding data) (\<lambda>d.
     attempt ''couldn't parse items'' (readItems d) (\<lambda>(items, _).
     if length items < 2 then Inl (Msg (''wrong number of items for '' @ what)) else Inr (Data (items ! 1))))"

definition decode_template :: "bytes \<Rightarrow> msgGetTemplateAttrListResponse" where
  "decode_template x =
     \<lparr>ta_SequenceCount = fld16 0 x, ta_Service = fld8 2 x, ta_Reserved = fld8 3 x, ta_Status = fld8 4 x,
      ta_Status_extended = fld8 5 x, ta_Count = fld16 6 x,
      ta_SizeWords_ID = fld16 8 x, ta_SizeWords_Status = fld16 10 x, ta_SizeWords = fld32 12 x,
      ta_SizeBytes_ID = fld16 16 x, ta_SizeBytes_Status = fld16 18 x, ta_SizeBytes = fld32 20 x,
      ta_MemberCount_ID = fld16 24 x, ta_MemberCount_Status = fld16 26 x, ta_MemberCount = fld16 28 x,
      ta_Handle_ID = fld16 30 x, ta_Handle_Status = fld16 32 x, ta_Handle = fld16 34 x\<rparr>"

definition parseTemplateAttrResponse :: "bytes \<Rightarrow> msgGetTemplateAttrListResponse res" where
  "parseTemplateAttrResponse data =
     attempt ''problem reading result'' (read_full 36 data) (\<lambda>(x, _).
       let result = decode_template x in
       if ta_Status result = CIPStatus_OK then Inr result
       else if ta_Status result = CIPStatus_PartialTransfer
       then Inl (Msg ''template attribute read returned unexpected status'')
       else Inl (Msg ''template attribute read returned status''))"

definition GetTemplateInstanceAttr :: "u32 \<Rightarrow> msgGetTemplateAttrListResponse cact" where
  "GetTemplateInstanceAttr str_instance =
     cbind next_sequence (\<lambda>sq.
     cbind (send_unit (symbol_item sq CIPService_GetAttributeList
         (template_path (if str_instance = 0 then 1 else str_instance))
         (concat (map put16 [4, 4, 5, 2, 1])))) (\<lambda>(_, data).
     cres (andthen (template_reply ''problem reading padding'' ''template attr read'' data) parseTemplateAttrResponse) cret))"

definition requestMemberReadChunk :: "u32 \<Rightarrow> u32 \<Rightarrow> u16 \<Rightarrow> (u16 \<times> bytes) cact" where
  "requestMemberReadChunk str_instance start_offset read_length =
     cbind next_sequence (\<lambda>sq.
     cbind (send_unit (symbol_item sq CIPService_Read (template_path str_instance)
         (put32 start_offset @ put16 read_length))) (\<lambda>(_, data).
     cres (andthen (template_reply ''couldn't read padding'' ''member read'' data) (\<lambda>d.
       attempt ''couldn't read member info header'' (read_full 6 d) (\<lambda>(mihdr, chunk).
       Inr (fld16 4 mihdr, chunk)))) cret))"

text \<open>The loop of \<^verbatim>\<open>collectMemberReadPayload\<close>; \<open>left\<close> rounds remain of 1024.\<close>

fun member_rounds :: "nat \<Rightarrow> u32 \<Rightarrow> (u32 \<Rightarrow> u16 \<Rightarrow> (u16 \<times> bytes) cact) \<Rightarrow> u32 \<Rightarrow> bytes \<Rightarrow> bytes cact" where
  "member_rounds 0 totalBytes fetch offset payload =
     cfail (Msg ''template member read exceeded max continuation rounds'')"
| "member_rounds (Suc left) totalBytes fetch offset payload =
     (let remaining = totalBytes - offset in
      if remaining = 0 then cret payload
      else
        cbind (fetch offset (if remaining > 0xFFFF then 0xFFFF else ucast remaining)) (\<lambda>(st, chunk).
          let status = (ucast st :: cip_status); payload' = payload @ chunk; offset' = offset + of_nat (length chunk) in
          if status \<noteq> CIPStatus_OK \<and> status \<noteq> CIPStatus_PartialTransfer
          then cfail (Msg ''template member read returned status'')
          else if status \<noteq> CIPStatus_PartialTransfer then cret payload'
          else if chunk = [] then cfail (Msg ''template member read returned partial transfer with empty payload'')
          else member_rounds left totalBytes fetch offset' payload'))"

definition collectMemberReadPayload :: "u32 \<Rightarrow> (u32 \<Rightarrow> u16 \<Rightarrow> (u16 \<times> bytes) cact) \<Rightarrow> bytes cact" where
  "collectMemberReadPayload totalBytes fetch =
     (if totalBytes = 0 then cret [] else member_rounds 1024 totalBytes fetch 0 [])"

definition member_infos :: "nat \<Rightarrow> bytes \<Rightarrow> msgMemberInfo list" where
  "member_infos n x =
     map (\<lambda>i. \<lparr>mi_Info = fld16 (8 * i) x, mi_Type = fld16 (8 * i + 2) x, mi_Offset = fld32 (8 * i + 4) x\<rparr>) [0..<n]"

definition zero_member :: UDTMemberDescriptor where
  "zero_member = UDTMemberDescriptor [] \<lparr>mi_Info = 0, mi_Type = 0, mi_Offset = 0\<rparr> None"

text \<open>
  A lookup whose error is only logged.  The argument \<open>list_members\<close> below is \<^verbatim>\<open>ListMembers\<close>
  itself, one call deeper.
\<close>

definition try_lookup :: "'a cact \<Rightarrow> 'a option cact" where
  "try_lookup f c =
     (case f c of
        (Inl e, c') \<Rightarrow> if is_panic e then (Inl e, c') else (Inr None, c')
      | (Inr x, c') \<Rightarrow> (Inr (Some x), c'))"

text \<open>The names of the members; where they have run out, the rest of the members stays empty.\<close>

fun read_members :: "(u32 \<Rightarrow> UDTDescriptor cact) \<Rightarrow> msgMemberInfo list \<Rightarrow> bytes \<Rightarrow> UDTMemberDescriptor list cact" where
  "read_members list_members [] r = cret []"
| "read_members list_members (m # ms) r =
     (let (fieldname, r1, found) = read_string0 r in
      if \<not> found \<and> fieldname = []
      then cbind (read_members list_members ms r1) (\<lambda>ds. cret (zero_member # ds))
      else
        cbind (if member_Template_ID m \<noteq> 0 then try_lookup (list_members (ucast (member_Template_ID m))) else cret None) (\<lambda>d2.
        cbind (read_members list_members ms r1) (\<lambda>ds. cret (UDTMemberDescriptor fieldname m d2 # ds))))"

definition parse_members :: "(u32 \<Rightarrow> UDTDescriptor cact) \<Rightarrow> u32 \<Rightarrow> msgGetTemplateAttrListResponse \<Rightarrow> bytes \<Rightarrow> UDTDescriptor cact" where
  "parse_members list_members str_instance template_info payload =
     (let n = unat (ta_MemberCount template_info) in
      cneed ''couldn't read memberinfos'' (read_full (8 * n) payload) (\<lambda>(x, r).
      let (struct_name, r1, found) = read_string0 r in
      if \<not> found then cfail (Wrapped ''couldn't read struct name'' EOF)
      else
        cbind (read_members list_members (member_infos n x) r1) (\<lambda>members.
        cret (UDTDescriptor str_instance (takeWhile (\<lambda>ch. ch \<noteq> CHR '';'') struct_name) template_info members))))"

definition list_members_with :: "(u32 \<Rightarrow> UDTDescriptor cact) \<Rightarrow> u32 \<Rightarrow> UDTDescriptor cact" where
  "list_members_with list_members str_instance c =
     (case c_KnownTypesByID c str_instance of
        Some d \<Rightarrow> cret d c
      | None \<Rightarrow>
          cwrap ''couldn't get template info'' (GetTemplateInstanceAttr str_instance) (\<lambda>template_info.
            let totalBytes = ta_SizeWords template_info * 4 in
            if totalBytes < 20 then cfail (Msg ''template size too small for member read'')
            else
              cwrap ''couldn't read fragmented member payload''
                (collectMemberReadPayload (totalBytes - 20) (requestMemberReadChunk str_instance)) (\<lambda>payload.
              cbind (parse_members list_members str_instance template_info payload) (\<lambda>descriptor c.
              (Inr descriptor, c\<lparr>c_KnownTypesByID := (c_KnownTypesByID c)(str_instance \<mapsto> descriptor)\<rparr>)))) c)"

text \<open>
  A structure may have members that are structures: \<^verbatim>\<open>ListMembers\<close> calls itself.  The first
  argument bounds the depth of the stack; every level costs a reply, so a depth above the number
  of replies to come is never used up (shown below).
\<close>

fun ListMembers :: "nat \<Rightarrow> u32 \<Rightarrow> UDTDescriptor cact" where
  "ListMembers 0 str_instance = cfail (Panic ''stack overflow'')"
| "ListMembers (Suc fuel) str_instance = list_members_with (ListMembers fuel) str_instance"

section \<open>Lists of symbols\<close>

record tag_entry =
  se_InstanceID :: u32
  se_Name :: string
  se_Info :: TagInfo

text \<open>\<open>m\<close> is the text of the error for a name that is cut off, in which the two listings differ.\<close>

definition read_tag_entry :: "string \<Rightarrow> bytes \<Rightarrow> (tag_entry \<times> bytes) res" where
  "read_tag_entry m r =
     attempt ''problem reading tag header'' (read_full 6 r) (\<lambda>(x, r1).
     attempt m (read_full (unat (fld16 4 x)) r1) (\<lambda>(tag_name, r2).
     attempt ''problem reading tag footer'' (read_full 14 r2) (\<lambda>(f, r3).
     Inr (\<lparr>se_InstanceID = fld32 0 x, se_Name = of_bytes tag_name,
           se_Info = \<lparr>tg_Type = fld8 0 f, tg_TypeInfo = fld8 1 f, tg_Dimension1 = fld32 2 f,
             tg_Dimension2 = fld32 6 f, tg_Dimension3 = fld32 10 f\<rparr>\<rparr>, r3))))"

definition array_order :: "TagInfo \<Rightarrow> int list" where
  "array_order f =
     (if tg_Dimension3 f \<noteq> 0 then [uint (tg_Dimension1 f), uint (tg_Dimension2 f), uint (tg_Dimension3 f)]
      else if tg_Dimension2 f \<noteq> 0 then [uint (tg_Dimension1 f), uint (tg_Dimension2 f)]
      else if tg_Dimension1 f \<noteq> 0 then [uint (tg_Dimension1 f)]
      else [])"

definition isValidTag :: "string \<Rightarrow> bool" where
  "isValidTag tag_string =
     (if tag_string = [] then False
      else if has_prefix tag_string ''__'' then False
      else if CHR '':'' \<in> set tag_string
        \<and> \<not> has_prefix tag_string ''Program:'' \<and> \<not> has_prefix tag_string ''Local:'' then False
      else True)"

definition nextListInstanceStart :: "u32 \<Rightarrow> u32" where
  "nextListInstanceStart lastInstance = lastInstance"

text \<open>The tag of an entry with what is known of its structure, entered under its name.\<close>

definition new_KnownTag :: "string \<Rightarrow> tag_entry \<Rightarrow> KnownProgram option \<Rightarrow> KnownTag" where
  "new_KnownTag name e parent =
     \<lparr>kt_Name = name, kt_Info = se_Info e, kt_Instance = se_InstanceID e, kt_Array_Order = array_order (se_Info e),
      kt_UDT = None, kt_Parent = parent, kt_DataTableID = 0\<rparr>"

definition enter_tag :: "nat \<Rightarrow> KnownTag \<Rightarrow> KnownTag cact" where
  "enter_tag fuel kt =
     cbind (if Template_ID (kt_Info kt) \<noteq> 0 then try_lookup (ListMembers fuel (ucast (Template_ID (kt_Info kt)))) else cret None)
       (\<lambda>u c.
         let kt' = kt\<lparr>kt_UDT := u\<rparr>;
             c' = (case u of None \<Rightarrow> c | Some d \<Rightarrow> c\<lparr>c_KnownTypes := (c_KnownTypes c)(ud_Name d \<mapsto> d)\<rparr>) in
         (Inr kt', c'\<lparr>c_KnownTags := (c_KnownTags c')(strings_ToLower (kt_Name kt) \<mapsto> kt')\<rparr>))"

lemma cres_action_cong [fundef_cong]:
  "r = r' \<Longrightarrow> (\<And>x. r' = Inr x \<Longrightarrow> f x = f' x) \<Longrightarrow> cres r f = cres r' f'"
  by (cases r') simp_all

text \<open>The loop over the entries of a reply: what they give, and the last instance number.\<close>

function each_symbol :: "string \<Rightarrow> (tag_entry \<Rightarrow> KnownTag option cact) \<Rightarrow> bytes \<Rightarrow> u32 \<Rightarrow> (KnownTag list \<times> u32) cact" where
  "each_symbol m f r last_instance =
     (if r = [] then cret ([], last_instance)
      else cres (read_tag_entry m r) (\<lambda>(e, r1).
        cbind (f e) (\<lambda>kt.
        cbind (each_symbol m f r1 (se_InstanceID e)) (\<lambda>(kts, last'). cret (case_option [] (\<lambda>k. [k]) kt @ kts, last')))))"
  by pat_completeness auto
termination
  by (relation "measure (\<lambda>(m, f, r, l). length r)")
    (auto simp: read_tag_entry_def attempt_Inr_iff dest!: read_full_Inr)

declare each_symbol.simps [simp del]

definition symbols_request :: "bytes \<Rightarrow> u32 \<Rightarrow> bytes cact" where
  "symbols_request scope start_instance =
     cbind next_sequence (\<lambda>sq.
     cbind (send_unit (symbol_item sq CIPService_GetInstanceAttributeList
         (scope @ CIPClass_Bytes CipObject_Symbol @ CIPInstance_Bytes start_instance)
         (concat (map put16 [3, 1, 2, 8])))) (\<lambda>(_, data). cret data))"

section \<open>Tags of a program\<close>

fun ListSubTags :: "nat \<Rightarrow> KnownProgram \<Rightarrow> u32 \<Rightarrow> KnownTag list cact" where
  "ListSubTags 0 program start_instance = cfail (Panic ''stack overflow'')"
| "ListSubTags (Suc fuel) program start_instance =
     (let start_instance' = (if start_instance = 0 then 1 else start_instance) in
      cbind (symbols_request (KnownProgram_Bytes program) start_instance') (\<lambda>data.
      cres (flat ''problem reading message command specific data header'' (read_full 6 data) Inr) (\<lambda>(_, d).
      cneed ''couldn't parse items'' (readItems d) (\<lambda>(items, _).
      cres (item1 items) (\<lambda>it.
      cneed ''problem reading tag header'' (read_full 6 (Data it)) (\<lambda>(hdr, r).
      cbind (each_symbol ''problem reading tag header'' (\<lambda>e.
          if isValidTag (se_Name e)
          then cbind (enter_tag fuel (new_KnownTag (''program:'' @ kp_Name program @ ''.'' @ se_Name e) e (Some program)))
            (\<lambda>kt. cret (Some kt))
          else cret None) r start_instance') (\<lambda>(new_kts, last_instance).
      if fld16 4 hdr = ucast CIPStatus_PartialTransfer then
        cwrap ''problem listing subtags'' (ListSubTags fuel program (nextListInstanceStart last_instance)) (\<lambda>moreTags.
        cret (new_kts @ moreTags))
      else cret new_kts)))))))"

section \<open>All tags\<close>

fun sub_tags_of :: "nat \<Rightarrow> KnownProgram list \<Rightarrow> unit cact" where
  "sub_tags_of fuel [] = cret ()"
| "sub_tags_of fuel (p # ps) =
     cwrap ''problem listing sub tags'' (ListSubTags fuel p 1) (\<lambda>_. sub_tags_of fuel ps)"

text \<open>
  What comes first in a listing from the start; the result says whether programs have to be found
  among the symbols.  \<open>order\<close> is the order in which the loop over the map meets the programs.
\<close>

definition list_programs ::
  "nat \<Rightarrow> ((string \<times> KnownProgram) list \<Rightarrow> (string \<times> KnownProgram) list) \<Rightarrow> bool cact" where
  "list_programs fuel order c =
     (case ListAllPrograms c of
        (Inl e, c1) \<Rightarrow>
          if is_CIPStatusError e then (Inr True, c1\<lparr>c_KnownPrograms := []\<rparr>)
          else (Inl (wrap ''problem listing programs'' e), c1)
      | (Inr _, c1) \<Rightarrow>
          cbind (sub_tags_of fuel (map snd (order (c_KnownPrograms c1)))) (\<lambda>_. cret False) c1)"

definition enter_program :: "nat \<Rightarrow> string \<Rightarrow> unit cact" where
  "enter_program fuel progName c =
     (let p = \<lparr>kp_Name = progName, kp_ID = 0\<rparr> in
      cwrap ''problem listing sub tags'' (ListSubTags fuel p 1) (\<lambda>_. cret ())
        (c\<lparr>c_KnownPrograms := dict_put (strings_ToLower progName) p (c_KnownPrograms c)\<rparr>))"

definition enter_symbol :: "nat \<Rightarrow> bool \<Rightarrow> tag_entry \<Rightarrow> KnownTag option cact" where
  "enter_symbol fuel fallbackProgramNames e =
     (let tag_string = se_Name e; program = (length tag_string > 8 \<and> has_prefix tag_string ''Program:'') in
      if \<not> isValidTag tag_string then cret None
      else if program \<and> \<not> fallbackProgramNames then cret None
      else
        cbind (if program then enter_program fuel (drop 8 tag_string) else cret ()) (\<lambda>_.
        cbind (enter_tag fuel (new_KnownTag tag_string e None)) (\<lambda>kt. cret (Some kt))))"

fun ListAllTags ::
  "nat \<Rightarrow> ((string \<times> KnownProgram) list \<Rightarrow> (string \<times> KnownProgram) list) \<Rightarrow> u32 \<Rightarrow> unit cact" where
  "ListAllTags 0 order start_instance = cfail (Panic ''stack overflow'')"
| "ListAllTags (Suc fuel) order start_instance =
     (let start_instance' = (if start_instance < 1 then 1 else start_instance) in
      cbind (if start_instance' = 1 then list_programs fuel order else cret False) (\<lambda>fallbackProgramNames.
      cbind (symbols_request [] start_instance') (\<lambda>data.
      cneed ''problem getting padding bytes'' (skip_padding data) (\<lambda>d.
      cneed ''couldn't parse items'' (readItems d) (\<lambda>(items, _).
      cres (item1 items) (\<lambda>it.
      cneed ''problem reading list instance header'' (read_full 6 (Data it)) (\<lambda>(hdr, r).
      cbind (each_symbol ''problem reading tag name'' (enter_symbol fuel fallbackProgramNames) r start_instance')
        (\<lambda>(_, last_instance).
      if fld16 4 hdr = ucast CIPStatus_PartialTransfer
      then ListAllTags fuel order (nextListInstanceStart last_instance)
      else cret ()))))))))"

end
