(* ===== verification/Discovery_Ends.thy ===== *)
theory Discovery_Ends
  imports Client_Discovery
begin

text \<open>
  Discovery ends.  The functions that call themselves do so with fewer replies left to come, so
  that a stack deeper than the number of replies is never used up, whatever the controller sends.
\<close>

section \<open>Replies are used up\<close>

abbreviation replies_left :: "Client \<Rightarrow> nat" where
  "replies_left c \<equiv> length (c_script c)"

lemma exchange_replies:
  "replies_left (snd (exchange cmd msg c)) \<le> replies_left c"
  "exchange cmd msg c = (Inr x, c') \<Longrightarrow> replies_left c' < replies_left c"
  by (auto simp: exchange_def sendMsgBuild_def c_newEIPHeader_def sendData_def recvData_def Let_def
      split: list.splits option.splits sum.splits prod.splits if_splits)

lemma startDisconnect_replies: "startDisconnect c = Inr c1 \<Longrightarrow> c_script c1 = c_script c"
  by (auto simp: startDisconnect_def split: connectionStatus.splits)

lemma stop_keepalive_replies: "stop_keepalive c = Inr c1 \<Longrightarrow> c_script c1 = c_script c"
  by (auto simp: stop_keepalive_def split: if_splits cancel_chan.splits)

lemma send_recv_replies:
  "replies_left (snd (send_recv_data cmd msg c)) \<le> replies_left c"
  "replies_left (snd (Disconnect c)) \<le> replies_left c"
proof (induction cmd msg c and c rule: send_recv_data_Disconnect.induct)
  case (1 cmd msg c)
  then show ?case
    using exchange_replies(1)[of cmd msg c]
    by (auto simp: send_recv_data.simps split: sum.splits prod.splits)
next
  case (2 c)
  have "replies_left c3 \<le> replies_left c"
    if "startDisconnect c = Inr c1" "stop_keepalive c1 = Inr c2" "c_connStatus c \<noteq> Connecting"
      "send_recv_data cipCommandSendRRData (disconnect_request c2) c2 = (r, c3)" for c1 c2 c3 r
    using 2[OF that(1-3)] that(4) startDisconnect_replies[OF that(1)] stop_keepalive_replies[OF that(2)] by simp
  then show ?case
    by (auto simp: Disconnect.simps closed_def split: sum.splits prod.splits)
      (metis startDisconnect_replies stop_keepalive_replies order_refl)+
qed

lemma send_recv_replies_ok: "send_recv_data cmd msg c = (Inr x, c') \<Longrightarrow> replies_left c' < replies_left c"
  by (auto simp: send_recv_data.simps split: sum.splits prod.splits dest: exchange_replies(2))

section \<open>Actions that do not exhaust the stack\<close>

text \<open>
  \<open>within n f\<close>: with fewer than \<open>n\<close> replies to come, \<open>f\<close> does not end in an
  overflow of the stack, and it never adds replies.  \<open>uses f\<close>: when it succeeds it has used one up.
\<close>

definition overflow :: gerror where
  "overflow = Panic ''stack overflow''"

definition within :: "nat \<Rightarrow> 'a cact \<Rightarrow> bool" where
  "within n f \<longleftrightarrow> (\<forall>c. replies_left c < n \<longrightarrow> fst (f c) \<noteq> Inl overflow \<and> replies_left (snd (f c)) \<le> replies_left c)"

definition uses :: "'a cact \<Rightarrow> bool" where
  "uses f \<longleftrightarrow> (\<forall>c x c'. f c = (Inr x, c') \<longrightarrow> replies_left c' < replies_left c)"

named_theorems within_intros

lemma wrap_overflow [simp]: "wrap m e = overflow \<longleftrightarrow> e = overflow"
  by (cases e) (auto simp: wrap_def overflow_def)

lemma within_cret [within_intros]: "within n (cret x)"
  by (simp add: within_def cret_def)

lemma within_cfail [within_intros]: "e \<noteq> overflow \<Longrightarrow> within n (cfail e)"
  by (simp add: within_def cfail_def)

lemma within_update: "(\<And>c. fst (f c) \<noteq> Inl overflow) \<Longrightarrow> (\<And>c. c_script (snd (f c)) = c_script c) \<Longrightarrow> within n f"
  by (simp add: within_def)

lemma withinD:
  "within n f \<Longrightarrow> f c = (r, c') \<Longrightarrow> replies_left c < n \<Longrightarrow> r \<noteq> Inl overflow \<and> replies_left c' \<le> replies_left c"
  by (metis within_def fst_conv snd_conv)

lemma withinI:
  "(\<And>c r c'. f c = (r, c') \<Longrightarrow> replies_left c < n \<Longrightarrow> r \<noteq> Inl overflow \<and> replies_left c' \<le> replies_left c) \<Longrightarrow> within n f"
  by (metis within_def prod.collapse)

text \<open>Sequences: what follows \<open>f\<close> may count on the replies that are left.\<close>

lemma within_seq:
  assumes f: "within n f" and g: "\<And>x. within k (g x)"
    and left: "\<And>c x c'. f c = (Inr x, c') \<Longrightarrow> replies_left c < n \<Longrightarrow> replies_left c' < k"
  shows "within n (cbind f g)" "within n (cwrap m f g)"
proof -
  have "(r \<noteq> Inl overflow \<and> replies_left c' \<le> replies_left c)"
    if c: "replies_left c < n" and r: "cbind f g c = (r, c') \<or> cwrap m f g c = (r, c')" for c c' r
  proof -
    obtain q c1 where q: "f c = (q, c1)" by force
    note fc = withinD[OF f q c]
    show ?thesis
    proof (cases q)
      case (Inl e)
      then show ?thesis using q fc r by (auto simp: cbind_def cwrap_def)
    next
      case (Inr x)
      then have "g x c1 = (r, c')" using q r by (auto simp: cbind_def cwrap_def)
      from withinD[OF g this left[OF q[unfolded Inr] c]] show ?thesis using fc by simp
    qed
  qed
  then show "within n (cbind f g)" "within n (cwrap m f g)" by (blast intro: withinI)+
qed

lemma within_cbind [within_intros]: "within n f \<Longrightarrow> (\<And>x. within n (g x)) \<Longrightarrow> within n (cbind f g)"
  by (rule within_seq) (auto dest: withinD)

lemma within_cwrap [within_intros]: "within n f \<Longrightarrow> (\<And>x. within n (g x)) \<Longrightarrow> within n (cwrap m f g)"
  by (rule within_seq) (auto dest: withinD)

lemma within_cneed [within_intros]: "r \<noteq> Inl overflow \<Longrightarrow> (\<And>x. r = Inr x \<Longrightarrow> within n (g x)) \<Longrightarrow> within n (cneed m r g)"
  by (cases r) (auto intro!: within_cfail)

lemma within_cres [within_intros]: "r \<noteq> Inl overflow \<Longrightarrow> (\<And>x. r = Inr x \<Longrightarrow> within n (g x)) \<Longrightarrow> within n (cres r g)"
  by (cases r) (auto intro!: within_cfail)

lemma within_mono: "within n f \<Longrightarrow> m \<le> n \<Longrightarrow> within m f"
  by (auto simp: within_def)

text \<open>The step that pays for a call: what follows an action that uses a reply has one fewer.\<close>

lemma within_after:
  assumes "within (Suc n) f" "uses f" "\<And>x. within n (g x)"
  shows "within (Suc n) (cbind f g)" "within (Suc n) (cwrap m f g)"
proof -
  have left: "replies_left c' < n" if "f c = (Inr x, c')" "replies_left c < Suc n" for c x c'
  proof -
    have "replies_left c' < replies_left c" using assms(2) that(1) unfolding uses_def by blast
    then show ?thesis using that(2) by linarith
  qed
  show "within (Suc n) (cbind f g)" "within (Suc n) (cwrap m f g)" 
    by (rule within_seq(1)[OF assms(1,3) left] within_seq(2)[OF assms(1,3) left], assumption+)+
qed

lemma send_unit_within [within_intros]: "within n (send_unit it)"
proof -
  have "fst (send_recv_data cmd msg c) \<noteq> Inl overflow" "fst (Disconnect c) \<noteq> Inl overflow" for cmd msg c
  proof (induction cmd msg c and c rule: send_recv_data_Disconnect.induct)
    case (1 cmd msg c)
    then show ?case
      using exchange_no_panic[of cmd msg c] by (auto simp: send_recv_data.simps overflow_def split: sum.splits prod.splits)
  next
    case (2 c)
    have "e \<noteq> overflow"
      if "startDisconnect c = Inr c1" "stop_keepalive c1 = Inr c2" "c_connStatus c \<noteq> Connecting"
        "send_recv_data cipCommandSendRRData (disconnect_request c2) c2 = (Inl e, c3)" for c1 c2 c3 e
      using 2[OF that(1-3)] that(4) by simp
    moreover have "startDisconnect c \<noteq> Inl overflow" "stop_keepalive c1 \<noteq> Inl overflow" for c1
      by (auto simp: startDisconnect_def stop_keepalive_def overflow_def split: connectionStatus.splits cancel_chan.splits)
    ultimately show ?case
      by (auto simp: Disconnect.simps split: sum.splits prod.splits)
  qed
  then show ?thesis using send_recv_replies(1) by (simp add: within_def send_unit_def)
qed

lemma next_sequence_within [within_intros]: "within n next_sequence"
  by (rule within_update) (simp_all add: next_sequence_def Let_def split_beta)

lemma send_unit_uses: "uses (send_unit it)"
  by (auto simp: uses_def send_unit_def dest: send_recv_replies_ok)

section \<open>Replies without panics\<close>

lemma no_overflow [simp]:
  "read_full k r \<noteq> Inl overflow" "rd16 r \<noteq> Inl overflow" "Msg t \<noteq> overflow" "Wrapped t e \<noteq> overflow"
  "EOF \<noteq> overflow" "CIPStatusError st \<noteq> overflow"
  by (auto simp: overflow_def rd16_def andthen_def split: sum.splits dest: read_full_Inl)

lemma attempt_overflow [simp]: "attempt m r f = Inl overflow \<longleftrightarrow> r = Inl overflow \<or> (\<exists>x. r = Inr x \<and> f x = Inl overflow)"
  by (cases r) simp_all

lemma andthen_overflow [simp]: "andthen r f = Inl overflow \<longleftrightarrow> r = Inl overflow \<or> (\<exists>x. r = Inr x \<and> f x = Inl overflow)"
  by (cases r) simp_all

lemma read_n_overflow: "(\<And>r. f r \<noteq> Inl overflow) \<Longrightarrow> read_n f k r \<noteq> Inl overflow"
  by (induction k arbitrary: r) (auto split: prod.splits)

lemma readItems_overflow [simp]: "readItems d \<noteq> Inl overflow"
  by (auto simp: readItems_def read_item_def Let_def split_beta intro!: read_n_overflow)

lemma item1_overflow [simp]: "item1 items \<noteq> Inl overflow"
  by (simp add: item1_def overflow_def)

lemma replies_overflow [simp]:
  "template_reply m what data \<noteq> Inl overflow" "parseTemplateAttrResponse data \<noteq> Inl overflow"
  "skip_padding data \<noteq> Inl overflow" "read_tag_entry m data \<noteq> Inl overflow"
  by (auto simp: template_reply_def skip_padding_def parseTemplateAttrResponse_def read_tag_entry_def Let_def split_beta)

section \<open>Discovery stays within the replies\<close>

lemma uses_seq:
  assumes "uses f" "\<And>x n. within n (g x)"
  shows "uses (cbind f g)" "uses (cwrap m f g)"
proof -
  have "replies_left c' < replies_left c" if run: "cbind f g c = (Inr y, c') \<or> cwrap m f g c = (Inr y, c')" for c y c'
  proof -
    obtain x c1 where x: "f c = (Inr x, c1)" "g x c1 = (Inr y, c')"
      using run by (auto simp: cbind_Inr cwrap_Inr)
    have "replies_left c1 < replies_left c" using assms(1) x(1) unfolding uses_def by blast
    then show ?thesis using withinD[OF assms(2) x(2) lessI] by linarith
  qed
  then show "uses (cbind f g)" "uses (cwrap m f g)" unfolding uses_def by blast+
qed

lemma uses_behind:
  assumes "\<And>n. within n f" "\<And>x. uses (g x)"
  shows "uses (cbind f g)"
proof -
  have "replies_left c' < replies_left c" if run: "cbind f g c = (Inr y, c')" for c y c'
  proof -
    obtain x c1 where x: "f c = (Inr x, c1)" "g x c1 = (Inr y, c')"
      using run by (auto simp: cbind_Inr)
    have "replies_left c' < replies_left c1" using assms(2) x(2) unfolding uses_def by blast
    then show ?thesis using withinD[OF assms(1) x(1) lessI] by linarith
  qed
  then show ?thesis unfolding uses_def by blast
qed

lemma symbols_request_within [within_intros]: "within n (symbols_request scope start)"
  and symbols_request_uses: "uses (symbols_request scope start)"
  unfolding symbols_request_def
  by (auto intro!: within_intros uses_behind[OF next_sequence_within] uses_seq[OF send_unit_uses])

lemma GetTemplateInstanceAttr_within [within_intros]: "within n (GetTemplateInstanceAttr i)"
  and GetTemplateInstanceAttr_uses: "uses (GetTemplateInstanceAttr i)"
  unfolding GetTemplateInstanceAttr_def
  by (auto intro!: within_intros uses_behind[OF next_sequence_within] uses_seq[OF send_unit_uses])

lemma requestMemberReadChunk_within [within_intros]: "within n (requestMemberReadChunk i off len)"
  unfolding requestMemberReadChunk_def by (auto intro!: within_intros split: prod.split)

lemma member_rounds_within:
  "(\<And>off len. within n (fetch off len)) \<Longrightarrow> within n (member_rounds left total_bytes fetch offset payload)"
  by (induction left arbitrary: offset payload) (auto simp: Let_def intro!: within_intros)

lemma collect_within [within_intros]: "within n (collectMemberReadPayload total_bytes (requestMemberReadChunk i))"
  by (auto simp: collectMemberReadPayload_def intro!: within_intros member_rounds_within)

lemma try_lookup_within [within_intros]:
  assumes "within n f"
  shows "within n (try_lookup f)"
proof (rule withinI)
  fix c r c' assume "try_lookup f c = (r, c')" "replies_left c < n"
  then show "r \<noteq> Inl overflow \<and> replies_left c' \<le> replies_left c"
    using withinD[OF assms, of c] by (auto simp: try_lookup_def split: sum.splits prod.splits if_splits)
qed

lemma read_members_within:
  "(\<And>i. within n (rec i)) \<Longrightarrow> within n (read_members rec ms r)"
  by (induction ms arbitrary: r) (auto simp: Let_def split_beta intro!: within_intros)

lemma parse_members_within [within_intros]: "(\<And>i. within n (rec i)) \<Longrightarrow> within n (parse_members rec i info payload)"
  unfolding parse_members_def Let_def
  by (auto simp: split_beta intro!: within_intros read_members_within)

lemma list_members_with_within:
  assumes "\<And>i. within n (rec i)"
  shows "within (Suc n) (list_members_with rec i)"
proof -
  have "within n (\<lambda>c :: Client. (Inr d, c\<lparr>c_KnownTypesByID := (c_KnownTypesByID c)(i \<mapsto> d)\<rparr>))" for d :: UDTDescriptor
    by (rule within_update) simp_all
  then have "within (Suc n) (cwrap ''couldn't get template info'' (GetTemplateInstanceAttr i) (\<lambda>template_info.
            let totalBytes = ta_SizeWords template_info * 4 in
            if totalBytes < 20 then cfail (Msg ''template size too small for member read'')
            else
              cwrap ''couldn't read fragmented member payload''
                (collectMemberReadPayload (totalBytes - 20) (requestMemberReadChunk i)) (\<lambda>payload.
              cbind (parse_members rec i template_info payload) (\<lambda>descriptor c.
              (Inr descriptor, c\<lparr>c_KnownTypesByID := (c_KnownTypesByID c)(i \<mapsto> descriptor)\<rparr>)))))"
    by (intro within_after GetTemplateInstanceAttr_within GetTemplateInstanceAttr_uses) (auto simp: Let_def intro!: within_intros assms)
  then show ?thesis
    by (auto simp: within_def list_members_with_def cret_def split: option.splits)
qed

lemma ListMembers_within [within_intros]: "within fuel (ListMembers fuel i)"
proof (induction fuel arbitrary: i)
  case (Suc fuel)
  then show ?case using list_members_with_within[of fuel "ListMembers fuel"] by simp
qed (simp add: within_def)

section \<open>Lists of symbols\<close>

lemma each_symbol_within:
  "(\<And>e. within n (f e)) \<Longrightarrow> within n (each_symbol m f r last_instance)"
proof (induction m f r last_instance rule: each_symbol.induct)
  case (1 m f r l)
  show ?case
    using 1 by (subst each_symbol.simps) (auto intro!: within_intros)
qed

lemma enter_tag_within [within_intros]: "within n (enter_tag n kt)"
  unfolding enter_tag_def
proof (rule within_cbind)
  show "within n (if Template_ID (kt_Info kt) \<noteq> 0 then try_lookup (ListMembers n (ucast (Template_ID (kt_Info kt)))) else cret None)"
    by (auto intro!: within_intros)
qed (auto simp: Let_def intro!: within_update split: option.split)

lemma ListSubTags_within [within_intros]: "within fuel (ListSubTags fuel p start)"
proof (induction fuel arbitrary: start)
  case (Suc fuel)
  show ?case
    unfolding ListSubTags.simps Let_def
    by (intro within_after symbols_request_within symbols_request_uses)
      (auto intro!: within_intros each_symbol_within Suc simp: flat_def split: sum.split)
qed (simp add: within_def)

lemma sub_tags_of_within [within_intros]: "within fuel (sub_tags_of fuel ps)"
  by (induction ps) (auto intro!: within_intros)

section \<open>All tags\<close>

lemma items_overflow [simp]: "item_get k it \<noteq> Inl overflow" "item_Int16 it \<noteq> Inl overflow"
proof -
  show "item_get k it \<noteq> Inl overflow"
    by (auto simp: item_get_def out_of_data_def overflow_def)
  then show "item_Int16 it \<noteq> Inl overflow" for it :: CIPItem
    by (auto simp: item_Int16_def item_get_def out_of_data_def overflow_def)
qed

lemma program_list_overflow [simp]: "program_list r results \<noteq> Inl overflow"
proof (induction r results rule: program_list.induct)
  case (1 r results)
  then show ?case by (subst program_list.simps) (auto simp: Let_def split: sum.split)
qed

lemma GenericCIPMessage_within [within_intros]: "within n (GenericCIPMessage service path msg)"
  and GenericCIPMessage_uses: "uses (GenericCIPMessage service path msg)"
  unfolding GenericCIPMessage_def
  by (auto intro!: within_intros uses_behind[OF next_sequence_within] uses_seq[OF send_unit_uses] split: prod.split)

lemma ListAllPrograms_within [within_intros]: "within n ListAllPrograms"
  and ListAllPrograms_uses: "uses ListAllPrograms"
proof -
  have rest: "within k (cres (program_list (unread resp) []) (\<lambda>results c. (Inr (), c\<lparr>c_KnownPrograms := results\<rparr>)))" for k resp
    by (intro within_cres within_update) simp_all
  show "within n ListAllPrograms" "uses ListAllPrograms"
    unfolding ListAllPrograms_def
    by (rule within_cwrap[OF GenericCIPMessage_within rest] uses_seq(2)[OF GenericCIPMessage_uses rest])+
qed

lemma list_programs_within: "within (Suc n) (list_programs n order)"
proof (rule withinI)
  fix c r c' assume run: "list_programs n order c = (r, c')" and c: "replies_left c < Suc n"
  obtain q c1 where q: "ListAllPrograms c = (q, c1)" by force
  note l = withinD[OF ListAllPrograms_within q c]
  show "r \<noteq> Inl overflow \<and> replies_left c' \<le> replies_left c"
  proof (cases q)
    case (Inl e)
    then show ?thesis using run q l by (auto simp: list_programs_def split: if_splits)
  next
    case (Inr u)
    have "replies_left c1 < replies_left c" using ListAllPrograms_uses q[unfolded Inr] unfolding uses_def by blast
    moreover have "within n (cbind (sub_tags_of n ps) (\<lambda>_. cret False))" for ps by (intro within_intros)
    ultimately show ?thesis
      using withinD[of n "cbind (sub_tags_of n (map snd (order (c_KnownPrograms c1)))) (\<lambda>_. cret False)" c1 r c'] run q Inr c
      by (auto simp: list_programs_def)
  qed
qed

lemma enter_program_within [within_intros]: "within n (enter_program n name)"
proof (rule withinI)
  fix c r c' assume "enter_program n name c = (r, c')" "replies_left c < n"
  moreover have "within n (cwrap ''problem listing sub tags'' (ListSubTags n p 1) (\<lambda>_. cret ()))" for p by (intro within_intros)
  ultimately show "r \<noteq> Inl overflow \<and> replies_left c' \<le> replies_left c"
    by (fastforce simp: enter_program_def Let_def dest: withinD)
qed

lemma enter_symbol_within: "within n (enter_symbol n fallback e)"
  unfolding enter_symbol_def Let_def by (auto intro!: within_intros)

lemma ListAllTags_within: "within fuel (ListAllTags fuel order start)"
proof (induction fuel arbitrary: start)
  case (Suc fuel)
  have "within (Suc fuel) (if start' = 1 then list_programs fuel order else cret False)" for start' :: u32
    by (auto intro: list_programs_within within_intros)
  then show ?case
    unfolding ListAllTags.simps Let_def
    by (intro within_cbind within_after symbols_request_within symbols_request_uses)
      (auto intro!: within_intros each_symbol_within enter_symbol_within Suc)
qed (simp add: within_def)

text \<open>
  C20.  Discovery ends.  Structures nest, lists of symbols are continued, and a listing calls itself and
  the others for that; but every call costs a reply of the controller.  With a stack deeper than
  the number of replies to come none of the three overflows it, whatever the replies are, even if the
  templates of the controller are cyclic or its lists never advance.
\<close>

theorem discovery_ends:
  assumes "length (c_script c) < fuel"
  shows "fst (ListAllTags fuel order start c) \<noteq> Inl (Panic ''stack overflow'')
    \<and> fst (ListSubTags fuel program start c) \<noteq> Inl (Panic ''stack overflow'')
    \<and> fst (ListMembers fuel i c) \<noteq> Inl (Panic ''stack overflow'')"
  using ListAllTags_within[of fuel order start] ListSubTags_within[of fuel program start] ListMembers_within[of fuel i] assms
  by (simp add: within_def overflow_def)

theorem discovery_ends_witness:
  "length (c_script (demo_client\<lparr>c_script := [Some [1], None]\<rparr>)) < 3
   \<and> fst (ListAllTags 3 id 0 (demo_client\<lparr>c_script := [Some [1], None]\<rparr>)) \<noteq> Inl (Panic ''stack overflow'')
   \<and> fst (ListMembers 3 5 (demo_client\<lparr>c_script := [Some [1], None]\<rparr>)) \<noteq> Inl (Panic ''stack overflow'')"
proof -
  have l: "length (c_script (demo_client\<lparr>c_script := [Some [1], None]\<rparr>)) < 3" by simp
  show ?thesis
    using l discovery_ends[OF l, of id 0 _ 5] by blast
qed

end
