(* ===== verification/Discovery_Lists.thy ===== *)
theory Discovery_Lists
  imports Discovery_Ends
begin

text \<open>
  What a listing of symbols enters in the client's table of tags, over any number of pages.
\<close>

section \<open>The entries of a page\<close>

definition entry_bytes :: "tag_entry \<Rightarrow> bytes" where
  "entry_bytes e =
     put32 (se_InstanceID e) @ put16 (of_nat (length (se_Name e))) @ to_bytes (se_Name e)
     @ [tg_Type (se_Info e), tg_TypeInfo (se_Info e)] @ put32 (tg_Dimension1 (se_Info e))
     @ put32 (tg_Dimension2 (se_Info e)) @ put32 (tg_Dimension3 (se_Info e))"

lemma read_entry_bytes:
  assumes "length (se_Name e) < 65536"
  shows "read_tag_entry m (entry_bytes e @ r) = Inr (e, r)"
proof -
  let ?x = "put32 (se_InstanceID e) @ put16 (of_nat (length (se_Name e)))"
  let ?f = "[tg_Type (se_Info e), tg_TypeInfo (se_Info e)] @ put32 (tg_Dimension1 (se_Info e))
     @ put32 (tg_Dimension2 (se_Info e)) @ put32 (tg_Dimension3 (se_Info e))"
  have b: "entry_bytes e @ r = ?x @ to_bytes (se_Name e) @ ?f @ r" by (simp add: entry_bytes_def)
  have "read_full 6 (?x @ to_bytes (se_Name e) @ ?f @ r) = Inr (?x, to_bytes (se_Name e) @ ?f @ r)"
    by (rule read_full_append) simp
  moreover have "unat (fld16 4 ?x) = length (se_Name e)"
    using assms by (simp add: fld_simps unat_u16_of_nat)
  moreover have "read_full 14 (?f @ r) = Inr (?f, r)" by (rule read_full_append) simp
  ultimately show ?thesis
    unfolding b by (simp add: read_tag_entry_def fld_simps)
qed

text \<open>Symbols that are entered as they are: no system names, no program, no structure.\<close>

definition plain_symbol :: "tag_entry \<Rightarrow> bool" where
  "plain_symbol e \<longleftrightarrow> isValidTag (se_Name e) \<and> length (se_Name e) < 65536 \<and> 1 < se_InstanceID e
     \<and> \<not> (length (se_Name e) > 8 \<and> has_prefix (se_Name e) ''Program:'') \<and> Template_ID (se_Info e) = 0"

definition listed :: "tag_entry list \<Rightarrow> (string \<times> KnownTag) list" where
  "listed es = map (\<lambda>e. (strings_ToLower (se_Name e), new_KnownTag (se_Name e) e None)) es"

lemma enter_plain:
  assumes "plain_symbol e"
  shows "enter_symbol fuel fallback e c = (Inr (Some (new_KnownTag (se_Name e) e None)),
    c\<lparr>c_KnownTags := (c_KnownTags c)(strings_ToLower (se_Name e) \<mapsto> new_KnownTag (se_Name e) e None)\<rparr>)"
  using assms
  by (auto simp: plain_symbol_def enter_symbol_def enter_tag_def Let_def cbind_def cret_def new_KnownTag_def)

lemma each_plain:
  assumes "\<forall>e\<in>set es. plain_symbol e"
  shows "\<exists>kts. each_symbol m (enter_symbol fuel fallback) (concat (map entry_bytes es)) start c
    = (Inr (kts, last (start # map se_InstanceID es)), c\<lparr>c_KnownTags := c_KnownTags c ++ map_of (rev (listed es))\<rparr>)"
  using assms
proof (induction es arbitrary: start c)
  case Nil
  then show ?case by (simp add: each_symbol.simps cret_def listed_def)
next
  case (Cons e es)
  let ?c = "c\<lparr>c_KnownTags := (c_KnownTags c)(strings_ToLower (se_Name e) \<mapsto> new_KnownTag (se_Name e) e None)\<rparr>"
  have "entry_bytes e \<noteq> []" by (simp add: entry_bytes_def)
  moreover have "read_tag_entry m (entry_bytes e @ concat (map entry_bytes es)) = Inr (e, concat (map entry_bytes es))"
    using Cons.prems by (intro read_entry_bytes) (simp add: plain_symbol_def)
  moreover have "\<forall>e\<in>set es. plain_symbol e" using Cons.prems by simp
  from Cons.IH[OF this, of "se_InstanceID e" ?c] obtain kts where
    "each_symbol m (enter_symbol fuel fallback) (concat (map entry_bytes es)) (se_InstanceID e) ?c
      = (Inr (kts, last (se_InstanceID e # map se_InstanceID es)), ?c\<lparr>c_KnownTags := c_KnownTags ?c ++ map_of (rev (listed es))\<rparr>)"
    by blast
  ultimately show ?case
    using Cons.prems enter_plain[of e fuel fallback c]
    by (subst each_symbol.simps) (auto simp: cbind_def cret_def listed_def map_of_append)
qed

section \<open>Pages\<close>

text \<open>
  A controller that sends its symbols in pages: all but the last have the status
  \<^verbatim>\<open>PartialTransfer\<close>.  And the requests the client makes: each continues at the last instance it was sent.
\<close>

definition page_body :: "u16 \<Rightarrow> cip_service \<Rightarrow> cip_status \<Rightarrow> tag_entry list \<Rightarrow> bytes" where
  "page_body sq service status es = put16 sq @ [service, 0, status, 0] @ concat (map entry_bytes es)"

fun page_replies :: "eipHeader \<Rightarrow> u32 \<Rightarrow> u16 \<Rightarrow> cip_service \<Rightarrow> tag_entry list list \<Rightarrow> bytes option list" where
  "page_replies hdr i sq service [] = []"
| "page_replies hdr i sq service (es # pages) =
     Some (eip_frame hdr (connected_reply i (page_body sq service
       (if pages = [] then CIPStatus_OK else CIPStatus_PartialTransfer) es)))
     # page_replies hdr i sq service pages"

definition list_request :: "u16 \<Rightarrow> u32 \<Rightarrow> CIPItem" where
  "list_request sq start = symbol_item sq CIPService_GetInstanceAttributeList
     (CIPClass_Bytes CipObject_Symbol @ CIPInstance_Bytes start) (concat (map put16 [3, 1, 2, 8]))"

fun page_requests :: "Client \<Rightarrow> u32 \<Rightarrow> u32 \<Rightarrow> tag_entry list list \<Rightarrow> bytes list" where
  "page_requests c sv start [] = []"
| "page_requests c sv start (es # pages) =
     unit_request c (list_request (ucast (sv + 1)) start)
     # page_requests c (sv + 1) (last (start # map se_InstanceID es)) pages"

lemma page_requests_cong:
  "c_OTNetworkConnectionID c' = c_OTNetworkConnectionID c \<Longrightarrow> c_SessionHandle c' = c_SessionHandle c \<Longrightarrow>
   c_Context c' = c_Context c \<Longrightarrow> page_requests c' sv start pages = page_requests c sv start pages"
  by (induction pages arbitrary: sv start) (simp_all add: unit_request_cong[of c' c])

lemma page_read:
  assumes "length (concat (map entry_bytes es)) < 65000"
  shows "\<exists>d items it. skip_padding (connected_reply i (page_body sq service status es)) = Inr d
    \<and> readItems d = Inr (items, []) \<and> item1 items = Inr it
    \<and> read_full 6 (Data it) = Inr (put16 sq @ [service, 0, status, 0], concat (map entry_bytes es))"
proof -
  let ?b = "page_body sq service status es"
  let ?items = "[item_Write (put32 i) (empty_item cipItem_ConnectionAddress), item_Write ?b (empty_item cipItem_ConnectedData)]"
  have len: "length ?b < 65536" using assms by (simp add: page_body_def)
  have d: "skip_padding (connected_reply i ?b) = Inr (csd_skip (connected_reply i ?b))"
    using length_connected_reply[of i ?b] by (auto simp: skip_padding_def csd_skip_def)
  have "readItems (csd_skip (connected_reply i ?b)) = Inr (?items, [])"
    using connected_reply_items[OF len] .
  moreover have "read_full 6 ((put16 sq @ [service, 0, status, 0]) @ concat (map entry_bytes es))
      = Inr (put16 sq @ [service, 0, status, 0], concat (map entry_bytes es))"
    by (rule read_full_append) simp
  ultimately show ?thesis using d by (simp add: item1_def item_Write_def page_body_def)
qed

lemma last_instance_large:
  "1 < start \<Longrightarrow> \<forall>e\<in>set es. plain_symbol e \<Longrightarrow> 1 < last (start # map se_InstanceID es)"
proof (cases es rule: rev_cases)
  case (snoc ys e)
  assume "\<forall>e\<in>set es. plain_symbol e"
  then show ?thesis using snoc by (simp add: plain_symbol_def)
qed simp

lemma symbols_request_answered:
  assumes "c_conn c" "c_socket c = []" "c_script c = Some (eip_frame hdr reply) # s" "length reply < 65536"
  shows "symbols_request [] start c = (Inr reply, c\<lparr>c_sequenceValue := c_sequenceValue c + 1,
    c_HeaderSequenceCounter := c_HeaderSequenceCounter c + 1, c_script := s,
    c_sent := c_sent c @ [unit_request c (list_request (ucast (c_sequenceValue c + 1)) start)]\<rparr>)"
proof -
  let ?c = "c\<lparr>c_sequenceValue := c_sequenceValue c + 1\<rparr>"
  have "unit_request ?c it = unit_request c it" for it by (rule unit_request_cong) simp_all
  then show ?thesis
    using send_unit_answered[of ?c hdr reply s "list_request (ucast (c_sequenceValue c + 1)) start"] assms
    by (simp add: symbols_request_def cbind_def next_sequence_def sequencer_def list_request_def cret_def)
qed

lemma listing_pages:
  assumes "pages \<noteq> []" "length pages \<le> fuel" "1 < start" "\<forall>es\<in>set pages. \<forall>e\<in>set es. plain_symbol e"
    and "\<forall>es\<in>set pages. length (concat (map entry_bytes es)) < 65000"
    and "c_conn c" "c_socket c = []" "c_script c = page_replies hdr i sq service pages @ s"
  shows "\<exists>c'. ListAllTags fuel order start c = (Inr (), c')
    \<and> c_KnownTags c' = c_KnownTags c ++ map_of (rev (listed (concat pages))) \<and> c_script c' = s
    \<and> c_sent c' = c_sent c @ page_requests c (c_sequenceValue c) start pages"
  using assms
proof (induction pages arbitrary: fuel start c)
  case (Cons es pages)
  then obtain n where n: "fuel = Suc n" "length pages \<le> n" by (cases fuel) auto
  let ?st = "if pages = [] then CIPStatus_OK else CIPStatus_PartialTransfer"
  let ?reply = "connected_reply i (page_body sq service ?st es)"
  let ?s = "page_replies hdr i sq service pages @ s"
  let ?c1 = "c\<lparr>c_sequenceValue := c_sequenceValue c + 1, c_HeaderSequenceCounter := c_HeaderSequenceCounter c + 1, c_script := ?s,
    c_sent := c_sent c @ [unit_request c (list_request (ucast (c_sequenceValue c + 1)) start)]\<rparr>"
  let ?c2 = "?c1\<lparr>c_KnownTags := c_KnownTags c ++ map_of (rev (listed es))\<rparr>"
  let ?next = "last (start # map se_InstanceID es)"
  have es: "length (concat (map entry_bytes es)) < 65000" "\<forall>e\<in>set es. plain_symbol e" using Cons.prems by auto
  then have "length ?reply < 65536" by (simp add: length_connected_reply page_body_def)
  then have req: "symbols_request [] start c = (Inr ?reply, ?c1)"
    using Cons.prems by (intro symbols_request_answered) auto
  obtain d items it where page: "skip_padding ?reply = Inr d" "readItems d = Inr (items, [])" "item1 items = Inr it"
    "read_full 6 (Data it) = Inr (put16 sq @ [service, 0, ?st, 0], concat (map entry_bytes es))"
    using page_read[OF es(1)] by blast
  obtain kts where each: "each_symbol ''problem reading tag name'' (enter_symbol n False) (concat (map entry_bytes es)) start ?c1
      = (Inr (kts, ?next), ?c2)"
    using each_plain[OF es(2), of "''problem reading tag name''" n False start ?c1] by auto
  have st: "fld16 4 (put16 sq @ [service, 0, ?st, 0]) = ucast ?st" by (simp add: fld_simps fld16_def get_eval)
  have run: "ListAllTags fuel order start c =
      (if pages = [] then cret () ?c2 else ListAllTags n order ?next ?c2)"
    using Cons.prems(3) req page each st
    by (auto simp: n(1) Let_def cbind_def nextListInstanceStart_def cret_def)
  show ?case
  proof (cases "pages = []")
    case True
    then show ?thesis using run by (simp add: cret_def)
  next
    case False
    have "page_requests ?c2 sv start' pages = page_requests c sv start' pages" for sv start'
      by (rule page_requests_cong) simp_all
    moreover have "\<exists>c'. ListAllTags n order ?next ?c2 = (Inr (), c')
      \<and> c_KnownTags c' = c_KnownTags ?c2 ++ map_of (rev (listed (concat pages))) \<and> c_script c' = s
      \<and> c_sent c' = c_sent ?c2 @ page_requests ?c2 (c_sequenceValue ?c2) ?next pages"
      using False n(2) last_instance_large[OF Cons.prems(3) es(2)] Cons.prems(4-7) by (intro Cons.IH) auto
    ultimately show ?thesis using run False by (auto simp: listed_def map_of_append)
  qed
qed simp

text \<open>
  C21.  Tags are found over all pages.  When a controller sends its symbols in any number of pages,
  \<^const>\<open>ListAllTags\<close> asks for each page from the last instance of the page before, sends no
  further request, and enters every symbol under its lower-case name with its instance, type and
  dimensions; of two symbols with one name the later counts, and tags that were known before and are not listed stay.
  (From an instance above 1: the first instance also lists programs.)
\<close>

theorem listing_enters_tags:
  assumes "pages \<noteq> []" "length pages \<le> fuel" "1 < start" "\<forall>es\<in>set pages. \<forall>e\<in>set es. plain_symbol e"
    and "\<forall>es\<in>set pages. length (concat (map entry_bytes es)) < 65000"
    and "c_conn c" "c_socket c = []" "c_script c = page_replies hdr i sq service pages @ s"
  shows "\<exists>c'. ListAllTags fuel order start c = (Inr (), c')
    \<and> c_KnownTags c' = c_KnownTags c ++ map_of (rev (listed (concat pages))) \<and> c_script c' = s
    \<and> c_sent c' = c_sent c @ page_requests c (c_sequenceValue c) start pages"
  by (rule listing_pages[OF assms])

definition demo_symbols :: "tag_entry list list" where
  "demo_symbols =
     [[\<lparr>se_InstanceID = 5, se_Name = ''Abc'', se_Info = \<lparr>tg_Type = CIPTypeDINT, tg_TypeInfo = 0, tg_Dimension1 = 0,
          tg_Dimension2 = 0, tg_Dimension3 = 0\<rparr>\<rparr>],
      [\<lparr>se_InstanceID = 9, se_Name = ''Arr'', se_Info = \<lparr>tg_Type = CIPTypeINT, tg_TypeInfo = 0x20, tg_Dimension1 = 7,
          tg_Dimension2 = 0, tg_Dimension3 = 0\<rparr>\<rparr>]]"

definition demo_listing_header :: eipHeader where
  "demo_listing_header = \<lparr>eh_Command = cipCommandSendUnitData, eh_Length = 0, eh_SessionHandle = 7, eh_Status = 0,
     eh_Context = 0, eh_Options = 0\<rparr>"

theorem listing_enters_tags_witness:
  "\<exists>c' (t :: KnownTag). ListAllTags 2 id 2 (demo_client\<lparr>c_script := page_replies demo_listing_header 9 1 0xD5 demo_symbols\<rparr>) = (Inr (), c')
    \<and> c_KnownTags c' ''arr'' = Some t \<and> kt_Instance t = 9 \<and> kt_Array_Order t = [7] \<and> length (c_sent c') = 2"
proof -
  let ?c = "demo_client\<lparr>c_script := page_replies demo_listing_header 9 1 0xD5 demo_symbols\<rparr>"
  have low: "strings_ToLower ''Abc'' = ''abc''" "strings_ToLower ''Arr'' = ''arr''" by code_simp+
  have plain: "\<forall>es\<in>set demo_symbols. \<forall>e\<in>set es. plain_symbol e"
    by (simp add: demo_symbols_def plain_symbol_def isValidTag_def has_prefix_def Template_ID_def tg_word_def template_of_def get_eval)
  have short: "\<forall>es\<in>set demo_symbols. length (concat (map entry_bytes es)) < 65000"
    by (simp add: demo_symbols_def entry_bytes_def)
  have c: "c_conn ?c" "c_socket ?c = []" "c_script ?c = page_replies demo_listing_header 9 1 0xD5 demo_symbols @ []"
    by (simp_all add: demo_client_def)
  have n: "demo_symbols \<noteq> []" "length demo_symbols \<le> 2" "(1 :: u32) < 2" by (simp_all add: demo_symbols_def)
  obtain c' where run: "ListAllTags 2 id 2 ?c = (Inr (), c')"
    and tags: "c_KnownTags c' = c_KnownTags ?c ++ map_of (rev (listed (concat demo_symbols)))"
    and sent: "c_sent c' = c_sent ?c @ page_requests ?c (c_sequenceValue ?c) 2 demo_symbols"
    using listing_enters_tags[OF n plain short c, of id] by blast
  let ?t = "new_KnownTag ''Arr'' (hd (demo_symbols ! 1)) None"
  have t: "kt_Instance ?t = 9" "kt_Array_Order ?t = [7]" by (simp_all add: new_KnownTag_def demo_symbols_def array_order_def)
  have "c_KnownTags c' ''arr'' = Some ?t"
    unfolding tags by (simp add: demo_symbols_def listed_def low)
  moreover have "length (c_sent c') = 2" unfolding sent by (simp add: demo_symbols_def demo_client_def)
  ultimately show ?thesis
    using run t by blast
qed

end
