(* ===== verification/Client_Identity.thy ===== *)
theory Client_Identity
  imports Client_Requests Session_Protocol
begin

text \<open>
  What a device says of itself: \<^verbatim>\<open>listidentity.go\<close> and \<^verbatim>\<open>listservices.go\<close>,
  and both queries against the server of this library.
\<close>

section \<open>Identity\<close>

record listIdentitySocketAddress =
  sa_Family :: u16
  sa_Port :: u16
  sa_Address :: u32
  sa_Zero0 :: u32
  sa_Zero1 :: u32

record listIdentityResponeBody =
  li_EncapProtocolVersion :: u16
  li_SocketAddress :: listIdentitySocketAddress
  li_Vendor :: u16
  li_DeviceType :: u16
  li_ProductCode :: u16
  li_Revision :: u16
  li_Status :: u16
  li_SerialNumber :: u32
  li_ProductName :: string
  li_State :: u8

text \<open>The socket address alone is big-endian.\<close>

definition be_socket :: "bytes \<Rightarrow> listIdentitySocketAddress" where
  "be_socket x =
     \<lparr>sa_Family = get16 (rev (take 2 x)), sa_Port = get16 (rev (take 2 (drop 2 x))),
      sa_Address = get32 (rev (take 4 (drop 4 x))), sa_Zero0 = get32 (rev (take 4 (drop 8 x))),
      sa_Zero1 = get32 (rev (take 4 (drop 12 x)))\<rparr>"

definition id_field :: "string \<Rightarrow> string" where
  "id_field f = ''problem reading list identity response. field '' @ f"

definition identity_ParseFromBytes :: "bytes \<Rightarrow> listIdentityResponeBody res" where
  "identity_ParseFromBytes data =
     attempt (id_field ''EncapProtocolVersion'') (rd16 data) (\<lambda>(version, r).
     attempt (id_field ''SocketAddress'') (read_full 16 r) (\<lambda>(sock, r).
     attempt (id_field ''Vendor'') (rd16 r) (\<lambda>(vendor, r).
     attempt (id_field ''DeviceType'') (rd16 r) (\<lambda>(device_type, r).
     attempt (id_field ''ProductCode'') (rd16 r) (\<lambda>(product_code, r).
     attempt (id_field ''Revision'') (rd16 r) (\<lambda>(revision, r).
     attempt (id_field ''Status'') (rd16 r) (\<lambda>(status, r).
     attempt (id_field ''SerialNumber'') (rd32 r) (\<lambda>(serial, r).
     attempt (id_field ''ProductNameLength'') (rd8 r) (\<lambda>(productNameLength, r).
     attempt (id_field ''ProductName'') (read_full (unat productNameLength) r) (\<lambda>(productName, r).
     attempt (id_field ''State'') (rd8 r) (\<lambda>(state, r).
     Inr \<lparr>li_EncapProtocolVersion = version, li_SocketAddress = be_socket sock, li_Vendor = vendor,
          li_DeviceType = device_type, li_ProductCode = product_code, li_Revision = revision, li_Status = status,
          li_SerialNumber = serial, li_ProductName = of_bytes productName, li_State = state\<rparr>)))))))))))"

definition ListIdentity :: "listIdentityResponeBody cact" where
  "ListIdentity =
     cbind (send_recv_data cipCommandListIdentity []) (\<lambda>(_, data).
     cneed ''couldn't parse items'' (readItems data) (\<lambda>(items, _).
     if items = [] then cfail (Msg ''expected at least 1 item'')
     else cneed ''problem reading list identity response'' (identity_ParseFromBytes (Data (hd items))) cret))"

section \<open>Services\<close>

record CIPListService =
  ls_EncapProtocolVersion :: u16
  ls_Capabilities :: u16
  ls_Name :: string

definition trim_zeros :: "bytes \<Rightarrow> bytes" where
  "trim_zeros bs = rev (dropWhile (\<lambda>b. b = 0) (rev bs))"

definition service_ParseFromBytes :: "bytes \<Rightarrow> CIPListService res" where
  "service_ParseFromBytes data =
     attempt ''problem reading list services response. field EncapProtocolVersion'' (rd16 data) (\<lambda>(version, r).
     attempt ''problem reading list services response. field CapFlags'' (rd16 r) (\<lambda>(capabilities, r).
     attempt ''problem reading list services response. field Name'' (read_full 16 r) (\<lambda>(name, _).
     Inr \<lparr>ls_EncapProtocolVersion = version, ls_Capabilities = capabilities, ls_Name = of_bytes (trim_zeros name)\<rparr>)))"

fun parse_services :: "CIPItem list \<Rightarrow> CIPListService list res" where
  "parse_services [] = Inr []"
| "parse_services (item # items) =
     attempt ''problem reading list services response'' (service_ParseFromBytes (Data item)) (\<lambda>s.
     andthen (parse_services items) (\<lambda>ss. Inr (s # ss)))"

definition ListServices :: "CIPListService list cact" where
  "ListServices =
     cbind (send_recv_data cipCommandListServices []) (\<lambda>(_, data).
     cneed ''couldn't parse items'' (readItems data) (\<lambda>(items, _).
     cres (parse_services items) cret))"

section \<open>Against the server\<close>

text \<open>A query without a message body, served and answered.\<close>

definition query :: "cip_command \<Rightarrow> Client \<Rightarrow> bytes" where
  "query cmd c = fst (sendMsgBuild cmd [] c)"

lemma serve_end: "serve fconv [] h = (wrap ''problem reading eip header'' EOF, h)"
  by (simp add: serve.simps [of fconv "[]"] read_eipHeader_def andthen_def read_full_def)

lemma query_served:
  assumes "\<And>hdr. eh_Command hdr = cmd \<Longrightarrow> eh_Context hdr = c_Context c \<Longrightarrow>
    dispatch fconv hdr [] (h\<lparr>h_context := eh_Context hdr\<rparr>) = (Inr [], h')"
  shows "snd (serve fconv (query cmd c) h) = h'"
proof -
  let ?hdr = "fst (c_newEIPHeader cmd 0 c)"
  have "query cmd c = eipHeader_Bytes ?hdr @ []" by (simp add: query_def sendMsgBuild_def split_beta)
  moreover have "dispatch fconv ?hdr [] (h\<lparr>h_context := eh_Context ?hdr\<rparr>) = (Inr [], h')"
    by (rule assms) (simp_all add: c_newEIPHeader_def)
  ultimately show ?thesis using serve_message[of fconv ?hdr "[]" h] by (simp add: serve_end)
qed

lemma query_answered:
  assumes "c_conn c" "c_socket c = []" "c_script c = Some (frame h cmd' reply) # s" "length reply < 65536"
  shows "\<exists>hdr. send_recv_data cmd [] c = (Inr (hdr, reply), c\<lparr>c_HeaderSequenceCounter := c_HeaderSequenceCounter c + 1,
    c_script := s, c_sent := c_sent c @ [query cmd c]\<rparr>)"
proof -
  let ?hdr = "h_newEIPHeader cmd' (length reply) h"
  have "unat (eh_Length ?hdr) = length reply" using assms(4) by (simp add: h_newEIPHeader_def unat_u16_of_nat)
  from send_recv_answered[OF assms(1,2) assms(3)[unfolded frame_def] this, of cmd "[]"]
  show ?thesis by (simp add: query_def)
qed

text \<open>The identity a server with these attributes announces.\<close>

definition announced :: "u16 \<Rightarrow> u16 \<Rightarrow> u16 \<Rightarrow> u16 \<Rightarrow> u16 \<Rightarrow> u32 \<Rightarrow> string \<Rightarrow> bytes \<Rightarrow> u16 \<Rightarrow> listIdentityResponeBody" where
  "announced vendor device_type product_code revision status serial name ip port =
     \<lparr>li_EncapProtocolVersion = 1,
      li_SocketAddress = \<lparr>sa_Family = 2, sa_Port = port, sa_Address = get32 (rev ip), sa_Zero0 = 0, sa_Zero1 = 0\<rparr>,
      li_Vendor = vendor, li_DeviceType = device_type, li_ProductCode = product_code, li_Revision = revision,
      li_Status = status, li_SerialNumber = serial, li_ProductName = take 255 name, li_State = 0xFF\<rparr>"

lemma be_socket_written:
  assumes "length ip = 4"
  shows "be_socket (rev (put16 2) @ rev (put16 port) @ pad_copy 4 ip @ zeros 8)
    = \<lparr>sa_Family = 2, sa_Port = port, sa_Address = get32 (rev ip), sa_Zero0 = 0, sa_Zero1 = 0\<rparr>"
proof -
  have "get32 (replicate 4 0) = 0" by (simp add: numeral_eq_Suc get_eval)
  then show ?thesis using assms by (simp add: be_socket_def pad_copy_def zeros_def get_eval)
qed

lemma identity_parsed:
  assumes "length ip = 4" "length name \<le> 255"
  shows "identity_ParseFromBytes (put16 1 @ (rev (put16 2) @ rev (put16 port) @ pad_copy 4 ip @ zeros 8)
      @ (put16 vendor @ put16 device_type @ put16 product_code @ put16 revision @ put16 status @ put32 serial
        @ [of_nat (length name)] @ to_bytes name) @ [0xFF])
    = Inr (announced vendor device_type product_code revision status serial name ip port)"
proof -
  let ?s = "rev (put16 2) @ rev (put16 port) @ pad_copy 4 ip @ zeros 8"
  have s: "read_full 16 (?s @ r) = Inr (?s, r)" for r by (rule read_full_append) (simp add: zeros_def)
  have n: "read_full (unat (of_nat (length name) :: u8)) (to_bytes name @ r) = Inr (to_bytes name, r)" for r
    using assms(2) by (intro read_full_append) (simp add: unat_of_nat take_bit_eq_mod)
  show ?thesis
    unfolding identity_ParseFromBytes_def using s n assms
    by (simp add: be_socket_written announced_def)
qed

definition identity_body :: "u16 \<Rightarrow> u16 \<Rightarrow> u16 \<Rightarrow> u16 \<Rightarrow> u16 \<Rightarrow> u32 \<Rightarrow> string \<Rightarrow> bytes \<Rightarrow> u16 \<Rightarrow> bytes" where
  "identity_body vendor device_type product_code revision status serial name ip port =
     put16 1 @ (rev (put16 2) @ rev (put16 port) @ pad_copy 4 ip @ zeros 8)
     @ (put16 vendor @ put16 device_type @ put16 product_code @ put16 revision @ put16 status @ put32 serial
        @ [of_nat (length (take 255 name))] @ to_bytes (take 255 name)) @ [0xFF]"

lemma length_identity_body: "length (identity_body a b c d e f name ip port) \<le> 289"
  by (simp add: identity_body_def zeros_def)

lemma identity_item:
  assumes "length body < 65536"
  shows "readItems (frameListIdentityResponse body)
    = Inr ([\<lparr>Header = \<lparr>hdr_ID = cipItem_ListIdentityResponse, hdr_Length = of_nat (length body)\<rparr>, Data = body, Pos = 0\<rparr>], [])"
proof -
  have "read_full (length body) (body @ []) = Inr (body, [])" by (rule read_full_append) simp
  moreover have "unat (1 :: u16) = Suc 0" by simp
  ultimately show ?thesis
    using assms by (simp add: readItems_def frameListIdentityResponse_def read_item_def read_full_def[of 4] unat_u16_of_nat)
qed

lemma identity_served:
  assumes "h_writable h" "attrs = srv_Attributes (h_server h)"
    and "attrs 1 = Some (VInt16 vendor)" "attrs 2 = Some (VInt16 device_type)" "attrs 3 = Some (VInt16 product_code)"
    and "attrs 4 = Some (VInt16 revision)" "attrs 5 = Some (VInt16 status)" "attrs 6 = Some (VUint32 serial)"
    and "attrs 7 = Some (VString name)"
  shows "\<exists>h0. h_out (snd (serve fconv (query cipCommandListIdentity c) h)) = h_out h @ [frame h0 cipCommandListIdentity
    (frameListIdentityResponse (identity_body vendor device_type product_code revision status serial name
      (h_local_ip h) (h_local_port h)))]"
proof -
  let ?h = "h\<lparr>h_context := c_Context c\<rparr>"
  let ?b = "identity_body vendor device_type product_code revision status serial name (h_local_ip h) (h_local_port h)"
  let ?h' = "?h\<lparr>h_out := h_out h @ [frame ?h cipCommandListIdentity (frameListIdentityResponse ?b)]\<rparr>"
  have "buildListIdentityItemBody (srv_Attributes (h_server h)) (h_local_ip h) (h_local_port h) = Inr ?b"
    using assms(3-9) unfolding assms(2)
    by (simp add: buildListIdentityItemBody_def identity_attrs_def attr_int16_def attr_uint32_def attr_string_def
        identity_body_def Let_def)
  then have "snd (serve fconv (query cipCommandListIdentity c) h) = ?h'"
    using assms(1) by (intro query_served) (simp add: dispatch_def sendListIdentityReply_def need_def seq_act_def bind_act_def
        ret_def h_send_def frame_def h_newEIPHeader_def)
  then show ?thesis by auto
qed

text \<open>
  C25.  A client that asks this library's server for its identity receives what the server's
  attribute table says: vendor, device type, product code, revision, status, serial number and
  the first 255 characters of the product name, with the address and port of the server's end of
  the connection, which travel in the other byte order than the rest.
\<close>

theorem identity_of_server:
  assumes "h_writable h" "length (h_local_ip h) = 4" "attrs = srv_Attributes (h_server h)"
    and "attrs 1 = Some (VInt16 vendor)" "attrs 2 = Some (VInt16 device_type)" "attrs 3 = Some (VInt16 product_code)"
    and "attrs 4 = Some (VInt16 revision)" "attrs 5 = Some (VInt16 status)" "attrs 6 = Some (VUint32 serial)"
    and "attrs 7 = Some (VString name)"
    and "c_conn c" "c_socket c = []"
  shows "\<exists>f c'. h_out (snd (serve fconv (query cipCommandListIdentity c) h)) = h_out h @ [f]
    \<and> ListIdentity (c\<lparr>c_script := [Some f]\<rparr>)
      = (Inr (announced vendor device_type product_code revision status serial name (h_local_ip h) (h_local_port h)), c')
    \<and> c_sent c' = c_sent c @ [query cipCommandListIdentity c]"
proof -
  let ?b = "identity_body vendor device_type product_code revision status serial name (h_local_ip h) (h_local_port h)"
  let ?r = "frameListIdentityResponse ?b"
  obtain h0 where out: "h_out (snd (serve fconv (query cipCommandListIdentity c) h)) = h_out h @ [frame h0 cipCommandListIdentity ?r]"
    using identity_served[OF assms(1,3-10)] by blast
  have l: "length ?b < 65536" "length ?r < 65536"
    using length_identity_body[of vendor device_type product_code revision status serial name "h_local_ip h" "h_local_port h"]
    by (simp_all add: frameListIdentityResponse_def)
  let ?c = "c\<lparr>c_script := [Some (frame h0 cipCommandListIdentity ?r)]\<rparr>"
  obtain hdr where run: "send_recv_data cipCommandListIdentity [] ?c = (Inr (hdr, ?r),
      ?c\<lparr>c_HeaderSequenceCounter := c_HeaderSequenceCounter c + 1, c_script := [], c_sent := c_sent c @ [query cipCommandListIdentity ?c]\<rparr>)"
    using query_answered[of ?c h0 cipCommandListIdentity ?r "[]"] assms(11,12) l(2) by auto
  have "identity_ParseFromBytes ?b
      = Inr (announced vendor device_type product_code revision status serial (take 255 name) (h_local_ip h) (h_local_port h))"
    unfolding identity_body_def by (rule identity_parsed) (use assms(2) in simp_all)
  moreover have "announced vendor device_type product_code revision status serial (take 255 name) (h_local_ip h) (h_local_port h)
      = announced vendor device_type product_code revision status serial name (h_local_ip h) (h_local_port h)"
    by (simp add: announced_def)
  moreover have "query cipCommandListIdentity ?c = query cipCommandListIdentity c"
    by (simp add: query_def sendMsgBuild_def c_newEIPHeader_def)
  ultimately show ?thesis
    using out run identity_item[OF l(1)] by (simp add: ListIdentity_def cbind_def cret_def)
qed

theorem identity_of_server_witness:
  "\<exists>f c' b. h_out (snd (serve (\<lambda>_ _. None) (query cipCommandListIdentity demo_client)
      ((new_handler demo_server)\<lparr>h_local_ip := [192, 168, 1, 5], h_local_port := 44818\<rparr>))) = [f]
    \<and> ListIdentity (demo_client\<lparr>c_script := [Some f]\<rparr>) = (Inr b, c')
    \<and> li_Vendor b = 0x1776 \<and> sa_Address (li_SocketAddress b) = 0xC0A80105 \<and> sa_Port (li_SocketAddress b) = 44818"
proof -
  let ?h = "(new_handler demo_server)\<lparr>h_local_ip := [192, 168, 1, 5], h_local_port := 44818\<rparr>"
  have a: "srv_Attributes (h_server ?h) = srv_Attributes demo_server" by (simp add: new_handler_def)
  have v: "srv_Attributes demo_server 1 = Some (VInt16 0x1776)" "srv_Attributes demo_server 2 = Some (VInt16 0x000E)"
    "srv_Attributes demo_server 3 = Some (VInt16 0x0001)" "srv_Attributes demo_server 4 = Some (VInt16 0x1412)"
    "srv_Attributes demo_server 5 = Some (VInt16 0x3060)" "srv_Attributes demo_server 6 = Some (VUint32 100)"
    "srv_Attributes demo_server 7 = Some (VString ''Gologix'')"
    by (simp_all add: demo_server_def NewServer_def)
  have h: "h_writable ?h" "length (h_local_ip ?h) = 4" "h_out ?h = []" by (simp_all add: new_handler_def)
  have c: "c_conn demo_client" "c_socket demo_client = []" by (simp_all add: demo_client_def)
  have "get32 (rev (h_local_ip ?h)) = 0xC0A80105" by (simp add: get_eval)
  with identity_of_server[OF h(1,2) a[symmetric] v c, of "\<lambda>_ _. None"] h(3) show ?thesis by (auto simp: announced_def)
qed

lemma listServices_item:
  "readItems listServicesReply = Inr ([\<lparr>Header = \<lparr>hdr_ID = 0x0100, hdr_Length = 10\<rparr>,
     Data = put16 1 @ put16 (2 ^ 5 OR 2 ^ 8) @ to_bytes ''Commun'', Pos = 0\<rparr>], to_bytes ''ications  '')"
proof -
  let ?d = "put16 1 @ put16 (2 ^ 5 OR 2 ^ 8) @ to_bytes ''Commun''"
  have "read_full 10 (?d @ to_bytes ''ications  '') = Inr (?d, to_bytes ''ications  '')"
    by (rule read_full_append) simp
  moreover have "unat (1 :: u16) = Suc 0" by simp
  ultimately show ?thesis
    by (simp add: readItems_def listServicesReply_def read_item_def read_full_def[of 4])
qed

lemma services_served:
  assumes "h_writable h"
  shows "\<exists>h0. h_out (snd (serve fconv (query cipCommandListServices c) h))
    = h_out h @ [frame h0 cipCommandSendRRData listServicesReply]"
proof -
  let ?h = "h\<lparr>h_context := c_Context c\<rparr>"
  have "snd (serve fconv (query cipCommandListServices c) h)
      = ?h\<lparr>h_out := h_out h @ [frame ?h cipCommandSendRRData listServicesReply]\<rparr>"
    using assms by (intro query_served) (simp add: dispatch_def sendListServicesData_def seq_act_def bind_act_def
        ret_def h_send_def frame_def h_newEIPHeader_def)
  then show ?thesis by auto
qed

text \<open>
  \<^const>\<open>ListServices\<close> always fails against this library's own server.  The reply announces an
  item of ten bytes for the twenty it carries, and the client, which reads a name of sixteen
  bytes behind the first four, finds six.
\<close>

theorem services_of_server_unreadable:
  assumes "h_writable h" "c_conn c" "c_socket c = []"
  shows "\<exists>f e. h_out (snd (serve fconv (query cipCommandListServices c) h)) = h_out h @ [f]
    \<and> fst (ListServices (c\<lparr>c_script := [Some f]\<rparr>)) = Inl e \<and> \<not> is_panic e"
proof -
  obtain h0 where out: "h_out (snd (serve fconv (query cipCommandListServices c) h))
      = h_out h @ [frame h0 cipCommandSendRRData listServicesReply]"
    using services_served[OF assms(1)] by blast
  let ?c = "c\<lparr>c_script := [Some (frame h0 cipCommandSendRRData listServicesReply)]\<rparr>"
  obtain hdr where run: "send_recv_data cipCommandListServices [] ?c = (Inr (hdr, listServicesReply),
      ?c\<lparr>c_HeaderSequenceCounter := c_HeaderSequenceCounter c + 1, c_script := [], c_sent := c_sent c @ [query cipCommandListServices ?c]\<rparr>)"
    using query_answered[of ?c h0 cipCommandSendRRData listServicesReply "[]"] assms(2,3) by (auto simp: listServicesReply_def)
  have "service_ParseFromBytes (put16 1 @ put16 (2 ^ 5 OR 2 ^ 8) @ to_bytes ''Commun'')
      = Inl (wrap ''problem reading list services response. field Name'' UnexpectedEOF)"
    by (simp add: service_ParseFromBytes_def read_full_def)
  then show ?thesis
    using out run by (simp add: ListServices_def cbind_def listServices_item cfail_def)
qed

theorem services_of_server_unreadable_witness:
  "\<exists>f e. h_out (snd (serve (\<lambda>_ _. None) (query cipCommandListServices demo_client) (new_handler demo_server))) = [f]
    \<and> fst (ListServices (demo_client\<lparr>c_script := [Some f]\<rparr>)) = Inl e"
proof -
  have "h_writable (new_handler demo_server)" "c_conn demo_client" "c_socket demo_client = []" "h_out (new_handler demo_server) = []"
    by (simp_all add: new_handler_def demo_client_def)
  with services_of_server_unreadable[of "new_handler demo_server" demo_client "\<lambda>_ _. None"] show ?thesis by auto
qed

end
