(* ===== verification/Tag_Groups.thy ===== *)
theory Tag_Groups
  imports ReadList_Replies Ioi_Roundtrip
begin

text \<open>
  Groups of tags with parameters in their names: \<^verbatim>\<open>taggroup.go\<close> and
  \<^verbatim>\<open>taggroup_readmap.go\<close>.
\<close>

section \<open>Definitions of tags\<close>

record TagDef =
  df_Name :: string
  df_Type :: cip_type
  df_Elements :: int

record TagGroup =
  tg_defs :: "TagDef list"

definition NewTagGroup :: "TagDef list \<Rightarrow> TagGroup" where
  "NewTagGroup defs = \<lparr>tg_defs = map (\<lambda>d. if df_Elements d \<le> 0 then d\<lparr>df_Elements := 1\<rparr> else d) defs\<rparr>"

definition Defs :: "TagGroup \<Rightarrow> TagDef list" where
  "Defs g = tg_defs g"

text \<open>The element types of the two switches; they differ for WORD.\<close>

definition array_elem_type :: "cip_type \<Rightarrow> gotype" where
  "array_elem_type t =
     (if t = CIPTypeBOOL then TBool
      else if t = CIPTypeSINT then TInt8
      else if t = CIPTypeBYTE \<or> t = CIPTypeUSINT then TUint8
      else if t = CIPTypeINT then TInt16
      else if t = CIPTypeUINT then TUint16
      else if t = CIPTypeDINT then TInt32
      else if t = CIPTypeUDINT \<or> t = CIPTypeDWORD then TUint32
      else if t = CIPTypeLINT then TInt64
      else if t = CIPTypeLWORD \<or> t = CIPTypeULINT then TUint64
      else if t = CIPTypeREAL then TFloat32
      else if t = CIPTypeLREAL then TFloat64
      else if t = CIPTypeSTRING then TString
      else TInt32)"

definition scalar_elem_type :: "cip_type \<Rightarrow> gotype" where
  "scalar_elem_type t = (if t = CIPTypeWORD then TUint16 else array_elem_type t)"

definition zeroValueForTagDef :: "TagDef \<Rightarrow> goval" where
  "zeroValueForTagDef def =
     (if df_Elements def > 1
      then VSlice (array_elem_type (df_Type def)) (replicate (nat (df_Elements def)) (zero_val (array_elem_type (df_Type def))))
      else zero_val (scalar_elem_type (df_Type def)))"

definition itoa_int :: "int \<Rightarrow> string" where
  "itoa_int i = (if i < 0 then CHR ''-'' # itoa (nat (- i)) else itoa (nat i))"

definition expandArrayTag :: "string \<Rightarrow> int \<Rightarrow> string list" where
  "expandArrayTag baseName num =
     (if num \<le> 1 then [baseName]
      else case parse_tag_name baseName of
        Inl _ \<Rightarrow> replicate (nat num) baseName
      | Inr tag \<Rightarrow>
          if Array_Order tag = [] then replicate (nat num) baseName
          else case strings_LastIndex baseName CHR ''['' of
            None \<Rightarrow> replicate (nat num) baseName
          | Some bracketPos \<Rightarrow>
              let base = take bracketPos baseName; baseIndex = last (Array_Order tag) in
              map (\<lambda>i. base @ ''['' @ strings_join CHR '',''
                     (map itoa_int (butlast (Array_Order tag)) @ [itoa_int (baseIndex + int i)]) @ '']'')
                [0..<nat num])"

section \<open>Results\<close>

record TagGroupResult =
  gr_values :: "(string \<times> goval) list"

abbreviation not_found :: gerror where "not_found \<equiv> Msg ''tag not found in result''"

definition gr_Raw :: "TagGroupResult \<Rightarrow> (string \<times> goval) list" where
  "gr_Raw r = gr_values r"

definition gr_Value :: "TagGroupResult \<Rightarrow> string \<Rightarrow> goval res" where
  "gr_Value r name = (case map_of (gr_values r) name of None \<Rightarrow> Inl not_found | Some v \<Rightarrow> Inr v)"

definition gr_String :: "TagGroupResult \<Rightarrow> string \<Rightarrow> string res" where
  "gr_String r name = andthen (gr_Value r name) (\<lambda>v. case v of VString s \<Rightarrow> Inr s | _ \<Rightarrow> Inl (Msg ''tag is not string''))"

definition gr_Bool :: "TagGroupResult \<Rightarrow> string \<Rightarrow> bool res" where
  "gr_Bool r name = andthen (gr_Value r name) (\<lambda>v. case v of VBool b \<Rightarrow> Inr b | _ \<Rightarrow> Inl (Msg ''tag is not bool''))"

definition gr_Int16 :: "TagGroupResult \<Rightarrow> string \<Rightarrow> u16 res" where
  "gr_Int16 r name = andthen (gr_Value r name) (\<lambda>v. case v of VInt16 w \<Rightarrow> Inr w | _ \<Rightarrow> Inl (Msg ''tag is not int16''))"

definition gr_Int32 :: "TagGroupResult \<Rightarrow> string \<Rightarrow> u32 res" where
  "gr_Int32 r name = andthen (gr_Value r name) (\<lambda>v. case v of VInt32 w \<Rightarrow> Inr w | _ \<Rightarrow> Inl (Msg ''tag is not int32''))"

definition gr_Uint32 :: "TagGroupResult \<Rightarrow> string \<Rightarrow> u32 res" where
  "gr_Uint32 r name = andthen (gr_Value r name) (\<lambda>v.
     case v of VUint32 w \<Rightarrow> Inr w | VInt32 w \<Rightarrow> Inr w | _ \<Rightarrow> Inl (Msg ''tag is not uint32 or int32''))"

definition gr_Float32 :: "TagGroupResult \<Rightarrow> string \<Rightarrow> u32 res" where
  "gr_Float32 r name = andthen (gr_Value r name) (\<lambda>v. case v of VFloat32 w \<Rightarrow> Inr w | _ \<Rightarrow> Inl (Msg ''tag is not float32''))"

definition gr_Float64 :: "TagGroupResult \<Rightarrow> string \<Rightarrow> u64 res" where
  "gr_Float64 r name = andthen (gr_Value r name) (\<lambda>v. case v of VFloat64 w \<Rightarrow> Inr w | _ \<Rightarrow> Inl (Msg ''tag is not float64''))"

fun as_int32 :: "goval \<Rightarrow> u32 res" where
  "as_int32 (VInt32 w) = Inr w"
| "as_int32 v = Inl (Msg ''element is not int32'')"

fun as_float32 :: "goval \<Rightarrow> u32 res" where
  "as_float32 (VFloat32 w) = Inr w"
| "as_float32 v = Inl (Msg ''element is not float32'')"

definition gr_Int32Slice :: "TagGroupResult \<Rightarrow> string \<Rightarrow> u32 list res" where
  "gr_Int32Slice r name = andthen (gr_Value r name) (\<lambda>v.
     case v of
       VSlice t xs \<Rightarrow> if t = TInt32 \<or> t = TAny then map_res as_int32 xs else Inl (Msg ''tag is not []int32 or []any'')
     | _ \<Rightarrow> Inl (Msg ''tag is not []int32 or []any''))"

definition gr_Float32Slice :: "TagGroupResult \<Rightarrow> string \<Rightarrow> u32 list res" where
  "gr_Float32Slice r name = andthen (gr_Value r name) (\<lambda>v.
     case v of
       VSlice t xs \<Rightarrow> if t = TFloat32 \<or> t = TAny then map_res as_float32 xs else Inl (Msg ''tag is not []float32 or []any'')
     | _ \<Rightarrow> Inl (Msg ''tag is not []float32 or []any''))"

section \<open>Reading a group\<close>

text \<open>
  The map \<^verbatim>\<open>m\<close> of the source, with its entries as they were put; \<open>order\<close> is the order in which
  \<^verbatim>\<open>ReadMap\<close> meets them.
\<close>

definition group_map :: "string list \<Rightarrow> TagDef list \<Rightarrow> (string \<times> goval) list" where
  "group_map args defs = fold (\<lambda>def m. dict_put (formatName (df_Name def) args) (zeroValueForTagDef def) m) defs []"

definition ReadTagGroup ::
  "((string \<times> goval) list \<Rightarrow> (string \<times> goval) list) \<Rightarrow> TagGroup \<Rightarrow> string list \<Rightarrow> TagGroupResult cact" where
  "ReadTagGroup order grp args =
     cwrap ''could not start tag group read'' checkConn (\<lambda>_.
     cwrap ''tag group read failed'' (ReadMap (order (group_map args (tg_defs grp)))) (\<lambda>(m, _).
     cret \<lparr>gr_values = m\<rparr>))"

section \<open>Names of array elements\<close>

lemma bit_access_text_close: "bit_access_text (s @ '']'') = None"
  by (simp add: bit_access_text_def Let_def)

lemma parse_any_indexed:
  assumes "is \<noteq> []" "\<forall>i\<in>set is. i < 65536"
  shows "\<exists>t. parse_tag_name (n @ print_index is) = Inr t \<and> Array_Order t = map int is"
proof -
  let ?t = "strings_join CHR '','' (map itoa is)"
  have "bit_access_text (n @ ''['' @ ?t @ '']'') = None"
    using bit_access_text_close[of "n @ ''['' @ ?t"] by simp
  moreover have "arr_access_text (n @ ''['' @ ?t @ '']'') = Some ?t"
    using index_char_join by (rule arr_access_text_print)
  moreover have "atoi_list (if CHR '','' \<in> set ?t then strings_split CHR '','' ?t else [?t]) = Inr (map int is)"
    using assms by (auto simp: split_join_itoa join_single atoi_list_itoa)
  ultimately show ?thesis using assms(1) by (simp add: parse_tag_name_def print_index_def Let_def)
qed

lemma last_bracket: "is \<noteq> [] \<Longrightarrow> strings_LastIndex (n @ print_index is) CHR ''['' = Some (length n)"
proof -
  have "CHR ''['' \<notin> set (strings_join CHR '','' (map itoa is) @ '']'')"
    using index_char_join[of "is"] index_char_not_open by auto
  then show "is \<noteq> [] \<Longrightarrow> ?thesis"
    using strings_LastIndex_append[of "CHR ''[''" "strings_join CHR '','' (map itoa is) @ '']''" n] by (simp add: print_index_def)
qed

lemma itoa_int_of_nat: "itoa_int (int n) = itoa n" "itoa_int (int n + int k) = itoa (n + k)"
  by (simp_all add: itoa_int_def nat_add_distrib)

text \<open>
  The elements of an array tag: \<^const>\<open>expandArrayTag\<close> on a name that ends in a list of
  indices gives the names of as many consecutive elements along the last dimension, whatever stands
  before the brackets; each of them is again a name with those indices.
\<close>

theorem array_tag_expanded:
  assumes "\<forall>i\<in>set (is @ [k]). i < 65536" "0 < n"
  shows "expandArrayTag (base @ print_index (is @ [k])) (int n)
    = map (\<lambda>i. base @ print_index (is @ [k + i])) [0..<n]"
proof (cases "n = 1")
  case False
  obtain t where t: "parse_tag_name (base @ print_index (is @ [k])) = Inr t" "Array_Order t = map int (is @ [k])"
    using parse_any_indexed[of "is @ [k]" base] assms(1) by auto
  have "print_index (is @ [j]) = ''['' @ strings_join CHR '','' (map itoa is @ [itoa j]) @ '']''" for j
    by (simp add: print_index_def)
  then show ?thesis
    using False assms(2) t last_bracket[of "is @ [k]" base]
    by (simp add: expandArrayTag_def Let_def itoa_int_of_nat map_butlast comp_def)
qed (simp add: expandArrayTag_def)

theorem array_tag_expanded_witness:
  "expandArrayTag ''Program:Main.STATS[1,0]'' 3
    = [''Program:Main.STATS[1,0]'', ''Program:Main.STATS[1,1]'', ''Program:Main.STATS[1,2]'']"
proof -
  have d: "itoa 0 = ''0''" "itoa 1 = ''1''" "itoa 2 = ''2''" by code_simp+
  have "print_index [1, k] = ''[1,'' @ itoa k @ '']''" for k using d by (simp add: print_index_def)
  then show ?thesis
    using array_tag_expanded[of "[1]" 0 3 "''Program:Main.STATS''"] d by (simp add: upt_rec numeral_2_eq_2)
qed

section \<open>What a read of a group returns\<close>

lemma checkConn_Connected: "checkConn c = (Inr u, c') \<Longrightarrow> c_Connected c'"
  by (auto simp: checkConn_def checkConnection_def c_Connected_def Connect_def startConnect_def
      split: list.splits prod.splits sum.splits if_splits)

lemma ReadMap_connected:
  assumes "ReadMap m c = (Inr (m', ks), c')" "c_Connected c"
  shows "map fst m' = map fst m \<and> (\<forall>i<length m. read_value (tag_of (fst (m ! i)) (snd (m ! i))) (snd (m' ! i)))"
proof -
  from assms obtain vs where vs: "read_batches (\<lambda>ts _. readListFragAll ts) (map (\<lambda>(k, v). tag_of k v) m) None
        [0..<length m] (replicate (length m) VNil) c = (Inr vs, c')"
      and m': "m' = zip (map fst m) vs"
    by (auto simp: ReadMap_def read_map_def checkConn_def cbind_Inr cret_Inr)
  from map_reader.read_batches_each[OF vs] m' show ?thesis by (auto simp: split_beta)
qed

lemma map_of_dict_put: "map_of (dict_put k v d) = (map_of d)(k \<mapsto> v)"
proof
  fix x
  show "map_of (dict_put k v d) x = ((map_of d)(k \<mapsto> v)) x"
    unfolding dict_put_def by (induction d) auto
qed

lemma distinct_dict_put: "distinct (map fst d) \<Longrightarrow> distinct (map fst (dict_put k v d))"
  by (auto simp: dict_put_def distinct_map inj_on_def)

lemma distinct_group_map: "distinct (map fst (group_map args defs))"
proof -
  have "distinct (map fst m) \<Longrightarrow> distinct (map fst (fold (\<lambda>def m. dict_put (formatName (df_Name def) args) (zeroValueForTagDef def) m) defs m))" for m
    by (induction defs arbitrary: m) (simp_all add: distinct_dict_put)
  then show ?thesis by (simp add: group_map_def)
qed

lemma map_of_group:
  "map_of (fold (\<lambda>def m. dict_put (formatName (df_Name def) args) (zeroValueForTagDef def) m) defs m)
    = map_of m ++ map_of (rev (map (\<lambda>d. (formatName (df_Name d) args, zeroValueForTagDef d)) defs))"
  by (induction defs arbitrary: m) (auto simp: map_of_dict_put fun_eq_iff map_add_def split: option.splits)

lemma entries_read:
  assumes "map fst m' = map fst m" "\<forall>i<length m. P (fst (m ! i)) (snd (m ! i)) (snd (m' ! i))"
    and "distinct (map fst m)" "(k, v) \<in> set m"
  shows "\<exists>v'. map_of m' k = Some v' \<and> P k v v'"
proof -
  have len: "length m' = length m" using assms(1) by (metis length_map)
  obtain i where i: "i < length m" "m ! i = (k, v)" using assms(4) by (auto simp: in_set_conv_nth)
  have "fst (m' ! i) = k" using assms(1) i len by (metis fst_conv nth_map)
  then have "(k, snd (m' ! i)) \<in> set m'" using i(1) len by (metis nth_mem prod.collapse)
  then have "map_of m' k = Some (snd (m' ! i))" using assms(1,3) by (intro map_of_is_SomeI) simp_all
  then show ?thesis using assms(2) i by auto
qed


definition demo_group :: TagGroup where
  "demo_group = NewTagGroup [\<lparr>df_Name = ''a{0}c'', df_Type = CIPTypeDINT, df_Elements = 0\<rparr>,
     \<lparr>df_Name = ''De'', df_Type = CIPTypeINT, df_Elements = 7\<rparr>]"


text \<open>
  Two definitions that do not ask for what they name: an array of BOOL is asked for as one element of
  no type, because the type switch of \<^const>\<open>GoVarToCIPType\<close> does not list slices of booleans, and an
  array of WORD is asked for as an array of 32-bit numbers.
\<close>

lemma bool_array_untyped:
  "df_Type d = CIPTypeBOOL \<Longrightarrow> 1 < df_Elements d \<Longrightarrow>
   td_TagType (tag_of name (zeroValueForTagDef d)) = CIPTypeUnknown \<and> td_Elements (tag_of name (zeroValueForTagDef d)) = 1"
  by (simp add: zeroValueForTagDef_def array_elem_type_def tag_of_def)

lemma word_array_as_dint:
  "df_Type d = CIPTypeWORD \<Longrightarrow> 1 < df_Elements d \<Longrightarrow>
   td_TagType (tag_of name (zeroValueForTagDef d)) = CIPTypeDINT"
  "df_Type d = CIPTypeWORD \<Longrightarrow> df_Elements d \<le> 1 \<Longrightarrow>
   td_TagType (tag_of name (zeroValueForTagDef d)) = CIPTypeUINT"
  by (simp_all add: zeroValueForTagDef_def array_elem_type_def scalar_elem_type_def tag_of_def)

end
