(* ===== verification/Data_Table.thy ===== *)
theory Data_Table
  imports Tag_Groups
begin

text \<open>
  Datatable buffers: \<^verbatim>\<open>datatable.go\<close>.  A buffer lives in the controller; the client adds tags to
  it, in batches, and reads the values of all of them with one request.
\<close>

section \<open>State\<close>

text \<open>
  The field \<^verbatim>\<open>Var\<close> of a tag is an \<^verbatim>\<open>any\<close>: a pointer to a variable of the caller, or some other value.
  The variables of the caller are a store; \<open>db_vars\<close> is their content.
\<close>

datatype var_ref = Pointer nat | NotPointer goval

record DataTableBufferTag =
  bt_Name :: string
  bt_CIPType :: cip_type
  bt_DataTypeSize :: u16
  bt_index :: u16
  bt_ioi :: bytes
  bt_batchID :: u16
  bt_synched :: bool
  bt_Var :: "var_ref option"

record DataTableBuffer =
  db_client :: Client
  db_instanceID :: u16
  db_tags :: "DataTableBufferTag list"
  db_expansions :: "(string \<times> string list) list"
  db_created :: bool
  db_synched :: bool
  db_vars :: "nat \<Rightarrow> goval"

section \<open>Sizes and values\<close>

definition dataTablePath :: "u16 \<Rightarrow> bytes" where
  "dataTablePath instanceID = [0x20, 0xB2, 0x25, 0x00] @ put16 instanceID"

definition dataTableTypeSize :: "cip_type \<Rightarrow> u16 res" where
  "dataTableTypeSize t =
     (if t = CIPTypeSTRING then Inr 88
      else if t = CIPTypeStruct then Inr 88
      else let s = CIPType_Size t in
        if s = 0 then Inl (Msg ''unsupported CIP type for datatable buffer'') else Inr (of_nat s))"

definition resolveTypeSize :: "(string \<rightharpoonup> KnownTag) \<Rightarrow> string \<Rightarrow> cip_type \<Rightarrow> u16 res" where
  "resolveTypeSize known tagName cipType =
     (if cipType = CIPTypeSTRING \<or> cipType = CIPTypeStruct then
        (case known (strings_ToLower tagName) of
           None \<Rightarrow> dataTableTypeSize cipType
         | Some kt \<Rightarrow>
             (case kt_UDT kt of
                None \<Rightarrow> dataTableTypeSize cipType
              | Some u \<Rightarrow> if ta_SizeBytes (ud_Info u) > 0 then Inr (ucast (ta_SizeBytes (ud_Info u)))
                          else dataTableTypeSize cipType))
      else dataTableTypeSize cipType)"

definition decodeDataTableValue :: "cip_type \<Rightarrow> bytes \<Rightarrow> goval res" where
  "decodeDataTableValue cipType raw =
     (if cipType = CIPTypeSTRING \<or> cipType = CIPTypeStruct then
        if length raw < 4 then Inl (Msg ''STRING data too short'')
        else let strLen = get32 (take 4 raw);
                 strLen = (if strLen > of_nat (length raw - 4) then of_nat (length raw - 4) else strLen);
                 strLen = (if strLen > 82 then 82 else strLen) in
          Inr (VString (of_bytes (take (unat strLen) (drop 4 raw))))
      else andthen (readValue cipType raw) (\<lambda>(v, _). Inr v))"

section \<open>Services of the buffer object\<close>

abbreviation CIPService_Create :: cip_service where "CIPService_Create \<equiv> 0x08"
abbreviation CIPService_Delete :: cip_service where "CIPService_Delete \<equiv> 0x09"
abbreviation CIPService_RemoveTagFromBuffer :: cip_service where "CIPService_RemoveTagFromBuffer \<equiv> 0x4F"

definition CreateDataTableBuffer :: "u16 cact" where
  "CreateDataTableBuffer =
     cwrap ''could not create datatable buffer'' checkConn (\<lambda>_.
     cwrap ''datatable buffer create failed''
       (GenericCIPMessage CIPService_Create (dataTablePath 0) [0x01, 0x00, 0x03, 0x00, 0x03, 0x00]) (\<lambda>resp.
     cneed ''could not read instance ID from create response'' (item_Uint16 resp) (\<lambda>(instanceID, _).
     cret instanceID)))"

definition DeleteDataTableBuffer :: "u16 \<Rightarrow> unit cact" where
  "DeleteDataTableBuffer instanceID =
     cwrap ''could not delete datatable buffer'' checkConn (\<lambda>_.
     cwrap ''datatable buffer delete failed'' (GenericCIPMessage CIPService_Delete (dataTablePath instanceID) []) (\<lambda>_.
     cret ()))"

record addTagEntry =
  ae_dataTypeSize :: u16
  ae_ioi :: bytes
  ae_index :: nat

definition add_entry_bytes :: "addTagEntry \<Rightarrow> bytes" where
  "add_entry_bytes e = put16 (ae_dataTypeSize e) @ [of_nat (length (ae_ioi e) div 2)] @ ae_ioi e"

definition add_tags_data :: "addTagEntry list \<Rightarrow> bytes" where
  "add_tags_data entries = [0x02, 0x00, 0x01, 0x01] @ [of_nat (length entries)] @ concat (map add_entry_bytes entries)"

definition DataTableAddTags :: "u16 \<Rightarrow> addTagEntry list \<Rightarrow> u16 cact" where
  "DataTableAddTags instanceID entries =
     cwrap ''could not add tag to datatable buffer'' checkConn (\<lambda>_.
     cwrap ''datatable add tag failed'' (GenericCIPMessage 0x4E (dataTablePath instanceID) (add_tags_data entries)) (\<lambda>resp.
     cneed ''could not read batch index from add tag response'' (item_Uint16 resp) (\<lambda>(batchIndex, _).
     cret batchIndex)))"

definition DataTableAddTag :: "u16 \<Rightarrow> u16 \<Rightarrow> bytes \<Rightarrow> u16 cact" where
  "DataTableAddTag instanceID dataTypeSize tagIOIs =
     DataTableAddTags instanceID [\<lparr>ae_dataTypeSize = dataTypeSize, ae_ioi = tagIOIs, ae_index = 0\<rparr>]"

definition DataTableReadBuffer :: "u16 \<Rightarrow> CIPItem cact" where
  "DataTableReadBuffer instanceID =
     cwrap ''could not read datatable buffer'' checkConn (\<lambda>_.
     cwrap ''datatable buffer read failed'' (GenericCIPMessage CIPService_Read (dataTablePath instanceID) []) cret)"

definition DataTableRemoveTag :: "u16 \<Rightarrow> u16 \<Rightarrow> unit cact" where
  "DataTableRemoveTag instanceID tagIndex =
     cwrap ''could not remove tag from datatable buffer'' checkConn (\<lambda>_.
     cwrap ''datatable remove tag failed''
       (GenericCIPMessage CIPService_RemoveTagFromBuffer (dataTablePath instanceID) (put16 tagIndex)) (\<lambda>_.
     cret ()))"

section \<open>Actions on a buffer\<close>

type_synonym 'a dact = "DataTableBuffer \<Rightarrow> 'a res \<times> DataTableBuffer"

definition on_client :: "'a cact \<Rightarrow> 'a dact" where
  "on_client f buf = (case f (db_client buf) of (r, c) \<Rightarrow> (r, buf\<lparr>db_client := c\<rparr>))"

definition dret :: "'a \<Rightarrow> 'a dact" where
  "dret x buf = (Inr x, buf)"

definition dfail :: "gerror \<Rightarrow> 'a dact" where
  "dfail e buf = (Inl e, buf)"

definition dbind :: "'a dact \<Rightarrow> ('a \<Rightarrow> 'b dact) \<Rightarrow> 'b dact" where
  "dbind f g buf = (case f buf of (Inl e, buf') \<Rightarrow> (Inl e, buf') | (Inr x, buf') \<Rightarrow> g x buf')"

definition dwrap :: "string \<Rightarrow> 'a dact \<Rightarrow> ('a \<Rightarrow> 'b dact) \<Rightarrow> 'b dact" where
  "dwrap m f g buf = (case f buf of (Inl e, buf') \<Rightarrow> (Inl (wrap m e), buf') | (Inr x, buf') \<Rightarrow> g x buf')"

definition dcreated :: "'a dact \<Rightarrow> 'a dact" where
  "dcreated f buf = (if db_created buf then f buf else (Inl (Msg ''datatable buffer not created''), buf))"

lemma dact_simps [simp]:
  "dret x buf = (Inr x, buf)" "dfail e buf = (Inl e, buf)"
  "db_created buf \<Longrightarrow> dcreated f buf = f buf"
  by (simp_all add: dret_def dfail_def dcreated_def)

definition NewDataTableBuffer :: "(nat \<Rightarrow> goval) \<Rightarrow> Client \<Rightarrow> DataTableBuffer res \<times> Client" where
  "NewDataTableBuffer vars c =
     (case CreateDataTableBuffer c of
        (Inl e, c1) \<Rightarrow> (Inl e, c1)
      | (Inr instanceID, c1) \<Rightarrow>
          (Inr \<lparr>db_client = c1, db_instanceID = instanceID, db_tags = [], db_expansions = [], db_created = True,
                db_synched = False, db_vars = vars\<rparr>, c1))"

section \<open>Adding tags\<close>

text \<open>The path and the slot size of a tag.\<close>

definition prepare_tag :: "string \<Rightarrow> cip_type \<Rightarrow> (u16 \<times> bytes) dact" where
  "prepare_tag tagName cipType =
     dwrap ''could not create IOI for tag'' (on_client (c_newIOI tagName cipType)) (\<lambda>ioi.
     dwrap ''tag'' (\<lambda>buf. (resolveTypeSize (c_KnownTags (db_client buf)) tagName cipType, buf)) (\<lambda>typeSize.
     dret (typeSize, ioi_Buffer ioi)))"

definition new_tag :: "string \<Rightarrow> cip_type \<Rightarrow> u16 \<Rightarrow> u16 \<Rightarrow> bytes \<Rightarrow> var_ref option \<Rightarrow> DataTableBufferTag" where
  "new_tag name cipType typeSize index ioi var =
     \<lparr>bt_Name = name, bt_CIPType = cipType, bt_DataTypeSize = typeSize, bt_index = index, bt_ioi = ioi, bt_batchID = 0,
      bt_synched = False, bt_Var = var\<rparr>"

definition add_tag :: "string \<Rightarrow> cip_type \<Rightarrow> var_ref option \<Rightarrow> unit dact" where
  "add_tag tagName cipType var =
     dcreated (dbind (prepare_tag tagName cipType) (\<lambda>(typeSize, ioi) buf.
       (Inr (), buf\<lparr>db_synched := False,
          db_tags := db_tags buf @ [new_tag tagName cipType typeSize (of_nat (length (db_tags buf) + 1)) ioi var]\<rparr>)))"

text \<open>The value behind a pointer decides the type.\<close>

definition pointee :: "(nat \<Rightarrow> goval) \<Rightarrow> var_ref \<Rightarrow> goval" where
  "pointee vars d = (case d of Pointer a \<Rightarrow> vars a | NotPointer v \<Rightarrow> v)"

definition AddTagRef :: "string \<Rightarrow> var_ref \<Rightarrow> unit dact" where
  "AddTagRef tagName data buf = add_tag tagName (fst (GoVarToCIPType (pointee (db_vars buf) data))) (Some data) buf"

definition AddTag :: "string \<Rightarrow> cip_type \<Rightarrow> unit dact" where
  "AddTag tagName cipType = add_tag tagName cipType None"

definition sync_entries :: "DataTableBufferTag list \<Rightarrow> addTagEntry list" where
  "sync_entries tags =
     concat (map (\<lambda>(i, t). if bt_synched t then [] else [\<lparr>ae_dataTypeSize = bt_DataTypeSize t, ae_ioi = bt_ioi t, ae_index = i\<rparr>])
       (enumerate 0 tags))"

definition mark_synched :: "u16 \<Rightarrow> addTagEntry list \<Rightarrow> DataTableBufferTag list \<Rightarrow> DataTableBufferTag list" where
  "mark_synched batchID entries tags =
     fold (\<lambda>e ts. ts[ae_index e := (ts ! ae_index e)\<lparr>bt_batchID := batchID, bt_synched := True\<rparr>]) entries tags"

definition SyncTags :: "unit dact" where
  "SyncTags buf =
     (let entries = sync_entries (db_tags buf) in
      dwrap ''could not add tags to buffer'' (on_client (DataTableAddTags (db_instanceID buf) entries)) (\<lambda>batchID buf.
      (Inr (), buf\<lparr>db_tags := mark_synched batchID entries (db_tags buf), db_synched := True\<rparr>)) buf)"

record preparedTag =
  pt_name :: string
  pt_cipType :: cip_type
  pt_typeSize :: u16
  pt_ioi :: bytes

fun prepare_all :: "(string \<times> cip_type) list \<Rightarrow> preparedTag list dact" where
  "prepare_all [] = dret []"
| "prepare_all ((name, cipType) # tags) =
     dbind (prepare_tag name cipType) (\<lambda>(typeSize, ioi).
     dbind (prepare_all tags) (\<lambda>ps.
     dret (\<lparr>pt_name = name, pt_cipType = cipType, pt_typeSize = typeSize, pt_ioi = ioi\<rparr> # ps)))"

text \<open>The map of tags is given by its entries, in the order in which the loop meets them.\<close>

definition AddTags :: "(string \<times> cip_type) list \<Rightarrow> unit dact" where
  "AddTags tags =
     dcreated (dbind (prepare_all tags) (\<lambda>prepared buf.
       let baseIndex = (of_nat (length (db_tags buf) + 1) :: u16) in
       (Inr (), buf\<lparr>db_tags := db_tags buf @
            map (\<lambda>(i, t). new_tag (pt_name t) (pt_cipType t) (pt_typeSize t) (baseIndex + of_nat i) (pt_ioi t) None)
              (enumerate 0 prepared),
          db_synched := False\<rparr>)))"

section \<open>Reading\<close>

text \<open>
  \<^verbatim>\<open>setGoVar\<close>: the destination must be a pointer, and the value of the type of the variable.
\<close>

definition setGoVar :: "var_ref \<Rightarrow> goval \<Rightarrow> unit dact" where
  "setGoVar dest value buf =
     (case dest of
        NotPointer _ \<Rightarrow> (Inl (Msg ''Var field must be a pointer to set value''), buf)
      | Pointer a \<Rightarrow>
          if typeof value \<noteq> typeof (db_vars buf a) then (Inl (Msg ''cannot assign value to Var field''), buf)
          else (Inr (), buf\<lparr>db_vars := (db_vars buf)(a := value)\<rparr>))"

text \<open>The slot of a tag in the reply; a header comes first when the batch changes.\<close>

definition next_slot :: "u16 \<Rightarrow> DataTableBufferTag \<Rightarrow> CIPItem \<Rightarrow> (bytes \<times> CIPItem) res" where
  "next_slot currentBatch tag resp =
     andthen (if bt_batchID tag \<noteq> currentBatch
              then attempt ''could not read batch header before tag'' (item_Uint16 resp) (\<lambda>(_, it). Inr it)
              else Inr resp) (\<lambda>resp.
       let size = int (unat (bt_DataTypeSize tag)) in
       if Pos resp + size > int (length (Data resp)) then Inl (Msg ''not enough data for tag'')
       else Inr (take (nat size) (drop (nat (Pos resp)) (Data resp)), resp\<lparr>Pos := Pos resp + size\<rparr>))"

fun read_values :: "u16 \<Rightarrow> DataTableBufferTag list \<Rightarrow> CIPItem \<Rightarrow> (string \<times> goval) list \<Rightarrow> (string \<times> goval) list dact" where
  "read_values currentBatch [] resp result = dret result"
| "read_values currentBatch (tag # tags) resp result =
     (case next_slot currentBatch tag resp of
        Inl e \<Rightarrow> dfail e
      | Inr (raw, resp') \<Rightarrow>
          (case decodeDataTableValue (bt_CIPType tag) raw of
             Inl e \<Rightarrow> dfail (wrap ''could not decode value for tag'' e)
           | Inr value \<Rightarrow>
               dwrap ''could not set Var field for tag'' (case bt_Var tag of None \<Rightarrow> dret () | Some d \<Rightarrow> setGoVar d value) (\<lambda>_.
               read_values (bt_batchID tag) tags resp' (dict_put (bt_Name tag) value result))))"

fun read_raw :: "u16 \<Rightarrow> DataTableBufferTag list \<Rightarrow> CIPItem \<Rightarrow> (string \<times> bytes) list \<Rightarrow> (string \<times> bytes) list res" where
  "read_raw currentBatch [] resp result = Inr result"
| "read_raw currentBatch (tag # tags) resp result =
     andthen (next_slot currentBatch tag resp) (\<lambda>(raw, resp').
     read_raw (bt_batchID tag) tags resp' (dict_put (bt_Name tag) raw result))"

text \<open>What both reads do before they look at the reply.\<close>

definition fetch_buffer :: "CIPItem dact" where
  "fetch_buffer =
     dcreated (\<lambda>buf.
       if db_tags buf = [] then (Inl (Msg ''no tags in datatable buffer''), buf)
       else
         dwrap ''could not sync tags before read'' (if db_synched buf then dret () else SyncTags) (\<lambda>_ buf.
         on_client (DataTableReadBuffer (db_instanceID buf)) buf) buf)"

text \<open>
  Equal indices are left in place, as \<^verbatim>\<open>sort.Slice\<close> does for a short list; it promises nothing
  about them.
\<close>

definition sorted_tags :: "DataTableBuffer \<Rightarrow> DataTableBufferTag list" where
  "sorted_tags buf = sort_key bt_index (db_tags buf)"

definition ReadAll :: "(string \<times> goval) list dact" where
  "ReadAll = dbind fetch_buffer (\<lambda>resp buf. read_values 0 (sorted_tags buf) resp [] buf)"

definition ReadAllRaw :: "(string \<times> bytes) list dact" where
  "ReadAllRaw = dbind fetch_buffer (\<lambda>resp buf. (read_raw 0 (sorted_tags buf) resp [], buf))"

section \<open>Removing tags, closing\<close>

fun tag_position :: "string \<Rightarrow> DataTableBufferTag list \<Rightarrow> nat option" where
  "tag_position name [] = None"
| "tag_position name (t # ts) = (if bt_Name t = name then Some 0 else map_option Suc (tag_position name ts))"

definition RemoveTag :: "string \<Rightarrow> unit dact" where
  "RemoveTag tagName =
     dcreated (\<lambda>buf.
       case tag_position tagName (db_tags buf) of
         None \<Rightarrow> (Inl (Msg ''tag not found in buffer''), buf)
       | Some idx \<Rightarrow>
           dwrap ''could not remove tag from buffer''
             (on_client (DataTableRemoveTag (db_instanceID buf) (bt_index (db_tags buf ! idx)))) (\<lambda>_ buf.
           (Inr (), buf\<lparr>db_tags := take idx (db_tags buf) @ drop (idx + 1) (db_tags buf)\<rparr>)) buf)"

definition Close :: "unit dact" where
  "Close buf =
     (if \<not> db_created buf then (Inr (), buf)
      else case on_client (DeleteDataTableBuffer (db_instanceID buf)) buf of
        (Inl e, buf') \<Rightarrow> (Inl (wrap ''could not delete datatable buffer'' e), buf'\<lparr>db_created := False\<rparr>)
      | (Inr _, buf') \<Rightarrow> (Inr (), buf'\<lparr>db_created := False\<rparr>))"

section \<open>Groups and structs of tags\<close>

text \<open>\<open>order\<close> is the order in which the loop over \<^verbatim>\<open>tagMap\<close> meets its entries.\<close>

type_synonym tag_order = "(string \<times> cip_type) list \<Rightarrow> (string \<times> cip_type) list"

definition put_all :: "string list \<Rightarrow> cip_type \<Rightarrow> (string \<times> cip_type) list \<Rightarrow> (string \<times> cip_type) list" where
  "put_all names t m = fold (\<lambda>name m. dict_put name t m) names m"

definition group_expansion :: "string list \<Rightarrow> TagDef \<Rightarrow> string \<times> string list" where
  "group_expansion args def =
     (let resolvedName = formatName (df_Name def) args in
      (resolvedName, if df_Elements def > 1 then expandArrayTag resolvedName (df_Elements def) else [resolvedName]))"

fun collect_group :: "string list \<Rightarrow> TagDef list \<Rightarrow> (string \<times> string list) list \<Rightarrow> (string \<times> cip_type) list
  \<Rightarrow> (string \<times> string list) list \<times> (string \<times> cip_type) list" where
  "collect_group args [] expansions tagMap = (expansions, tagMap)"
| "collect_group args (def # defs) expansions tagMap =
     (let (resolvedName, names) = group_expansion args def in
      collect_group args defs (dict_put resolvedName names expansions) (put_all names (df_Type def) tagMap))"

definition AddTagGroup :: "tag_order \<Rightarrow> TagGroup \<Rightarrow> string list \<Rightarrow> unit dact" where
  "AddTagGroup order grp args =
     dcreated (\<lambda>buf.
       let (expansions, tagMap) = collect_group args (tg_defs grp) (db_expansions buf) [] in
       AddTags (order tagMap) (buf\<lparr>db_expansions := expansions\<rparr>))"

text \<open>
  A field of the struct, as reflection finds it: the address of the field, and for a slice also
  those of its elements.
\<close>

datatype field_ref = Field nat | SliceField nat gotype "nat list"

definition field_value :: "(nat \<Rightarrow> goval) \<Rightarrow> field_ref \<Rightarrow> goval" where
  "field_value vars f = (case f of Field a \<Rightarrow> vars a | SliceField _ t as \<Rightarrow> VSlice t (map vars as))"

definition field_address :: "field_ref \<Rightarrow> nat" where
  "field_address f = (case f of Field a \<Rightarrow> a | SliceField a _ _ \<Rightarrow> a)"

record struct_tags =
  sg_expansions :: "(string \<times> string list) list"
  sg_tagMap :: "(string \<times> cip_type) list"
  sg_varPtrs :: "(string \<times> nat) list"

definition slice_pointers :: "field_ref \<Rightarrow> string list \<Rightarrow> (string \<times> nat) list \<Rightarrow> (string \<times> nat) list" where
  "slice_pointers f names ptrs =
     (case f of Field _ \<Rightarrow> ptrs | SliceField _ _ as \<Rightarrow> fold (\<lambda>(name, a) m. dict_put name a m) (zip names as) ptrs)"

text \<open>
  One field; \<open>isPtr\<close> says whether the caller gave a pointer to the struct, without which its fields
  have no address.
\<close>

definition collect_field :: "(nat \<Rightarrow> goval) \<Rightarrow> bool \<Rightarrow> string list \<Rightarrow> gofield \<times> field_ref \<Rightarrow> struct_tags \<Rightarrow> struct_tags res" where
  "collect_field vars isPtr args = (\<lambda>(field, f) s.
     case gologix_tag field of
       None \<Rightarrow> Inr s
     | Some tag \<Rightarrow>
         if tag = [] then Inr s
         else
           let tagPath = formatName tag args; (cipType, elements) = GoVarToCIPType (field_value vars f) in
           if elements > 1 then
             let expanded = expandArrayTag tagPath (int elements) in
             Inr (s\<lparr>sg_expansions := dict_put tagPath expanded (sg_expansions s),
                    sg_tagMap := put_all expanded cipType (sg_tagMap s),
                    sg_varPtrs := slice_pointers f expanded (sg_varPtrs s)\<rparr>)
           else if \<not> isPtr then Inl (Panic ''reflect.Value.Addr of unaddressable value'')
           else
             Inr (s\<lparr>sg_expansions := dict_put tagPath [tagPath] (sg_expansions s),
                    sg_tagMap := dict_put tagPath cipType (sg_tagMap s),
                    sg_varPtrs := dict_put tagPath (field_address f) (sg_varPtrs s)\<rparr>))"

fun collect_fields :: "(nat \<Rightarrow> goval) \<Rightarrow> bool \<Rightarrow> string list \<Rightarrow> (gofield \<times> field_ref) list \<Rightarrow> struct_tags \<Rightarrow> struct_tags res" where
  "collect_fields vars isPtr args [] s = Inr s"
| "collect_fields vars isPtr args (f # fs) s = andthen (collect_field vars isPtr args f s) (collect_fields vars isPtr args fs)"

definition set_var :: "(string \<times> nat) list \<Rightarrow> DataTableBufferTag \<Rightarrow> DataTableBufferTag" where
  "set_var varPtrs t = (case map_of varPtrs (bt_Name t) of None \<Rightarrow> t | Some a \<Rightarrow> t\<lparr>bt_Var := Some (Pointer a)\<rparr>)"

definition AddTaggedStruct :: "tag_order \<Rightarrow> bool \<Rightarrow> (gofield \<times> field_ref) list \<Rightarrow> string list \<Rightarrow> unit dact" where
  "AddTaggedStruct order isPtr fs args =
     dcreated (\<lambda>buf.
       case collect_fields (db_vars buf) isPtr args fs
              \<lparr>sg_expansions = db_expansions buf, sg_tagMap = [], sg_varPtrs = []\<rparr> of
         Inl e \<Rightarrow> (Inl e, buf)
       | Inr s \<Rightarrow>
           dbind (AddTags (order (sg_tagMap s))) (\<lambda>_ buf.
           (Inr (), buf\<lparr>db_tags := map (set_var (sg_varPtrs s)) (db_tags buf)\<rparr>)) (buf\<lparr>db_expansions := sg_expansions s\<rparr>))"

section \<open>Results with their slices put together\<close>

fun lookup_all :: "(string \<times> goval) list \<Rightarrow> string list \<Rightarrow> goval list res" where
  "lookup_all rawValues [] = Inr []"
| "lookup_all rawValues (name # names) =
     (case map_of rawValues name of
        None \<Rightarrow> Inl (Msg ''expanded tag not found in buffer response'')
      | Some v \<Rightarrow> andthen (lookup_all rawValues names) (\<lambda>vs. Inr (v # vs)))"

text \<open>The loop over the expansions: the result so far and the names it has used.\<close>

fun collapse :: "(string \<times> goval) list \<Rightarrow> (string \<times> string list) list \<Rightarrow> (string \<times> goval) list \<Rightarrow> string list
  \<Rightarrow> ((string \<times> goval) list \<times> string list) res" where
  "collapse rawValues [] result consumed = Inr (result, consumed)"
| "collapse rawValues ((baseName, expanded) # es) result consumed =
     andthen (lookup_all rawValues expanded) (\<lambda>vs.
       collapse rawValues es
         (case vs of [] \<Rightarrow> result | [v] \<Rightarrow> dict_put baseName v result | _ \<Rightarrow> dict_put baseName (VSlice TAny vs) result)
         (consumed @ expanded))"

definition typed_result :: "(string \<times> goval) list \<Rightarrow> (string \<times> string list) list \<Rightarrow> TagGroupResult res" where
  "typed_result rawValues expansions =
     (if expansions = [] then Inr \<lparr>gr_values = rawValues\<rparr>
      else andthen (collapse rawValues expansions [] []) (\<lambda>(result, consumed).
        Inr \<lparr>gr_values = fold (\<lambda>(name, v) m. dict_put name v m)
               (filter (\<lambda>(name, v). name \<notin> set consumed) rawValues) result\<rparr>))"

text \<open>\<open>order\<close> is the order in which the loop meets the expansions.\<close>

definition ReadAllTyped :: "((string \<times> string list) list \<Rightarrow> (string \<times> string list) list) \<Rightarrow> TagGroupResult dact" where
  "ReadAllTyped order = dbind ReadAll (\<lambda>rawValues buf. (typed_result rawValues (order (db_expansions buf)), buf))"

end
