(* ===== verification/Data_Table_Reads.thy ===== *)
theory Data_Table_Reads
  imports Data_Table
begin

text \<open>
  What a buffer's reads return: the requests with which tags are entered, the layout of the
  reply, and the numbering of the tags on which both depend.
\<close>

section \<open>A generic message that is answered\<close>

definition generic_body :: "u16 \<Rightarrow> cip_service \<Rightarrow> bytes \<Rightarrow> bytes" where
  "generic_body sq service d = put16 sq @ [AsResponse service, 0] @ put16 0 @ d"

definition generic_request :: "u32 \<Rightarrow> cip_service \<Rightarrow> bytes \<Rightarrow> bytes \<Rightarrow> CIPItem" where
  "generic_request sv service path d =
     item_Write (path @ d) (item_Write (msgCIPConnectedServiceReq (ucast (sv + 1)) service (of_nat (length path div 2)))
       (empty_item cipItem_ConnectedData))"

definition after_request :: "Client \<Rightarrow> CIPItem \<Rightarrow> bytes option list \<Rightarrow> Client" where
  "after_request c it s = c\<lparr>c_sequenceValue := c_sequenceValue c + 1, c_HeaderSequenceCounter := c_HeaderSequenceCounter c + 1,
     c_script := s, c_sent := c_sent c @ [unit_request c it]\<rparr>"

lemma after_request_sel [simp]:
  "c_conn (after_request c it s) = c_conn c" "c_socket (after_request c it s) = c_socket c"
  "c_connStatus (after_request c it s) = c_connStatus c" "c_script (after_request c it s) = s"
  "c_sent (after_request c it s) = c_sent c @ [unit_request c it]" "c_sequenceValue (after_request c it s) = c_sequenceValue c + 1"
  "c_KnownTags (after_request c it s) = c_KnownTags c"
  "unit_request (after_request c it s) it' = unit_request c it'"
  by (simp_all add: after_request_def unit_request_cong[of "after_request c it s" c] unit_request_def sendMsgBuild_def c_newEIPHeader_def)

lemma word_of_sint16: "(scast (w :: u16) :: u8) = ucast w"
  by (rule bit_word_eqI) (auto simp: bit_signed_iff bit_ucast_iff min_def)

lemma generic_body_reads:
  fixes d :: bytes and sq :: u16 and service :: cip_service
  defines "it \<equiv> item_Write (generic_body sq service d) (empty_item cipItem_ConnectedData)"
  shows "item_Int16 it = Inr (sint sq, it\<lparr>Pos := 2\<rparr>)"
    and "item_Int16 (it\<lparr>Pos := 2\<rparr>) = Inr (sint (get16 [AsResponse service, 0]), it\<lparr>Pos := 4\<rparr>)"
    and "item_Int16 (it\<lparr>Pos := 4\<rparr>) = Inr (0, it\<lparr>Pos := 6\<rparr>)"
    and "unread (it\<lparr>Pos := 6\<rparr>) = d"
  by (simp_all add: it_def item_Int16_def item_get_def generic_body_def item_Write_def empty_item_def unread_def)

lemma get16_service: "(ucast (get16 [s, 0]) :: u8) = s"
proof -
  have "get16 [s, 0] = ucast s" by (simp add: get16_def)
  moreover have "(ucast (ucast s :: u16) :: u8) = s" by (rule bit_word_eqI) (simp add: bit_ucast_iff)
  ultimately show ?thesis by simp
qed

lemma generic_answered:
  assumes "c_conn c" "c_socket c = []" "c_script c = Some (eip_frame hdr (connected_reply i (generic_body sq service d))) # s"
    and "\<not> IsResponse service" "length d < 65000"
  shows "GenericCIPMessage service path msg c = (Inr ((item_Write (generic_body sq service d) (empty_item cipItem_ConnectedData))\<lparr>Pos := 6\<rparr>),
    after_request c (generic_request (c_sequenceValue c) service path msg) s)"
proof -
  let ?c = "c\<lparr>c_sequenceValue := c_sequenceValue c + 1\<rparr>" and ?b = "generic_body sq service d"
  let ?req = "generic_request (c_sequenceValue c) service path msg"
  have len: "length ?b < 65536" using assms(5) by (simp add: generic_body_def)
  then have l2: "length (connected_reply i ?b) < 65536" using assms(5) by (simp add: length_connected_reply generic_body_def)
  have u: "unit_request ?c it = unit_request c it" for it by (rule unit_request_cong) simp_all
  have run: "send_unit ?req ?c = (Inr (hdr\<lparr>eh_Length := of_nat (length (connected_reply i ?b))\<rparr>, connected_reply i ?b),
      after_request c ?req s)"
    using send_unit_answered[of ?c hdr "connected_reply i ?b" s ?req] assms(1-3) l2 by (simp add: after_request_def u)
  have r6: "\<exists>x. read_full 6 (connected_reply i ?b) = Inr (x, csd_skip (connected_reply i ?b))"
    using length_connected_reply[of i ?b] by (auto simp: read_full_def csd_skip_def)
  have sv: "UnResponse (word_of_int (sint (get16 [AsResponse service, 0]))) = service"
    using assms(4) response_bits(3) by (simp add: word_of_sint16 get16_service)
  show ?thesis
    unfolding GenericCIPMessage_def using run r6 sv connected_reply_items[OF len, of i] generic_body_reads[of sq service d]
    by (auto simp: cbind_def next_sequence_def sequencer_def generic_request_def[symmetric] item1_def cret_def)
qed

section \<open>Entering the pending tags\<close>

definition mark :: "u16 \<Rightarrow> DataTableBufferTag \<Rightarrow> DataTableBufferTag" where
  "mark b t = (if bt_synched t then t else t\<lparr>bt_batchID := b, bt_synched := True\<rparr>)"

lemma mark_sel [simp]:
  "bt_Name (mark b t) = bt_Name t" "bt_CIPType (mark b t) = bt_CIPType t" "bt_DataTypeSize (mark b t) = bt_DataTypeSize t"
  "bt_index (mark b t) = bt_index t" "bt_Var (mark b t) = bt_Var t" "bt_synched (mark b t)"
  by (simp_all add: mark_def)

lemma mark_synched_from:
  "mark_synched b (concat (map (\<lambda>(i, t). if bt_synched t then []
       else [\<lparr>ae_dataTypeSize = bt_DataTypeSize t, ae_ioi = bt_ioi t, ae_index = i\<rparr>]) (enumerate (length ds) ts))) (ds @ ts)
   = ds @ map (mark b) ts"
proof (induction ts arbitrary: ds)
  case (Cons t ts)
  show ?case using Cons.IH[of "ds @ [mark b t]"] 
    by (cases "bt_synched t") (simp_all add: mark_synched_def mark_def nth_append)
qed (simp add: mark_synched_def)

lemma mark_synched_entries: "mark_synched b (sync_entries ts) ts = map (mark b) ts"
  using mark_synched_from[of b "[]" ts] by (simp add: sync_entries_def)

text \<open>The request carries the pending tags and nothing else.\<close>

lemma sync_request:
  "map (\<lambda>e. (ae_dataTypeSize e, ae_ioi e)) (sync_entries ts)
   = map (\<lambda>t. (bt_DataTypeSize t, bt_ioi t)) (filter (\<lambda>t. \<not> bt_synched t) ts)"
proof -
  have "map (\<lambda>e. (ae_dataTypeSize e, ae_ioi e)) (concat (map (\<lambda>(i, t). if bt_synched t then []
       else [\<lparr>ae_dataTypeSize = bt_DataTypeSize t, ae_ioi = bt_ioi t, ae_index = i\<rparr>]) (enumerate k ts)))
    = map (\<lambda>t. (bt_DataTypeSize t, bt_ioi t)) (filter (\<lambda>t. \<not> bt_synched t) ts)" for k
    by (induction ts arbitrary: k) simp_all
  then show ?thesis by (simp add: sync_entries_def)
qed

lemma add_tags_answered:
  assumes "c_Connected c" "c_conn c" "c_socket c = []"
    and "c_script c = Some (eip_frame hdr (connected_reply i (generic_body sq 0x4E (put16 b)))) # s"
  shows "DataTableAddTags inst es c = (Inr b, after_request c (generic_request (c_sequenceValue c) 0x4E (dataTablePath inst) (add_tags_data es)) s)"
proof -
  let ?it = "(item_Write (generic_body sq 0x4E (put16 b)) (empty_item cipItem_ConnectedData))\<lparr>Pos := 6\<rparr>"
  have "\<not> IsResponse 0x4E" by (simp add: IsResponse_def)
  then have g: "GenericCIPMessage 0x4E (dataTablePath inst) (add_tags_data es) c = (Inr ?it,
      after_request c (generic_request (c_sequenceValue c) 0x4E (dataTablePath inst) (add_tags_data es)) s)"
    using assms(2-4) by (intro generic_answered) simp_all
  have "item_Uint16 ?it = Inr (b, ?it\<lparr>Pos := 8\<rparr>)"
    by (simp add: item_Uint16_def item_get_def generic_body_def item_Write_def empty_item_def)
  then show ?thesis using assms(1) g
    by (simp add: DataTableAddTags_def cwrap_def checkConn_def cret_def)
qed

lemma read_buffer_answered:
  assumes "c_Connected c" "c_conn c" "c_socket c = []" "length d < 65000"
    and "c_script c = Some (eip_frame hdr (connected_reply i (generic_body sq CIPService_Read d))) # s"
  shows "\<exists>it. DataTableReadBuffer inst c
      = (Inr it, after_request c (generic_request (c_sequenceValue c) CIPService_Read (dataTablePath inst) []) s)
    \<and> pos_ok it \<and> unread it = d"
proof -
  let ?it = "(item_Write (generic_body sq CIPService_Read d) (empty_item cipItem_ConnectedData))\<lparr>Pos := 6\<rparr>"
  have "\<not> IsResponse CIPService_Read" by (simp add: IsResponse_def)
  then have g: "GenericCIPMessage CIPService_Read (dataTablePath inst) [] c = (Inr ?it,
      after_request c (generic_request (c_sequenceValue c) CIPService_Read (dataTablePath inst) []) s)"
    using assms(2-5) by (intro generic_answered) simp_all
  have "unread ?it = d" by (rule generic_body_reads)
  moreover have "pos_ok ?it" by (simp add: pos_ok_def generic_body_def empty_item_def)
  ultimately show ?thesis using assms(1) g
    by (intro exI[of _ ?it]) (simp add: DataTableReadBuffer_def cwrap_def checkConn_def cret_def)
qed

section \<open>The layout of the reply\<close>

text \<open>
  What a tag's slot holds after it is decoded, and which variables that changes.
\<close>

definition accepts :: "(nat \<Rightarrow> goval) \<Rightarrow> DataTableBufferTag \<Rightarrow> goval \<Rightarrow> bool" where
  "accepts vars t v = (case bt_Var t of None \<Rightarrow> True | Some (Pointer a) \<Rightarrow> typeof (vars a) = typeof v | Some (NotPointer _) \<Rightarrow> False)"

definition store_var :: "DataTableBufferTag \<times> goval \<Rightarrow> (nat \<Rightarrow> goval) \<Rightarrow> nat \<Rightarrow> goval" where
  "store_var = (\<lambda>(t, v) vars. case bt_Var t of Some (Pointer a) \<Rightarrow> vars(a := v) | _ \<Rightarrow> vars)"

definition holds :: "(nat \<Rightarrow> goval) \<Rightarrow> DataTableBufferTag \<Rightarrow> bytes \<times> goval \<Rightarrow> bool" where
  "holds vars t = (\<lambda>(raw, v). length raw = unat (bt_DataTypeSize t) \<and> decodeDataTableValue (bt_CIPType t) raw = Inr v \<and> accepts vars t v)"

lemma accepts_store:
  assumes "accepts vars t v" "accepts vars t' v'"
  shows "accepts (store_var (t, v) vars) t' v'"
  using assms by (auto simp: accepts_def store_var_def split: option.splits var_ref.splits)

lemma holds_store: "accepts vars t v \<Longrightarrow> holds vars t' x \<Longrightarrow> holds (store_var (t, v) vars) t' x"
  by (auto simp: holds_def accepts_store)

lemma set_var_accepted:
  "accepts (db_vars buf) t v \<Longrightarrow>
   (case bt_Var t of None \<Rightarrow> dret () | Some d \<Rightarrow> setGoVar d v) buf = (Inr (), buf\<lparr>db_vars := store_var (t, v) (db_vars buf)\<rparr>)"
  by (auto simp: accepts_def store_var_def setGoVar_def split: option.splits var_ref.splits)

lemma slot_in_batch:
  assumes "bt_batchID t = b" "length raw = unat (bt_DataTypeSize t)" "pos_ok it" "unread it = raw @ r"
  shows "\<exists>it'. next_slot b t it = Inr (raw, it') \<and> pos_ok it' \<and> unread it' = r"
proof -
  let ?it = "it\<lparr>Pos := Pos it + int (length raw)\<rparr>"
  have len: "int (length (raw @ r)) = int (length (Data it)) - Pos it" using length_unread[OF assms(3)] assms(4) by simp
  then have "unread ?it = r" using unread_advance[of it "length raw"] assms(3,4) by (simp add: pos_ok_def)
  moreover have "take (length raw) (drop (nat (Pos it)) (Data it)) = raw" using assms(4) by (simp add: unread_def)
  ultimately show ?thesis
    using assms(1-3) len by (intro exI[of _ ?it]) (simp add: next_slot_def Let_def pos_ok_def)
qed

lemma slot_new_batch:
  assumes "bt_batchID t \<noteq> b" "length raw = unat (bt_DataTypeSize t)" "pos_ok it" "unread it = put16 h @ raw @ r"
  shows "\<exists>it'. next_slot b t it = Inr (raw, it') \<and> pos_ok it' \<and> unread it' = r"
proof -
  let ?it = "it\<lparr>Pos := Pos it + 2\<rparr>"
  have len: "int (length (put16 h @ raw @ r)) = int (length (Data it)) - Pos it" using length_unread[OF assms(3)] assms(4) by simp
  have "item_Uint16 it = Inr (h, ?it)"
    using item_get_stream[OF assms(3), of 2] assms(4) by (simp add: item_Uint16_def)
  moreover have "pos_ok ?it" "unread ?it = raw @ r"
    using len assms(3,4) unread_advance[of it 2] by (simp_all add: pos_ok_def)
  ultimately show ?thesis
    using slot_in_batch[OF refl assms(2), of ?it r] assms(1) by (simp add: next_slot_def)
qed

text \<open>
  An entry is a tag with its slot in the reply and the value the slot holds.  The reply lists the batches,
  each with its number in front of the slots of its tags.
\<close>

type_synonym entry = "DataTableBufferTag \<times> bytes \<times> goval"

definition slots :: "entry list \<Rightarrow> bytes" where
  "slots es = concat (map (\<lambda>e. fst (snd e)) es)"

lemma slots_simps [simp]: "slots [] = []" "slots ((t, raw, v) # es) = raw @ slots es"
  by (simp_all add: slots_def)

definition layout :: "(u16 \<times> entry list) list \<Rightarrow> bytes" where
  "layout bs = concat (map (\<lambda>(b, es). put16 b @ slots es) bs)"

fun batched :: "u16 \<Rightarrow> (u16 \<times> entry list) list \<Rightarrow> bool" where
  "batched cur [] = True"
| "batched cur ((b, es) # bs) = (b \<noteq> cur \<and> es \<noteq> [] \<and> list_all (\<lambda>e. bt_batchID (fst e) = b) es \<and> batched b bs)"

abbreviation entries :: "(u16 \<times> entry list) list \<Rightarrow> entry list" where
  "entries bs \<equiv> concat (map snd bs)"

abbreviation fits :: "(nat \<Rightarrow> goval) \<Rightarrow> entry list \<Rightarrow> bool" where
  "fits vars es \<equiv> \<forall>e\<in>set es. holds vars (fst e) (snd e)"

definition put_values :: "entry list \<Rightarrow> (string \<times> goval) list \<Rightarrow> (string \<times> goval) list" where
  "put_values es m = fold (\<lambda>(t, _, v) m. dict_put (bt_Name t) v m) es m"

definition put_vars :: "entry list \<Rightarrow> (nat \<Rightarrow> goval) \<Rightarrow> nat \<Rightarrow> goval" where
  "put_vars es vars = fold (\<lambda>(t, _, v). store_var (t, v)) es vars"

lemma put_simps [simp]:
  "put_values [] m = m" "put_values ((t, raw, v) # es) m = put_values es (dict_put (bt_Name t) v m)"
  "put_vars [] vars = vars" "put_vars ((t, raw, v) # es) vars = put_vars es (store_var (t, v) vars)"
  "put_values (es @ es') m = put_values es' (put_values es m)" "put_vars (es @ es') vars = put_vars es' (put_vars es vars)"
  by (simp_all add: put_values_def put_vars_def)

lemma fits_put: "fits vars es \<Longrightarrow> fits vars es' \<Longrightarrow> fits (put_vars es vars) es'"
proof (induction es arbitrary: vars)
  case (Cons e es)
  obtain t raw v where e: "e = (t, raw, v)" by (cases e)
  have "accepts vars t v" using Cons.prems(1) by (auto simp: e holds_def)
  then show ?case using Cons.prems Cons.IH[of "store_var (t, v) vars"] by (auto simp: e holds_store)
qed simp

lemma walk_batch:
  assumes "list_all (\<lambda>e. bt_batchID (fst e) = b) es" "fits (db_vars buf) es"
    and "pos_ok it" "unread it = slots es @ r"
  shows "\<exists>it'. read_values b (map fst es @ ts) it result buf
      = read_values b ts it' (put_values es result) (buf\<lparr>db_vars := put_vars es (db_vars buf)\<rparr>)
    \<and> pos_ok it' \<and> unread it' = r"
  using assms
proof (induction es arbitrary: it result buf)
  case (Cons e es)
  obtain t raw v where e: "e = (t, raw, v)" by (cases e)
  have h: "length raw = unat (bt_DataTypeSize t)" "decodeDataTableValue (bt_CIPType t) raw = Inr v" "accepts (db_vars buf) t v"
    "bt_batchID t = b" using Cons.prems by (auto simp: e holds_def)
  let ?buf = "buf\<lparr>db_vars := store_var (t, v) (db_vars buf)\<rparr>"
  obtain it1 where it1: "next_slot b t it = Inr (raw, it1)" "pos_ok it1" "unread it1 = slots es @ r"
    using slot_in_batch[OF h(4,1) Cons.prems(3), of "slots es @ r"] Cons.prems(4) by (auto simp: e)
  have step: "read_values b (map fst (e # es) @ ts) it result buf
      = read_values b (map fst es @ ts) it1 (dict_put (bt_Name t) v result) ?buf"
    using it1(1) h set_var_accepted[OF h(3)] by (simp add: e dwrap_def)
  have "fits (db_vars ?buf) es" using Cons.prems(2) h(3) by (auto intro: holds_store)
  from Cons.IH[OF _ this it1(2,3), of "dict_put (bt_Name t) v result"] Cons.prems(1)
  show ?case unfolding step by (auto simp: e)
qed auto

lemma walk_batches:
  assumes "batched cur bs" "fits (db_vars buf) (entries bs)" "pos_ok it" "unread it = layout bs"
  shows "read_values cur (map fst (entries bs)) it result buf
    = (Inr (put_values (entries bs) result), buf\<lparr>db_vars := put_vars (entries bs) (db_vars buf)\<rparr>)"
  using assms
proof (induction bs arbitrary: cur it result buf)
  case (Cons x bs)
  obtain b t raw v es where x: "x = (b, (t, raw, v) # es)" using Cons.prems(1) by (cases x) (auto simp: neq_Nil_conv)
  have h: "length raw = unat (bt_DataTypeSize t)" "decodeDataTableValue (bt_CIPType t) raw = Inr v" "accepts (db_vars buf) t v"
    "bt_batchID t = b" "bt_batchID t \<noteq> cur" using Cons.prems by (auto simp: x holds_def)
  let ?buf = "buf\<lparr>db_vars := store_var (t, v) (db_vars buf)\<rparr>" and ?ts = "map fst (entries bs)"
  obtain it1 where it1: "next_slot cur t it = Inr (raw, it1)" "pos_ok it1" "unread it1 = slots es @ layout bs"
    using slot_new_batch[OF h(5,1) Cons.prems(3), of b "slots es @ layout bs"] Cons.prems(4)
    by (auto simp: x layout_def)
  have step: "read_values cur (map fst (entries (x # bs))) it result buf
      = read_values b (map fst es @ ?ts) it1 (dict_put (bt_Name t) v result) ?buf"
    using it1(1) h set_var_accepted[OF h(3)] by (simp add: x dwrap_def)
  have f: "fits (db_vars ?buf) es" "fits (db_vars ?buf) (entries bs)"
    using Cons.prems(2) h(3) by (auto simp: x intro: holds_store)
  obtain it2 where it2: "read_values b (map fst es @ ?ts) it1 (dict_put (bt_Name t) v result) ?buf
      = read_values b ?ts it2 (put_values es (dict_put (bt_Name t) v result)) (?buf\<lparr>db_vars := put_vars es (db_vars ?buf)\<rparr>)"
    "pos_ok it2" "unread it2 = layout bs"
    using walk_batch[OF _ f(1) it1(2,3), of b ?ts "dict_put (bt_Name t) v result"] Cons.prems(1) by (auto simp: x)
  have "batched b bs" "fits (db_vars (?buf\<lparr>db_vars := put_vars es (db_vars ?buf)\<rparr>)) (entries bs)"
    using Cons.prems(1) fits_put[OF f] by (simp_all add: x)
  from Cons.IH[OF this it2(2,3)] show ?case unfolding step it2(1) by (simp add: x)
qed simp

section \<open>The numbering of the tags\<close>

definition indexed :: "DataTableBufferTag list \<Rightarrow> bool" where
  "indexed ts \<longleftrightarrow> map bt_index ts = map (\<lambda>i. of_nat (i + 1)) [0..<length ts]"

definition numbered :: "DataTableBufferTag list \<Rightarrow> bool" where
  "numbered ts \<longleftrightarrow> indexed ts \<and> length ts < 65536"

lemma sorted_numbered:
  assumes "numbered ts"
  shows "sort_key bt_index ts = ts"
proof (rule sort_key_id_if_sorted)
  have "(of_nat (i + 1) :: u16) \<le> of_nat (j + 1)" if "i \<le> j" "j < length ts" for i j
    using that assms unat_u16_of_nat[of "i + 1"] unat_u16_of_nat[of "j + 1"] by (simp add: word_le_nat_alt numbered_def del: of_nat_add of_nat_Suc)
  then show "sorted (map bt_index ts)"
    using assms by (auto simp: numbered_def indexed_def sorted_iff_nth_mono)
qed

lemma indexed_mark [simp]: "indexed (map (mark b) ts) = indexed ts"
  by (simp add: indexed_def comp_def)

lemma numbered_mark [simp]: "numbered (map (mark b) ts) = numbered ts"
  by (simp add: numbered_def)

lemma indexed_append:
  assumes "indexed ts" "map bt_index us = map (\<lambda>i. of_nat (length ts + 1) + of_nat i) [0..<length us]"
  shows "indexed (ts @ us)"
proof -
  have "[0..<length ts + length us] = [0..<length ts] @ map (\<lambda>i. i + length ts) [0..<length us]"
    by (simp add: map_add_upt add.commute upt_add_eq_append[of 0])
  then show ?thesis using assms by (simp add: indexed_def comp_def algebra_simps)
qed

section \<open>Reading the buffer\<close>

lemma map_of_put_values:
  "map_of (put_values es m) = map_of m ++ map_of (rev (map (\<lambda>e. (bt_Name (fst e), snd (snd e))) es))"
proof (induction es arbitrary: m)
  case (Cons e es)
  then show ?case by (cases e) (auto simp: map_of_dict_put fun_eq_iff map_add_def split: option.splits)
qed simp

lemma values_put:
  assumes "distinct (map (bt_Name \<circ> fst) es)"
  shows "e \<in> set es \<Longrightarrow> map_of (put_values es []) (bt_Name (fst e)) = Some (snd (snd e))"
    and "dom (map_of (put_values es [])) = (bt_Name \<circ> fst) ` set es"
proof -
  let ?l = "rev (map (\<lambda>e. (bt_Name (fst e), snd (snd e))) es)"
  have "distinct (map fst ?l)" using assms by (simp add: rev_map[symmetric] comp_def)
  then show "e \<in> set es \<Longrightarrow> map_of (put_values es []) (bt_Name (fst e)) = Some (snd (snd e))"
    unfolding map_of_put_values by (auto intro!: map_of_is_SomeI)
  show "dom (map_of (put_values es [])) = (bt_Name \<circ> fst) ` set es"
    unfolding map_of_put_values by (simp add: dom_map_of_conv_image_fst image_image comp_def)
qed

definition add_request :: "DataTableBuffer \<Rightarrow> CIPItem" where
  "add_request buf = generic_request (c_sequenceValue (db_client buf)) 0x4E (dataTablePath (db_instanceID buf))
     (add_tags_data (map (\<lambda>t. \<lparr>ae_dataTypeSize = bt_DataTypeSize t, ae_ioi = bt_ioi t, ae_index = 0\<rparr>)
       (filter (\<lambda>t. \<not> bt_synched t) (db_tags buf))))"

definition read_request :: "u32 \<Rightarrow> DataTableBuffer \<Rightarrow> CIPItem" where
  "read_request sv buf = generic_request sv CIPService_Read (dataTablePath (db_instanceID buf)) []"

lemma add_tags_data_cong:
  assumes "map (\<lambda>e. (ae_dataTypeSize e, ae_ioi e)) es = map (\<lambda>e. (ae_dataTypeSize e, ae_ioi e)) es'"
  shows "add_tags_data es = add_tags_data es'"
proof -
  let ?f = "\<lambda>e. (ae_dataTypeSize e, ae_ioi e)" and ?g = "\<lambda>(s, i). put16 s @ [of_nat (length i div 2)] @ i"
  have g: "map add_entry_bytes es = map ?g (map ?f es)" for es by (simp add: add_entry_bytes_def)
  have "map add_entry_bytes es = map add_entry_bytes es'" unfolding g[of es] g[of es'] assms ..
  then show ?thesis using map_eq_imp_length_eq[OF assms] by (simp add: add_tags_data_def)
qed

lemma sync_answered:
  assumes "c_Connected (db_client buf)" "c_conn (db_client buf)" "c_socket (db_client buf) = []"
    and "c_script (db_client buf) = Some (eip_frame hdr (connected_reply i (generic_body sq 0x4E (put16 b)))) # s"
  shows "SyncTags buf = (Inr (), buf\<lparr>db_client := after_request (db_client buf) (add_request buf) s,
    db_tags := map (mark b) (db_tags buf), db_synched := True\<rparr>)"
proof -
  have "add_tags_data (sync_entries (db_tags buf)) = add_tags_data
      (map (\<lambda>t. \<lparr>ae_dataTypeSize = bt_DataTypeSize t, ae_ioi = bt_ioi t, ae_index = 0\<rparr>) (filter (\<lambda>t. \<not> bt_synched t) (db_tags buf)))"
    by (rule add_tags_data_cong) (simp add: sync_request comp_def)
  then show ?thesis
    using add_tags_answered[OF assms, of "db_instanceID buf" "sync_entries (db_tags buf)"]
    by (simp add: SyncTags_def Let_def dwrap_def on_client_def mark_synched_entries add_request_def)
qed

text \<open>
  C22.  Reading a buffer gives every tag its own value.  A buffer with tags that the controller
  does not have yet first sends exactly those, in one request, and then asks for all values.  When
  the controller answers with a batch number and with the slots of all tags, grouped by the
  batches they were added in, each tag is decoded from its own slot: the result maps every
  tag's name to its value, variables given by reference receive theirs, and all tags count as
  entered.
\<close>

theorem buffer_read:
  assumes "db_created buf" "\<not> db_synched buf" "db_tags buf \<noteq> []" "numbered (db_tags buf)"
    and "distinct (map bt_Name (db_tags buf))"
    and "c_Connected (db_client buf)" "c_conn (db_client buf)" "c_socket (db_client buf) = []"
    and "c_script (db_client buf) = Some (eip_frame h1 (connected_reply i (generic_body sq 0x4E (put16 b))))
      # Some (eip_frame h2 (connected_reply j (generic_body sq' CIPService_Read (layout bs)))) # s"
    and "map fst (entries bs) = map (mark b) (db_tags buf)" "batched 0 bs" "length (layout bs) < 65000"
    and "fits (db_vars buf) (entries bs)"
  shows "\<exists>vals buf'. ReadAll buf = (Inr vals, buf')
    \<and> (\<forall>(t, raw, v)\<in>set (entries bs). map_of vals (bt_Name t) = Some v) \<and> dom (map_of vals) = bt_Name ` set (db_tags buf)
    \<and> db_vars buf' = put_vars (entries bs) (db_vars buf) \<and> db_tags buf' = map (mark b) (db_tags buf) \<and> db_synched buf'
    \<and> c_sent (db_client buf') = c_sent (db_client buf) @ [unit_request (db_client buf) (add_request buf),
        unit_request (db_client buf) (read_request (c_sequenceValue (db_client buf) + 1) buf)]"
proof -
  let ?c1 = "after_request (db_client buf) (add_request buf)
    (Some (eip_frame h2 (connected_reply j (generic_body sq' CIPService_Read (layout bs)))) # s)"
  let ?b1 = "buf\<lparr>db_client := ?c1, db_tags := map (mark b) (db_tags buf), db_synched := True\<rparr>"
  let ?c2 = "after_request ?c1 (read_request (c_sequenceValue ?c1) buf) s"
  have sync: "SyncTags buf = (Inr (), ?b1)" using sync_answered[OF assms(6-9)] .
  have "c_Connected ?c1" "c_conn ?c1" "c_socket ?c1 = []" using assms(6-8) by (simp_all add: c_Connected_def)
  then obtain it where it: "DataTableReadBuffer (db_instanceID buf) ?c1 = (Inr it, ?c2)" "pos_ok it" "unread it = layout bs"
    using read_buffer_answered[of ?c1 "layout bs" h2 j sq' s "db_instanceID buf"] assms(12) by (auto simp: read_request_def)
  have "fetch_buffer buf = (Inr it, ?b1\<lparr>db_client := ?c2\<rparr>)"
    using assms(1-3) sync it(1) by (simp add: fetch_buffer_def dwrap_def on_client_def)
  moreover have "sorted_tags (?b1\<lparr>db_client := ?c2\<rparr>) = map fst (entries bs)"
    using assms(4,10) by (simp add: sorted_tags_def sorted_numbered)
  moreover have "read_values 0 (map fst (entries bs)) it [] (?b1\<lparr>db_client := ?c2\<rparr>) = (Inr (put_values (entries bs) []),
      ?b1\<lparr>db_client := ?c2, db_vars := put_vars (entries bs) (db_vars buf)\<rparr>)"
    using walk_batches[OF assms(11) _ it(2,3), of "?b1\<lparr>db_client := ?c2\<rparr>" "[]"] assms(13) by simp
  ultimately have run: "ReadAll buf = (Inr (put_values (entries bs) []),
      ?b1\<lparr>db_client := ?c2, db_vars := put_vars (entries bs) (db_vars buf)\<rparr>)"
    by (simp add: ReadAll_def dbind_def)
  have names: "map (bt_Name \<circ> fst) (entries bs) = map bt_Name (db_tags buf)"
    using arg_cong[OF assms(10), of "map bt_Name"] by (simp add: comp_def)
  have vals: "\<forall>(t, raw, v)\<in>set (entries bs). map_of (put_values (entries bs) []) (bt_Name t) = Some v"
    using values_put(1)[of "entries bs"] assms(5) by (auto simp only: names) force
  have "set (map (bt_Name \<circ> fst) (entries bs)) = set (map bt_Name (db_tags buf))" by (rule arg_cong[OF names])
  then have "dom (map_of (put_values (entries bs) [])) = bt_Name ` set (db_tags buf)"
    using values_put(2)[of "entries bs", unfolded names, OF assms(5)] by (metis set_map)
  with run vals show ?thesis by (intro exI conjI) (assumption | simp)+
qed

section \<open>Every operation but one keeps the numbering\<close>

lemma tags_on_client [simp]: "db_tags (snd (on_client f buf)) = db_tags buf"
  by (simp add: on_client_def split_beta)

text \<open>An action keeps the numbering when it leaves a numbered list of tags numbered, whether it fails or not.\<close>

definition keeps :: "'a dact \<Rightarrow> bool" where
  "keeps f \<longleftrightarrow> (\<forall>buf. indexed (db_tags buf) \<longrightarrow> indexed (db_tags (snd (f buf))))"

lemma keepsI: "(\<And>buf. indexed (db_tags buf) \<Longrightarrow> indexed (db_tags (snd (f buf)))) \<Longrightarrow> keeps f"
  by (simp add: keeps_def)

lemma keepsD: "keeps f \<Longrightarrow> indexed (db_tags buf) \<Longrightarrow> indexed (db_tags (snd (f buf)))"
  by (simp add: keeps_def)

named_theorems keeps_intros

lemma keeps_basic [keeps_intros]:
  "keeps (dret x)" "keeps (dfail e)" "keeps (on_client h)" "keeps (\<lambda>buf. (r buf, buf))"
  by (simp_all add: keeps_def)

lemma keeps_dbind [keeps_intros]:
  assumes "keeps f" "\<And>x. keeps (g x)"
  shows "keeps (dbind f g)" "keeps (dwrap m f g)"
proof -
  have "indexed (db_tags (snd (f buf)))" if "indexed (db_tags buf)" for buf using keepsD[OF assms(1) that] .
  then have s: "indexed (db_tags b)" if "f buf = (r, b)" "indexed (db_tags buf)" for buf b r using that by force
  show "keeps (dbind f g)" "keeps (dwrap m f g)"
    using s keepsD[OF assms(2)] by (auto simp: keeps_def dbind_def dwrap_def split: prod.splits sum.splits)
qed

lemma keeps_dcreated [keeps_intros]: "keeps f \<Longrightarrow> keeps (dcreated f)"
  by (auto simp: keeps_def dcreated_def)

lemma keeps_case [keeps_intros]:
  "(\<And>x. keeps (f x)) \<Longrightarrow> (\<And>y. keeps (g y)) \<Longrightarrow> keeps (case r of Inl x \<Rightarrow> f x | Inr y \<Rightarrow> g y)"
  "keeps f0 \<Longrightarrow> (\<And>x. keeps (h x)) \<Longrightarrow> keeps (case d of None \<Rightarrow> f0 | Some x \<Rightarrow> h x)"
  "(\<And>x y. keeps (k x y)) \<Longrightarrow> keeps (case p of (x, y) \<Rightarrow> k x y)"
  "keeps f1 \<Longrightarrow> keeps f2 \<Longrightarrow> keeps (if cnd then f1 else f2)"
  by (auto split: sum.split option.split prod.split)

lemma keeps_setGoVar [keeps_intros]: "keeps (setGoVar d v)"
  by (auto simp: keeps_def setGoVar_def split: var_ref.splits)

lemma keeps_prepare [keeps_intros]: "keeps (prepare_tag n t)" "keeps (prepare_all m)"
proof -
  show p: "keeps (prepare_tag n t)" for n t unfolding prepare_tag_def by (intro keeps_intros)
  show "keeps (prepare_all m)"
    by (induction m rule: prepare_all.induct) (auto intro!: keeps_intros p)
qed

lemma keeps_add_tag [keeps_intros]: "keeps (add_tag n t v)"
proof -
  have "keeps (\<lambda>buf. (Inr (), buf\<lparr>db_synched := False,
      db_tags := db_tags buf @ [new_tag n t sz (of_nat (length (db_tags buf) + 1)) ioi v]\<rparr>))" for sz ioi
    by (rule keepsI) (auto intro!: indexed_append simp: new_tag_def)
  then show ?thesis unfolding add_tag_def by (intro keeps_intros) (auto simp: split_beta)
qed

lemma keeps_AddTags [keeps_intros]: "keeps (AddTags m)"
proof -
  have "keeps (\<lambda>buf. let baseIndex = (of_nat (length (db_tags buf) + 1) :: u16) in
       (Inr (), buf\<lparr>db_tags := db_tags buf @
            map (\<lambda>(i, t). new_tag (pt_name t) (pt_cipType t) (pt_typeSize t) (baseIndex + of_nat i) (pt_ioi t) None)
              (enumerate 0 prepared), db_synched := False\<rparr>))" for prepared :: "preparedTag list"
    by (rule keepsI) (auto intro!: indexed_append nth_equalityI simp: new_tag_def Let_def nth_enumerate_eq)
  then show ?thesis unfolding AddTags_def by (intro keeps_intros)
qed

lemma keeps_SyncTags [keeps_intros]: "keeps SyncTags"
proof (rule keepsI)
  fix buf :: DataTableBuffer
  assume "indexed (db_tags buf)"
  then show "indexed (db_tags (snd (SyncTags buf)))"
    by (auto simp: SyncTags_def Let_def dwrap_def on_client_def mark_synched_entries split: prod.splits sum.splits)
qed

lemma keeps_reads [keeps_intros]: "keeps fetch_buffer" "keeps (read_values cur ts it m)"
proof -
  have c: "keeps (\<lambda>buf. on_client (DataTableReadBuffer (db_instanceID buf)) buf)" by (simp add: keeps_def)
  show "keeps fetch_buffer"
    unfolding fetch_buffer_def
  proof (intro keeps_dcreated keepsI)
    fix buf :: DataTableBuffer
    assume i: "indexed (db_tags buf)"
    have "keeps (dwrap ''could not sync tags before read'' (if db_synched buf then dret () else SyncTags)
        (\<lambda>_ buf. on_client (DataTableReadBuffer (db_instanceID buf)) buf))"
      by (intro keeps_intros c)
    from keepsD[OF this i] i show "indexed (db_tags (snd (if db_tags buf = [] then (Inl (Msg ''no tags in datatable buffer''), buf)
       else dwrap ''could not sync tags before read'' (if db_synched buf then dret () else SyncTags) (\<lambda>_ buf.
         on_client (DataTableReadBuffer (db_instanceID buf)) buf) buf)))" by (auto simp: indexed_def)
  qed
  show "keeps (read_values cur ts it m)"
    by (induction cur ts it m rule: read_values.induct) (auto intro!: keeps_intros split: sum.splits option.splits)
qed

lemma keeps_ReadAll [keeps_intros]: "keeps ReadAll" "keeps (ReadAllTyped order)" "keeps ReadAllRaw"
proof -
  have v: "keeps (\<lambda>buf. read_values 0 (sorted_tags buf) resp [] buf)" for resp
    using keepsD[OF keeps_reads(2)] by (simp add: keeps_def)
  show r: "keeps ReadAll" unfolding ReadAll_def by (intro keeps_intros v)
  show "keeps (ReadAllTyped order)" unfolding ReadAllTyped_def by (intro keeps_intros r)
  show "keeps ReadAllRaw" unfolding ReadAllRaw_def by (intro keeps_intros)
qed

lemma keeps_groups [keeps_intros]: "keeps (AddTagGroup order g args)" "keeps (AddTaggedStruct order' p fs args)"
proof -
  have a: "indexed (db_tags (snd (AddTags m (buf\<lparr>db_expansions := e\<rparr>))))" if "indexed (db_tags buf)" for buf :: DataTableBuffer and m e
    using keepsD[OF keeps_AddTags, of "buf\<lparr>db_expansions := e\<rparr>"] that by simp
  show "keeps (AddTagGroup order g args)"
    unfolding AddTagGroup_def by (intro keeps_dcreated keepsI) (simp add: split_beta a)
  have "bt_index (set_var ptrs t) = bt_index t" for ptrs t by (simp add: set_var_def split: option.split)
  then have i: "indexed (map (set_var ptrs) ts) = indexed ts" for ptrs ts by (simp add: indexed_def comp_def)
  have "indexed (db_tags b)" if "indexed (db_tags buf)" "AddTags m (buf\<lparr>db_expansions := e\<rparr>) = (r, b)" for buf b :: DataTableBuffer and m e r
    using a[OF that(1), of m e] that(2) by simp
  then show "keeps (AddTaggedStruct order' p fs args)"
    unfolding AddTaggedStruct_def
    by (intro keeps_dcreated keepsI) (auto simp: dbind_def i split: sum.splits prod.splits)
qed

lemma keeps_Close [keeps_intros]: "keeps Close"
proof (rule keepsI)
  fix buf :: DataTableBuffer
  assume "indexed (db_tags buf)"
  then show "indexed (db_tags (snd (Close buf)))"
    by (auto simp: Close_def on_client_def split: prod.splits sum.splits)
qed

text \<open>
  The life of a buffer: its operations in any order with any outcome, while the client is used for
  other things and the caller changes its variables.  The constructor for removal is apart.
\<close>

inductive buffer_step :: "DataTableBuffer \<Rightarrow> DataTableBuffer \<Rightarrow> bool" where
  tag: "buffer_step buf (snd (AddTag n t buf))"
| by_ref: "buffer_step buf (snd (AddTagRef n d buf))"
| tags: "buffer_step buf (snd (AddTags m buf))"
| tag_group: "buffer_step buf (snd (AddTagGroup order g args buf))"
| tag_struct: "buffer_step buf (snd (AddTaggedStruct order p fs args buf))"
| sync: "buffer_step buf (snd (SyncTags buf))"
| read_all: "buffer_step buf (snd (ReadAll buf))"
| read_typed: "buffer_step buf (snd (ReadAllTyped order' buf))"
| read_raw: "buffer_step buf (snd (ReadAllRaw buf))"
| close: "buffer_step buf (snd (Close buf))"
| elsewhere: "buffer_step buf (buf\<lparr>db_client := c, db_vars := vars\<rparr>)"

lemma buffer_step_indexed: "buffer_step buf buf' \<Longrightarrow> indexed (db_tags buf) \<Longrightarrow> indexed (db_tags buf')"
proof (induction rule: buffer_step.induct)
  case (by_ref buf n d)
  then show ?case unfolding AddTagRef_def by (rule keepsD[OF keeps_add_tag])
qed (auto simp: AddTag_def intro: keepsD keeps_intros)

text \<open>
  C23.  As long as no tag is removed, the indices of a buffer's tags are their positions: from a new
  buffer, through any sequence of the other operations, successful or not, the tag at position
  \<open>i\<close> has index \<open>i + 1\<close> in the 16 bits the protocol has for it, and up to 65535 tags the
  order by index in which \<^const>\<open>ReadAll\<close> walks the reply is the order in which the tags were added.
\<close>

theorem indices_are_positions:
  assumes "fst (NewDataTableBuffer vars c) = Inr buf" "buffer_step\<^sup>*\<^sup>* buf buf'"
  shows "(\<forall>i<length (db_tags buf'). bt_index (db_tags buf' ! i) = of_nat (i + 1))
    \<and> (length (db_tags buf') < 65536 \<longrightarrow> sorted_tags buf' = db_tags buf')"
proof -
  have "db_tags buf = []" using assms(1) by (auto simp: NewDataTableBuffer_def split: prod.splits sum.splits)
  then have "indexed (db_tags buf)" by (simp add: indexed_def)
  with assms(2) have i: "indexed (db_tags buf')"
    by (induction rule: rtranclp_induct) (auto intro: buffer_step_indexed)
  then have "bt_index (db_tags buf' ! k) = of_nat (k + 1)" if "k < length (db_tags buf')" for k
    using arg_cong[of _ _ "\<lambda>l. l ! k", OF i[unfolded indexed_def]] that by simp
  moreover have "sorted_tags buf' = db_tags buf'" if "length (db_tags buf') < 65536"
    using i that unfolding sorted_tags_def by (intro sorted_numbered) (simp add: numbered_def)
  ultimately show ?thesis by blast
qed

definition demo_tag :: "string \<Rightarrow> cip_type \<Rightarrow> u16 \<Rightarrow> u16 \<Rightarrow> u16 \<Rightarrow> var_ref option \<Rightarrow> DataTableBufferTag" where
  "demo_tag name t sz index b var = \<lparr>bt_Name = name, bt_CIPType = t, bt_DataTypeSize = sz, bt_index = index, bt_ioi = [0x91, 1, 97, 0],
     bt_batchID = b, bt_synched = (b \<noteq> 0), bt_Var = var\<rparr>"

definition demo_buffer :: "bytes option list \<Rightarrow> DataTableBuffer" where
  "demo_buffer script = \<lparr>db_client = demo_client\<lparr>c_script := script, c_ioi_cache := (\<lambda>_. Some demo_path)\<rparr>, db_instanceID = 5,
     db_tags = [demo_tag ''A'' CIPTypeDINT 4 1 1 None, demo_tag ''B'' CIPTypeINT 2 2 0 (Some (Pointer 0))],
     db_expansions = [], db_created = True, db_synched = False, db_vars = (\<lambda>_. VInt16 0)\<rparr>"

definition demo_header :: eipHeader where
  "demo_header = \<lparr>eh_Command = cipCommandSendUnitData, eh_Length = 0, eh_SessionHandle = 7, eh_Status = 0, eh_Context = 0, eh_Options = 0\<rparr>"

theorem buffer_read_witness:
  "\<exists>bs vals buf'. ReadAll (demo_buffer [Some (eip_frame demo_header (connected_reply 1 (generic_body 1 0x4E (put16 2)))),
      Some (eip_frame demo_header (connected_reply 1 (generic_body 2 CIPService_Read bs)))]) = (Inr vals, buf')
    \<and> bs = put16 1 @ put32 7 @ put16 2 @ put16 9
    \<and> map_of vals ''A'' = Some (VInt32 7) \<and> map_of vals ''B'' = Some (VInt16 9) \<and> db_vars buf' 0 = VInt16 9"
proof -
  let ?a = "demo_tag ''A'' CIPTypeDINT 4 1 1 None" and ?b = "demo_tag ''B'' CIPTypeINT 2 2 0 (Some (Pointer 0))"
  let ?bs = "[(1, [(?a, put32 7, VInt32 7)]), (2, [(mark 2 ?b, put16 9, VInt16 9)])] :: (u16 \<times> entry list) list"
  let ?script = "[Some (eip_frame demo_header (connected_reply 1 (generic_body 1 0x4E (put16 2)))),
    Some (eip_frame demo_header (connected_reply 1 (generic_body 2 CIPService_Read (layout ?bs))))]"
  let ?buf = "demo_buffer ?script"
  have l: "layout ?bs = put16 1 @ put32 7 @ put16 2 @ put16 9" by (simp add: layout_def)
  have f: "db_created ?buf" "\<not> db_synched ?buf" "db_tags ?buf \<noteq> []" "distinct (map bt_Name (db_tags ?buf))"
    "c_Connected (db_client ?buf)" "c_conn (db_client ?buf)" "c_socket (db_client ?buf) = []" "c_script (db_client ?buf) = ?script"
    by (simp_all add: demo_buffer_def demo_client_def demo_tag_def c_Connected_def)
  have n: "numbered (db_tags ?buf)" by (simp add: numbered_def indexed_def demo_buffer_def demo_tag_def upt_rec)
  have m: "map fst (entries ?bs) = map (mark 2) (db_tags ?buf)" "batched 0 ?bs"
    by (simp_all add: demo_buffer_def demo_tag_def mark_def)
  have len: "length (layout ?bs) < 65000" unfolding l by simp
  have h: "fits (db_vars ?buf) (entries ?bs)"
    by (simp add: holds_def accepts_def demo_buffer_def demo_tag_def decodeDataTableValue_def readValue_def readValue_type_def
        binary_read_def read_full_def mark_def)
  obtain vals buf' where run: "ReadAll ?buf = (Inr vals, buf')"
    and v: "\<forall>(t, raw, v)\<in>set (entries ?bs). map_of vals (bt_Name t) = Some v" "db_vars buf' = put_vars (entries ?bs) (db_vars ?buf)"
    using buffer_read[OF f(1-3) n f(4-8) m len h] by blast
  have "map_of vals ''A'' = Some (VInt32 7)" "map_of vals ''B'' = Some (VInt16 9)" "db_vars buf' 0 = VInt16 9"
    using v by (simp_all add: demo_tag_def mark_def store_var_def)
  with run l show ?thesis by (intro exI[of _ "layout ?bs"] exI[of _ vals] exI[of _ buf']) simp
qed

theorem indices_are_positions_witness:
  "\<exists>buf buf'. fst (NewDataTableBuffer (\<lambda>_. VNil) (demo_client\<lparr>c_script := [Some (eip_frame demo_header (connected_reply 1 (generic_body 1 CIPService_Create (put16 3))))]\<rparr>)) = Inr buf
    \<and> buf' = snd (AddTag ''b'' CIPTypeINT (snd (AddTag ''a'' CIPTypeDINT buf)))
    \<and> (\<forall>i<length (db_tags buf'). bt_index (db_tags buf' ! i) = of_nat (i + 1))"
proof -
  let ?c = "demo_client\<lparr>c_script := [Some (eip_frame demo_header (connected_reply 1 (generic_body 1 CIPService_Create (put16 3))))]\<rparr>"
  let ?it = "(item_Write (generic_body 1 CIPService_Create (put16 3)) (empty_item cipItem_ConnectedData))\<lparr>Pos := 6\<rparr>"
  have "\<not> IsResponse CIPService_Create" by (simp add: IsResponse_def)
  then have g: "\<exists>c'. GenericCIPMessage CIPService_Create (dataTablePath 0) [0x01, 0x00, 0x03, 0x00, 0x03, 0x00] ?c = (Inr ?it, c')"
    using generic_answered[of ?c demo_header 1 1 CIPService_Create "put16 3" "[]"] by (simp add: demo_client_def)
  have "item_Uint16 ?it = Inr (3, ?it\<lparr>Pos := 8\<rparr>)"
    by (simp add: item_Uint16_def item_get_def generic_body_def item_Write_def empty_item_def)
  moreover have "checkConn ?c = (Inr (), ?c)" by (simp add: checkConn_def c_Connected_def demo_client_def)
  ultimately obtain buf where new: "fst (NewDataTableBuffer (\<lambda>_. VNil) ?c) = Inr buf"
    using g by (auto simp: NewDataTableBuffer_def CreateDataTableBuffer_def cwrap_def cret_def)
  let ?b1 = "snd (AddTag ''a'' CIPTypeDINT buf)"
  have "buffer_step\<^sup>*\<^sup>* buf (snd (AddTag ''b'' CIPTypeINT ?b1))"
    using buffer_step.tag[of buf "''a''" CIPTypeDINT] buffer_step.tag[of ?b1 "''b''" CIPTypeINT] by (meson converse_rtranclp_into_rtranclp rtranclp.rtrancl_refl)
  from indices_are_positions[OF new this] new show ?thesis by blast
qed

text \<open>
  After a removal the numbering breaks.  When a tag other than the last has been removed and
  another one is added, the new tag has the index of the tag before it: the two cannot be told
  apart by the controller's remove service, and their order in the reply is no longer defined
  by the indices.
\<close>

theorem removal_breaks_numbering:
  assumes "numbered (db_tags buf)" "tag_position name (db_tags buf) = Some i" "i + 1 < length (db_tags buf)"
    and "RemoveTag name buf = (Inr (), buf1)" "AddTag name' t buf1 = (Inr (), buf2)"
  shows "\<exists>ts x y. db_tags buf2 = ts @ [x, y] \<and> bt_index x = bt_index y \<and> bt_Name y = name'
    \<and> bt_index y = of_nat (length (db_tags buf))"
proof -
  have t1: "db_tags buf1 = take i (db_tags buf) @ drop (i + 1) (db_tags buf)" "db_created buf1"
    using assms(2,4) by (auto simp: RemoveTag_def dcreated_def dwrap_def on_client_def split: if_splits prod.splits sum.splits)
  have "\<exists>sz ioi. db_tags buf2 = db_tags buf1 @ [new_tag name' t sz (of_nat (length (db_tags buf1) + 1)) ioi None]"
    using assms(5) t1(2) by (auto simp: AddTag_def add_tag_def dbind_def prepare_tag_def dwrap_def on_client_def split: prod.splits sum.splits) blast
  then obtain sz ioi where t2: "db_tags buf2 = db_tags buf1 @ [new_tag name' t sz (of_nat (length (db_tags buf1) + 1)) ioi None]" by blast
  have len: "length (db_tags buf1) + 1 = length (db_tags buf)" using assms(3) t1 by simp
  have "last (db_tags buf1) = last (db_tags buf)" "db_tags buf1 \<noteq> []" using assms(3) t1(1) by auto
  then have "db_tags buf1 = butlast (db_tags buf1) @ [last (db_tags buf)]" by (metis append_butlast_last_id)
  moreover have "bt_index (last (db_tags buf)) = of_nat (length (db_tags buf))"
  proof -
    have "db_tags buf \<noteq> []" using assms(3) by auto
    then show ?thesis
      using arg_cong[of _ _ last, OF assms(1)[unfolded numbered_def indexed_def, THEN conjunct1]]
      by (cases "length (db_tags buf)") (simp_all add: last_map)
  qed
  ultimately show ?thesis unfolding t2 len
    by (intro exI[of _ "butlast (db_tags buf1)"] exI[of _ "last (db_tags buf)"]
        exI[of _ "new_tag name' t sz (of_nat (length (db_tags buf))) ioi None"]) (simp add: new_tag_def)
qed

theorem removal_breaks_numbering_witness:
  "\<exists>buf1 buf2 ts x y. RemoveTag ''A'' (demo_buffer [Some (eip_frame demo_header (connected_reply 1 (generic_body 1 CIPService_RemoveTagFromBuffer [])))])
      = (Inr (), buf1)
    \<and> AddTag ''c'' CIPTypeINT buf1 = (Inr (), buf2) \<and> db_tags buf2 = ts @ [x, y] \<and> bt_index x = bt_index y"
proof -
  let ?buf = "demo_buffer [Some (eip_frame demo_header (connected_reply 1 (generic_body 1 CIPService_RemoveTagFromBuffer [])))]"
  let ?c = "after_request (db_client ?buf) (generic_request 0 CIPService_RemoveTagFromBuffer (dataTablePath 5) (put16 1)) []"
  let ?b1 = "?buf\<lparr>db_client := ?c, db_tags := drop 1 (db_tags ?buf)\<rparr>"
  have c: "c_Connected (db_client ?buf)" "c_conn (db_client ?buf)" "c_socket (db_client ?buf) = []" "c_sequenceValue (db_client ?buf) = 0"
    "c_script (db_client ?buf) = [Some (eip_frame demo_header (connected_reply 1 (generic_body 1 CIPService_RemoveTagFromBuffer [])))]"
    by (simp_all add: demo_buffer_def demo_client_def c_Connected_def)
  have d: "db_tags ?buf = [demo_tag ''A'' CIPTypeDINT 4 1 1 None, demo_tag ''B'' CIPTypeINT 2 2 0 (Some (Pointer 0))]"
    "db_instanceID ?buf = 5" "db_created ?buf" by (simp_all add: demo_buffer_def)
  have "\<not> IsResponse CIPService_RemoveTagFromBuffer" by (simp add: IsResponse_def)
  then have "DataTableRemoveTag 5 1 (db_client ?buf) = (Inr (), ?c)"
    using generic_answered[of "db_client ?buf" demo_header 1 1 CIPService_RemoveTagFromBuffer "[]" "[]" "dataTablePath 5" "put16 1"] c
    by (simp add: DataTableRemoveTag_def cwrap_def checkConn_def cret_def)
  then have r: "RemoveTag ''A'' ?buf = (Inr (), ?b1)"
    using d by (simp add: RemoveTag_def dwrap_def on_client_def demo_tag_def)
  have "newIOI (c_KnownTags ?c) (c_knownFirmware ?c) ''c'' CIPTypeINT (c_ioi_cache ?c) = Inr (demo_path, c_ioi_cache ?c)"
    by (simp add: after_request_def demo_buffer_def demo_client_def newIOI_def Let_def)
  moreover have "c_knownFirmware ?c \<noteq> 0" by (simp add: after_request_def demo_buffer_def demo_client_def)
  ultimately have "\<exists>c'. c_newIOI ''c'' CIPTypeINT ?c = (Inr demo_path, c')" by (simp add: c_newIOI_known)
  then obtain b2 where a: "AddTag ''c'' CIPTypeINT ?b1 = (Inr (), b2)"
    using d(3) by (auto simp: AddTag_def add_tag_def dbind_def prepare_tag_def dwrap_def on_client_def resolveTypeSize_def
        dataTableTypeSize_def CIPType_Size_def)
  have "numbered (db_tags ?buf)" "tag_position ''A'' (db_tags ?buf) = Some 0" "0 + 1 < length (db_tags ?buf)"
    unfolding d by (simp_all add: numbered_def indexed_def demo_tag_def upt_rec)
  from removal_breaks_numbering[OF this r a] r a show ?thesis by blast
qed

end
