(* ===== verification/Go_Channels.thy ===== *)
theory Go_Channels
  imports "HOL-Library.Sublist"
begin

text \<open>
  Go channels, as far as the library uses them: sending without waiting
  (\<^verbatim>\<open>select\<close> with a \<^verbatim>\<open>default\<close> case), receiving, closing.  What receivers have
  taken is kept, so that the history of a channel is what was ever sent on it.
\<close>

record 'a chan =
  ch_capacity :: nat
  ch_buffer :: "'a list"
  ch_received :: "'a list"
  ch_waiting :: bool
  ch_closed :: bool

definition make_chan :: "nat \<Rightarrow> 'a chan" where
  "make_chan n = \<lparr>ch_capacity = n, ch_buffer = [], ch_received = [], ch_waiting = False, ch_closed = False\<rparr>"

text \<open>A send succeeds when a receiver waits or the buffer has room.\<close>

definition can_send :: "'a chan \<Rightarrow> bool" where
  "can_send ch \<longleftrightarrow> ch_waiting ch \<or> length (ch_buffer ch) < ch_capacity ch"

definition offer :: "'a \<Rightarrow> 'a chan \<Rightarrow> 'a chan" where
  "offer v ch =
     (if ch_waiting ch then ch\<lparr>ch_received := ch_received ch @ [v], ch_waiting := False\<rparr>
      else if length (ch_buffer ch) < ch_capacity ch then ch\<lparr>ch_buffer := ch_buffer ch @ [v]\<rparr>
      else ch)"

text \<open>A receiver takes the next value, or waits for one.\<close>

definition receive :: "'a chan \<Rightarrow> 'a chan" where
  "receive ch =
     (case ch_buffer ch of
        [] \<Rightarrow> if ch_closed ch then ch else ch\<lparr>ch_waiting := True\<rparr>
      | v # vs \<Rightarrow> ch\<lparr>ch_buffer := vs, ch_received := ch_received ch @ [v]\<rparr>)"

definition close_chan :: "'a chan \<Rightarrow> 'a chan" where
  "close_chan ch = ch\<lparr>ch_closed := True, ch_waiting := False\<rparr>"

definition history :: "'a chan \<Rightarrow> 'a list" where
  "history ch = ch_received ch @ ch_buffer ch"

text \<open>A receiver that waits has emptied the buffer.\<close>

definition chan_ok :: "'a chan \<Rightarrow> bool" where
  "chan_ok ch \<longleftrightarrow> length (ch_buffer ch) \<le> ch_capacity ch \<and> (ch_waiting ch \<longrightarrow> ch_buffer ch = [])"

lemma subseq_append_sent: "subseq xs ys \<Longrightarrow> subseq xs (ys @ zs)"
  using list_emb_append2[of "(=)" xs ys] by (metis list_emb_append_mono append_Nil2 list_emb_Nil)

section \<open>The interface of a lossy outlet\<close>

text \<open>
  What the senders rely on: an offer adds its value at the end of what was sent, or is lost; nothing
  else adds, removes or reorders values.
\<close>

locale outlet =
  fixes put :: "'v \<Rightarrow> 'c \<Rightarrow> 'c"
    and move :: "'c \<Rightarrow> 'c"
    and sent :: "'c \<Rightarrow> 'v list"
    and room :: "'c \<Rightarrow> bool"
    and ok :: "'c \<Rightarrow> bool"
  assumes put_sent: "ok c \<Longrightarrow> sent (put v c) = (if room c then sent c @ [v] else sent c)"
    and move_sent: "sent (move c) = sent c"
    and put_ok: "ok c \<Longrightarrow> ok (put v c)"
    and move_ok: "ok c \<Longrightarrow> ok (move c)"
begin

text \<open>A sequence of offers (\<open>Some v\<close>) with movements of receivers (\<open>None\<close>) between them.\<close>

definition step :: "'v option \<Rightarrow> 'c \<Rightarrow> 'c" where
  "step e c = (case e of None \<Rightarrow> move c | Some v \<Rightarrow> put v c)"

lemma step_ok: "ok c \<Longrightarrow> ok (step e c)"
  by (cases e) (simp_all add: step_def put_ok move_ok)

lemma step_sent: "ok c \<Longrightarrow> subseq (sent (step e c)) (sent c @ (case e of None \<Rightarrow> [] | Some v \<Rightarrow> [v]))"
  by (cases e) (auto simp: step_def put_sent move_sent)

end

interpretation go_chan: outlet offer receive history can_send chan_ok
proof
  fix ch :: "'a chan" and v
  show "chan_ok ch \<Longrightarrow> history (offer v ch) = (if can_send ch then history ch @ [v] else history ch)"
    by (auto simp: history_def offer_def can_send_def chan_ok_def)
  show "history (receive ch) = history ch"
    by (auto simp: history_def receive_def split: list.split)
  show "chan_ok ch \<Longrightarrow> chan_ok (offer v ch)"
    by (auto simp: chan_ok_def offer_def)
  show "chan_ok ch \<Longrightarrow> chan_ok (receive ch)"
    by (auto simp: chan_ok_def receive_def split: list.split)
qed

lemma make_chan_simps [simp]:
  "chan_ok (make_chan n)" "history (make_chan n) = []" "ch_closed (make_chan n) = False"
  by (simp_all add: chan_ok_def make_chan_def history_def)

lemma close_chan_simps [simp]:
  "history (close_chan ch) = history ch" "ch_closed (close_chan ch)" "chan_ok ch \<Longrightarrow> chan_ok (close_chan ch)"
  by (simp_all add: close_chan_def history_def chan_ok_def)

end
