(* ===== verification/Tag_Subscriptions.thy ===== *)
theory Tag_Subscriptions
  imports ReadList_Replies Client_Discovery Go_Channels "HOL-Library.List_Lexorder" "HOL-Library.Char_ord"
begin

text \<open>
  Subscriptions that poll: \<^verbatim>\<open>tag_subscribe.go\<close>.  A goroutine reads a tag, or batches of tags, at
  every tick of a timer and sends values that have changed on a channel.  What the goroutine, the
  receivers of its channels and other users of the client do is a sequence of steps in any order.
\<close>

unbundle bit_operations_syntax

section \<open>Comparing values\<close>

text \<open>
  \<^verbatim>\<open>reflect.DeepEqual\<close>: floats are compared as numbers, so a NaN differs from itself and the
  two zeros are equal.
\<close>

definition nan32 :: "u32 \<Rightarrow> bool" where
  "nan32 w \<longleftrightarrow> w AND 0x7F800000 = 0x7F800000 \<and> w AND 0x007FFFFF \<noteq> 0"

definition nan64 :: "u64 \<Rightarrow> bool" where
  "nan64 w \<longleftrightarrow> w AND 0x7FF0000000000000 = 0x7FF0000000000000 \<and> w AND 0x000FFFFFFFFFFFFF \<noteq> 0"

fun has_nan :: "goval \<Rightarrow> bool" where
  "has_nan (VFloat32 w) = nan32 w"
| "has_nan (VFloat64 w) = nan64 w"
| "has_nan (VSlice t vs) = list_ex has_nan vs"
| "has_nan (VArray t vs) = list_ex has_nan vs"
| "has_nan (VStruct n fs) = list_ex (\<lambda>f. has_nan (snd f)) fs"
| "has_nan v = False"

fun plus_zero :: "goval \<Rightarrow> goval" where
  "plus_zero (VFloat32 w) = VFloat32 (if w = 0x80000000 then 0 else w)"
| "plus_zero (VFloat64 w) = VFloat64 (if w = 0x8000000000000000 then 0 else w)"
| "plus_zero (VSlice t vs) = VSlice t (map plus_zero vs)"
| "plus_zero (VArray t vs) = VArray t (map plus_zero vs)"
| "plus_zero (VStruct n fs) = VStruct n (map (\<lambda>f. (fst f, plus_zero (snd f))) fs)"
| "plus_zero v = v"

definition deep_equal :: "goval \<Rightarrow> goval \<Rightarrow> bool" where
  "deep_equal v w \<longleftrightarrow> \<not> has_nan v \<and> plus_zero v = plus_zero w"

section \<open>One tag\<close>

record TagSubscriptionConfig =
  tc_Tag :: string
  tc_PollInterval :: int
  tc_EmitInitial :: bool
  tc_ValueBuffer :: int
  tc_ErrorBuffer :: int

text \<open>
  The subscription with what its goroutine keeps: \<open>ts_prev\<close> is \<^verbatim>\<open>prev\<close>, once there is one
  (\<^verbatim>\<open>hasPrev\<close>).
\<close>

record TagSubscription =
  ts_tag :: string
  ts_dest :: read_dest
  ts_pollInterval :: int
  ts_emitInitial :: bool
  ts_values :: "goval chan"
  ts_errs :: "gerror chan"
  ts_prev :: "goval option"
  ts_stopped :: bool
  ts_done :: bool

definition positive :: "int \<Rightarrow> int \<Rightarrow> int" where
  "positive n d = (if n \<le> 0 then d else n)"

definition SubscribeTag :: "read_dest \<Rightarrow> TagSubscriptionConfig \<Rightarrow> TagSubscription cact" where
  "SubscribeTag dest cfg =
     cwrap ''could not start tag subscription'' checkConn (\<lambda>_.
     if strings_TrimSpace (tc_Tag cfg) = [] then cfail (Msg ''tag must not be empty'')
     else cret \<lparr>ts_tag = tc_Tag cfg, ts_dest = dest, ts_pollInterval = positive (tc_PollInterval cfg) 200000000,
         ts_emitInitial = tc_EmitInitial cfg, ts_values = make_chan (nat (positive (tc_ValueBuffer cfg) 32)),
         ts_errs = make_chan (nat (positive (tc_ErrorBuffer cfg) 8)), ts_prev = None, ts_stopped = False, ts_done = False\<rparr>)"

text \<open>What the loop does with the result of a read.\<close>

definition deliver :: "goval res \<Rightarrow> TagSubscription \<Rightarrow> TagSubscription" where
  "deliver r sub =
     (case r of
        Inl e \<Rightarrow> sub\<lparr>ts_errs := offer e (ts_errs sub)\<rparr>
      | Inr cur \<Rightarrow>
          (case ts_prev sub of
             None \<Rightarrow>
               (let sub' = sub\<lparr>ts_prev := Some cur\<rparr> in
                if ts_emitInitial sub then sub'\<lparr>ts_values := offer cur (ts_values sub)\<rparr> else sub')
           | Some prev \<Rightarrow>
               if \<not> deep_equal cur prev then sub\<lparr>ts_prev := Some cur, ts_values := offer cur (ts_values sub)\<rparr> else sub))"

definition poll :: "TagSubscription \<Rightarrow> goval cact" where
  "poll sub = Read (ts_tag sub) (ts_dest sub)"

definition sub_Stop :: "TagSubscription \<Rightarrow> TagSubscription" where
  "sub_Stop sub = sub\<lparr>ts_stopped := True\<rparr>"

text \<open>The deferred calls of the goroutine when it returns.\<close>

definition sub_exit :: "TagSubscription \<Rightarrow> TagSubscription" where
  "sub_exit sub = sub\<lparr>ts_values := close_chan (ts_values sub), ts_errs := close_chan (ts_errs sub), ts_done := True\<rparr>"

text \<open>
  Runs of a subscription from its start: what the polls returned, in order, and whether one of them came
  when the value channel was full.  After \<^verbatim>\<open>Stop\<close> the loop returns at one of the next rounds,
  because \<^verbatim>\<open>select\<close> may still choose a tick that is ready.
\<close>

inductive sub_run :: "TagSubscription \<times> Client \<Rightarrow> goval res list \<Rightarrow> bool \<Rightarrow> TagSubscription \<times> Client \<Rightarrow> bool"
  for start where
  begins: "sub_run start [] False start"
| ticks: "sub_run start rs full (sub, c) \<Longrightarrow> \<not> ts_done sub \<Longrightarrow> poll sub c = (r, c') \<Longrightarrow>
    (\<forall>e. r = Inl e \<longrightarrow> \<not> is_panic e) \<Longrightarrow>
    sub_run start (rs @ [r]) (full \<or> \<not> can_send (ts_values sub)) (deliver r sub, c')"
| takes: "sub_run start rs full (sub, c) \<Longrightarrow> sub_run start rs full (sub\<lparr>ts_values := receive (ts_values sub)\<rparr>, c)"
| takes_error: "sub_run start rs full (sub, c) \<Longrightarrow> sub_run start rs full (sub\<lparr>ts_errs := receive (ts_errs sub)\<rparr>, c)"
| elsewhere: "sub_run start rs full (sub, c) \<Longrightarrow> sub_run start rs full (sub, c')"
| stops: "sub_run start rs full (sub, c) \<Longrightarrow> sub_run start rs full (sub_Stop sub, c)"
| exits: "sub_run start rs full (sub, c) \<Longrightarrow> ts_stopped sub \<Longrightarrow> \<not> ts_done sub \<Longrightarrow> sub_run start rs full (sub_exit sub, c)"

section \<open>What a subscription reports\<close>

text \<open>The promise: the first value if asked for, then every value that differs from the one before it.\<close>

fun changes :: "goval list \<Rightarrow> goval list" where
  "changes (a # b # vs) = (if deep_equal b a then [] else [b]) @ changes (b # vs)"
| "changes vs = []"

definition updates :: "bool \<Rightarrow> goval list \<Rightarrow> goval list" where
  "updates emit vs = (if emit then take 1 vs else []) @ changes vs"

definition read_values :: "goval res list \<Rightarrow> goval list" where
  "read_values rs = concat (map (\<lambda>r. case r of Inl _ \<Rightarrow> [] | Inr v \<Rightarrow> [v]) rs)"

definition read_errors :: "goval res list \<Rightarrow> gerror list" where
  "read_errors rs = concat (map (\<lambda>r. case r of Inl e \<Rightarrow> [e] | Inr _ \<Rightarrow> []) rs)"

lemma changes_snoc:
  "changes (vs @ [v]) = changes vs @ (if vs = [] \<or> deep_equal v (last vs) then [] else [v])"
  by (induction vs rule: changes.induct) auto

lemma updates_snoc:
  "updates emit (vs @ [v]) =
     updates emit vs @ (if vs = [] then (if emit then [v] else []) else if deep_equal v (last vs) then [] else [v])"
  by (cases vs) (auto simp: updates_def changes_snoc[of vs v] changes_snoc[of "_ # _" v, simplified])

lemma read_values_simps [simp]:
  "read_values [] = []" "read_values (rs @ [Inr v]) = read_values rs @ [v]" "read_values (rs @ [Inl e]) = read_values rs"
  "read_errors [] = []" "read_errors (rs @ [Inr v]) = read_errors rs" "read_errors (rs @ [Inl e]) = read_errors rs @ [e]"
  by (simp_all add: read_values_def read_errors_def)

text \<open>The loop compares with the last value it sent or skipped, which equals the last value it read.\<close>

definition follows :: "goval option \<Rightarrow> goval list \<Rightarrow> bool" where
  "follows prev vs = (case prev of None \<Rightarrow> vs = [] | Some p \<Rightarrow> vs \<noteq> [] \<and> plus_zero p = plus_zero (last vs))"

text \<open>
  The contract both kinds of subscription keep for a tag: how a value that was read moves the value
  compared with and what was sent.
\<close>

locale change_feed =
  fixes emit :: "'s \<Rightarrow> bool"
    and prev :: "'s \<Rightarrow> goval option"
    and sent :: "'s \<Rightarrow> goval list"
    and room :: "'s \<Rightarrow> bool"
    and ok :: "'s \<Rightarrow> bool"
    and feed :: "goval \<Rightarrow> 's \<Rightarrow> 's"
  assumes feed_first: "ok s \<Longrightarrow> prev s = None \<Longrightarrow>
      prev (feed v s) = Some v \<and> sent (feed v s) = sent s @ (if emit s \<and> room s then [v] else [])"
    and feed_same: "ok s \<Longrightarrow> prev s = Some p \<Longrightarrow> deep_equal v p \<Longrightarrow>
      prev (feed v s) = Some p \<and> sent (feed v s) = sent s"
    and feed_change: "ok s \<Longrightarrow> prev s = Some p \<Longrightarrow> \<not> deep_equal v p \<Longrightarrow>
      prev (feed v s) = Some v \<and> sent (feed v s) = sent s @ (if room s then [v] else [])"
    and feed_ok: "ok s \<Longrightarrow> ok (feed v s)"
    and feed_emit: "emit (feed v s) = emit s"
begin

definition faithful :: "bool \<Rightarrow> goval list \<Rightarrow> bool \<Rightarrow> 's \<Rightarrow> bool" where
  "faithful em vs full s \<longleftrightarrow>
     ok s \<and> emit s = em \<and> follows (prev s) vs \<and> subseq (sent s) (updates em vs) \<and> (\<not> full \<longrightarrow> sent s = updates em vs)"

lemma feed_faithful:
  assumes "faithful em vs full s"
  shows "faithful em (vs @ [v]) (full \<or> \<not> room s) (feed v s)"
proof (cases "prev s")
  case None
  then show ?thesis using assms feed_first[of s v] feed_ok[of s v] feed_emit[of v s]
    by (auto simp: faithful_def follows_def updates_def subseq_append_sent)
next
  case (Some p)
  with assms have p: "vs \<noteq> []" "deep_equal v p = deep_equal v (last vs)"
    by (simp_all add: faithful_def follows_def deep_equal_def)
  show ?thesis
  proof (cases "deep_equal v p")
    case True
    then show ?thesis using assms feed_same[OF _ Some True] feed_ok[of s v] feed_emit[of v s] p Some
      by (auto simp: faithful_def follows_def updates_snoc deep_equal_def)
  next
    case False
    then show ?thesis using assms feed_change[OF _ Some False] feed_ok[of s v] feed_emit[of v s] p
      by (auto simp: faithful_def follows_def updates_snoc subseq_append_sent)
  qed
qed

lemma idle_faithful:
  "faithful em vs full s \<Longrightarrow> ok s' \<Longrightarrow> emit s' = emit s \<Longrightarrow> prev s' = prev s \<Longrightarrow> sent s' = sent s \<Longrightarrow> faithful em vs full s'"
  by (simp add: faithful_def)

lemma fresh_faithful: "ok s \<Longrightarrow> prev s = None \<Longrightarrow> sent s = [] \<Longrightarrow> faithful (emit s) [] False s"
  by (simp add: faithful_def follows_def updates_def)

lemma faithful_more_full: "faithful em vs full s \<Longrightarrow> faithful em vs (full \<or> b) s"
  by (auto simp: faithful_def)

text \<open>While the values read equal the one compared with, nothing is sent.\<close>

lemma feed_silent:
  "ok s \<Longrightarrow> prev s = Some p \<Longrightarrow> deep_equal v p \<Longrightarrow> prev (feed v s) = Some p \<and> sent (feed v s) = sent s \<and> ok (feed v s)"
  by (simp add: feed_same feed_ok)

end

interpretation one: change_feed ts_emitInitial ts_prev "\<lambda>s. history (ts_values s)" "\<lambda>s. can_send (ts_values s)"
  "\<lambda>s. chan_ok (ts_values s)" "\<lambda>v. deliver (Inr v)"
  by unfold_locales (auto simp: deliver_def Let_def go_chan.put_sent go_chan.put_ok split: option.splits)

lemma deliver_error_simps [simp]:
  "ts_values (deliver (Inl e) sub) = ts_values sub" "ts_emitInitial (deliver (Inl e) sub) = ts_emitInitial sub"
  "ts_prev (deliver (Inl e) sub) = ts_prev sub" "ts_errs (deliver (Inl e) sub) = offer e (ts_errs sub)"
  by (simp_all add: deliver_def)

lemma deliver_value_errs [simp]: "ts_errs (deliver (Inr v) sub) = ts_errs sub"
  by (simp add: deliver_def Let_def split: option.split)

lemma deliver_faithful:
  "one.faithful em (read_values rs) full sub \<Longrightarrow>
   one.faithful em (read_values (rs @ [r])) (full \<or> \<not> can_send (ts_values sub)) (deliver r sub)"
proof (cases r)
  case (Inl e)
  assume "one.faithful em (read_values rs) full sub"
  then have "one.faithful em (read_values rs) full (deliver r sub)"
    using Inl by (simp add: one.faithful_def)
  then show ?thesis using Inl one.faithful_more_full by simp
qed (simp add: one.feed_faithful)

lemma run_faithful:
  "sub_run start rs full s \<Longrightarrow> one.faithful em [] False (fst start) \<Longrightarrow> one.faithful em (read_values rs) full (fst s)"
proof (induction rule: sub_run.induct)
  case (ticks rs full sub c r c')
  then show ?case by (simp add: deliver_faithful)
qed (auto elim!: one.idle_faithful simp: go_chan.move_sent go_chan.move_ok sub_Stop_def sub_exit_def one.faithful_def)

lemma run_errors:
  "sub_run start rs full s \<Longrightarrow> chan_ok (ts_errs (fst start)) \<Longrightarrow> history (ts_errs (fst start)) = [] \<Longrightarrow>
   chan_ok (ts_errs (fst s)) \<and> subseq (history (ts_errs (fst s))) (read_errors rs)"
proof (induction rule: sub_run.induct)
  case (ticks rs full sub c r c')
  then show ?case by (cases r) (auto simp: go_chan.put_sent go_chan.put_ok subseq_append_sent)
qed (auto simp: go_chan.move_sent go_chan.move_ok sub_Stop_def sub_exit_def)

lemma subscribed_faithful:
  "SubscribeTag dest cfg c = (Inr sub, c') \<Longrightarrow>
   one.faithful (tc_EmitInitial cfg) [] False sub \<and> chan_ok (ts_errs sub) \<and> history (ts_errs sub) = []"
  by (auto simp: SubscribeTag_def cact_Inr one.faithful_def follows_def updates_def split: if_splits)

text \<open>
  C26.  A subscription reports changes: whatever the order of polls, receptions, \<^verbatim>\<open>Stop\<close> and other
  use of the client, what was ever sent on its value channel is a subsequence of the values the polls
  read, in order, that differ from their predecessor (after the first one, when it is asked for), and
  exactly these if no poll met a full channel; the errors sent are a subsequence of the errors of the
  polls.
\<close>

theorem subscription_reports_changes:
  assumes "SubscribeTag dest cfg c = (Inr sub, c')" and "sub_run (sub, c') rs full (sub', c'')"
  shows "subseq (history (ts_values sub')) (updates (tc_EmitInitial cfg) (read_values rs))
    \<and> subseq (history (ts_errs sub')) (read_errors rs)
    \<and> (\<not> full \<longrightarrow> history (ts_values sub') = updates (tc_EmitInitial cfg) (read_values rs))"
  using run_faithful[OF assms(2)] run_errors[OF assms(2)] subscribed_faithful[OF assms(1)] by (simp add: one.faithful_def)

definition demo_config :: TagSubscriptionConfig where
  "demo_config = \<lparr>tc_Tag = ''abc'', tc_PollInterval = 0, tc_EmitInitial = True, tc_ValueBuffer = 1, tc_ErrorBuffer = 0\<rparr>"

definition demo_sub :: TagSubscription where
  "demo_sub = \<lparr>ts_tag = ''abc'', ts_dest = DScalar TInt32, ts_pollInterval = 200000000, ts_emitInitial = True,
     ts_values = make_chan 1, ts_errs = make_chan 8, ts_prev = None, ts_stopped = False, ts_done = False\<rparr>"

abbreviation answering :: "u8 \<Rightarrow> Client" where
  "answering b \<equiv> demo_reader (chunk_replies demo_reply_header 9 1 0xCC CIPTypeDINT 0 [[b, 0, 0, 0]])"

lemma demo_read_value: "\<exists>c'. Read ''abc'' (DScalar TInt32) (answering b) = (Inr (VInt32 (ucast b)), c')"
proof -
  let ?c = "answering b" and ?xs = "[[b, 0, 0, 0]] :: bytes list"
  have c: "c_connStatus ?c = Connected" "eh_Status demo_reply_header = 0" "c_conn ?c" "c_socket ?c = []"
    "c_script ?c = chunk_replies demo_reply_header 9 1 0xCC CIPTypeDINT 0 ?xs @ []"
    by (simp_all add: demo_reader_def demo_client_def demo_reply_header_def)
  have x: "?xs \<noteq> []" "length ?xs \<le> 1025" "\<forall>x\<in>set ?xs. length x < 65000" "CIPTypeDINT \<noteq> CIPTypeUnknown" by simp_all
  have d: "decodeSingleReadPayload CIPTypeDINT 1 demo_path CIPTypeDINT ([] @ concat ?xs) = Inr (VInt32 (ucast b))"
    by (simp add: decodeSingleReadPayload_def readValue_def readValue_type_def binary_read_def read_full_def get_eval)
  obtain c' where "read_rounds 1025 CIPTypeDINT 1 demo_path (singleReadService ''abc'' CIPTypeDINT 1 ?c) 0 [] CIPTypeDINT ?c
      = (decodeSingleReadPayload CIPTypeDINT 1 demo_path CIPTypeDINT ([] @ concat ?xs), c')"
    using read_rounds_chunks[OF x c(2-5)] by blast
  then have "Read_single ''abc'' CIPTypeDINT 1 ?c = (Inr (VInt32 (ucast b)), c')"
    using Read_single_connected[OF c(1) demo_newIOI] d by simp
  then have "Read ''abc'' (DScalar TInt32) ?c = (Inr (VInt32 (ucast b)), c')"
    by (simp add: Read_def cwrap_def checkConn_def c_Connected_def read_T_def cbind_def cast_to_def cret_def)
      (simp add: demo_reader_def demo_client_def)
  then show ?thesis by blast
qed

lemma demo_subscribe: "SubscribeTag (DScalar TInt32) demo_config (answering b) = (Inr demo_sub, answering b)"
proof -
  have "strings_TrimSpace ''abc'' \<noteq> []" by code_simp
  then show ?thesis
    by (simp add: SubscribeTag_def cwrap_def checkConn_def c_Connected_def demo_reader_def demo_client_def demo_config_def
        demo_sub_def positive_def cret_def)
qed

lemma demo_tick:
  assumes "sub_run start rs full (sub, c)" and "\<not> ts_done sub" "ts_tag sub = ''abc''" "ts_dest sub = DScalar TInt32"
    and "can_send (ts_values sub)"
  shows "\<exists>c'. sub_run start (rs @ [Inr (VInt32 (ucast (b :: u8)))]) full (deliver (Inr (VInt32 (ucast b))) sub, c')"
proof -
  obtain c' where "poll sub (answering b) = (Inr (VInt32 (ucast b)), c')"
    using demo_read_value assms(3,4) by (auto simp: poll_def)
  from ticks[OF elsewhere[OF assms(1)] assms(2) this] show ?thesis using assms(5) by auto
qed

theorem subscription_reports_changes_witness:
  "\<exists>s c'. sub_run (demo_sub, answering 0) [Inr (VInt32 5), Inr (VInt32 5), Inr (VInt32 6)] False (s, c')
    \<and> history (ts_values s) = [VInt32 5, VInt32 6]"
proof -
  let ?s = "demo_sub\<lparr>ts_prev := Some (VInt32 5), ts_values := receive (offer (VInt32 5) (make_chan 1))\<rparr>"
  have first: "deliver (Inr (VInt32 5)) demo_sub = demo_sub\<lparr>ts_prev := Some (VInt32 5), ts_values := offer (VInt32 5) (make_chan 1)\<rparr>"
    by (simp add: deliver_def demo_sub_def)
  have same: "deliver (Inr (VInt32 5)) ?s = ?s" by (simp add: deliver_def deep_equal_def)
  have room: "can_send (ts_values demo_sub)" "can_send (ts_values ?s)"
    by (simp_all add: can_send_def demo_sub_def make_chan_def offer_def receive_def)
  obtain d where "sub_run (demo_sub, answering 0) [Inr (VInt32 5)] False (deliver (Inr (VInt32 5)) demo_sub, d)"
    using demo_tick[OF begins, of demo_sub "answering 0" 5] room by (auto simp: demo_sub_def)
  from takes[OF this] have "sub_run (demo_sub, answering 0) [Inr (VInt32 5)] False (?s, d)" by (simp add: first)
  from demo_tick[OF this, of 5] room same obtain d where
    "sub_run (demo_sub, answering 0) [Inr (VInt32 5), Inr (VInt32 5)] False (?s, d)" by (auto simp: demo_sub_def)
  from demo_tick[OF this, of 6] room obtain d where
    run: "sub_run (demo_sub, answering 0) [Inr (VInt32 5), Inr (VInt32 5), Inr (VInt32 6)] False (deliver (Inr (VInt32 6)) ?s, d)"
    by (auto simp: demo_sub_def)
  have "updates True [VInt32 5, VInt32 5, VInt32 6] = [VInt32 5, VInt32 6]"
    by (simp add: updates_def deep_equal_def)
  with run subscription_reports_changes[OF demo_subscribe run]
  show ?thesis by (intro exI conjI) (assumption, simp add: read_values_def demo_config_def)
qed

section \<open>What is lost\<close>

lemma run_silent:
  assumes "sub_run start rs full s" and "\<forall>w\<in>set (read_values rs). deep_equal w v"
    and "chan_ok (ts_values (fst start))" "ts_prev (fst start) = Some v"
  shows "chan_ok (ts_values (fst s)) \<and> ts_prev (fst s) = Some v \<and> history (ts_values (fst s)) = history (ts_values (fst start))"
  using assms
proof (induction rule: sub_run.induct)
  case (ticks rs full sub c r c')
  then show ?case by (cases r) (auto simp: one.feed_silent)
qed (auto simp: go_chan.move_sent go_chan.move_ok sub_Stop_def sub_exit_def)

text \<open>
  A change that meets a full channel is lost for good: the loop has already taken it for the
  previous value, so while the tag keeps it no later poll sends it, however often receivers make room.
\<close>

theorem change_lost_on_full_channel:
  assumes "chan_ok (ts_values sub)" "\<not> can_send (ts_values sub)" "ts_prev sub = Some p" "\<not> deep_equal v p"
    and "sub_run (deliver (Inr v) sub, c) rs full (sub', c')" and "\<forall>w\<in>set (read_values rs). deep_equal w v"
  shows "history (ts_values sub') = history (ts_values sub)"
proof -
  have "ts_prev (deliver (Inr v) sub) = Some v" "history (ts_values (deliver (Inr v) sub)) = history (ts_values sub)"
    "chan_ok (ts_values (deliver (Inr v) sub))"
    using one.feed_change[OF assms(1,3,4)] one.feed_ok[OF assms(1)] assms(2) by simp_all
  with run_silent[OF assms(5,6)] show ?thesis by simp
qed

theorem change_lost_on_full_channel_witness:
  "\<exists>s c'. sub_run (deliver (Inr (VInt32 6)) (deliver (Inr (VInt32 5)) demo_sub), answering 0) [Inr (VInt32 6)] False (s, c')
    \<and> history (ts_values s) = [VInt32 5]"
proof -
  let ?f = "deliver (Inr (VInt32 5)) demo_sub"
  let ?s = "deliver (Inr (VInt32 6)) ?f"
  let ?r = "?s\<lparr>ts_values := receive (ts_values ?s)\<rparr>"
  have f: "?f = demo_sub\<lparr>ts_prev := Some (VInt32 5), ts_values := offer (VInt32 5) (make_chan 1)\<rparr>"
    by (simp add: deliver_def demo_sub_def)
  have full: "chan_ok (ts_values ?f)" "\<not> can_send (ts_values ?f)" "ts_prev ?f = Some (VInt32 5)"
    "\<not> deep_equal (VInt32 6) (VInt32 5)" "history (ts_values ?f) = [VInt32 5]"
    by (simp_all add: f chan_ok_def can_send_def make_chan_def offer_def deep_equal_def history_def)
  have "can_send (ts_values ?r)" 
    by (simp add: deliver_def demo_sub_def deep_equal_def can_send_def make_chan_def offer_def receive_def)
  moreover have "\<not> ts_done ?r \<and> ts_tag ?r = ''abc'' \<and> ts_dest ?r = DScalar TInt32"
    by (simp add: deliver_def demo_sub_def deep_equal_def)
  ultimately obtain d where run: "sub_run (?s, answering 0) [Inr (VInt32 6)] False (deliver (Inr (VInt32 6)) ?r, d)"
    using demo_tick[OF takes[OF begins], of ?s "answering 0" 6] by auto
  have "deep_equal (VInt32 6) (VInt32 6)" by (simp add: deep_equal_def)
  with change_lost_on_full_channel[OF full(1-4) run] full(5) run show ?thesis
    by (intro exI conjI) (assumption, simp add: read_values_def)
qed

end
