(* ===== verification/Tag_Multi_Subscriptions.thy ===== *)
theory Tag_Multi_Subscriptions
  imports Tag_Subscriptions Tag_Groups
begin

text \<open>
  Subscriptions to many tags: the second half of \<^verbatim>\<open>tag_subscribe.go\<close>.  The tags are sorted and cut
  into batches; every tick of the timer polls the next few batches in turn with \<^verbatim>\<open>ReadMap\<close>, which
  replaces the values of the batch in place, and sends what has changed.  Copies of values
  (\<^verbatim>\<open>snapshotValue\<close>) are the values themselves here.
\<close>

section \<open>State\<close>

record TagUpdate =
  tu_Tag :: string
  tu_Value :: goval
  tu_Timestamp :: int

record TagMultiSubscriptionConfig =
  mc_Tags :: "(string \<times> goval) list"
  mc_PollInterval :: int
  mc_BatchSize :: int
  mc_BatchesPerTick :: int
  mc_EmitInitial :: bool
  mc_ValueBuffer :: int
  mc_ErrorBuffer :: int

text \<open>
  The subscription with the variables of its goroutine.  \<open>ms_left\<close> is how many batches of the current
  tick are still to be polled, \<open>ms_pending\<close> what the loop over the current batch has still to meet, so that
  receivers can act between any two sends.
\<close>

record TagMultiSubscription =
  ms_batches :: "(string \<times> goval) list list"
  ms_pollInterval :: int
  ms_batchesPerTick :: int
  ms_emitInitial :: bool
  ms_values :: "TagUpdate chan"
  ms_errs :: "gerror chan"
  ms_prev :: "string \<rightharpoonup> goval"
  ms_seen :: "string \<Rightarrow> bool"
  ms_batchIndex :: nat
  ms_left :: nat
  ms_now :: int
  ms_pending :: "(string \<times> goval) list"
  ms_stopped :: bool
  ms_done :: bool

section \<open>Starting\<close>

function chunk :: "nat \<Rightarrow> 'a list \<Rightarrow> 'a list list" where
  "chunk n xs = (if n = 0 \<or> xs = [] then [] else take n xs # chunk n (drop n xs))"
  by auto
termination by (relation "measure (\<lambda>(n, xs). length xs)") auto

declare chunk.simps [simp del]

definition make_batches :: "nat \<Rightarrow> (string \<times> goval) list \<Rightarrow> (string \<times> goval) list list" where
  "make_batches n tags =
     map (map (\<lambda>k. (k, case map_of tags k of Some v \<Rightarrow> v | None \<Rightarrow> VNil))) (chunk n (sort (map fst tags)))"

definition SubscribeTags :: "TagMultiSubscriptionConfig \<Rightarrow> TagMultiSubscription cact" where
  "SubscribeTags cfg =
     cwrap ''could not start tag subscription'' checkConn (\<lambda>_.
     if mc_Tags cfg = [] then cfail (Msg ''tags must not be empty'')
     else if list_ex (\<lambda>(k, _). strings_TrimSpace k = []) (mc_Tags cfg) then cfail (Msg ''tag key must not be empty'')
     else cret \<lparr>ms_batches = make_batches (nat (positive (mc_BatchSize cfg) 200)) (mc_Tags cfg),
         ms_pollInterval = positive (mc_PollInterval cfg) 100000000,
         ms_batchesPerTick = positive (mc_BatchesPerTick cfg) 1, ms_emitInitial = mc_EmitInitial cfg,
         ms_values = make_chan (nat (positive (mc_ValueBuffer cfg) 256)),
         ms_errs = make_chan (nat (positive (mc_ErrorBuffer cfg) 32)),
         ms_prev = Map.empty, ms_seen = (\<lambda>_. False), ms_batchIndex = 0, ms_left = 0, ms_now = 0, ms_pending = [],
         ms_stopped = False, ms_done = False\<rparr>)"

section \<open>The loop\<close>

definition multi_tick :: "TagMultiSubscription \<Rightarrow> TagMultiSubscription" where
  "multi_tick sub = sub\<lparr>ms_left := nat (ms_batchesPerTick sub)\<rparr>"

text \<open>
  One batch: \<open>reads\<close> and \<open>meets\<close> are the orders in which Go meets the entries of the map in
  \<^verbatim>\<open>ReadMap\<close> and in the loop after it.
\<close>

definition scan ::
  "((string \<times> goval) list \<Rightarrow> (string \<times> goval) list) \<Rightarrow> ((string \<times> goval) list \<Rightarrow> (string \<times> goval) list) \<Rightarrow> int \<Rightarrow>
   TagMultiSubscription \<Rightarrow> TagMultiSubscription cact" where
  "scan reads meets now sub c =
     (if ms_batches sub = [] then (Inr (sub\<lparr>ms_left := 0\<rparr>), c)
      else
        let i = ms_batchIndex sub;
            sub1 = sub\<lparr>ms_left := ms_left sub - 1, ms_batchIndex := (i + 1) mod length (ms_batches sub)\<rparr> in
        case ReadMap (reads (ms_batches sub ! i)) c of
          (Inl e, c') \<Rightarrow> if is_panic e then (Inl e, c') else (Inr (sub1\<lparr>ms_errs := offer e (ms_errs sub)\<rparr>), c')
        | (Inr (m, _), c') \<Rightarrow>
            (Inr (sub1\<lparr>ms_batches := (ms_batches sub)[i := m], ms_now := now, ms_pending := meets m\<rparr>), c'))"

text \<open>The body of the loop over a batch.\<close>

definition compare_tag :: "string \<Rightarrow> goval \<Rightarrow> TagMultiSubscription \<Rightarrow> TagMultiSubscription" where
  "compare_tag tag cur sub =
     (let update = \<lparr>tu_Tag = tag, tu_Value = cur, tu_Timestamp = ms_now sub\<rparr> in
      if \<not> ms_seen sub tag then
        (let sub' = sub\<lparr>ms_seen := (ms_seen sub)(tag := True), ms_prev := (ms_prev sub)(tag \<mapsto> cur)\<rparr> in
         if ms_emitInitial sub then sub'\<lparr>ms_values := offer update (ms_values sub)\<rparr> else sub')
      else if \<not> deep_equal cur (case ms_prev sub tag of Some p \<Rightarrow> p | None \<Rightarrow> VNil) then
        sub\<lparr>ms_prev := (ms_prev sub)(tag \<mapsto> cur), ms_values := offer update (ms_values sub)\<rparr>
      else sub)"

definition multi_Stop :: "TagMultiSubscription \<Rightarrow> TagMultiSubscription" where
  "multi_Stop sub = sub\<lparr>ms_stopped := True\<rparr>"

definition multi_exit :: "TagMultiSubscription \<Rightarrow> TagMultiSubscription" where
  "multi_exit sub = sub\<lparr>ms_values := close_chan (ms_values sub), ms_errs := close_chan (ms_errs sub), ms_done := True\<rparr>"

definition order_of :: "('a list \<Rightarrow> 'a list) \<Rightarrow> bool" where
  "order_of f \<longleftrightarrow> (\<forall>xs. mset (f xs) = mset xs)"

text \<open>
  Runs, with what has happened: the batches polled with the names asked for and what was read, the values
  compared so far in order, and whether one of them came when the value channel was full.
\<close>

inductive multi_run ::
  "TagMultiSubscription \<times> Client \<Rightarrow> (string list \<times> (string \<times> goval) list) list \<Rightarrow> (string \<times> goval) list \<Rightarrow> bool \<Rightarrow>
   TagMultiSubscription \<times> Client \<Rightarrow> bool" for start where
  m_begins: "multi_run start [] [] False start"
| m_ticks: "multi_run start log cmp full (sub, c) \<Longrightarrow> ms_pending sub = [] \<Longrightarrow> ms_left sub = 0 \<Longrightarrow> \<not> ms_done sub \<Longrightarrow>
    multi_run start log cmp full (multi_tick sub, c)"
| m_scans: "multi_run start log cmp full (sub, c) \<Longrightarrow> ms_pending sub = [] \<Longrightarrow> 0 < ms_left sub \<Longrightarrow>
    order_of reads \<Longrightarrow> order_of meets \<Longrightarrow> scan reads meets now sub c = (Inr sub', c') \<Longrightarrow>
    multi_run start (log @ [(map fst (ms_batches sub ! ms_batchIndex sub), ms_pending sub')]) cmp full (sub', c')"
| m_compares: "multi_run start log cmp full (sub, c) \<Longrightarrow> ms_pending sub = (k, v) # rest \<Longrightarrow>
    multi_run start log (cmp @ [(k, v)]) (full \<or> \<not> can_send (ms_values sub)) (compare_tag k v (sub\<lparr>ms_pending := rest\<rparr>), c)"
| m_takes: "multi_run start log cmp full (sub, c) \<Longrightarrow> multi_run start log cmp full (sub\<lparr>ms_values := receive (ms_values sub)\<rparr>, c)"
| m_takes_error: "multi_run start log cmp full (sub, c) \<Longrightarrow> multi_run start log cmp full (sub\<lparr>ms_errs := receive (ms_errs sub)\<rparr>, c)"
| m_elsewhere: "multi_run start log cmp full (sub, c) \<Longrightarrow> multi_run start log cmp full (sub, c')"
| m_stops: "multi_run start log cmp full (sub, c) \<Longrightarrow> multi_run start log cmp full (multi_Stop sub, c)"
| m_exits: "multi_run start log cmp full (sub, c) \<Longrightarrow> ms_pending sub = [] \<Longrightarrow> ms_left sub = 0 \<Longrightarrow> ms_stopped sub \<Longrightarrow> \<not> ms_done sub \<Longrightarrow>
    multi_run start log cmp full (multi_exit sub, c)"

section \<open>Every tag reports its changes\<close>

definition values_for :: "string \<Rightarrow> TagUpdate list \<Rightarrow> goval list" where
  "values_for k us = map tu_Value (filter (\<lambda>u. tu_Tag u = k) us)"

definition compared_for :: "string \<Rightarrow> (string \<times> goval) list \<Rightarrow> goval list" where
  "compared_for k xs = map snd (filter (\<lambda>x. fst x = k) xs)"

lemma values_for_simps [simp]:
  "values_for k [] = []" "values_for k (us @ [u]) = values_for k us @ (if tu_Tag u = k then [tu_Value u] else [])"
  by (simp_all add: values_for_def)

lemma compared_for_simps [simp]:
  "compared_for k [] = []" "compared_for k (xs @ [x]) = compared_for k xs @ (if fst x = k then [snd x] else [])"
  by (simp_all add: compared_for_def)

definition multi_ok :: "TagMultiSubscription \<Rightarrow> bool" where
  "multi_ok s \<longleftrightarrow> chan_ok (ms_values s) \<and> (\<forall>t. ms_seen s t = (ms_prev s t \<noteq> None))"

interpretation many: change_feed ms_emitInitial "\<lambda>s. ms_prev s k" "\<lambda>s. values_for k (history (ms_values s))"
  "\<lambda>s. can_send (ms_values s)" multi_ok "compare_tag k" for k
  by unfold_locales
    (auto simp: compare_tag_def Let_def go_chan.put_sent go_chan.put_ok multi_ok_def)

lemma compare_other:
  "multi_ok s \<Longrightarrow> k' \<noteq> k \<Longrightarrow> ms_prev (compare_tag k' v s) k = ms_prev s k
    \<and> values_for k (history (ms_values (compare_tag k' v s))) = values_for k (history (ms_values s))"
  by (auto simp: compare_tag_def Let_def go_chan.put_sent multi_ok_def)

lemma compare_fields [simp]:
  "ms_pending (compare_tag k v s) = ms_pending s" "ms_batches (compare_tag k v s) = ms_batches s"
  "ms_batchIndex (compare_tag k v s) = ms_batchIndex s"
  by (simp_all add: compare_tag_def Let_def)

lemma compare_faithful:
  assumes "many.faithful k em (compared_for k cmp) full s"
  shows "many.faithful k em (compared_for k (cmp @ [(k', v)])) (full \<or> \<not> can_send (ms_values s)) (compare_tag k' v s)"
proof (cases "k' = k")
  case True
  then show ?thesis using many.feed_faithful[OF assms] by simp
next
  case False
  have ok: "multi_ok s" using assms by (simp add: many.faithful_def)
  have "many.faithful k em (compared_for k cmp) full (compare_tag k' v s)"
    by (rule many.idle_faithful[OF assms many.feed_ok[OF ok] many.feed_emit]) (simp_all add: compare_other[OF ok False])
  then show ?thesis using False many.faithful_more_full by simp
qed

lemma scan_cases:
  assumes "scan reads meets now sub c = (Inr sub', c')"
  obtains (none) "ms_batches sub = []" "sub' = sub\<lparr>ms_left := 0\<rparr>"
  | (error) e where "ms_batches sub \<noteq> []" "sub' = sub\<lparr>ms_left := ms_left sub - 1,
      ms_batchIndex := (ms_batchIndex sub + 1) mod length (ms_batches sub), ms_errs := offer e (ms_errs sub)\<rparr>"
  | (read) m ks where "ms_batches sub \<noteq> []" "ReadMap (reads (ms_batches sub ! ms_batchIndex sub)) c = (Inr (m, ks), c')"
      "sub' = sub\<lparr>ms_left := ms_left sub - 1, ms_batchIndex := (ms_batchIndex sub + 1) mod length (ms_batches sub),
        ms_batches := (ms_batches sub)[ms_batchIndex sub := m], ms_now := now, ms_pending := meets m\<rparr>"
  using assms by (auto simp: scan_def Let_def split: if_splits prod.splits sum.splits)

lemma scan_fields:
  "scan reads meets now sub c = (Inr sub', c') \<Longrightarrow>
   ms_values sub' = ms_values sub \<and> ms_prev sub' = ms_prev sub \<and> ms_seen sub' = ms_seen sub
   \<and> ms_emitInitial sub' = ms_emitInitial sub"
  by (erule scan_cases) simp_all

lemma multi_run_faithful:
  "multi_run start log cmp full s \<Longrightarrow> many.faithful k em [] False (fst start) \<Longrightarrow>
   many.faithful k em (compared_for k cmp) full (fst s)"
proof (induction rule: multi_run.induct)
  case (m_scans log cmp full sub c reads meets now sub' c')
  then show ?case using scan_fields[OF m_scans.hyps(6)] unfolding many.faithful_def by (simp add: multi_ok_def)
next
  case (m_compares log cmp full sub c k' v rest)
  then have "many.faithful k em (compared_for k cmp) full (sub\<lparr>ms_pending := rest\<rparr>)"
    unfolding many.faithful_def by (simp add: multi_ok_def)
  from compare_faithful[OF this, of k' v] show ?case by simp
qed (unfold many.faithful_def, auto simp: multi_ok_def multi_tick_def multi_Stop_def multi_exit_def go_chan.move_sent go_chan.move_ok)

lemma multi_run_compared:
  "multi_run start log cmp full s \<Longrightarrow> ms_pending (fst start) = [] \<Longrightarrow>
   concat (map snd log) = cmp @ ms_pending (fst s)"
  by (induction rule: multi_run.induct) (auto simp: multi_tick_def multi_Stop_def multi_exit_def)

lemma subscribed_many:
  "SubscribeTags cfg c = (Inr sub, c') \<Longrightarrow>
   many.faithful k (mc_EmitInitial cfg) [] False sub \<and> ms_pending sub = [] \<and> ms_batchIndex sub = 0
   \<and> ms_batches sub = make_batches (nat (positive (mc_BatchSize cfg) 200)) (mc_Tags cfg) \<and> mc_Tags cfg \<noteq> []"
  unfolding many.faithful_def by (auto simp: SubscribeTags_def cact_Inr multi_ok_def follows_def updates_def split: if_splits)

text \<open>
  C27.  Every tag of a subscription to many reports its changes.  Once the loop over the last batch is
  through, the updates sent for a tag are a subsequence of the values its polls read that
  differ from their predecessor (after the first, when it is asked for), in order, and exactly these if no comparison met
  a full channel: neither the other tags of a batch, nor the order in which the map is met, nor receivers
  between two sends disturb it.
\<close>

theorem many_tags_report_changes:
  assumes "SubscribeTags cfg c = (Inr sub, c')" and "multi_run (sub, c') log cmp full (sub', c'')" and "ms_pending sub' = []"
  shows "subseq (values_for k (history (ms_values sub'))) (updates (mc_EmitInitial cfg) (compared_for k (concat (map snd log))))
    \<and> (\<not> full \<longrightarrow>
        values_for k (history (ms_values sub')) = updates (mc_EmitInitial cfg) (compared_for k (concat (map snd log))))"
  using multi_run_faithful[OF assms(2)] multi_run_compared[OF assms(2)] subscribed_many[OF assms(1)] assms(3)
  by (simp add: many.faithful_def)

section \<open>Every tag has its turn\<close>

lemma chunk_simps [simp]: "chunk n [] = []" "chunk 0 xs = []"
  by (simp_all add: chunk.simps)

lemma chunk_step: "0 < n \<Longrightarrow> xs \<noteq> [] \<Longrightarrow> chunk n xs = take n xs # chunk n (drop n xs)"
  by (simp add: chunk.simps[of n xs])

lemma concat_chunk: "0 < n \<Longrightarrow> concat (chunk n xs) = xs"
proof (induction n xs rule: chunk.induct)
  case (1 n xs)
  then show ?case by (cases "xs = []") (simp_all add: chunk_step[of n xs])
qed

lemma length_chunk: "0 < n \<Longrightarrow> length (chunk n xs) = (length xs + n - 1) div n"
proof (induction n xs rule: chunk.induct)
  case (1 n xs)
  show ?case
  proof (cases "xs = []")
    case False
    have "(length xs - 1 + n) div n = Suc ((length xs - 1) div n)" using 1(2) by (simp add: div_add_self2)
    moreover have "length xs + n - 1 = length xs - 1 + n" using False by (cases xs) auto
    ultimately have count: "(length xs + n - 1) div n = Suc ((length xs - 1) div n)" by argo
    have "length (drop n xs) + n - 1 = length xs - 1 \<or> length xs - 1 < n \<and> length (drop n xs) + n - 1 < n"
      using 1(2) by (cases "n \<le> length xs") auto
    then have "(length (drop n xs) + n - 1) div n = (length xs - 1) div n" by (metis div_less)
    with count 1(1)[OF _ 1(2)] 1(2) False show ?thesis by (simp only: chunk_step list.size not_False_eq_True) simp
  qed (use 1(2) in simp)
qed

lemma chunk_length: "ys \<in> set (chunk n xs) \<Longrightarrow> length ys \<le> n"
proof (induction n xs rule: chunk.induct)
  case (1 n xs)
  then show ?case by (cases "n = 0 \<or> xs = []") (auto simp: chunk_step[of n xs])
qed

lemma one_holder:
  "distinct (concat xss) \<Longrightarrow> x \<in> set (concat xss) \<Longrightarrow> \<exists>b<length xss. \<forall>i<length xss. x \<in> set (xss ! i) \<longleftrightarrow> i = b"
proof (induction xss)
  case (Cons xs xss)
  show ?case
  proof (cases "x \<in> set xs")
    case True
    then have "\<forall>i<length xss. x \<notin> set (xss ! i)" using Cons.prems by (auto simp: disjoint_iff)
    then show ?thesis using True by (intro exI[of _ 0]) (auto simp: nth_Cons split: nat.split)
  next
    case False
    then obtain b where b: "b < length xss" "\<forall>i<length xss. x \<in> set (xss ! i) \<longleftrightarrow> i = b" using Cons by auto
    then show ?thesis using False by (intro exI[of _ "Suc b"]) (auto simp: nth_Cons split: nat.split)
  qed
qed simp

lemma ReadMap_keys: "ReadMap m c = (Inr (m', ks), c') \<Longrightarrow> map fst m' = map fst m"
  by (auto simp: ReadMap_def read_map_def cbind_Inr cret_Inr split: prod.splits sum.splits if_splits
      dest!: map_reader.read_batches_each)

text \<open>The polls so far have gone through the batches in a circle, and a poll leaves the names of a batch.\<close>

definition circled :: "string list list \<Rightarrow> (string list \<times> (string \<times> goval) list) list \<Rightarrow> TagMultiSubscription \<Rightarrow> bool" where
  "circled names log sub \<longleftrightarrow>
     length (ms_batches sub) = length names \<and> ms_batchIndex sub = length log mod length names \<and>
     (\<forall>i<length names. mset (map fst (ms_batches sub ! i)) = mset (names ! i)) \<and>
     (\<forall>j<length log. mset (fst (log ! j)) = mset (names ! (j mod length names)))"

lemma scan_circled:
  assumes "circled names log sub" "names \<noteq> []" "order_of reads" "scan reads meets now sub c = (Inr sub', c')"
  shows "circled names (log @ [(map fst (ms_batches sub ! ms_batchIndex sub), x)]) sub'"
proof -
  let ?N = "length names"
  have N: "0 < ?N" "ms_batchIndex sub < ?N" using assms(1,2) by (auto simp: circled_def)
  have log: "\<forall>j<Suc (length log). mset (fst ((log @ [(map fst (ms_batches sub ! ms_batchIndex sub), x)]) ! j)) = mset (names ! (j mod ?N))"
    using assms(1) N by (auto simp: circled_def nth_append less_Suc_eq)
  have idx: "Suc (length log mod ?N) mod ?N = Suc (length log) mod ?N" by (simp add: mod_Suc_eq)
  show ?thesis using assms(4)
  proof (cases rule: scan_cases)
    case none
    then show ?thesis using assms(1,2) by (simp add: circled_def)
  next
    case (error e)
    then show ?thesis using assms(1) log idx by (simp add: circled_def)
  next
    case (read m ks)
    have "mset (map fst m) = image_mset fst (mset (reads (ms_batches sub ! ms_batchIndex sub)))"
      using ReadMap_keys[OF read(2)] by (metis mset_map)
    also have "\<dots> = mset (map fst (ms_batches sub ! ms_batchIndex sub))" using assms(3) by (simp add: order_of_def)
    finally show ?thesis using read assms(1) log idx N by (auto simp: circled_def nth_list_update)
  qed
qed

lemma run_circled:
  "multi_run start log cmp full s \<Longrightarrow> names \<noteq> [] \<Longrightarrow> circled names [] (fst start) \<Longrightarrow> circled names log (fst s)"
proof (induction rule: multi_run.induct)
  case (m_scans log cmp full sub c reads meets now sub' c')
  then show ?case using scan_circled[of names log sub reads meets now c sub' c'] by simp
qed (simp_all add: circled_def multi_tick_def multi_Stop_def multi_exit_def)

text \<open>
  C28.  Tags are polled in turn.  With \<open>N\<close> batches, the number of tags over the batch size
  rounded up, a tag is in the \<open>j\<close>-th poll of a subscription exactly when \<open>j mod N\<close> is the number of its batch:
  it is polled once in any \<open>N\<close> successive polls, whatever the polls return and however \<^verbatim>\<open>ReadMap\<close> rewrites
  the batches; and no poll asks for more tags than the batch size.
\<close>

theorem tags_polled_in_turn:
  assumes "SubscribeTags cfg c = (Inr sub, c')" "distinct (map fst (mc_Tags cfg))"
    and "multi_run (sub, c') log cmp full s" and "k \<in> set (map fst (mc_Tags cfg))"
    and B: "B = nat (positive (mc_BatchSize cfg) 200)" and N: "N = (length (mc_Tags cfg) + B - 1) div B"
  shows "(\<exists>b<N. \<forall>j<length log. k \<in> set (fst (log ! j)) \<longleftrightarrow> j mod N = b) \<and> (\<forall>j<length log. length (fst (log ! j)) \<le> B)"
proof -
  let ?names = "chunk B (sort (map fst (mc_Tags cfg)))"
  note sub = subscribed_many[OF assms(1)]
  have B0: "0 < B" using B by (simp add: positive_def)
  have len: "length ?names = N" using length_chunk[OF B0, of "sort (map fst (mc_Tags cfg))"] N by simp
  have holds: "concat ?names = sort (map fst (mc_Tags cfg))" by (rule concat_chunk[OF B0])
  then have ne: "?names \<noteq> []" using assms(4) by (metis concat.simps(1) length_pos_if_in_set length_sort list.size(3) not_less0)
  have "circled ?names [] sub" using sub B by (simp add: circled_def make_batches_def comp_def)
  from run_circled[OF assms(3) ne] this have circle: "circled ?names log (fst s)" by simp
  obtain b where b: "b < N" "\<forall>i<N. k \<in> set (?names ! i) \<longleftrightarrow> i = b"
    using one_holder[of ?names k] holds assms(2,4) len by auto
  have "mset (fst (log ! j)) = mset (?names ! (j mod N))" "j mod N < N" if "j < length log" for j
    using circle that len b(1) by (auto simp: circled_def)
  note each = this
  have "k \<in> set (fst (log ! j)) \<longleftrightarrow> j mod N = b" "length (fst (log ! j)) \<le> B" if "j < length log" for j
    using each[OF that] b(2) len chunk_length[of "?names ! (j mod N)" B] by (metis mset_eq_setD, metis mset_eq_length nth_mem)
  with b(1) show ?thesis by blast
qed

section \<open>Arrays\<close>

lemma one_element_read:
  assumes "read_value tag v" "td_Elements tag = 1" "td_Struct tag = VSlice TAny vs" "v = VSlice TAny ws"
  shows "length ws = 1"
proof -
  obtain ioi t d status where "stored_value (decodeReadTagValue tag ioi t d status) = Inr v"
    using assms(1) by (auto simp: read_value_def)
  then have "decodeReadTagValue tag ioi t d status = Inr (VSlice TAny ws)"
    using assms(4) by (auto simp: stored_value_def split: sum.splits if_splits)
  then show ?thesis using assms(2,3)
    by (auto simp: decodeReadTagValue_def decodeStructReadValue_def attempt_Inr_iff andthen_Inr_iff readValue_def
        readValue_type_def binary_read_def split_beta split: if_splits option.splits)
qed

lemma decode_elements_length: "decode_elements n t d = Inr vs \<Longrightarrow> length vs = n"
  by (induction n arbitrary: d vs) (auto simp: attempt_Inr_iff andthen_Inr_iff)

lemma unpack_many_length: "unpack_many t n d = Inr vs \<Longrightarrow> length vs = n"
  by (induction n arbitrary: d vs) (auto simp: andthen_Inr_iff)

lemma array_read:
  assumes "read_value (tag_of k (VSlice t xs)) v" "scalar_cip_type t = Some ct" "length xs \<noteq> 1"
  shows "(\<exists>vs. length vs = length xs \<and> (v = VSlice TAny vs \<or> v = VSlice t vs)) \<or> (\<exists>e. v = VErr e)"
proof -
  let ?tag = "tag_of k (VSlice t xs)"
  obtain ioi t' d status where "stored_value (decodeReadTagValue ?tag ioi t' d status) = Inr v"
    using assms(1) by (auto simp: read_value_def)
  moreover have "td_Elements ?tag = int (length xs)" "td_Struct ?tag = VSlice t xs" using assms(2) by (simp_all add: tag_of_def)
  ultimately show ?thesis using assms(3)
    by (auto simp: stored_value_def decodeReadTagValue_def decodeStructReadValue_def andthen_Inr_iff
        split: sum.splits if_splits dest: decode_elements_length unpack_many_length)
qed

lemma scan_reads:
  assumes "scan reads meets now sub c = (Inr sub', c')" "c_Connected c" "order_of reads" "order_of meets"
    and "ms_batches sub \<noteq> []" "ms_batchIndex sub < length (ms_batches sub)" "ms_pending sub = []"
    and d: "distinct (map fst (ms_batches sub ! ms_batchIndex sub))"
    and w: "(k, w) \<in> set (ms_batches sub ! ms_batchIndex sub)" and v: "(k, v) \<in> set (ms_pending sub')"
  shows "read_value (tag_of k w) v \<and> (k, v) \<in> set (ms_batches sub' ! ms_batchIndex sub)"
  using assms(1)
proof (cases rule: scan_cases)
  case (read m ks)
  let ?b = "reads (ms_batches sub ! ms_batchIndex sub)"
  have b: "mset ?b = mset (ms_batches sub ! ms_batchIndex sub)" using assms(3) by (simp add: order_of_def)
  have db: "distinct (map fst ?b)" "(k, w) \<in> set ?b"
    using d w b by (metis mset_map mset_eq_imp_distinct_iff, metis mset_eq_setD)
  have m: "set (ms_pending sub') = set m" using read(3) assms(4) by (simp add: order_of_def) (metis mset_eq_setD)
  from ReadMap_connected[OF read(2) assms(2)] have keys: "map fst m = map fst ?b"
    and each: "\<forall>i<length ?b. read_value (tag_of (fst (?b ! i)) (snd (?b ! i))) (snd (m ! i))" by simp_all
  from entries_read[of m ?b "\<lambda>k v v'. read_value (tag_of k v) v'", OF keys each db]
  obtain v' where v': "map_of m k = Some v'" "read_value (tag_of k w) v'" by blast
  have "distinct (map fst m)" using keys db(1) by simp
  moreover have "(k, v') \<in> set m" "(k, v) \<in> set m" using v'(1) v m by (auto dest: map_of_SomeD)
  ultimately have "v' = v" by (rule eq_key_imp_eq_value)
  then show ?thesis using v' v m read(3) assms(6) by simp
qed (use assms(5,7) v in simp_all)

text \<open>
  An array is polled as an array only once.  The poll of a tag that was given as a slice of numbers leaves
  an untyped slice of as many values (or an error) in the batch, and since the batch is what the next poll
  goes by, that one asks for one element of no type: its value is no slice or a slice of one, and as it
  differs from the array before it counts as a change.
\<close>

theorem array_polled_once:
  assumes "scan reads meets now sub c = (Inr sub', c')" "c_Connected c" "order_of reads" "order_of meets"
    and "ms_batches sub \<noteq> []" "ms_batchIndex sub < length (ms_batches sub)" "ms_pending sub = []"
    and "distinct (map fst (ms_batches sub ! ms_batchIndex sub))"
    and "(k, VSlice t xs) \<in> set (ms_batches sub ! ms_batchIndex sub)" "(k, v) \<in> set (ms_pending sub')" and "1 < length xs"
  shows "(k, v) \<in> set (ms_batches sub' ! ms_batchIndex sub) \<and>
    (t \<in> {TInt16, TInt32, TFloat32} \<longrightarrow>
       td_Elements (tag_of k (VSlice t xs)) = int (length xs) \<and>
       ((\<exists>vs. length vs = length xs \<and> (v = VSlice TAny vs \<or> v = VSlice t vs)) \<or> (\<exists>e. v = VErr e))) \<and>
    (t = TAny \<longrightarrow>
       td_Elements (tag_of k (VSlice t xs)) = 1 \<and> td_TagType (tag_of k (VSlice t xs)) = CIPTypeUnknown \<and>
       (\<forall>vs. v = VSlice TAny vs \<longrightarrow> length vs = 1) \<and> \<not> deep_equal v (VSlice t xs))"
proof -
  note r = scan_reads[OF assms(1-10)]
  have "td_Elements (tag_of k (VSlice t xs)) = int (length xs) \<and>
      ((\<exists>vs. length vs = length xs \<and> (v = VSlice TAny vs \<or> v = VSlice t vs)) \<or> (\<exists>e. v = VErr e))"
    if t: "t \<in> {TInt16, TInt32, TFloat32}"
  proof -
    obtain ct where "scalar_cip_type t = Some ct" using t by auto
    with array_read[of k t xs v ct] r assms(11) show ?thesis by (simp add: tag_of_def)
  qed
  moreover have "td_Elements (tag_of k (VSlice t xs)) = 1 \<and> td_TagType (tag_of k (VSlice t xs)) = CIPTypeUnknown \<and>
       (\<forall>vs. v = VSlice TAny vs \<longrightarrow> length vs = 1) \<and> \<not> deep_equal v (VSlice t xs)" if t: "t = TAny"
  proof -
    have one: "td_Elements (tag_of k (VSlice t xs)) = 1" "td_TagType (tag_of k (VSlice t xs)) = CIPTypeUnknown"
      "td_Struct (tag_of k (VSlice t xs)) = VSlice TAny xs" using t by (simp_all add: tag_of_def)
    have short: "\<forall>vs. v = VSlice TAny vs \<longrightarrow> length vs = 1" using one_element_read[OF _ one(1,3)] r by blast
    have "\<not> deep_equal v (VSlice t xs)"
    proof
      assume "deep_equal v (VSlice t xs)"
      then have "\<exists>vs. v = VSlice t vs \<and> length vs = length xs"
        by (cases v) (auto simp: deep_equal_def dest: map_eq_imp_length_eq)
      with short t assms(11) show False by auto
    qed
    with one short show ?thesis by blast
  qed
  ultimately show ?thesis using r by blast
qed

section \<open>Examples\<close>

definition demo_answer :: "u8 \<Rightarrow> answer" where
  "demo_answer b =
     \<lparr>an_Service = CIPService_Read, an_Status = CIPStatus_OK, an_Type = CIPTypeDINT, an_Info = [], an_Data = [b, 0, 0, 0]\<rparr>"

definition polled :: "u8 \<Rightarrow> Client" where
  "polled b = demo_batch_client
     [Some (eip_frame demo_reply_header (connected_reply 9 (multi_body 1 0x1E (map answer_bytes [demo_answer b]))))]"

lemma polled_answers:
  "answers (polled b) demo_reply_header 9 1 0x1E (map answer_bytes [demo_answer b]) []" "list_all answer_ok [demo_answer b]"
  by (simp_all add: answers_def polled_def demo_batch_client_def demo_client_def demo_reply_header_def
      multi_body_def demo_answer_def answer_bytes_def reply_entry_def answer_ok_def)

lemma demo_poll_one:
  assumes "k = ''abc'' \<or> k = ''De''" and "GoVarToCIPType v = (t, 1)" and "t = CIPTypeDINT \<or> t = CIPTypeUnknown"
  shows "\<exists>c'. ReadMap [(k, v)] (polled b) = (Inr ([(k, VInt32 (ucast b))], [k]), c')"
proof -
  let ?tag = "\<lparr>td_TagName = k, td_TagType = t, td_Elements = 1, td_Struct = v\<rparr>"
  have path: "c_newIOI k t (polled b) = (Inr demo_path, polled b)" for t
    using assms(1) by (auto simp: polled_def demo_batch_paths)
  have paths: "new_iois [?tag] (polled b) = (Inr [demo_path], polled b)" by (simp add: path cbind_def cret_def)
  have "map_res (\<lambda>(tag, ioi, a). stored_value (decodeReadTagValue tag ioi (an_Type a) (an_Data a) (an_Status a)))
      (zip [?tag] (zip [demo_path] [demo_answer b])) = Inr [VInt32 (ucast b)]"
    using assms(3) by (auto simp: demo_answer_def stored_value_def decodeReadTagValue_def demo_path_def new_ioi_def
      readValue_def readValue_type_def binary_read_def read_full_def get_eval)
  then obtain c' where r: "readListFragAll [?tag] (polled b) = (Inr [VInt32 (ucast b)], c')"
    using readListFragAll_complete[OF paths _ _ polled_answers] by auto
  have "length (ioi_Buffer demo_path) = 6" by (simp add: demo_path_def new_ioi_def)
  then have sel: "selectPackedTagBatch [0] [?tag] None (polled b)
      = (Inr \<lparr>selectedOrig = [0], chosenTags = [?tag], chosenIOIs = None, nextPending = []\<rparr>, polled b)"
    using assms(3) by (auto simp: selectPackedTagBatch_def selectPackedTagIndexes_def path_for_def cbind_def cret_def
      path demo_batch_state Let_def entry_size_def instanceReadFooterSize_def candidate_fits_def
      estimateTagResponseSize_def CIPType_Size_def estimateMultiReadRequestOverhead_def estimateMultiReadReplyOverhead_def)
  have "read_batches (\<lambda>ts _. readListFragAll ts) [?tag] None [0] [VNil] (polled b) = (Inr [VInt32 (ucast b)], c')"
    by (subst read_batches.simps) (simp add: cbind_def sel r, simp add: read_batches.simps cret_def)
  moreover have "checkConn (polled b) = (Inr (), polled b)"
    by (simp add: checkConn_def polled_def demo_batch_client_def demo_client_def c_Connected_def)
  ultimately show ?thesis
    using assms(2) by (intro exI[of _ c']) (simp add: ReadMap_def read_map_def tag_of_def cbind_def cret_def)
qed

definition demo_many_config :: TagMultiSubscriptionConfig where
  "demo_many_config = \<lparr>mc_Tags = [(''abc'', VInt32 0), (''De'', VInt32 0)], mc_PollInterval = 0, mc_BatchSize = 1,
     mc_BatchesPerTick = 0, mc_EmitInitial = True, mc_ValueBuffer = 0, mc_ErrorBuffer = 0\<rparr>"

definition demo_many :: TagMultiSubscription where
  "demo_many = \<lparr>ms_batches = [[(''De'', VInt32 0)], [(''abc'', VInt32 0)]], ms_pollInterval = 100000000,
     ms_batchesPerTick = 1, ms_emitInitial = True, ms_values = make_chan 256, ms_errs = make_chan 32,
     ms_prev = Map.empty, ms_seen = (\<lambda>_. False), ms_batchIndex = 0, ms_left = 0, ms_now = 0, ms_pending = [],
     ms_stopped = False, ms_done = False\<rparr>"

lemma demo_subscribe_many: "SubscribeTags demo_many_config (polled b) = (Inr demo_many, polled b)"
proof -
  have "strings_TrimSpace ''abc'' \<noteq> []" "strings_TrimSpace ''De'' \<noteq> []" by code_simp+
  moreover have "sort [''abc'', ''De''] = [''De'', ''abc'']" by code_simp
  ultimately show ?thesis
    by (simp add: SubscribeTags_def cwrap_def checkConn_def c_Connected_def polled_def demo_batch_client_def demo_client_def
        demo_many_config_def demo_many_def positive_def cret_def make_batches_def chunk_step)
qed

definition demo_state :: "nat \<Rightarrow> goval list \<Rightarrow> TagMultiSubscription \<Rightarrow> bool" where
  "demo_state i vs sub \<longleftrightarrow> ms_pending sub = [] \<and> ms_left sub = 0 \<and> \<not> ms_done sub \<and> ms_batchesPerTick sub = 1 \<and>
     ms_batchIndex sub = i \<and> ms_batches sub = [[(''De'', vs ! 0)], [(''abc'', vs ! 1)]] \<and>
     \<not> ch_waiting (ms_values sub) \<and> ch_capacity (ms_values sub) = 256"

lemma demo_state_compare:
  "demo_state i vs sub \<Longrightarrow> demo_state i vs (compare_tag k v sub)"
  by (auto simp: demo_state_def compare_tag_def Let_def offer_def)

lemma demo_round:
  fixes b :: u8
  assumes run: "multi_run start log cmp False (sub, c)" and st: "demo_state i [VInt32 x, VInt32 y] sub" and "i < 2"
    and k: "k = [''De'', ''abc''] ! i" and room: "length (ch_buffer (ms_values sub)) < 256"
  shows "\<exists>sub' c'. multi_run start (log @ [([k], [(k, VInt32 (ucast b))])]) (cmp @ [(k, VInt32 (ucast b))]) False (sub', c')
    \<and> demo_state ((i + 1) mod 2) ([VInt32 x, VInt32 y][i := VInt32 (ucast b)]) sub'
    \<and> length (ch_buffer (ms_values sub')) \<le> length (ch_buffer (ms_values sub)) + 1"
proof -
  let ?v = "VInt32 (ucast b)" and ?t = "multi_tick sub"
  obtain x' where batch: "ms_batches sub ! i = [(k, VInt32 x')]" and "k = ''abc'' \<or> k = ''De''"
    using st k \<open>i < 2\<close> by (auto simp: demo_state_def less_2_cases_iff)
  then obtain c' where read: "ReadMap [(k, VInt32 x')] (polled b) = (Inr ([(k, ?v)], [k]), c')"
    using demo_poll_one[of k "VInt32 x'" CIPTypeDINT b] by auto
  let ?s = "?t\<lparr>ms_left := 0, ms_batchIndex := (i + 1) mod 2, ms_batches := (ms_batches sub)[i := [(k, ?v)]], ms_now := 0,
      ms_pending := [(k, ?v)]\<rparr>"
  have "multi_run start log cmp False (?t, polled b)" using run st by (intro m_elsewhere[OF m_ticks]) (auto simp: demo_state_def)
  moreover have "scan id id 0 ?t (polled b) = (Inr ?s, c')"
    using st batch read by (simp add: scan_def multi_tick_def demo_state_def numeral_2_eq_2)
  ultimately have "multi_run start (log @ [(map fst (ms_batches ?t ! ms_batchIndex ?t), ms_pending ?s)]) cmp False (?s, c')"
    using st by (intro m_scans[where reads = id and meets = id and now = 0]) (simp_all add: multi_tick_def demo_state_def order_of_def)
  then have "multi_run start (log @ [([k], [(k, ?v)])]) cmp False (?s, c')" using st batch by (simp add: multi_tick_def demo_state_def)
  from m_compares[OF this, of k ?v "[]"] room st
  have "multi_run start (log @ [([k], [(k, ?v)])]) (cmp @ [(k, ?v)]) False (compare_tag k ?v (?s\<lparr>ms_pending := []\<rparr>), c')"
    by (simp add: can_send_def demo_state_def multi_tick_def)
  moreover have "demo_state ((i + 1) mod 2) ([VInt32 x, VInt32 y][i := ?v]) (?s\<lparr>ms_pending := []\<rparr>)"
    using st k \<open>i < 2\<close> by (auto simp: demo_state_def multi_tick_def less_2_cases_iff)
  moreover have "length (ch_buffer (ms_values (compare_tag k ?v (?s\<lparr>ms_pending := []\<rparr>)))) \<le> length (ch_buffer (ms_values sub)) + 1"
    by (simp add: compare_tag_def Let_def offer_def multi_tick_def)
  ultimately show ?thesis by (intro exI conjI) (assumption, rule demo_state_compare, assumption+)
qed

lemma demo_many_run:
  "\<exists>s c'. multi_run (demo_many, polled 0)
      [([''De''], [(''De'', VInt32 5)]), ([''abc''], [(''abc'', VInt32 9)]), ([''De''], [(''De'', VInt32 6)])]
      [(''De'', VInt32 5), (''abc'', VInt32 9), (''De'', VInt32 6)] False (s, c') \<and> ms_pending s = []"
proof -
  have s0: "demo_state 0 [VInt32 0, VInt32 0] demo_many" "ch_buffer (ms_values demo_many) = []"
    by (simp_all add: demo_state_def demo_many_def make_chan_def)
  from demo_round[OF m_begins s0(1), of "''De''" "polled 0" 5] s0(2) obtain s1 c1 where
    r1: "multi_run (demo_many, polled 0) [([''De''], [(''De'', VInt32 5)])] [(''De'', VInt32 5)] False (s1, c1)"
      "demo_state 1 [VInt32 5, VInt32 0] s1" "length (ch_buffer (ms_values s1)) \<le> 1" by auto
  from demo_round[OF r1(1,2), of "''abc''" 9] r1(3) obtain s2 c2 where
    r2: "multi_run (demo_many, polled 0) [([''De''], [(''De'', VInt32 5)]), ([''abc''], [(''abc'', VInt32 9)])]
        [(''De'', VInt32 5), (''abc'', VInt32 9)] False (s2, c2)"
      "demo_state 0 [VInt32 5, VInt32 9] s2" "length (ch_buffer (ms_values s2)) \<le> 2" by auto
  from demo_round[OF r2(1,2), of "''De''" 6] r2(3) show ?thesis by (auto simp: demo_state_def)
qed

theorem many_tags_report_changes_witness:
  "\<exists>log cmp s c'. multi_run (demo_many, polled 0) log cmp False (s, c')
    \<and> values_for ''De'' (history (ms_values s)) = [VInt32 5, VInt32 6]"
proof -
  from demo_many_run obtain s c' where run: "multi_run (demo_many, polled 0)
      [([''De''], [(''De'', VInt32 5)]), ([''abc''], [(''abc'', VInt32 9)]), ([''De''], [(''De'', VInt32 6)])]
      [(''De'', VInt32 5), (''abc'', VInt32 9), (''De'', VInt32 6)] False (s, c')" and p: "ms_pending s = []" by blast
  have "updates True [VInt32 5, VInt32 6] = [VInt32 5, VInt32 6]" by (simp add: updates_def deep_equal_def)
  with many_tags_report_changes[OF demo_subscribe_many run p, of "''De''"] run show ?thesis
    by (intro exI conjI) (assumption, simp add: compared_for_def demo_many_config_def)
qed

theorem tags_polled_in_turn_witness:
  "\<exists>log cmp s b. multi_run (demo_many, polled 0) log cmp False s \<and> length log = 3
    \<and> (\<forall>j<length log. ''De'' \<in> set (fst (log ! j)) \<longleftrightarrow> j mod 2 = (b::nat))"
proof -
  let ?log = "[([''De''], [(''De'', VInt32 5)]), ([''abc''], [(''abc'', VInt32 9)]), ([''De''], [(''De'', VInt32 6)])]"
  from demo_many_run obtain s cmp where run: "multi_run (demo_many, polled 0) ?log cmp False s" by blast
  have "\<exists>b<2. \<forall>j<length ?log. ''De'' \<in> set (fst (?log ! j)) \<longleftrightarrow> j mod 2 = (b::nat)"
    using tags_polled_in_turn[OF demo_subscribe_many _ run _ refl refl, of "''De''"]
    by (simp add: demo_many_config_def positive_def numeral_2_eq_2)
  then obtain b :: nat where "\<forall>j<length ?log. ''De'' \<in> set (fst (?log ! j)) \<longleftrightarrow> j mod 2 = b" by blast
  with run show ?thesis by (intro exI[of _ ?log] exI[of _ cmp] exI[of _ s] exI[of _ b]) simp
qed

theorem array_polled_once_witness:
  "\<exists>sub' c' v. scan id id 0 (demo_many\<lparr>ms_batches := [[(''abc'', VSlice TAny [VInt32 1, VInt32 2])]]\<rparr>) (polled 1) = (Inr sub', c')
    \<and> ms_pending sub' = [(''abc'', v)] \<and> \<not> deep_equal v (VSlice TAny [VInt32 1, VInt32 2])"
proof -
  let ?a = "VSlice TAny [VInt32 1, VInt32 2]"
  let ?sub = "demo_many\<lparr>ms_batches := [[(''abc'', ?a)]]\<rparr>"
  obtain c' where "ReadMap [(''abc'', ?a)] (polled 1) = (Inr ([(''abc'', VInt32 1)], [''abc'']), c')"
    using demo_poll_one[of "''abc''" ?a CIPTypeUnknown 1] by auto
  then have s: "scan id id 0 ?sub (polled 1)
      = (Inr (?sub\<lparr>ms_left := 0, ms_batches := [[(''abc'', VInt32 1)]], ms_pending := [(''abc'', VInt32 1)]\<rparr>), c')"
    by (simp add: scan_def demo_many_def)
  have "c_Connected (polled 1)" by (simp add: polled_def demo_batch_client_def demo_client_def c_Connected_def)
  from array_polled_once[OF s this, of "''abc''" TAny "[VInt32 1, VInt32 2]" "VInt32 1"] s show ?thesis
    by (simp add: order_of_def demo_many_def)
qed

end
