(* ===== verification/Implicit_Subscriptions.thy ===== *)
theory Implicit_Subscriptions
  imports Session_Protocol Client_Read Client_Discovery Go_Channels
begin

text \<open>
  Cyclic input: \<^verbatim>\<open>implicit_subscribe.go\<close>.  A subscription opens a connection of its own with a forward
  open and then takes datagrams that carry its connection id, until it is stopped.
\<close>

unbundle bit_operations_syntax

section \<open>Connection paths\<close>

type_synonym connection_point = u32

definition CIPConnectionPoint_Bytes :: "connection_point \<Rightarrow> bytes" where
  "CIPConnectionPoint_Bytes p =
     (if p < 256 then [0x2C, ucast p]
      else if p \<le> 0xFFFF then [0x2D, 0] @ put16 (ucast p)
      else [0x2E, 0] @ put32 p)"

definition CIPConnectionPoint_Len :: "connection_point \<Rightarrow> nat" where
  "CIPConnectionPoint_Len p = (if p < 256 then 2 else if p \<le> 0xFFFF then 4 else 6)"

abbreviation CipObject_Assembly :: cip_class where "CipObject_Assembly \<equiv> 0x04"
abbreviation CipObject_IOClass :: cip_class where "CipObject_IOClass \<equiv> 0x69"

record ImplicitAssemblyPathConfig =
  ia_AssemblyClass :: cip_class
  ia_ConfigInstance :: cip_instance
  ia_OutputPoint :: connection_point
  ia_InputPoint :: connection_point

record ImplicitProducedConsumedPathConfig =
  ip_ConsumedTag :: string
  ip_IOClass :: cip_class
  ip_IOInstance :: cip_instance
  ip_ConnectionPoint :: connection_point
  ip_IncludeKeying :: bool
  ip_KeyingWords :: int
  ip_TrailerBytes :: bytes

definition NewABGenericEthernetModuleAssemblyPath :: "u32 \<Rightarrow> u32 \<Rightarrow> u32 \<Rightarrow> ImplicitAssemblyPathConfig" where
  "NewABGenericEthernetModuleAssemblyPath output input config =
     \<lparr>ia_AssemblyClass = CipObject_Assembly, ia_ConfigInstance = (if config \<noteq> 0 then config else 0),
      ia_OutputPoint = output, ia_InputPoint = input\<rparr>"

definition NewABGenericEthernetModuleAssemblyPathDefault :: ImplicitAssemblyPathConfig where
  "NewABGenericEthernetModuleAssemblyPathDefault = NewABGenericEthernetModuleAssemblyPath 150 100 151"

definition NewProducedConsumedPathDefault :: "string \<Rightarrow> ImplicitProducedConsumedPathConfig" where
  "NewProducedConsumedPathDefault tag =
     \<lparr>ip_ConsumedTag = tag, ip_IOClass = CipObject_IOClass, ip_IOInstance = 1, ip_ConnectionPoint = 1,
      ip_IncludeKeying = True, ip_KeyingWords = 4, ip_TrailerBytes = []\<rparr>"

definition or_default :: "'a::zero \<Rightarrow> 'a \<Rightarrow> 'a" where
  "or_default x d = (if x = 0 then d else x)"

definition evened :: "bytes \<Rightarrow> bytes" where
  "evened b = (if length b mod 2 = 1 then b @ [0] else b)"

definition BuildImplicitProducedConsumedPath :: "ImplicitProducedConsumedPathConfig \<Rightarrow> bytes res" where
  "BuildImplicitProducedConsumedPath cfg =
     (if strings_TrimSpace (ip_ConsumedTag cfg) = [] then Inl (Msg ''consumed tag must not be empty'')
      else
        let words = or_default (ip_KeyingWords cfg) 4 in
        if ip_IncludeKeying cfg \<and> words < 0 then Inl (Msg ''keying words must be >= 0'')
        else
          attempt ''failed building symbolic consumed-tag segment'' (marshalIOIPart (ip_ConsumedTag cfg)) (\<lambda>tagSeg.
          Inr (evened ((if ip_IncludeKeying cfg then replicate (nat (words * 2)) 0 else [])
            @ CIPClass_Bytes (or_default (ip_IOClass cfg) CipObject_IOClass)
            @ CIPInstance_Bytes (or_default (ip_IOInstance cfg) 1)
            @ tagSeg @ CIPConnectionPoint_Bytes (or_default (ip_ConnectionPoint cfg) 1)
            @ ip_TrailerBytes cfg))))"

definition BuildImplicitAssemblyPath :: "ImplicitAssemblyPathConfig \<Rightarrow> bytes res" where
  "BuildImplicitAssemblyPath cfg =
     (if ia_OutputPoint cfg = 0 \<or> ia_InputPoint cfg = 0 then Inl (Msg ''output and input connection points must be non-zero'')
      else
        attempt ''failed building implicit assembly path''
          (Serialize ([VSer (CIPClass_Bytes (or_default (ia_AssemblyClass cfg) CipObject_Assembly))]
             @ (if ia_ConfigInstance cfg \<noteq> 0 then [VSer (CIPInstance_Bytes (ia_ConfigInstance cfg))] else [])
             @ [VSer (CIPConnectionPoint_Bytes (ia_OutputPoint cfg)), VSer (CIPConnectionPoint_Bytes (ia_InputPoint cfg))]))
          (\<lambda>b. Inr (evened b)))"

lemma connection_point_length: "length (CIPConnectionPoint_Bytes p) = CIPConnectionPoint_Len p"
  by (simp add: CIPConnectionPoint_Bytes_def CIPConnectionPoint_Len_def)

text \<open>The size field of a request counts words; both builders return whole ones.\<close>

lemma even_evened: "even (length (evened b))"
  unfolding evened_def by (auto simp: odd_iff_mod_2_eq_one)

lemma built_paths_even:
  "BuildImplicitAssemblyPath a = Inr p \<Longrightarrow> even (length p)"
  "BuildImplicitProducedConsumedPath b = Inr q \<Longrightarrow> even (length q)"
  by (auto simp: BuildImplicitAssemblyPath_def BuildImplicitProducedConsumedPath_def attempt_Inr_iff Let_def
      even_evened split: if_splits)

text \<open>The layout the comment on \<^verbatim>\<open>ImplicitAssemblyPathConfig\<close> gives as an example.\<close>

lemma assembly_path_layout:
  "BuildImplicitAssemblyPath (NewABGenericEthernetModuleAssemblyPath 150 100 150)
    = Inr [0x20, 0x04, 0x24, 0x96, 0x2C, 0x96, 0x2C, 0x64]"
  by code_simp

section \<open>Opening\<close>

record ImplicitSubscriptionConfig =
  ic_ConnectionPath :: bytes
  ic_AssemblyPath :: "ImplicitAssemblyPathConfig option"
  ic_ProducedConsumedPath :: "ImplicitProducedConsumedPathConfig option"
  ic_RPI :: int
  ic_TransportTrigger :: u8
  ic_ReceiveTimeout :: int
  ic_ValueBuffer :: int
  ic_ErrorBuffer :: int

text \<open>
  The subscription; \<open>is_type\<close> is the type parameter, and of the channels \<^verbatim>\<open>stopCh\<close> and \<^verbatim>\<open>doneCh\<close> the state
  is kept.
\<close>

record ImplicitSubscription =
  is_type :: gotype
  is_values :: "goval chan"
  is_errs :: "gerror chan"
  is_connectionSerial :: u16
  is_vendorID :: u16
  is_originatorSerial :: u32
  is_toConnectionID :: u32
  is_receiveTimeout :: int
  is_closed :: bool
  is_done :: bool

definition newImplicitForwardOpenItem :: "bytes \<Rightarrow> u16 \<Rightarrow> u32 \<Rightarrow> u32 \<Rightarrow> int \<Rightarrow> u8 \<Rightarrow> Client \<Rightarrow> CIPItem" where
  "newImplicitForwardOpenItem connPath serial otID toID rpi transportTrigger c =
     (let path = evened connPath;
          params = put16 (push_bit 13 2 OR push_bit 9 1 OR connSizeStandardMax);
          us = word_of_int (rpi div 1000) in
      item_Write path
        (item_Write ([CIPService_ForwardOpen, 0x02, 0x20, 0x06, 0x24, 0x01, 0x07, 0xE9]
            @ put32 otID @ put32 toID @ put16 serial @ put16 (c_VendorId c) @ put32 (c_SerialNumber c)
            @ put32 0 @ put32 us @ params @ put32 us @ params
            @ [transportTrigger, of_nat (length path div 2)])
          (empty_item cipItem_UnconnectedData)))"

record msgCipForwardOpenReply =
  fr_OtNetworkConnectionId :: u32
  fr_TOConnectionId :: u32
  fr_ConnectionSerialNumber :: u16
  fr_OriginatorVendorId :: u16
  fr_OriginatorSerialNumber :: u32
  fr_OTApiNs :: u32
  fr_TOApiNs :: u32
  fr_ApplicationReply :: u8
  fr_Reserved :: u8

definition read_ForwardOpenReply :: "bytes \<Rightarrow> msgCipForwardOpenReply res" where
  "read_ForwardOpenReply r =
     andthen (read_full 26 r) (\<lambda>(x, _).
       Inr \<lparr>fr_OtNetworkConnectionId = fld32 0 x, fr_TOConnectionId = fld32 4 x, fr_ConnectionSerialNumber = fld16 8 x,
         fr_OriginatorVendorId = fld16 10 x, fr_OriginatorSerialNumber = fld32 12 x, fr_OTApiNs = fld32 16 x,
         fr_TOApiNs = fld32 20 x, fr_ApplicationReply = fld8 24 x, fr_Reserved = fld8 25 x\<rparr>)"

definition forwardOpenCustom :: "CIPItem \<Rightarrow> msgCipForwardOpenReply cact" where
  "forwardOpenCustom item =
     cwrap ''error sending implicit forward-open request''
       (send_recv_data cipCommandSendRRData (serializeItems [empty_item cipItem_Null, item])) (\<lambda>(header, data).
     cneed ''error parsing implicit forward-open response'' (parseResponse header data) (\<lambda>(items, r).
     cneed ''error deserializing implicit forward-open response'' (read_ForwardOpenReply r) cret))"

definition implicit_path :: "ImplicitSubscriptionConfig \<Rightarrow> Client \<Rightarrow> bytes res" where
  "implicit_path cfg c =
     (if ic_ConnectionPath cfg \<noteq> [] then Inr (ic_ConnectionPath cfg)
      else case ic_ProducedConsumedPath cfg of
        Some pc \<Rightarrow> BuildImplicitProducedConsumedPath pc
      | None \<Rightarrow>
          (case ic_AssemblyPath cfg of
             Some a \<Rightarrow> BuildImplicitAssemblyPath a
           | None \<Rightarrow>
               (case c_Path c of
                  None \<Rightarrow> Inl (Msg ''connection path is empty and controller path is not configured'')
                | Some p \<Rightarrow> Inr p)))"

definition implicit_rpi :: "ImplicitSubscriptionConfig \<Rightarrow> Client \<Rightarrow> int" where
  "implicit_rpi cfg c =
     (if ic_RPI cfg \<le> 0 then (if int (c_RPI c) \<le> 0 then 2500000000 else int (c_RPI c)) else ic_RPI cfg)"

text \<open>\<^verbatim>\<open>nextConnectionSerialNumber\<close> and \<^verbatim>\<open>sequenceNumber.Add(1)\<close> twice.\<close>

definition implicit_ids :: "(u16 \<times> u32 \<times> u32) cact" where
  "implicit_ids c =
     (case nextConnectionSerialNumber (c_connectionSerialValue c) of
        None \<Rightarrow> (Inl (Msg ''no serial number''), c)
      | Some (serial, v) \<Rightarrow>
          (Inr (serial, c_sequenceNumber c + 1, c_sequenceNumber c + 2),
           c\<lparr>c_connectionSerialValue := v, c_sequenceNumber := c_sequenceNumber c + 2\<rparr>))"

definition positive_or :: "int \<Rightarrow> int \<Rightarrow> int" where
  "positive_or n d = (if n \<le> 0 then d else n)"

text \<open>\<open>listen\<close> says whether the UDP port of the listen address can be listened on.\<close>

definition SubscribeImplicit :: "bool \<Rightarrow> gotype \<Rightarrow> ImplicitSubscriptionConfig \<Rightarrow> ImplicitSubscription cact" where
  "SubscribeImplicit listen T cfg =
     cwrap ''could not start implicit subscription'' checkConn (\<lambda>_ c.
     cres (implicit_path cfg c) (\<lambda>connPath.
     cbind implicit_ids (\<lambda>(serial, otID, toID) c.
     cbind (forwardOpenCustom (newImplicitForwardOpenItem connPath serial otID toID (implicit_rpi cfg c)
         (or_default (ic_TransportTrigger cfg) 1) c)) (\<lambda>openReply c.
     if \<not> listen then cfail (Msg ''unable to listen for implicit UDP'') c
     else cret \<lparr>is_type = T, is_values = make_chan (nat (positive_or (ic_ValueBuffer cfg) 32)),
         is_errs = make_chan (nat (positive_or (ic_ErrorBuffer cfg) 8)), is_connectionSerial = serial,
         is_vendorID = c_VendorId c, is_originatorSerial = c_SerialNumber c,
         is_toConnectionID = fr_TOConnectionId openReply,
         is_receiveTimeout = positive_or (ic_ReceiveTimeout cfg) 3000000000, is_closed = False, is_done = False\<rparr> c) c)) c)"

definition SubscribeImplicitBytes :: "bool \<Rightarrow> ImplicitSubscriptionConfig \<Rightarrow> ImplicitSubscription cact" where
  "SubscribeImplicitBytes listen cfg = SubscribeImplicit listen (TSlice TUint8) cfg"

section \<open>Receiving\<close>

definition emitErr :: "gerror \<Rightarrow> ImplicitSubscription \<Rightarrow> ImplicitSubscription" where
  "emitErr e sub = sub\<lparr>is_errs := offer e (is_errs sub)\<rparr>"

text \<open>Into the nil slice of another slice type \<^verbatim>\<open>Unpack\<close> reads no element.\<close>

definition decodeImplicitPayload :: "gotype \<Rightarrow> bytes \<Rightarrow> goval res" where
  "decodeImplicitPayload T payload =
     (case T of
        TSlice t \<Rightarrow> Inr (if t = TUint8 then byte_slice payload else VSlice t [])
      | _ \<Rightarrow> andthen (Unpack T payload) (\<lambda>(v, _). Inr v))"

text \<open>
  One round of the loop with a datagram, read into a buffer of 8192 bytes.  A panic of \<^verbatim>\<open>Unpack\<close> is not
  recovered from.
\<close>

definition implicit_packet :: "bytes \<Rightarrow> ImplicitSubscription \<Rightarrow> ImplicitSubscription res" where
  "implicit_packet b sub =
     (let buf = take 8192 b in
      if buf = [] then Inr sub
      else case readItems buf of
        Inl e \<Rightarrow> Inr (emitErr (wrap ''implicit packet decode failed'' e) sub)
      | Inr (items, _) \<Rightarrow>
          if length items \<noteq> 2 then Inr sub
          else if hdr_ID (Header (items ! 0)) \<noteq> cipItem_SequenceAddress \<or> hdr_ID (Header (items ! 1)) \<noteq> cipItem_ConnectedData
          then Inr sub
          else case read_full 8 (Data (items ! 0)) of
            Inl e \<Rightarrow> Inr (emitErr (wrap ''implicit sequence address decode failed'' e) sub)
          | Inr (x, _) \<Rightarrow>
              if fld32 0 x \<noteq> is_toConnectionID sub then Inr sub
              else case item16 (Data (items ! 1)) of
                Inl e \<Rightarrow> Inr (emitErr (wrap ''implicit connected-data sequence decode failed'' e) sub)
              | Inr (_, payload) \<Rightarrow>
                  (case decodeImplicitPayload (is_type sub) payload of
                     Inl e \<Rightarrow> if is_panic e then Inl e else Inr (emitErr (wrap ''implicit payload unpack failed'' e) sub)
                   | Inr v \<Rightarrow>
                       if can_send (is_values sub) then Inr (sub\<lparr>is_values := offer v (is_values sub)\<rparr>)
                       else Inr (emitErr (Msg ''implicit values channel full; dropping packet'') sub)))"

section \<open>Stopping\<close>

definition forwardCloseBySerial :: "u16 \<Rightarrow> u16 \<Rightarrow> u32 \<Rightarrow> unit cact" where
  "forwardCloseBySerial serial vendorID originatorSerial c =
     (let path = c_path_bytes c;
          msg = [CIPService_ForwardClose, 0x02, 0x20, 0x06, 0x24, 0x01, 0x0A, 0x0E]
            @ put16 serial @ put16 vendorID @ put32 originatorSerial @ [of_nat (length path div 2), 0] in
      cwrap ''error sending forward-close request''
        (send_recv_data cipCommandSendRRData (serializeItems [empty_item cipItem_Null,
           item_Write path (item_Write msg (empty_item cipItem_UnconnectedData))])) (\<lambda>(header, data).
      cneed ''error parsing forward-close response'' (parseResponse header data) (\<lambda>_. cret ())) c)"

definition implicit_exit :: "ImplicitSubscription \<Rightarrow> ImplicitSubscription" where
  "implicit_exit sub = sub\<lparr>is_values := close_chan (is_values sub), is_errs := close_chan (is_errs sub), is_done := True\<rparr>"

text \<open>
  \<^verbatim>\<open>Stop\<close>: closing the socket wakes the loop, which sees \<^verbatim>\<open>stopCh\<close> closed and returns; \<^verbatim>\<open>Stop\<close> waits for it.
\<close>

definition implicit_Stop :: "ImplicitSubscription \<Rightarrow> Client \<Rightarrow> unit res \<times> ImplicitSubscription \<times> Client" where
  "implicit_Stop sub c =
     (if is_closed sub then (Inr (), sub, c)
      else
        let sub' = implicit_exit (sub\<lparr>is_closed := True\<rparr>) in
        if c_Connected c then
          (case forwardCloseBySerial (is_connectionSerial sub) (is_vendorID sub) (is_originatorSerial sub) c of
             (r, c') \<Rightarrow> (r, sub', c'))
        else (Inr (), sub', c))"

text \<open>Runs of a subscription with the datagrams that were received.\<close>

inductive implicit_run :: "ImplicitSubscription \<Rightarrow> bytes list \<Rightarrow> bool \<Rightarrow> ImplicitSubscription \<Rightarrow> bool" for start where
  i_begins: "implicit_run start [] False start"
| i_packet: "implicit_run start ds full sub \<Longrightarrow> \<not> is_done sub \<Longrightarrow> implicit_packet b sub = Inr sub' \<Longrightarrow>
    implicit_run start (ds @ [b]) (full \<or> \<not> can_send (is_values sub)) sub'"
| i_failure: "implicit_run start ds full sub \<Longrightarrow> \<not> is_done sub \<Longrightarrow> \<not> is_closed sub \<Longrightarrow>
    implicit_run start ds full (emitErr (wrap ''implicit UDP receive failed'' e) sub)"
| i_takes: "implicit_run start ds full sub \<Longrightarrow> implicit_run start ds full (sub\<lparr>is_values := receive (is_values sub)\<rparr>)"
| i_takes_error: "implicit_run start ds full sub \<Longrightarrow> implicit_run start ds full (sub\<lparr>is_errs := receive (is_errs sub)\<rparr>)"
| i_stops: "implicit_run start ds full sub \<Longrightarrow> implicit_Stop sub c = (r, sub', c') \<Longrightarrow> implicit_run start ds full sub'"

section \<open>What is delivered\<close>

text \<open>The data a datagram carries for a connection id, and the values a list of datagrams brings a subscription.\<close>

definition payload_for :: "u32 \<Rightarrow> bytes \<Rightarrow> bytes option" where
  "payload_for to' b =
     (case readItems (take 8192 b) of
        Inr ([a, d], _) \<Rightarrow>
          if hdr_ID (Header a) = cipItem_SequenceAddress \<and> hdr_ID (Header d) = cipItem_ConnectedData
            \<and> 8 \<le> length (Data a) \<and> fld32 0 (Data a) = to' \<and> 2 \<le> length (Data d)
          then Some (drop 2 (Data d)) else None
      | _ \<Rightarrow> None)"

definition brought :: "u32 \<Rightarrow> gotype \<Rightarrow> bytes list \<Rightarrow> goval list" where
  "brought to' T ds = concat (map (\<lambda>b. case payload_for to' b of
       None \<Rightarrow> []
     | Some p \<Rightarrow> (case decodeImplicitPayload T p of Inl _ \<Rightarrow> [] | Inr v \<Rightarrow> [v])) ds)"

lemma brought_snoc:
  "brought to' T (ds @ [b]) = brought to' T ds @ (case payload_for to' b of
       None \<Rightarrow> []
     | Some p \<Rightarrow> (case decodeImplicitPayload T p of Inl _ \<Rightarrow> [] | Inr v \<Rightarrow> [v]))"
  by (simp add: brought_def)

lemma emitErr_simps [simp]:
  "is_values (emitErr e sub) = is_values sub" "is_type (emitErr e sub) = is_type sub"
  "is_toConnectionID (emitErr e sub) = is_toConnectionID sub" "is_done (emitErr e sub) = is_done sub"
  by (simp_all add: emitErr_def)

lemma two_items: "length items = 2 \<Longrightarrow> \<exists>a d. items = [a, d]"
  by (cases items; cases "tl items") auto

lemma packet_unpaid:
  assumes "payload_for (is_toConnectionID sub) b = None" "implicit_packet b sub = Inr sub'"
  shows "sub' = sub \<or> (\<exists>e. sub' = emitErr e sub)"
proof (cases "readItems (take 8192 b)")
  case (Inl e)
  then show ?thesis using assms(2) by (auto simp: implicit_packet_def Let_def split: if_splits)
next
  case (Inr x)
  obtain items r where x: "x = (items, r)" by (cases x)
  show ?thesis
  proof (cases "length items = 2")
    case False
    then show ?thesis using assms(2) Inr x by (auto simp: implicit_packet_def Let_def split: if_splits)
  next
    case True
    then obtain a d where i: "items = [a, d]" using two_items by blast
    show ?thesis using assms Inr x i
      by (auto simp: implicit_packet_def Let_def payload_for_def read_full_def item16_def fld32_def split: if_splits)
  qed
qed

lemma packet_paid:
  assumes "payload_for (is_toConnectionID sub) b = Some p"
  shows "implicit_packet b sub =
    (case decodeImplicitPayload (is_type sub) p of
       Inl e \<Rightarrow> if is_panic e then Inl e else Inr (emitErr (wrap ''implicit payload unpack failed'' e) sub)
     | Inr v \<Rightarrow>
         if can_send (is_values sub) then Inr (sub\<lparr>is_values := offer v (is_values sub)\<rparr>)
         else Inr (emitErr (Msg ''implicit values channel full; dropping packet'') sub))"
proof -
  obtain a d r where "readItems (take 8192 b) = Inr ([a, d], r)"
    and "hdr_ID (Header a) = cipItem_SequenceAddress" "hdr_ID (Header d) = cipItem_ConnectedData"
      "8 \<le> length (Data a)" "fld32 0 (Data a) = is_toConnectionID sub" "2 \<le> length (Data d)" "p = drop 2 (Data d)"
    using assms by (auto simp: payload_for_def split: sum.splits list.splits if_splits)
  moreover have "take 8192 b \<noteq> []" using calculation(1) by (auto simp: readItems_def rd16_def read_full_def attempt_def andthen_def)
  ultimately show ?thesis
    by (auto simp: implicit_packet_def Let_def read_full_def item16_def fld32_def)
qed

text \<open>A subscription to raw bytes takes every datagram.\<close>

lemma raw_packet: "is_type sub = TSlice TUint8 \<Longrightarrow> \<exists>sub'. implicit_packet b sub = Inr sub'"
  by (auto simp: implicit_packet_def Let_def decodeImplicitPayload_def split: sum.split prod.split)

lemma packet_keeps:
  "implicit_packet b sub = Inr sub' \<Longrightarrow>
   is_type sub' = is_type sub \<and> is_toConnectionID sub' = is_toConnectionID sub \<and> (chan_ok (is_values sub) \<longrightarrow> chan_ok (is_values sub'))"
  by (auto simp: implicit_packet_def Let_def go_chan.put_ok split: if_splits sum.splits prod.splits)

lemma packet_history:
  assumes "implicit_packet b sub = Inr sub'" "chan_ok (is_values sub)"
  shows "history (is_values sub') = history (is_values sub) @
    (if can_send (is_values sub) then brought (is_toConnectionID sub) (is_type sub) [b] else [])"
proof (cases "payload_for (is_toConnectionID sub) b")
  case None
  then show ?thesis using packet_unpaid[OF None assms(1)] by (auto simp: brought_def)
next
  case (Some p)
  then show ?thesis using packet_paid[OF Some] assms
    by (auto simp: brought_def go_chan.put_sent split: sum.splits if_splits)
qed

lemma Stop_keeps:
  "implicit_Stop sub c = (r, sub', c') \<Longrightarrow>
   is_type sub' = is_type sub \<and> is_toConnectionID sub' = is_toConnectionID sub
   \<and> history (is_values sub') = history (is_values sub) \<and> (chan_ok (is_values sub) \<longrightarrow> chan_ok (is_values sub'))"
  by (auto simp: implicit_Stop_def implicit_exit_def Let_def split: if_splits prod.splits)

lemma run_brought:
  assumes "implicit_run start ds full sub" "chan_ok (is_values start)" "history (is_values start) = []"
  shows "is_type sub = is_type start \<and> is_toConnectionID sub = is_toConnectionID start \<and> chan_ok (is_values sub)
    \<and> subseq (history (is_values sub)) (brought (is_toConnectionID start) (is_type start) ds)
    \<and> (\<not> full \<longrightarrow> history (is_values sub) = brought (is_toConnectionID start) (is_type start) ds)"
  using assms
proof (induction rule: implicit_run.induct)
  case i_begins
  then show ?case by (simp add: brought_def)
next
  case (i_packet ds full sub b sub')
  then have s: "history (is_values sub') = history (is_values sub) @
      (if can_send (is_values sub) then brought (is_toConnectionID start) (is_type start) [b] else [])"
    "is_type sub' = is_type start" "is_toConnectionID sub' = is_toConnectionID start" "chan_ok (is_values sub')"
    using packet_history[OF i_packet.hyps(3)] packet_keeps[OF i_packet.hyps(3)] by simp_all
  have "brought to' T (ds @ [b]) = brought to' T ds @ brought to' T [b]" for to' T by (simp add: brought_def)
  then show ?case using i_packet s by (auto simp: subseq_append_sent list_emb_append_mono)
next
  case (i_stops ds full sub c r sub' c')
  then show ?case using Stop_keeps[OF i_stops.hyps(2)] by simp
qed (simp_all add: go_chan.move_sent go_chan.move_ok)

lemma subscribed_fresh:
  assumes "SubscribeImplicit listen T cfg c = (Inr sub, c')"
  shows "chan_ok (is_values sub) \<and> history (is_values sub) = [] \<and> is_type sub = T"
  using assms by (auto simp: SubscribeImplicit_def cact_Inr split: if_splits prod.splits)

text \<open>
  C30.  An implicit subscription delivers what is addressed to it.  Over any sequence of datagrams, failures
  of the socket, receptions and stops, what was ever sent on its value channel is a subsequence of the
  values its type decodes from the datagrams that carry its connection id, in the order of arrival, and exactly these if
  no datagram met a full channel; datagrams of other connections and malformed ones contribute nothing.
\<close>

theorem implicit_delivers_addressed:
  assumes "SubscribeImplicit listen T cfg c = (Inr sub, c')" and "implicit_run sub ds full sub'"
  shows "subseq (history (is_values sub')) (brought (is_toConnectionID sub) T ds)
    \<and> (\<not> full \<longrightarrow> history (is_values sub') = brought (is_toConnectionID sub) T ds)"
  using run_brought[OF assms(2)] subscribed_fresh[OF assms(1)] by auto

section \<open>The server as the producer\<close>

definition io_datagram :: "u32 \<Rightarrow> u32 \<Rightarrow> bytes \<Rightarrow> bytes" where
  "io_datagram to' sq dat = drop 6 (serializeItems
     [item_Write (put32 to' @ put32 sq) (empty_item cipItem_SequenceAddress),
      item_Write (put16 (ucast sq) @ dat) (empty_item cipItem_ConnectedData)])"

lemma datagram_payload:
  assumes "length dat \<le> 8172"
  shows "payload_for x (io_datagram to' sq dat) = (if x = to' then Some dat else None)"
proof -
  let ?a = "item_Write (put32 to' @ put32 sq) (empty_item cipItem_SequenceAddress)"
  let ?d = "item_Write (put16 (ucast sq) @ dat) (empty_item cipItem_ConnectedData)"
  let ?b = "drop 6 (serializeItems [?a, ?d])"
  have wf: "list_all item_wf [?a, ?d]" using assms by (simp add: item_wf_Write)
  have len: "length ?b \<le> 8192" using assms by (simp add: drop_serializeItems item_Bytes_def item_Write_def)
  have "readItems (?b @ []) = Inr ([?a, ?d], [])"
    using readItems_serializeItems_aux[OF wf, of ?b "[]"] by (simp add: drop_serializeItems) (simp add: serializeItems_def)
  then show ?thesis using len by (simp add: io_datagram_def payload_for_def item_Write_def fld_simps)
qed

lemma tick_datagram:
  assumes "conn_Open (conn_store (srv_ConnMgr srv) (task_conn t))" "ep_IORead (rt_store (srv_Router srv) (task_ep t)) = Inr dat"
  shows "fst (ioConnection_tick t srv) = IoSent (io_datagram (task_TO t) (task_seq t + 1) dat)"
  using assms by (simp add: ioConnection_tick_def Let_def newItem_None io_datagram_def)

lemma fresh_can_send: "0 < n \<Longrightarrow> can_send (make_chan n)"
  by (simp add: can_send_def make_chan_def)

lemma evened_even: "even (length b) \<Longrightarrow> evened b = b"
  by (auto simp: evened_def)

lemma read_standard_request:
  "read_ForwardOpen_Standard (([CIPService_ForwardOpen, 0x02, 0x20, 0x06, 0x24, 0x01, 0x07, 0xE9]
      @ put32 ot @ put32 to' @ put16 serial @ put16 v @ put32 n @ put32 m @ put32 us @ put16 params @ put32 us @ put16 params
      @ [trigger, sz]) @ p)
   = Inr (\<lparr>fo_Service = CIPService_ForwardOpen, fo_OTConnectionID = ot, fo_TOConnectionID = to',
       fo_ConnectionSerialNumber = serial, fo_VendorID = v, fo_OriginatorSerialNumber = n, fo_Multiplier = m, fo_OTRPI = us,
       fo_OTNetworkConnParams = ucast params, fo_TORPI = us, fo_TONetworkConnParams = ucast params,
       fo_TransportTrigger = trigger, fo_ConnPathSize = sz\<rparr>, p)" (is "read_ForwardOpen_Standard (?x @ p) = _")
proof -
  have "length ?x = 42" by simp
  then have "read_full 42 (?x @ p) = Inr (?x, p)" by (rule read_full_append)
  then show ?thesis unfolding read_ForwardOpen_Standard_def by (simp add: fld_simps)
qed

lemma implicit_open_handled:
  assumes "item = newImplicitForwardOpenItem p serial ot to' rpi 1 c" "even (length p)" "length p < 256" "2 \<le> length p"
    and "ot \<noteq> 0" "to' \<noteq> 0" "h_writable h" "rt_Path (srv_Router (h_server h)) (take 2 p) = Some tp"
  shows "\<exists>h' fo. sendRRData fconv (serializeItems [empty_item cipItem_Null, item]) h = (Inr [], h')
    \<and> fo_TOConnectionID fo = to' \<and> h_out h' = h_out h @ [frame h cipCommandSendRRData (open_reply fo)]
    \<and> srv_Router (h_server h') = srv_Router (h_server h)
    \<and> srv_ConnMgr (h_server h') = cm_Add \<lparr>conn_ID = serial, conn_OT = ot, conn_TO = to', conn_RPI = word_of_int (rpi div 1000),
        conn_Path = take 2 p, conn_Open = True\<rparr> (srv_ConnMgr (h_server h))
    \<and> h_tasks h' = h_tasks h @ [\<lparr>task_TO = to', task_ep = tp, task_conn = conn_next (srv_ConnMgr (h_server h)), task_seq = 0\<rparr>]"
proof -
  let ?us = "word_of_int (rpi div 1000) :: u32"
  let ?params = "push_bit 13 2 OR push_bit 9 1 OR connSizeStandardMax :: u16"
  let ?b = "[CIPService_ForwardOpen, 0x02, 0x20, 0x06, 0x24, 0x01, 0x07, 0xE9] @ put32 ot @ put32 to' @ put16 serial
     @ put16 (c_VendorId c) @ put32 (c_SerialNumber c) @ put32 0 @ put32 ?us @ put16 ?params @ put32 ?us @ put16 ?params
     @ [1, of_nat (length p div 2)]"
  let ?fo = "\<lparr>fo_Service = CIPService_ForwardOpen, fo_OTConnectionID = ot, fo_TOConnectionID = to',
       fo_ConnectionSerialNumber = serial, fo_VendorID = c_VendorId c, fo_OriginatorSerialNumber = c_SerialNumber c,
       fo_Multiplier = 0, fo_OTRPI = ?us, fo_OTNetworkConnParams = ucast ?params, fo_TORPI = ?us,
       fo_TONetworkConnParams = ucast ?params, fo_TransportTrigger = 1, fo_ConnPathSize = of_nat (length p div 2)\<rparr>"
  have i: "item = item_Write p (item_Write ?b (empty_item cipItem_UnconnectedData))"
    unfolding assms(1) newImplicitForwardOpenItem_def Let_def evened_even[OF assms(2)] by simp
  have d: "Data item = ?b @ p" "hdr_ID (Header item) = cipItem_UnconnectedData" unfolding i by (simp_all add: item_Write_def)
  have l: "length ?b = 42" by simp
  have "item_wf item" unfolding i using assms(3) l by (intro item_wf_Write) (simp_all add: item_Write_def)
  then have rr: "read_rr (serializeItems [empty_item cipItem_Null, item]) = Inr ([empty_item cipItem_Null, item], [])"
    by (intro read_rr_serializeItems) (simp_all add: item_wf_empty)
  have pr: "read_full (unat (fo_ConnPathSize ?fo * 2)) p = Inr (p, [])"
    using path_size_bytes[OF assms(2,3)] read_full_append[of p "length p" "[]"] by simp
  obtain h1 where h1: "open_connection ?fo p h = (Inr (conn_next (srv_ConnMgr (h_server h))), h1)"
    "srv_ConnMgr (h_server h1) = cm_Add (new_connection ?fo ot to' (take 2 p)) (srv_ConnMgr (h_server h))"
    "srv_Router (h_server h1) = srv_Router (h_server h)" "h_tasks h1 = h_tasks h" "h_TOConnectionID h1 = to'"
    using open_connection_given_ids[of h p ?fo] assms(4-7) by auto
  have out: "h_out h1 = h_out h @ [frame h cipCommandSendRRData (open_reply ?fo)]"
    using open_connection_reply[of h p ?fo] assms(4-7) h1(1) by auto
  let ?h = "h1\<lparr>h_tasks := h_tasks h1 @ [\<lparr>task_TO = to', task_ep = tp, task_conn = conn_next (srv_ConnMgr (h_server h)), task_seq = 0\<rparr>]\<rparr>"
  have "h_Resolve (take 2 p) h1 = Inr tp" using assms(8) h1(3) by (simp add: h_Resolve_def rt_Resolve_def)
  then have "forwardOpen (?b @ p) h = (Inr (), ?h)"
    using read_standard_request[of ot to' serial "c_VendorId c" "c_SerialNumber c" 0 ?us ?params 1 "of_nat (length p div 2)" p] pr h1
    by (simp only: forwardOpen_def need_def seq_act_def sum.case prod.case) (simp add: start_task_def)
  then have "unconnectedData fconv (?b @ p) h = (Inr (), ?h)"
    by (simp add: unconnectedData_def need_def bind_act_def ret_def)
  then have "sendRRData fconv (serializeItems [empty_item cipItem_Null, item]) h = (Inr [], ?h)"
    using rr d by (simp add: sendRRData_def need_def seq_act_def ret_def)
  then show ?thesis using h1 out by (intro exI[of _ ?h] exI[of _ ?fo]) (simp add: new_connection_def)
qed

lemma reply_TO: "fld32 4 (drop 4 (msgEIPForwardOpen_Standard_Reply s ot to' n v r a b)) = to'"
proof -
  have m: "msgEIPForwardOpen_Standard_Reply s ot to' n v r a b
      = [s, 0, CIPStatus_OK, 0] @ put32 ot @ put32 to' @ put16 n @ put16 v @ put32 r @ put32 a @ put32 b @ [0, 0]"
    by (simp add: msgEIPForwardOpen_Standard_Reply_def)
  show ?thesis unfolding m by (simp add: fld_simps)
qed

lemma forwardOpenCustom_answered:
  assumes "c_conn c" "c_socket c = []" "c_script c = Some (frame h cipCommandSendRRData (open_reply fo)) # s"
  shows "\<exists>rep. forwardOpenCustom item c = (Inr rep, c\<lparr>c_HeaderSequenceCounter := c_HeaderSequenceCounter c + 1, c_script := s,
    c_sent := c_sent c @ [fst (sendMsgBuild cipCommandSendRRData (serializeItems [empty_item cipItem_Null, item]) c)]\<rparr>)
    \<and> fr_TOConnectionId rep = fo_TOConnectionID fo"
proof -
  let ?hdr = "h_newEIPHeader cipCommandSendRRData (length (open_reply fo)) h"
  have "unat (eh_Length ?hdr) = length (open_reply fo)" by (simp add: h_newEIPHeader_def length_open_reply)
  note x = send_recv_answered[OF assms(1,2) assms(3)[unfolded frame_def] this,
      of cipCommandSendRRData "serializeItems [empty_item cipItem_Null, item]"]
  obtain items where p: "parseResponse ?hdr (open_reply fo) = Inr (items,
    drop 4 (msgEIPForwardOpen_Standard_Reply (AsResponse (fo_Service fo)) (fo_OTConnectionID fo)
           (fo_TOConnectionID fo) (fo_ConnectionSerialNumber fo) (fo_VendorID fo)
           (fo_OriginatorSerialNumber fo) (fo_OTRPI fo) (fo_TORPI fo)))"
    using parse_open_reply[of ?hdr fo] by (auto simp: h_newEIPHeader_def)
  show ?thesis unfolding forwardOpenCustom_def cwrap_def x prod.case sum.case p cact_simps
    by (simp add: read_ForwardOpenReply_def read_reply reply_TO cret_def)
qed

lemma subscribe_answered:
  assumes "c_Connected c" "c_conn c" "c_socket c = []" "implicit_path cfg c = Inr p" "ic_TransportTrigger cfg \<in> {0, 1}"
    and ser: "nextConnectionSerialNumber (c_connectionSerialValue c) = Some (serial, v)"
    and c1: "c1 = c\<lparr>c_connectionSerialValue := v, c_sequenceNumber := c_sequenceNumber c + 2\<rparr>"
    and item: "item = newImplicitForwardOpenItem p serial (c_sequenceNumber c + 1) (c_sequenceNumber c + 2) (implicit_rpi cfg c) 1 c"
  shows "\<exists>sub c'. SubscribeImplicit True T cfg (c\<lparr>c_script := [Some (frame h cipCommandSendRRData (open_reply fo))]\<rparr>) = (Inr sub, c')
    \<and> c_sent c' = c_sent c @ [fst (sendMsgBuild cipCommandSendRRData (serializeItems [empty_item cipItem_Null, item]) c1)]
    \<and> is_toConnectionID sub = fo_TOConnectionID fo \<and> is_connectionSerial sub = serial \<and> is_type sub = T
    \<and> can_send (is_values sub) \<and> chan_ok (is_values sub)"
proof -
  let ?f = "frame h cipCommandSendRRData (open_reply fo)"
  let ?c = "c\<lparr>c_script := [Some ?f]\<rparr>" and ?c1 = "c1\<lparr>c_script := [Some ?f]\<rparr>"
  have eq: "newImplicitForwardOpenItem p serial ot to' (implicit_rpi cfg ?c1) (or_default (ic_TransportTrigger cfg) 1) ?c1
      = newImplicitForwardOpenItem p serial ot to' (implicit_rpi cfg c) 1 c" for ot to'
    using assms(5) by (auto simp: newImplicitForwardOpenItem_def implicit_rpi_def or_default_def c1)
  obtain rep where rep: "forwardOpenCustom item ?c1 = (Inr rep, ?c1\<lparr>c_HeaderSequenceCounter := c_HeaderSequenceCounter ?c1 + 1,
      c_script := [], c_sent := c_sent ?c1 @ [fst (sendMsgBuild cipCommandSendRRData (serializeItems [empty_item cipItem_Null, item]) ?c1)]\<rparr>)"
    "fr_TOConnectionId rep = fo_TOConnectionID fo"
    using forwardOpenCustom_answered[of ?c1 h fo "[]" item] assms(2,3) by (auto simp: c1)
  have b: "fst (sendMsgBuild cmd m ?c1) = fst (sendMsgBuild cmd m c1)" for cmd m
    by (simp add: sendMsgBuild_def c_newEIPHeader_def)
  have path: "implicit_path cfg ?c = Inr p" using assms(4) by (simp add: implicit_path_def split: option.splits if_splits)
  have ids: "implicit_ids ?c = (Inr (serial, c_sequenceNumber c + 1, c_sequenceNumber c + 2), ?c1)"
    using ser by (simp add: implicit_ids_def c1)
  have conn: "checkConn ?c = (Inr (), ?c)" using assms(1) by (simp add: checkConn_def c_Connected_def)
  show ?thesis
    unfolding SubscribeImplicit_def cwrap_def conn prod.case sum.case path cact_simps cbind_def ids eq
    using rep item b by (simp add: cret_def fresh_can_send positive_or_def c1)
qed


section \<open>Stopping at the server\<close>

text \<open>The request is the one of \<^const>\<open>Disconnect\<close> with the subscription's numbers in place of the client's.\<close>

definition close_request :: "u16 \<Rightarrow> u16 \<Rightarrow> u32 \<Rightarrow> Client \<Rightarrow> bytes" where
  "close_request serial v n c =
     disconnect_request (c\<lparr>c_ConnectionSerialNumber := serial, c_VendorId := v, c_SerialNumber := n\<rparr>)"

lemma forwardCloseBySerial_request:
  "forwardCloseBySerial serial v n c =
     cwrap ''error sending forward-close request'' (send_recv_data cipCommandSendRRData (close_request serial v n c))
       (\<lambda>(header, data). cneed ''error parsing forward-close response'' (parseResponse header data) (\<lambda>_. cret ())) c"
  unfolding forwardCloseBySerial_def close_request_def disconnect_request_def msgCipUnRegister_def Let_def
  by (simp add: c_path_bytes_def)

lemma unanswered_twice:
  assumes "c_connStatus c = Connected" "\<not> c_keepAliveRunning c" "c_conn c" "c_socket c = []" "c_script c = Some [] # Some [] # s"
  shows "\<exists>e c'. send_recv_data cmd msg c = (Inl (Wrapped ''forced disconnect'' e), c') \<and> c_connStatus c' = Disconnected \<and> \<not> c_conn c'
    \<and> c_sent c' = c_sent c @ [fst (sendMsgBuild cmd msg c), fst (sendMsgBuild cipCommandSendRRData (disconnect_request c) c)]"
proof -
  obtain e c1 where x: "exchange cmd msg c = (Inl e, c1)"
    and c1: "c1 = c\<lparr>c_HeaderSequenceCounter := c_HeaderSequenceCounter c + 1,
      c_sent := c_sent c @ [fst (sendMsgBuild cmd msg c)], c_script := Some [] # s\<rparr>"
    using exchange_unanswered[OF assms(3,4,5)] by blast
  have r: "disconnect_request c1 = disconnect_request c" "fst (sendMsgBuild cipCommandSendRRData m c1) = fst (sendMsgBuild cipCommandSendRRData m c)" for m
    by (simp_all add: c1 disconnect_request_def msgCipUnRegister_def c_path_bytes_def sendMsgBuild_def c_newEIPHeader_def)
  have "fst (Disconnect c1) = Inr () \<and> c_connStatus (snd (Disconnect c1)) = Disconnected \<and> \<not> c_conn (snd (Disconnect c1))
    \<and> c_sent (snd (Disconnect c1)) = c_sent c1 @ [fst (sendMsgBuild cipCommandSendRRData (disconnect_request c1) c1)]"
    using assms by (intro Disconnect_unanswered) (simp_all add: c1)
  moreover obtain q c2 where d: "Disconnect c1 = (q, c2)" by (cases "Disconnect c1")
  ultimately show ?thesis
    using x r by (intro exI[of _ e] exI[of _ c2]) (simp add: send_recv_data.simps, simp add: c1)
qed

text \<open>
  C31.  Stopping one subscription at this library's server ends the client's session.  The forward close of
  \<^verbatim>\<open>Stop\<close> makes the server close the subscription's connection and answer nothing; the client, which waits
  for an answer, then disconnects altogether (closing its main connection with a second forward close), and
  \<^verbatim>\<open>Stop\<close> reports an error.
\<close>

theorem stopping_ends_the_session:
  assumes "\<not> is_closed sub" "c_connStatus c = Connected" "\<not> c_keepAliveRunning c" "c_conn c" "c_socket c = []"
    and "c_script c = Some [] # Some [] # s" "length (c_path_bytes c) < 256" "cm_inv (srv_ConnMgr (h_server h))"
    and "cm_find (\<lambda>x. conn_ID x = is_connectionSerial sub) (srv_ConnMgr (h_server h)) = Some a"
  shows "\<exists>b b2 hdr r h' e sub' c'. c_sent c' = c_sent c @ [b, b2]
    \<and> read_eipHeader b = Inr (hdr, r) \<and> dispatch fconv hdr r h = (Inr [], h') \<and> h_out h' = h_out h
    \<and> \<not> conn_Open (conn_store (srv_ConnMgr (h_server h')) a)
    \<and> implicit_Stop sub c = (Inl e, sub', c') \<and> is_done sub' \<and> c_connStatus c' = Disconnected \<and> \<not> c_conn c'"
proof -
  let ?cm = "srv_ConnMgr (h_server h)"
  let ?req = "close_request (is_connectionSerial sub) (is_vendorID sub) (is_originatorSerial sub) c"
  let ?c = "c\<lparr>c_ConnectionSerialNumber := is_connectionSerial sub, c_VendorId := is_vendorID sub, c_SerialNumber := is_originatorSerial sub\<rparr>"
  let ?b = "fst (sendMsgBuild cipCommandSendRRData ?req c)" and ?hdr = "fst (c_newEIPHeader cipCommandSendRRData (length ?req) c)"
  obtain cm where cm: "cm_CloseByID (is_connectionSerial sub) ?cm = Inr cm"
    using cm_Close_Inl_iff[of _ "\<lambda>x. conn_ID x = is_connectionSerial sub" ?cm] assms(9)
    by (cases "cm_CloseByID (is_connectionSerial sub) ?cm") (auto simp: cm_CloseByID_def)
  have open_a: "\<not> conn_Open (conn_store cm a)"
    using cm_Close_spec[OF assms(8) cm[unfolded cm_CloseByID_def]] assms(9) by auto
  have "length (c_path_bytes ?c) < 256" using assms(7) by (simp add: c_path_bytes_def)
  with close_handled[of ?c h cm fconv] cm have "sendRRData fconv ?req h = (Inr [], set_ConnMgr cm h)" by (simp add: close_request_def)
  then have "dispatch fconv ?hdr ?req h = (Inr [], set_ConnMgr cm h)"
    by (simp add: dispatch_def c_newEIPHeader_def bind_act_def ret_def)
  moreover have "read_eipHeader ?b = Inr (?hdr, ?req)" using eip_header.dec_enc by (simp add: sendMsgBuild_def split_beta)
  moreover obtain e c' where c': "send_recv_data cipCommandSendRRData ?req c = (Inl (Wrapped ''forced disconnect'' e), c')"
    "c_connStatus c' = Disconnected" "\<not> c_conn c'"
    "c_sent c' = c_sent c @ [?b, fst (sendMsgBuild cipCommandSendRRData (disconnect_request c) c)]"
    using unanswered_twice[OF assms(2-6), of cipCommandSendRRData ?req] by blast
  moreover have "implicit_Stop sub c = (Inl (wrap ''error sending forward-close request'' (Wrapped ''forced disconnect'' e)),
      implicit_exit (sub\<lparr>is_closed := True\<rparr>), c')"
    using c'(1) assms(1,2) by (simp add: implicit_Stop_def c_Connected_def forwardCloseBySerial_request cwrap_def)
  ultimately show ?thesis using open_a
    by (intro exI[of _ ?b] exI[of _ "fst (sendMsgBuild cipCommandSendRRData (disconnect_request c) c)"] exI[of _ ?hdr] exI[of _ ?req]
        exI[of _ "set_ConnMgr cm h"] exI[of _ "wrap ''error sending forward-close request'' (Wrapped ''forced disconnect'' e)"]
        exI[of _ "implicit_exit (sub\<lparr>is_closed := True\<rparr>)"] exI[of _ c']) (simp add: set_ConnMgr_def implicit_exit_def)
qed

section \<open>Examples\<close>

definition demo_implicit :: ImplicitSubscriptionConfig where
  "demo_implicit = \<lparr>ic_ConnectionPath = [], ic_AssemblyPath = None, ic_ProducedConsumedPath = None, ic_RPI = 0,
     ic_TransportTrigger = 0, ic_ReceiveTimeout = 0, ic_ValueBuffer = 0, ic_ErrorBuffer = 0\<rparr>"

lemma demo_implicit_client:
  "c_Connected demo_client" "c_conn demo_client" "c_socket demo_client = []" "implicit_path demo_implicit demo_client = Inr [1, 0]"
  "ic_TransportTrigger demo_implicit \<in> {0, 1}"
  by (simp_all add: demo_client_def c_Connected_def demo_implicit_def implicit_path_def)

lemma demo_implicit_opened:
  "\<exists>f sub c'. SubscribeImplicit True (TSlice TUint8) demo_implicit (demo_client\<lparr>c_script := [Some f]\<rparr>) = (Inr sub, c')
    \<and> is_toConnectionID sub = 12 \<and> is_type sub = TSlice TUint8 \<and> \<not> is_done sub \<and> is_values sub = make_chan 32"
proof -
  obtain serial v where "nextConnectionSerialNumber (c_connectionSerialValue demo_client) = Some (serial, v)"
    using nextConnectionSerialNumber_total by blast
  from subscribe_answered[OF demo_implicit_client this refl refl, of "TSlice TUint8" "new_handler demo_server"
      "fo_TOConnectionID_update (\<lambda>_. 12) undefined"]
  obtain sub c' where s: "SubscribeImplicit True (TSlice TUint8) demo_implicit (demo_client\<lparr>c_script :=
      [Some (frame (new_handler demo_server) cipCommandSendRRData (open_reply (fo_TOConnectionID_update (\<lambda>_. 12) undefined)))]\<rparr>) = (Inr sub, c')"
    "is_toConnectionID sub = 12" "is_type sub = TSlice TUint8" by auto
  then have "\<not> is_done sub \<and> is_values sub = make_chan 32"
    by (auto simp: SubscribeImplicit_def cact_Inr demo_implicit_def positive_or_def split: if_splits prod.splits)
  with s show ?thesis by blast
qed

theorem implicit_delivers_addressed_witness:
  "\<exists>sub sub'. implicit_run sub [io_datagram 12 1 [7, 8], io_datagram 99 1 [9], [3]] False sub'
    \<and> history (is_values sub') = [byte_slice [7, 8]]"
proof -
  from demo_implicit_opened obtain f sub c' where
    sub: "SubscribeImplicit True (TSlice TUint8) demo_implicit (demo_client\<lparr>c_script := [Some f]\<rparr>) = (Inr sub, c')"
      "is_toConnectionID sub = 12" "is_type sub = TSlice TUint8" "\<not> is_done sub" "is_values sub = make_chan 32" by blast
  let ?d = "io_datagram 12 1 [7, 8]" and ?x = "io_datagram 99 1 [9]"
  let ?s = "sub\<lparr>is_values := offer (byte_slice [7, 8]) (make_chan 32)\<rparr>"
  have room: "can_send (make_chan 32 :: goval chan)" "can_send (is_values ?s)" "can_send (is_values (emitErr e ?s))" for e
    by (simp_all add: can_send_def make_chan_def offer_def)
  have "implicit_packet ?d sub = Inr ?s"
    using packet_paid[of sub ?d "[7, 8]"] sub(2,3,5) room(1) by (simp add: datagram_payload decodeImplicitPayload_def)
  from i_packet[OF i_begins sub(4) this] have r1: "implicit_run sub [?d] False ?s" using sub(5) room by simp
  have other: "payload_for (is_toConnectionID ?s) ?x = None" using sub(2) by (simp add: datagram_payload)
  obtain s2 where p2: "implicit_packet ?x ?s = Inr s2" "s2 = ?s \<or> (\<exists>e. s2 = emitErr e ?s)"
    using packet_unpaid[OF other] raw_packet[of ?s ?x] sub(3) by auto
  have d2: "\<not> is_done s2" "can_send (is_values s2)" "is_type s2 = is_type sub" "is_toConnectionID s2 = is_toConnectionID sub" using p2(2) sub(4) room by auto
  have r2: "implicit_run sub [?d, ?x] False s2" using i_packet[OF r1 _ p2(1)] sub(4) room by simp
  obtain s3 where p3: "implicit_packet [3] s2 = Inr s3" using raw_packet[of s2] d2(3) sub(3) by auto
  have run: "implicit_run sub [?d, ?x, [3]] False s3" using i_packet[OF r2 d2(1) p3] d2(2) by simp
  have "payload_for 12 [3] = None" by (simp add: payload_for_def readItems_def rd16_def read_full_def attempt_def andthen_def)
  then have "brought 12 (TSlice TUint8) [?d, ?x, [3]] = [byte_slice [7, 8]]"
    by (simp add: brought_def datagram_payload decodeImplicitPayload_def)
  with implicit_delivers_addressed[OF sub(1) run] sub(2) run show ?thesis by (intro exI conjI) (assumption, simp)
qed

definition demo_io_server :: Server where
  "demo_io_server = NewServer \<lparr>rt_Path = [[1, 0] \<mapsto> 0], rt_store = (\<lambda>_. EIO
     \<lparr>io_In = VStruct ''in'' [(\<lparr>field_name = ''n'', pack_tag = [], index_tag = NoIndex, gologix_tag = None\<rparr>, VInt16 5)],
      io_Out = VStruct ''out'' []\<rparr>)\<rparr> (\<lambda>n. of_nat (n + 100))"

lemma demo_io_read: "ep_IORead (rt_store (srv_Router demo_io_server) 0) = Inr [5, 0]"
  by code_simp


theorem stopping_ends_the_session_witness:
  "\<exists>sub e sub' c'. implicit_Stop sub (demo_client\<lparr>c_script := [Some [], Some []]\<rparr>) = (Inl e, sub', c') \<and> c_connStatus c' = Disconnected"
proof -
  let ?c = "demo_client\<lparr>c_script := [Some [], Some []]\<rparr>" and ?cm = "srv_ConnMgr (h_server demo_open_handler)"
  let ?sub = "\<lparr>is_type = TSlice TUint8, is_values = make_chan 1, is_errs = make_chan 1, is_connectionSerial = 3, is_vendorID = 1,
    is_originatorSerial = 42, is_toConnectionID = 12, is_receiveTimeout = 1, is_closed = False, is_done = False\<rparr>"
  have s: "\<not> is_closed ?sub" by simp
  have c: "c_connStatus ?c = Connected" "\<not> c_keepAliveRunning ?c" "c_conn ?c" "c_socket ?c = []" "c_script ?c = Some [] # Some [] # []"
    "length (c_path_bytes ?c) < 256"
    by (simp_all add: demo_client_def c_path_bytes_def CIPClass_Bytes_def CIPInstance_Bytes_def)
  have cm: "?cm = cm_Add (demo_conn 3 101) cm_empty" by (simp add: demo_open_handler_def set_ConnMgr_def)
  have i: "cm_inv ?cm" unfolding cm by (simp add: cm_inv_Add cm_inv_empty demo_conn_def)
  have f: "cm_find (\<lambda>x. conn_ID x = is_connectionSerial ?sub) ?cm = Some 0"
    by (simp add: cm cm_Add_def cm_empty_def cm_Init_def cm_find_def demo_conn_def)
  from stopping_ends_the_session[OF s c i f, of "\<lambda>_ _. None"] show ?thesis by blast
qed

end
