(* ===== verification/Server_Io_Channels.thy ===== *)
theory Server_Io_Channels
  imports Server_Router Go_Channels
begin

text \<open>
  The second endpoint for cyclic I/O, \<^verbatim>\<open>server_iochannel.go\<close>: what the controller writes is sent on
  channels instead of being kept.  Both endpoints offer what was last set as input, whatever is written to them;
  this contract is a locale.
\<close>

section \<open>The provider\<close>

record IOChannelProvider =
  cp_in :: goval
  cp_Tout :: gotype
  cp_outChannels :: "goval chan list"

definition cp_IORead :: "IOChannelProvider \<Rightarrow> bytes res" where
  "cp_IORead p = andthen (Pack (cp_in p)) (\<lambda>(b, _). Inr b)"

text \<open>The loop over the channels: it returns at the first that cannot take the value.\<close>

fun send_all :: "goval \<Rightarrow> goval chan list \<Rightarrow> unit res \<times> goval chan list" where
  "send_all v [] = (Inr (), [])"
| "send_all v (ch # chs) =
     (if can_send ch then (let (r, chs') = send_all v chs in (r, offer v ch # chs'))
      else (Inl (Msg ''problem sending IOWrite data. channel full?''), ch # chs))"

definition cp_payload :: "CIPItem list \<Rightarrow> bytes res" where
  "cp_payload items =
     (if length items \<noteq> 2 then Inl (Msg ''expected 2 items'')
      else let it = items ! 1 in
        if hdr_ID (Header it) \<noteq> cipItem_ConnectedData
        then Inl (Msg ''expected item 2 to be a connected data item'')
        else
          attempt ''problem getting sequence counter'' (item_DeSerialize TUint32 it) (\<lambda>(_, it1).
          attempt ''problem getting header'' (item_DeSerialize TUint16 it1) (\<lambda>(_, it2).
          attempt ''problem getting raw data'' (item_ReadFull (unat (hdr_Length (Header it2) - 6)) it2) (\<lambda>(payload, _).
          Inr payload))))"

text \<open>\<^verbatim>\<open>Unpack\<close> into a new variable; into a nil slice it reads no element.\<close>

definition cp_unpack :: "gotype \<Rightarrow> bytes \<Rightarrow> goval res" where
  "cp_unpack T payload =
     (case T of TSlice t \<Rightarrow> Inr (VSlice t []) | _ \<Rightarrow> andthen (Unpack T payload) (\<lambda>(v, _). Inr v))"

definition cp_IOWrite :: "CIPItem list \<Rightarrow> IOChannelProvider \<Rightarrow> unit res \<times> IOChannelProvider" where
  "cp_IOWrite items p =
     (case andthen (cp_payload items) (\<lambda>payload.
             attempt ''problem unpacking data into output struct'' (cp_unpack (cp_Tout p) payload) Inr) of
        Inl e \<Rightarrow> (Inl e, p)
      | Inr out \<Rightarrow> (let (r, chs) = send_all out (cp_outChannels p) in (r, p\<lparr>cp_outChannels := chs\<rparr>)))"

definition cp_TagRead :: "string \<Rightarrow> u16 \<Rightarrow> IOChannelProvider \<Rightarrow> goval res" where
  "cp_TagRead tag qty p = Inl (Msg ''not implemented'')"

definition cp_TagWrite :: "string \<Rightarrow> goval \<Rightarrow> IOChannelProvider \<Rightarrow> unit res" where
  "cp_TagWrite tag v p = Inl (Msg ''not implemented'')"

text \<open>The new channel has no buffer; its receiver knows it by its position.\<close>

definition cp_GetOutputDataChannel :: "IOChannelProvider \<Rightarrow> nat \<times> IOChannelProvider" where
  "cp_GetOutputDataChannel p =
     (length (cp_outChannels p), p\<lparr>cp_outChannels := cp_outChannels p @ [make_chan 0]\<rparr>)"

definition cp_SetInputData :: "goval \<Rightarrow> IOChannelProvider \<Rightarrow> IOChannelProvider" where
  "cp_SetInputData v p = p\<lparr>cp_in := v\<rparr>"

text \<open>A receiver takes from its channel, or waits at it.\<close>

definition cp_receive :: "nat \<Rightarrow> IOChannelProvider \<Rightarrow> IOChannelProvider" where
  "cp_receive i p =
     (if i < length (cp_outChannels p) then p\<lparr>cp_outChannels := (cp_outChannels p)[i := receive (cp_outChannels p ! i)]\<rparr> else p)"

section \<open>What an endpoint offers\<close>

locale io_endpoint =
  fixes set_input :: "goval \<Rightarrow> 'p \<Rightarrow> 'p"
    and io_read :: "'p \<Rightarrow> bytes res"
    and io_write :: "CIPItem list \<Rightarrow> 'p \<Rightarrow> 'p"
  assumes read_set: "io_read (set_input v p) = andthen (Pack v) (\<lambda>(b, _). Inr b)"
    and read_write: "io_read (io_write items p) = io_read p"
begin

text \<open>The output image the controller sends never disturbs the input image it gets.\<close>

lemma read_after_writes: "io_read (fold io_write packets (set_input v p)) = andthen (Pack v) (\<lambda>(b, _). Inr b)"
proof -
  have "io_read (fold io_write packets q) = io_read q" for q
    by (induction packets arbitrary: q) (simp_all add: read_write)
  then show ?thesis by (simp add: read_set)
qed

end

interpretation buffered: io_endpoint io_SetInputData io_IORead "\<lambda>items p. case io_IOWrite items p of Inl _ \<Rightarrow> p | Inr p' \<Rightarrow> p'"
proof
  fix items and p :: IOProvider and v
  show "io_IORead (io_SetInputData v p) = andthen (Pack v) (\<lambda>(b, _). Inr b)"
    by (simp add: io_IORead_def io_SetInputData_def)
  show "io_IORead (case io_IOWrite items p of Inl _ \<Rightarrow> p | Inr p' \<Rightarrow> p') = io_IORead p"
    by (auto simp: io_IORead_def io_IOWrite_def Let_def attempt_Inr_iff split: sum.splits if_splits)
qed

interpretation streamed: io_endpoint cp_SetInputData cp_IORead "\<lambda>items p. snd (cp_IOWrite items p)"
proof
  fix items and p :: IOChannelProvider and v
  show "cp_IORead (cp_SetInputData v p) = andthen (Pack v) (\<lambda>(b, _). Inr b)"
    by (simp add: cp_IORead_def cp_SetInputData_def)
  show "cp_IORead (snd (cp_IOWrite items p)) = cp_IORead p"
    by (simp add: cp_IORead_def cp_IOWrite_def split_beta split: sum.split)
qed

lemmas endpoint_inputs = buffered.read_after_writes streamed.read_after_writes

section \<open>Who gets an output\<close>

definition channels_ok :: "goval chan list \<Rightarrow> bool" where
  "channels_ok chs \<longleftrightarrow> list_all (\<lambda>ch. chan_ok ch \<and> ch_capacity ch = 0) chs"

lemma send_all_spec:
  "send_all v chs = (r, chs') \<Longrightarrow>
   (let k = length (takeWhile can_send chs) in
    chs' = map (offer v) (take k chs) @ drop k chs \<and> (r = Inr () \<longleftrightarrow> k = length chs))"
  by (induction chs arbitrary: r chs') (auto simp: Let_def split: if_splits prod.splits)

lemma offer_capacity [simp]: "ch_capacity (offer v ch) = ch_capacity ch"
  by (simp add: offer_def)

lemma unbuffered_room: "chan_ok ch \<Longrightarrow> ch_capacity ch = 0 \<Longrightarrow> can_send ch = ch_waiting ch"
  by (simp add: can_send_def)

text \<open>
  C32.  An output reaches the receivers that wait, up to the first that does not.  On channels without buffer (all
  the provider makes), a packet that decodes to \<open>v\<close> is received by exactly the channels before the first
  one at which nobody waits, and the write succeeds only if there is none; later channels
  miss the packet although their receivers wait.
\<close>

theorem output_reaches_waiting_prefix:
  assumes "channels_ok (cp_outChannels p)" and "cp_payload items = Inr dat" and "cp_unpack (cp_Tout p) dat = Inr v"
    and "k = length (takeWhile ch_waiting (cp_outChannels p))" and "cp_IOWrite items p = (r, p')"
  shows "(r = Inr () \<longleftrightarrow> k = length (cp_outChannels p)) \<and> channels_ok (cp_outChannels p') \<and>
    map history (cp_outChannels p') =
      map (\<lambda>ch. history ch @ [v]) (take k (cp_outChannels p)) @ map history (drop k (cp_outChannels p))"
proof -
  let ?chs = "cp_outChannels p"
  have room: "\<forall>ch\<in>set ?chs. chan_ok ch \<and> ch_capacity ch = 0 \<and> can_send ch = ch_waiting ch"
    using assms(1) by (auto simp: channels_ok_def list_all_iff unbuffered_room)
  then have "takeWhile can_send ?chs = takeWhile ch_waiting ?chs" by (intro takeWhile_cong) auto
  then have k: "length (takeWhile can_send ?chs) = k" using assms(4) by simp
  obtain chs' where chs': "send_all v ?chs = (r, chs')" "p' = p\<lparr>cp_outChannels := chs'\<rparr>"
    using assms(2,3,5) by (auto simp: cp_IOWrite_def split: prod.splits)
  have spec: "chs' = map (offer v) (take k ?chs) @ drop k ?chs" "r = Inr () \<longleftrightarrow> k = length ?chs"
    using send_all_spec[OF chs'(1)] k by (simp_all add: Let_def)
  have "take k ?chs = takeWhile ch_waiting ?chs" unfolding assms(4) by (rule takeWhile_eq_take[symmetric])
  then have w: "can_send ch" if "ch \<in> set (take k ?chs)" for ch
    using that room set_takeWhileD[of ch ch_waiting ?chs] by auto
  have "history (offer v ch) = history ch @ [v]" if "ch \<in> set (take k ?chs)" for ch
    using w[OF that] room in_set_takeD[OF that] by (simp add: go_chan.put_sent)
  then have "map history (map (offer v) (take k ?chs)) = map (\<lambda>ch. history ch @ [v]) (take k ?chs)" by simp
  moreover have "channels_ok chs'"
    using room by (auto simp: spec(1) channels_ok_def list_all_iff go_chan.put_ok dest: in_set_takeD in_set_dropD)
  ultimately show ?thesis using spec chs'(2) by simp
qed

lemma receive_unbuffered: "chan_ok ch \<and> ch_capacity ch = 0 \<Longrightarrow> chan_ok (receive ch) \<and> ch_capacity (receive ch) = 0"
  by (auto simp: chan_ok_def receive_def split: list.split)

lemma provider_channels_ok:
  "channels_ok (cp_outChannels p) \<Longrightarrow> channels_ok (cp_outChannels (snd (cp_GetOutputDataChannel p)))"
  by (simp add: channels_ok_def cp_GetOutputDataChannel_def) (simp add: make_chan_def)

lemma received_channels_ok:
  assumes "channels_ok (cp_outChannels p)"
  shows "channels_ok (cp_outChannels (cp_receive i p))"
proof (cases "i < length (cp_outChannels p)")
  case True
  let ?chs = "cp_outChannels p"
  have "chan_ok (receive (?chs ! i)) \<and> ch_capacity (receive (?chs ! i)) = 0"
    using assms True by (intro receive_unbuffered) (simp add: channels_ok_def list_all_length)
  then have "\<forall>ch\<in>set (?chs[i := receive (?chs ! i)]). chan_ok ch \<and> ch_capacity ch = 0"
    using assms set_update_subset_insert[of ?chs i "receive (?chs ! i)"] by (auto simp: channels_ok_def list_all_iff)
  then show ?thesis using True by (simp add: channels_ok_def list_all_iff cp_receive_def)
qed (simp add: cp_receive_def assms)

definition demo_provider :: IOChannelProvider where
  "demo_provider = cp_receive 0 (snd (cp_GetOutputDataChannel (snd (cp_GetOutputDataChannel
     \<lparr>cp_in = VInt16 1, cp_Tout = TStruct ''out'' [(\<lparr>field_name = ''n'', pack_tag = [], index_tag = NoIndex, gologix_tag = None\<rparr>, TInt16)],
      cp_outChannels = []\<rparr>))))"

definition demo_output :: "CIPItem list" where
  "demo_output = [item_Write (put32 9 @ put32 1) (empty_item cipItem_SequenceAddress),
     item_Write (put32 1 @ put16 1 @ [5, 0]) (empty_item cipItem_ConnectedData)]"

theorem output_reaches_waiting_prefix_witness:
  "\<exists>e v p'. cp_IOWrite demo_output demo_provider = (Inl e, p') \<and> map history (cp_outChannels p') = [[v], []]"
proof -
  have p: "cp_outChannels demo_provider = [(make_chan 0)\<lparr>ch_waiting := True\<rparr>, make_chan 0]"
    "cp_Tout demo_provider = TStruct ''out'' [(\<lparr>field_name = ''n'', pack_tag = [], index_tag = NoIndex, gologix_tag = None\<rparr>, TInt16)]"
    by (simp_all add: demo_provider_def cp_GetOutputDataChannel_def cp_receive_def receive_def make_chan_def)
  have ok: "channels_ok (cp_outChannels demo_provider)"
    by (simp add: p channels_ok_def) (simp add: make_chan_def chan_ok_def)
  have dat: "cp_payload demo_output = Inr [5, 0]" by code_simp
  obtain v where v: "cp_unpack (cp_Tout demo_provider) [5, 0] = Inr v"
  proof -
    have "cp_unpack (cp_Tout demo_provider) [5, 0] = Inr (VStruct ''out''
      [(\<lparr>field_name = ''n'', pack_tag = [], index_tag = NoIndex, gologix_tag = None\<rparr>, VInt16 5)])"
      unfolding p by code_simp
    then show ?thesis using that by blast
  qed
  have k: "length (takeWhile ch_waiting (cp_outChannels demo_provider)) = 1" by (simp add: p) (simp add: make_chan_def)
  obtain r p' where w: "cp_IOWrite demo_output demo_provider = (r, p')" by (cases "cp_IOWrite demo_output demo_provider")
  have "r \<noteq> Inr () \<and> map history (cp_outChannels p') = [[v], []]"
    using output_reaches_waiting_prefix[OF ok dat v k[symmetric] w] by (simp add: p) (simp add: make_chan_def history_def)
  with w show ?thesis by (cases r) auto
qed

end
