(* ===== verification/Request_Frame.thy ===== *)
theory Request_Frame
  imports Client_Discovery
begin

text \<open>
  What requests leave alone.  A relation between the client before and after that holds across every exchange with the
  controller, and does not look at the tables a discovery fills, holds across whole requests and listings.  The keep-alive
  goroutine relies on it.
\<close>

section \<open>Relations kept by requests\<close>

text \<open>The contract: a preorder that the exchange of one message and the bookkeeping of the client keep.\<close>

locale client_frame =
  fixes rel :: "Client \<Rightarrow> Client \<Rightarrow> bool"
  assumes rel_refl: "rel c c"
    and rel_trans: "rel c c1 \<Longrightarrow> rel c1 c2 \<Longrightarrow> rel c c2"
    and rel_exchange: "rel c (snd (send_recv_data cmd msg c))"
    and rel_counters: "rel c (c\<lparr>c_sequenceValue := a\<rparr>)" "rel c (c\<lparr>c_sequenceNumber := b\<rparr>)"
    and rel_tables: "rel c (c\<lparr>c_KnownTags := tags\<rparr>)" "rel c (c\<lparr>c_KnownTypes := types\<rparr>)"
      "rel c (c\<lparr>c_KnownTypesByID := ids\<rparr>)" "rel c (c\<lparr>c_KnownPrograms := programs\<rparr>)"
begin

definition kept :: "'a cact \<Rightarrow> bool" where
  "kept f \<longleftrightarrow> (\<forall>c. rel c (snd (f c)))"

lemma keptI: "(\<And>c r c'. f c = (r, c') \<Longrightarrow> rel c c') \<Longrightarrow> kept f"
  by (metis kept_def prod.collapse)

lemma keptD: "kept f \<Longrightarrow> f c = (r, c') \<Longrightarrow> rel c c'"
  by (metis kept_def snd_conv)

lemma kept_cret: "kept (cret x)"
  by (simp add: kept_def cret_def rel_refl)

lemma kept_cfail: "kept (cfail e)"
  by (simp add: kept_def cfail_def rel_refl)

lemma kept_cbind: "kept f \<Longrightarrow> (\<And>x. kept (g x)) \<Longrightarrow> kept (cbind f g)"
  by (rule keptI) (auto simp: cbind_def split: sum.splits prod.splits dest: keptD intro: rel_trans)

lemma kept_cwrap: "kept f \<Longrightarrow> (\<And>x. kept (g x)) \<Longrightarrow> kept (cwrap m f g)"
  by (rule keptI) (auto simp: cwrap_def split: sum.splits prod.splits dest: keptD intro: rel_trans)

lemma kept_cneed: "(\<And>x. r = Inr x \<Longrightarrow> kept (g x)) \<Longrightarrow> kept (cneed m r g)"
  by (cases r) (auto intro!: kept_cfail)

lemma kept_cres: "(\<And>x. r = Inr x \<Longrightarrow> kept (g x)) \<Longrightarrow> kept (cres r g)"
  by (cases r) (auto intro!: kept_cfail)

lemma kept_send_unit: "kept (send_unit it)"
  by (simp add: kept_def send_unit_def rel_exchange)

lemma kept_next_sequence: "kept next_sequence"
  by (simp add: kept_def next_sequence_def Let_def split_beta rel_counters)

lemmas kept_intros = kept_cret kept_cfail kept_cbind kept_cwrap kept_cneed kept_cres kept_send_unit kept_next_sequence

lemma kept_after: "kept f \<Longrightarrow> rel c c0 \<Longrightarrow> rel c (snd (f c0))"
  by (auto simp: kept_def intro: rel_trans)

section \<open>Requests\<close>

lemma kept_GetAttrList: "kept (GetAttrList cls i attrs)"
proof (rule keptI)
  fix c r c' assume run: "GetAttrList cls i attrs c = (r, c')"
  define f where "f = cbind (send_unit (item_Write ((CIPClass_Bytes cls @ CIPInstance_Bytes i) @ put16 (of_nat (length attrs)) @ concat (map put16 attrs))
        (item_Write (msgCIPConnectedServiceReq (ucast (c_sequenceNumber c + 1)) CIPService_GetAttributeList
           (of_nat (length (CIPClass_Bytes cls @ CIPInstance_Bytes i) div 2))) (empty_item cipItem_ConnectedData)))) (\<lambda>(_, data).
     cres (read_full 6 data) (\<lambda>(_, r).
     cres (readItems r) (\<lambda>(items, _).
     cres (item1 items) (\<lambda>it.
     cneed ''couldn't read response header'' (item_ReadFull 6 it) (\<lambda>(x, it1).
     if fld16 4 x \<noteq> ucast CIPStatus_OK then cfail (Msg ''response header has status'')
     else cres (item_Int16 it1) (\<lambda>(_, it2). cret it2))))))"
  have "kept f" unfolding f_def by (auto intro!: kept_intros split: prod.split)
  from kept_after [OF this rel_counters(2)] run show "rel c c'"
    unfolding GetAttrList_def Let_def f_def [symmetric] by (metis snd_conv)
qed

lemma kept_GenericCIPMessage: "kept (GenericCIPMessage service path msg)"
  unfolding GenericCIPMessage_def by (auto intro!: kept_intros split: prod.split)

lemma kept_symbols_request: "kept (symbols_request scope start)"
  unfolding symbols_request_def by (auto intro!: kept_intros split: prod.split)

section \<open>Templates and listings\<close>

lemma kept_GetTemplateInstanceAttr: "kept (GetTemplateInstanceAttr i)"
  unfolding GetTemplateInstanceAttr_def by (auto intro!: kept_intros split: prod.split)

lemma kept_collect: "kept (collectMemberReadPayload n (requestMemberReadChunk i))"
proof -
  have "kept (requestMemberReadChunk i off len)" for off len
    unfolding requestMemberReadChunk_def by (auto intro!: kept_intros split: prod.split)
  then have "kept (member_rounds left n (requestMemberReadChunk i) off payload)" for left off payload
    by (induction left arbitrary: off payload) (auto simp: Let_def intro!: kept_intros split: prod.split)
  then show ?thesis by (auto simp: collectMemberReadPayload_def intro!: kept_intros)
qed

lemma kept_try_lookup: "kept f \<Longrightarrow> kept (try_lookup f)"
  by (rule keptI) (auto simp: try_lookup_def split: sum.splits prod.splits if_splits dest: keptD)

lemma kept_parse_members:
  assumes "\<And>i. kept (rec i)"
  shows "kept (parse_members rec i info payload)"
proof -
  have "kept (read_members rec ms r)" for ms r
    using assms by (induction ms arbitrary: r) (auto simp: Let_def split_beta intro!: kept_intros kept_try_lookup)
  then show ?thesis unfolding parse_members_def Let_def by (auto simp: split_beta intro!: kept_intros)
qed

lemma kept_ListMembers: "kept (ListMembers fuel i)"
proof (induction fuel arbitrary: i)
  case (Suc fuel)
  have enter: "kept (\<lambda>c :: Client. (Inr d, c\<lparr>c_KnownTypesByID := (c_KnownTypesByID c)(i \<mapsto> d)\<rparr>))" for d :: UDTDescriptor
    by (simp add: kept_def rel_tables)
  define f where "f = cwrap ''couldn't get template info'' (GetTemplateInstanceAttr i) (\<lambda>template_info.
            let totalBytes = ta_SizeWords template_info * 4 in
            if totalBytes < 20 then cfail (Msg ''template size too small for member read'')
            else
              cwrap ''couldn't read fragmented member payload''
                (collectMemberReadPayload (totalBytes - 20) (requestMemberReadChunk i)) (\<lambda>payload.
              cbind (parse_members (ListMembers fuel) i template_info payload) (\<lambda>descriptor c.
              (Inr descriptor, c\<lparr>c_KnownTypesByID := (c_KnownTypesByID c)(i \<mapsto> descriptor)\<rparr>))))"
  have "kept f"
    unfolding f_def Let_def
    by (auto intro!: kept_intros kept_GetTemplateInstanceAttr kept_collect kept_parse_members Suc enter)
  then show ?case
    by (simp add: kept_def list_members_with_def f_def [symmetric] cret_def rel_refl split: option.split)
qed (simp add: kept_cfail)

lemma kept_each_symbol: "(\<And>e. kept (f e)) \<Longrightarrow> kept (each_symbol m f r last_instance)"
proof (induction m f r last_instance rule: each_symbol.induct)
  case (1 m f r l)
  show ?case using 1 by (subst each_symbol.simps) (auto intro!: kept_intros)
qed

lemma kept_enter_tag: "kept (enter_tag n kt)"
proof -
  have "rel c (c\<lparr>c_KnownTypes := t, c_KnownTags := u\<rparr>)" for c t u
    using rel_trans [OF rel_tables(2) rel_tables(1)] by simp
  then have "kept (\<lambda>c. let kt' = kt\<lparr>kt_UDT := u\<rparr>;
             c' = (case u of None \<Rightarrow> c | Some d \<Rightarrow> c\<lparr>c_KnownTypes := (c_KnownTypes c)(ud_Name d \<mapsto> d)\<rparr>) in
         (Inr kt', c'\<lparr>c_KnownTags := (c_KnownTags c')(strings_ToLower (kt_Name kt) \<mapsto> kt')\<rparr>))" for u
    by (simp add: kept_def Let_def rel_tables split: option.split)
  then show ?thesis unfolding enter_tag_def
    by (intro kept_cbind) (auto intro!: kept_intros kept_try_lookup kept_ListMembers)
qed

lemma kept_ListSubTags: "kept (ListSubTags fuel p start)"
proof (induction fuel arbitrary: start)
  case (Suc fuel)
  show ?case
    unfolding ListSubTags.simps Let_def
    by (auto intro!: kept_intros kept_symbols_request kept_each_symbol kept_enter_tag Suc simp: flat_def split: sum.split)
qed (simp add: kept_cfail)

lemma kept_list_programs: "kept (list_programs fuel order)"
proof (rule keptI)
  fix c r c' assume run: "list_programs fuel order c = (r, c')"
  obtain q c1 where q: "ListAllPrograms c = (q, c1)" by force
  have "kept (\<lambda>c. (Inr (), c\<lparr>c_KnownPrograms := results\<rparr>))" for results
    by (simp add: kept_def rel_tables)
  then have "kept ListAllPrograms"
    unfolding ListAllPrograms_def by (auto intro!: kept_intros kept_GenericCIPMessage)
  from keptD [OF this q] have c1: "rel c c1" .
  have subs: "kept (cbind (sub_tags_of fuel ps) (\<lambda>_. cret False))" for ps
  proof -
    have "kept (sub_tags_of fuel ps)" by (induction ps) (auto intro!: kept_intros kept_ListSubTags)
    then show ?thesis by (intro kept_intros)
  qed
  show "rel c c'"
  proof (cases q)
    case (Inl e)
    then show ?thesis using run q c1 rel_trans [OF c1 rel_tables(4)] by (auto simp: list_programs_def split: if_splits)
  next
    case (Inr u)
    then show ?thesis using run q rel_trans [OF c1 keptD [OF subs]] by (auto simp: list_programs_def)
  qed
qed

lemma kept_enter_symbol: "kept (enter_symbol n fallback e)"
proof -
  have "kept (enter_program n name)" for name
  proof (rule keptI)
    fix c r c' assume run: "enter_program n name c = (r, c')"
    have "kept (cwrap ''problem listing sub tags'' (ListSubTags n p 1) (\<lambda>_. cret ()))" for p
      by (intro kept_intros kept_ListSubTags)
    from kept_after [OF this rel_tables(4)] run show "rel c c'" unfolding enter_program_def Let_def by (metis snd_conv)
  qed
  then show ?thesis unfolding enter_symbol_def Let_def by (auto intro!: kept_intros kept_enter_tag)
qed

lemma kept_ListAllTags: "kept (ListAllTags fuel order start)"
proof (induction fuel arbitrary: start)
  case (Suc fuel)
  show ?case
    unfolding ListAllTags.simps Let_def
    by (auto intro!: kept_intros kept_symbols_request kept_list_programs kept_each_symbol kept_enter_symbol Suc)
qed (simp add: kept_cfail)

end

end
