(* ===== verification/Keep_Alive.thy ===== *)
theory Keep_Alive
  imports Request_Frame
begin

text \<open>
  The keep-alive goroutine: \<^verbatim>\<open>KeepAlive\<close> of \<^verbatim>\<open>connect.go\<close> with \<^verbatim>\<open>Disconnect\<close> and \<^verbatim>\<open>KeepAliveCancel\<close> of
  \<^verbatim>\<open>disconnect.go\<close>, which end it through a channel.  The goroutines, of which there may be several, and all other users of
  the client take steps in any order; a step is a whole request or listing.
\<close>

section \<open>The goroutine\<close>

text \<open>
  The properties watched and whether a change makes the client list its tags again; then the depth of the stack and the order of
  the loop over a map, for the listing.
\<close>

record ka_config =
  kc_Props :: "cip_attribute list"
  kc_PollTags :: bool
  kc_depth :: nat
  kc_order :: "(string \<times> KnownProgram) list \<Rightarrow> (string \<times> KnownProgram) list"

definition ka_properties :: "ka_config \<Rightarrow> CIPItem cact" where
  "ka_properties cfg = GetAttrList CipObject_ControllerInfo 1 (kc_Props cfg)"

definition ka_list :: "ka_config \<Rightarrow> unit cact" where
  "ka_list cfg = ListAllTags (kc_depth cfg) (kc_order cfg) 0"

text \<open>The deferred call.\<close>

definition ka_exit :: "Client \<Rightarrow> Client" where
  "ka_exit c = c\<lparr>c_keepAliveRunning := False\<rparr>"

text \<open>A result: the properties to compare with in the next round, nothing where the goroutine has returned, or a panic.\<close>

definition ka_return :: "gerror \<Rightarrow> Client \<Rightarrow> bytes option res \<times> Client" where
  "ka_return e c = (if is_panic e then Inl e else Inr None, ka_exit c)"

definition ka_willing :: "Client \<Rightarrow> bool" where
  "ka_willing c \<longleftrightarrow> c_KeepAliveAutoStart c \<and> c_SocketTimeout c \<noteq> 0"

text \<open>Up to the loop.\<close>

definition ka_begin :: "ka_config \<Rightarrow> Client \<Rightarrow> bytes option res \<times> Client" where
  "ka_begin cfg c =
     (if \<not> ka_willing c then (Inr None, c)
      else
        (case ka_properties cfg (c\<lparr>c_cancel := OpenChan, c_keepAliveRunning := True\<rparr>) of
           (Inl e, c1) \<Rightarrow> ka_return e c1
         | (Inr originalProps, c1) \<Rightarrow>
             if kc_PollTags cfg then
               (case ka_list cfg c1 of
                  (Inl e, c2) \<Rightarrow> ka_return e c2
                | (Inr _, c2) \<Rightarrow> (Inr (Some (unread originalProps)), c2))
             else (Inr (Some (unread originalProps)), c1)))"

text \<open>A round in which the ticker is received from.\<close>

definition ka_tick :: "ka_config \<Rightarrow> bytes \<Rightarrow> Client \<Rightarrow> bytes option res \<times> Client" where
  "ka_tick cfg originalProps c =
     (if \<not> c_Connected c then (Inr None, ka_exit c)
      else
        (case ka_properties cfg c of
           (Inl e, c1) \<Rightarrow>
             if is_panic e then ka_return e c1
             else (case Disconnect c1 of
                     (Inl e2, c2) \<Rightarrow> ka_return e2 c2
                   | (Inr _, c2) \<Rightarrow> (Inr None, ka_exit c2))
         | (Inr newProps, c1) \<Rightarrow>
             if unread newProps \<noteq> originalProps then
               (if kc_PollTags cfg then
                  (case ka_list cfg c1 of
                     (Inl e, c2) \<Rightarrow> ka_return e c2
                   | (Inr _, c2) \<Rightarrow> (Inr (Some (unread newProps)), c2))
                else (Inr (Some (unread newProps)), c1))
             else (Inr (Some originalProps), c1)))"

text \<open>A round in which the cancel channel is found closed.\<close>

definition ka_cancelled :: "Client \<Rightarrow> Client" where
  "ka_cancelled c = ka_exit (c\<lparr>c_KeepAliveAutoStart := False\<rparr>)"

section \<open>What others do to the flag and the channel\<close>

text \<open>
  The rest of the library does not touch the flag and at most closes the channel.  That it is only closed when open is the
  runtime's check: anything else panics.
\<close>

definition other_use :: "Client \<Rightarrow> Client \<Rightarrow> bool" where
  "other_use c c' \<longleftrightarrow>
     c_keepAliveRunning c' = c_keepAliveRunning c \<and>
     (c_cancel c' = c_cancel c \<or> c_cancel c = OpenChan \<and> c_cancel c' = ClosedChan)"

lemma other_use_refl [simp]: "other_use c c"
  by (simp add: other_use_def)

lemma other_use_trans: "other_use c c1 \<Longrightarrow> other_use c1 c2 \<Longrightarrow> other_use c c2"
  by (auto simp: other_use_def)

lemma exchange_other_use: "other_use c (snd (exchange cmd msg c))"
  by (auto simp: other_use_def exchange_def sendMsgBuild_def c_newEIPHeader_def sendData_def recvData_def Let_def
      split: list.splits option.splits sum.splits prod.splits)

lemma stop_keepalive_other_use: "startDisconnect c = Inr c1 \<Longrightarrow> stop_keepalive c1 = Inr c2 \<Longrightarrow> other_use c c2"
  by (auto simp: other_use_def startDisconnect_def stop_keepalive_def split: connectionStatus.splits cancel_chan.splits if_splits)

lemma startDisconnect_other_use: "startDisconnect c = Inr c1 \<Longrightarrow> other_use c c1"
  by (auto simp: other_use_def startDisconnect_def split: connectionStatus.splits)

lemma status_other_use [simp]:
  "other_use c (c'\<lparr>c_connStatus := st\<rparr>) = other_use c c'" "other_use c (closed c') = other_use c c'"
  by (simp_all add: other_use_def closed_def)

lemma send_recv_other_use:
  "other_use c (snd (send_recv_data cmd msg c))"
  "other_use c (snd (Disconnect c))"
proof (induction cmd msg c and c rule: send_recv_data_Disconnect.induct)
  case (1 cmd msg c)
  then show ?case
    using exchange_other_use [of c cmd msg]
    by (auto simp: send_recv_data.simps split: sum.splits prod.splits intro: other_use_trans)
next
  case (2 c)
  have "other_use c c3"
    if "startDisconnect c = Inr c1" "stop_keepalive c1 = Inr c2" "c_connStatus c \<noteq> Connecting"
      "send_recv_data cipCommandSendRRData (disconnect_request c2) c2 = (r, c3)" for c1 c2 c3 r
    using 2 [OF that(1-3)] that(4) other_use_trans [OF stop_keepalive_other_use [OF that(1,2)]] by (metis snd_conv)
  then show ?case
    using stop_keepalive_other_use [of c] startDisconnect_other_use [of c]
    by (auto simp: Disconnect.simps split: sum.splits prod.splits)
qed

interpretation channel: client_frame other_use
proof
  fix c c1 c2 :: Client and cmd msg
  show "other_use c (snd (send_recv_data cmd msg c))" by (rule send_recv_other_use)
  show "other_use c c1 \<Longrightarrow> other_use c1 c2 \<Longrightarrow> other_use c c2" by (rule other_use_trans)
qed (simp_all add: other_use_def)

lemma ka_requests_other_use:
  "ka_properties cfg c = (r, c') \<Longrightarrow> other_use c c'"
  "ka_list cfg c = (r', c') \<Longrightarrow> other_use c c'"
  using channel.keptD [OF channel.kept_GetAttrList] channel.keptD [OF channel.kept_ListAllTags]
  by (auto simp: ka_properties_def ka_list_def)

lemma KeepAliveCancel_other_use: "KeepAliveCancel force c = Inr c' \<Longrightarrow> other_use c c'"
  by (auto simp: KeepAliveCancel_def other_use_def split: if_splits cancel_chan.splits)

lemma c_forwardOpen_other_use: "c_forwardOpen it c = (r, c') \<Longrightarrow> other_use c c'"
  using send_recv_other_use(1) [of c cipCommandSendRRData "serializeItems [empty_item cipItem_Null, it]"]
  by (auto simp: c_forwardOpen_def other_use_def split: sum.splits prod.splits)

lemma new_forward_open_other_use:
  "newForwardOpenLarge c = Some (it, c') \<Longrightarrow> other_use c c'" "newForwardOpenStandard c = Some (it, c') \<Longrightarrow> other_use c c'"
  by (auto simp: newForwardOpenLarge_def newForwardOpenStandard_def take_ids_def other_use_def Let_def
      split: option.splits prod.splits if_splits)

lemma open_large_other_use: "open_large c = (r, c') \<Longrightarrow> other_use c c'"
proof -
  assume run: "open_large c = (r, c')"
  show ?thesis
  proof (cases "c_ConnectionSize c > connSizeStandardMax \<and> newForwardOpenLarge c \<noteq> None")
    case True
    then obtain it c1 where f: "newForwardOpenLarge c = Some (it, c1)" by auto
    obtain q c2 where q: "c_forwardOpen it c1 = (q, c2)" by force
    have "c' = c2 \<or> c' = c2\<lparr>c_ConnectionSize := connSizeStandardDefault\<rparr>"
      using run True f q by (auto simp: open_large_def split: sum.splits if_splits)
    moreover have "other_use c c2"
      by (rule other_use_trans [OF new_forward_open_other_use(1) [OF f] c_forwardOpen_other_use [OF q]])
    ultimately show ?thesis by (auto simp: other_use_def)
  next
    case False
    then show ?thesis using run by (auto simp: open_large_def split: if_splits option.splits)
  qed
qed

lemma open_standard_other_use: "open_standard c = (r, c') \<Longrightarrow> other_use c c'"
  using other_use_trans [OF new_forward_open_other_use(2) c_forwardOpen_other_use]
  by (auto simp: open_standard_def split: option.splits if_splits)

lemma open_session_other_use:
  assumes "open_session dial c = (r, c')"
  shows "other_use c c'"
proof (cases dial)
  case True
  obtain q c1 where q: "c_registerSession (c\<lparr>c_conn := True, c_socket := []\<rparr>) = (q, c1)" by force
  let ?c0 = "c\<lparr>c_conn := True, c_socket := []\<rparr>"
  have reg: "other_use c c1"
    using send_recv_other_use(1) [of ?c0 cipCommandRegisterSession "put16 1 @ put16 0"] q
    by (auto simp: c_registerSession_def other_use_def split: sum.splits prod.splits)
  obtain q2 c2 where q2: "open_large c1 = (q2, c2)" by force
  have "c' = c1 \<or> c' = c2 \<or> open_standard c2 = (r, c')"
    using assms True q q2 by (auto simp: open_session_def split: sum.splits)
  then show ?thesis
    using reg other_use_trans [OF reg open_large_other_use [OF q2]] open_standard_other_use other_use_trans by blast
next
  case False
  then show ?thesis using assms by (auto simp: open_session_def other_use_def)
qed

lemma Connect_other_use: "other_use c (snd (Connect dial now c))"
proof (cases "startConnect c")
  case (Inr c1)
  then have c1: "other_use c (connect_defaults now c1)"
    by (auto simp: startConnect_def connect_defaults_def other_use_def split: connectionStatus.splits)
  obtain q c2 where q: "open_session dial (connect_defaults now c1) = (q, c2)" by force
  have "other_use c c2" by (rule other_use_trans [OF c1 open_session_other_use [OF q]])
  then show ?thesis using Inr q by (simp add: Connect_def split: sum.split)
qed (simp add: Connect_def)

end
