(* ===== verification/Keep_Alive_Runs.thy ===== *)
theory Keep_Alive_Runs
  imports Keep_Alive Data_Table_Reads
begin

text \<open>
  Runs of keep-alive goroutines beside other users of the client: what holds while there is one at a time, that closing the
  connection ends it, and what its rounds do when the controller answers or stops answering.
\<close>

section \<open>Goroutines and channels\<close>

text \<open>
  A goroutine between two rounds waits for the ticker and for the channel that the client had when the round began; every start
  makes a new channel.  Channels have numbers: those before the client's own are in \<open>ks_old\<close>.
\<close>

record ka_loop =
  ka_chan :: nat
  ka_last :: bytes

record ka_system =
  ks_client :: Client
  ks_old :: "cancel_chan list"
  ks_loops :: "ka_loop list"

abbreviation ks_current :: "ka_system \<Rightarrow> nat" where
  "ks_current s \<equiv> length (ks_old s)"

definition chan_status :: "ka_system \<Rightarrow> nat \<Rightarrow> cancel_chan" where
  "chan_status s i =
     (if i < ks_current s then ks_old s ! i else if i = ks_current s then c_cancel (ks_client s) else NilChan)"

definition after_begin :: "ka_system \<Rightarrow> bytes option \<Rightarrow> Client \<Rightarrow> ka_system" where
  "after_begin s r c' =
     s\<lparr>ks_client := c',
       ks_old := ks_old s @ (if ka_willing (ks_client s) then [c_cancel (ks_client s)] else []),
       ks_loops := ks_loops s @ (case r of None \<Rightarrow> [] | Some p \<Rightarrow> [\<lparr>ka_chan = Suc (ks_current s), ka_last = p\<rparr>])\<rparr>"

definition after_round :: "nat \<Rightarrow> ka_system \<Rightarrow> bytes option \<Rightarrow> Client \<Rightarrow> ka_system" where
  "after_round i s r c' =
     s\<lparr>ks_client := c',
       ks_loops := (case r of
          None \<Rightarrow> take i (ks_loops s) @ drop (Suc i) (ks_loops s)
        | Some p \<Rightarrow> (ks_loops s)[i := \<lparr>ka_chan = ks_current s, ka_last = p\<rparr>])\<rparr>"

text \<open>
  Steps that do not panic.  \<open>alone\<close> is the discipline that \<^verbatim>\<open>KeepAlive\<close> is not called while one runs; the code only warns.
\<close>

inductive ka_step :: "ka_config \<Rightarrow> bool \<Rightarrow> ka_system \<Rightarrow> ka_system \<Rightarrow> bool" for cfg alone where
  starts: "(alone \<longrightarrow> ks_loops s = []) \<Longrightarrow> ka_begin cfg (ks_client s) = (Inr r, c') \<Longrightarrow> ka_step cfg alone s (after_begin s r c')"
| ticks: "i < length (ks_loops s) \<Longrightarrow> ka_tick cfg (ka_last (ks_loops s ! i)) (ks_client s) = (Inr r, c') \<Longrightarrow>
    ka_step cfg alone s (after_round i s r c')"
| cancels: "i < length (ks_loops s) \<Longrightarrow> chan_status s (ka_chan (ks_loops s ! i)) = ClosedChan \<Longrightarrow>
    ka_step cfg alone s (after_round i s None (ka_cancelled (ks_client s)))"
| elsewhere: "other_use (ks_client s) c' \<Longrightarrow> ka_step cfg alone s (s\<lparr>ks_client := c'\<rparr>)"

lemma ka_return_Inr: "ka_return e c = (Inr r, c') \<longleftrightarrow> \<not> is_panic e \<and> r = None \<and> c' = ka_exit c"
  by (auto simp: ka_return_def)

text \<open>What a start and a round do to the flag and the channel.\<close>

lemma ka_begin_flag:
  assumes "ka_begin cfg c = (Inr r, c')" "ka_willing c"
  obtains c1 where "other_use (c\<lparr>c_cancel := OpenChan, c_keepAliveRunning := True\<rparr>) c1" "c' = (if r = None then ka_exit c1 else c1)"
proof -
  let ?c = "c\<lparr>c_cancel := OpenChan, c_keepAliveRunning := True\<rparr>"
  obtain q c1 where q: "ka_properties cfg ?c = (q, c1)" by force
  obtain q2 c2 where q2: "ka_list cfg c1 = (q2, c2)" by force
  note c1 = ka_requests_other_use(1) [OF q]
  note c2 = other_use_trans [OF c1 ka_requests_other_use(2) [OF q2]]
  have "c' = (if r = None then ka_exit c1 else c1) \<or> c' = (if r = None then ka_exit c2 else c2)"
    using assms q q2 by (cases q; cases q2; cases r) (auto simp: ka_begin_def ka_return_Inr split: if_splits)
  then show thesis using that [OF c1] that [OF c2] by blast
qed

lemma ka_tick_flag:
  assumes "ka_tick cfg p c = (Inr r, c')"
  obtains c1 where "other_use c c1" "c' = (if r = None then ka_exit c1 else c1)"
proof -
  obtain q c1 where q: "ka_properties cfg c = (q, c1)" by force
  obtain q2 c2 where q2: "ka_list cfg c1 = (q2, c2)" by force
  obtain q3 c3 where q3: "Disconnect c1 = (q3, c3)" by force
  note c1 = ka_requests_other_use(1) [OF q]
  note c2 = other_use_trans [OF c1 ka_requests_other_use(2) [OF q2]]
  have c3: "other_use c c3" using other_use_trans [OF c1 send_recv_other_use(2) [of c1]] q3 by simp
  have "c' = (if r = None then ka_exit c else c) \<or> c' = (if r = None then ka_exit c1 else c1) \<or>
    c' = (if r = None then ka_exit c2 else c2) \<or> c' = (if r = None then ka_exit c3 else c3)"
    using assms q q2 q3 by (cases q; cases q2; cases q3; cases r) (auto simp: ka_tick_def ka_return_Inr split: if_splits)
  then show thesis using that [OF c1] that [OF c2] that [OF c3] that [OF other_use_refl] by blast
qed

section \<open>One goroutine at a time\<close>

definition ka_inv :: "ka_system \<Rightarrow> bool" where
  "ka_inv s \<longleftrightarrow>
     c_keepAliveRunning (ks_client s) = (ks_loops s \<noteq> []) \<and> length (ks_loops s) \<le> 1 \<and>
     list_all (\<lambda>l. ka_chan l = ks_current s \<and> c_cancel (ks_client s) \<noteq> NilChan) (ks_loops s)"

lemma ka_exit_sel [simp]: "c_keepAliveRunning (ka_exit c) = False" "c_cancel (ka_exit c) = c_cancel c"
  "c_connStatus (ka_exit c) = c_connStatus c"
  by (simp_all add: ka_exit_def)

lemma ka_cancelled_sel [simp]: "c_keepAliveRunning (ka_cancelled c) = False" "c_cancel (ka_cancelled c) = c_cancel c"
  "c_KeepAliveAutoStart (ka_cancelled c) = False"
  by (simp_all add: ka_cancelled_def ka_exit_def)

lemma ka_step_inv:
  assumes "ka_step cfg True s s'" "ka_inv s"
  shows "ka_inv s'"
  using assms
proof cases
  case (starts r c')
  then have none: "ks_loops s = []" by simp
  show ?thesis
  proof (cases "ka_willing (ks_client s)")
    case True
    from ka_begin_flag [OF starts(3) True] obtain c1
      where "other_use ((ks_client s)\<lparr>c_cancel := OpenChan, c_keepAliveRunning := True\<rparr>) c1" "c' = (if r = None then ka_exit c1 else c1)" .
    then show ?thesis using starts(1) none True
      by (auto simp: ka_inv_def after_begin_def other_use_def split: option.splits)
  next
    case False
    then have "r = None" "c' = ks_client s" using starts(3) by (simp_all add: ka_begin_def)
    then show ?thesis using assms(2) starts(1) none False by (simp add: ka_inv_def after_begin_def)
  qed
next
  case (ticks i r c')
  then obtain l where l: "ks_loops s = [l]" "i = 0" using assms(2) by (cases "ks_loops s") (auto simp: ka_inv_def)
  obtain c1 where "other_use (ks_client s) c1" "c' = (if r = None then ka_exit c1 else c1)"
    using ka_tick_flag [OF ticks(3)] .
  then show ?thesis using ticks(1) l assms(2)
    by (auto simp: ka_inv_def after_round_def other_use_def split: option.splits)
next
  case (cancels i)
  then obtain l where l: "ks_loops s = [l]" "i = 0" using assms(2) by (cases "ks_loops s") (auto simp: ka_inv_def)
  then show ?thesis using cancels(1) by (simp add: ka_inv_def after_round_def)
next
  case (elsewhere c')
  then show ?thesis using assms(2) by (auto simp: ka_inv_def other_use_def list_all_iff)
qed

lemma ka_reach_inv: "(ka_step cfg True)\<^sup>*\<^sup>* s s' \<Longrightarrow> ka_inv s \<Longrightarrow> ka_inv s'"
  by (induction rule: rtranclp_induct) (auto intro: ka_step_inv)

section \<open>A closed channel stays closed\<close>

lemma ka_step_closed:
  assumes "ka_step cfg alone s s'" "i \<le> ks_current s" "chan_status s i = ClosedChan"
  shows "i \<le> ks_current s' \<and> chan_status s' i = ClosedChan"
  using assms(1)
proof cases
  case (starts r c')
  show ?thesis
  proof (cases "ka_willing (ks_client s)")
    case True
    then show ?thesis using starts(1) assms(2,3) by (auto simp: chan_status_def after_begin_def nth_append split: if_splits)
  next
    case False
    then have "c' = ks_client s" using starts(3) by (simp add: ka_begin_def)
    then show ?thesis using starts(1) False assms(2,3) by (auto simp: chan_status_def after_begin_def nth_append split: if_splits)
  qed
next
  case (ticks j r c')
  obtain c1 where "other_use (ks_client s) c1" "c' = (if r = None then ka_exit c1 else c1)"
    using ka_tick_flag [OF ticks(3)] .
  then show ?thesis using ticks(1) assms(2,3) by (auto simp: chan_status_def after_round_def other_use_def split: if_splits)
qed (use assms(2,3) in \<open>auto simp: chan_status_def after_round_def other_use_def split: if_splits\<close>)

lemma ka_reach_closed:
  "(ka_step cfg alone)\<^sup>*\<^sup>* s s' \<Longrightarrow> i \<le> ks_current s \<Longrightarrow> chan_status s i = ClosedChan \<Longrightarrow>
   i \<le> ks_current s' \<and> chan_status s' i = ClosedChan"
  by (induction rule: rtranclp_induct) (auto dest: ka_step_closed)

section \<open>The end of a goroutine\<close>

lemma Disconnect_closes_channel:
  assumes "c_connStatus c \<in> {Connected, Connecting}" "c_keepAliveRunning c" "c_cancel c = OpenChan"
  shows "c_cancel (snd (Disconnect c)) = ClosedChan"
proof -
  let ?c1 = "c\<lparr>c_connStatus := Disconnecting\<rparr>" and ?c2 = "c\<lparr>c_connStatus := Disconnecting, c_cancel := ClosedChan\<rparr>"
  have s: "startDisconnect c = Inr ?c1" using assms(1) by (auto simp: startDisconnect_def)
  have k: "stop_keepalive ?c1 = Inr ?c2" using assms(2,3) by (simp add: stop_keepalive_def)
  have "other_use ?c2 (snd (send_recv_data cipCommandSendRRData (disconnect_request ?c2) ?c2))"
    by (rule send_recv_other_use)
  then show ?thesis using s k by (auto simp: Disconnect.simps closed_def other_use_def split: sum.splits prod.splits)
qed

lemma chan_status_current: "chan_status s (ks_current s) = c_cancel (ks_client s)"
  by (simp add: chan_status_def)

text \<open>
  C37.  While \<^verbatim>\<open>KeepAlive\<close> is not called beside a running one, the flag \<^verbatim>\<open>keepAliveRunning\<close> says at every moment whether a
  goroutine runs, there is at most one, and it waits for the channel that \<^verbatim>\<open>Disconnect\<close> would close; so \<^verbatim>\<open>Disconnect\<close> on a
  connection in use succeeds and closes this very channel, unless somebody has closed it already.
\<close>

theorem keepalive_flag_is_true:
  assumes "ks_loops s0 = []" and "\<not> c_keepAliveRunning (ks_client s0)" and "(ka_step cfg True)\<^sup>*\<^sup>* s0 s"
  shows "c_keepAliveRunning (ks_client s) = (ks_loops s \<noteq> []) \<and> length (ks_loops s) \<le> 1 \<and>
    (\<forall>l \<in> set (ks_loops s). ka_chan l = length (ks_old s) \<and>
       (c_connStatus (ks_client s) \<in> {Connected, Connecting} \<and> c_cancel (ks_client s) \<noteq> ClosedChan \<longrightarrow>
          fst (Disconnect (ks_client s)) = Inr () \<and> c_cancel (snd (Disconnect (ks_client s))) = ClosedChan))"
proof -
  have inv: "ka_inv s" using ka_reach_inv [OF assms(3)] assms(1,2) by (simp add: ka_inv_def)
  have "ka_chan l = ks_current s \<and>
    (c_connStatus (ks_client s) \<in> {Connected, Connecting} \<and> c_cancel (ks_client s) \<noteq> ClosedChan \<longrightarrow>
       fst (Disconnect (ks_client s)) = Inr () \<and> c_cancel (snd (Disconnect (ks_client s))) = ClosedChan)"
    if "l \<in> set (ks_loops s)" for l
  proof (intro conjI impI)
    have l: "ka_chan l = ks_current s" "c_cancel (ks_client s) \<noteq> NilChan" "c_keepAliveRunning (ks_client s)"
      using inv that by (auto simp: ka_inv_def list_all_iff)
    then show "ka_chan l = ks_current s" by simp
    assume c: "c_connStatus (ks_client s) \<in> {Connected, Connecting} \<and> c_cancel (ks_client s) \<noteq> ClosedChan"
    with l have open_chan: "c_cancel (ks_client s) = OpenChan" by (cases "c_cancel (ks_client s)") simp_all
    show "fst (Disconnect (ks_client s)) = Inr ()"
      using Disconnect_active [OF conjunct1 [OF c]] open_chan by simp
    show "c_cancel (snd (Disconnect (ks_client s))) = ClosedChan"
      by (rule Disconnect_closes_channel [OF conjunct1 [OF c] l(3) open_chan])
  qed
  with inv show ?thesis unfolding ka_inv_def by blast
qed


text \<open>
  C39.  \<^verbatim>\<open>KeepAliveCancel\<close> and \<^verbatim>\<open>Disconnect\<close> close the same channel.  After a successful cancellation, as long as the
  goroutine has not taken its last step, disconnecting panics, and so does every request that fails.
\<close>

theorem cancel_then_disconnect_panics:
  assumes "c_connStatus c \<in> {Connected, Connecting}" and "c_keepAliveRunning c" and "KeepAliveCancel force c = Inr c'"
  shows "fst (Disconnect c') = Inl (Panic ''close of closed channel'') \<and>
    (\<forall>cmd msg e. fst (exchange cmd msg c') = Inl e \<longrightarrow> fst (send_recv_data cmd msg c') = Inl (Panic ''close of closed channel''))"
proof -
  have "Disconnect c' = (Inl (Panic ''close of closed channel''), c'\<lparr>c_connStatus := Disconnected\<rparr>)"
    if "c_connStatus c' \<in> {Connected, Connecting}" "c_keepAliveRunning c'" "c_cancel c' = ClosedChan" for c'
    using that by (auto simp: Disconnect.simps startDisconnect_def stop_keepalive_def)
  moreover have c': "c' = c\<lparr>c_cancel := ClosedChan\<rparr>"
    using assms(3) by (auto simp: KeepAliveCancel_def split: if_splits cancel_chan.splits)
  moreover have "c_connStatus d = c_connStatus c'" "c_keepAliveRunning d = c_keepAliveRunning c'" "c_cancel d = ClosedChan"
    if "exchange cmd msg c' = (q, d)" for cmd msg q d
    using exchange_status [of cmd msg c', unfolded that snd_conv] exchange_other_use [of c' cmd msg, unfolded that snd_conv] c'
    by (auto simp: other_use_def)
  ultimately show ?thesis
    using assms(1,2) by (auto simp: send_recv_data.simps split: sum.splits prod.splits)
qed

section \<open>Rounds with a controller that answers\<close>

text \<open>The reply to a request for \<open>n\<close> attributes, and the request.\<close>

definition props_reply :: "eipHeader \<Rightarrow> u32 \<Rightarrow> u16 \<Rightarrow> u16 \<Rightarrow> bytes \<Rightarrow> bytes option" where
  "props_reply hdr i sq n d = Some (eip_frame hdr (connected_reply i (generic_body sq CIPService_GetAttributeList (put16 n @ d))))"

definition props_item :: "ka_config \<Rightarrow> Client \<Rightarrow> CIPItem" where
  "props_item cfg c =
     (let path = CIPClass_Bytes CipObject_ControllerInfo @ CIPInstance_Bytes 1 in
      item_Write (path @ put16 (of_nat (length (kc_Props cfg))) @ concat (map put16 (kc_Props cfg)))
        (item_Write (msgCIPConnectedServiceReq (ucast (c_sequenceNumber c + 1)) CIPService_GetAttributeList (of_nat (length path div 2)))
          (empty_item cipItem_ConnectedData)))"

definition after_poll :: "ka_config \<Rightarrow> Client \<Rightarrow> bytes option list \<Rightarrow> Client" where
  "after_poll cfg c s = c\<lparr>c_sequenceNumber := c_sequenceNumber c + 1, c_HeaderSequenceCounter := c_HeaderSequenceCounter c + 1,
     c_script := s, c_sent := c_sent c @ [unit_request c (props_item cfg c)]\<rparr>"

lemma after_poll_sel [simp]:
  "c_conn (after_poll cfg c s) = c_conn c" "c_socket (after_poll cfg c s) = c_socket c" "c_script (after_poll cfg c s) = s"
  "c_connStatus (after_poll cfg c s) = c_connStatus c" "c_Connected (after_poll cfg c s) = c_Connected c"
  "c_KnownTags (after_poll cfg c s) = c_KnownTags c" "c_sent (after_poll cfg c s) = c_sent c @ [unit_request c (props_item cfg c)]"
  "c_keepAliveRunning (after_poll cfg c s) = c_keepAliveRunning c" "c_cancel (after_poll cfg c s) = c_cancel c"
  by (simp_all add: after_poll_def c_Connected_def)

lemma props_answered:
  assumes "c_conn c" "c_socket c = []" "c_script c = props_reply hdr i sq n d # s" "length d < 64000"
  shows "\<exists>it. ka_properties cfg c = (Inr it, after_poll cfg c s) \<and> unread it = d"
proof -
  let ?b = "generic_body sq CIPService_GetAttributeList (put16 n @ d)" and ?c = "c\<lparr>c_sequenceNumber := c_sequenceNumber c + 1\<rparr>"
  let ?it = "item_Write ?b (empty_item cipItem_ConnectedData)"
  have len: "length ?b < 65536" "length (connected_reply i ?b) < 65536"
    using assms(4) by (simp_all add: length_connected_reply generic_body_def)
  have u: "unit_request ?c it = unit_request c it" for it by (rule unit_request_cong) simp_all
  have run: "send_unit (props_item cfg c) ?c
      = (Inr (hdr\<lparr>eh_Length := of_nat (length (connected_reply i ?b))\<rparr>, connected_reply i ?b), after_poll cfg c s)"
    using send_unit_answered [of ?c hdr "connected_reply i ?b" s "props_item cfg c"] assms(1-3) len(2)
    by (simp add: after_poll_def u props_reply_def)
  have r6: "\<exists>x. read_full 6 (connected_reply i ?b) = Inr (x, csd_skip (connected_reply i ?b))"
    using length_connected_reply [of i ?b] by (auto simp: read_full_def csd_skip_def)
  have h: "item_ReadFull 6 ?it = Inr (take 6 ?b, ?it\<lparr>Pos := 6\<rparr>)"
    by (simp add: item_ReadFull_def item_Read_def generic_body_def item_Write_def empty_item_def)
  have st: "fld16 4 (take 6 ?b) = 0" by (simp add: generic_body_def fld16_def)
  have n: "item_Int16 (?it\<lparr>Pos := 6\<rparr>) = Inr (sint n, ?it\<lparr>Pos := 8\<rparr>)"
    by (simp add: item_Int16_def item_get_def generic_body_def item_Write_def empty_item_def)
  have d: "unread (?it\<lparr>Pos := 8\<rparr>) = d"
    by (simp add: unread_def generic_body_def item_Write_def empty_item_def)
  show ?thesis
    unfolding ka_properties_def GetAttrList_def Let_def
    using run [unfolded props_item_def Let_def] r6 connected_reply_items [OF len(1), of i] h st n d
    by (intro exI [of _ "?it\<lparr>Pos := 8\<rparr>"]) (auto simp: cbind_def item1_def cret_def)
qed

text \<open>Several rounds in a row; the goroutine may return before the last.\<close>

fun ka_ticks :: "ka_config \<Rightarrow> nat \<Rightarrow> bytes \<Rightarrow> Client \<Rightarrow> bytes option res \<times> Client" where
  "ka_ticks cfg 0 p c = (Inr (Some p), c)"
| "ka_ticks cfg (Suc n) p c =
     (case ka_tick cfg p c of
        (Inr (Some p'), c') \<Rightarrow> ka_ticks cfg n p' c'
      | r \<Rightarrow> r)"

lemma ka_ticks_add:
  "ka_ticks cfg m p c = (Inr (Some p'), c') \<Longrightarrow> ka_ticks cfg (m + n) p c = ka_ticks cfg n p' c'"
  by (induction m arbitrary: p c) (auto split: prod.splits sum.splits option.splits)

lemma tick_answered:
  assumes "c_Connected c" "c_conn c" "c_socket c = []" "c_script c = props_reply hdr i sq n d # s" "length d < 64000"
    and "\<not> kc_PollTags cfg \<or> d = p"
  shows "ka_tick cfg p c = (Inr (Some d), after_poll cfg c s)"
  using props_answered [OF assms(2-5), of cfg] assms(1,6) by (auto simp: ka_tick_def)

lemma ticks_answered:
  assumes "c_Connected c" "c_conn c" "c_socket c = []" "c_script c = map (props_reply hdr i sq n) ds @ s"
    and "\<forall>d \<in> set ds. length d < 64000" and "\<not> kc_PollTags cfg \<or> set ds \<subseteq> {p}"
  shows "\<exists>c'. ka_ticks cfg (length ds) p c = (Inr (Some (last (p # ds))), c') \<and> c_Connected c' \<and> c_conn c' \<and> c_socket c' = [] \<and>
    c_script c' = s \<and> c_KnownTags c' = c_KnownTags c \<and> length (c_sent c') = length (c_sent c) + length ds \<and>
    c_keepAliveRunning c' = c_keepAliveRunning c \<and> c_cancel c' = c_cancel c"
  using assms
proof (induction ds arbitrary: p c)
  case (Cons d ds)
  have t: "ka_tick cfg p c = (Inr (Some d), after_poll cfg c (map (props_reply hdr i sq n) ds @ s))"
    using Cons.prems by (intro tick_answered) auto
  have "\<not> kc_PollTags cfg \<or> set ds \<subseteq> {d}" using Cons.prems(6) by auto
  with Cons.IH [of "after_poll cfg c (map (props_reply hdr i sq n) ds @ s)" d] Cons.prems t
  show ?case by (auto split: if_splits)
qed simp

text \<open>A poll that fails ends the goroutine and leaves the client disconnected.\<close>

lemma tick_lost:
  assumes "c_Connected c" "c_conn c" "c_script c = None # s" "c_keepAliveRunning c \<Longrightarrow> c_cancel c = OpenChan"
  shows "\<exists>c'. ka_tick cfg p c = (Inr None, c') \<and> c_connStatus c' = Disconnected \<and> \<not> c_conn c' \<and> \<not> c_keepAliveRunning c'"
proof -
  let ?c = "c\<lparr>c_sequenceNumber := c_sequenceNumber c + 1\<rparr>"
  let ?c1 = "c\<lparr>c_sequenceNumber := c_sequenceNumber c + 1, c_HeaderSequenceCounter := c_HeaderSequenceCounter c + 1, c_script := s\<rparr>"
  have x: "exchange cmd msg ?c = (Inl (Msg ''problem writing to socket''), ?c1)" for cmd msg
    using assms(2,3) by (simp add: exchange_def sendMsgBuild_def c_newEIPHeader_def sendData_def Let_def)
  have d: "fst (Disconnect ?c1) = Inr () \<and> c_connStatus (snd (Disconnect ?c1)) = Disconnected \<and> \<not> c_conn (snd (Disconnect ?c1))"
    using assms(1,4) by (intro Disconnect_active) (auto simp: c_Connected_def)
  then obtain c2 where c2: "Disconnect ?c1 = (Inr (), c2)" "c_connStatus c2 = Disconnected" "\<not> c_conn c2"
    by (cases "Disconnect ?c1") simp
  have "ka_properties cfg c = (Inl (Wrapped ''forced disconnect'' (Msg ''problem writing to socket'')), c2)"
    by (simp add: ka_properties_def GetAttrList_def Let_def cbind_def send_unit_def send_recv_data.simps x c2(1))
  moreover have "Disconnect c2 = (Inl (Msg ''client is already disconnected''), c2)"
    using c2(2) by (simp add: Disconnect.simps startDisconnect_def)
  ultimately have "ka_tick cfg p c = (Inr None, ka_exit c2)"
    using assms(1) by (simp add: ka_tick_def ka_return_def)
  then show ?thesis using c2 by (simp add: ka_exit_def)
qed


section \<open>Examples\<close>

definition demo_watch :: ka_config where
  "demo_watch = \<lparr>kc_Props = [1, 2, 3, 4, 10], kc_PollTags = False, kc_depth = 5, kc_order = id\<rparr>"

definition demo_watched :: Client where
  "demo_watched = demo_client\<lparr>c_KeepAliveAutoStart := True, c_script := [props_reply demo_reply_header 9 1 5 [7, 8]]\<rparr>"

text \<open>A client with a goroutine that has read the properties once.\<close>

definition demo_running :: ka_system where
  "demo_running =
     after_begin \<lparr>ks_client = demo_watched, ks_old = [], ks_loops = []\<rparr> (Some [7, 8])
       (after_poll demo_watch (demo_watched\<lparr>c_cancel := OpenChan, c_keepAliveRunning := True\<rparr>) [])"

lemma demo_begin: "ka_step demo_watch True \<lparr>ks_client = demo_watched, ks_old = [], ks_loops = []\<rparr> demo_running"
proof -
  let ?c = "demo_watched\<lparr>c_cancel := OpenChan, c_keepAliveRunning := True\<rparr>"
  have "\<exists>it. ka_properties demo_watch ?c = (Inr it, after_poll demo_watch ?c []) \<and> unread it = [7, 8]"
    by (rule props_answered [of ?c demo_reply_header 9 1 5 "[7, 8]" "[]"]) (simp_all add: demo_watched_def demo_client_def)
  moreover have "ka_willing demo_watched" by (simp add: ka_willing_def demo_watched_def demo_client_def)
  moreover have "\<not> kc_PollTags demo_watch" by (simp add: demo_watch_def)
  ultimately have "ka_begin demo_watch demo_watched = (Inr (Some [7, 8]), after_poll demo_watch ?c [])"
    by (auto simp: ka_begin_def)
  then show ?thesis unfolding demo_running_def
    using starts [of True "\<lparr>ks_client = demo_watched, ks_old = [], ks_loops = []\<rparr>" demo_watch] by simp
qed

lemma demo_running_sel:
  "ks_loops demo_running = [\<lparr>ka_chan = 1, ka_last = [7, 8]\<rparr>]" "ks_old demo_running = [NilChan]"
  "c_keepAliveRunning (ks_client demo_running)" "c_cancel (ks_client demo_running) = OpenChan"
  "c_connStatus (ks_client demo_running) = Connected"
  by (simp_all add: demo_running_def after_begin_def demo_watched_def demo_client_def ka_willing_def)

theorem keepalive_flag_is_true_witness:
  "c_keepAliveRunning (ks_client demo_running) \<and> fst (Disconnect (ks_client demo_running)) = Inr ()"
  using keepalive_flag_is_true [of "\<lparr>ks_client = demo_watched, ks_old = [], ks_loops = []\<rparr>" demo_watch demo_running]
    r_into_rtranclp [of "ka_step demo_watch True", OF demo_begin]
  by (simp add: demo_running_sel) (simp add: demo_watched_def demo_client_def)


theorem cancel_then_disconnect_panics_witness:
  "\<exists>c'. KeepAliveCancel True (ks_client demo_running) = Inr c' \<and> fst (Disconnect c') = Inl (Panic ''close of closed channel'')"
proof -
  obtain c' where c': "KeepAliveCancel True (ks_client demo_running) = Inr c'"
    by (simp add: KeepAliveCancel_def demo_running_sel)
  show ?thesis using cancel_then_disconnect_panics [OF _ demo_running_sel(3) c'] c' by (simp add: demo_running_sel)
qed


end
