(* ===== verification/Canned_Queries.thy ===== *)
theory Canned_Queries
  imports Data_Table_Reads
begin

text \<open>
  The queries of \<^verbatim>\<open>canned/\<close>: the controller's fault log (\<^verbatim>\<open>faults.go\<close>) and the state of its
  forces (\<^verbatim>\<open>forces.go\<close>).  The table of texts \<^verbatim>\<open>FaultDescriptions\<close> is an argument.
\<close>

unbundle bit_operations_syntax

section \<open>Faults\<close>

type_synonym FaultType = u32

record FaultEvent =
  fe_Timestamp :: u64
  fe_FaultClass :: u16
  fe_FaultCode :: u16
  fe_Detail :: bytes

record FaultSummary =
  fs_MajorType :: FaultType
  fs_MinorType :: FaultType
  fs_MajorCount :: u16
  fs_MinorCount :: u16
  fs_Events :: "FaultEvent list"

record FaultDescription =
  fd_Type :: int
  fd_Code :: int
  fd_Display :: string
  fd_Description :: string
  fd_CorrectiveAction :: string
  fd_Major :: bool
  fd_TypeName :: string

type_synonym fault_table = "int \<Rightarrow> (int \<Rightarrow> FaultDescription option) option"

text \<open>\<^verbatim>\<open>%02d\<close> of an unsigned number.\<close>

definition two_digits :: "u16 \<Rightarrow> string" where
  "two_digits w = (let s = itoa (unat w) in if length s < 2 then CHR ''0'' # s else s)"

definition unknown_fault :: "FaultEvent \<Rightarrow> FaultDescription" where
  "unknown_fault f =
     \<lparr>fd_Type = uint (fe_FaultClass f), fd_Code = uint (fe_FaultCode f),
      fd_Display = ''Unknown fault T'' @ two_digits (fe_FaultClass f) @ '':C'' @ two_digits (fe_FaultCode f),
      fd_Description = of_bytes (fe_Detail f), fd_CorrectiveAction = ''Unknown'', fd_Major = False, fd_TypeName = ''Unknown''\<rparr>"

definition fault_Description :: "fault_table \<Rightarrow> FaultEvent \<Rightarrow> FaultDescription" where
  "fault_Description FaultDescriptions f =
     (case FaultDescriptions (uint (fe_FaultClass f)) of
        None \<Rightarrow> unknown_fault f
      | Some t \<Rightarrow> (case t (uint (fe_FaultCode f)) of None \<Rightarrow> unknown_fault f | Some desc \<Rightarrow> desc))"

definition fault_String :: "fault_table \<Rightarrow> FaultEvent \<Rightarrow> string" where
  "fault_String FaultDescriptions f =
     (if fe_FaultClass f = 0 \<and> fe_FaultCode f = 0 then ''No Fault'' else fd_Display (fault_Description FaultDescriptions f))"

text \<open>The kinds of fault, by the place of their bit (the \<^verbatim>\<open>iota\<close> of the constants), with the tests for them.\<close>

datatype fault_kind =
    Powerup | IO | Program | Watchdog | NVMemory | ModeChange | SerialPort | EnergyStorage | Motion | Redundancy
  | RTC | NonRecoverable | Communication | Diagnostics | CIPMotion | Ethernet | License | Alarm | OPCUA

fun fault_iota :: "fault_kind \<Rightarrow> nat" where
  "fault_iota Powerup = 1" | "fault_iota IO = 2" | "fault_iota Program = 3" | "fault_iota Watchdog = 5"
| "fault_iota NVMemory = 6" | "fault_iota ModeChange = 7" | "fault_iota SerialPort = 8" | "fault_iota EnergyStorage = 9"
| "fault_iota Motion = 10" | "fault_iota Redundancy = 11" | "fault_iota RTC = 12" | "fault_iota NonRecoverable = 13"
| "fault_iota Communication = 15" | "fault_iota Diagnostics = 16" | "fault_iota CIPMotion = 17" | "fault_iota Ethernet = 18"
| "fault_iota License = 19" | "fault_iota Alarm = 20" | "fault_iota OPCUA = 21"

definition FaultType_of :: "fault_kind \<Rightarrow> FaultType" where
  "FaultType_of k = push_bit (fault_iota k) 1"

definition has_fault :: "fault_kind \<Rightarrow> FaultType \<Rightarrow> bool" where
  "has_fault k f \<longleftrightarrow> f AND FaultType_of k \<noteq> 0"

definition event_at :: "nat \<Rightarrow> bytes \<Rightarrow> FaultEvent" where
  "event_at k x =
     \<lparr>fe_Timestamp = fld64 k x, fe_FaultClass = fld16 (k + 8) x, fe_FaultCode = fld16 (k + 10) x,
      fe_Detail = take 30 (drop (k + 12) x)\<rparr>"

text \<open>\<^verbatim>\<open>DeSerialize\<close> of a \<^verbatim>\<open>FaultSummary\<close>: 12 bytes and three events of 42.\<close>

definition read_FaultSummary :: "bytes \<Rightarrow> FaultSummary res" where
  "read_FaultSummary r =
     andthen (read_full 138 r) (\<lambda>(x, _).
       Inr \<lparr>fs_MajorType = fld32 0 x, fs_MinorType = fld32 4 x, fs_MajorCount = fld16 8 x, fs_MinorCount = fld16 10 x,
            fs_Events = map (\<lambda>i. event_at (12 + 42 * i) x) [0..<3]\<rparr>)"

definition GetFaults :: "FaultSummary cact" where
  "GetFaults =
     cbind (GenericCIPMessage CIPService_GetAttributeAll (CIPClass_Bytes 0x73 @ CIPInstance_Bytes 1) []) (\<lambda>it.
     cres (flat ''could not deserialize response'' (read_FaultSummary (unread it)) Inr) cret)"

section \<open>Forces\<close>

type_synonym ForceStatus = u16

definition force_Enabled :: "ForceStatus \<Rightarrow> bool" where "force_Enabled f \<longleftrightarrow> f AND 1 \<noteq> 0"

definition force_Exist :: "ForceStatus \<Rightarrow> bool" where "force_Exist f \<longleftrightarrow> f AND 1 \<noteq> 0"

definition GetForces :: "ForceStatus cact" where
  "GetForces =
     cbind (GetAttrList 0x69 0 [9]) (\<lambda>it.
     cres (flat ''could not deserialize response'' (andthen (read_full 6 (unread it)) (\<lambda>(x, _). Inr (fld16 4 x))) Inr) cret)"

text \<open>The two tests look at the same bit: forces that exist and are not enabled are not seen.\<close>

lemma exist_is_enabled: "force_Exist f = force_Enabled f"
  by (simp add: force_Exist_def force_Enabled_def)

section \<open>What the controller reports arrives\<close>

definition FaultEvent_Bytes :: "FaultEvent \<Rightarrow> bytes" where
  "FaultEvent_Bytes f = put64 (fe_Timestamp f) @ put16 (fe_FaultClass f) @ put16 (fe_FaultCode f) @ fe_Detail f"

definition FaultSummary_Bytes :: "FaultSummary \<Rightarrow> bytes" where
  "FaultSummary_Bytes s =
     put32 (fs_MajorType s) @ put32 (fs_MinorType s) @ put16 (fs_MajorCount s) @ put16 (fs_MinorCount s)
     @ concat (map FaultEvent_Bytes (fs_Events s))"

definition summary_ok :: "FaultSummary \<Rightarrow> bool" where
  "summary_ok s \<longleftrightarrow> length (fs_Events s) = 3 \<and> list_all (\<lambda>e. length (fe_Detail e) = 30) (fs_Events s)"

lemma event_at_skip: "length p \<le> k \<Longrightarrow> event_at k (p @ r) = event_at (k - length p) r"
  by (simp add: event_at_def fld_simps)

lemma event_at_Bytes: "length (fe_Detail e) = 30 \<Longrightarrow> event_at 0 (FaultEvent_Bytes e @ r) = e"
  by (simp add: event_at_def FaultEvent_Bytes_def fld_simps)

lemma length_event: "length (fe_Detail e) = 30 \<Longrightarrow> length (FaultEvent_Bytes e) = 42"
  by (simp add: FaultEvent_Bytes_def)

interpretation fault_log: wire_codec FaultSummary_Bytes "\<lambda>r. andthen (read_FaultSummary r) (\<lambda>s. Inr (s, drop 138 r))" summary_ok
proof
  fix s :: FaultSummary and r
  assume ok: "summary_ok s"
  then obtain e1 e2 e3 where e: "fs_Events s = [e1, e2, e3]"
    by (auto simp: summary_ok_def length_Suc_conv numeral_3_eq_3)
  let ?h = "put32 (fs_MajorType s) @ put32 (fs_MinorType s) @ put16 (fs_MajorCount s) @ put16 (fs_MinorCount s)"
  have d: "length (fe_Detail e1) = 30" "length (fe_Detail e2) = 30" "length (fe_Detail e3) = 30"
    using ok e by (simp_all add: summary_ok_def)
  have b: "FaultSummary_Bytes s = ?h @ FaultEvent_Bytes e1 @ FaultEvent_Bytes e2 @ FaultEvent_Bytes e3"
    by (simp add: FaultSummary_Bytes_def e)
  have len: "length (FaultSummary_Bytes s) = 138" unfolding b by (simp add: length_event d)
  have "event_at 12 (FaultSummary_Bytes s) = e1" "event_at 54 (FaultSummary_Bytes s) = e2" "event_at 96 (FaultSummary_Bytes s) = e3"
    using event_at_Bytes[OF d(1), of "FaultEvent_Bytes e2 @ FaultEvent_Bytes e3"] event_at_Bytes[OF d(2), of "FaultEvent_Bytes e3"]
      event_at_Bytes[OF d(3), of "[]"]
    unfolding b by (simp_all add: event_at_skip length_event d)
  moreover have "fld32 0 (FaultSummary_Bytes s) = fs_MajorType s" "fld32 4 (FaultSummary_Bytes s) = fs_MinorType s"
    "fld16 8 (FaultSummary_Bytes s) = fs_MajorCount s" "fld16 10 (FaultSummary_Bytes s) = fs_MinorCount s"
    unfolding b by (simp_all add: fld_simps)
  moreover have "read_full 138 (FaultSummary_Bytes s @ r) = Inr (FaultSummary_Bytes s, r)" using len by (rule read_full_append)
  ultimately have "read_FaultSummary (FaultSummary_Bytes s @ r) = Inr s"
    using e by (simp add: read_FaultSummary_def numeral_3_eq_3 upt_rec)
  then show "andthen (read_FaultSummary (FaultSummary_Bytes s @ r)) (\<lambda>t. Inr (t, drop 138 (FaultSummary_Bytes s @ r))) = Inr (s, r)"
    using len by simp
qed

lemma FaultSummary_read: "summary_ok s \<Longrightarrow> read_FaultSummary (FaultSummary_Bytes s @ r) = Inr s"
  using fault_log.dec_enc[of s r] by (auto simp: andthen_Inr_iff)

text \<open>
  The fault log arrives as the controller holds it.  When the controller answers \<^const>\<open>GetFaults\<close> with a
  summary of its last three faults, whatever it appends, the client returns exactly that summary, with one message sent, and the tests for
  kinds of fault see exactly the bits of its major type.
\<close>

theorem fault_log_round_trip:
  assumes "c_conn c" "c_socket c = []" "summary_ok s" "length extra < 64000"
    and "c_script c = Some (eip_frame hdr (connected_reply i (generic_body sq CIPService_GetAttributeAll (FaultSummary_Bytes s @ extra)))) # rest"
  shows "\<exists>c' b. GetFaults c = (Inr s, c') \<and> c_sent c' = c_sent c @ [b] \<and> c_script c' = rest
    \<and> (\<forall>k. has_fault k (fs_MajorType s) \<longleftrightarrow> bit (fs_MajorType s) (fault_iota k))"
proof -
  let ?d = "FaultSummary_Bytes s @ extra"
  let ?it = "(item_Write (generic_body sq CIPService_GetAttributeAll ?d) (empty_item cipItem_ConnectedData))\<lparr>Pos := 6\<rparr>"
  obtain e1 e2 e3 where e: "fs_Events s = [e1, e2, e3]" "length (fe_Detail e1) = 30" "length (fe_Detail e2) = 30" "length (fe_Detail e3) = 30"
    using assms(3) by (auto simp: summary_ok_def length_Suc_conv numeral_3_eq_3)
  then have len: "length ?d < 65000" using assms(4) by (simp add: FaultSummary_Bytes_def length_event)
  have "\<not> IsResponse CIPService_GetAttributeAll" by code_simp
  from generic_answered[OF assms(1,2,5) this len] obtain c' b where
    g: "GenericCIPMessage CIPService_GetAttributeAll (CIPClass_Bytes 0x73 @ CIPInstance_Bytes 1) [] c = (Inr ?it, c')"
      "c_sent c' = c_sent c @ [b]" "c_script c' = rest" by auto
  have "unread ?it = ?d" by (rule generic_body_reads(4))
  with g(1) have "GetFaults c = (Inr s, c')"
    by (simp add: GetFaults_def cbind_def FaultSummary_read[OF assms(3)] cret_def)
  moreover have "has_fault k f \<longleftrightarrow> bit f (fault_iota k)" for k and f :: FaultType
    unfolding has_fault_def FaultType_of_def by (rule and_push_bit_one)
  ultimately show ?thesis using g(2,3) by blast
qed

definition demo_summary :: FaultSummary where
  "demo_summary =
     (let e = \<lparr>fe_Timestamp = 9, fe_FaultClass = 4, fe_FaultCode = 20, fe_Detail = replicate 30 0\<rparr> in
      \<lparr>fs_MajorType = 8, fs_MinorType = 0, fs_MajorCount = 1, fs_MinorCount = 0, fs_Events = [e, e, e]\<rparr>)"

theorem fault_log_round_trip_witness:
  "\<exists>c c'. GetFaults c = (Inr demo_summary, c') \<and> has_fault Program (fs_MajorType demo_summary)"
proof -
  let ?b = "generic_body 1 CIPService_GetAttributeAll (FaultSummary_Bytes demo_summary @ [])"
  let ?c = "demo_client\<lparr>c_script := [Some (eip_frame demo_reply_header (connected_reply 9 ?b))]\<rparr>"
  have ok: "summary_ok demo_summary" by (simp add: summary_ok_def demo_summary_def Let_def)
  have c: "c_conn ?c" "c_socket ?c = []" "length ([] :: bytes) < 64000" by (simp_all add: demo_client_def)
  have "\<exists>c' b. GetFaults ?c = (Inr demo_summary, c') \<and> c_sent c' = c_sent ?c @ [b] \<and> c_script c' = []
    \<and> (\<forall>k. has_fault k (fs_MajorType demo_summary) \<longleftrightarrow> bit (fs_MajorType demo_summary) (fault_iota k))"
    by (rule fault_log_round_trip[OF c(1,2) ok c(3)]) simp
  moreover have "bit (fs_MajorType demo_summary) (fault_iota Program)" by code_simp
  ultimately show ?thesis by blast
qed

end
