(* ===== verification/Fault_Table.thy ===== *)
theory Fault_Table
  imports Canned_Queries
begin

text \<open>
  The table \<^verbatim>\<open>FaultDescriptions\<close> of \<^verbatim>\<open>canned/fault_descriptions.go\<close>, by fault types, and whether its entries say what they are
  entered under.  Characters outside ASCII, quotation marks and line ends are written by their codes.
\<close>

definition fault_entry :: "int \<Rightarrow> int \<Rightarrow> string \<Rightarrow> string \<Rightarrow> string \<Rightarrow> bool \<Rightarrow> string \<Rightarrow> FaultDescription" where
  "fault_entry t c display desc action major name =
     \<lparr>fd_Type = t, fd_Code = c, fd_Display = display, fd_Description = desc, fd_CorrectiveAction = action, fd_Major = major,
      fd_TypeName = name\<rparr>"

section \<open>The entries\<close>

definition faults_1 :: "(int \<times> FaultDescription) list" where
  "faults_1 =
     [(1, fault_entry 1 1 (''Major Fault T01:C01 - Power-up Fault: Power lost and restored in RUN mode.'')
         (''The controller that is powered on is in Run mode.'')
         (''Execute the power-up handler.'') True (''Power Up'')),
      (2, fault_entry 1 2 (''0x00000000'')
         (''AC power loss detected. Chassis active until DC power cannot be maintained.'')
         (''Legacy. Now an unused fault code.'') False (''Power Up'')),
      (15, fault_entry 1 15 (''Minor Fault T01:C15 - Power-up Fault: I/O Power fault detected.'')
         (''A 1769 power supply is connected directly to the controller'' @ [CHR 0xE2, CHR 0x80, CHR 0x99] @ ''s 1768 CompactBus with an invalid configuration. The 1768 power supply that provides power to the controller has failed.'')
         (''Remove the power supply from the 1768 CompactBus and cycle power to the system. Replace the power supply.'') False (''Power Up'')),
      (16, fault_entry 1 16 (''Major Fault T01:C16 - Power-up Fault: I/O Communications Configuration fault detected.'')
         (''I/O communication configuration fault detected.'')
         (''Reconfigure the number of communication modules on the 1768 bus side of the controller: '' @ [CHR 0xE2, CHR 0x80, CHR 0xA2] @ '' 1768-L43 has a maximum of two modules. '' @ [CHR 0xE2, CHR 0x80, CHR 0xA2] @ ''1768-L45 has a maximum of four modules. '' @ [CHR 0xE2, CHR 0x80, CHR 0xA2] @ '' Up to four Sercos modules '' @ [CHR 0xE2, CHR 0x80, CHR 0xA2] @ '' Up to two NetLinx communication modules'') True (''Power-up'')),
      (29, fault_entry 1 29 (''Minor Fault T01:C29 - Power-up Fault: Voltage has exceeded operating limits.'')
         (''Voltage has exceeded operating limits.'')
         (''Legacy. Now an unused fault code.'') False (''Power Up'')),
      (40, fault_entry 1 40 (''Major Fault T01:C40 - Power-up Fault: Energy Storage Module/Battery failed during power down.'')
         (''If the controller uses a battery, the battery does not contain enough charge to save the user program on power-down.  If the controller uses an ESM (Energy Storage Module), the ESM does not contain enough charge to save the user program on power-down.'')
         (''For controllers that use a battery, replace the battery. For controllers that use an ESM (Energy Storage Module): '' @ [CHR 0xE2, CHR 0x80, CHR 0xA2] @ '' Allow the ESM to charge fully before powering down the controller. '' @ [CHR 0xE2, CHR 0x80, CHR 0xA2] @ '' Replace the ESM if the ESM is removable, or replace the controller if the ESM is not removable.  If the problem persists, contact Rockwell Automation support.'') True (''Power Up'')),
      (60, fault_entry 1 60 (''Major Fault T01:C60 - Power-up Fault: Non-recoverable fault.'')
         (''The controller detected a nonrecoverable major fault. Diagnostic information can be recovered.'')
         (''Insert a memory card in the controller and restart the controller to write diagnostic information to the memory card. Then clear the fault and download the application.'' @ [CHR 0xC2, CHR 0xA0] @ ''Contact Rockwell Automation support and provide the 9-character code from the scrolling status display on the controller.'') True (''Power Up'')),
      (61, fault_entry 1 61 (''Major Fault T01:C61 - Power-up Fault: Non-recoverable fault with saved diagnostic information.'')
         (''The controller detected a nonrecoverable major fault. Diagnostic information can be recovered.'')
         (''Insert a memory card in the controller and restart the controller to write diagnostic information to the memory card. Then clear the fault and download the application. Contact Rockwell Automation support and provide the 9-character code from the scrolling status display on the controller.'') True (''Power Up'')),
      (62, fault_entry 1 62 (''Major Fault T01:C62 - Power-up Fault: Non-recoverable fault with saved diagnostic information and stored user program.'')
         (''The controller detected a nonrecoverable major fault. Diagnostic information can be recovered.'')
         (''Insert a memory card in the controller and restart the controller to write diagnostic information to the memory card. Then clear the fault and download the application.'' @ [CHR 0xC2, CHR 0xA0] @ ''Contact Rockwell Automation support and provide the 9-character code from the scrolling status display on the controller.'') True (''Power Up''))]"

definition faults_3 :: "(int \<times> FaultDescription) list" where
  "faults_3 =
     [(0, fault_entry 3 0 (''Minor Fault T3:C0 - I/O Fault: Compact I/O'' @ [CHR 0xE2, CHR 0x84, CHR 0xA2] @ '' end cap missing.'')
         (''Compact I/O'' @ [CHR 0xE2, CHR 0x84, CHR 0xA2] @ '' end cap missing.'')
         (''Install the end cap.'') False (''I/O'')),
      (1, fault_entry 3 1 (''Minor Fault T03:C01 - I/O Fault: POINTBus'' @ [CHR 0xE2, CHR 0x84, CHR 0xA2] @ '' backplane bus off.'')
         (''POINTBus'' @ [CHR 0xE2, CHR 0x84, CHR 0xA2] @ '' backplane bus off condition. The connections between the controller and the I/O modules are broken.'')
         (''Complete these steps to identify the source of the BUS OFF fault: 1.'' @ [CHR 0xC2, CHR 0xA0, CHR 0xC2, CHR 0xA0] @ ''The number of local expansion modules in the project matches the number of modules that are physically installed in the system. 2.'' @ [CHR 0xC2, CHR 0xA0, CHR 0xC2, CHR 0xA0] @ ''All mounting bases are locked and I/O modules are securely installed on mounting bases. 3. All 1734 POINT I/O'' @ [CHR 0xE2, CHR 0x84, CHR 0xA2] @ '' modules are configured to use the Autobaud rate. If these steps do not remedy the fault condition, contact Rockwell Automation support.'') False (''I/O'')),
      (16, fault_entry 3 16 (''Major Fault T03:C16 - I/O Fault: I/O module connection failed on required module.'')
         (''A required I/O module connection failed.'')
         (''Verify the following: '' @ [CHR 0xE2, CHR 0x80, CHR 0xA2] @ ''The I/O module is in the chassis. '' @ [CHR 0xE2, CHR 0x80, CHR 0xA2] @ '' Electronic keying requirements. '' @ [CHR 0xE2, CHR 0x80, CHR 0xA2] @ '' Controller Properties Major Fault tab and the Module Properties Connection tab for more information about the fault.'') True (''I/O'')),
      (20, fault_entry 3 20 (''Major Fault T03:C20 - I/O Fault: Unable to read ControlBus'' @ [CHR 0xE2, CHR 0x84, CHR 0xA2] @ '' chassis information.  Chassis may be bad.'')
         (''Possible fault with the chassis.'')
         (''Not recoverable. Replace the chassis.'') True (''I/O'')),
      (21, fault_entry 3 21 (''Major Fault T03:C21 - I/O Fault: Unable to read ControlBus'' @ [CHR 0xE2, CHR 0x84, CHR 0xA2] @ '' chassis information. Chassis may be bad.'')
         (''Possible fault with the chassis.'')
         (''Not recoverable. Replace the chassis.'') True (''I/O'')),
      (23, fault_entry 3 23 (''Major Fault T03:C23 - I/O Fault: At least one required connection not established before going into RUN mode.'')
         (''At least one required connection was not established before going to Run mode.'')
         (''Wait for the controller I/O light to turn green before changing to Run mode.'') True (''I/O'')),
      (32, fault_entry 3 32 (''Major Fault T03:C32 - I/O Fault: Controller failed to open an I/O connection to a fault-tolerant I/O module because its partner controller is in a Primary state.'')
         (''The controller failed to open an I/O connection to a fault-tolerant I/O module because its partner controller is in a Primary state.'')
         ([CHR 0xE2, CHR 0x80, CHR 0xA2] @ '' Make sure that the redundancy module is correctly inserted and connected. '' @ [CHR 0xE2, CHR 0x80, CHR 0xA2] @ '' Synchronize the redundancy controllers so that only one controller is in the Primary state.'') True (''I/O'')),
      (94, fault_entry 3 94 (''Minor Fault T03:C94 - I/O Fault: Module RPI overlap detected.'')
         (''The current RPI update of an I/O module overlaps with its previous RPI update.'')
         (''Set the RPI rate of the I/O modules to a higher numerical value. Rockwell Automation recommends that the CompactLogix'' @ [CHR 0xE2, CHR 0x84, CHR 0xA2] @ '' 5370 L2 and CompactLogix 5370 L3 control systems do not run with Module RPI Overlap faults.'') False (''I/O'')),
      (100, fault_entry 3 100 (''Minor Fault T03:C100 - I/O Fault: I/O module does not support data integrity.'')
         (''The I/O module does not support data integrity.'')
         (''Legacy. Now an unused fault code.'') False (''I/O''))]"

definition faults_4_a :: "(int \<times> FaultDescription) list" where
  "faults_4_a =
     [(4, fault_entry 4 4 (''Minor Fault T04:C04 - Program Fault: Arithmetic overflow.  Result of an arithmetic instruction out of range.'')
         (''The result of an arithmetic operation is out of range.'')
         (''Examine the arithmetic operations (order) or adjust the values.'') False (''Program'')),
      (5, fault_entry 4 5 (''Minor Fault T04:C05 - Program Fault: GSV/SSV object address invalid.'')
         (''In a GSV/SSV instruction, the specified instance was not found.'')
         (''Check the instance name.'') False (''Program'')),
      (6, fault_entry 4 6 (''Minor Fault T04:C06 - Program Fault: GSV/SSV operand invalid.'')
         (''In a GSV/SSV instruction, either the: '' @ [CHR 0xE2, CHR 0x80, CHR 0xA2] @ '' Specified Class name is not supported. '' @ [CHR 0xE2, CHR 0x80, CHR 0xA2] @ '' Specified Attribute name is not valid.'')
         (''Check the Class name and Attribute name.'') False (''Program'')),
      (7, fault_entry 4 7 (''Minor Fault T04:C07 - Program Fault: GSV/SSV destination tag too small to hold all data.'')
         (''The GSV/SSV destination tag was too small to hold the data.'')
         (''Fix the destination so it has enough space.'') False (''Program'')),
      (16, fault_entry 4 16 (''Major Fault T04:C16 - Program Fault: Unknown instruction encountered.'')
         (''Unknown instruction encountered.'')
         (''Remove the unknown instruction. This probably happened due to a program conversion process.'') True (''Program'')),
      (20, fault_entry 4 20 (''Major Fault T04:C20 - Program Fault: Array subscript too large, or CONTROL data type POS or LEN invalid.'')
         (''The array subscript is too large or the control data type .POS or .LEN value is invalid.'')
         (''Adjust the value to be within the valid range. Do not exceed the array size or go beyond the dimensions defined.'') True (''Program'')),
      (21, fault_entry 4 21 (''Major Fault T04:C21 - Program Fault: CONTROL data type LEN or POS less than 0.'')
         (''Control structure .LEN or .POS < 0.'')
         (''Adjust the value so it is > 0.'') True (''Program'')),
      (24, fault_entry 4 24 (''Major Fault T04:C24 - Program Fault: Unknown data type passed to subroutine.'')
         (''Unknown data type passed to subroutine.'')
         (''Legacy. Now an unused fault code.'') True (''Program'')),
      (30, fault_entry 4 30 (''Minor Fault T04:C30 - Program Fault: ASCII instruction failed.'')
         (''An ASCII instruction failed. Bad parameters passed through to the ASCII port.'')
         (''Verify the ASCII configuration settings.'') False (''Program'')),
      (31, fault_entry 4 31 (''Major Fault T04:C31 - Program Fault: JSR or RET did not pass as many parameters as expected.'')
         (''The parameters of the JSR instruction do not match those of the associated SBR or RET instruction.'')
         (''Pass the appropriate number of parameters. If you pass too many parameters, the extra ones are ignored without any error.'') True (''Program'')),
      (32, fault_entry 4 32 (''Minor Fault T04:C32 - Program Fault: Routine type not supported.'')
         (''Routine type not supported.'')
         (''Legacy. Now an unused fault code.'') False (''Program'')),
      (34, fault_entry 4 34 (''Major Fault T04:C34 - Program Fault: A timer instruction had a negative value for its PRE or ACC.'')
         (''A timer instruction has a negative preset or accumulated value.'')
         (''Fix the program so that it cannot load a negative value into the timer preset or accumulated value.'') True (''Program'')),
      (35, fault_entry 4 35 (''Minor Fault T04:C35 - PID delta time was less than 0.'')
         (''PID delta time less than zero.'')
         (''Adjust the PID delta time so that it is > 0.'') False (''Program'')),
      (36, fault_entry 4 36 (''Minor Fault T04:C36 - PID setpoint out of range for target module.'')
         (''PID setpoint out of range.'')
         (''Adjust the setpoint so that it is within range.'') False (''Program'')),
      (42, fault_entry 4 42 (''Major Fault T04:C42 - Program Fault: JMP to a label that did not exist or was deleted.'')
         (''JMP to a label that did not exist or was deleted.'')
         (''Correct the JMP target or add the missing label.'') True (''Program'')),
      (51, fault_entry 4 51 (''Minor Fault T04:C51 - Program Fault: LEN value outside DATA limit.'')
         (''The .LEN value of the string tag is greater than the DATA size of the string tag.'')
         (''1. Check that no instruction is writing to the LEN member of the string tag. 2. In the LEN value, enter the number of characters that the string contains.'') False (''Program''))]"

definition faults_4_b :: "(int \<times> FaultDescription) list" where
  "faults_4_b =
     [(52, fault_entry 4 52 (''Minor Fault T04:C52 - Program Fault: Defined string size is invalid.'')
         (''The output string is larger than the destination.'')
         (''Create a string data type that is large enough for the output string. Use the new string data type as the data type for the destination.'') False (''Program'')),
      (53, fault_entry 4 53 (''Minor Fault T04:C53 - Program Fault: Numeric result cannot fit in destination.'')
         (''The output number is beyond the limits of the destination data type.'')
         (''Either: '' @ [CHR 0xE2, CHR 0x80, CHR 0xA2] @ '' Reduce the size of the ASCII value. '' @ [CHR 0xE2, CHR 0x80, CHR 0xA2] @ '' Use a larger data type for the destination.'') False (''Program'')),
      (54, fault_entry 4 54 (''Minor Fault T04:C54 - Program Fault: BufferSize value reduced amount of data.'')
         (''BufferSize value reduced amount of data.'')
         (''Legacy. Now an unused fault code.'') False (''Program'')),
      (55, fault_entry 4 55 (''Minor Fault T04:C55 - Program Fault: SerialPort Control Len value was incorrect.'')
         (''SerialPort Control .LEN value was incorrect.'')
         (''Legacy. Now an unused fault code.'') False (''Program'')),
      (56, fault_entry 4 56 (''Minor Fault T04:C56 - Program Fault: Invalid Start and/or Quantity value.'')
         (''The Start or Quantity value is invalid.'')
         (''Check the following: '' @ [CHR 0xE2, CHR 0x80, CHR 0xA2] @ '' The Start value is between 1 and the DATA size of the Source. '' @ [CHR 0xE2, CHR 0x80, CHR 0xA2] @ '' The Start value plus the Quantity Value is less than or equal to the DATA size of the Source.'') False (''Program'')),
      (57, fault_entry 4 57 (''Minor Fault T04:C57 - Program Fault: Cannot execute AHL when SerialPort set to NoHandshaking.'')
         (''The AHL instruction failed to execute because the serial port is set to no handshaking.'')
         (''Either: '' @ [CHR 0xE2, CHR 0x80, CHR 0xA2] @ '' Change the Control Line setting of the serial port. '' @ [CHR 0xE2, CHR 0x80, CHR 0xA2] @ '' Delete the AHL instruction.'') False (''Program'')),
      (82, fault_entry 4 82 (''Major Fault T04:C82 - Program Fault: Could not re-enter an executing SFC routine.'')
         (''A sequential function chart (SFC) called a subroutine and the subroutine tried to jump back to the calling SFC. This occurs when the SFC uses either a JSR or FOR instruction to call the subroutine.'')
         (''Remove the jump back to the calling SFC.'') True (''Program'')),
      (83, fault_entry 4 83 (''Major Fault T04:C83 - Program Fault: Value out of range.'')
         (''The data tested was not inside the required limits. This occurs with array subscripts used with Boolean arrays and bit level addressing.'')
         (''Adjust the value to be within the valid range. Do not exceed the array size or go beyond the dimensions defined.'') True (''Program'')),
      (84, fault_entry 4 84 (''Major Fault T04:C84 - Program Fault: Stack overflow.  Stack too small to perform operation.'')
         (''Stack overflow.'')
         (''Reduce the subroutine-nesting levels or the number of parameters passed.'') True (''Program'')),
      (85, fault_entry 4 85 (''Major Fault T04:C85 - Program Fault: Invalid routine type.'')
         (''Invalid routine type.'')
         (''Use a valid routine type.'') True (''Program'')),
      (86, fault_entry 4 86 (''Minor Fault T04:C86 - Program Fault: Access violation in user program.'')
         (''Access violation in user program.'')
         (''Contact Rockwell Automation Technical Support. '') False (''Program'')),
      (87, fault_entry 4 87 (''Minor Fault T04:C87 - Program Fault: External routine DLL load failed.  Perhaps a DLL on which it depends is missing.'')
         (''External routine DLL load failed. '')
         ('' DLL missing or malformed. Confirm and adjust.'') False (''Program'')),
      (88, fault_entry 4 88 (''Minor Fault T04:C88 - Program Fault: Exception in external routine DLL.'')
         (''Exception in external routine DLL.'')
         (''Troubleshoot the external routine DLL.'') False (''Program'')),
      (89, fault_entry 4 89 (''Major Fault T04:C89 - Program Fault: Target step does not exist in specified routine.'')
         (''In an SFR instruction, the target routine does not contain the target step.'')
         (''Correct the SFR target or add the missing step.'') True (''Program'')),
      (90, fault_entry 4 90 (''Major Fault T04:C90 - Program Fault: A safety instruction occurs outside a safety task.'')
         (''A safety instruction occurred outside a safety task.'')
         (''Only use the instruction in a safety task.'') True (''Program'')),
      (91, fault_entry 4 91 (''Major Fault T04:C91 - Program Fault: Equipment phase instruction cannot be called from a program.'')
         (''Equipment Phase instruction is being called from outside an Equipment Phase program.'')
         (''Only use the instruction in an Equipment Phase program.'') True (''Program''))]"

definition faults_4_c :: "(int \<times> FaultDescription) list" where
  "faults_4_c =
     [(94, fault_entry 4 94 (''Major Fault T04:C94 - Program Fault: Nesting limits exceeded.'')
         (''Nesting limits exceeded.'')
         (''Restructure the project to reduce the subroutine-nesting levels.'') True (''Program'')),
      (990, fault_entry 4 990 (''Major Fault T04:C990 - Program Fault: User-defined fault.'')
         (''User-defined major fault.'')
         (''User-defined action.'') True (''Program'')),
      (991, fault_entry 4 991 (''Major Fault T04:C991 - Program Fault: User-defined fault.'')
         (''User-defined major fault.'')
         (''User-defined action.'') True (''Program'')),
      (992, fault_entry 4 992 (''Major Fault T04:C992 - Program Fault: User-defined fault.'')
         (''User-defined major fault.'')
         (''User-defined action.'') True (''Program'')),
      (993, fault_entry 4 993 (''Major Fault T04:C993 - Program Fault: User-defined fault.'')
         (''User-defined major fault.'')
         (''User-defined action.'') True (''Program'')),
      (994, fault_entry 4 994 (''Major Fault T04:C994 - Program Fault: User-defined fault.'')
         (''User-defined major fault.'')
         (''User-defined action.'') True (''Program'')),
      (995, fault_entry 4 995 (''Major Fault T04:C995 - Program Fault: User-defined fault.'')
         (''User-defined major fault.'')
         (''User-defined action.'') True (''Program'')),
      (996, fault_entry 4 996 (''Major Fault T04:C996 - Program Fault: User-defined fault.'')
         (''User-defined major fault.'')
         (''User-defined action.'') True (''Program'')),
      (997, fault_entry 4 997 (''Major Fault T04:C997 - Program Fault: User-defined fault.'')
         (''User-defined major fault.'')
         (''User-defined action.'') True (''Program'')),
      (998, fault_entry 4 998 (''Major Fault T04:C998 - Program Fault: User-defined fault.'')
         (''User-defined major fault.'')
         (''User-defined action.'') True (''Program'')),
      (999, fault_entry 4 999 (''Major Fault T04:C999 - Program Fault: User-defined fault.'')
         (''User-defined major fault.'')
         (''User-defined action.'') True (''Program''))]"

definition faults_4 :: "(int \<times> FaultDescription) list" where
  "faults_4 = faults_4_a @ faults_4_b @ faults_4_c"

definition faults_6 :: "(int \<times> FaultDescription) list" where
  "faults_6 =
     [(1, fault_entry 6 1 (''Major Fault T06:C01 - Watchdog Fault: Task watchdog expired.  May have been caused by an infinite loop, a complex program, or a higher priority task.'')
         (''User task has not completed in the specified period. A program error caused an infinite loop, or the program is too complex to run as quickly as specified, or a higher priority task is keeping this task from finishing.'')
         (''Take one or more of these steps: '' @ [CHR 0xE2, CHR 0x80, CHR 0xA2] @ ''  Increase the task watchdog. '' @ [CHR 0xE2, CHR 0x80, CHR 0xA2] @ '' Shorten the execution time. '' @ [CHR 0xE2, CHR 0x80, CHR 0xA2] @ '' Make the priority of this task higher. '' @ [CHR 0xE2, CHR 0x80, CHR 0xA2] @ '' Simplify higher priority tasks. '' @ [CHR 0xE2, CHR 0x80, CHR 0xA2] @ '' Move some code to another controller.'') True (''Watchdog'')),
      (2, fault_entry 6 2 (''Minor Fault T06:C02 - Watchdog Fault: Periodic task overlap.  Task scheduled again before it finished executing.'')
         (''Periodic task overlap. The task was scheduled again before it finished executing.'')
         (''Make changes, such as simplify programs, lengthen the period, or raise the relative priority.'') False (''Watchdog'')),
      (3, fault_entry 6 3 (''Minor Fault T06:C03 - Watchdog Fault: Event task overlap. Task triggered again before it finished executing.'')
         (''Event task overlap. The task triggered again before it finished executing.'')
         (''Make changes such as simplify programs, lengthen the period, raise the relative priority, or slow the triggering event.'') False (''Watchdog''))]"

definition faults_7 :: "(int \<times> FaultDescription) list" where
  "faults_7 =
     [(40, fault_entry 7 40 (''Major Fault T07:C40 - Nonvolatile Fault: Store to nonvolatile memory failed.'')
         (''Store to nonvolatile memory failed.'')
         (''1. Try again to store the project to nonvolatile memory. 2.'' @ [CHR 0xC2, CHR 0xA0] @ ''If the project fails to store to nonvolatile memory, replace the memory card. If you are using a 1756-L7x controller, verify that the memory card is unlocked.'') True (''Flash Save'')),
      (41, fault_entry 7 41 (''Major Fault T07:C41 - Nonvolatile Fault: Load from nonvolatile memory failed due to controller type mismatch.'')
         (''Load from nonvolatile memory failed due to controller type mismatch.'')
         (''Change to a controller of the correct type or download the project and store it on the memory card.'') True (''Flash Save'')),
      (42, fault_entry 7 42 (''Major Fault T07:C42 - Nonvolatile Fault: Load from nonvolatile memory failed due to controller revision mismatch.'')
         (''Load from nonvolatile memory failed because the firmware revision of the project in nonvolatile memory does not match the firmware revision of the controller.'')
         (''Update the controller firmware to the same revision level as the project that is in nonvolatile memory.'') True (''Flash Save'')),
      (43, fault_entry 7 43 (''Major Fault T07:C43 - Nonvolatile Fault: Load from nonvolatile memory failed due to bad checksum.'')
         (''Load from nonvolatile memory failed due to bad checksum.'')
         (''Contact Rockwell Automation support.'') True (''Flash Save'')),
      (44, fault_entry 7 44 (''Major Fault T07:C44 - Nonvolatile Fault: Failed to restore processor memory.'')
         (''Failed to restore controller memory.'')
         (''Contact Rockwell Automation support.'') True (''Flash Save'')),
      (49, fault_entry 7 49 (''Minor Fault T07:C49 - Nonvolatile Fault: Controller was loaded from nonvolatile memory.'')
         (''When the controller loads a project from nonvolatile memory, it logs this minor fault and sets the FaultLog object, MinorFaultBits attribute, bit 7.'')
         (''Clear the fault.'') False (''Flash Save'')),
      (50, fault_entry 7 50 (''Major Fault T07:C50 - Nonvolatile Fault: Security certificate invalid.'')
         (''The log file certificate cannot be verified. When the controller starts up, it attempts to verify the log file key/certificate combination. Depending on the verification, the controller takes one of the following actions: '' @ [CHR 0xE2, CHR 0x80, CHR 0xA2] @ '' If the controller verifies the existing log file certificate, the controller continues with the existing log directory. '' @ [CHR 0xE2, CHR 0x80, CHR 0xA2] @ '' If the existing certificate cannot be verified, the controller logs a major fault and attempts to create a certificate. '' @ [CHR 0xE2, CHR 0x80, CHR 0xA2] @ '' If the controller successfully creates a certificate, it creates a backup log subdirectory, moves the existing files to that directory, and continues logging and signing with the new verification key and log file certificate. '' @ [CHR 0xE2, CHR 0x80, CHR 0xA2] @ ''  If the controller cannot create a certificate, the controller writes log entries to the existing log directory, but does not update signature files in that directory.'')
         (''Clear the fault and power cycle the controller. If the problem persists, contact Rockwell Automation support.'') True (''Flash Save''))]"

definition faults_8 :: "(int \<times> FaultDescription) list" where
  "faults_8 =
     [(1, fault_entry 8 1 (''Major Fault T8:C1 - Mode Change Fault: Mode Change inhibited due to download in progress.'')
         (''Attempted to place controller in Run mode with keyswitch during download.'')
         (''Wait for the download to complete and clear the fault.'') True (''Mode Change''))]"

definition faults_9 :: "(int \<times> FaultDescription) list" where
  "faults_9 =
     [(0, fault_entry 9 0 (''Minor Fault T09:C00 - Serial Port Fault: Unknown error while servicing serial port.'')
         (''Unknown error while servicing the serial port.'')
         (''Contact Rockwell Automation Technical Support.'') False (''Serial Port'')),
      (1, fault_entry 9 1 (''Minor Fault T09:C01 - Serial Port Fault: Problem with hardware control lines.'')
         (''The CTS line is not correct for the current configuration.'')
         (''Disconnect and reconnect the serial port cable to the controller. Make sure that the cable is wired correctly.'') False (''Serial Port'')),
      (2, fault_entry 9 2 (''Minor Fault T09:C02 - Serial Port Fault: Contents of poll list tag incorrect.'')
         (''Poll list error. A fault was detected with the DF1 master'' @ [CHR 0xE2, CHR 0x80, CHR 0x99] @ ''s poll list, such as specifying more stations than the size of the file, specifying more than 255 stations, trying to index past the end of the list, or polling the broadcast address (STN #255).'')
         (''Check for the following errors in the poll list. - Total number of stations is greater than the space in the poll list tag. - Total number of stations is greater than 255. - Current station pointer is greater than the end of the poll list tag. - A station number greater than 254 was encountered.'') False (''Serial Port'')),
      (3, fault_entry 9 3 (''Minor Fault T09:C03 - Serial Port Fault: Master protocol missing Active Station File.'')
         (''The RS-232 DFI Master Active Station tag is unspecified.'')
         (''Specify a tag to be used for the Active Station Tag in the System Protocol tab of the Controller Properties.'') False (''Serial Port'')),
      (5, fault_entry 9 5 (''Minor Fault T09:C05 - Serial Port Fault: DF1 slave poll timeout.'')
         (''DF1 slave poll timeout. The poll watchdog has timed out for slave. The master has not polled this controller in the specified amount of time.'')
         (''Determine and correct delay for polling.'') False (''Serial Port'')),
      (9, fault_entry 9 9 (''Minor Fault T09:C09 - Serial Port Fault: Modem contact lost.'')
         (''Modem contact lost. DCD or DSR control lines are not being received in proper sequence or state.'')
         (''Correct modem connection to the controller.'') False (''Serial Port'')),
      (10, fault_entry 9 10 (''Minor Fault T09:C10 - Serial Port Fault: Serial Port is unable to keep up with incoming data.'')
         (''Data has been dropped or lost from the serial port.'')
         (''Slow down the rate at which the initiator is sending data.'') False (''Serial Port'')),
      (11, fault_entry 9 11 (''Minor Fault T09:C11 - Serial Port Fault: ACL instruction channel operand is not a valid port.'')
         (''A channel operand in an ACL instruction channel is not a valid port.'')
         (''Correct the channel specified in the ACL instruction.'') False (''Serial Port''))]"

definition faults_10 :: "(int \<times> FaultDescription) list" where
  "faults_10 =
     [(10, fault_entry 10 10 (''Minor Fault T10:C10 - Battery Fault: Battery missing or needs to be replaced.'')
         (''The battery is missing or must be replaced.'')
         (''Install a new battery.'') False (''Battery'')),
      (11, fault_entry 10 11 (''Minor Fault T10:C11 - Battery Fault: Safety partner battery missing or needs to be replaced.'')
         (''The battery for the safety partner is missing or must be replaced.'')
         (''Install a new battery.'') False (''Battery'')),
      (12, fault_entry 10 12 (''Minor Fault T10:C12 - Energy Storage Fault: Energy Storage Module not present.'')
         (''The energy storage module is not installed. If the controller is powered-down, the WallClockTime attribute and program are not maintained.'')
         (''Install an ESM in the controller.'') False (''Battery'')),
      (13, fault_entry 10 13 (''Minor Fault T10:C13 - Energy Storage Fault: Energy Storage Module incompatible with controller type.'')
         (''The installed energy storage module is not compatible with the controller.'')
         (''Replace the installed ESM with one that is compatible with the controller.'') False (''Battery'')),
      (14, fault_entry 10 14 (''Minor Fault T10:C14 - Energy Storage Fault: Energy Storage Module hardware failure.'')
         (''The energy storage module must be replaced due to a hardware fault. It is not capable of maintaining the WallClockTime attribute or controller program at power down.'')
         (''Replace the ESM.'') False (''Battery'')),
      (15, fault_entry 10 15 (''Minor Fault T10:C15 - Energy Storage Fault: Energy Storage Module energy low.'')
         (''The energy storage module cannot store enough energy to maintain the WallClockTime attribute or the controller program at power-down.'')
         (''Replace the ESM.'') False (''Battery'')),
      (16, fault_entry 10 16 (''Minor Fault T10:C16 - UPS Fault: UPS missing or not ready.'')
         (''The uninterruptible power supply is missing or not ready.'')
         (''Either: '' @ [CHR 0xE2, CHR 0x80, CHR 0xA2] @ '' Install the UPS. '' @ [CHR 0xE2, CHR 0x80, CHR 0xA2] @ '' Check the UPS to make sure it is adequately charged to provide backup power if there is a power loss.'') False (''Battery'')),
      (17, fault_entry 10 17 (''Minor Fault T10:C17 - UPS Fault: UPS battery failure.'')
         (''The uninterruptible power supply battery has failed and must be replaced.'')
         (''Replace the battery in the UPS.'') False (''Battery''))]"

definition faults_11_a :: "(int \<times> FaultDescription) list" where
  "faults_11_a =
     [(1, fault_entry 11 1 (''Major Fault T11:C01 - Motion Fault: Actual position of axis exceeded positive overtravel limit.'')
         (''The actual position of the axis has exceeded the positive overtravel limit.'')
         (''Move axis in negative direction until the position is within the overtravel limit and then execute Motion Axis Fault Reset.'') True (''Motion'')),
      (2, fault_entry 11 2 (''Major Fault T11:C02 - Motion Fault: Actual position of axis exceeded negative overtravel limit.'')
         (''The actual position of the axis has exceeded the negative overtravel limit.'')
         (''Move axis in positive direction until position is within the overtravel limit and then run Motion Axis Fault Reset.'') True (''Motion'')),
      (3, fault_entry 11 3 (''Major Fault T11:C03 - Motion Fault: Actual position exceeded position error tolerance.'')
         (''The actual position the axis has exceeded the position error tolerance.'')
         (''Move the position within tolerance, then run Motion Axis Fault Reset.'') True (''Motion'')),
      (4, fault_entry 11 4 (''Major Fault T11:C04 - Motion Fault: Encode channel A, B, or Z connection failed.'')
         (''Encoder channel A, B, or Z connection is broken.'')
         (''Reconnect the encoder channel, then run Motion Axis Fault Reset.'') True (''Motion'')),
      (5, fault_entry 11 5 (''Major Fault T11:C05 - Motion Fault: Encoder noise event detected, or encoder signals not in quadrature.'')
         (''Encoder noise event detected or the encoder signals are not in the quadrature.'')
         (''Fix encoder cabling, then run Motion Axis Fault Reset.'') True (''Motion'')),
      (6, fault_entry 11 6 (''Major Fault T11:C06 - Motion Fault: Drive fault.'')
         (''Drive fault detected.'')
         (''Clear Drive Fault then run Motion Axis Fault Reset.'') True (''Motion'')),
      (7, fault_entry 11 7 (''Major Fault T11:C07 - Motion Fault: Synchronous connection to servo module failed.'')
         (''Synchronous connection to the servo module failed.'')
         (''Try these steps: 1. First, run Motion Axis Fault Reset. 2. If that does not work, pull out the servo module and plug it back in. 3. If this does not work, replace the servo module.'') True (''Motion'')),
      (8, fault_entry 11 8 (''Major Fault T11:C08 - Motion Fault: Hardware failure in servo module.'')
         (''Hardware failure detected in the servo module.'')
         (''Replace the module.'') True (''Motion'')),
      (9, fault_entry 11 9 (''Major Fault T11:C09 - Motion Fault: Asynchronous connection to servo module failed.'')
         (''Asynchronous connection to the servo module failed.'')
         (''Try these steps: 1. First, run Motion Axis Fault Reset. 2. If that does not work, pull out the servo module and plug it back in. 3. If this does not work, replace the servo module.'') True (''Motion'')),
      (10, fault_entry 11 10 (''Major Fault T11:C10 - Motion Fault: Motor fault detected.'')
         (''Motor fault detected.'')
         (''See the DriveFaults axis tag for more information.'') True (''Motion'')),
      (11, fault_entry 11 11 (''Major Fault T11:C11 - Motion Fault: Motor thermal fault detected.'')
         (''Motor thermal fault detected.'')
         (''See the DriveFaults axis tag for more information.'') True (''Motion'')),
      (12, fault_entry 11 12 (''Major Fault T11:C12 - Motion Fault: Drive thermal fault detected.'')
         (''Drive thermal fault detected.'')
         (''See the DriveFaults axis tag for more information.'') True (''Motion'')),
      (13, fault_entry 11 13 (''Major Fault T11:C13 - Motion Fault: SERCOS comm fault detected.'')
         (''SERCOS communication fault detected.'')
         (''Verify the integrity of the SERCOS fiber-optic ring network and the devices on it.'') True (''Motion'')),
      (14, fault_entry 11 14 (''Major Fault T11:C14 - Motion Fault: Drive Enable Input 1) was inactive prior during an attempt to enable the drive, or 2) transitioned to inactive while the drive was enabled.'')
         (''Drive enable input was inactive during an attempt to enable the drive or transitioned to inactive while the drive was enabled.'')
         (''Re-enable the drive enable input and clear the fault.'') True (''Motion'')),
      (15, fault_entry 11 15 (''Major Fault T11:C15 - Motion Fault: Drive Phase Loss fault detected.'')
         (''Drive phase loss fault detected.'')
         (''Restore full power connection to the drive and clear the fault.'') True (''Motion'')),
      (16, fault_entry 11 16 (''Major Fault T11:C16 - Motion Fault: A Guard Fault has been detected by the drive.'')
         (''DriveGuard'' @ [CHR 0xC2, CHR 0xAE] @ '' fault detected.'')
         (''See the GuardFaults axis tag for more information.'') True (''Motion''))]"

definition faults_11_b :: "(int \<times> FaultDescription) list" where
  "faults_11_b =
     [(32, fault_entry 11 32 (''Major Fault T11:C32 - Motion Fault: Motion Task overlap.  Coarse update rate too high.'')
         (''The motion task experienced an overlap. The coarse update rate is too high.'')
         (''The group'' @ [CHR 0xE2, CHR 0x80, CHR 0x99] @ ''s course update rate is too high to maintain correct operation. Clear the group fault tag, raise the group'' @ [CHR 0xE2, CHR 0x80, CHR 0x99] @ ''s update rate, and then clear the major fault.'') True (''Motion'')),
      (33, fault_entry 11 33 (''Major Fault T11:C33 - Motion Fault: Coordinated System Time reference has been lost.'')
         (''Coordinated System Time reference has been lost.'')
         (''Check the condition of the CST master in the backplane. '') True (''Motion''))]"

definition faults_11 :: "(int \<times> FaultDescription) list" where
  "faults_11 = faults_11_a @ faults_11_b"

definition faults_12 :: "(int \<times> FaultDescription) list" where
  "faults_12 =
     [(32, fault_entry 12 32 (''Major Fault T12:C32 - Safety Fault: Disqualified secondary became primary.'')
         (''A disqualified secondary controller cycled power and no partner chassis or controller was found upon power-up.'')
         (''Verify the following: '' @ [CHR 0xE2, CHR 0x80, CHR 0xA2] @ ''  A partner chassis is connected. '' @ [CHR 0xE2, CHR 0x80, CHR 0xA2] @ '' Power is applied to both redundant chassis. '' @ [CHR 0xE2, CHR 0x80, CHR 0xA2] @ '' Partner controllers have the same catalog number, slot number, and firmware revision.'') True (''Redundancy'')),
      (33, fault_entry 12 33 (''Major Fault T12:C33 - Safety Fault: No partner found after switchover.'')
         (''An unpartnered controller has been identified in the new primary chassis after a switchover.'')
         (''Use these methods: '' @ [CHR 0xE2, CHR 0x80, CHR 0xA2] @ '' Remove the unpartnered controller and troubleshoot the cause of the switchover. '' @ [CHR 0xE2, CHR 0x80, CHR 0xA2] @ '' Add a partner controller to the secondary chassis, troubleshoot the cause of the switchover, and synchronize the system.'') True (''Redundancy'')),
      (34, fault_entry 12 34 (''Major Fault T12:C34 - Safety Fault: Keyswitch Positions of Primary and Secondary Controllers Mismatched'')
         (''Before switchover, a keyswitch mismatch was present. The old primary controller was in Program mode and the keyswitch of the secondary partner was in the Run position.  Instead of the switchover transitioning the new primary controller to go to Run mode, the new primary controller transitions to a faulted state after the switchover.'')
         (''Use these methods: '' @ [CHR 0xE2, CHR 0x80, CHR 0xA2] @ '' Change the keyswitches from Run mode to Program mode and back to Run mode twice to clear the fault. Make sure that the keyswitch positions for both controllers in a partnered set match. '' @ [CHR 0xE2, CHR 0x80, CHR 0xA2] @ '' Use the programming software to go online with the controllers. Then, clear the faults and change the keyswitch positions for both the controllers in the partnered set to Run.'') True (''Redundancy''))]"

definition faults_13 :: "(int \<times> FaultDescription) list" where
  "faults_13 =
     [(21, fault_entry 13 21 (''Minor Fault T13:C21 - Real Time Clock Fault: Wall Clock Time out of range.'')
         (''The WallClockTime is out of range.'')
         (''Verify the WallClockTime is set to the correct date/time.'') False (''Real Time Clock''))]"

definition faults_14 :: "(int \<times> FaultDescription) list" where
  "faults_14 =
     [(1, fault_entry 14 1 (''Task Watchdog Expired'')
         (''The task watchdog expired because of these reasons: '' @ [CHR 0xE2, CHR 0x80, CHR 0xA2] @ '' The user task did not complete in a specified period of time. '' @ [CHR 0xE2, CHR 0x80, CHR 0xA2] @ '' A program error caused an infinite loop. '' @ [CHR 0xE2, CHR 0x80, CHR 0xA2] @ '' The program is too complex to execute as quickly as specified. '' @ [CHR 0xE2, CHR 0x80, CHR 0xA2] @ '' A higher priority task is keeping this task from finishing. '' @ [CHR 0xE2, CHR 0x80, CHR 0xA2] @ '' The safety partner has been removed.'')
         (''(GuardLogix'' @ [CHR 0xC2, CHR 0xAE] @ '' 5580 and Compact GuardLogix'' @ [CHR 0xC2, CHR 0xAE] @ '' 5380 only). Clear the fault. Safety memory is reinitialized and the safety task begins executing. Reinsert the safety partner if it was removed.  (GuardLogix'' @ [CHR 0xC2, CHR 0xAE] @ '' 5570 and Compact GuardLogix'' @ [CHR 0xC2, CHR 0xAE] @ '' 5370 only). Clear the fault. If a safety task signature exists, safety memory is reinitialized and the safety task begins executing. If a safety task signature does not exist, you must redownload the program to allow the safety task to run. Reinsert the safety partner if it was removed.'') True (''Nonrecoverable'')),
      (2, fault_entry 14 2 (''Major Fault T14:C02 - Safety Task Fault: An error exists in a routine of the Safety task.'')
         (''An error exists in a routine of the safety task.'')
         (''Correct the error in the user-program logic.'') True (''Recoverable'')),
      (3, fault_entry 14 3 (''Major Fault T14:C03 - Safety Task Fault: Safety partner is missing.'')
         (''The safety partner is missing.'')
         (''Install a compatible safety partner and clear the fault. A download may be required. '') True (''Nonrecoverable'')),
      (4, fault_entry 14 4 (''Major Fault T14:C04 - Safety Task Fault: Safety partner is unavailable.'')
         (''The safety partner is unavailable.'')
         (''Install a compatible safety partner and clear the fault. A download may be required. '') True (''Nonrecoverable'')),
      (5, fault_entry 14 5 (''Major Fault T14:C05 - Safety Task Fault: Safety partner hardware is incompatible.'')
         (''The safety partner hardware is incompatible.'')
         (''Install a compatible safety partner and clear the fault. A download may be required. '') True (''Nonrecoverable'')),
      (6, fault_entry 14 6 (''Major Fault T14:C06 - Safety Task Fault: Safety partner firmware is incompatible.'')
         (''The safety partner firmware is incompatible.'')
         (''Update the safety partner so that the firmware major and minor revisions match the primary controller. A download may be required. '') True (''Nonrecoverable'')),
      (7, fault_entry 14 7 (''Major Fault T14:C07 - Safety Task Fault: Safety task is inoperable.'')
         (''The safety task is inoperable. This fault occurs when the safety logic is invalid, such as for these reasons: '' @ [CHR 0xE2, CHR 0x80, CHR 0xA2] @ '' A mismatch in logic exists between the primary controller and safety partners. '' @ [CHR 0xE2, CHR 0x80, CHR 0xA2] @ '' A watchdog timeout occurs. '' @ [CHR 0xE2, CHR 0x80, CHR 0xA2] @ '' Memory is corrupt.'')
         (''(GuardLogix'' @ [CHR 0xC2, CHR 0xAE] @ '' 5580 only). Clear the fault and download the application.  (GuardLogix'' @ [CHR 0xC2, CHR 0xAE] @ '' 5570 only). Clear the fault. If a safety task signature exists, safety memory is reinitialized via the safety task signature and the safety task begins executing. If a safety task signature does not exist, you must download the program again to allow the safety task to run.'') True (''Nonrecoverable'')),
      (8, fault_entry 14 8 (''Major Fault T14:C08 - Safety Task Fault: Safety partner's time is not synchronized with primary.'')
         (''Coordinated system time (CST) not found. The safety partner's time is not synchronized with the primary.'')
         (''Clear the fault. Configure a device to be the CST master.'') True (''Nonrecoverable'')),
      (9, fault_entry 14 9 (''Major Fault T14:C09 - Safety Task Fault: A non-recoverable fault has occurred in safety partner.'')
         (''The safety partner detected a nonrecoverable major fault. Diagnostic information can be recovered.'')
         (''Insert a memory card in the safety partner and restart the safety partner to write diagnostic information to the memory card. Then clear the fault and download the application.'' @ [CHR 0xC2, CHR 0xA0] @ ''Contact Rockwell Automation support.'') True (''Nonrecoverable'')),
      (10, fault_entry 14 10 (''Safety Fault'')
         (''A cross-compare fault was detected between the two controllers.'')
         (''Clear the fault and download the application. If the problem persists, replace the controller.'') True (''Nonrecoverable'')),
      (11, fault_entry 14 11 (''Safety Task Fault'')
         (''The safety task failed to recover during a loss of redundancy. The maximum safety mute time was exceeded.'')
         (''Clear the fault and download the application. If the problem persists, replace the controller.'') True (''Nonrecoverable'')),
      (12, fault_entry 14 12 (''Minor Fault T14:C12 - Safety Fault: Safety partner detected when the project safety level is SIL2/PLd.'')
         (''The safety partner was detected when the project safety level is SIL2/PLd.'')
         (''If your desired safety level is SIL2/PLd, remove the safety partner (since it does not participate in a SIL2/PLd configuration). If your desired safety level is SIL3/PLe, change the project safety level to SIL3/PLe.'') False (''Safety'')),
      (13, fault_entry 14 13 (''Safety Fault'')
         (''A data integrity error occurred between the primary and secondary chassis.'')
         (''Clear the fault and download the application. If the problem persists, replace the controller.'') True (''Nonrecoverable''))]"

definition faults_16 :: "(int \<times> FaultDescription) list" where
  "faults_16 =
     [(1, fault_entry 16 1 (''Communication Configuration Fault'')
         (''The controller log is full and data is being overwritten.'')
         (''Configure the controller to write buffered entries to the memory card when its internal buffer is 80% full. or Command the controller to write buffered entries to removable media with an MSG instruction.'') False (''Communication''))]"

definition faults_17_a :: "(int \<times> FaultDescription) list" where
  "faults_17_a =
     [(0, fault_entry 17 0 (''Minor Fault T17:C00 - Diagnostic Fault: A runtime diagnostic failed to complete, please contact technical support with the fault type and fault code.'')
         (''An internal controller diagnostic failed.'')
         ([]) False (''Diagnostic'')),
      (1, fault_entry 17 1 (''Minor Fault T17:C01 - Diagnostic Fault: A runtime diagnostic failed to complete, please contact technical support with the fault type and fault code.'')
         (''An internal controller diagnostic failed.'')
         (''Contact Rockwell Automation Technical Support with the fault type and fault code logged.'') False (''Diagnostic'')),
      (2, fault_entry 17 2 (''Minor Fault T17:C02 - Diagnostic Fault: A runtime diagnostic failed to complete, please contact technical support with the fault type and fault code.'')
         (''An internal controller diagnostic failed.'')
         (''Contact Rockwell Automation Technical Support with the fault type and fault code logged.'') False (''Diagnostic'')),
      (3, fault_entry 17 3 (''Minor Fault T17:C03 - Diagnostic Fault: A runtime diagnostic failed to complete, please contact technical support with the fault type and fault code.'')
         (''An internal controller diagnostic failed.'')
         (''Contact Rockwell Automation Technical Support with the fault type and fault code logged.'') False (''Diagnostic'')),
      (4, fault_entry 17 4 (''Minor Fault T17:C04 - Diagnostic Fault: A runtime diagnostic failed to complete, please contact technical support with the fault type and fault code.'')
         (''An internal controller diagnostic failed.'')
         (''Contact Rockwell Automation Technical Support with the fault type and fault code logged.'') False (''Diagnostic'')),
      (5, fault_entry 17 5 (''Minor Fault T17:C05 - Diagnostic Fault: A runtime diagnostic failed to complete, please contact technical support with the fault type and fault code.'')
         (''An internal controller diagnostic failed.'')
         (''Contact Rockwell Automation Technical Support with the fault type and fault code logged.'') False (''Diagnostic'')),
      (6, fault_entry 17 6 (''Minor Fault T17:C06 - Diagnostic Fault: A runtime diagnostic failed to complete, please contact technical support with the fault type and fault code.'')
         (''An internal controller diagnostic failed.'')
         (''Contact Rockwell Automation Technical Support with the fault type and fault code logged.'') False (''Diagnostic'')),
      (7, fault_entry 17 7 (''Minor Fault T17:C07 - Diagnostic Fault: A runtime diagnostic failed to complete, please contact technical support with the fault type and fault code.'')
         (''An internal controller diagnostic failed.'')
         (''Contact Rockwell Automation Technical Support with the fault type and fault code logged.'') False (''Diagnostic'')),
      (8, fault_entry 17 8 (''Minor Fault T17:C08 - Diagnostic Fault: A runtime diagnostic failed to complete, please contact technical support with the fault type and fault code.'')
         (''An internal controller diagnostic failed.'')
         (''Contact Rockwell Automation Technical Support with the fault type and fault code logged.'') False (''Diagnostic'')),
      (9, fault_entry 17 9 (''Minor Fault T17:C09 - Diagnostic Fault: A runtime diagnostic failed to complete, please contact technical support with the fault type and fault code.'')
         (''An internal controller diagnostic failed.'')
         (''Contact Rockwell Automation Technical Support with the fault type and fault code logged.'') False (''Diagnostic'')),
      (10, fault_entry 17 10 (''Minor Fault T17:C10 - Diagnostic Fault: A runtime diagnostic failed to complete, please contact technical support with the fault type and fault code.'')
         (''An internal controller diagnostic failed.'')
         (''Contact Rockwell Automation Technical Support with the fault type and fault code logged.'') False (''Diagnostic'')),
      (11, fault_entry 17 11 (''Minor Fault T17:C11 - Diagnostic Fault: A runtime diagnostic failed to complete, please contact technical support with the fault type and fault code.'')
         (''An internal controller diagnostic failed.'')
         (''Contact Rockwell Automation Technical Support with the fault type and fault code logged.'') False (''Diagnostic'')),
      (12, fault_entry 17 12 (''Minor Fault T17:C12 - Diagnostic Fault: A runtime diagnostic failed to complete, please contact technical support with the fault type and fault code.'')
         (''An internal controller diagnostic failed.'')
         (''Contact Rockwell Automation Technical Support with the fault type and fault code logged.'') False (''Diagnostic'')),
      (13, fault_entry 17 13 (''Minor Fault T17:C13 - Diagnostic Fault: A runtime diagnostic failed to complete, please contact technical support with the fault type and fault code.'')
         (''An internal controller diagnostic failed.'')
         (''Contact Rockwell Automation Technical Support with the fault type and fault code logged.'') False (''Diagnostic'')),
      (14, fault_entry 17 14 (''Minor Fault T17:C14 - Diagnostic Fault: A runtime diagnostic failed to complete, please contact technical support with the fault type and fault code.'')
         (''An internal controller diagnostic failed.'')
         (''Contact Rockwell Automation Technical Support with the fault type and fault code logged.'') False (''Diagnostic'')),
      (15, fault_entry 17 15 (''Minor Fault T17:C15 - Diagnostic Fault: A runtime diagnostic failed to complete, please contact technical support with the fault type and fault code.'')
         (''An internal controller diagnostic failed.'')
         (''Contact Rockwell Automation Technical Support with the fault type and fault code logged.'') False (''Diagnostic''))]"

definition faults_17_b :: "(int \<times> FaultDescription) list" where
  "faults_17_b =
     [(16, fault_entry 17 16 (''Minor Fault T17:C16 - Diagnostic Fault: A runtime diagnostic failed to complete, please contact technical support with the fault type and fault code.'')
         (''An internal controller diagnostic failed.'')
         (''Contact Rockwell Automation Technical Support with the fault type and fault code logged.'') False (''Diagnostic'')),
      (17, fault_entry 17 17 (''Minor Fault T17:C17 - Diagnostic Fault: A runtime diagnostic failed to complete, please contact technical support with the fault type and fault code.'')
         (''An internal controller diagnostic failed.'')
         (''Contact Rockwell Automation Technical Support with the fault type and fault code logged.'') False (''Diagnostic'')),
      (18, fault_entry 17 18 (''Minor Fault T17:C18 - Diagnostic Fault: A runtime diagnostic failed to complete, please contact technical support with the fault type and fault code.'')
         (''An internal controller diagnostic failed.'')
         (''Contact Rockwell Automation Technical Support with the fault type and fault code logged.'') False (''Diagnostic'')),
      (19, fault_entry 17 19 (''Minor Fault T17:C19 - Diagnostic Fault: A runtime diagnostic failed to complete, please contact technical support with the fault type and fault code.'')
         (''An internal controller diagnostic failed. Upload and save the program before the controller is powered down. '')
         (''Contact Rockwell Automation Technical Support with the fault type and fault code logged.'') False (''Diagnostic'')),
      (20, fault_entry 17 20 (''Minor Fault T17:C20 - Diagnostic Fault: A runtime diagnostic failed to complete, please contact technical support with the fault type and fault code.'')
         (''An internal controller diagnostic failed.'')
         (''Contact Rockwell Automation Technical Support with the fault type and fault code logged.'') False (''Diagnostic'')),
      (21, fault_entry 17 21 (''Minor Fault T17:C21 - Diagnostic Fault: A runtime diagnostic failed to complete, please contact technical support with the fault type and fault code.'')
         (''An internal controller diagnostic failed. Upload and save program before the controller is powered down. '')
         (''Contact Rockwell Automation Technical Support with the fault type and fault code logged.'') False (''Diagnostic'')),
      (22, fault_entry 17 22 (''Minor Fault T17:C22 - Diagnostic Fault: A runtime diagnostic failed to complete, please contact technical support with the fault type and fault code.'')
         (''An internal controller diagnostic failed.'')
         (''Contact Rockwell Automation Technical Support with the fault type and fault code logged.'') False (''Diagnostic'')),
      (23, fault_entry 17 23 (''Minor Fault T17:C23 - Diagnostic Fault: A runtime diagnostic failed to complete, please contact technical support with the fault type and fault code.'')
         (''An internal controller diagnostic failed.'')
         (''Contact Rockwell Automation Technical Support with the fault type and fault code logged.'') False (''Diagnostic'')),
      (24, fault_entry 17 24 (''Minor Fault T17:C24 - Diagnostic Fault: A runtime diagnostic failed to complete, please contact technical support with the fault type and fault code.'')
         (''An internal controller diagnostic failed.'')
         (''Contact Rockwell Automation Technical Support with the fault type and fault code logged.'') False (''Diagnostic'')),
      (25, fault_entry 17 25 (''Minor Fault T17:C25 - Diagnostic Fault: A runtime diagnostic failed to complete, please contact technical support with the fault type and fault code.'')
         (''An internal controller diagnostic failed.'')
         (''Contact Rockwell Automation Technical Support with the fault type and fault code logged.'') False (''Diagnostic'')),
      (26, fault_entry 17 26 (''Minor Fault T17:C26 - Diagnostic Fault: A runtime diagnostic failed to complete, please contact technical support with the fault type and fault code.'')
         (''An internal controller diagnostic failed. Upload and save the program before the controller is powered down. '')
         (''Contact Rockwell Automation Technical Support with the fault type and fault code logged.'') False (''Diagnostic'')),
      (27, fault_entry 17 27 (''Minor Fault T17:C27 - Diagnostic Fault: A runtime diagnostic failed to complete, please contact technical support with the fault type and fault code.'')
         (''An internal controller diagnostic failed. Upload and save the program before the controller is powered down. '')
         (''Contact Rockwell Automation Technical Support with the fault type and fault code logged.'') False (''Diagnostic'')),
      (28, fault_entry 17 28 (''Minor Fault T17:C28 - Diagnostic Fault: A runtime diagnostic failed to complete, please contact technical support with the fault type and fault code.'')
         (''An internal controller diagnostic failed. Upload and save the program before the controller is powered down. '')
         (''Contact Rockwell Automation Technical Support with the fault type and fault code logged.'') False (''Diagnostic'')),
      (29, fault_entry 17 29 (''Minor Fault T17:C29 - Diagnostic Fault: A runtime diagnostic failed to complete, please contact technical support with the fault type and fault code.'')
         (''An internal controller diagnostic failed. Upload and save the program before the controller is powered down. '')
         (''Contact Rockwell Automation Technical Support with the fault type and fault code logged.'') False (''Diagnostic'')),
      (30, fault_entry 17 30 (''Minor Fault T17:C30 - Diagnostic Fault: A runtime diagnostic failed to complete, please contact technical support with the fault type and fault code.'')
         (''An internal controller diagnostic failed. Upload and save the program before the controller is powered down. '')
         (''Contact Rockwell Automation Technical Support with the fault type and fault code logged.'') False (''Diagnostic'')),
      (31, fault_entry 17 31 (''Minor Fault T17:C31 - Diagnostic Fault: A runtime diagnostic failed to complete, please contact technical support with the fault type and fault code.'')
         (''An internal controller diagnostic failed. Upload and save the program before the controller is powered down. '')
         (''Contact Rockwell Automation Technical Support with the fault type and fault code logged.'') False (''Diagnostic''))]"

definition faults_17_c :: "(int \<times> FaultDescription) list" where
  "faults_17_c =
     [(32, fault_entry 17 31 (''Major Fault T17:C34 - Diagnostic Fault: Controller internal temperature has exceeded operating limit.'')
         (''Controller internal temperature has exceeded the operating limit.'')
         (''Take measures to reduce the ambient temperature of the module. Follow the recommended limits for the ambient (inlet) temperature and apply the required clearance around the chassis.'') True (''Diagnostic'')),
      (35, fault_entry 17 35 (''Minor Fault T17:C35 - Diagnostic Fault: Controller internal temperature is approaching operating limit.'')
         (''Controller internal temperature is approaching the operating limit.'')
         (''Take measures to reduce the ambient temperature of the module. Follow the recommended limits for the ambient (inlet) temperature and apply the required clearance around the chassis.'') False (''Diagnostic'')),
      (36, fault_entry 17 36 (''Minor Fault T17:C36 - Diagnostic Fault: A fan has been removed, or is not maintaining desired speed.'')
         (''A fan has been removed, or is not maintaining the desired speed.'')
         (''Check the device fans for connection or maintenance issues.'') False (''Diagnostic'')),
      (37, fault_entry 17 37 (''Major Fault T17:C37 - Diagnostic Fault: Controller has recovered from an internal temperature fault.'')
         (''The controller has recovered from an internal temperature fault.'')
         (''Generated when the controller recovers from automatic shutdown. Shutdown occurs when the module temperature exceeds the temperature threshold of the preservation fault. When the temperature decreases to a suitable level, this re-enables the controller voltages and generates the Type 17, Code 37 fault.'') True (''Runtime Diagnostic''))]"

definition faults_17 :: "(int \<times> FaultDescription) list" where
  "faults_17 = faults_17_a @ faults_17_b @ faults_17_c"

definition faults_18 :: "(int \<times> FaultDescription) list" where
  "faults_18 =
     [(1, fault_entry 18 1 (''Major Fault T18:C01 - CIP Motion Fault: A standard Initialization Fault has been detected by the drive.'')
         (''The drive did not initialize correctly.'')
         (''To determine corrective action, see the Initialization Fault attributes. The corresponding bit indicates the cause of the fault. 1: Boot Block Checksum Fault 2: Main Block Checksum Fault 3: Nonvolatile Memory Checksum Fault'') True (''Integrated motion on the EtherNet/IP'' @ [CHR 0xE2, CHR 0x84, CHR 0xA2] @ '' network'')),
      (2, fault_entry 18 2 (''Major Fault T18:C02 - CIP Motion Fault: A manufacturer specific Initialization Fault has been detected by the drive.'')
         (''The drive did not initialized correctly. This fault indicates a manufacturer-specific initialization fault.'')
         (''To determine corrective action, see the Initialization Fault Mfg attributes. The corresponding bit indicates the cause of the fault. 1: Feedback Data Corruption 2: Feedback Data Range 3: Feedback Communication Startup 4: Feedback Absolute Overspeed 5: Feedback Absolute Power Off Travel 6: Feedback Absolute Startup Speed 7: Commutation Offset Uninitialized 12: Invalid FPGA Image 14: Invalid Safety Firmware 15: Power Board 16: Illegal Option Card 17: Option Storage Checksum 19: Module Voltage Mismatch 20: Unknown Module 21: Factory Configuration Error 22: Illegal Address 23: Series Mismatch 24: Open Slot'') True (''CIP Motion'')),
      (3, fault_entry 18 3 (''Major Fault T18:C03 - CIP Motion Fault: A standard Axis Fault has been detected by the drive.'')
         (''There is a fault on the physical axis.'')
         (''To determine corrective action, see the Axis Fault attributes. The corresponding bit indicates the cause of the fault.'') True (''CIP Motion'')),
      (4, fault_entry 18 4 (''Major Fault T18:C04 - CIP Motion Fault: A manufacturer specific Axis Fault has been detected by the drive.'')
         (''There is a fault on the physical axis. This fault indicates a manufacturer-specific axis fault'')
         (''To determine corrective action, see the Axis Fault Mfg attributes. The corresponding bit indicates the cause of the fault.'') True (''CIP Motion'')),
      (5, fault_entry 18 5 (''Major Fault T18:C05 - CIP Motion Fault: A Motion Fault has been detected by the drive.'')
         (''A motion fault detected.'')
         (''To determine corrective action, see the Motion Fault attribute and Motion Fault bits for details about the fault that occurred.'') True (''CIP Motion'')),
      (6, fault_entry 18 6 (''Major Fault T18:C06 - CIP Motion Fault: A Module Fault has been detected by the drive.'')
         (''A motion drive fault detected. Usually the fault affects all axes that are associated with the module and all associated axes are shut down.'')
         (''Reconfigure the faulted motion module to correct the fault.'') True (''CIP Motion'')),
      (7, fault_entry 18 7 (''Major Fault T18:C07 - CIP Motion Fault: Group Fault'')
         (''A motion group fault detected. Usually the fault affects all axes that are associated with a motion group.'')
         (''Reconfigure the entire motion subsystem to correct the fault. See the Group Fault attribute if details about the fault are needed.'') True (''CIP Motion'')),
      (8, fault_entry 18 8 (''Major Fault T18:C08 - CIP Motion Fault: A Configuration Fault has been detected by the drive.'')
         (''A fault occurred during the configuration of a motion drive. Typically, this fault occurs when an attempt to update an axis configuration attribute of a drive was unsuccessful.'')
         (''To determine the corrective action, see the Configuration Fault in the Attribute Error Code and Attribute Error ID attributes associated with the motion or 1756-ENxT module.'') True (''CIP Motion'')),
      (9, fault_entry 18 9 (''Major Fault T18:C09 - CIP Motion Fault: A standard APR Fault has been detected by the drive.'')
         (''An Absolute Position Recovery (APR) fault occurred and the absolute position of the axis cannot be recovered.'')
         (''To determine the corrective action, see the APR Fault attributes. The corresponding bit indicates the cause of the fault. 1: Memory Write Error 2: Memory Read Error 3: Feedback Serial Number Mismatch 4: Buffer Allocation Fault 5: Scaling Configuration Changed 6: Feedback Mode Changed 7: Feedback Integrity Loss'') True (''CIP Motion'')),
      (10, fault_entry 18 10 (''Major Fault T18:C10 - CIP Motion Fault: A manufacturer specific APR Fault has been detected by the drive.'')
         (''An Absolute Position Recovery (APR) Fault occurred and the absolute position of the axis cannot be recovered. This fault indicates a manufacturer-specific APR fault.'')
         (''To determine the corrective action, see the APR Fault Mfg attributes.  The corresponding bit indicates the cause of the fault.'') True (''CIP Motion''))]"

definition faults_19 :: "(int \<times> FaultDescription) list" where
  "faults_19 =
     [(1, fault_entry 19 1 (''Minor Fault T19:C01 - Ethernet Port Fault'')
         (''The controller detected that another device on the network already has the IP address of the controller. '')
         (''Do one of the following: '' @ [CHR 0xE2, CHR 0x80, CHR 0xA2] @ '' Identify the device with the same IP address as the controller and change its IP address. '' @ [CHR 0xE2, CHR 0x80, CHR 0xA2] @ '' Change the IP address of the controller, so that it does not conflict with any other device.'') False (''Ethernet Port'')),
      (2, fault_entry 19 2 (''Minor Fault T19:C02 - Ethernet Port Fault'')
         (''The DHCP server replied with an invalid IP address.'')
         (''Check the DHCP server configuration.'') False (''Ethernet Port'')),
      (3, fault_entry 19 3 (''Minor Fault T19:C03 - Ethernet Port Fault'')
         (''The DHCP lease was lost or its renewal failed.'')
         (''Check the DHCP server availability and configuration.'') False (''Ethernet Port'')),
      (4, fault_entry 19 4 (''Minor Fault T19:C04 - Ethernet Port Fault'')
         (''0x00000000'')
         (''Investigate network traffic on the Ethernet port and clear the fault. If problems persist, contact Rockwell Automation Technical Support for further assistance.'') False (''Ethernet Port''))]"

definition faults_20 :: "(int \<times> FaultDescription) list" where
  "faults_20 =
     [(1, fault_entry 20 1 (''Major Fault T20:C01 - License Fault: License is missing or invalid.'')
         (''A required license is missing or expired during the transition to Run or Test mode.'')
         (''Insert a CmCard which contains all licenses that are required by the project in the controller.'') True (''License Protection'')),
      (2, fault_entry 20 2 (''Minor Fault T20:C02 - License Fault: License has expired.'')
         (''The License Based Execution Protection license that is stored on the CmCard has the correct license, but it has expired.'')
         (''Obtain a CmCard with the correct unexpired license and insert it into the controller.'') False (''License Protection''))]"

definition faults_21 :: "(int \<times> FaultDescription) list" where
  "faults_21 =
     [(1, fault_entry 21 1 (''Minor Fault T21:C01 - Alarm Fault: Evaluating alarms exceeded the evaluation period.'')
         (''Evaluating alarms exceeded the evaluation period.'')
         (''If the fault occurs for a controller that experiences a regular active alarm rate (not alarm burst) for tag-based alarms during system commissioning, then reduce the number of the alarms in the project. Otherwise, the fault is an indicator for the operator that tag-based alarm state information can be older than the evaluation period (only 500 ms evaluation period). '') False (''Alarm'')),
      (2, fault_entry 21 2 (''Minor Fault T21:C02 - Alarm Fault: Alarm set highest severity alarm data may be inaccurate.'')
         (''Alarm set highest severity alarm data may be inaccurate.'')
         (''If the fault occurs for a controller that experiences a regular active alarm rate (not alarm burst) for tag-based alarms during the system commissioning, then reduce the number of the alarms in the project. Otherwise, the fault is an indicator for the operator that information about the Alarm Set highest severity can be older than 2 seconds.'') False (''Alarm''))]"

definition fault_groups :: "(int \<times> (int \<times> FaultDescription) list) list" where
  "fault_groups =
     [(1, faults_1),
      (3, faults_3),
      (4, faults_4),
      (6, faults_6),
      (7, faults_7),
      (8, faults_8),
      (9, faults_9),
      (10, faults_10),
      (11, faults_11),
      (12, faults_12),
      (13, faults_13),
      (14, faults_14),
      (16, faults_16),
      (17, faults_17),
      (18, faults_18),
      (19, faults_19),
      (20, faults_20),
      (21, faults_21)]"

definition FaultDescriptions :: fault_table where
  "FaultDescriptions t = map_option map_of (map_of fault_groups t)"

section \<open>Entries and their places\<close>

lemma fault_entry_sel [simp]:
  "fd_Type (fault_entry t c display desc action major name) = t" "fd_Code (fault_entry t c display desc action major name) = c"
  by (simp_all add: fault_entry_def)

text \<open>All entries of a type have it and their own code, but for one.\<close>

definition entries_fit :: "int \<Rightarrow> (int \<times> FaultDescription) list \<Rightarrow> bool" where
  "entries_fit t es \<longleftrightarrow> list_all (\<lambda>(c, d). fd_Type d = t \<and> (fd_Code d = c \<longleftrightarrow> (t, c) \<noteq> (17, 32))) es"

lemma entries_fit_append [simp]: "entries_fit t (es @ fs) \<longleftrightarrow> entries_fit t es \<and> entries_fit t fs"
  by (simp add: entries_fit_def)

lemma all_entries_fit [simp]:
  "entries_fit 1 faults_1"
  "entries_fit 3 faults_3"
  "entries_fit 4 faults_4_a"
  "entries_fit 4 faults_4_b"
  "entries_fit 4 faults_4_c"
  "entries_fit 6 faults_6"
  "entries_fit 7 faults_7"
  "entries_fit 8 faults_8"
  "entries_fit 9 faults_9"
  "entries_fit 10 faults_10"
  "entries_fit 11 faults_11_a"
  "entries_fit 11 faults_11_b"
  "entries_fit 12 faults_12"
  "entries_fit 13 faults_13"
  "entries_fit 14 faults_14"
  "entries_fit 16 faults_16"
  "entries_fit 17 faults_17_a"
  "entries_fit 17 faults_17_b"
  "entries_fit 17 faults_17_c"
  "entries_fit 18 faults_18"
  "entries_fit 19 faults_19"
  "entries_fit 20 faults_20"
  "entries_fit 21 faults_21"
  by (simp_all only: entries_fit_def faults_1_def faults_3_def faults_4_a_def faults_4_b_def faults_4_c_def faults_6_def faults_7_def faults_8_def faults_9_def faults_10_def faults_11_a_def faults_11_b_def faults_12_def faults_13_def faults_14_def faults_16_def faults_17_a_def faults_17_b_def faults_17_c_def faults_18_def faults_19_def faults_20_def faults_21_def list.pred_inject prod.case fault_entry_sel) simp_all

lemma table_fits: "FaultDescriptions t = Some m \<Longrightarrow> m c = Some d \<Longrightarrow> fd_Type d = t \<and> (fd_Code d = c \<longleftrightarrow> (t, c) \<noteq> (17, 32))"
proof -
  assume "FaultDescriptions t = Some m" "m c = Some d"
  then obtain es where es: "(t, es) \<in> set fault_groups" "map_of es c = Some d"
    by (auto simp: FaultDescriptions_def dest: map_of_SomeD)
  have "list_all (\<lambda>(t, es). entries_fit t es) fault_groups" by (simp add: fault_groups_def faults_4_def faults_11_def faults_17_def)
  with es have "entries_fit t es" "map_of es c = Some d" by (auto simp: list_all_iff)
  then show ?thesis by (auto simp: entries_fit_def list_all_iff dest: map_of_SomeD)
qed

lemma faults_17_32: "\<exists>m d. FaultDescriptions 17 = Some m \<and> m 32 = Some d \<and> fd_Code d = 31"
  by (simp add: FaultDescriptions_def fault_groups_def faults_17_def faults_17_a_def faults_17_b_def faults_17_c_def)

text \<open>
  C40.  The description of a fault is that of the fault: for every event, whether its fault is in the table or not, the description has the
  type and the code of the event.  There is one exception, type 17 code 32, whose entry has the code 31.
\<close>

theorem description_of_the_fault:
  "fd_Type (fault_Description FaultDescriptions f) = uint (fe_FaultClass f) \<and>
   (fd_Code (fault_Description FaultDescriptions f) = uint (fe_FaultCode f) \<longleftrightarrow> (fe_FaultClass f, fe_FaultCode f) \<noteq> (17, 32))"
proof -
  let ?t = "uint (fe_FaultClass f)" and ?c = "uint (fe_FaultCode f)"
  have codes: "?t = 17 \<longleftrightarrow> fe_FaultClass f = 17" "?c = 32 \<longleftrightarrow> fe_FaultCode f = 32"
    by (simp_all add: word_uint_eq_iff)
  show ?thesis
  proof (cases "\<exists>m d. FaultDescriptions ?t = Some m \<and> m ?c = Some d")
    case True
    then obtain m d where d: "FaultDescriptions ?t = Some m" "m ?c = Some d" by blast
    then have "fault_Description FaultDescriptions f = d" by (simp add: fault_Description_def)
    with table_fits [OF d] codes show ?thesis by simp
  next
    case False
    then have "fault_Description FaultDescriptions f = unknown_fault f"
      by (auto simp: fault_Description_def split: option.split)
    moreover have "(?t, ?c) \<noteq> (17, 32)" using False faults_17_32 by auto
    ultimately show ?thesis using codes by (simp add: unknown_fault_def)
  qed
qed

end
