(* ===== verification/L5x_Load.thy ===== *)
theory L5x_Load
  imports Tag_Groups Client_Discovery
begin

text \<open>
  Reading an L5X export: \<^verbatim>\<open>l5x/load_tags.go\<close> and \<^verbatim>\<open>l5x/types.go\<close>.  The records have the fields of
  \<^verbatim>\<open>l5x/schema.go\<close> that the loaders look at; a pointer is an option, and a nil slice is the empty list.  Parsing of floating-point
  texts is an argument.
\<close>

section \<open>Numbers and texts\<close>

datatype num_error = Syntax | Range

text \<open>\<^verbatim>\<open>strconv.ParseUint\<close> in base ten: a value too large for its width is reported as soon as it is seen.\<close>

fun parse_digits :: "nat \<Rightarrow> nat \<Rightarrow> string \<Rightarrow> num_error + nat" where
  "parse_digits bits n [] = Inr n"
| "parse_digits bits n (c # cs) =
     (if \<not> is_digit c then Inl Syntax
      else let n1 = 10 * n + digit_val c in if n1 > 2 ^ bits - 1 then Inl Range else parse_digits bits n1 cs)"

text \<open>\<^verbatim>\<open>strconv.ParseInt\<close>: the value, which is the nearest one after a range error, and whether there was none.\<close>

definition ParseInt :: "nat \<Rightarrow> string \<Rightarrow> int \<times> bool" where
  "ParseInt bits s =
     (let neg = (s \<noteq> [] \<and> hd s = CHR ''-'');
          ds = (if s \<noteq> [] \<and> (hd s = CHR ''-'' \<or> hd s = CHR ''+'') then tl s else s);
          cutoff = 2 ^ (bits - 1) in
      if ds = [] then (0, False)
      else case parse_digits bits 0 ds of
        Inl Syntax \<Rightarrow> (0, False)
      | Inl Range \<Rightarrow> (if neg then (- cutoff, False) else (cutoff - 1, False))
      | Inr un \<Rightarrow>
          if \<not> neg \<and> int un \<ge> cutoff then (cutoff - 1, False)
          else if neg \<and> int un > cutoff then (- cutoff, False)
          else (if neg then - int un else int un, True))"

definition ParseBool :: "string \<Rightarrow> bool" where
  "ParseBool s \<longleftrightarrow> s \<in> {''1'', ''t'', ''T'', ''TRUE'', ''true'', ''True''}"

definition L5xTypeToGoType :: "(string \<Rightarrow> u64) \<Rightarrow> string \<Rightarrow> string \<Rightarrow> goval res" where
  "L5xTypeToGoType ParseFloat typestr valuestr = Inr
     (if typestr = ''REAL'' then VFloat64 (ParseFloat valuestr)
      else if typestr = ''DINT'' then VInt32 (word_of_int (fst (ParseInt 32 valuestr)))
      else if typestr = ''BOOL'' \<or> typestr = ''BIT'' then VBool (ParseBool valuestr)
      else if typestr = ''INT'' then VInt16 (word_of_int (fst (ParseInt 16 valuestr)))
      else if typestr = ''STRING'' then VString valuestr
      else if typestr = ''SINT'' then VInt8 (word_of_int (fst (ParseInt 8 valuestr)))
      else if typestr = ''LINT'' then VInt64 (word_of_int (fst (ParseInt 64 valuestr)))
      else if typestr = ''BYTE'' then VUint8 (word_of_int (fst (ParseInt 8 valuestr)))
      else if typestr = ''WORD'' then VUint16 (word_of_int (fst (ParseInt 16 valuestr)))
      else if typestr = ''DWORD'' then VUint32 (word_of_int (fst (ParseInt 32 valuestr)))
      else if typestr = ''LWORD'' then VUint64 (word_of_int (fst (ParseInt 64 valuestr)))
      else VString (''Unknown type: '' @ typestr))"

definition strings_TrimPrefix :: "string \<Rightarrow> string \<Rightarrow> string" where
  "strings_TrimPrefix s p = (if take (length p) s = p then drop (length p) s else s)"

definition strings_TrimSuffix :: "string \<Rightarrow> string \<Rightarrow> string" where
  "strings_TrimSuffix s p = (if length p \<le> length s \<and> drop (length s - length p) s = p then take (length s - length p) s else s)"

abbreviation quote :: string where "quote \<equiv> [CHR 0x27]"

definition ParseCData :: "string \<Rightarrow> string" where
  "ParseCData iv =
     strings_TrimSuffix (strings_TrimPrefix (strings_TrimSuffix (strings_TrimPrefix (strings_TrimSpace iv)
       ''<![CDATA['') '']]>'') quote) quote"

section \<open>The export\<close>

record DataValue =
  dv_Name :: string
  dv_DataType :: string
  dv_Value :: string
  dv_InnerValue :: string

record DataArrayElement =
  ae_Value :: string
  ae_Structure :: "DataValue list list"

record DataWideType =
  dw_DataValue :: "DataValue option"
  dw_Structure :: "DataValue list option"
  dw_Array :: "DataArrayElement list option"

record TagType =
  lt_Name :: string
  lt_DataType :: string
  lt_Dimensions :: string
  lt_Description :: "string list"
  lt_Data :: "DataWideType list"

record RungType =
  ru_Number :: string
  ru_Comment :: "string list"

record RoutineType =
  lr_Name :: string
  lr_RLLContent :: "RungType list list"

record AProgramType =
  lp_Name :: string
  lp_Tags :: "TagType list option"
  lp_Routines :: "RoutineType list option"

record DataTypeMemberType =
  tm_Name :: string
  tm_DataType :: string
  tm_Target :: string
  tm_BitNumber :: int
  tm_Description :: "string option"

record DataTypeType =
  dt_Name :: string
  dt_Description :: "string option"
  dt_Members :: "DataTypeMemberType list option"

record MapConnectionType =
  mc_InputTag :: "(string \<times> string) list list option"
  mc_OutputTag :: "(string \<times> string) list list option"

record MapDeviceType =
  md_Name :: string
  md_Communications :: "MapConnectionType list option option"

record TaskType =
  tk_Name :: string
  tk_ScheduledPrograms :: "string list option"

record ControllerType =
  ct_DataTypes :: "DataTypeType list option"
  ct_Modules :: "MapDeviceType list option"
  ct_Tags :: "TagType list option"
  ct_Programs :: "AProgramType list option"
  ct_Tasks :: "TaskType list option"

definition deref :: "'a option \<Rightarrow> 'a res" where
  "deref p = (case p of None \<Rightarrow> Inl (Panic ''invalid memory address or nil pointer dereference'') | Some x \<Rightarrow> Inr x)"

section \<open>Tags and their values\<close>

text \<open>The values of the maps the loader returns.\<close>

datatype l5x_value = Atom goval | Fields "(string \<times> l5x_value) list" | Elements "l5x_value list" 

text \<open>A loop that may return early, over a map that it fills.\<close>

fun fold_res :: "('a \<Rightarrow> 's \<Rightarrow> 's res) \<Rightarrow> 'a list \<Rightarrow> 's \<Rightarrow> 's res" where
  "fold_res f [] s = Inr s"
| "fold_res f (x # xs) s = andthen (f x s) (fold_res f xs)"

definition put_value :: "string \<Rightarrow> string \<Rightarrow> goval res \<Rightarrow> (string \<times> l5x_value) list \<Rightarrow> (string \<times> l5x_value) list res" where
  "put_value msg k r d = flat msg r (\<lambda>v. Inr (dict_put k (Atom v) d))"

definition controller_tag :: "(string \<Rightarrow> u64) \<Rightarrow> TagType \<Rightarrow> (string \<times> l5x_value) list \<Rightarrow> (string \<times> l5x_value) list res" where
  "controller_tag pf tag tags =
     (case drop 1 (lt_Data tag) of
        d # _ \<Rightarrow>
          (case dw_DataValue d of
             Some dv \<Rightarrow> put_value ''error converting'' (lt_Name tag) (L5xTypeToGoType pf (lt_DataType tag) (dv_Value dv)) tags
           | None \<Rightarrow> Inr tags)
      | [] \<Rightarrow> Inr tags)"

definition element_member :: "(string \<Rightarrow> u64) \<Rightarrow> DataValue \<Rightarrow> (string \<times> l5x_value) list \<Rightarrow> (string \<times> l5x_value) list res" where
  "element_member pf m d =
     put_value ''error converting'' (dv_Name m)
       (L5xTypeToGoType pf (dv_DataType m) (if dv_DataType m = ''STRING'' then ParseCData (dv_InnerValue m) else dv_Value m)) d"

definition array_element :: "(string \<Rightarrow> u64) \<Rightarrow> string \<Rightarrow> DataArrayElement \<Rightarrow> l5x_value list \<Rightarrow> l5x_value list res" where
  "array_element pf tagtype e arr =
     (case ae_Structure e of
        ms # _ \<Rightarrow> andthen (fold_res (element_member pf) ms []) (\<lambda>myValue. Inr (arr @ [Fields myValue]))
      | [] \<Rightarrow> flat ''error converting'' (L5xTypeToGoType pf tagtype (ae_Value e)) (\<lambda>v. Inr (arr @ [Atom v])))"

text \<open>The capacity of the array is checked only against negative numbers; memory is taken to be unbounded.\<close>

definition program_tag :: "(string \<Rightarrow> u64) \<Rightarrow> TagType \<Rightarrow> (string \<times> l5x_value) list \<Rightarrow> (string \<times> l5x_value) list res" where
  "program_tag pf tag progtags =
     (case drop 1 (lt_Data tag) of
        [] \<Rightarrow> Inr progtags
      | d # _ \<Rightarrow>
          (case dw_DataValue d of
             Some dv \<Rightarrow> put_value ''error converting'' (lt_Name tag) (L5xTypeToGoType pf (lt_DataType tag) (dv_Value dv)) progtags
           | None \<Rightarrow>
               (case dw_Structure d of
                  Some ms \<Rightarrow>
                    andthen (fold_res (\<lambda>m mapValue. put_value ''error converting'' (dv_Name m)
                        (L5xTypeToGoType pf (dv_DataType m) (dv_Value m)) mapValue) ms []) (\<lambda>mapValue.
                    Inr (dict_put (lt_Name tag) (Fields mapValue) progtags))
                | None \<Rightarrow>
                    (case dw_Array d of
                       None \<Rightarrow> Inr progtags
                     | Some es \<Rightarrow>
                         let (dims, ok) = ParseInt 64 (lt_Dimensions tag) in
                         if \<not> ok then Inl (Msg ''invalid dimensions'')
                         else if dims < 0 then Inl (Panic ''makeslice: cap out of range'')
                         else andthen (fold_res (array_element pf (lt_DataType tag)) es []) (\<lambda>arr.
                           Inr (dict_put (lt_Name tag) (Elements arr) progtags))))))"

abbreviation prog_prefix :: "string \<Rightarrow> string" where "prog_prefix name \<equiv> ''program:'' @ name"

definition LoadTags :: "(string \<Rightarrow> u64) \<Rightarrow> ControllerType \<Rightarrow> (string \<times> l5x_value) list res" where
  "LoadTags pf ctl =
     andthen (deref (ct_Tags ctl)) (\<lambda>ctags.
     andthen (fold_res (controller_tag pf) ctags []) (\<lambda>tags.
     andthen (deref (ct_Programs ctl)) (\<lambda>programs.
     fold_res (\<lambda>program tags.
         andthen (deref (lp_Tags program)) (\<lambda>ptags.
         andthen (fold_res (program_tag pf) ptags []) (\<lambda>progtags.
         Inr (dict_put (prog_prefix (lp_Name program)) (Fields progtags) tags)))) programs tags)))"

section \<open>Comments\<close>

definition GetDataTypeMap :: "ControllerType \<Rightarrow> (string \<times> DataTypeType) list res" where
  "GetDataTypeMap ctl =
     andthen (deref (ct_DataTypes ctl)) (\<lambda>dts. Inr (fold (\<lambda>dt d. dict_put (dt_Name dt) dt d) dts []))"

definition is_trim_letter :: "char \<Rightarrow> bool" where
  "is_trim_letter ch \<longleftrightarrow> (let n = of_char ch :: nat in (65 \<le> n \<and> n \<le> 90) \<or> (97 \<le> n \<and> n \<le> 122) \<or> n = 95)"

text \<open>The name of a bit member with its place; \<^const>\<open>None\<close> where the loop skips the member.\<close>

definition bit_name :: "DataTypeMemberType \<Rightarrow> string option res" where
  "bit_name m =
     (if length (tm_Target m) < 2 then Inl (Panic ''slice bounds out of range'')
      else
        case atoi (dropWhile is_trim_letter (drop (length (tm_Target m) - 2) (tm_Target m))) of
          None \<Rightarrow> Inr None
        | Some num \<Rightarrow>
            let pos = tm_BitNumber m + num - (if num \<in> {9, 18, 27, 36, 45, 54, 63} then num div 9 else 0) in
            Inr (Some (tm_Name m @ ''<'' @ itoa_int pos @ ''>'')))"

definition joined :: "string \<Rightarrow> string \<Rightarrow> string" where
  "joined a b = (if a \<noteq> [] then a @ '' '' @ b else b)"

text \<open>The recursion follows the types of the members; its depth is bounded by the stack, given by the first argument.\<close>

fun GetTypeComments :: "nat \<Rightarrow> (string \<times> DataTypeType) list \<Rightarrow> string \<Rightarrow> (string \<times> string) list res" where
  "GetTypeComments 0 types typeName = Inl (Panic ''stack overflow'')"
| "GetTypeComments (Suc depth) types typeName =
     (case map_of types typeName of
        None \<Rightarrow> Inr []
      | Some dt \<Rightarrow>
          let myDescription = (case dt_Description dt of None \<Rightarrow> [] | Some d \<Rightarrow> ParseCData d) in
          andthen (deref (dt_Members dt)) (\<lambda>members.
          fold_res (\<lambda>m out.
              let memberDesc = (case tm_Description m of None \<Rightarrow> myDescription | Some d \<Rightarrow> joined myDescription (ParseCData d)) in
              andthen (GetTypeComments depth types (tm_DataType m)) (\<lambda>submembers.
              andthen (if tm_DataType m = ''BIT'' then bit_name m else Inr (Some (tm_Name m))) (\<lambda>name.
              case name of
                None \<Rightarrow> Inr out
              | Some n \<Rightarrow>
                  Inr (fold (\<lambda>(subName, subDesc) out. dict_put (tm_Name m @ ''.'' @ subName) (joined memberDesc subDesc) out)
                    submembers (dict_put n memberDesc out))))) members [(typeName, myDescription)]))"

definition io_comments :: "string \<Rightarrow> (string \<times> string) list list option \<Rightarrow> (string \<times> string) list \<Rightarrow> (string \<times> string) list" where
  "io_comments base tag tags =
     (case tag of
        None \<Rightarrow> tags
      | Some groups \<Rightarrow>
          fold (\<lambda>(operand, iv) tags. let c = ParseCData iv in if c = [] then tags else dict_put (base @ operand) c tags)
            (concat groups) tags)"

definition module_comments :: "MapDeviceType \<Rightarrow> (string \<times> string) list \<Rightarrow> (string \<times> string) list" where
  "module_comments m tags =
     (case md_Communications m of
        Some (Some conns) \<Rightarrow>
          fold (\<lambda>cn tags. io_comments (md_Name m @ '':O'') (mc_OutputTag cn) (io_comments (md_Name m @ '':I'') (mc_InputTag cn) tags))
            conns tags
      | _ \<Rightarrow> tags)"

definition tag_comments ::
  "nat \<Rightarrow> (string \<times> DataTypeType) list \<Rightarrow> TagType \<Rightarrow> (string \<times> string) list \<Rightarrow> (string \<times> string) list res" where
  "tag_comments depth dtm tag tags =
     (let described = lt_Data tag \<noteq> [] \<and> lt_Description tag \<noteq> [];
          mydesc = (if described then ParseCData (hd (lt_Description tag)) else []);
          tags1 = (if described then dict_put (lt_Name tag) mydesc tags else tags) in
      andthen (GetTypeComments depth dtm (lt_DataType tag)) (\<lambda>typeComments.
      Inr (fold (\<lambda>(typeName, typeComment) tags.
            if typeComment = [] then tags
            else dict_put (lt_Name tag @ ''.'' @ typeName) (joined mydesc typeComment) tags) typeComments tags1)))"

text \<open>The comments of program tags are collected and dropped; only a missing tag list makes a difference.\<close>

definition LoadTagComments :: "nat \<Rightarrow> ControllerType \<Rightarrow> (string \<times> string) list res" where
  "LoadTagComments depth ctl =
     andthen (GetDataTypeMap ctl) (\<lambda>dtm.
     andthen (deref (ct_Modules ctl)) (\<lambda>modules.
     andthen (deref (ct_Tags ctl)) (\<lambda>ctags.
     andthen (fold_res (tag_comments depth dtm) ctags (fold module_comments modules [])) (\<lambda>tags.
     andthen (deref (ct_Programs ctl)) (\<lambda>programs.
     fold_res (\<lambda>program tags. andthen (deref (lp_Tags program)) (\<lambda>_. Inr tags)) programs tags)))))"

definition task_lookup :: "TaskType list \<Rightarrow> (string \<times> string) list" where
  "task_lookup tasks =
     fold (\<lambda>t d. case tk_ScheduledPrograms t of None \<Rightarrow> d | Some ps \<Rightarrow> fold (\<lambda>p. dict_put p (tk_Name t)) ps d) tasks []"

definition rung_comment :: "string \<Rightarrow> RungType \<Rightarrow> (string \<times> string) list \<Rightarrow> (string \<times> string) list" where
  "rung_comment base rung comments =
     fold (\<lambda>iv comments. let c = ParseCData iv in
         if c = [] then comments else dict_put (base @ ''['' @ ru_Number rung @ '']'') c comments) (ru_Comment rung) comments"

definition LoadRungComments :: "ControllerType \<Rightarrow> (string \<times> string) list res" where
  "LoadRungComments ctl =
     andthen (deref (ct_Tasks ctl)) (\<lambda>tasks.
     andthen (deref (ct_Programs ctl)) (\<lambda>programs.
     fold_res (\<lambda>program comments.
         andthen (deref (lp_Routines program)) (\<lambda>routines.
         Inr (fold (\<lambda>routine comments.
             let task = (case map_of (task_lookup tasks) (lp_Name program) of None \<Rightarrow> [] | Some t \<Rightarrow> t) in
             fold (rung_comment (task @ ''/'' @ lp_Name program @ ''/'' @ lr_Name routine)) (concat (lr_RLLContent routine)) comments)
           routines comments))) programs []))"

section \<open>Numbers that do not fit\<close>

text \<open>The value nearest to \<^term>\<open>n\<close> of a signed integer of the given width.\<close>

definition nearest :: "nat \<Rightarrow> int \<Rightarrow> int" where
  "nearest bits n = max (- (2 ^ (bits - 1))) (min n (2 ^ (bits - 1) - 1))"

abbreviation digits_from :: "nat \<Rightarrow> string \<Rightarrow> nat" where
  "digits_from n ds \<equiv> foldl (\<lambda>a c. 10 * a + digit_val c) n ds"

lemma digits_from_mono: "n \<le> digits_from n ds"
proof (induction ds arbitrary: n)
  case (Cons c cs)
  have "n \<le> 10 * n + digit_val c" by simp
  with Cons [of "10 * n + digit_val c"] show ?case by (simp del: Cons)
qed simp

lemma parse_digits_value:
  "list_all is_digit ds \<Longrightarrow> digits_from n ds < 2 ^ bits \<Longrightarrow> parse_digits bits n ds = Inr (digits_from n ds)"
proof (induction ds arbitrary: n)
  case (Cons c cs)
  have "10 * n + digit_val c < 2 ^ bits"
    using digits_from_mono [of "10 * n + digit_val c" cs] Cons.prems(2) by simp
  with Cons show ?case by (simp add: Let_def)
qed simp

lemma parse_digits_range:
  "list_all is_digit ds \<Longrightarrow> n < 2 ^ bits \<Longrightarrow> 2 ^ bits \<le> digits_from n ds \<Longrightarrow> parse_digits bits n ds = Inl Range"
  by (induction ds arbitrary: n) (auto simp: Let_def)

lemma parse_itoa: "parse_digits bits 0 (itoa n) = (if n < 2 ^ bits then Inr n else Inl Range)"
  using itoa_props [of n] parse_digits_value [of "itoa n" 0 bits] parse_digits_range [of "itoa n" 0 bits]
  by (auto simp: digits_val_def)

lemma itoa_no_sign: "hd (itoa n) \<noteq> CHR ''-''" "hd (itoa n) \<noteq> CHR ''+''"
  using hd_in_set [of "itoa n"] itoa_props [of n] itoa_not_in [of _ n] by force+

lemma ParseInt_negative:
  assumes "0 < m" "0 < bits"
  shows "ParseInt bits (CHR ''-'' # itoa m) = (nearest bits (- int m), int m \<le> 2 ^ (bits - 1))"
proof -
  have "(2::nat) ^ bits = 2 * 2 ^ (bits - 1)" using assms(2) by (cases bits) simp_all
  moreover have "int m \<le> 2 ^ (bits - 1) \<longleftrightarrow> m \<le> 2 ^ (bits - 1)"
    using of_nat_le_iff [of m "2 ^ (bits - 1)", where 'a = int] by simp
  moreover have "- int m \<le> 2 ^ (bits - 1) - 1"
    using assms(1) zero_less_power [of "2 :: int" "bits - 1"] by linarith
  moreover have "m < 2 ^ bits" if "m \<le> 2 ^ (bits - 1)"
    using that calculation(1) zero_less_power [of "2 :: nat" "bits - 1"] by linarith
  ultimately show ?thesis
    using itoa_props [of m] by (auto simp: ParseInt_def Let_def parse_itoa nearest_def max_def min_def)
qed

lemma ParseInt_natural:
  assumes "0 < bits"
  shows "ParseInt bits (itoa m) = (nearest bits (int m), int m < 2 ^ (bits - 1))"
proof -
  have "(2::nat) ^ bits = 2 * 2 ^ (bits - 1)" using assms by (cases bits) simp_all
  moreover have "int m < 2 ^ (bits - 1) \<longleftrightarrow> m < 2 ^ (bits - 1)"
    using of_nat_less_iff [of m "2 ^ (bits - 1)", where 'a = int] by simp
  moreover have "m < 2 ^ bits" if "m < 2 ^ (bits - 1)"
    using that calculation(1) by linarith
  moreover have "- (2 ^ (bits - 1)) \<le> int m" by (rule order_trans [of _ 0]) simp_all
  moreover have "- (2 ^ (bits - 1)) \<le> (2 ^ (bits - 1) - 1 :: int)"
    using zero_less_power [of "2 :: int" "bits - 1"] by linarith
  ultimately show ?thesis
    using itoa_props [of m] itoa_no_sign [of m]
    by (auto simp: ParseInt_def Let_def parse_itoa nearest_def max_def min_def)
qed

lemma ParseInt_nearest: "0 < bits \<Longrightarrow> fst (ParseInt bits (itoa_int n)) = nearest bits n"
  using ParseInt_negative [of "nat (- n)" bits] ParseInt_natural [of bits "nat n"] by (simp add: itoa_int_def)

text \<open>
  C35.  Every integer, printed in decimal, is read by the integer types of an export as the nearest value of the signed
  type of the same width.  A number that does not fit is never an error, and the types without a sign lose the upper half of
  their range: 200 as a \<^verbatim>\<open>BYTE\<close> is read as 127.
\<close>

theorem integers_saturate:
  "L5xTypeToGoType pf ''SINT'' (itoa_int n) = Inr (VInt8 (word_of_int (nearest 8 n))) \<and>
   L5xTypeToGoType pf ''INT'' (itoa_int n) = Inr (VInt16 (word_of_int (nearest 16 n))) \<and>
   L5xTypeToGoType pf ''DINT'' (itoa_int n) = Inr (VInt32 (word_of_int (nearest 32 n))) \<and>
   L5xTypeToGoType pf ''LINT'' (itoa_int n) = Inr (VInt64 (word_of_int (nearest 64 n))) \<and>
   L5xTypeToGoType pf ''BYTE'' (itoa_int n) = Inr (VUint8 (word_of_int (nearest 8 n))) \<and>
   L5xTypeToGoType pf ''WORD'' (itoa_int n) = Inr (VUint16 (word_of_int (nearest 16 n))) \<and>
   L5xTypeToGoType pf ''DWORD'' (itoa_int n) = Inr (VUint32 (word_of_int (nearest 32 n))) \<and>
   L5xTypeToGoType pf ''LWORD'' (itoa_int n) = Inr (VUint64 (word_of_int (nearest 64 n))) \<and>
   L5xTypeToGoType pf ''BYTE'' (itoa_int 200) = Inr (VUint8 127)"
  by (simp add: L5xTypeToGoType_def ParseInt_nearest nearest_def)

section \<open>Loaded values\<close>

text \<open>
  A loop over entries with different names, each turn of which touches its own name only, leaves under a name what the turn of
  that name put there.
\<close>

lemma fold_res_keeps:
  assumes touch: "\<And>x s t k. f x s = Inr t \<Longrightarrow> k \<noteq> key x \<Longrightarrow> map_of t k = map_of s k"
  shows "fold_res f xs s = Inr t \<Longrightarrow> k \<notin> key ` set xs \<Longrightarrow> map_of t k = map_of s k"
proof (induction xs arbitrary: s)
  case (Cons x xs)
  then obtain u where "f x s = Inr u" "fold_res f xs u = Inr t" by (auto simp: andthen_Inr_iff)
  with Cons touch [of x s u k] show ?case by simp
qed simp

lemma fold_res_leaves:
  assumes touch: "\<And>x s t k. f x s = Inr t \<Longrightarrow> k \<noteq> key x \<Longrightarrow> map_of t k = map_of s k"
    and turn: "\<And>s t. f x s = Inr t \<Longrightarrow> map_of t (key x) = Some v"
  shows "fold_res f xs s = Inr t \<Longrightarrow> distinct (map key xs) \<Longrightarrow> x \<in> set xs \<Longrightarrow> map_of t (key x) = Some v"
proof (induction xs arbitrary: s)
  case (Cons y ys)
  then obtain u where u: "f y s = Inr u" "fold_res f ys u = Inr t" by (auto simp: andthen_Inr_iff)
  show ?case
  proof (cases "x = y")
    case True
    then have "map_of t (key x) = map_of u (key x)"
      using fold_res_keeps [OF touch u(2)] Cons.prems(2) by simp
    with turn u(1) True show ?thesis by simp
  next
    case False
    with Cons u(2) show ?thesis by simp
  qed
qed simp

lemma program_tag_touches: "program_tag pf tag d = Inr t \<Longrightarrow> k \<noteq> lt_Name tag \<Longrightarrow> map_of t k = map_of d k"
  by (auto simp: program_tag_def put_value_def res_Inr_iffs Let_def map_of_dict_put
      split: list.splits option.splits prod.splits if_splits)

lemma conversion_total: "\<exists>v. L5xTypeToGoType pf ty s = Inr v"
  by (simp add: L5xTypeToGoType_def)

lemma conversions_total: "\<exists>vs. map (L5xTypeToGoType pf ty) texts = map Inr vs"
proof (induction texts)
  case (Cons x xs)
  then show ?case using conversion_total [of pf ty x] by (metis list.simps(9))
qed simp

lemma scalar_tag_put:
  "program_tag pf tag d = Inr t \<Longrightarrow> lt_Data tag = d0 # w # ds \<Longrightarrow> dw_DataValue w = Some dv \<Longrightarrow>
   L5xTypeToGoType pf (lt_DataType tag) (dv_Value dv) = Inr v \<Longrightarrow> map_of t (lt_Name tag) = Some (Atom v)"
  by (auto simp: program_tag_def put_value_def map_of_dict_put)

abbreviation plain_element :: "string \<Rightarrow> DataArrayElement" where
  "plain_element x \<equiv> \<lparr>ae_Value = x, ae_Structure = []\<rparr>"

lemma plain_elements:
  "map (L5xTypeToGoType pf ty) texts = map Inr vs \<Longrightarrow>
   fold_res (array_element pf ty) (map plain_element texts) arr = Inr (arr @ map Atom vs)"
proof (induction texts arbitrary: vs arr)
  case (Cons x xs)
  then obtain w ws where "vs = w # ws" "L5xTypeToGoType pf ty x = Inr w" "map (L5xTypeToGoType pf ty) xs = map Inr ws"
    by (cases vs) auto
  moreover from this have "array_element pf ty (plain_element x) arr = Inr (arr @ [Atom w])"
    by (simp add: array_element_def)
  ultimately show ?case using Cons.IH [of ws "arr @ [Atom w]"] by simp
qed simp

lemma array_tag_put:
  "program_tag pf tag d = Inr t \<Longrightarrow> lt_Data tag = d0 # w # ds \<Longrightarrow> dw_DataValue w = None \<Longrightarrow> dw_Structure w = None \<Longrightarrow>
   dw_Array w = Some (map plain_element texts) \<Longrightarrow> map (L5xTypeToGoType pf (lt_DataType tag)) texts = map Inr vs \<Longrightarrow>
   map_of t (lt_Name tag) = Some (Elements (map Atom vs))"
  by (auto simp: program_tag_def Let_def map_of_dict_put plain_elements split: prod.splits if_splits)

text \<open>The tags of a program are loaded by themselves and put under the program's name.\<close>

lemma program_loaded:
  assumes "LoadTags pf ctl = Inr tags" and "ct_Programs ctl = Some programs" and "distinct (map lp_Name programs)"
    and "program \<in> set programs" and "lp_Tags program = Some ptags"
  obtains loaded where "fold_res (program_tag pf) ptags [] = Inr loaded"
    "map_of tags (prog_prefix (lp_Name program)) = Some (Fields loaded)"
proof -
  let ?f = "\<lambda>program tags. andthen (deref (lp_Tags program)) (\<lambda>ptags.
     andthen (fold_res (program_tag pf) ptags []) (\<lambda>progtags.
     Inr (dict_put (prog_prefix (lp_Name program)) (Fields progtags) tags)))"
  let ?key = "\<lambda>program. prog_prefix (lp_Name program)"
  from assms(1,2) obtain s where s: "fold_res ?f programs s = Inr tags"
    by (auto simp: LoadTags_def andthen_Inr_iff deref_def)
  have keys: "distinct (map ?key programs)"
    using assms(3) by (simp add: distinct_map inj_on_def)
  have "\<exists>loaded. fold_res (program_tag pf) ptags [] = Inr loaded"
    using s assms(4,5)
  proof (induction programs arbitrary: s)
    case (Cons q qs)
    then show ?case by (auto simp: andthen_Inr_iff deref_def)
  qed simp
  then obtain loaded where loaded: "fold_res (program_tag pf) ptags [] = Inr loaded" ..
  have "map_of tags (?key program) = Some (Fields loaded)"
  proof (rule fold_res_leaves [where f = ?f and key = ?key, OF _ _ s keys assms(4)])
    show "map_of u k = map_of s k" if "?f x s = Inr u" "k \<noteq> ?key x" for x s u k
      using that by (auto simp: andthen_Inr_iff map_of_dict_put)
    show "map_of u (?key program) = Some (Fields loaded)" if "?f program s = Inr u" for s u
      using that assms(5) loaded by (auto simp: deref_def map_of_dict_put)
  qed
  with loaded that show thesis by blast
qed

lemma program_tag_left:
  assumes "fold_res (program_tag pf) ptags s = Inr loaded" and "distinct (map lt_Name ptags)" and "tag \<in> set ptags"
    and "\<And>s t. program_tag pf tag s = Inr t \<Longrightarrow> map_of t (lt_Name tag) = Some v"
  shows "map_of loaded (lt_Name tag) = Some v"
  by (rule fold_res_leaves [where f = "program_tag pf" and key = lt_Name, OF _ assms(4) assms(1-3)])
    (auto intro: program_tag_touches)

text \<open>
  C33.  A load that succeeds has, under the name of every program, the values of the program's tags under their names: a tag
  with one value has this value in its type, and an array of values has all of them in order.
\<close>

theorem program_values_loaded:
  assumes "LoadTags pf ctl = Inr tags" and "ct_Programs ctl = Some programs" and "distinct (map lp_Name programs)"
    and "program \<in> set programs" and "lp_Tags program = Some ptags" and "distinct (map lt_Name ptags)"
    and "tag \<in> set ptags" and "lt_Data tag = d0 # d # ds"
  shows "\<exists>loaded. map_of tags (''program:'' @ lp_Name program) = Some (Fields loaded) \<and>
    (\<forall>dv. dw_DataValue d = Some dv \<longrightarrow>
       (\<exists>v. L5xTypeToGoType pf (lt_DataType tag) (dv_Value dv) = Inr v \<and> map_of loaded (lt_Name tag) = Some (Atom v))) \<and>
    (\<forall>texts. dw_DataValue d = None \<and> dw_Structure d = None \<and>
       dw_Array d = Some (map (\<lambda>x. \<lparr>ae_Value = x, ae_Structure = []\<rparr>) texts) \<longrightarrow>
       (\<exists>vs. map (L5xTypeToGoType pf (lt_DataType tag)) texts = map Inr vs \<and>
          map_of loaded (lt_Name tag) = Some (Elements (map Atom vs))))"
proof -
  obtain loaded where loaded: "fold_res (program_tag pf) ptags [] = Inr loaded"
    "map_of tags (''program:'' @ lp_Name program) = Some (Fields loaded)"
    using program_loaded [OF assms(1-5)] .
  note left = program_tag_left [OF loaded(1) assms(6,7)]
  have scalar: "\<exists>v. L5xTypeToGoType pf (lt_DataType tag) (dv_Value dv) = Inr v \<and> map_of loaded (lt_Name tag) = Some (Atom v)"
    if "dw_DataValue d = Some dv" for dv
    using conversion_total [of pf "lt_DataType tag" "dv_Value dv"] left scalar_tag_put [OF _ assms(8) that] by metis
  have array: "\<exists>vs. map (L5xTypeToGoType pf (lt_DataType tag)) texts = map Inr vs \<and>
      map_of loaded (lt_Name tag) = Some (Elements (map Atom vs))"
    if "dw_DataValue d = None" "dw_Structure d = None" "dw_Array d = Some (map plain_element texts)" for texts
    using conversions_total [of pf "lt_DataType tag" texts] left array_tag_put [OF _ assms(8) that] by metis
  show ?thesis using loaded(2) scalar array by blast
qed

definition speeds :: TagType where
  "speeds =
     \<lparr> lt_Name = ''speeds'', lt_DataType = ''DINT'', lt_Dimensions = ''2'', lt_Description = [], lt_Data =
         [\<lparr> dw_DataValue = None, dw_Structure = None, dw_Array = None \<rparr>,
          \<lparr> dw_DataValue = None, dw_Structure = None, dw_Array = Some [plain_element ''7'', plain_element ''-3''] \<rparr>] \<rparr>"

definition pump_export :: ControllerType where
  "pump_export =
     \<lparr> ct_DataTypes = None, ct_Modules = None, ct_Tags = Some [],
       ct_Programs = Some [\<lparr> lp_Name = ''Pump'', lp_Tags = Some [speeds], lp_Routines = None \<rparr>], ct_Tasks = None \<rparr>"

theorem program_values_loaded_witness:
  "\<exists>tags loaded. LoadTags (\<lambda>_. 0) pump_export = Inr tags \<and> map_of tags ''program:Pump'' = Some (Fields loaded) \<and>
     map_of loaded ''speeds'' = Some (Elements [Atom (VInt32 7), Atom (VInt32 (- 3))])"
proof -
  let ?none = "\<lparr> dw_DataValue = None, dw_Structure = None, dw_Array = None \<rparr> :: DataWideType"
  let ?some = "\<lparr> dw_DataValue = None, dw_Structure = None, dw_Array = Some [plain_element ''7'', plain_element ''-3''] \<rparr> :: DataWideType"
  let ?pump = "\<lparr> lp_Name = ''Pump'', lp_Tags = Some [speeds], lp_Routines = None \<rparr>"
  have "itoa 7 = ''7''" "CHR ''-'' # itoa 3 = ''-3''" "itoa 2 = ''2''" by code_simp+
  then have "ParseInt 32 ''7'' = (7, True)" "ParseInt 32 ''-3'' = (- 3, True)" and dims: "ParseInt 64 ''2'' = (2, True)"
    using ParseInt_natural [of 32 7] ParseInt_negative [of 3 32] ParseInt_natural [of 64 2] by (simp_all add: nearest_def)
  then have conv: "L5xTypeToGoType (\<lambda>_. 0) ''DINT'' ''7'' = Inr (VInt32 7)"
    "L5xTypeToGoType (\<lambda>_. 0) ''DINT'' ''-3'' = Inr (VInt32 (- 3))"
    by (simp_all add: L5xTypeToGoType_def)
  then have load: "LoadTags (\<lambda>_. 0) pump_export =
    Inr [(''program:Pump'', Fields [(''speeds'', Elements [Atom (VInt32 7), Atom (VInt32 (- 3))])])]"
    by (simp add: LoadTags_def pump_export_def speeds_def program_tag_def array_element_def deref_def dict_put_def dims)
  have setting: "ct_Programs pump_export = Some [?pump]" "distinct (map lp_Name [?pump])" "?pump \<in> set [?pump]"
    "lp_Tags ?pump = Some [speeds]" "distinct (map lt_Name [speeds])" "speeds \<in> set [speeds]"
    "lt_Data speeds = [?none, ?some]"
    by (simp_all add: pump_export_def speeds_def)
  from program_values_loaded [OF load setting]
  obtain loaded where loaded: "map_of [(''program:Pump'', Fields [(''speeds'', Elements [Atom (VInt32 7), Atom (VInt32 (- 3))])])]
      (''program:'' @ ''Pump'') = Some (Fields loaded)"
    and all: "\<forall>texts. dw_DataValue ?some = None \<and> dw_Structure ?some = None \<and> dw_Array ?some = Some (map plain_element texts) \<longrightarrow>
      (\<exists>vs. map (L5xTypeToGoType (\<lambda>_. 0) (lt_DataType speeds)) texts = map Inr vs \<and>
         map_of loaded (lt_Name speeds) = Some (Elements (map Atom vs)))"
    unfolding AProgramType.simps by blast
  from all [rule_format, of "[''7'', ''-3'']"] conv
  have "map_of loaded ''speeds'' = Some (Elements [Atom (VInt32 7), Atom (VInt32 (- 3))])"
    by (auto simp: speeds_def)
  with load loaded show ?thesis by auto
qed

text \<open>The dimensions of an array of several dimensions are separated by blanks and are not a number: such a tag stops the load.\<close>

lemma not_a_number: "list_all is_digit a \<Longrightarrow> \<exists>e. parse_digits bits n (a @ '' '' @ b) = Inl e"
  by (induction a arbitrary: n) (auto simp: Let_def is_digit_def)

lemma several_dimensions_refused:
  assumes "lt_Data tag = d0 # w # ds" "dw_DataValue w = None" "dw_Structure w = None" "dw_Array w = Some es"
    and "lt_Dimensions tag = itoa a @ '' '' @ itoa b"
  shows "program_tag pf tag d = Inl (Msg ''invalid dimensions'')"
proof -
  obtain e where "parse_digits 64 0 (itoa a @ '' '' @ itoa b) = Inl e"
    using not_a_number itoa_props [of a] by blast
  moreover have "hd (itoa a) \<noteq> CHR ''-''" "hd (itoa a) \<noteq> CHR ''+''" "itoa a \<noteq> []"
    using itoa_props [of a] itoa_no_sign [of a] by auto
  ultimately have "\<not> snd (ParseInt 64 (lt_Dimensions tag))"
    using assms(5) by (auto simp: ParseInt_def Let_def hd_append split: sum.splits num_error.splits)
  then show ?thesis using assms(1-4) by (auto simp: program_tag_def Let_def split: prod.splits)
qed

section \<open>Types within types\<close>

lemma fold_res_cong: "(\<And>x s. x \<in> set xs \<Longrightarrow> f x s = g x s) \<Longrightarrow> fold_res f xs s = fold_res g xs s"
proof (induction xs arbitrary: s)
  case (Cons x xs)
  have "fold_res f xs = fold_res g xs" using Cons by (intro ext Cons.IH) simp
  then show ?case using Cons.prems [of x s] by simp
qed simp

text \<open>An error of a loop is an error of one of its turns.\<close>

lemma fold_res_error:
  "fold_res f xs s = Inl e \<Longrightarrow> \<exists>x \<in> set xs. \<exists>s. f x s = Inl e"
proof (induction xs arbitrary: s)
  case (Cons x xs)
  then show ?case by (cases "f x s") (auto simp: andthen_def)
qed simp

text \<open>A rank of the types that falls from a type to the types of its members: the types are not recursive.\<close>

definition ranked :: "(string \<Rightarrow> nat) \<Rightarrow> (string \<times> DataTypeType) list \<Rightarrow> bool" where
  "ranked rank types \<longleftrightarrow>
     list_all (\<lambda>(name, dt). list_all (\<lambda>m. rank (tm_DataType m) < rank name)
       (case dt_Members dt of None \<Rightarrow> [] | Some ms \<Rightarrow> ms)) types"

lemma ranked_member:
  "ranked rank types \<Longrightarrow> map_of types t = Some dt \<Longrightarrow> dt_Members dt = Some ms \<Longrightarrow> m \<in> set ms \<Longrightarrow>
   rank (tm_DataType m) < rank t"
  by (drule map_of_SomeD) (fastforce simp: ranked_def list_all_iff)

lemma depth_irrelevant:
  "ranked rank types \<Longrightarrow> rank t < depth \<Longrightarrow> rank t < depth' \<Longrightarrow>
   GetTypeComments depth types t = GetTypeComments depth' types t"
proof (induction depth arbitrary: depth' t)
  case (Suc depth)
  from Suc.prems(3) obtain d where d: "depth' = Suc d" by (cases depth') auto
  have sub: "GetTypeComments depth types (tm_DataType m) = GetTypeComments d types (tm_DataType m)"
    if "map_of types t = Some dt" "dt_Members dt = Some ms" "m \<in> set ms" for dt ms m
    using Suc.IH [of "tm_DataType m" d] ranked_member [OF Suc.prems(1) that] Suc.prems d by simp
  show ?case
  proof (cases "map_of types t")
    case (Some dt)
    show ?thesis unfolding d GetTypeComments.simps Some option.case Let_def
    proof (intro andthen_cong refl fold_res_cong)
      fix members m and out :: "(string \<times> string) list"
      assume "deref (dt_Members dt) = Inr members" "m \<in> set members"
      then have "dt_Members dt = Some members" by (simp add: deref_def split: option.splits)
      from sub [OF Some this \<open>m \<in> set members\<close>]
      show "GetTypeComments depth types (tm_DataType m) = GetTypeComments d types (tm_DataType m)" .
    qed
  qed (simp add: d)
qed simp

lemma bit_name_no_overflow: "bit_name m \<noteq> Inl (Panic ''stack overflow'')"
  by (simp add: bit_name_def Let_def split: option.splits)

lemma depth_suffices:
  "ranked rank types \<Longrightarrow> rank t < depth \<Longrightarrow> GetTypeComments depth types t \<noteq> Inl (Panic ''stack overflow'')"
proof (induction depth arbitrary: t)
  case (Suc depth)
  show ?case
  proof
    assume over: "GetTypeComments (Suc depth) types t = Inl (Panic ''stack overflow'')"
    then obtain dt where dt: "map_of types t = Some dt" by (cases "map_of types t") auto
    with over obtain ms where ms: "dt_Members dt = Some ms" by (auto simp: deref_def Let_def split: option.splits)
    obtain m where m: "m \<in> set ms" and "GetTypeComments depth types (tm_DataType m) = Inl (Panic ''stack overflow'')"
      using over dt ms bit_name_no_overflow
      by (auto simp: deref_def Let_def andthen_def split: sum.splits if_splits option.splits dest!: fold_res_error)
    moreover have "rank (tm_DataType m) < depth"
      using ranked_member [OF Suc.prems(1) dt ms m] Suc.prems(2) by simp
    ultimately show False using Suc.IH Suc.prems(1) by blast
  qed
qed simp

lemma recursive_type_overflows:
  "map_of types t = Some dt \<Longrightarrow> dt_Members dt = Some (m # ms) \<Longrightarrow> tm_DataType m = t \<Longrightarrow>
   GetTypeComments depth types t = Inl (Panic ''stack overflow'')"
  by (induction depth) (simp_all add: deref_def Let_def)

text \<open>
  C34.  The comments of a type are collected from the types of its members, and so on.  Where no type contains itself, at any
  depth, the recursion ends and its result does not depend on the room on the stack beyond the nesting of the type.
\<close>

theorem type_comments_end:
  assumes "ranked rank types" and "rank t < depth"
  shows "GetTypeComments depth types t = GetTypeComments (Suc (rank t)) types t \<and>
    GetTypeComments depth types t \<noteq> Inl (Panic ''stack overflow'')"
  using depth_irrelevant [OF assms, of "Suc (rank t)"] depth_suffices [OF assms] by simp

definition motor_types :: "(string \<times> DataTypeType) list" where
  "motor_types =
     [(''Motor'', \<lparr> dt_Name = ''Motor'', dt_Description = Some ''Main'', dt_Members =
         Some [\<lparr> tm_Name = ''Drive'', tm_DataType = ''Drive'', tm_Target = [], tm_BitNumber = 0, tm_Description = None \<rparr>] \<rparr>),
      (''Drive'', \<lparr> dt_Name = ''Drive'', dt_Description = None, dt_Members =
         Some [\<lparr> tm_Name = ''Run'', tm_DataType = ''BIT'', tm_Target = ''ZZZZDrive10'', tm_BitNumber = 2,
                 tm_Description = Some ''running'' \<rparr>] \<rparr>)]"

theorem type_comments_end_witness:
  "GetTypeComments 9 motor_types ''Motor'' =
     Inr [(''Motor'', ''Main''), (''Drive'', ''Main''), (''Drive.Drive'', ''Main ''), (''Drive.Run<12>'', ''Main running'')]"
proof -
  have "ranked (\<lambda>t. if t = ''Motor'' then 2 else if t = ''Drive'' then 1 else 0) motor_types" by code_simp
  from type_comments_end [OF this, of "''Motor''" 9]
  have "GetTypeComments 9 motor_types ''Motor'' = GetTypeComments 3 motor_types ''Motor''" by (simp add: numeral_3_eq_3)
  also have "\<dots> = Inr [(''Motor'', ''Main''), (''Drive'', ''Main''), (''Drive.Drive'', ''Main ''),
    (''Drive.Run<12>'', ''Main running'')]" by code_simp
  finally show ?thesis .
qed

end
