(* ===== verification/Error_Texts.thy ===== *)
theory Error_Texts
  imports Cip_Types
begin

text \<open>
  Texts for codes and errors that are lists of errors: the \<^verbatim>\<open>String\<close> methods of status, extended status, service and type
  codes (\<^verbatim>\<open>cip_definitions.go\<close>, \<^verbatim>\<open>services.go\<close>, \<^verbatim>\<open>types.go\<close>), \<^verbatim>\<open>device_type.go\<close>, \<^verbatim>\<open>errors.go\<close>, and the error that
  \<^verbatim>\<open>Serve\<close> of \<^verbatim>\<open>server.go\<close> puts together.
\<close>

section \<open>Hexadecimal numbers\<close>

definition hex_digit :: "nat \<Rightarrow> char" where
  "hex_digit d = (if d < 10 then char_of (48 + d) else char_of (55 + d))"

definition low_hex_digit :: "nat \<Rightarrow> char" where
  "low_hex_digit d = (if d < 10 then char_of (48 + d) else char_of (87 + d))"

text \<open>The verbs \<^verbatim>\<open>%X\<close> and \<^verbatim>\<open>%x\<close> by their digits.\<close>

fun hex_with :: "(nat \<Rightarrow> char) \<Rightarrow> nat \<Rightarrow> string" where
  "hex_with f n = (if n < 16 then [f n] else hex_with f (n div 16) @ [f (n mod 16)])"

declare hex_with.simps [simp del]

abbreviation hexX :: "nat \<Rightarrow> string" where "hexX \<equiv> hex_with hex_digit"

definition padded :: "char \<Rightarrow> nat \<Rightarrow> string \<Rightarrow> string" where
  "padded ch k s = replicate (k - length s) ch @ s"

section \<open>Codes\<close>

definition status_texts :: "(u8 \<times> string) list" where
  "status_texts =
     [(0x0, ''OK''),
      (0x1, ''Connection failure - A connection related service failed along the connection path.''),
      (0x2, ''Resource unavailable - Resources needed for the object to perform the requested service were unavailable''),
      (0x3, ''InvalidParameterValue''),
      (0x4, ''Path segment error - The path segment identifier or the segment syntax was not understood by the processing node.''),
      (0x5, ''Path destination unknown - The path is referencing an object class, instance or structure element that is not known or is not contained in the processing node. Path processing shall stop when a path destination unknown error is encountered''),
      (0x6, ''PartialTransfer''),
      (0x7, ''ConnectionLost''),
      (0x8, ''Service not supported - The requested service was not implemented or was not defined for this Object Class/Instance''),
      (0x9, ''Invalid attribute value - Invalid attribute data detected''),
      (0xA, ''AttributeListError''),
      (0xB, ''AlreadyInRequestedMode''),
      (0xC, ''ObjectStateConflict''),
      (0xD, ''ObjectAlreadyExists''),
      (0xE, ''Attribute not settable - A request to modify a non-modifiable attribute was received.''),
      (0xF, ''PrivilegeViolation''),
      (0x10, ''DeviceStateConflict''),
      (0x11, ''ReplyDataTooLarge''),
      (0x12, ''FragmentationOfMessage''),
      (0x13, ''Not enough data - The service did not supply enough data to perform the specified operation''),
      (0x14, ''Attribute not supported - The attribute specified in the request is not supported''),
      (0x15, ''Too much data - The service supplied more data than was expected''),
      (0x16, ''Object does not exist - The object specified does not exist in the device.''),
      (0x17, ''ServiceFragmentation''),
      (0x18, ''NoStoredAttributeData''),
      (0x19, ''StoreOperationFailure''),
      (0x1A, ''RoutingFailureReqTooLarge''),
      (0x1B, ''RoutingFailureRespTooLarge''),
      (0x1C, ''MissingAttributeListEntry''),
      (0x1D, ''InvalidAttributeValueList''),
      (0x1E, ''EmbeddedServiceError''),
      (0x1F, ''VendorSpecificError''),
      (0x20, ''Invalid parameter - A parameter associated with the request was invalid. This code is used when a parameter does not meet the requirements of this specification and/or the requirements defined in an Application Object Specification''),
      (0x21, ''WriteOnceValueOrMedium''),
      (0x22, ''InvalidReplyReceived''),
      (0x23, ''BufferOverflow''),
      (0x24, ''MessageFormatError''),
      (0x25, ''KeyFailure''),
      (0x26, ''Path size invalid - The size of the path which was sent with the Service Request is either not large enough to allow the Request to be routed to an object or too much routing data was included''),
      (0x27, ''UnexpectedAttribInList''),
      (0x28, ''InvalidMemberID''),
      (0x29, ''MemberNotSettable''),
      (0x2A, ''Group2OnlyServerGeneralFailure''),
      (0x2B, ''UnknownModbusError''),
      (0x2C, ''AttributeNotGettable'')]"

definition CIPStatus_String :: "u8 \<Rightarrow> string" where
  "CIPStatus_String s =
     (case map_of status_texts s of
        Some t \<Rightarrow> t
      | None \<Rightarrow>
          if s > 0x2C \<and> s < 0xD0 then ''Unknown Error: 0x'' @ hexX (unat s) @ '' (reserved by CIP for future extensions)''
          else ''Unknown CIPStatus: 0x'' @ hexX (unat s) @ '' (reserved for object class and service errors)'')"

definition extended_texts :: "(u16 \<times> string) list" where
  "extended_texts =
     [(0x2104, ''The beginning offset was beyond the end of the template.''),
      (0x2105, ''You have tried to access beyond the end of the data object.''),
      (0x2106, ''Data in use.''),
      (0x2107, ''The abbreviated type does not match the data type of the data object.''),
      (0x100, ''Connection in Use or Duplicate Forward Open.''),
      (0x103, ''Transport Class and Trigger combination not supported.''),
      (0x106, ''Ownership Conflict.''),
      (0x107, ''Connection not found at target application.''),
      (0x108, ''Invalid Connection Type. Indicates a problem with either the Connection Type or Priority of the Connection.''),
      (0x109, ''Invalid Connection Size.''),
      (0x110, ''Device not configured''),
      (0x111, ''RPI not supported. May also indicate problem with connection time-out multiplier.''),
      (0x113, ''Connection Manager cannot support any more connections.''),
      (0x114, ''Either the Vendor ID or the Product Code in the key segment did not match the device.''),
      (0x115, ''Product Type in the key segment did not match the device.''),
      (0x116, ''Major or Minor Revision information in the key segment did not match the device.''),
      (0x117, ''Invalid Connection Point.''),
      (0x118, ''Invalid Configuration Format.''),
      (0x119, ''Connection request fails since there is no controlling connection currently open.''),
      (0x11A, ''Target Application cannot support any more connections.''),
      (0x11B, ''RPI is smaller than the Production Inhibit Time.''),
      (0x203, ''Connection cannot be closed since the connection has timed out.''),
      (0x204, ''Unconnected Send timed out waiting for a response.''),
      (0x205, ''Parameter Error in Unconnected Send Service.''),
      (0x206, ''Message too large for Unconnected message service.''),
      (0x207, ''Unconnected acknowledge without reply.''),
      (0x301, ''No buffer memory available.''),
      (0x302, ''Network Bandwidth not available for data.''),
      (0x303, ''No Tag filters available.''),
      (0x304, ''Not Configured to send real-time data.''),
      (0x311, ''Port specified in Port Segment Not Available.''),
      (0x312, ''Link Address specified in Port Segment Not Available.''),
      (0x315, ''Invalid Segment Type or Segment Value in Path.''),
      (0x316, ''Path and Connection not equal in close.''),
      (0x317, ''Either Segment not present or Encoded Value in Network Segment is invalid.''),
      (0x318, ''Link Address to Self Invalid.''),
      (0x319, ''Resources on Secondary Unavailable.''),
      (0x31A, ''Connection already established.''),
      (0x31B, ''Direct connection already established.''),
      (0x31C, ''Miscellaneous.''),
      (0x31D, ''Redundant connection mismatch.'')]"

definition CIPExtendedStatus_String :: "u16 \<Rightarrow> string" where
  "CIPExtendedStatus_String s =
     (case map_of extended_texts s of
        Some t \<Rightarrow> t
      | None \<Rightarrow> ''Unknown CIPExtendedStatus: 0x'' @ padded CHR ''0'' 4 (hexX (unat s)))"

definition service_texts :: "(u8 \<times> string) list" where
  "service_texts =
     [(0x1, ''cipService_GetAttributeAll''),
      (0x2, ''cipService_SetAttributeAll''),
      (0x3, ''cipService_GetAttributeList''),
      (0x4, ''cipService_SetAttributeList''),
      (0x5, ''cipService_Reset''),
      (0x6, ''cipService_Start''),
      (0x7, ''cipService_Stop''),
      (0x8, ''cipService_Create''),
      (0x9, ''cipService_Delete''),
      (0xA, ''cipService_MultipleService''),
      (0xD, ''cipService_ApplyAttributes''),
      (0xE, ''cipService_GetAttributeSingle''),
      (0x10, ''cipService_SetAttributeSingle''),
      (0x11, ''cipService_FindNextObjectInstance''),
      (0x15, ''cipService_Restore''),
      (0x16, ''cipService_Save''),
      (0x17, ''cipService_NOP''),
      (0x18, ''cipService_GetMember''),
      (0x19, ''cipService_SetMember''),
      (0x1A, ''cipService_InsertMember''),
      (0x1B, ''cipService_RemoveMember''),
      (0x1C, ''cipService_GroupSync''),
      (0x1D, ''cipService_GetMemberList''),
      (0x4C, ''cipService_Read''),
      (0x4D, ''cipService_Write''),
      (0x4E, ''cipService_ForwardClose''),
      (0x5A, ''cipService_GetConnectionOwner''),
      (0x54, ''cipService_ForwardOpen''),
      (0x5B, ''cipService_LargeForwardOpen''),
      (0x52, ''cipService_FragRead''),
      (0x53, ''cipService_FragWrite''),
      (0x55, ''cipService_GetInstanceAttributeList''),
      (0x57, ''cipService_GetConnectionData'')]"

definition CIPService_String :: "u8 \<Rightarrow> string" where
  "CIPService_String s = (case map_of service_texts s of Some t \<Rightarrow> t | None \<Rightarrow> ''unknown service '' @ itoa (unat s))"

definition type_texts :: "(u8 \<times> string) list" where
  "type_texts =
     [(0x0, ''0x00 - Unknown''),
      (0xA0, ''0xA0 - Struct''),
      (0xC1, ''0xC1 - BOOL''),
      (0xD1, ''0xD1 - BYTE''),
      (0xC2, ''0xC2 - SINT''),
      (0xC3, ''0xC3 - INT''),
      (0xC4, ''0xC4 - DINT''),
      (0xC5, ''0xC5 - LINT''),
      (0xC6, ''0xC6 - USINT''),
      (0xC7, ''0xC7 - UINT''),
      (0xC8, ''0xC8 - UDINT''),
      (0xD4, ''0xC9 - LWORD''),
      (0xCA, ''0xCA - REAL''),
      (0xCB, ''0xCB - LREAL''),
      (0xD2, ''0xD2 - WORD''),
      (0xD3, ''0xD3 - DWORD''),
      (0xFF, ''0xFF - (gologix specific) String'')]"

definition CIPType_String :: "u8 \<Rightarrow> string" where
  "CIPType_String c =
     (case map_of type_texts c of
        Some t \<Rightarrow> t
      | None \<Rightarrow> ''0x'' @ padded CHR '' '' 2 (hex_with low_hex_digit (unat c)) @ '' - Unknown'')"

definition cipDeviceTypeNames :: "(u16 \<times> string) list" where
  "cipDeviceTypeNames =
     [(0x0, ''Generic Device (deprecated)''),
      (0x2, ''AC Drive''),
      (0x3, ''Motor Overload''),
      (0x4, ''Limit Switch''),
      (0x5, ''Inductive Proximity Switch''),
      (0x6, ''Photoelectric Sensor''),
      (0x7, ''General Purpose Discrete I/O''),
      (0x9, ''Resolver''),
      (0xC, ''Communications Adapter''),
      (0xE, ''Programmable Logic Controller''),
      (0x10, ''Position Controller''),
      (0x13, ''DC Drive''),
      (0x15, ''Contactor''),
      (0x16, ''Motor Starter''),
      (0x17, ''Soft Start''),
      (0x18, ''Human-Machine Interface''),
      (0x1A, ''Mass Flow Controller''),
      (0x1B, ''Pneumatic Valve''),
      (0x1C, ''Vacuum Pressure Gauge''),
      (0x1D, ''Process Control Value''),
      (0x1E, ''Residual Gas Analyzer''),
      (0x1F, ''DC Power Generator''),
      (0x20, ''RF Power Generator''),
      (0x21, ''Turbomolecular Vacuum Pump''),
      (0x22, ''Encoder''),
      (0x23, ''Safety Discrete I/O Device''),
      (0x24, ''Fluid Flow Controller''),
      (0x25, ''CIP Motion Drive''),
      (0x26, ''CompoNet Repeater''),
      (0x27, ''Mass Flow Controller, Enhanced''),
      (0x28, ''CIP Modbus Device''),
      (0x29, ''CIP Modbus Translator''),
      (0x2A, ''Safety Analog I/O Device''),
      (0x2B, ''Generic Device (keyable)''),
      (0x2C, ''Managed Ethernet Switch''),
      (0x2D, ''CIP Motion Safety Drive Device''),
      (0x2E, ''Safety Drive Device''),
      (0x2F, ''CIP Motion Encoder''),
      (0x30, ''CIP Motion Converter''),
      (0x31, ''CIP Motion I/O''),
      (0x32, ''ControlNet Physical Layer Component''),
      (0x33, ''Circuit Breaker''),
      (0x34, ''HART Device''),
      (0x35, ''CIP-HART Translator''),
      (0xC8, ''Embedded Component'')]"

definition DeviceType_Name :: "u16 \<Rightarrow> string" where
  "DeviceType_Name v = (case map_of cipDeviceTypeNames v of Some name \<Rightarrow> name | None \<Rightarrow> ''Unknown'')"

section \<open>A CIP error\<close>

record CIPError =
  ce_Code :: u8
  ce_Extended :: u16

definition cip_error_texts :: "(u8 \<times> string) list" where
  "cip_error_texts =
     [(0x00, '' no error?  This shouldn't happen :/''),
      (0x01, '' connection failure''),
      (0x02, '' resource unavailable''),
      (0x03, '' bad parameter, size > 12 or size greater than size of element.''),
      (0x04, '' a syntax error was detected decoding the request path''),
      (0x05, '' request path destination unknown: probably instance number is not present''),
      (0x06, '' insufficient packet space: not enough room in the response buffer for all the data''),
      (0x07, '' connection lost''),
      (0x08, '' service is not supported for the object/instance''),
      (0x09, '' could not write attribute data - possibly in valid or wrong type''),
      (0x0A, '' attribute list error, generally attribute not supported. the status of the unsupported attribute is 0x14''),
      (0x13, '' insufficient Request Data: Data too short for expected param''),
      (0x16, '' object does not exist''),
      (0x1A, '' routing failure: request too large''),
      (0x1B, '' routing failure: response too large''),
      (0x1C, '' attribute list shortage: the list of attribute numbers was too few for the number of attributes parameter''),
      (0x26, '' the request path size received was shorter or longer than expected.'')]"

definition cip_extended_texts :: "((u8 \<times> u16) \<times> string) list" where
  "cip_extended_texts =
     [((0x10, 0x2101), '' device state conflict: keyswitch position: the requestor is changing force information in HARD RUN mode''),
      ((0x10, 0x2802), '' device state conflict: safety status: the controller is in a state in which safety memory cannot be modified''),
      ((0xFF, 0x2104), ''General Error: Offset is beyond end of the requested tag.''),
      ((0xFF, 0x2105), ''General Error: Number of Elements or Byte Offset is beyond the end of the requested tag.''),
      ((0xFF, 0x2107), ''General Error: Tag type used n request does not match the target tag's data type.'')]"

definition CIPError_Error :: "CIPError \<Rightarrow> string" where
  "CIPError_Error err =
     (let ec = ''error '' @ hexX (unat (ce_Code err)) @ hexX (unat (ce_Extended err)) @ '': '' in
      case map_of cip_error_texts (ce_Code err) of
        Some t \<Rightarrow> ec @ t
      | None \<Rightarrow>
          (case map_of cip_extended_texts (ce_Code err, ce_Extended err) of
             Some t \<Rightarrow> ec @ t
           | None \<Rightarrow> ec @ ''Unknown Error''))"

section \<open>Several errors in one\<close>

text \<open>
  An error is one of the library's or several in a \<^verbatim>\<open>multiError\<close>, and the text of the former is an argument.
\<close>

datatype go_error = Single gerror | MultiError "go_error list"

definition newMultiError :: "go_error option \<Rightarrow> go_error list" where
  "newMultiError err = (case err of None \<Rightarrow> [] | Some e \<Rightarrow> [e])"

definition multi_Add :: "go_error \<Rightarrow> go_error list \<Rightarrow> go_error list" where
  "multi_Add err errs = errs @ [err]"

fun multi_Error :: "(gerror \<Rightarrow> string) \<Rightarrow> go_error \<Rightarrow> string" where
  "multi_Error text (Single e) = text e"
| "multi_Error text (MultiError es) = concat (map (\<lambda>e. '': '' @ multi_Error text e) es)"

definition multi_Unwrap :: "go_error list \<Rightarrow> go_error option" where
  "multi_Unwrap errs =
     (if length errs > 2 then Some (MultiError (tl errs))
      else if length errs = 2 then Some (errs ! 1)
      else if length errs = 1 then Some (errs ! 0)
      else None)"

lemma multi_Unwrap_smaller: "multi_Unwrap errs = Some e \<Longrightarrow> size e < size (MultiError errs)"
  by (cases errs rule: list.exhaust; cases "tl errs") (auto simp: multi_Unwrap_def split: if_splits)

text \<open>
  \<^verbatim>\<open>errors.Is\<close>: the error itself, then its method \<^verbatim>\<open>Is\<close>, then what it unwraps to.  \<^verbatim>\<open>multiError.Is\<close> asks its first error and
  panics without one.  A \<^verbatim>\<open>multiError\<close> holds a slice and never equals a target.
\<close>

function multi_Is :: "go_error \<Rightarrow> gerror \<Rightarrow> bool res" where
  "multi_Is (Single e) target = Inr (errors_Is e target)"
| "multi_Is (MultiError errs) target =
     (case errs of
        [] \<Rightarrow> Inl (Panic ''index out of range [0] with length 0'')
      | e0 # es \<Rightarrow>
          andthen (multi_Is e0 target) (\<lambda>found.
          if found then Inr True
          else case multi_Unwrap errs of None \<Rightarrow> Inr False | Some e \<Rightarrow> multi_Is e target))"
  by pat_completeness auto
termination
  by (relation "measure (\<lambda>(e, t). size e)") (auto dest: multi_Unwrap_smaller)

declare multi_Is.simps(2) [simp del]

text \<open>Where no list of errors is empty, an error matches if one of its parts does.\<close>

fun no_empty :: "go_error \<Rightarrow> bool" where
  "no_empty (Single e) \<longleftrightarrow> True"
| "no_empty (MultiError es) \<longleftrightarrow> es \<noteq> [] \<and> list_all no_empty es"

fun parts :: "go_error \<Rightarrow> gerror list" where
  "parts (Single e) = [e]"
| "parts (MultiError es) = concat (map parts es)"

lemma multi_Is_parts: "no_empty e \<Longrightarrow> multi_Is e target = Inr (\<exists>p \<in> set (parts e). errors_Is p target)"
proof (induction e target rule: multi_Is.induct)
  case (2 errs target)
  then obtain e0 es where errs: "errs = e0 # es" by (cases errs) auto
  have e0: "multi_Is e0 target = Inr (\<exists>p \<in> set (parts e0). errors_Is p target)" using 2 errs by simp
  show ?case
  proof (cases "\<exists>p \<in> set (parts e0). errors_Is p target")
    case True
    then show ?thesis using e0 errs by (auto simp: multi_Is.simps)
  next
    case False
    obtain e where e: "multi_Unwrap errs = Some e"
      using errs by (cases es rule: list.exhaust; cases "tl es") (auto simp: multi_Unwrap_def)
    have ne: "no_empty e" and all: "set (parts e) \<union> set (parts e0) = set (parts (MultiError errs))"
      using e errs 2(3) by (cases es; auto simp: multi_Unwrap_def split: if_splits)+
    have "multi_Is e target = Inr (\<exists>p \<in> set (parts e). errors_Is p target)"
      using 2(2) [OF errs e0 False e ne] .
    also have "(\<exists>p \<in> set (parts e). errors_Is p target) = (\<exists>p \<in> set (parts (MultiError errs)). errors_Is p target)"
      unfolding all [symmetric] using False by blast
    finally have "multi_Is e target = Inr (\<exists>p \<in> set (parts (MultiError errs)). errors_Is p target)" .
    then show ?thesis using e0 e errs False by (simp add: multi_Is.simps)
  qed
qed simp

text \<open>
  The end of \<^verbatim>\<open>Serve\<close>: the error of the goroutine that stopped first and the errors of closing the two listeners.
\<close>

definition Serve_end :: "gerror \<Rightarrow> gerror option \<Rightarrow> gerror option \<Rightarrow> go_error" where
  "Serve_end err tcp udp =
     (let final_err = newMultiError (Some (Single err));
          final_err = (case tcp of None \<Rightarrow> final_err | Some e \<Rightarrow> multi_Add (Single (Wrapped ''err on tcp close'' e)) final_err);
          final_err = (case udp of None \<Rightarrow> final_err | Some e \<Rightarrow> multi_Add (Single (Wrapped ''err on udp close'' e)) final_err) in
      MultiError final_err)"

text \<open>
  What \<^verbatim>\<open>Serve\<close> returns is matched by \<^verbatim>\<open>errors.Is\<close> exactly where the error that stopped the server or one of the errors of
  closing it is, and asking never panics; its text has all of them in order.  A list made from no error panics when asked.
\<close>

lemma serve_error_matches_causes:
  "multi_Is (Serve_end err tcp udp) target =
     Inr (errors_Is err target \<or> (\<exists>e. tcp = Some e \<and> errors_Is (Wrapped ''err on tcp close'' e) target) \<or>
          (\<exists>e. udp = Some e \<and> errors_Is (Wrapped ''err on udp close'' e) target)) \<and>
   multi_Error text (Serve_end err tcp udp) =
     '': '' @ text err @ (case tcp of None \<Rightarrow> [] | Some e \<Rightarrow> '': '' @ text (Wrapped ''err on tcp close'' e)) @
     (case udp of None \<Rightarrow> [] | Some e \<Rightarrow> '': '' @ text (Wrapped ''err on udp close'' e)) \<and>
   multi_Is (MultiError (newMultiError None)) target = Inl (Panic ''index out of range [0] with length 0'')"
proof -
  have "no_empty (Serve_end err tcp udp)"
    by (simp add: Serve_end_def newMultiError_def multi_Add_def Let_def split: option.split)
  from multi_Is_parts [OF this, of target] show ?thesis
    by (cases tcp; cases udp) (simp_all add: Serve_end_def newMultiError_def multi_Add_def multi_Is.simps del: errors_Is.simps)
qed

section \<open>Texts determine codes\<close>

definition hex_value :: "string \<Rightarrow> nat" where
  "hex_value s = foldl (\<lambda>a c. 16 * a + (let n = of_char c :: nat in if n < 58 then n - 48 else n - 55)) 0 s"

lemma hex_value_hexX: "hex_value (hexX n) = n"
proof (induction n rule: nat_less_induct)
  case (1 n)
  have digit: "(let n = of_char (hex_digit d) :: nat in if n < 58 then n - 48 else n - 55) = d" if "d < 16" for d
    using that by (auto simp: hex_digit_def Let_def)
  show ?case
  proof (cases "n < 16")
    case True
    then show ?thesis using digit [of n] by (simp add: hex_value_def hex_with.simps [of _ n])
  next
    case False
    have "hexX n = hexX (n div 16) @ [hex_digit (n mod 16)]" using False by (simp add: hex_with.simps [of _ n])
    then have "hex_value (hexX n) = 16 * hex_value (hexX (n div 16)) + n mod 16"
      using digit [of "n mod 16"] by (simp add: hex_value_def)
    also have "hex_value (hexX (n div 16)) = n div 16" using 1 False by simp
    finally show ?thesis by simp
  qed
qed

lemma hex_value_padded: "hex_value (padded CHR ''0'' k s) = hex_value s"
proof -
  have "foldl (\<lambda>a c. 16 * a + (let n = of_char c :: nat in if n < 58 then n - 48 else n - 55)) 0 (replicate m CHR ''0'') = 0" for m
    by (induction m) simp_all
  then show ?thesis by (simp add: hex_value_def padded_def)
qed

text \<open>A table of texts that differ, with texts for the rest that differ and are not in the table.\<close>

lemma inj_table:
  assumes "distinct (map snd tab)"
    and "\<And>x y. map_of tab x = None \<Longrightarrow> map_of tab y = None \<Longrightarrow> other x = other y \<Longrightarrow> x = y"
    and "\<And>x. map_of tab x = None \<Longrightarrow> other x \<notin> snd ` set tab"
  shows "inj (\<lambda>x. case map_of tab x of Some t \<Rightarrow> t | None \<Rightarrow> other x)"
proof (rule injI)
  fix x y assume eq: "(case map_of tab x of Some t \<Rightarrow> t | None \<Rightarrow> other x) = (case map_of tab y of Some t \<Rightarrow> t | None \<Rightarrow> other y)"
  have same: "a = b" if "(a, t) \<in> set tab" "(b, t) \<in> set tab" for a b t
    using inj_onD [OF conjunct2 [OF assms(1) [unfolded distinct_map]] _ that] by simp
  show "x = y"
  proof (cases "map_of tab x"; cases "map_of tab y")
    fix t u assume "map_of tab x = Some t" "map_of tab y = Some u"
    with eq show ?thesis using same [OF map_of_SomeD map_of_SomeD] by simp
  next
    fix t assume t: "map_of tab x = Some t" "map_of tab y = None"
    with eq have "other y = t" by simp
    with assms(3) [OF t(2)] map_of_SomeD [OF t(1)] show ?thesis by force
  next
    fix t assume t: "map_of tab x = None" "map_of tab y = Some t"
    with eq have "other x = t" by simp
    with assms(3) [OF t(1)] map_of_SomeD [OF t(2)] show ?thesis by force
  qed (use eq assms(2) in simp)
qed

lemma status_other_distinct:
  fixes other :: "u8 \<Rightarrow> string"
  defines "other \<equiv> \<lambda>s. if s > 0x2C \<and> s < 0xD0 then ''Unknown Error: 0x'' @ hexX (unat s) @ '' (reserved by CIP for future extensions)''
          else ''Unknown CIPStatus: 0x'' @ hexX (unat s) @ '' (reserved for object class and service errors)''"
  shows "other x = other y \<Longrightarrow> x = y" and "other x \<notin> snd ` set status_texts"
proof -
  have hex: "x = y" if "hexX (unat x) = hexX (unat y)" for x y :: u8
    using arg_cong [OF that, of hex_value] by (simp add: hex_value_hexX word_unat_eq_iff)
  show "other x = other y \<Longrightarrow> x = y" using hex by (auto simp: other_def split: if_splits)
  have "take 9 (other x) = ''Unknown E'' \<or> take 9 (other x) = ''Unknown C''" by (simp add: other_def)
  moreover have "list_all (\<lambda>t. take 9 (snd t) \<noteq> ''Unknown E'' \<and> take 9 (snd t) \<noteq> ''Unknown C'') status_texts" by code_simp
  ultimately show "other x \<notin> snd ` set status_texts" by (auto simp: list_all_iff)
qed

lemma extended_other_distinct:
  fixes other :: "u16 \<Rightarrow> string"
  defines "other \<equiv> \<lambda>s. ''Unknown CIPExtendedStatus: 0x'' @ padded CHR ''0'' 4 (hexX (unat s))"
  shows "other x = other y \<Longrightarrow> x = y" and "other x \<notin> snd ` set extended_texts"
proof -
  have "x = y" if "padded CHR ''0'' 4 (hexX (unat x)) = padded CHR ''0'' 4 (hexX (unat y))" for x y :: u16
    using arg_cong [OF that, of hex_value] by (simp add: hex_value_hexX hex_value_padded word_unat_eq_iff)
  then show "other x = other y \<Longrightarrow> x = y" by (simp add: other_def)
  have "take 9 (other x) = ''Unknown C''" by (simp add: other_def)
  moreover have "list_all (\<lambda>t. take 9 (snd t) \<noteq> ''Unknown C'') extended_texts" by code_simp
  ultimately show "other x \<notin> snd ` set extended_texts" by (auto simp: list_all_iff)
qed

lemma service_other_distinct:
  fixes other :: "u8 \<Rightarrow> string"
  defines "other \<equiv> \<lambda>s. ''unknown service '' @ itoa (unat s)"
  shows "other x = other y \<Longrightarrow> x = y" and "other x \<notin> snd ` set service_texts"
proof -
  have "x = y" if "itoa (unat x) = itoa (unat y)" for x y :: u8
    using arg_cong [OF that, of digits_val] by (simp add: itoa_props word_unat_eq_iff)
  then show "other x = other y \<Longrightarrow> x = y" by (simp add: other_def)
  have "take 1 (other x) = ''u''" by (simp add: other_def)
  moreover have "list_all (\<lambda>t. take 1 (snd t) \<noteq> ''u'') service_texts" by code_simp
  ultimately show "other x \<notin> snd ` set service_texts" by (auto simp: list_all_iff)
qed

text \<open>
  The text of a status, an extended status or a service determines the code: no two codes, named or not, are printed alike.
\<close>

lemma texts_determine_codes:
  "inj CIPStatus_String \<and> inj CIPExtendedStatus_String \<and> inj CIPService_String"
proof (intro conjI)
  have distinct: "distinct (map snd status_texts)" "distinct (map snd extended_texts)" "distinct (map snd service_texts)"
    by code_simp+
  show "inj CIPStatus_String" unfolding CIPStatus_String_def [abs_def]
    by (rule inj_table [OF distinct(1) status_other_distinct])
  show "inj CIPExtendedStatus_String" unfolding CIPExtendedStatus_String_def [abs_def]
    by (rule inj_table [OF distinct(2) extended_other_distinct])
  show "inj CIPService_String" unfolding CIPService_String_def [abs_def]
    by (rule inj_table [OF distinct(3) service_other_distinct])
qed

text \<open>
  That of a CIP error does not: its two numbers are printed without anything between them.  And the text of the type
  \<^verbatim>\<open>LWORD\<close> has the code of another type.
\<close>

lemma cip_error_ambiguous:
  "CIPError_Error \<lparr>ce_Code = 0x0B, ce_Extended = 0x10\<rparr> = CIPError_Error \<lparr>ce_Code = 0xB1, ce_Extended = 0\<rparr>"
  by (simp add: CIPError_Error_def cip_error_texts_def cip_extended_texts_def hex_with.simps hex_digit_def)

lemma lword_has_other_code: "take 4 (CIPType_String CIPTypeLWORD) = ''0xC9'' \<and> CIPTypeLWORD = 0xD4 \<and> CIPTypeULINT = 0xC9"
  by code_simp

end
