(* ===== verification/Logix_Writes.thy ===== *)
theory Logix_Writes
  imports Logix_Types Client_Write
begin

text \<open>
  Writing the predefined structures.  The types of \<^verbatim>\<open>lgxtypes/\<close> say by themselves under which abbreviation they are written
  (\<^verbatim>\<open>TypeAbbr\<close>) and, but for \<^verbatim>\<open>STRING\<close>, how they are packed; \<^verbatim>\<open>TypeEncode\<close> and \<^verbatim>\<open>Pack\<close> of \<^verbatim>\<open>pack.go\<close> ask them first.
\<close>

record STRING =
  str_Len :: u32
  str_Data :: "u8 list"

datatype logix_value = LTimer TIMER | LCounter COUNTER | LControl CONTROL | LPid PID | LString STRING

fun TypeAbbr :: "logix_value \<Rightarrow> string \<times> u16" where
  "TypeAbbr (LTimer _) = (''TIMER,DINT,DINT,DINT'', 0x0F83)"
| "TypeAbbr (LCounter _) = (''COUNTER,DINT,DINT,DINT'', 0x0F82)"
| "TypeAbbr (LControl _) = (''CONTROL,DINT,DINT,DINT'', 0x0F81)"
| "TypeAbbr (LPid _) =
     (''PID,DINT,REAL,REAL,REAL,REAL,REAL,REAL,REAL,REAL,REAL,REAL,REAL,REAL,REAL,REAL,REAL,REAL,REAL,REAL,REAL,REAL,REAL,REAL,REAL,REAL,REAL,REAL,REAL,REAL,REAL[17]'', 0x0F8A)"
| "TypeAbbr (LString _) = (''STRING,DINT,SINT[82]'', 0x0FCE)"

text \<open>A \<^verbatim>\<open>STRING\<close> as reflection sees it.\<close>

definition plain_field :: "string \<Rightarrow> gofield" where
  "plain_field n = \<lparr>field_name = n, pack_tag = [], index_tag = NoIndex, gologix_tag = None\<rparr>"

definition STRING_value :: "STRING \<Rightarrow> goval" where
  "STRING_value s =
     VStruct ''STRING'' [(plain_field ''Len'', VInt32 (str_Len s)), (plain_field ''Data'', VArray TInt8 (map VInt8 (str_Data s)))]"

text \<open>\<^verbatim>\<open>Pack\<close>: a type that packs itself is asked to, any other is packed field by field.\<close>

fun logix_Pack :: "logix_value \<Rightarrow> bytes res" where
  "logix_Pack (LTimer t) = Inr (TIMER_Pack t)"
| "logix_Pack (LCounter t) = Inr (COUNTER_Pack t)"
| "logix_Pack (LControl t) = Inr (CONTROL_Pack t)"
| "logix_Pack (LPid t) = Inr (PID_Pack t)"
| "logix_Pack (LString t) = andthen (Pack (STRING_value t)) (\<lambda>(b, _). Inr b)"

text \<open>\<^verbatim>\<open>write_udt\<close> of such a value: no CRC is computed.\<close>

definition write_logix :: "string \<Rightarrow> logix_value \<Rightarrow> unit cact" where
  "write_logix tag value =
     cwrap ''problem generating IOI'' (c_newIOI tag CIPTypeStruct) (\<lambda>ioi.
     cbind next_sequence (\<lambda>sq.
     cneed ''problem packing data'' (logix_Pack value) (\<lambda>UDTdata.
     cbind (send_unit (item_Write UDTdata (write_item sq ioi ([CIPTypeStruct, 2] @ put16 (snd (TypeAbbr value)) @ put16 1)))) (\<lambda>(hdr, data).
     cres (write_reply hdr data) cret))))"

text \<open>The abbreviation a \<^verbatim>\<open>STRING\<close> declares is the one that \<^verbatim>\<open>TypeEncode\<close> would find.\<close>

lemma string_abbreviation:
  assumes "length (str_Data s) = 82"
  shows "type_text (STRING_value s) = Inr (fst (TypeAbbr (LString s)))"
proof -
  have "itoa 82 = ''82''" by code_simp
  then show ?thesis using assms by (simp add: STRING_value_def)
qed

text \<open>
  A timer that is written: the client sends one request, with the code of the type declared for timers and 12 bytes, from which the
  other end reads the timer back.
\<close>

lemma timer_write_sent:
  assumes "c_newIOI tag CIPTypeStruct c = (Inr ioi, c1)" "c_conn c1" "c_socket c1 = []"
    and "c_script c1 = Some (eip_frame hdr reply) # s" "length reply < 65536"
    and "write_reply (hdr\<lparr>eh_Length := of_nat (length reply)\<rparr>) reply = Inr ()"
  shows "\<exists>c2 sq. write_logix tag (LTimer t) c = (Inr (), c2) \<and>
    c_sent c2 = c_sent c1 @ [unit_request c1 (item_Write (TIMER_Pack t) (write_item sq ioi [CIPTypeStruct, 2, 0x83, 0x0F, 1, 0]))] \<and>
    TIMER_Unpack (TIMER_Pack t @ r) t0 = (None, 12, t\<lparr>tmr_FS := tmr_FS t0, tmr_LS := tmr_LS t0, tmr_OV := tmr_OV t0, tmr_ER := tmr_ER t0\<rparr>, r)"
proof -
  define sq where "sq = (ucast (fst (sequencer (c_sequenceValue c1))) :: u16)"
  let ?c = "c1\<lparr>c_sequenceValue := snd (sequencer (c_sequenceValue c1))\<rparr>"
  let ?it = "item_Write (TIMER_Pack t) (write_item sq ioi [CIPTypeStruct, 2, 0x83, 0x0F, 1, 0])"
  have put: "put16 0x0F83 = [0x83, 0x0F]" "put16 1 = [1, 0]" by code_simp+
  have u: "unit_request ?c it = unit_request c1 it" for it by (rule unit_request_cong) simp_all
  have "\<exists>c2. send_unit ?it ?c = (Inr (hdr\<lparr>eh_Length := of_nat (length reply)\<rparr>, reply), c2) \<and> c_sent c2 = c_sent c1 @ [unit_request c1 ?it]"
    using send_unit_answered [of ?c hdr reply s ?it] assms(2-5) by (simp add: u)
  then obtain c2 where c2: "send_unit ?it ?c = (Inr (hdr\<lparr>eh_Length := of_nat (length reply)\<rparr>, reply), c2)"
    "c_sent c2 = c_sent c1 @ [unit_request c1 ?it]" by blast
  have "write_logix tag (LTimer t) c = (Inr (), c2)"
    using assms(1,6) c2(1)
    by (simp add: write_logix_def cwrap_def cbind_def next_sequence_def Let_def case_prod_unfold sq_def [symmetric] put cret_def)
  moreover have "TIMER_Unpack (TIMER_Pack t @ r) t0
      = (None, 12, t\<lparr>tmr_FS := tmr_FS t0, tmr_LS := tmr_LS t0, tmr_OV := tmr_OV t0, tmr_ER := tmr_ER t0\<rparr>, r)"
    by (simp add: TIMER_Pack_def TIMER_Unpack_def set_word Let_def)
  ultimately show ?thesis using c2(2) by blast
qed

end
